(* ===== verification/Prelude.thy ===== *)
theory Prelude
  imports Main "HOL-Library.Word"
begin

text \<open>
  Shared vocabulary of the development: the machine integer types, the value
  of a fallible computation, the I/O errors of the readers and writers, the
  state-passing reader that stands for a function over \<open>R: Read\<close>, and the
  generic lemmas about lists, words and results that the component theories
  rely on. Nothing in this theory is specific to one component.
\<close>

type_synonym u8 = "8 word"
type_synonym u16 = "16 word"
type_synonym u32 = "32 word"
type_synonym u64 = "64 word"
type_synonym i32 = "32 word"
type_synonym i64 = "64 word"
type_synonym usize = "64 word"
type_synonym bytes = "8 word list"

named_theorems codec_iff
  "equivalences between a successful read and the written form"
named_theorems wf_simps
  "unfoldings of the well-formedness predicates of the model's types"

subsection \<open>Fallible results\<close>

text \<open>A Rust \<open>Result<T, E>\<close> is \<open>E + T\<close>: \<open>Inl\<close> carries the error.\<close>

definition res_bind :: "'e + 'a \<Rightarrow> ('a \<Rightarrow> 'e + 'b) \<Rightarrow> 'e + 'b" where
  "res_bind m f = (case m of Inl e \<Rightarrow> Inl e | Inr x \<Rightarrow> f x)"

definition guard_res :: "bool \<Rightarrow> 'e \<Rightarrow> 'e + unit" where
  "guard_res ok e = (if ok then Inr () else Inl e)"

definition ok_or :: "'a option \<Rightarrow> 'e \<Rightarrow> 'e + 'a" where
  "ok_or m e = (case m of None \<Rightarrow> Inl e | Some x \<Rightarrow> Inr x)"

definition res_ok :: "'e + 'a \<Rightarrow> 'a option" where
  "res_ok m = (case m of Inl _ \<Rightarrow> None | Inr x \<Rightarrow> Some x)"

definition map_err :: "('e \<Rightarrow> 'f) \<Rightarrow> 'e + 'a \<Rightarrow> 'f + 'a" where
  "map_err g m = (case m of Inl e \<Rightarrow> Inl (g e) | Inr x \<Rightarrow> Inr x)"

definition map_ok :: "('a \<Rightarrow> 'b) \<Rightarrow> 'e + 'a \<Rightarrow> 'e + 'b" where
  "map_ok g m = (case m of Inl e \<Rightarrow> Inl e | Inr x \<Rightarrow> Inr (g x))"

lemma res_bind_simps [simp]:
  "res_bind (Inl e) f = Inl e"
  "res_bind (Inr x) f = f x"
  by (simp_all add: res_bind_def)

lemma res_bind_eq_Inr [simp]:
  "res_bind m f = Inr y \<longleftrightarrow> (\<exists>x. m = Inr x \<and> f x = Inr y)"
  by (cases m) simp_all

lemma res_bind_eq_Inl:
  "res_bind m f = Inl e \<longleftrightarrow> m = Inl e \<or> (\<exists>x. m = Inr x \<and> f x = Inl e)"
  by (cases m) simp_all

lemma guard_res_simps [simp]:
  "guard_res ok e = Inr u \<longleftrightarrow> ok"
  "guard_res ok e = Inl e' \<longleftrightarrow> \<not> ok \<and> e' = e"
  "guard_res True e = Inr ()"
  "guard_res False e = Inl e"
  by (auto simp: guard_res_def)

lemma ok_or_simps [simp]:
  "ok_or m e = Inr x \<longleftrightarrow> m = Some x"
  "ok_or m e = Inl e' \<longleftrightarrow> m = None \<and> e' = e"
  "ok_or None e = Inl e"
  "ok_or (Some x) e = Inr x"
  by (auto simp: ok_or_def split: option.splits)

lemma res_ok_simps [simp]:
  "res_ok (Inl e) = None"
  "res_ok (Inr x) = Some x"
  "res_ok m = Some x \<longleftrightarrow> m = Inr x"
  "res_ok m = None \<longleftrightarrow> (\<exists>e. m = Inl e)"
  by (auto simp: res_ok_def split: sum.splits)

lemma map_err_simps [simp]:
  "map_err g (Inl e) = Inl (g e)"
  "map_err g (Inr x) = Inr x"
  "map_err g m = Inr x \<longleftrightarrow> m = Inr x"
  "map_err g m = Inl e' \<longleftrightarrow> (\<exists>e. m = Inl e \<and> e' = g e)"
  by (auto simp: map_err_def split: sum.splits)

lemma map_ok_simps [simp]:
  "map_ok g (Inl e) = Inl e"
  "map_ok g (Inr x) = Inr (g x)"
  "map_ok g m = Inr y \<longleftrightarrow> (\<exists>x. m = Inr x \<and> y = g x)"
  "map_ok g m = Inl e' \<longleftrightarrow> m = Inl e'"
  by (auto simp: map_ok_def split: sum.splits)

text \<open>\<open>Iterator::map(f).collect::<Result<Vec<_>, _>>()\<close> and \<open>try_for_each\<close>.\<close>

primrec map_res :: "('a \<Rightarrow> 'e + 'b) \<Rightarrow> 'a list \<Rightarrow> 'e + 'b list" where
  "map_res f [] = Inr []"
| "map_res f (x # xs) = res_bind (f x) (\<lambda>y. map_ok (\<lambda>ys. y # ys) (map_res f xs))"

primrec fold_res :: "('b \<Rightarrow> 'a \<Rightarrow> 'e + 'b) \<Rightarrow> 'b \<Rightarrow> 'a list \<Rightarrow> 'e + 'b" where
  "fold_res f acc [] = Inr acc"
| "fold_res f acc (x # xs) = res_bind (f acc x) (\<lambda>acc'. fold_res f acc' xs)"

primrec fold_opt :: "('b \<Rightarrow> 'a \<Rightarrow> 'b option) \<Rightarrow> 'b \<Rightarrow> 'a list \<Rightarrow> 'b option" where
  "fold_opt f acc [] = Some acc"
| "fold_opt f acc (x # xs) = Option.bind (f acc x) (\<lambda>acc'. fold_opt f acc' xs)"

lemma map_res_Inr:
  "(\<And>x. x \<in> set xs \<Longrightarrow> f x = Inr (g x)) \<Longrightarrow> map_res f xs = Inr (map g xs)"
  by (induction xs) auto

lemma map_res_length: "map_res f xs = Inr ys \<Longrightarrow> length ys = length xs"
  by (induction xs arbitrary: ys) auto

lemma all_le_Suc: "(\<forall>k \<le> Suc n. P k) \<longleftrightarrow> P 0 \<and> (\<forall>k \<le> n. P (Suc k))"
proof (safe, goal_cases)
  case (3 k)
  then show ?case by (cases k) auto
qed auto

lemma uint_ge_neg [simp]: "- numeral k \<le> uint x"
  by (rule order_trans [OF _ uint_ge_0]) simp

text \<open>\<open>for (index, x) in xs.iter().enumerate()\<close> with an early return of an error.\<close>

primrec for_enumerate :: "(nat \<Rightarrow> 'a \<Rightarrow> 'e + unit) \<Rightarrow> nat \<Rightarrow> 'a list \<Rightarrow> 'e + unit" where
  "for_enumerate f i [] = Inr ()"
| "for_enumerate f i (x # xs) = res_bind (f i x) (\<lambda>_. for_enumerate f (Suc i) xs)"

lemma for_enumerate_Inr:
  "for_enumerate f k xs = Inr () \<longleftrightarrow> (\<forall>i < length xs. f (k + i) (xs ! i) = Inr ())"
proof (induction xs arbitrary: k)
  case (Cons x xs)
  then show ?case by (auto simp: All_less_Suc2 simp flip: add_Suc_shift)
qed simp

text \<open>The error is that of the first index at which the body fails.\<close>

lemma for_enumerate_Inl:
  "for_enumerate f k xs = Inl e \<longleftrightarrow>
     (\<exists>i < length xs. f (k + i) (xs ! i) = Inl e \<and> (\<forall>j < i. f (k + j) (xs ! j) = Inr ()))"
proof (induction xs arbitrary: k)
  case (Cons x xs)
  then show ?case
    by (auto simp: res_bind_eq_Inl Ex_less_Suc2 All_less_Suc2 simp flip: add_Suc_shift)
qed simp

subsection \<open>I/O errors and readers\<close>

datatype io_error =
    UnexpectedEof
  | InvalidData string
  | InvalidInput string
  | OtherError string

text \<open>
  A function over \<open>mut reader: R\<close> with \<open>R: Read\<close> consumes a prefix of the
  bytes of the reader; its value is the result with the bytes that remain. A
  writer appends to its sink, so it is the function to the bytes it writes
  (a fallible one returns \<open>io_error + bytes\<close>).
\<close>

type_synonym 'a reader = "bytes \<Rightarrow> io_error + ('a \<times> bytes)"

definition rret :: "'a \<Rightarrow> 'a reader" where
  "rret x = (\<lambda>bs. Inr (x, bs))"

definition rfail :: "io_error \<Rightarrow> 'a reader" where
  "rfail e = (\<lambda>bs. Inl e)"

definition rbind :: "'a reader \<Rightarrow> ('a \<Rightarrow> 'b reader) \<Rightarrow> 'b reader" where
  "rbind m f = (\<lambda>bs. case m bs of Inl e \<Rightarrow> Inl e | Inr (x, bs') \<Rightarrow> f x bs')"

definition rlift :: "io_error + 'a \<Rightarrow> 'a reader" where
  "rlift m = (\<lambda>bs. case m of Inl e \<Rightarrow> Inl e | Inr x \<Rightarrow> Inr (x, bs))"

definition rguard :: "bool \<Rightarrow> io_error \<Rightarrow> unit reader" where
  "rguard ok e = (if ok then rret () else rfail e)"

lemma rret_iff [simp]: "rret x bs = Inr (y, r) \<longleftrightarrow> y = x \<and> r = bs"
  by (auto simp: rret_def)

lemma rret_not_Inl [simp]: "rret x bs \<noteq> Inl e"
  by (simp add: rret_def)

lemma rfail_iff [simp]:
  "rfail e bs \<noteq> Inr p" "rfail e bs = Inl e' \<longleftrightarrow> e' = e"
  by (auto simp: rfail_def)

lemma rlift_iff [simp]:
  "rlift m bs = Inr (x, r) \<longleftrightarrow> m = Inr x \<and> r = bs"
  "rlift m bs = Inl e \<longleftrightarrow> m = Inl e"
  by (auto simp: rlift_def split: sum.splits)

lemma rguard_iff [simp]:
  "rguard ok e bs = Inr (u, r) \<longleftrightarrow> ok \<and> r = bs"
  "rguard ok e bs = Inl e' \<longleftrightarrow> \<not> ok \<and> e' = e"
  by (auto simp: rguard_def)

lemma rbind_iff [simp]:
  "rbind m f bs = Inr (y, r) \<longleftrightarrow> (\<exists>x bs'. m bs = Inr (x, bs') \<and> f x bs' = Inr (y, r))"
  by (auto simp: rbind_def split: sum.splits)

lemma rbind_Inl:
  "rbind m f bs = Inl e \<longleftrightarrow> m bs = Inl e \<or> (\<exists>x bs'. m bs = Inr (x, bs') \<and> f x bs' = Inl e)"
  by (auto simp: rbind_def split: sum.splits)

lemma rbind_step: "m bs = Inr (x, bs') \<Longrightarrow> rbind m f bs = f x bs'"
  by (simp add: rbind_def)

lemma rbind_at: "(\<And>r. m (w @ r) = Inr (x, r)) \<Longrightarrow> rbind m f (w @ rest) = f x rest"
  by (simp add: rbind_def)

lemma rbind_stop: "m bs = Inl e \<Longrightarrow> rbind m f bs = Inl e"
  by (simp add: rbind_def)

text \<open>\<open>Read::read_exact\<close> into a buffer of \<open>n\<close> bytes: all of them or \<open>UnexpectedEof\<close>.\<close>

definition read_exact :: "nat \<Rightarrow> bytes reader" where
  "read_exact n = (\<lambda>bs. if length bs < n then Inl UnexpectedEof
                        else Inr (take n bs, drop n bs))"

lemma read_exact_iff [codec_iff]:
  "read_exact n bs = Inr (x, r) \<longleftrightarrow> length x = n \<and> bs = x @ r"
  by (auto simp: read_exact_def)

lemma read_exact_Inl: "read_exact n bs = Inl e \<longleftrightarrow> length bs < n \<and> e = UnexpectedEof"
  by (auto simp: read_exact_def)

text \<open>A loop that performs \<open>n\<close> reads and collects the values.\<close>

primrec read_n :: "nat \<Rightarrow> 'a reader \<Rightarrow> 'a list reader" where
  "read_n 0 rd = rret []"
| "read_n (Suc n) rd = rbind rd (\<lambda>x. rbind (read_n n rd) (\<lambda>xs. rret (x # xs)))"

subsection \<open>Words and little-endian bytes\<close>

fun le_word :: "bytes \<Rightarrow> 'a::len word" where
  "le_word [] = 0"
| "le_word (b # bs) = or (ucast b) (push_bit 8 (le_word bs))"

fun le_bytes :: "nat \<Rightarrow> 'a::len word \<Rightarrow> bytes" where
  "le_bytes 0 w = []"
| "le_bytes (Suc n) w = ucast w # le_bytes n (drop_bit 8 w)"

lemma length_le_bytes [simp]: "length (le_bytes n w) = n"
  by (induction n arbitrary: w) auto

lemma nth_le_bytes: "i < n \<Longrightarrow> le_bytes n w ! i = ucast (drop_bit (8 * i) w)"
proof (induction n arbitrary: w i)
  case (Suc n)
  then show ?case
    by (cases i) (auto simp: drop_bit_drop_bit algebra_simps)
qed simp

lemma bit_le_word:
  "bit (le_word bs :: 'a::len word) i \<longleftrightarrow>
     i < LENGTH('a) \<and> i < 8 * length bs \<and> bit (bs ! (i div 8)) (i mod 8)"
proof (induction bs arbitrary: i)
  case (Cons b bs)
  show ?case
  proof (cases "i < 8")
    case True
    then show ?thesis
      by (auto simp: bit_or_iff bit_push_bit_iff bit_ucast_iff)
  next
    case False
    then obtain j where i: "i = 8 + j" by (metis le_add_diff_inverse not_less)
    have "\<not> bit b i" using False bit_imp_le_length [of b i] by auto
    moreover have "(8 + j) div 8 = Suc (j div 8)" by simp
    ultimately show ?thesis
      by (auto simp: i bit_or_iff bit_push_bit_iff bit_ucast_iff Cons.IH)
  qed
qed simp

lemma le_word_le_bytes:
  assumes "LENGTH('a) \<le> 8 * n"
  shows "le_word (le_bytes n w) = (w :: 'a::len word)"
proof (rule bit_word_eqI)
  fix i assume i: "i < LENGTH('a)"
  then have "i div 8 < n" using assms by auto
  then show "bit (le_word (le_bytes n w) :: 'a word) i = bit w i"
    using i assms
    by (auto simp: bit_le_word nth_le_bytes bit_ucast_iff bit_drop_bit_eq)
qed

lemma le_bytes_le_word:
  assumes "length bs = n" "8 * n \<le> LENGTH('a)"
  shows "le_bytes n (le_word bs :: 'a::len word) = bs"
proof (rule nth_equalityI)
  fix i assume "i < length (le_bytes n (le_word bs :: 'a word))"
  then have i: "i < n" by simp
  show "le_bytes n (le_word bs :: 'a word) ! i = bs ! i"
  proof (rule bit_word_eqI)
    fix j assume j: "j < LENGTH(8)"
    then have "(8 * i + j) div 8 = i" "(8 * i + j) mod 8 = j" "8 * i + j < 8 * n"
      using i by auto
    then show "bit (le_bytes n (le_word bs :: 'a word) ! i) j = bit (bs ! i) j"
      using i j assms
      by (auto simp: nth_le_bytes bit_ucast_iff bit_drop_bit_eq bit_le_word)
  qed
qed (simp add: assms)

lemma le_word_iff:
  assumes "LENGTH('a) = 8 * n" "length bs = n"
  shows "le_word bs = (w :: 'a::len word) \<longleftrightarrow> bs = le_bytes n w"
  using le_word_le_bytes [of n w] le_bytes_le_word [of bs n, where 'a = 'a] assms by auto

lemma le_bytes_inject:
  assumes "LENGTH('a) \<le> 8 * n"
  shows "le_bytes n v = le_bytes n (w :: 'a::len word) \<longleftrightarrow> v = w"
  by (metis assms le_word_le_bytes)

lemma le_bytes_zero: "le_bytes n (0 :: 'a::len word) = replicate n 0"
  by (induction n) auto

subsection \<open>Checked conversions between widths\<close>

text \<open>\<open>T::try_from\<close> between unsigned widths: the value when it fits.\<close>

definition try_u32 :: "u64 \<Rightarrow> u32 option" where
  "try_u32 x = (if unat x \<le> unat (- 1 :: u32) then Some (ucast x) else None)"

lemma unat_u32_max [simp]: "unat (- 1 :: u32) = 4294967295"
  by (simp add: unsigned_minus_1_eq_mask mask_eq_exp_minus_1)

lemma unat_u32_less: "unat (y :: u32) < 4294967296"
  using unsigned_less [of y, where ?'a = nat] by simp

lemma unat_u64_less: "unat (y :: u64) < 18446744073709551616"
  using unsigned_less [of y, where ?'a = nat] by simp

lemma unat_ucast_u32_u64 [simp]: "unat (ucast (y :: u32) :: u64) = unat y"
  using unat_u32_less [of y] by (simp add: unsigned_ucast_eq take_bit_nat_eq_self)

lemma unat_ucast_u64_u32: "unat x < 4294967296 \<Longrightarrow> unat (ucast (x :: u64) :: u32) = unat x"
  by (simp add: unsigned_ucast_eq take_bit_nat_eq_self)

lemma try_u32_Some: "try_u32 x = Some y \<longleftrightarrow> x = ucast y"
proof
  assume "try_u32 x = Some y"
  then have "unat x < 4294967296" and y: "y = ucast x"
    by (auto simp: try_u32_def split: if_splits)
  then show "x = ucast y"
    by (simp add: word_eq_iff_unsigned [where ?'a = nat] unat_ucast_u64_u32)
next
  assume "x = ucast y"
  then show "try_u32 x = Some y"
    using unat_u32_less [of y]
    by (simp add: try_u32_def word_eq_iff_unsigned [where ?'a = nat] unat_ucast_u64_u32)
qed

lemma try_u32_ucast [simp]: "try_u32 (ucast y) = Some y"
  by (simp add: try_u32_Some)

lemma try_u32_None: "try_u32 x = None \<longleftrightarrow> 2 ^ 32 \<le> uint x"
proof -
  have "int (unat x) \<le> int 4294967295 \<longleftrightarrow> unat x \<le> 4294967295" by (rule of_nat_le_iff)
  then have "unat x \<le> 4294967295 \<longleftrightarrow> uint x \<le> 4294967295"
    by (simp only: of_nat_unat of_nat_numeral)
  then show ?thesis by (auto simp: try_u32_def)
qed

lemma read_exact_append [simp]: "length x = n \<Longrightarrow> read_exact n (x @ r) = Inr (x, r)"
  by (simp add: read_exact_def)

subsection \<open>Counts\<close>

text \<open>A list length stored in a fixed-width count field.\<close>

lemma count_word_iff:
  assumes "2 ^ LENGTH('a) = Suc m"
  shows "unat (w :: 'a::len word) = n \<longleftrightarrow> n \<le> m \<and> w = of_nat n"
proof -
  have "unat w < Suc m" using unsigned_less [of w, where ?'a = nat] assms by simp
  moreover have "of_nat (unat w) = w" by simp
  moreover have "unat (of_nat n :: 'a word) = n" if "n \<le> m"
    using that assms by (simp add: unsigned_of_nat take_bit_nat_eq_self)
  ultimately show ?thesis by (auto simp: less_Suc_eq_le)
qed

lemma count_u8_iff: "unat (w :: u8) = n \<longleftrightarrow> n \<le> 255 \<and> w = of_nat n"
  by (rule count_word_iff) simp

lemma count_u16_iff: "unat (w :: u16) = n \<longleftrightarrow> n \<le> 65535 \<and> w = of_nat n"
  by (rule count_word_iff) simp

lemma count_u32_iff: "unat (w :: u32) = n \<longleftrightarrow> n \<le> 4294967295 \<and> w = of_nat n"
  by (rule count_word_iff) simp

lemma count_u64_iff: "unat (w :: u64) = n \<longleftrightarrow> n \<le> 18446744073709551615 \<and> w = of_nat n"
  by (rule count_word_iff) simp

lemmas count_iff =
  count_u8_iff count_u16_iff count_u32_iff count_u64_iff
  trans [OF eq_commute count_u8_iff] trans [OF eq_commute count_u16_iff]
  trans [OF eq_commute count_u32_iff] trans [OF eq_commute count_u64_iff]

end
