(* ===== verification/ByteIO.thy ===== *)
theory ByteIO
  imports Prelude
begin

text \<open>
  The byte-level readers and writers of \<open>crates/bft_primitives/src/encoding.rs\<close> and
  \<open>zcash_primitives/src/encoding.rs\<close> (\<open>ReadBytesExt\<close>, \<open>WriteBytesExt\<close>), and the
  interface that every serialised type of the program offers: a \<open>codec\<close> reads
  back what it wrote, an \<open>exact_codec\<close> moreover accepts nothing but what it
  writes. The laws a client needs (truncated input, counted lists, mapped and
  constant-width codecs) are proved once in the locales.
\<close>

subsection \<open>The interface\<close>

locale codec =
  fixes rd :: "'a reader" and wr :: "'a \<Rightarrow> bytes" and ok :: "'a \<Rightarrow> bool"
  assumes roundtrip: "ok x \<Longrightarrow> rd (wr x @ rest) = Inr (x, rest)"
begin

lemma read_written: "ok x \<Longrightarrow> rd (wr x) = Inr (x, [])"
  using roundtrip [of x "[]"] by simp

lemma bind_written: "ok x \<Longrightarrow> rbind rd f (wr x @ rest) = f x rest"
  by (simp add: rbind_def roundtrip)

lemma write_inject: "ok x \<Longrightarrow> ok y \<Longrightarrow> wr x = wr y \<longleftrightarrow> x = y"
  by (metis read_written sum.inject(2) prod.inject)

text \<open>The format is self-delimiting: no encoding is a proper prefix of another.\<close>

lemma prefix_free:
  assumes "ok x" "ok y" "wr x @ r = wr y @ s"
  shows "x = y \<and> r = s"
  by (metis assms roundtrip sum.inject(2) prod.inject)

lemma read_list_written:
  "list_all ok xs \<Longrightarrow> read_n (length xs) rd (concat (map wr xs) @ rest) = Inr (xs, rest)"
proof (induction xs arbitrary: rest)
  case (Cons x xs)
  then have "rbind (read_n (length xs) rd) f (concat (map wr xs) @ rest) = f xs rest" for f
    by (intro rbind_step) simp
  with Cons.prems show ?case
    by (simp add: bind_written rret_def del: rbind_iff)
qed (simp add: rret_def)

end

locale exact_codec = codec +
  assumes canonical: "rd bs = Inr (x, rest) \<Longrightarrow> ok x \<and> bs = wr x @ rest"
begin

lemma rd_iff: "rd bs = Inr (x, rest) \<longleftrightarrow> ok x \<and> bs = wr x @ rest"
  using roundtrip canonical by auto

lemma read_list_iff:
  "read_n k rd bs = Inr (xs, rest) \<longleftrightarrow>
     length xs = k \<and> list_all ok xs \<and> bs = concat (map wr xs) @ rest"
proof (induction k arbitrary: bs xs)
  case (Suc k)
  show ?case
    by (cases xs) (auto simp: rd_iff Suc.IH)
qed auto

lemma list_codec: "exact_codec (read_n k rd) (\<lambda>xs. concat (map wr xs))
                     (\<lambda>xs. length xs = k \<and> list_all ok xs)"
  by unfold_locales (auto simp: read_list_iff)

text \<open>An input that stops short of a complete encoding is never accepted.\<close>

lemma truncated:
  assumes "ok x" "wr x = p @ q" "q \<noteq> []"
  shows "\<exists>e. rd p = Inl e"
proof (cases "rd p")
  case (Inr yr)
  obtain y r where yr: "yr = (y, r)" by (cases yr)
  then have "ok y" "p = wr y @ r" using canonical Inr by auto
  then have "wr x @ [] = wr y @ (r @ q)" using assms(2) by simp
  then have "r @ q = []" using prefix_free assms(1) \<open>ok y\<close> by metis
  then show ?thesis using assms(3) by simp
qed simp

end

text \<open>Codecs of constant width, as the fixed-size layouts are.\<close>

locale fixed_codec = exact_codec +
  fixes width :: nat
  assumes width: "ok x \<Longrightarrow> length (wr x) = width"
begin

lemma consumes: "rd bs = Inr (x, rest) \<Longrightarrow> length bs = width + length rest"
  by (auto dest: canonical simp: width)

lemma too_short: "length bs < width \<Longrightarrow> \<exists>e. rd bs = Inl e"
proof (cases "rd bs")
  case (Inr p)
  moreover assume "length bs < width"
  ultimately show ?thesis using consumes [of bs "fst p" "snd p"] by simp
qed simp

lemma list_width: "list_all ok xs \<Longrightarrow> length (concat (map wr xs)) = width * length xs"
  by (induction xs) (auto simp: width)

end

lemma exact_codecI:
  assumes "\<And>bs x rest. rd bs = Inr (x, rest) \<longleftrightarrow> ok x \<and> bs = wr x @ rest"
  shows "exact_codec rd wr ok"
proof
  show "rd (wr x @ rest) = Inr (x, rest)" if "ok x" for x rest
    using that assms by simp
  show "ok x \<and> bs = wr x @ rest" if "rd bs = Inr (x, rest)" for bs x rest
    using that assms by simp
qed

lemma fixed_codecI:
  assumes "\<And>bs x rest. rd bs = Inr (x, rest) \<longleftrightarrow> ok x \<and> bs = wr x @ rest"
    and "\<And>x. ok x \<Longrightarrow> length (wr x) = n"
  shows "fixed_codec rd wr ok n"
proof (intro fixed_codec.intro fixed_codec_axioms.intro)
  show "exact_codec rd wr ok"
    by (rule exact_codecI) (rule assms(1))
qed (rule assms(2))

text \<open>Types whose writer can refuse (a count that does not fit its field).\<close>

definition written :: "io_error + bytes \<Rightarrow> bytes" where
  "written m = (case m of Inl _ \<Rightarrow> [] | Inr bs \<Rightarrow> bs)"

lemma written_Inr [simp]: "written (Inr bs) = bs"
  by (simp add: written_def)

locale fallible_codec =
  fixes rd :: "'a reader" and fwr :: "'a \<Rightarrow> io_error + bytes" and ok :: "'a \<Rightarrow> bool"
  assumes accepts: "ok x \<Longrightarrow> \<exists>p. fwr x = Inr p"
    and read_iff: "rd bs = Inr (x, rest) \<longleftrightarrow> ok x \<and> bs = written (fwr x) @ rest"
begin

lemma write_ok: "ok x \<Longrightarrow> fwr x = Inr (written (fwr x))"
  using accepts [of x] by auto

end

sublocale fallible_codec \<subseteq> exact_codec rd "\<lambda>x. written (fwr x)" ok
  by (rule exact_codecI) (rule read_iff)

text \<open>A loop \<open>for x in xs { x.write(&mut writer)?; }\<close> over a fallible writer.\<close>

primrec write_all_res :: "('a \<Rightarrow> io_error + bytes) \<Rightarrow> 'a list \<Rightarrow> io_error + bytes" where
  "write_all_res fwr [] = Inr []"
| "write_all_res fwr (x # xs) =
     res_bind (fwr x) (\<lambda>b. map_ok (\<lambda>bs. b @ bs) (write_all_res fwr xs))"

context fallible_codec
begin

lemma write_all_ok:
  "list_all ok xs \<Longrightarrow> write_all_res fwr xs = Inr (concat (map (\<lambda>x. written (fwr x)) xs))"
proof (induction xs)
  case (Cons x xs)
  then show ?case using accepts [of x] by auto
qed simp

end

subsection \<open>Integer readers and writers\<close>

definition read_u8 :: "u8 reader" where
  "read_u8 = rbind (read_exact 1) (\<lambda>repr. rret (repr ! 0))"

definition read_u16_le :: "u16 reader" where
  "read_u16_le = rbind (read_exact 2) (\<lambda>repr. rret (le_word repr))"

definition read_u32_le :: "u32 reader" where
  "read_u32_le = rbind (read_exact 4) (\<lambda>repr. rret (le_word repr))"

definition read_i32_le :: "i32 reader" where
  "read_i32_le = rbind (read_exact 4) (\<lambda>repr. rret (le_word repr))"

definition read_u64_le :: "u64 reader" where
  "read_u64_le = rbind (read_exact 8) (\<lambda>repr. rret (le_word repr))"

definition write_u8 :: "u8 \<Rightarrow> bytes" where
  "write_u8 value = [value]"

definition write_u16_le :: "u16 \<Rightarrow> bytes" where
  "write_u16_le value = le_bytes 2 value"

definition write_u32_le :: "u32 \<Rightarrow> bytes" where
  "write_u32_le value = le_bytes 4 value"

definition write_i32_le :: "i32 \<Rightarrow> bytes" where
  "write_i32_le value = le_bytes 4 value"

definition write_u64_le :: "u64 \<Rightarrow> bytes" where
  "write_u64_le value = le_bytes 8 value"

lemma length_writes [simp]:
  "length (write_u8 a) = 1"
  "length (write_u16_le b) = 2"
  "length (write_u32_le c) = 4"
  "length (write_i32_le c) = 4"
  "length (write_u64_le d) = 8"
  by (simp_all add: write_u8_def write_u16_le_def write_u32_le_def write_i32_le_def
      write_u64_le_def)

lemma read_word_iff:
  assumes "LENGTH('a) = 8 * n"
  shows "rbind (read_exact n) (\<lambda>repr. rret (le_word repr)) bs = Inr (w :: 'a::len word, r) \<longleftrightarrow>
     bs = le_bytes n w @ r"
  using assms by (auto simp: read_exact_iff le_bytes_le_word le_word_le_bytes)

interpretation u8_codec: fixed_codec read_u8 write_u8 "\<lambda>_. True" 1
  by (rule fixed_codecI)
    (auto simp: read_u8_def write_u8_def read_exact_iff length_Suc_conv)

interpretation u16_codec: fixed_codec read_u16_le write_u16_le "\<lambda>_. True" 2
  by (rule fixed_codecI) (simp_all add: read_u16_le_def write_u16_le_def read_word_iff del: rbind_iff)

interpretation u32_codec: fixed_codec read_u32_le write_u32_le "\<lambda>_. True" 4
  by (rule fixed_codecI) (simp_all add: read_u32_le_def write_u32_le_def read_word_iff del: rbind_iff)

interpretation i32_codec: fixed_codec read_i32_le write_i32_le "\<lambda>_. True" 4
  by (rule fixed_codecI) (simp_all add: read_i32_le_def write_i32_le_def read_word_iff del: rbind_iff)

interpretation u64_codec: fixed_codec read_u64_le write_u64_le "\<lambda>_. True" 8
  by (rule fixed_codecI) (simp_all add: read_u64_le_def write_u64_le_def read_word_iff del: rbind_iff)

lemmas int_codec_iff [codec_iff] =
  u8_codec.rd_iff u16_codec.rd_iff u32_codec.rd_iff i32_codec.rd_iff u64_codec.rd_iff

lemma write_int_inject [simp]:
  "write_u8 a = write_u8 a' \<longleftrightarrow> a = a'"
  "write_u16_le b = write_u16_le b' \<longleftrightarrow> b = b'"
  "write_u32_le c = write_u32_le c' \<longleftrightarrow> c = c'"
  "write_i32_le d = write_i32_le d' \<longleftrightarrow> d = d'"
  "write_u64_le e = write_u64_le e' \<longleftrightarrow> e = e'"
  using u8_codec.write_inject u16_codec.write_inject u32_codec.write_inject
    i32_codec.write_inject u64_codec.write_inject by auto

lemmas int_bind_written =
  u8_codec.bind_written u16_codec.bind_written u32_codec.bind_written
  i32_codec.bind_written u64_codec.bind_written

subsection \<open>Raw byte arrays and wrapped arrays\<close>

text \<open>A newtype around \<open>[u8; n]\<close> that is read and written as its raw bytes.\<close>

lemma read_array_iff:
  assumes "\<And>x. C (get x) = x" "\<And>b. get (C b) = b"
  shows "rbind (read_exact n) (\<lambda>b. rret (C b)) bs = Inr (x, r) \<longleftrightarrow>
     length (get x) = n \<and> bs = get x @ r"
proof
  assume "rbind (read_exact n) (\<lambda>b. rret (C b)) bs = Inr (x, r)"
  then show "length (get x) = n \<and> bs = get x @ r"
    using assms(2) by (auto simp: read_exact_iff)
next
  assume "length (get x) = n \<and> bs = get x @ r"
  then show "rbind (read_exact n) (\<lambda>b. rret (C b)) bs = Inr (x, r)"
    using assms(1) by (simp add: read_exact_iff)
qed

end
