(* ===== verification/Value.thy ===== *)
theory Value
  imports ByteIO
begin

text \<open>
  \<open>components/zcash_protocol/src/value.rs\<close>: the bounded amounts \<open>ZatBalance\<close> (signed)
  and \<open>Zatoshis\<close> (non-negative). Both keep their machine representation, a 64-bit
  word read as \<open>i64\<close> by \<open>sint\<close> and as \<open>u64\<close> by \<open>unat\<close>; the operators are the code's
  (plain \<open>+\<close>, \<open>-\<close> and \<open>as\<close> casts wrap), and the theorems show that on well-formed
  amounts they compute the exact integer result or report that it is out of
  range. The locale \<open>bounded_amount\<close> is the contract both types offer to the code
  that totals amounts.
\<close>

subsection \<open>Constants and types\<close>

definition COIN :: u64 where
  "COIN = 100000000"

definition MAX_MONEY :: u64 where
  "MAX_MONEY = 21000000 * COIN"

definition MAX_BALANCE :: i64 where
  "MAX_BALANCE = MAX_MONEY"

datatype balance_error = Overflow | Underflow

datatype zat_balance = ZatBalance (zb_raw: i64)

datatype zatoshis = Zatoshis (zat_raw: u64)

abbreviation zb_val :: "zat_balance \<Rightarrow> int" where
  "zb_val b \<equiv> sint (zb_raw b)"

abbreviation zat_val :: "zatoshis \<Rightarrow> int" where
  "zat_val z \<equiv> uint (zat_raw z)"

lemma MAX_MONEY_num: "MAX_MONEY = 2100000000000000"
  by (simp add: MAX_MONEY_def COIN_def)

lemma uint_MAX_MONEY [simp]: "uint MAX_MONEY = 2100000000000000"
  by (simp add: MAX_MONEY_num)

lemma sint_MAX_BALANCE [simp]:
  "sint MAX_BALANCE = 2100000000000000" "sint (- MAX_BALANCE) = - 2100000000000000"
  by (simp_all add: MAX_BALANCE_def MAX_MONEY_num)

text \<open>The invariant each type documents: construction only within the monetary range.\<close>

definition wf_balance :: "zat_balance \<Rightarrow> bool" where
  "wf_balance b \<longleftrightarrow> sint (- MAX_BALANCE) \<le> zb_val b \<and> zb_val b \<le> sint MAX_BALANCE"

definition wf_zats :: "zatoshis \<Rightarrow> bool" where
  "wf_zats z \<longleftrightarrow> zat_raw z \<le> MAX_MONEY"

lemma wf_balance_iff: "wf_balance b \<longleftrightarrow> - 2100000000000000 \<le> zb_val b \<and> zb_val b \<le> 2100000000000000"
  by (simp add: wf_balance_def)

lemma wf_zats_iff: "wf_zats z \<longleftrightarrow> zat_val z \<le> 2100000000000000"
  by (simp add: wf_zats_def word_le_def)

text \<open>\<open>derive(PartialOrd, Ord)\<close>: the order of the wrapped integer.\<close>

instantiation zatoshis :: linorder
begin

definition less_eq_zatoshis :: "zatoshis \<Rightarrow> zatoshis \<Rightarrow> bool" where
  "less_eq_zatoshis a b \<longleftrightarrow> zat_raw a \<le> zat_raw b"

definition less_zatoshis :: "zatoshis \<Rightarrow> zatoshis \<Rightarrow> bool" where
  "less_zatoshis a b \<longleftrightarrow> zat_raw a < zat_raw b"

instance
  by standard (auto simp: less_eq_zatoshis_def less_zatoshis_def intro: zatoshis.expand)

end

instantiation zat_balance :: linorder
begin

definition less_eq_zat_balance :: "zat_balance \<Rightarrow> zat_balance \<Rightarrow> bool" where
  "less_eq_zat_balance a b \<longleftrightarrow> zb_val a \<le> zb_val b"

definition less_zat_balance :: "zat_balance \<Rightarrow> zat_balance \<Rightarrow> bool" where
  "less_zat_balance a b \<longleftrightarrow> zb_val a < zb_val b"

instance
  by standard
    (auto simp: less_eq_zat_balance_def less_zat_balance_def
        word_eq_iff_signed [where ?'a = int] intro!: zat_balance.expand)

end

subsection \<open>Machine arithmetic on 64-bit words\<close>

definition checked_add_u64 :: "u64 \<Rightarrow> u64 \<Rightarrow> u64 option" where
  "checked_add_u64 a b = (if uint a + uint b < 2 ^ 64 then Some (a + b) else None)"

definition checked_sub_u64 :: "u64 \<Rightarrow> u64 \<Rightarrow> u64 option" where
  "checked_sub_u64 a b = (if uint b \<le> uint a then Some (a - b) else None)"

definition checked_mul_u64 :: "u64 \<Rightarrow> u64 \<Rightarrow> u64 option" where
  "checked_mul_u64 a b = (if uint a * uint b < 2 ^ 64 then Some (a * b) else None)"

definition checked_mul_i64 :: "i64 \<Rightarrow> i64 \<Rightarrow> i64 option" where
  "checked_mul_i64 a b =
     (if - (2 ^ 63) \<le> sint a * sint b \<and> sint a * sint b < 2 ^ 63 then Some (a * b) else None)"

text \<open>\<open>u64::try_from(i64)\<close>, \<open>i64::try_from(usize)\<close>.\<close>

definition try_u64_of_i64 :: "i64 \<Rightarrow> u64 option" where
  "try_u64_of_i64 x = (if 0 \<le> sint x then Some x else None)"

definition try_i64_of_usize :: "usize \<Rightarrow> i64 option" where
  "try_i64_of_usize x = (if uint x < 2 ^ 63 then Some x else None)"

lemma sint_add_exact:
  fixes a b :: i64
  assumes "- (2 ^ 63) \<le> sint a + sint b" "sint a + sint b < 2 ^ 63"
  shows "sint (a + b) = sint a + sint b"
  using assms by (simp add: sint_word_ariths signed_take_bit_int_eq_self)

lemma sint_sub_exact:
  fixes a b :: i64
  assumes "- (2 ^ 63) \<le> sint a - sint b" "sint a - sint b < 2 ^ 63"
  shows "sint (a - b) = sint a - sint b"
  using assms by (simp add: sint_word_ariths signed_take_bit_int_eq_self)

lemma sint_mul_exact:
  fixes a b :: i64
  assumes "- (2 ^ 63) \<le> sint a * sint b" "sint a * sint b < 2 ^ 63"
  shows "sint (a * b) = sint a * sint b"
  using assms by (simp add: sint_word_ariths signed_take_bit_int_eq_self)

lemma sint_neg_exact:
  fixes a :: i64
  assumes "- (2 ^ 63) < sint a"
  shows "sint (- a) = - sint a"
proof -
  have "sint a < 2 ^ 63" using sint_lt [of a] by simp
  then show ?thesis
    using assms by (simp add: sint_word_ariths signed_take_bit_int_eq_self)
qed

lemma sint_eq_uint64:
  fixes a :: u64
  assumes "uint a < 2 ^ 63"
  shows "sint a = uint a"
proof -
  have "- (2 ^ 63) \<le> uint a" by (rule order_trans [OF _ uint_ge_0]) simp
  then show ?thesis using assms by (simp add: sint_uint signed_take_bit_int_eq_self)
qed

lemma uint_eq_sint64:
  fixes a :: i64
  assumes "0 \<le> sint a"
  shows "uint a = sint a"
proof -
  have "sint a < 2 ^ 63" using sint_lt [of a] by simp
  moreover have "uint a = sint a mod 2 ^ 64"
    by (simp add: uint_sint take_bit_eq_mod)
  ultimately show ?thesis using assms by simp
qed

lemma uint_add_exact64: "uint a + uint b < 2 ^ 64 \<Longrightarrow> uint (a + b :: u64) = uint a + uint b"
  by (simp add: uint_word_ariths)

lemma uint_mul_exact64: "uint a * uint b < 2 ^ 64 \<Longrightarrow> uint (a * b :: u64) = uint a * uint b"
  by (simp add: uint_word_ariths)

lemma uint_sub_exact64:
  fixes a b :: u64
  assumes "uint b \<le> uint a"
  shows "uint (a - b) = uint a - uint b"
proof -
  have "uint a - uint b < 2 ^ 64" using uint_sub_lt2p [of a b] by simp
  then show ?thesis using assms by (simp add: uint_word_ariths)
qed

lemmas exact_arith =
  sint_add_exact sint_sub_exact sint_mul_exact sint_neg_exact
  uint_add_exact64 uint_mul_exact64 uint_sub_exact64


subsection \<open>\<open>ZatBalance\<close>\<close>

definition ZatBalance_zero :: zat_balance where
  "ZatBalance_zero = ZatBalance 0"

text \<open>A panic of the \<open>const\<close> constructors is \<open>None\<close>.\<close>

definition ZatBalance_const_from_i64 :: "i64 \<Rightarrow> zat_balance option" where
  "ZatBalance_const_from_i64 amount =
     (if sint (- MAX_BALANCE) \<le> sint amount \<and> sint amount \<le> sint MAX_BALANCE
      then Some (ZatBalance amount) else None)"

definition ZatBalance_const_from_u64 :: "u64 \<Rightarrow> zat_balance option" where
  "ZatBalance_const_from_u64 amount =
     (if amount \<le> MAX_MONEY then Some (ZatBalance amount) else None)"

definition ZatBalance_from_i64 :: "i64 \<Rightarrow> balance_error + zat_balance" where
  "ZatBalance_from_i64 amount =
     (if sint (- MAX_BALANCE) \<le> sint amount \<and> sint amount \<le> sint MAX_BALANCE
      then Inr (ZatBalance amount)
      else if sint amount < sint (- MAX_BALANCE) then Inl Underflow
      else Inl Overflow)"

definition ZatBalance_from_nonnegative_i64 :: "i64 \<Rightarrow> balance_error + zat_balance" where
  "ZatBalance_from_nonnegative_i64 amount =
     (if 0 \<le> sint amount \<and> sint amount \<le> sint MAX_BALANCE then Inr (ZatBalance amount)
      else if sint amount < 0 then Inl Underflow
      else Inl Overflow)"

definition ZatBalance_from_u64 :: "u64 \<Rightarrow> balance_error + zat_balance" where
  "ZatBalance_from_u64 amount =
     (if amount \<le> MAX_MONEY then Inr (ZatBalance amount) else Inl Overflow)"

definition ZatBalance_from_i64_le_bytes :: "bytes \<Rightarrow> balance_error + zat_balance" where
  "ZatBalance_from_i64_le_bytes bs = ZatBalance_from_i64 (le_word bs)"

definition ZatBalance_from_nonnegative_i64_le_bytes :: "bytes \<Rightarrow> balance_error + zat_balance" where
  "ZatBalance_from_nonnegative_i64_le_bytes bs = ZatBalance_from_nonnegative_i64 (le_word bs)"

definition ZatBalance_from_u64_le_bytes :: "bytes \<Rightarrow> balance_error + zat_balance" where
  "ZatBalance_from_u64_le_bytes bs = ZatBalance_from_u64 (le_word bs)"

definition ZatBalance_to_i64_le_bytes :: "zat_balance \<Rightarrow> bytes" where
  "ZatBalance_to_i64_le_bytes b = le_bytes 8 (zb_raw b)"

definition ZatBalance_is_positive :: "zat_balance \<Rightarrow> bool" where
  "ZatBalance_is_positive b \<longleftrightarrow> 0 < sint (zb_raw b)"

definition ZatBalance_is_negative :: "zat_balance \<Rightarrow> bool" where
  "ZatBalance_is_negative b \<longleftrightarrow> sint (zb_raw b) < 0"

definition u64_try_from_ZatBalance :: "zat_balance \<Rightarrow> balance_error + u64" where
  "u64_try_from_ZatBalance b = ok_or (try_u64_of_i64 (zb_raw b)) Underflow"

definition zb_add :: "zat_balance \<Rightarrow> zat_balance \<Rightarrow> zat_balance option" where
  "zb_add a b = res_ok (ZatBalance_from_i64 (zb_raw a + zb_raw b))"

definition zb_sub :: "zat_balance \<Rightarrow> zat_balance \<Rightarrow> zat_balance option" where
  "zb_sub a b = res_ok (ZatBalance_from_i64 (zb_raw a - zb_raw b))"

text \<open>The operators lifted to \<open>Option<ZatBalance>\<close> on the left (\<open>and_then\<close>).\<close>

definition opt_zb_add :: "zat_balance option \<Rightarrow> zat_balance \<Rightarrow> zat_balance option" where
  "opt_zb_add a b = Option.bind a (\<lambda>lhs. zb_add lhs b)"

definition opt_zb_sub :: "zat_balance option \<Rightarrow> zat_balance \<Rightarrow> zat_balance option" where
  "opt_zb_sub a b = Option.bind a (\<lambda>lhs. zb_sub lhs b)"

definition zb_sum :: "zat_balance list \<Rightarrow> zat_balance option" where
  "zb_sum values = fold_opt zb_add ZatBalance_zero values"

definition zb_neg :: "zat_balance \<Rightarrow> zat_balance" where
  "zb_neg b = ZatBalance (- zb_raw b)"

definition zb_mul_usize :: "zat_balance \<Rightarrow> usize \<Rightarrow> zat_balance option" where
  "zb_mul_usize b rhs = Option.bind (try_i64_of_usize rhs) (\<lambda>rhs.
     Option.bind (checked_mul_i64 (zb_raw b) rhs) (\<lambda>i. res_ok (ZatBalance_from_i64 i)))"

subsection \<open>\<open>Zatoshis\<close>\<close>

record 'a quot_rem =
  quotient :: 'a
  remainder :: 'a

definition Zatoshis_ZERO :: zatoshis where
  "Zatoshis_ZERO = Zatoshis 0"

definition Zatoshis_into_u64 :: "zatoshis \<Rightarrow> u64" where
  "Zatoshis_into_u64 z = zat_raw z"

text \<open>\<open>self.0 as i64\<close> keeps the bits.\<close>

definition Zatoshis_into_i64 :: "zatoshis \<Rightarrow> i64" where
  "Zatoshis_into_i64 z = zat_raw z"

definition Zatoshis_from_u64 :: "u64 \<Rightarrow> balance_error + zatoshis" where
  "Zatoshis_from_u64 amount =
     (if 0 \<le> amount \<and> amount \<le> MAX_MONEY then Inr (Zatoshis amount) else Inl Overflow)"

definition Zatoshis_const_from_u64 :: "u64 \<Rightarrow> zatoshis option" where
  "Zatoshis_const_from_u64 amount = (if amount \<le> MAX_MONEY then Some (Zatoshis amount) else None)"

definition Zatoshis_from_nonnegative_i64 :: "i64 \<Rightarrow> balance_error + zatoshis" where
  "Zatoshis_from_nonnegative_i64 amount =
     res_bind (ok_or (try_u64_of_i64 amount) Underflow) Zatoshis_from_u64"

definition Zatoshis_from_u64_le_bytes :: "bytes \<Rightarrow> balance_error + zatoshis" where
  "Zatoshis_from_u64_le_bytes bs = Zatoshis_from_u64 (le_word bs)"

definition Zatoshis_from_nonnegative_i64_le_bytes :: "bytes \<Rightarrow> balance_error + zatoshis" where
  "Zatoshis_from_nonnegative_i64_le_bytes bs = Zatoshis_from_nonnegative_i64 (le_word bs)"

definition Zatoshis_to_i64_le_bytes :: "zatoshis \<Rightarrow> bytes" where
  "Zatoshis_to_i64_le_bytes z = le_bytes 8 (zat_raw z :: i64)"

definition Zatoshis_to_u64_le_bytes :: "zatoshis \<Rightarrow> bytes" where
  "Zatoshis_to_u64_le_bytes z = le_bytes 8 (zat_raw z)"

definition Zatoshis_write :: "zatoshis \<Rightarrow> bytes" where
  "Zatoshis_write z = Zatoshis_to_u64_le_bytes z"

definition Zatoshis_read :: "zatoshis reader" where
  "Zatoshis_read = rbind (read_exact 8) (\<lambda>bs.
     rlift (map_err (\<lambda>_. InvalidData ''amount out of range'') (Zatoshis_from_u64_le_bytes bs)))"

definition Zatoshis_is_zero :: "zatoshis \<Rightarrow> bool" where
  "Zatoshis_is_zero z \<longleftrightarrow> z = Zatoshis_ZERO"

definition Zatoshis_is_positive :: "zatoshis \<Rightarrow> bool" where
  "Zatoshis_is_positive z \<longleftrightarrow> z > Zatoshis_ZERO"

text \<open>A \<open>NonZeroU64\<close> divisor is a word with the hypothesis that it is not zero.\<close>

definition Zatoshis_div_with_remainder :: "zatoshis \<Rightarrow> u64 \<Rightarrow> zatoshis quot_rem" where
  "Zatoshis_div_with_remainder z divisor =
     \<lparr>quotient = Zatoshis (zat_raw z div divisor), remainder = Zatoshis (zat_raw z mod divisor)\<rparr>"

definition ZatBalance_from_Zatoshis :: "zatoshis \<Rightarrow> zat_balance" where
  "ZatBalance_from_Zatoshis z = ZatBalance (zat_raw z)"

definition Zatoshis_try_from_ZatBalance :: "zat_balance \<Rightarrow> balance_error + zatoshis" where
  "Zatoshis_try_from_ZatBalance b = Zatoshis_from_nonnegative_i64 (zb_raw b)"

definition zat_add :: "zatoshis \<Rightarrow> zatoshis \<Rightarrow> zatoshis option" where
  "zat_add a b = Option.bind (checked_add_u64 (zat_raw a) (zat_raw b)) (\<lambda>v. res_ok (Zatoshis_from_u64 v))"

definition opt_zat_add :: "zatoshis option \<Rightarrow> zatoshis \<Rightarrow> zatoshis option" where
  "opt_zat_add a b = Option.bind a (\<lambda>lhs. zat_add lhs b)"

definition zat_sub :: "zatoshis \<Rightarrow> zatoshis \<Rightarrow> zatoshis option" where
  "zat_sub a b = Option.bind (checked_sub_u64 (zat_raw a) (zat_raw b)) (\<lambda>v. res_ok (Zatoshis_from_u64 v))"

definition opt_zat_sub :: "zatoshis option \<Rightarrow> zatoshis \<Rightarrow> zatoshis option" where
  "opt_zat_sub a b = Option.bind a (\<lambda>lhs. zat_sub lhs b)"

definition zat_mul :: "zatoshis \<Rightarrow> u64 \<Rightarrow> zatoshis option" where
  "zat_mul a rhs = Option.bind (checked_mul_u64 (zat_raw a) rhs) (\<lambda>v. res_ok (Zatoshis_from_u64 v))"

definition zat_sum :: "zatoshis list \<Rightarrow> zatoshis option" where
  "zat_sum values = fold_opt zat_add Zatoshis_ZERO values"

definition zat_div :: "zatoshis \<Rightarrow> u64 \<Rightarrow> zatoshis" where
  "zat_div a rhs = Zatoshis (zat_raw a div rhs)"

definition zat_neg :: "zatoshis \<Rightarrow> zat_balance" where
  "zat_neg z = zb_neg (ZatBalance_from_Zatoshis z)"

text \<open>\<open>ZatBalance\<close> with a \<open>Zatoshis\<close> on the right.\<close>

definition zb_add_zat :: "zat_balance \<Rightarrow> zatoshis \<Rightarrow> zat_balance option" where
  "zb_add_zat a z = res_ok (ZatBalance_from_i64 (zb_raw a + Zatoshis_into_i64 z))"

definition opt_zb_add_zat :: "zat_balance option \<Rightarrow> zatoshis \<Rightarrow> zat_balance option" where
  "opt_zb_add_zat a z = Option.bind a (\<lambda>lhs. zb_add_zat lhs z)"

definition zb_sub_zat :: "zat_balance \<Rightarrow> zatoshis \<Rightarrow> zat_balance option" where
  "zb_sub_zat a z = res_ok (ZatBalance_from_i64 (zb_raw a - Zatoshis_into_i64 z))"

definition opt_zb_sub_zat :: "zat_balance option \<Rightarrow> zatoshis \<Rightarrow> zat_balance option" where
  "opt_zb_sub_zat a z = Option.bind a (\<lambda>lhs. zb_sub_zat lhs z)"


subsection \<open>Construction stays in range\<close>

lemma ZatBalance_from_i64_iff:
  "ZatBalance_from_i64 x = Inr b \<longleftrightarrow> b = ZatBalance x \<and> wf_balance b"
  by (auto simp: ZatBalance_from_i64_def wf_balance_iff)

lemma ZatBalance_from_i64_Inl:
  "ZatBalance_from_i64 x = Inl e \<longleftrightarrow>
     (e = Underflow \<and> sint x < - 2100000000000000) \<or> (e = Overflow \<and> 2100000000000000 < sint x)"
  by (auto simp: ZatBalance_from_i64_def)

lemma ZatBalance_from_nonnegative_i64_iff:
  "ZatBalance_from_nonnegative_i64 x = Inr b \<longleftrightarrow> b = ZatBalance x \<and> wf_balance b \<and> 0 \<le> zb_val b"
  by (auto simp: ZatBalance_from_nonnegative_i64_def wf_balance_iff)

lemma wf_zats_sint: "wf_zats z \<Longrightarrow> sint (zat_raw z) = zat_val z"
  by (intro sint_eq_uint64) (simp add: wf_zats_iff)

lemma wf_zats_sint_range:
  "wf_zats z \<Longrightarrow> 0 \<le> sint (zat_raw z) \<and> sint (zat_raw z) \<le> 2100000000000000"
  by (simp add: wf_zats_sint) (simp add: wf_zats_iff)

lemma ZatBalance_from_u64_iff:
  "ZatBalance_from_u64 x = Inr b \<longleftrightarrow> b = ZatBalance x \<and> uint x \<le> 2100000000000000"
  by (auto simp: ZatBalance_from_u64_def word_le_def)

lemma ZatBalance_from_u64_wf:
  "ZatBalance_from_u64 x = Inr b \<Longrightarrow> wf_balance b \<and> zb_val b = uint x"
  using sint_eq_uint64 [of x] by (auto simp: ZatBalance_from_u64_iff wf_balance_iff)

lemma Zatoshis_from_u64_iff:
  "Zatoshis_from_u64 x = Inr z \<longleftrightarrow> z = Zatoshis x \<and> wf_zats z"
  by (auto simp: Zatoshis_from_u64_def wf_zats_def)

lemma Zatoshis_from_u64_Inl:
  "Zatoshis_from_u64 x = Inl e \<longleftrightarrow> e = Overflow \<and> 2100000000000000 < uint x"
  by (auto simp: Zatoshis_from_u64_def word_le_def)

lemma Zatoshis_from_nonnegative_i64_iff:
  "Zatoshis_from_nonnegative_i64 x = Inr z \<longleftrightarrow> z = Zatoshis x \<and> 0 \<le> sint x \<and> wf_zats z"
  by (auto simp: Zatoshis_from_nonnegative_i64_def try_u64_of_i64_def Zatoshis_from_u64_iff
      split: if_splits)

lemma wf_from_Zatoshis [simp]:
  "wf_zats z \<Longrightarrow> wf_balance (ZatBalance_from_Zatoshis z)"
  "wf_zats z \<Longrightarrow> zb_val (ZatBalance_from_Zatoshis z) = zat_val z"
  using wf_zats_sint_range [of z] wf_zats_sint [of z]
  by (auto simp: ZatBalance_from_Zatoshis_def wf_balance_iff)

lemma zb_val_inject: "zb_val a = zb_val b \<longleftrightarrow> a = b"
  by (cases a; cases b) (simp add: word_eq_iff_signed [where ?'a = int])

lemma zat_val_inject: "zat_val a = zat_val b \<longleftrightarrow> a = b"
  by (cases a; cases b) (simp add: word_eq_iff_unsigned [where ?'a = int])

subsection \<open>The contract of a bounded amount\<close>

locale bounded_amount =
  fixes val :: "'a \<Rightarrow> int" and ok :: "'a \<Rightarrow> bool" and lo hi :: int
    and zero :: 'a and add :: "'a \<Rightarrow> 'a \<Rightarrow> 'a option"
  assumes range: "ok x \<Longrightarrow> lo \<le> val x \<and> val x \<le> hi"
    and zero_ok: "ok zero"
    and zero_val: "val zero = 0"
    and add_Some: "ok x \<Longrightarrow> ok y \<Longrightarrow> add x y = Some z \<Longrightarrow> ok z \<and> val z = val x + val y"
    and add_defined: "ok x \<Longrightarrow> ok y \<Longrightarrow>
      (\<exists>z. add x y = Some z) \<longleftrightarrow> lo \<le> val x + val y \<and> val x + val y \<le> hi"
begin

lemma add_None:
  "ok x \<Longrightarrow> ok y \<Longrightarrow> add x y = None \<longleftrightarrow> \<not> (lo \<le> val x + val y \<and> val x + val y \<le> hi)"
  using add_defined [of x y] by auto

text \<open>\<open>try_fold(zero, |acc, a| acc + a)\<close> started from any accumulator.\<close>

lemma total_from:
  "ok acc \<Longrightarrow> list_all ok xs \<Longrightarrow> fold_opt add acc xs = Some s \<Longrightarrow>
     ok s \<and> val s = val acc + sum_list (map val xs)"
proof (induction xs arbitrary: acc)
  case (Cons x xs)
  from Cons.prems obtain a where a: "add acc x = Some a" "fold_opt add a xs = Some s"
    by (auto simp: bind_eq_Some_conv)
  from Cons.prems have "ok x" "list_all ok xs" by simp_all
  with Cons.prems(1) a(1) have "ok a" and v: "val a = val acc + val x"
    using add_Some by blast+
  with Cons.IH a(2) \<open>list_all ok xs\<close> have "ok s" "val s = val a + sum_list (map val xs)"
    by blast+
  with v show ?case by simp
qed simp

lemma total:
  "list_all ok xs \<Longrightarrow> fold_opt add zero xs = Some s \<Longrightarrow> ok s \<and> val s = sum_list (map val xs)"
  using total_from [OF zero_ok] zero_val by simp

text \<open>The fold is defined exactly when every running total stays in range.\<close>

lemma total_defined_from:
  "ok acc \<Longrightarrow> list_all ok xs \<Longrightarrow>
     (\<exists>s. fold_opt add acc xs = Some s) \<longleftrightarrow>
       (\<forall>k \<le> length xs. lo \<le> val acc + sum_list (map val (take k xs))
                     \<and> val acc + sum_list (map val (take k xs)) \<le> hi)"
proof (induction xs arbitrary: acc)
  case Nil
  then show ?case using range by simp
next
  case (Cons x xs)
  let ?in = "\<lambda>v. lo \<le> v \<and> v \<le> hi"
  have ok: "ok x" "list_all ok xs" using Cons.prems by simp_all
  have split: "(\<forall>k \<le> length (x # xs). ?in (val acc + sum_list (map val (take k (x # xs))))) \<longleftrightarrow>
      ?in (val acc) \<and> (\<forall>k \<le> length xs. ?in (val acc + val x + sum_list (map val (take k xs))))"
    by (simp add: all_le_Suc add.assoc)
  show ?case
  proof (cases "add acc x")
    case None
    then have "\<not> ?in (val acc + val x + sum_list (map val (take 0 xs)))"
      using add_None [of acc x] Cons.prems(1) ok by simp
    then show ?thesis unfolding split using None by (metis le0 bind.simps(1) fold_opt.simps(2) option.simps(3))
  next
    case (Some a)
    then have a: "ok a" "val a = val acc + val x"
      using add_Some Cons.prems(1) ok by blast+
    show ?thesis
      unfolding split using Cons.IH [OF a(1) ok(2)] range [OF Cons.prems(1)] Some
      by (simp add: a(2))
  qed
qed

text \<open>Non-negative amounts: the total alone decides.\<close>

lemma total_nonneg:
  assumes "lo = 0" "list_all ok xs"
  shows "(\<exists>s. fold_opt add zero xs = Some s) \<longleftrightarrow> sum_list (map val xs) \<le> hi"
proof -
  have nn: "0 \<le> val x" if "x \<in> set xs" for x
    using that assms range by (auto simp: list_all_iff)
  have le: "0 \<le> sum_list (map val (take k xs)) \<and>
      sum_list (map val (take k xs)) \<le> sum_list (map val xs)" for k
  proof -
    have "sum_list (map val xs) = sum_list (map val (take k xs)) + sum_list (map val (drop k xs))"
      by (simp flip: sum_list_append map_append)
    moreover have "0 \<le> sum_list (map val (take k xs))" "0 \<le> sum_list (map val (drop k xs))"
      using nn by (auto intro!: sum_list_nonneg simp: nn dest!: in_set_takeD in_set_dropD)
    ultimately show ?thesis by linarith
  qed
  show ?thesis
    using total_defined_from [OF zero_ok assms(2)] le assms(1) zero_val
    by (metis add_0 order_refl order_trans take_all)
qed

end

interpretation zb: bounded_amount zb_val wf_balance "- 2100000000000000" 2100000000000000
  ZatBalance_zero zb_add
proof (unfold_locales, goal_cases)
  case (4 x y z)
  then have "sint (zb_raw x + zb_raw y) = zb_val x + zb_val y"
    by (intro sint_add_exact) (auto simp: wf_balance_iff)
  then show ?case using 4 by (auto simp: zb_add_def ZatBalance_from_i64_iff)
next
  case (5 x y)
  then have "sint (zb_raw x + zb_raw y) = zb_val x + zb_val y"
    by (intro sint_add_exact) (auto simp: wf_balance_iff)
  then show ?case by (auto simp: zb_add_def ZatBalance_from_i64_iff wf_balance_iff)
qed (auto simp: wf_balance_iff ZatBalance_zero_def)

interpretation zat: bounded_amount zat_val wf_zats 0 2100000000000000 Zatoshis_ZERO zat_add
proof (unfold_locales, goal_cases)
  case (4 x y z)
  then show ?case
    by (auto simp: zat_add_def checked_add_u64_def Zatoshis_from_u64_iff uint_add_exact64
        bind_eq_Some_conv split: if_splits)
next
  case (5 x y)
  then show ?case
    by (auto simp: zat_add_def checked_add_u64_def Zatoshis_from_u64_iff uint_add_exact64
        wf_zats_iff bind_eq_Some_conv)
qed (auto simp: wf_zats_iff Zatoshis_ZERO_def)


subsection \<open>The operators are exact\<close>

abbreviation in_balance_range :: "int \<Rightarrow> bool" where
  "in_balance_range v \<equiv> - 2100000000000000 \<le> v \<and> v \<le> 2100000000000000"

abbreviation in_zat_range :: "int \<Rightarrow> bool" where
  "in_zat_range v \<equiv> 0 \<le> v \<and> v \<le> 2100000000000000"

lemma from_i64_ok_exact:
  assumes "sint w = v"
  shows "res_ok (ZatBalance_from_i64 w) =
    (if in_balance_range v then Some (ZatBalance (word_of_int v)) else None)"
proof -
  have "w = word_of_int v" using assms by (simp flip: assms)
  then show ?thesis using assms by (auto simp: ZatBalance_from_i64_def)
qed

lemma zb_add_eq:
  assumes "wf_balance a" "wf_balance b"
  shows "zb_add a b = (if in_balance_range (zb_val a + zb_val b)
    then Some (ZatBalance (word_of_int (zb_val a + zb_val b))) else None)"
  unfolding zb_add_def
  by (rule from_i64_ok_exact, rule sint_add_exact) (use assms in \<open>auto simp: wf_balance_iff\<close>)

lemma zb_sub_eq:
  assumes "wf_balance a" "wf_balance b"
  shows "zb_sub a b = (if in_balance_range (zb_val a - zb_val b)
    then Some (ZatBalance (word_of_int (zb_val a - zb_val b))) else None)"
  unfolding zb_sub_def
  by (rule from_i64_ok_exact, rule sint_sub_exact) (use assms in \<open>auto simp: wf_balance_iff\<close>)

lemma zb_neg_eq:
  assumes "wf_balance a"
  shows "zb_val (zb_neg a) = - zb_val a" "wf_balance (zb_neg a)"
proof -
  show "zb_val (zb_neg a) = - zb_val a"
    unfolding zb_neg_def zat_balance.sel
    by (rule sint_neg_exact) (use assms in \<open>auto simp: wf_balance_iff\<close>)
  then show "wf_balance (zb_neg a)" using assms by (auto simp: wf_balance_iff)
qed

lemma zb_mul_usize_eq:
  "zb_mul_usize a n =
     (if uint n < 2 ^ 63 \<and> in_balance_range (zb_val a * uint n)
      then Some (ZatBalance (word_of_int (zb_val a * uint n))) else None)"
proof (cases "uint n < 2 ^ 63")
  case n: True
  then have sn: "sint n = uint n" by (rule sint_eq_uint64)
  show ?thesis
  proof (cases "- (2 ^ 63) \<le> zb_val a * sint n \<and> zb_val a * sint n < 2 ^ 63")
    case True
    then have "sint (zb_raw a * n) = zb_val a * sint n"
      by (intro sint_mul_exact) auto
    then show ?thesis
      using n True from_i64_ok_exact [of "zb_raw a * n"]
      by (simp add: zb_mul_usize_def try_i64_of_usize_def checked_mul_i64_def sn)
  next
    case False
    then show ?thesis
      using n by (auto simp: zb_mul_usize_def try_i64_of_usize_def checked_mul_i64_def sn)
  qed
qed (simp add: zb_mul_usize_def try_i64_of_usize_def)

text \<open>On well-formed balances the signed operators compute the exact integer:
  \<open>a + b\<close>, \<open>a - b\<close> and \<open>a * n\<close> are the balance of the integer result when it lies in
  \<open>-MAX_MONEY..=MAX_MONEY\<close> and \<open>None\<close> otherwise (the plain \<open>i64\<close> additions never wrap),
  and \<open>-a\<close> is always a valid balance.\<close>

theorem zat_balance_arith_exact:
  assumes "wf_balance a" "wf_balance b"
  shows "zb_add a b = (if in_balance_range (zb_val a + zb_val b)
           then Some (ZatBalance (word_of_int (zb_val a + zb_val b))) else None)
    \<and> zb_sub a b = (if in_balance_range (zb_val a - zb_val b)
           then Some (ZatBalance (word_of_int (zb_val a - zb_val b))) else None)
    \<and> zb_mul_usize a n = (if uint n < 2 ^ 63 \<and> in_balance_range (zb_val a * uint n)
           then Some (ZatBalance (word_of_int (zb_val a * uint n))) else None)
    \<and> wf_balance (zb_neg a) \<and> zb_val (zb_neg a) = - zb_val a"
  using zb_add_eq [OF assms] zb_sub_eq [OF assms] zb_mul_usize_eq zb_neg_eq [OF assms(1)]
  by blast

lemma zat_balance_arith_exact_witness:
  "zb_add (ZatBalance 5) (ZatBalance (- 7)) = Some (ZatBalance (word_of_int (- 2)))"
  using zat_balance_arith_exact [of "ZatBalance 5" "ZatBalance (- 7)" 3]
  by (simp add: wf_balance_iff)

lemma from_u64_ok_exact:
  assumes "uint w = v"
  shows "res_ok (Zatoshis_from_u64 w) = (if in_zat_range v then Some (Zatoshis (word_of_int v)) else None)"
proof -
  have "w = word_of_int v" using assms by (simp flip: assms)
  then show ?thesis using assms by (auto simp: Zatoshis_from_u64_def word_le_def)
qed

lemma zat_add_eq:
  "zat_add a b = (if in_zat_range (zat_val a + zat_val b)
     then Some (Zatoshis (word_of_int (zat_val a + zat_val b))) else None)"
  by (auto simp: zat_add_def checked_add_u64_def from_u64_ok_exact [OF uint_add_exact64])

lemma zat_sub_eq:
  assumes "wf_zats a"
  shows "zat_sub a b = (if in_zat_range (zat_val a - zat_val b)
     then Some (Zatoshis (word_of_int (zat_val a - zat_val b))) else None)"
  using assms
  by (auto simp: zat_sub_def checked_sub_u64_def from_u64_ok_exact [OF uint_sub_exact64] wf_zats_iff)

lemma zat_mul_eq:
  "zat_mul a n = (if in_zat_range (zat_val a * uint n)
     then Some (Zatoshis (word_of_int (zat_val a * uint n))) else None)"
  by (auto simp: zat_mul_def checked_mul_u64_def from_u64_ok_exact [OF uint_mul_exact64])

lemma uint_pos: "d \<noteq> 0 \<Longrightarrow> 0 < uint d"
  by (metis order_le_less uint_ge_0 uint_0_iff)

lemma zat_div_exact:
  assumes "wf_zats z" "d \<noteq> 0"
  shows "zat_val (quotient (Zatoshis_div_with_remainder z d)) = zat_val z div uint d"
    and "zat_val (remainder (Zatoshis_div_with_remainder z d)) = zat_val z mod uint d"
    and "wf_zats (quotient (Zatoshis_div_with_remainder z d))"
    and "wf_zats (remainder (Zatoshis_div_with_remainder z d))"
proof -
  have d: "0 < uint d" using assms(2) by (rule uint_pos)
  show q: "zat_val (quotient (Zatoshis_div_with_remainder z d)) = zat_val z div uint d"
    and r: "zat_val (remainder (Zatoshis_div_with_remainder z d)) = zat_val z mod uint d"
    by (simp_all add: Zatoshis_div_with_remainder_def uint_div_distrib uint_mod_distrib)
  have "zat_val z div uint d \<le> zat_val z"
    using d zdiv_mono2 [of "zat_val z" 1 "uint d"] by simp
  moreover have "zat_val z mod uint d \<le> zat_val z"
    by (simp add: zmod_le_nonneg_dividend)
  ultimately show "wf_zats (quotient (Zatoshis_div_with_remainder z d))"
    and "wf_zats (remainder (Zatoshis_div_with_remainder z d))"
    using assms(1) q r by (simp_all add: wf_zats_iff)
qed

text \<open>On well-formed amounts the unsigned operators are exact, with \<open>None\<close> exactly when the
  integer result leaves \<open>0..=MAX_MONEY\<close>, and \<open>div_with_remainder\<close> by a non-zero divisor returns
  the Euclidean quotient and remainder, both valid amounts without a new range check.\<close>

theorem zatoshis_arith_exact:
  assumes "wf_zats a" "wf_zats b" "d \<noteq> 0"
  shows "zat_add a b = (if in_zat_range (zat_val a + zat_val b)
           then Some (Zatoshis (word_of_int (zat_val a + zat_val b))) else None)
    \<and> zat_sub a b = (if in_zat_range (zat_val a - zat_val b)
           then Some (Zatoshis (word_of_int (zat_val a - zat_val b))) else None)
    \<and> zat_mul a n = (if in_zat_range (zat_val a * uint n)
           then Some (Zatoshis (word_of_int (zat_val a * uint n))) else None)
    \<and> (let qr = Zatoshis_div_with_remainder a d in
           zat_val (quotient qr) * uint d + zat_val (remainder qr) = zat_val a
           \<and> zat_val (remainder qr) < uint d
           \<and> wf_zats (quotient qr) \<and> wf_zats (remainder qr) \<and> zat_div a d = quotient qr)"
proof (intro conjI)
  show "let qr = Zatoshis_div_with_remainder a d in
           zat_val (quotient qr) * uint d + zat_val (remainder qr) = zat_val a
           \<and> zat_val (remainder qr) < uint d
           \<and> wf_zats (quotient qr) \<and> wf_zats (remainder qr) \<and> zat_div a d = quotient qr"
    using zat_div_exact [OF assms(1,3)] uint_pos [OF assms(3)]
    by (simp add: Let_def) (simp add: zat_div_def Zatoshis_div_with_remainder_def)
qed (rule zat_add_eq zat_sub_eq [OF assms(1)] zat_mul_eq)+

lemma zatoshis_arith_exact_witness:
  "let qr = Zatoshis_div_with_remainder (Zatoshis 17) 5 in
     zat_val (quotient qr) * uint (5 :: u64) + zat_val (remainder qr) = zat_val (Zatoshis 17)
     \<and> zat_val (remainder qr) < uint (5 :: u64)
     \<and> wf_zats (quotient qr) \<and> wf_zats (remainder qr) \<and> zat_div (Zatoshis 17) 5 = quotient qr"
  using zatoshis_arith_exact [of "Zatoshis 17" "Zatoshis 0" 5 0] by (simp add: wf_zats_iff)


subsection \<open>Totals\<close>



subsection \<open>Byte formats and conversions\<close>

interpretation zats_codec: fixed_codec Zatoshis_read Zatoshis_write wf_zats 8
proof (rule fixed_codecI)
  show "Zatoshis_read bs = Inr (x, rest) \<longleftrightarrow> wf_zats x \<and> bs = Zatoshis_write x @ rest" for bs x rest
    by (cases x)
      (auto simp: Zatoshis_read_def Zatoshis_write_def Zatoshis_to_u64_le_bytes_def
        Zatoshis_from_u64_le_bytes_def read_exact_iff Zatoshis_from_u64_iff
        le_bytes_le_word le_word_le_bytes)
qed (simp add: Zatoshis_write_def Zatoshis_to_u64_le_bytes_def)

lemmas zats_codec_iff [codec_iff] = zats_codec.rd_iff

text \<open>The conversions between the two amount types and their byte forms invert each other on
  the valid range: \<open>Zatoshis\<close> to \<open>ZatBalance\<close> and back, the signed and unsigned little-endian
  forms, and the refusal of the first integers past either end of the range.\<close>

theorem amount_conversions:
  assumes "wf_zats z" "wf_balance b"
  shows "Zatoshis_try_from_ZatBalance (ZatBalance_from_Zatoshis z) = Inr z
    \<and> (Zatoshis_try_from_ZatBalance b =
         (if 0 \<le> zb_val b then Inr (Zatoshis (zb_raw b)) else Inl Underflow))
    \<and> ZatBalance_from_i64_le_bytes (ZatBalance_to_i64_le_bytes b) = Inr b
    \<and> Zatoshis_from_u64_le_bytes (Zatoshis_to_u64_le_bytes z) = Inr z
    \<and> Zatoshis_from_nonnegative_i64_le_bytes (Zatoshis_to_i64_le_bytes z) = Inr z
    \<and> Zatoshis_from_u64 (MAX_MONEY + 1) = Inl Overflow
    \<and> ZatBalance_from_i64 (- MAX_BALANCE - 1) = Inl Underflow"
proof (intro conjI)
  have z: "0 \<le> sint (zat_raw z)" using wf_zats_sint_range [OF assms(1)] by simp
  then have nn: "Zatoshis_from_nonnegative_i64 (zat_raw z) = Inr z"
    using assms(1) by (simp add: Zatoshis_from_nonnegative_i64_iff)
  show "Zatoshis_try_from_ZatBalance (ZatBalance_from_Zatoshis z) = Inr z"
    by (simp add: Zatoshis_try_from_ZatBalance_def ZatBalance_from_Zatoshis_def nn)
  have "wf_zats (Zatoshis (zb_raw b))" if "0 \<le> zb_val b"
    using uint_eq_sint64 [OF that] assms(2) by (simp add: wf_zats_iff wf_balance_iff)
  then show "Zatoshis_try_from_ZatBalance b =
      (if 0 \<le> zb_val b then Inr (Zatoshis (zb_raw b)) else Inl Underflow)"
    by (auto simp: Zatoshis_try_from_ZatBalance_def Zatoshis_from_nonnegative_i64_iff)
      (auto simp: Zatoshis_from_nonnegative_i64_def try_u64_of_i64_def)
  show "ZatBalance_from_i64_le_bytes (ZatBalance_to_i64_le_bytes b) = Inr b"
    using assms(2) by (simp add: ZatBalance_from_i64_le_bytes_def ZatBalance_to_i64_le_bytes_def
        le_word_le_bytes ZatBalance_from_i64_iff)
  show "Zatoshis_from_u64_le_bytes (Zatoshis_to_u64_le_bytes z) = Inr z"
    using assms(1) by (simp add: Zatoshis_from_u64_le_bytes_def Zatoshis_to_u64_le_bytes_def
        le_word_le_bytes Zatoshis_from_u64_iff)
  show "Zatoshis_from_nonnegative_i64_le_bytes (Zatoshis_to_i64_le_bytes z) = Inr z"
    by (simp add: Zatoshis_from_nonnegative_i64_le_bytes_def Zatoshis_to_i64_le_bytes_def
        le_word_le_bytes nn)
qed (simp_all add: Zatoshis_from_u64_def ZatBalance_from_i64_def MAX_BALANCE_def MAX_MONEY_num)

lemma amount_conversions_witness:
  "Zatoshis_try_from_ZatBalance (ZatBalance_from_Zatoshis (Zatoshis 9)) = Inr (Zatoshis 9)
   \<and> Zatoshis_try_from_ZatBalance (ZatBalance (- 1)) = Inl Underflow"
  using amount_conversions [of "Zatoshis 9" "ZatBalance (- 1)"]
  by (simp add: wf_zats_iff wf_balance_iff)

end
