(* ===== verification/Consensus.thy ===== *)
theory Consensus
  imports Value
begin

text \<open>
  \<open>components/zcash_protocol/src/consensus.rs\<close>, \<open>local_consensus.rs\<close>, \<open>constants.rs\<close> and the
  per-network constants: block heights with their saturating arithmetic, network
  parameters (the trait \<open>Parameters\<close> as a record of its two methods), the
  activation tables of the main and test networks, consensus branches and the
  epochs they rule. The build modelled has \<open>zcash_unstable = "crosslink"\<close> and not
  \<open>nu7\<close>. The locale \<open>ordered_activations\<close> is the contract a network's activation
  heights keep (later upgrades need the earlier ones and are not activated before
  them); it is interpreted on both real networks.
\<close>

subsection \<open>Block heights\<close>

datatype block_height = BlockHeight (bh_raw: u32)

instantiation block_height :: linorder
begin

definition less_eq_block_height :: "block_height \<Rightarrow> block_height \<Rightarrow> bool" where
  "less_eq_block_height a b \<longleftrightarrow> bh_raw a \<le> bh_raw b"

definition less_block_height :: "block_height \<Rightarrow> block_height \<Rightarrow> bool" where
  "less_block_height a b \<longleftrightarrow> bh_raw a < bh_raw b"

instance
  by standard (auto simp: less_eq_block_height_def less_block_height_def intro: block_height.expand)

end

lemmas block_height_ord = less_eq_block_height_def less_block_height_def

definition H0 :: block_height where
  "H0 = BlockHeight 0"

definition SECONDS_PER_BLOCK :: u32 where
  "SECONDS_PER_BLOCK = 75"

definition BLOCKS_PER_HOUR :: u32 where
  "BLOCKS_PER_HOUR = 3600 div SECONDS_PER_BLOCK"

definition saturating_add_u32 :: "u32 \<Rightarrow> u32 \<Rightarrow> u32" where
  "saturating_add_u32 a b = (if uint a + uint b < 2 ^ 32 then a + b else - 1)"

definition saturating_sub_u32 :: "u32 \<Rightarrow> u32 \<Rightarrow> u32" where
  "saturating_sub_u32 a b = (if b \<le> a then a - b else 0)"

definition BlockHeight_from_u32 :: "u32 \<Rightarrow> block_height" where
  "BlockHeight_from_u32 v = BlockHeight v"

definition BlockHeight_saturating_sub :: "block_height \<Rightarrow> u32 \<Rightarrow> block_height" where
  "BlockHeight_saturating_sub h v = BlockHeight (saturating_sub_u32 (bh_raw h) v)"

definition u32_from_BlockHeight :: "block_height \<Rightarrow> u32" where
  "u32_from_BlockHeight h = bh_raw h"

definition u64_from_BlockHeight :: "block_height \<Rightarrow> u64" where
  "u64_from_BlockHeight h = ucast (bh_raw h)"

definition i64_from_BlockHeight :: "block_height \<Rightarrow> i64" where
  "i64_from_BlockHeight h = ucast (bh_raw h)"

text \<open>The failing conversions carry \<open>TryFromIntError\<close>, which has no content: \<open>None\<close>.\<close>

definition BlockHeight_try_from_u64 :: "u64 \<Rightarrow> block_height option" where
  "BlockHeight_try_from_u64 value = map_option BlockHeight (try_u32 value)"

definition BlockHeight_try_from_i32 :: "i32 \<Rightarrow> block_height option" where
  "BlockHeight_try_from_i32 value = (if 0 \<le> sint value then Some (BlockHeight value) else None)"

definition BlockHeight_try_from_i64 :: "i64 \<Rightarrow> block_height option" where
  "BlockHeight_try_from_i64 value =
     (if 0 \<le> sint value \<and> sint value < 2 ^ 32 then Some (BlockHeight (ucast value)) else None)"

definition bh_add :: "block_height \<Rightarrow> u32 \<Rightarrow> block_height" where
  "bh_add h other = BlockHeight (saturating_add_u32 (bh_raw h) other)"

definition bh_sub :: "block_height \<Rightarrow> u32 \<Rightarrow> block_height" where
  "bh_sub h other = BlockHeight (saturating_sub_u32 (bh_raw h) other)"

definition bh_diff :: "block_height \<Rightarrow> block_height \<Rightarrow> u32" where
  "bh_diff h other = saturating_sub_u32 (bh_raw h) (bh_raw other)"

datatype tx_index = TxIndex (ti_raw: u16)

definition u32_from_TxIndex :: "tx_index \<Rightarrow> u32" where
  "u32_from_TxIndex i = ucast (ti_raw i)"

definition u64_from_TxIndex :: "tx_index \<Rightarrow> u64" where
  "u64_from_TxIndex i = ucast (ti_raw i)"

definition TxIndex_try_from_u32 :: "u32 \<Rightarrow> tx_index option" where
  "TxIndex_try_from_u32 value = (if uint value < 2 ^ 16 then Some (TxIndex (ucast value)) else None)"

definition TxIndex_try_from_u64 :: "u64 \<Rightarrow> tx_index option" where
  "TxIndex_try_from_u64 value = (if uint value < 2 ^ 16 then Some (TxIndex (ucast value)) else None)"

definition TxIndex_try_from_usize :: "usize \<Rightarrow> tx_index option" where
  "TxIndex_try_from_usize value = (if uint value < 2 ^ 16 then Some (TxIndex (ucast value)) else None)"

lemma uint32_less: "uint (a :: u32) < 4294967296"
  using uint_lt2p [of a] by simp

lemma uint_ucast_u32_u64 [simp]: "uint (ucast (a :: u32) :: u64) = uint a"
  using uint32_less [of a] by (simp add: unsigned_ucast_eq take_bit_int_eq_self)

lemma uint_saturating_add_u32:
  "uint (saturating_add_u32 a b) = min (uint a + uint b) 4294967295"
  using uint32_less [of a] uint32_less [of b]
  by (auto simp: saturating_add_u32_def uint_word_ariths unsigned_minus_1_eq_mask
      mask_eq_exp_minus_1)

lemma uint_saturating_sub_u32:
  "uint (saturating_sub_u32 a b) = max (uint a - uint b) 0"
proof (cases "b \<le> a")
  case True
  then have "uint b \<le> uint a" by (simp add: word_le_def)
  moreover have "uint a - uint b < 4294967296"
    using uint_sub_lt2p [of a b] by simp
  ultimately show ?thesis
    using True by (simp add: saturating_sub_u32_def uint_word_ariths)
qed (simp add: saturating_sub_u32_def word_le_def)

subsection \<open>Network upgrades and consensus branches\<close>

datatype network_upgrade =
    NuOverwinter
  | NuSapling
  | NuBlossom
  | NuHeartwood
  | NuCanopy
  | Nu5
  | Nu6
  | Nu6_1
  | Nu6_2
  | Nu6_3

datatype branch_id =
    BranchSprout
  | BranchOverwinter
  | BranchSapling
  | BranchBlossom
  | BranchHeartwood
  | BranchCanopy
  | BranchNu5
  | BranchNu6
  | BranchNu6_1
  | BranchNu6_2
  | BranchNu6_3

datatype orchard_protocol_revision = InsecureV1 | OrchardV2 | OrchardV3

fun branch_id_of :: "network_upgrade \<Rightarrow> branch_id" where
  "branch_id_of NuOverwinter = BranchOverwinter"
| "branch_id_of NuSapling = BranchSapling"
| "branch_id_of NuBlossom = BranchBlossom"
| "branch_id_of NuHeartwood = BranchHeartwood"
| "branch_id_of NuCanopy = BranchCanopy"
| "branch_id_of Nu5 = BranchNu5"
| "branch_id_of Nu6 = BranchNu6"
| "branch_id_of Nu6_1 = BranchNu6_1"
| "branch_id_of Nu6_2 = BranchNu6_2"
| "branch_id_of Nu6_3 = BranchNu6_3"

definition UPGRADES_IN_ORDER :: "network_upgrade list" where
  "UPGRADES_IN_ORDER =
     [NuOverwinter, NuSapling, NuBlossom, NuHeartwood, NuCanopy,
      Nu5, Nu6, Nu6_1, Nu6_2, Nu6_3]"

definition ZIP212_GRACE_PERIOD :: u32 where
  "ZIP212_GRACE_PERIOD = 32256"

definition COINBASE_MATURITY_BLOCKS :: u32 where
  "COINBASE_MATURITY_BLOCKS = 100"

definition MAX_BLOCK_REORG_HEIGHT :: u32 where
  "MAX_BLOCK_REORG_HEIGHT = COINBASE_MATURITY_BLOCKS - 1"

fun u32_from_BranchId :: "branch_id \<Rightarrow> u32" where
  "u32_from_BranchId BranchSprout = 0"
| "u32_from_BranchId BranchOverwinter = 0x5ba81b19"
| "u32_from_BranchId BranchSapling = 0x76b809bb"
| "u32_from_BranchId BranchBlossom = 0x2bb40e60"
| "u32_from_BranchId BranchHeartwood = 0xf5b9230b"
| "u32_from_BranchId BranchCanopy = 0xe9ff75a6"
| "u32_from_BranchId BranchNu5 = 0xc2d6d0b4"
| "u32_from_BranchId BranchNu6 = 0xc8e71055"
| "u32_from_BranchId BranchNu6_1 = 0x4dec4df0"
| "u32_from_BranchId BranchNu6_2 = 0x5437f330"
| "u32_from_BranchId BranchNu6_3 = 0x37a5165b"

definition BranchId_try_from_u32 :: "u32 \<Rightarrow> string + branch_id" where
  "BranchId_try_from_u32 value =
    (if value = 0 then Inr BranchSprout
     else if value = 0x5ba81b19 then Inr BranchOverwinter
     else if value = 0x76b809bb then Inr BranchSapling
     else if value = 0x2bb40e60 then Inr BranchBlossom
     else if value = 0xf5b9230b then Inr BranchHeartwood
     else if value = 0xe9ff75a6 then Inr BranchCanopy
     else if value = 0xc2d6d0b4 then Inr BranchNu5
     else if value = 0xc8e71055 then Inr BranchNu6
     else if value = 0x4dec4df0 then Inr BranchNu6_1
     else if value = 0x5437f330 then Inr BranchNu6_2
     else if value = 0x37a5165b then Inr BranchNu6_3
     else Inl ''Unknown consensus branch ID'')"

fun network_upgrade_of :: "branch_id \<Rightarrow> network_upgrade option" where
  "network_upgrade_of BranchSprout = None"
| "network_upgrade_of BranchOverwinter = Some NuOverwinter"
| "network_upgrade_of BranchSapling = Some NuSapling"
| "network_upgrade_of BranchBlossom = Some NuBlossom"
| "network_upgrade_of BranchHeartwood = Some NuHeartwood"
| "network_upgrade_of BranchCanopy = Some NuCanopy"
| "network_upgrade_of BranchNu5 = Some Nu5"
| "network_upgrade_of BranchNu6 = Some Nu6"
| "network_upgrade_of BranchNu6_1 = Some Nu6_1"
| "network_upgrade_of BranchNu6_2 = Some Nu6_2"
| "network_upgrade_of BranchNu6_3 = Some Nu6_3"

fun sprout_uses_groth_proofs :: "branch_id \<Rightarrow> bool" where
  "sprout_uses_groth_proofs b = (case b of BranchSprout \<Rightarrow> False | BranchOverwinter \<Rightarrow> False | _ \<Rightarrow> True)"

fun has_sprout :: "branch_id \<Rightarrow> bool" where
  "has_sprout b = True"

fun has_sapling :: "branch_id \<Rightarrow> bool" where
  "has_sapling b = (case b of BranchSprout \<Rightarrow> False | BranchOverwinter \<Rightarrow> False | _ \<Rightarrow> True)"

fun has_orchard :: "branch_id \<Rightarrow> bool" where
  "has_orchard b = (case b of
     BranchSprout \<Rightarrow> False | BranchOverwinter \<Rightarrow> False | BranchSapling \<Rightarrow> False
   | BranchBlossom \<Rightarrow> False | BranchHeartwood \<Rightarrow> False | BranchCanopy \<Rightarrow> False | _ \<Rightarrow> True)"

fun branch_orchard_revision :: "branch_id \<Rightarrow> orchard_protocol_revision option" where
  "branch_orchard_revision b = (case b of
     BranchNu5 \<Rightarrow> Some InsecureV1 | BranchNu6 \<Rightarrow> Some InsecureV1 | BranchNu6_1 \<Rightarrow> Some InsecureV1
   | BranchNu6_2 \<Rightarrow> Some OrchardV2 | BranchNu6_3 \<Rightarrow> Some OrchardV3 | _ \<Rightarrow> None)"

lemma branch_id_inverse:
  "network_upgrade_of (branch_id_of nu) = Some nu"
  "network_upgrade_of b = Some nu \<Longrightarrow> branch_id_of nu = b"
  by (cases nu; simp) (cases b; auto)

lemma BranchId_try_from_iff: "BranchId_try_from_u32 w = Inr b \<longleftrightarrow> w = u32_from_BranchId b"
  by (cases b) (auto simp: BranchId_try_from_u32_def)

subsection \<open>Networks\<close>

datatype network_type = Main | Test | Regtest

text \<open>The trait \<open>Parameters\<close>: an implementor is the pair of its required methods.\<close>

record parameters =
  network_type :: network_type
  activation_height :: "network_upgrade \<Rightarrow> block_height option"

definition is_nu_active :: "parameters \<Rightarrow> network_upgrade \<Rightarrow> block_height \<Rightarrow> bool" where
  "is_nu_active p nu height \<longleftrightarrow>
     (case activation_height p nu of None \<Rightarrow> False | Some h \<Rightarrow> h \<le> height)"

fun main_activation_height :: "network_upgrade \<Rightarrow> block_height option" where
  "main_activation_height NuOverwinter = Some (BlockHeight 347500)"
| "main_activation_height NuSapling = Some (BlockHeight 419200)"
| "main_activation_height NuBlossom = Some (BlockHeight 653600)"
| "main_activation_height NuHeartwood = Some (BlockHeight 903000)"
| "main_activation_height NuCanopy = Some (BlockHeight 1046400)"
| "main_activation_height Nu5 = Some (BlockHeight 1687104)"
| "main_activation_height Nu6 = Some (BlockHeight 2726400)"
| "main_activation_height Nu6_1 = Some (BlockHeight 3146400)"
| "main_activation_height Nu6_2 = Some (BlockHeight 3364600)"
| "main_activation_height Nu6_3 = Some (BlockHeight 3428143)"

fun test_activation_height :: "network_upgrade \<Rightarrow> block_height option" where
  "test_activation_height NuOverwinter = Some (BlockHeight 207500)"
| "test_activation_height NuSapling = Some (BlockHeight 280000)"
| "test_activation_height NuBlossom = Some (BlockHeight 584000)"
| "test_activation_height NuHeartwood = Some (BlockHeight 903800)"
| "test_activation_height NuCanopy = Some (BlockHeight 1028500)"
| "test_activation_height Nu5 = Some (BlockHeight 1842420)"
| "test_activation_height Nu6 = Some (BlockHeight 2976000)"
| "test_activation_height Nu6_1 = Some (BlockHeight 3536500)"
| "test_activation_height Nu6_2 = Some (BlockHeight 4052000)"
| "test_activation_height Nu6_3 = Some (BlockHeight 4134000)"

definition MainNetwork :: parameters where
  "MainNetwork = \<lparr>network_type = Main, activation_height = main_activation_height\<rparr>"

definition TestNetwork :: parameters where
  "TestNetwork = \<lparr>network_type = Test, activation_height = test_activation_height\<rparr>"

datatype network = Network_Main | Network_Test

definition Network_parameters :: "network \<Rightarrow> parameters" where
  "Network_parameters n =
     \<lparr>network_type = (case n of Network_Main \<Rightarrow> Main | Network_Test \<Rightarrow> Test),
      activation_height = (\<lambda>nu. case n of
        Network_Main \<Rightarrow> activation_height MainNetwork nu
      | Network_Test \<Rightarrow> activation_height TestNetwork nu)\<rparr>"

record local_network =
  ln_overwinter :: "block_height option"
  ln_sapling :: "block_height option"
  ln_blossom :: "block_height option"
  ln_heartwood :: "block_height option"
  ln_canopy :: "block_height option"
  ln_nu5 :: "block_height option"
  ln_nu6 :: "block_height option"
  ln_nu6_1 :: "block_height option"
  ln_nu6_2 :: "block_height option"
  ln_nu6_3 :: "block_height option"

definition LocalNetwork_parameters :: "local_network \<Rightarrow> parameters" where
  "LocalNetwork_parameters ln =
     \<lparr>network_type = Regtest,
      activation_height = (\<lambda>nu. case nu of
        NuOverwinter \<Rightarrow> ln_overwinter ln
      | NuSapling \<Rightarrow> ln_sapling ln
      | NuBlossom \<Rightarrow> ln_blossom ln
      | NuHeartwood \<Rightarrow> ln_heartwood ln
      | NuCanopy \<Rightarrow> ln_canopy ln
      | Nu5 \<Rightarrow> ln_nu5 ln
      | Nu6 \<Rightarrow> ln_nu6 ln
      | Nu6_1 \<Rightarrow> ln_nu6_1 ln
      | Nu6_2 \<Rightarrow> ln_nu6_2 ln
      | Nu6_3 \<Rightarrow> ln_nu6_3 ln)\<rparr>"

subsection \<open>Epochs\<close>

text \<open>The loop over \<open>UPGRADES_IN_ORDER.iter().rev()\<close> returns at the first active upgrade.\<close>

definition for_height :: "parameters \<Rightarrow> block_height \<Rightarrow> branch_id" where
  "for_height p height =
     (case find (\<lambda>nu. is_nu_active p nu height) (rev UPGRADES_IN_ORDER) of
        Some nu \<Rightarrow> branch_id_of nu
      | None \<Rightarrow> BranchSprout)"

fun height_bounds :: "branch_id \<Rightarrow> parameters \<Rightarrow> (block_height \<times> block_height option) option" where
  "height_bounds BranchSprout p =
     map_option (\<lambda>upper. (BlockHeight 0, Some upper)) (activation_height p NuOverwinter)"
| "height_bounds BranchOverwinter p =
     map_option (\<lambda>lower. (lower, activation_height p NuSapling)) (activation_height p NuOverwinter)"
| "height_bounds BranchSapling p =
     map_option (\<lambda>lower. (lower, activation_height p NuBlossom)) (activation_height p NuSapling)"
| "height_bounds BranchBlossom p =
     map_option (\<lambda>lower. (lower, activation_height p NuHeartwood)) (activation_height p NuBlossom)"
| "height_bounds BranchHeartwood p =
     map_option (\<lambda>lower. (lower, activation_height p NuCanopy)) (activation_height p NuHeartwood)"
| "height_bounds BranchCanopy p =
     map_option (\<lambda>lower. (lower, activation_height p Nu5)) (activation_height p NuCanopy)"
| "height_bounds BranchNu5 p =
     map_option (\<lambda>lower. (lower, activation_height p Nu6)) (activation_height p Nu5)"
| "height_bounds BranchNu6 p =
     map_option (\<lambda>lower. (lower, activation_height p Nu6_1)) (activation_height p Nu6)"
| "height_bounds BranchNu6_1 p =
     map_option (\<lambda>lower. (lower, activation_height p Nu6_2)) (activation_height p Nu6_1)"
| "height_bounds BranchNu6_2 p =
     map_option (\<lambda>lower. (lower, activation_height p Nu6_3)) (activation_height p Nu6_2)"
| "height_bounds BranchNu6_3 p =
     map_option (\<lambda>lower. (lower, None)) (activation_height p Nu6_3)"

datatype range_bound = Included block_height | Excluded block_height | Unbounded

definition height_range :: "branch_id \<Rightarrow> parameters \<Rightarrow> (range_bound \<times> range_bound) option" where
  "height_range b p = map_option (\<lambda>(lower, upper).
     (Included lower, case upper of None \<Rightarrow> Unbounded | Some u \<Rightarrow> Excluded u)) (height_bounds b p)"

text \<open>\<open>RangeBounds::contains\<close> of the standard library.\<close>

fun range_contains :: "range_bound \<times> range_bound \<Rightarrow> block_height \<Rightarrow> bool" where
  "range_contains (lo, hi) h \<longleftrightarrow>
     (case lo of Included l \<Rightarrow> l \<le> h | Excluded l \<Rightarrow> l < h | Unbounded \<Rightarrow> True) \<and>
     (case hi of Included u \<Rightarrow> h \<le> u | Excluded u \<Rightarrow> h < u | Unbounded \<Rightarrow> True)"

definition V3_TX_VERSION :: u32 where "V3_TX_VERSION = 3"
definition V3_VERSION_GROUP_ID :: u32 where "V3_VERSION_GROUP_ID = 0x03C48270"
definition V4_TX_VERSION :: u32 where "V4_TX_VERSION = 4"
definition V4_VERSION_GROUP_ID :: u32 where "V4_VERSION_GROUP_ID = 0x892F2085"
definition V5_TX_VERSION :: u32 where "V5_TX_VERSION = 5"
definition V5_VERSION_GROUP_ID :: u32 where "V5_VERSION_GROUP_ID = 0x26A7270A"
definition V6_TX_VERSION :: u32 where "V6_TX_VERSION = 6"
definition V6_VERSION_GROUP_ID :: u32 where "V6_VERSION_GROUP_ID = 0xD884B698"
definition VCROSSLINK_TX_VERSION :: u32 where "VCROSSLINK_TX_VERSION = 7"
definition VCROSSLINK_VERSION_GROUP_ID :: u32 where "VCROSSLINK_VERSION_GROUP_ID = 0xFFFFFFFE"
definition STAKING_PERIOD :: u32 where "STAKING_PERIOD = 150"
definition STAKING_DAY_WINDOW :: u32 where "STAKING_DAY_WINDOW = 70"
definition SLASH_ANALYSIS_WINDOW :: u32 where "SLASH_ANALYSIS_WINDOW = 2 * STAKING_PERIOD"
definition MAX_BLOCK_BYTES :: usize where "MAX_BLOCK_BYTES = 2000000"

definition is_in_staking_day_window :: "block_height \<Rightarrow> bool" where
  "is_in_staking_day_window height \<longleftrightarrow>
     u32_from_BlockHeight height mod STAKING_PERIOD < STAKING_DAY_WINDOW"

subsection \<open>Network constants\<close>

text \<open>
  The constants modules \<open>mainnet\<close>, \<open>testnet\<close> and \<open>regtest\<close> as records of the values they
  declare; a method of \<open>NetworkConstants for NetworkType\<close> selects one by the network.
\<close>

record network_constants =
  c_coin_type :: u32
  c_hrp_sapling_extended_spending_key :: string
  c_hrp_sapling_extended_full_viewing_key :: string
  c_hrp_sapling_payment_address :: string
  c_b58_sprout_address_prefix :: bytes
  c_b58_secret_key_prefix :: bytes
  c_b58_pubkey_address_prefix :: bytes
  c_b58_script_address_prefix :: bytes
  c_hrp_tex_address :: string
  c_hrp_unified_address :: string
  c_hrp_unified_fvk :: string
  c_hrp_unified_ivk :: string

definition mainnet_constants :: network_constants where
  "mainnet_constants =
     \<lparr>c_coin_type = 133,
      c_hrp_sapling_extended_spending_key = ''secret-extended-key-main'',
      c_hrp_sapling_extended_full_viewing_key = ''zxviews'',
      c_hrp_sapling_payment_address = ''zs'',
      c_b58_sprout_address_prefix = [0x16, 0x9a],
      c_b58_secret_key_prefix = [0x80],
      c_b58_pubkey_address_prefix = [0x1c, 0xb8],
      c_b58_script_address_prefix = [0x1c, 0xbd],
      c_hrp_tex_address = ''tex'',
      c_hrp_unified_address = ''u'',
      c_hrp_unified_fvk = ''uview'',
      c_hrp_unified_ivk = ''uivk''\<rparr>"

definition testnet_constants :: network_constants where
  "testnet_constants =
     \<lparr>c_coin_type = 1,
      c_hrp_sapling_extended_spending_key = ''secret-extended-key-test'',
      c_hrp_sapling_extended_full_viewing_key = ''zxviewtestsapling'',
      c_hrp_sapling_payment_address = ''ztestsapling'',
      c_b58_sprout_address_prefix = [0x16, 0xb6],
      c_b58_secret_key_prefix = [0xef],
      c_b58_pubkey_address_prefix = [0x1d, 0x25],
      c_b58_script_address_prefix = [0x1c, 0xba],
      c_hrp_tex_address = ''textest'',
      c_hrp_unified_address = ''utest'',
      c_hrp_unified_fvk = ''uviewtest'',
      c_hrp_unified_ivk = ''uivktest''\<rparr>"

definition regtest_constants :: network_constants where
  "regtest_constants =
     \<lparr>c_coin_type = 1,
      c_hrp_sapling_extended_spending_key = ''secret-extended-key-regtest'',
      c_hrp_sapling_extended_full_viewing_key = ''zxviewregtestsapling'',
      c_hrp_sapling_payment_address = ''zregtestsapling'',
      c_b58_sprout_address_prefix = [0x16, 0xb6],
      c_b58_secret_key_prefix = [0xef],
      c_b58_pubkey_address_prefix = [0x1d, 0x25],
      c_b58_script_address_prefix = [0x1c, 0xba],
      c_hrp_tex_address = ''texregtest'',
      c_hrp_unified_address = ''uregtest'',
      c_hrp_unified_fvk = ''uviewregtest'',
      c_hrp_unified_ivk = ''uivkregtest''\<rparr>"

fun constants_of :: "network_type \<Rightarrow> network_constants" where
  "constants_of Main = mainnet_constants"
| "constants_of Test = testnet_constants"
| "constants_of Regtest = regtest_constants"

definition coin_type :: "network_type \<Rightarrow> u32" where
  "coin_type net = c_coin_type (constants_of net)"

definition hrp_sapling_extended_spending_key :: "network_type \<Rightarrow> string" where
  "hrp_sapling_extended_spending_key net = c_hrp_sapling_extended_spending_key (constants_of net)"

definition hrp_sapling_extended_full_viewing_key :: "network_type \<Rightarrow> string" where
  "hrp_sapling_extended_full_viewing_key net = c_hrp_sapling_extended_full_viewing_key (constants_of net)"

definition hrp_sapling_payment_address :: "network_type \<Rightarrow> string" where
  "hrp_sapling_payment_address net = c_hrp_sapling_payment_address (constants_of net)"

definition b58_sprout_address_prefix :: "network_type \<Rightarrow> bytes" where
  "b58_sprout_address_prefix net = c_b58_sprout_address_prefix (constants_of net)"

definition b58_secret_key_prefix :: "network_type \<Rightarrow> bytes" where
  "b58_secret_key_prefix net = c_b58_secret_key_prefix (constants_of net)"

definition b58_pubkey_address_prefix :: "network_type \<Rightarrow> bytes" where
  "b58_pubkey_address_prefix net = c_b58_pubkey_address_prefix (constants_of net)"

definition b58_script_address_prefix :: "network_type \<Rightarrow> bytes" where
  "b58_script_address_prefix net = c_b58_script_address_prefix (constants_of net)"

definition hrp_tex_address :: "network_type \<Rightarrow> string" where
  "hrp_tex_address net = c_hrp_tex_address (constants_of net)"

definition hrp_unified_address :: "network_type \<Rightarrow> string" where
  "hrp_unified_address net = c_hrp_unified_address (constants_of net)"

definition hrp_unified_fvk :: "network_type \<Rightarrow> string" where
  "hrp_unified_fvk net = c_hrp_unified_fvk (constants_of net)"

definition hrp_unified_ivk :: "network_type \<Rightarrow> string" where
  "hrp_unified_ivk net = c_hrp_unified_ivk (constants_of net)"

text \<open>Every human-readable prefix of a network, in the order of the trait.\<close>

definition hrps :: "network_type \<Rightarrow> string list" where
  "hrps net =
     [hrp_sapling_extended_spending_key net,
      hrp_sapling_extended_full_viewing_key net,
      hrp_sapling_payment_address net,
      hrp_tex_address net,
      hrp_unified_address net,
      hrp_unified_fvk net,
      hrp_unified_ivk net]"

lemmas network_constant_defs =
  mainnet_constants_def testnet_constants_def regtest_constants_def
  coin_type_def
  hrp_sapling_extended_spending_key_def
  hrp_sapling_extended_full_viewing_key_def
  hrp_sapling_payment_address_def
  b58_sprout_address_prefix_def
  b58_secret_key_prefix_def
  b58_pubkey_address_prefix_def
  b58_script_address_prefix_def
  hrp_tex_address_def
  hrp_unified_address_def
  hrp_unified_fvk_def
  hrp_unified_ivk_def

text \<open>No two networks share a human-readable prefix and no network uses one prefix for two
  encodings, so a Bech32 string of one network or kind never decodes as another's; the
  Base58Check prefixes of mainnet differ from those of both test networks (which share theirs).\<close>

theorem network_prefixes_separate:
  "(\<forall>n. distinct (hrps n))
    \<and> (\<forall>m n. m = n \<or> set (hrps m) \<inter> set (hrps n) = {})
    \<and> (\<forall>n. n = Main \<or>
         b58_sprout_address_prefix n \<noteq> b58_sprout_address_prefix Main
         \<and> b58_secret_key_prefix n \<noteq> b58_secret_key_prefix Main
         \<and> b58_pubkey_address_prefix n \<noteq> b58_pubkey_address_prefix Main
         \<and> b58_script_address_prefix n \<noteq> b58_script_address_prefix Main
         \<and> b58_pubkey_address_prefix n \<noteq> b58_script_address_prefix n)"
proof (intro conjI allI)
  show "distinct (hrps n)" for n
    by (cases n) (simp_all add: hrps_def network_constant_defs)
  show "m = n \<or> set (hrps m) \<inter> set (hrps n) = {}" for m n
    by (cases m; cases n) (simp_all add: hrps_def network_constant_defs)
  show "n = Main \<or>
         b58_sprout_address_prefix n \<noteq> b58_sprout_address_prefix Main
         \<and> b58_secret_key_prefix n \<noteq> b58_secret_key_prefix Main
         \<and> b58_pubkey_address_prefix n \<noteq> b58_pubkey_address_prefix Main
         \<and> b58_script_address_prefix n \<noteq> b58_script_address_prefix Main
         \<and> b58_pubkey_address_prefix n \<noteq> b58_script_address_prefix n" for n
    by (cases n) (simp_all add: network_constant_defs)
qed

subsection \<open>The contract of activation heights\<close>

fun nu_index :: "network_upgrade \<Rightarrow> nat" where
  "nu_index NuOverwinter = 0"
| "nu_index NuSapling = 1"
| "nu_index NuBlossom = 2"
| "nu_index NuHeartwood = 3"
| "nu_index NuCanopy = 4"
| "nu_index Nu5 = 5"
| "nu_index Nu6 = 6"
| "nu_index Nu6_1 = 7"
| "nu_index Nu6_2 = 8"
| "nu_index Nu6_3 = 9"

fun branch_index :: "branch_id \<Rightarrow> nat" where
  "branch_index b = (case network_upgrade_of b of None \<Rightarrow> 0 | Some nu \<Rightarrow> Suc (nu_index nu))"

text \<open>The upgrade that ends the epoch of a branch.\<close>

fun next_upgrade :: "branch_id \<Rightarrow> network_upgrade option" where
  "next_upgrade BranchSprout = Some NuOverwinter"
| "next_upgrade BranchOverwinter = Some NuSapling"
| "next_upgrade BranchSapling = Some NuBlossom"
| "next_upgrade BranchBlossom = Some NuHeartwood"
| "next_upgrade BranchHeartwood = Some NuCanopy"
| "next_upgrade BranchCanopy = Some Nu5"
| "next_upgrade BranchNu5 = Some Nu6"
| "next_upgrade BranchNu6 = Some Nu6_1"
| "next_upgrade BranchNu6_1 = Some Nu6_2"
| "next_upgrade BranchNu6_2 = Some Nu6_3"
| "next_upgrade BranchNu6_3 = None"

locale ordered_activations =
  fixes p :: parameters
  assumes ordered: "nu_index a \<le> nu_index b \<Longrightarrow> activation_height p b = Some hb \<Longrightarrow>
    \<exists>ha. activation_height p a = Some ha \<and> ha \<le> hb"
begin

lemma active_earlier:
  "nu_index a \<le> nu_index b \<Longrightarrow> is_nu_active p b h \<Longrightarrow> is_nu_active p a h"
  using ordered by (fastforce simp: is_nu_active_def split: option.splits)

lemma inactive_chain:
  "\<not> is_nu_active p NuOverwinter h \<Longrightarrow> \<not> is_nu_active p NuSapling h"
  "\<not> is_nu_active p NuSapling h \<Longrightarrow> \<not> is_nu_active p NuBlossom h"
  "\<not> is_nu_active p NuBlossom h \<Longrightarrow> \<not> is_nu_active p NuHeartwood h"
  "\<not> is_nu_active p NuHeartwood h \<Longrightarrow> \<not> is_nu_active p NuCanopy h"
  "\<not> is_nu_active p NuCanopy h \<Longrightarrow> \<not> is_nu_active p Nu5 h"
  "\<not> is_nu_active p Nu5 h \<Longrightarrow> \<not> is_nu_active p Nu6 h"
  "\<not> is_nu_active p Nu6 h \<Longrightarrow> \<not> is_nu_active p Nu6_1 h"
  "\<not> is_nu_active p Nu6_1 h \<Longrightarrow> \<not> is_nu_active p Nu6_2 h"
  "\<not> is_nu_active p Nu6_2 h \<Longrightarrow> \<not> is_nu_active p Nu6_3 h"
  by (erule contrapos_nn, erule active_earlier [rotated]; simp)+

text \<open>The branch of a height is the one of the last upgrade that is active there.\<close>

lemma for_height_unfold:
  "for_height p h = (
     if is_nu_active p Nu6_3 h then BranchNu6_3
     else if is_nu_active p Nu6_2 h then BranchNu6_2
     else if is_nu_active p Nu6_1 h then BranchNu6_1
     else if is_nu_active p Nu6 h then BranchNu6
     else if is_nu_active p Nu5 h then BranchNu5
     else if is_nu_active p NuCanopy h then BranchCanopy
     else if is_nu_active p NuHeartwood h then BranchHeartwood
     else if is_nu_active p NuBlossom h then BranchBlossom
     else if is_nu_active p NuSapling h then BranchSapling
     else if is_nu_active p NuOverwinter h then BranchOverwinter
     else BranchSprout)"
  by (simp add: for_height_def UPGRADES_IN_ORDER_def)

lemma for_height_iff:
  "for_height p h = b \<longleftrightarrow>
     (case network_upgrade_of b of None \<Rightarrow> True | Some nu \<Rightarrow> is_nu_active p nu h) \<and>
     (case next_upgrade b of None \<Rightarrow> True | Some nu \<Rightarrow> \<not> is_nu_active p nu h)"
  by (cases b) (auto simp: for_height_unfold inactive_chain split: if_splits)

text \<open>An upgrade is in force exactly from the heights whose branch is at least its own.\<close>

lemma active_iff_branch:
  "is_nu_active p nu h \<longleftrightarrow> nu_index nu < branch_index (for_height p h)"
proof
  assume act: "is_nu_active p nu h"
  show "nu_index nu < branch_index (for_height p h)"
  proof (rule ccontr)
    assume "\<not> ?thesis"
    then obtain nu' where nu': "next_upgrade (for_height p h) = Some nu'" "nu_index nu' \<le> nu_index nu"
      by (cases "for_height p h"; cases nu; simp)
    then show False using for_height_iff [of h "for_height p h"] active_earlier act by auto
  qed
next
  assume less: "nu_index nu < branch_index (for_height p h)"
  then obtain nu' where nu': "network_upgrade_of (for_height p h) = Some nu'" "nu_index nu \<le> nu_index nu'"
    by (auto split: option.splits)
  then show "is_nu_active p nu h"
    using for_height_iff [of h "for_height p h"] active_earlier [of nu nu'] by auto
qed

lemma for_height_mono:
  assumes "h \<le> h'"
  shows "branch_index (for_height p h) \<le> branch_index (for_height p h')"
proof (cases "network_upgrade_of (for_height p h)")
  case (Some nu)
  then have "is_nu_active p nu h" by (simp add: active_iff_branch)
  then have "is_nu_active p nu h'"
    using assms by (auto simp: is_nu_active_def split: option.splits)
  then show ?thesis using Some by (simp add: active_iff_branch)
qed simp

end

text \<open>A network that activates Overwinter at some height; without it \<open>height_bounds\<close> has no epoch.\<close>

locale activated_network = ordered_activations +
  assumes overwinter: "activation_height p NuOverwinter \<noteq> None"
begin

lemma height_range_iff:
  "for_height p h = b \<longleftrightarrow> (case height_range b p of None \<Rightarrow> False | Some r \<Rightarrow> range_contains r h)"
proof -
  have bounds: "(case map_option (\<lambda>(lower, upper). (Included lower,
           case upper of None \<Rightarrow> Unbounded | Some u \<Rightarrow> Excluded u))
           (map_option (\<lambda>lower. (lower, activation_height p nu')) (activation_height p nu)) of
         None \<Rightarrow> False | Some r \<Rightarrow> range_contains r h) \<longleftrightarrow>
       is_nu_active p nu h \<and> \<not> is_nu_active p nu' h" for nu nu'
    by (auto simp: is_nu_active_def split: option.splits)
  have "BlockHeight 0 \<le> h" by (simp add: less_eq_block_height_def)
  show ?thesis
  proof (cases b)
    case BranchSprout
    then show ?thesis
      using overwinter \<open>BlockHeight 0 \<le> h\<close>
      by (auto simp: for_height_iff height_range_def is_nu_active_def not_le)
  qed (simp_all add: for_height_iff height_range_def bounds, auto simp: is_nu_active_def split: option.splits)
qed

end

lemma ordered_by_raw:
  assumes "\<And>nu. activation_height p nu = Some (f nu)"
    and "\<And>a b. nu_index a \<le> nu_index b \<Longrightarrow> f a \<le> f b"
  shows "activated_network p"
  using assms by unfold_locales auto

interpretation main_net: activated_network MainNetwork
  by (rule ordered_by_raw [of _ "\<lambda>nu. the (main_activation_height nu)"])
    (case_tac nu, simp_all add: MainNetwork_def, case_tac a,
      (case_tac b, simp_all add: block_height_ord)+)

interpretation test_net: activated_network TestNetwork
  by (rule ordered_by_raw [of _ "\<lambda>nu. the (test_activation_height nu)"])
    (case_tac nu, simp_all add: TestNetwork_def, case_tac a,
      (case_tac b, simp_all add: block_height_ord)+)

text \<open>C38: On the main and the test network \<open>for_height\<close> and \<open>height_range\<close> agree: a height is
  ruled by exactly the branch whose epoch contains it, the epochs never run backwards, and an
  upgrade is active exactly when the branch in force is its own or a later one.\<close>

theorem epochs_partition_heights:
  assumes "p = Network_parameters n" "h \<le> h'"
  shows "(for_height p h = b \<longleftrightarrow>
           (case height_range b p of None \<Rightarrow> False | Some r \<Rightarrow> range_contains r h))
    \<and> branch_index (for_height p h) \<le> branch_index (for_height p h')
    \<and> (is_nu_active p nu h \<longleftrightarrow> nu_index nu < branch_index (for_height p h))"
proof (cases n)
  case Network_Main
  then have "p = MainNetwork" using assms(1) by (simp add: Network_parameters_def MainNetwork_def)
  then show ?thesis
    using main_net.height_range_iff main_net.for_height_mono main_net.active_iff_branch assms(2)
    by simp
next
  case Network_Test
  then have "p = TestNetwork" using assms(1) by (simp add: Network_parameters_def TestNetwork_def)
  then show ?thesis
    using test_net.height_range_iff test_net.for_height_mono test_net.active_iff_branch assms(2)
    by simp
qed

lemma epochs_partition_heights_witness:
  "for_height (Network_parameters Network_Main) (BlockHeight 1687104) = BranchNu5"
  using epochs_partition_heights [OF refl order_refl, of Network_Main "BlockHeight 1687104" BranchNu5]
  by (simp add: height_range_def Network_parameters_def MainNetwork_def block_height_ord)

text \<open>\<open>u32::from\<close> and \<open>BranchId::try_from\<close> invert each other, so branch identifiers are
  pairwise distinct and every other 32-bit value is refused; \<open>network_upgrade\<close> and \<open>branch_id\<close>
  invert each other in the same way, with Sprout as the only branch without an upgrade.\<close>

theorem branch_id_roundtrip:
  "(BranchId_try_from_u32 w = Inr b \<longleftrightarrow> w = u32_from_BranchId b)
    \<and> (w \<notin> range u32_from_BranchId \<longleftrightarrow>
         BranchId_try_from_u32 w = Inl ''Unknown consensus branch ID'')
    \<and> (network_upgrade_of b = Some nu \<longleftrightarrow> branch_id_of nu = b)
    \<and> (network_upgrade_of b = None \<longleftrightarrow> b = BranchSprout)"
proof (intro conjI)
  show "BranchId_try_from_u32 w = Inr b \<longleftrightarrow> w = u32_from_BranchId b"
    by (rule BranchId_try_from_iff)
  show "w \<notin> range u32_from_BranchId \<longleftrightarrow>
      BranchId_try_from_u32 w = Inl ''Unknown consensus branch ID''"
  proof (cases "BranchId_try_from_u32 w")
    case (Inl e)
    then have "e = ''Unknown consensus branch ID''"
      by (simp add: BranchId_try_from_u32_def split: if_splits)
    moreover have "w \<noteq> u32_from_BranchId b" for b
      using Inl BranchId_try_from_iff [of w b] by simp
    ultimately show ?thesis using Inl by blast
  next
    case (Inr b)
    then show ?thesis using BranchId_try_from_iff [of w b] by simp
  qed
  show "network_upgrade_of b = Some nu \<longleftrightarrow> branch_id_of nu = b"
    using branch_id_inverse by blast
  show "network_upgrade_of b = None \<longleftrightarrow> b = BranchSprout"
    by (cases b) simp_all
qed

text \<open>On a network that never activates Overwinter the Sprout rules are in force at every
  height, yet \<open>height_bounds\<close> of the Sprout branch is \<open>None\<close>, the value documented as "never in
  effect".\<close>

theorem sprout_epoch_without_overwinter:
  assumes "\<forall>nu. activation_height p nu = None"
  shows "for_height p h = BranchSprout \<and> height_bounds BranchSprout p = None"
  using assms by (simp add: for_height_def UPGRADES_IN_ORDER_def is_nu_active_def)

lemma sprout_epoch_without_overwinter_witness:
  "for_height (LocalNetwork_parameters \<lparr>ln_overwinter = None, ln_sapling = None, ln_blossom = None, ln_heartwood = None, ln_canopy = None, ln_nu5 = None, ln_nu6 = None, ln_nu6_1 = None, ln_nu6_2 = None, ln_nu6_3 = None\<rparr>) (BlockHeight 7) = BranchSprout"
  by (intro conjunct1 [OF sprout_epoch_without_overwinter])
    (simp add: LocalNetwork_parameters_def split: network_upgrade.split)

text \<open>Block heights never wrap: adding and subtracting a delta and the distance of two heights
  are the integer results clamped to the \<open>u32\<close> range, and a checked conversion accepts exactly
  the integers of that range.\<close>

theorem block_height_saturates:
  "uint (bh_raw (bh_add h d)) = min (uint (bh_raw h) + uint d) 4294967295
    \<and> uint (bh_raw (bh_sub h d)) = max (uint (bh_raw h) - uint d) 0
    \<and> BlockHeight_saturating_sub h d = bh_sub h d
    \<and> uint (bh_diff h h') = max (uint (bh_raw h) - uint (bh_raw h')) 0
    \<and> h \<le> bh_add h d \<and> bh_sub h d \<le> h
    \<and> (BlockHeight_try_from_u64 x = Some h \<longleftrightarrow> uint x = uint (bh_raw h))
    \<and> BlockHeight_try_from_u64 (u64_from_BlockHeight h) = Some h"
proof (intro conjI)
  show add: "uint (bh_raw (bh_add h d)) = min (uint (bh_raw h) + uint d) 4294967295"
    by (simp add: bh_add_def uint_saturating_add_u32)
  show sub: "uint (bh_raw (bh_sub h d)) = max (uint (bh_raw h) - uint d) 0"
    by (simp add: bh_sub_def uint_saturating_sub_u32)
  show "BlockHeight_saturating_sub h d = bh_sub h d"
    by (simp add: bh_sub_def BlockHeight_saturating_sub_def)
  show "uint (bh_diff h h') = max (uint (bh_raw h) - uint (bh_raw h')) 0"
    by (simp add: bh_diff_def uint_saturating_sub_u32)
  show "h \<le> bh_add h d" "bh_sub h d \<le> h"
    using add sub uint32_less [of "bh_raw h"]
    by (simp_all add: less_eq_block_height_def word_le_def)
  show "BlockHeight_try_from_u64 x = Some h \<longleftrightarrow> uint x = uint (bh_raw h)"
  proof -
    have "BlockHeight_try_from_u64 x = Some h \<longleftrightarrow> x = ucast (bh_raw h)"
      by (cases h) (auto simp: BlockHeight_try_from_u64_def try_u32_Some)
    then show ?thesis by (simp add: word_eq_iff_unsigned [where ?'a = int])
  qed
  show "BlockHeight_try_from_u64 (u64_from_BlockHeight h) = Some h"
    by (simp add: BlockHeight_try_from_u64_def u64_from_BlockHeight_def)
qed

end
