(* ===== verification/Zip318.thy ===== *)
theory Zip318
  imports Consensus
begin

text \<open>
  \<open>components/zcash_protocol/src/zip318.rs\<close>: the canonical denomination series, the rolling
  expiry window, the anchor bucket grid and the classification of transactions by
  pool-migration shape. The two \<open>while\<close> loops that need not end are
  \<open>partial_function (option)\<close>: \<open>None\<close> is a call that does not return, and the
  theorems say exactly when that happens. A panic (the remainder by a zero modulus)
  is \<open>None\<close> of an option as well.
\<close>

subsection \<open>Constants\<close>

definition DENOMINATION_RADIX :: u64 where "DENOMINATION_RADIX = 10"
definition ONE_TWO_FIVE_DESCENDING :: "u64 list" where "ONE_TWO_FIVE_DESCENDING = [5, 2, 1]"
definition DENOM_CAP :: zatoshis where "DENOM_CAP = Zatoshis (10000 * COIN)"
definition MAX_RESIDUAL_VALUE :: zatoshis where "MAX_RESIDUAL_VALUE = Zatoshis (COIN div 100)"
definition PREP_TX_ACTIONS :: usize where "PREP_TX_ACTIONS = 16"
definition PREP_DELAY_MEAN :: u32 where "PREP_DELAY_MEAN = 16"
definition PREP_DELAY_CAP :: u32 where "PREP_DELAY_CAP = 96"
definition TRANSFER_DELAY_MEAN :: u32 where "TRANSFER_DELAY_MEAN = 66"
definition TRANSFER_DELAY_CAP :: u32 where "TRANSFER_DELAY_CAP = 576"
definition ANCHOR_AGE_CAP :: u32 where "ANCHOR_AGE_CAP = 4"
definition EXPIRY_MODULUS :: u32 where "EXPIRY_MODULUS = 34560"
definition EXPIRY_WINDOW :: u32 where "EXPIRY_WINDOW = 2 * EXPIRY_MODULUS"
definition CROSSING_SOURCE_ACTIONS :: usize where "CROSSING_SOURCE_ACTIONS = 2"
definition CROSSING_DESTINATION_ACTIONS :: usize where "CROSSING_DESTINATION_ACTIONS = 1"

subsection \<open>Denominations\<close>

text \<open>\<open>while pow.checked_mul(RADIX).is_some_and(|p| p <= hi) { pow *= RADIX }\<close>\<close>

partial_function (option) grow_power :: "u64 \<Rightarrow> u64 \<Rightarrow> u64 option" where
  "grow_power hi pow =
     (case checked_mul_u64 pow DENOMINATION_RADIX of
        Some p \<Rightarrow> (if p \<le> hi then grow_power hi (pow * DENOMINATION_RADIX) else Some pow)
      | None \<Rightarrow> Some pow)"

text \<open>\<open>for multiple in ONE_TWO_FIVE_DESCENDING { ... return v }\<close>, then \<open>pow\<close>.\<close>

fun first_multiple :: "u64 \<Rightarrow> u64 \<Rightarrow> u64 list \<Rightarrow> u64" where
  "first_multiple hi pow [] = pow"
| "first_multiple hi pow (m # ms) =
     (case checked_mul_u64 pow m of
        Some v \<Rightarrow> (if v \<le> hi then v else first_multiple hi pow ms)
      | None \<Rightarrow> first_multiple hi pow ms)"

definition largest_one_two_five :: "u64 \<Rightarrow> u64 \<Rightarrow> u64 option" where
  "largest_one_two_five hi floor =
     (if hi < floor then Some 0
      else map_option (\<lambda>pow. first_multiple hi pow ONE_TWO_FIVE_DESCENDING) (grow_power hi floor))"

text \<open>\<open>while n.is_multiple_of(RADIX) { n /= RADIX }\<close>\<close>

partial_function (option) strip_radix :: "u64 \<Rightarrow> u64 option" where
  "strip_radix n = (if n mod DENOMINATION_RADIX = 0 then strip_radix (n div DENOMINATION_RADIX)
                    else Some n)"

definition is_canonical_within :: "zatoshis \<Rightarrow> zatoshis \<Rightarrow> zatoshis \<Rightarrow> bool option" where
  "is_canonical_within value min_value max_value =
     (if value < min_value \<or> value > max_value then Some False
      else map_option (\<lambda>n. n \<in> set ONE_TWO_FIVE_DESCENDING) (strip_radix (zat_raw value)))"

definition is_canonical_denomination :: "zatoshis \<Rightarrow> bool option" where
  "is_canonical_denomination value = is_canonical_within value MAX_RESIDUAL_VALUE DENOM_CAP"

subsection \<open>Expiry and the anchor grid\<close>

definition expiry_height :: "block_height \<Rightarrow> block_height" where
  "expiry_height target_height =
     (let h = u32_from_BlockHeight target_height
      in bh_add (BlockHeight_from_u32 (h - (h mod EXPIRY_MODULUS))) EXPIRY_WINDOW)"

datatype anchor_bucket_interval = AnchorBucketInterval (interval_blocks: u32)

definition wf_interval :: "anchor_bucket_interval \<Rightarrow> bool" where
  "wf_interval i \<longleftrightarrow> interval_blocks i \<noteq> 0"

definition ZIP_318_interval :: anchor_bucket_interval where
  "ZIP_318_interval = AnchorBucketInterval 144"

definition is_boundary :: "anchor_bucket_interval \<Rightarrow> block_height \<Rightarrow> bool" where
  "is_boundary i height \<longleftrightarrow> u32_from_BlockHeight height mod interval_blocks i = 0"

definition boundary_at_or_below :: "anchor_bucket_interval \<Rightarrow> block_height \<Rightarrow> block_height" where
  "boundary_at_or_below i height =
     (let h = u32_from_BlockHeight height
      in BlockHeight_from_u32 (h - (h mod interval_blocks i)))"

definition boundary_at_or_above :: "anchor_bucket_interval \<Rightarrow> block_height \<Rightarrow> block_height" where
  "boundary_at_or_above i height =
     (let h = u32_from_BlockHeight height; r = h mod interval_blocks i
      in BlockHeight_from_u32
           (if r = 0 then h else saturating_add_u32 h (interval_blocks i - r)))"

text \<open>
  The trait \<open>PoolMigrationConstants\<close>: an implementor is the record of its parameter
  accessors, and the default bodies of the accessors are \<open>zip318_constants\<close>.
\<close>

record pool_migration_constants =
  anchor_bucket_interval :: anchor_bucket_interval
  denomination_cap :: zatoshis
  max_residual_value :: zatoshis
  preparation_tx_actions :: usize
  transfer_delay :: "u32 \<times> u32"
  preparation_delay :: "u32 \<times> u32"
  anchor_age_cap :: u32
  expiry_window :: "u32 \<times> u32"

definition zip318_constants :: pool_migration_constants where
  "zip318_constants =
     \<lparr>anchor_bucket_interval = ZIP_318_interval,
      denomination_cap = DENOM_CAP,
      max_residual_value = MAX_RESIDUAL_VALUE,
      preparation_tx_actions = PREP_TX_ACTIONS,
      transfer_delay = (TRANSFER_DELAY_MEAN, TRANSFER_DELAY_CAP),
      preparation_delay = (PREP_DELAY_MEAN, PREP_DELAY_CAP),
      anchor_age_cap = ANCHOR_AGE_CAP,
      expiry_window = (EXPIRY_MODULUS, EXPIRY_WINDOW)\<rparr>"

definition constants_is_canonical_denomination :: "pool_migration_constants \<Rightarrow> zatoshis \<Rightarrow> bool option" where
  "constants_is_canonical_denomination c value =
     is_canonical_within value (max_residual_value c) (denomination_cap c)"

definition canonical_expiry :: "pool_migration_constants \<Rightarrow> block_height \<Rightarrow> block_height option" where
  "canonical_expiry c reference =
     (case expiry_window c of (modulus, window) \<Rightarrow>
        if modulus = 0 then None
        else let h = u32_from_BlockHeight reference
             in Some (bh_add (BlockHeight_from_u32 (h - (h mod modulus))) window))"

definition is_canonical_expiry :: "pool_migration_constants \<Rightarrow> block_height \<Rightarrow> block_height \<Rightarrow> bool option" where
  "is_canonical_expiry c expiry reference = map_option (\<lambda>e. expiry = e) (canonical_expiry c reference)"

definition is_canonical_expiry_value :: "pool_migration_constants \<Rightarrow> block_height \<Rightarrow> bool option" where
  "is_canonical_expiry_value c expiry =
     (case expiry_window c of (modulus, window) \<Rightarrow>
        let e = u32_from_BlockHeight expiry
        in if e \<ge> window then (if modulus = 0 then None else Some (e mod modulus = 0))
           else Some False)"

subsection \<open>Classification\<close>

datatype zip318_tx_kind = Preparation | Transfer

datatype zip318_classification = Conforms zip318_tx_kind | Nonconforming | Unknown

fun to_code :: "zip318_classification \<Rightarrow> i64" where
  "to_code Unknown = 0"
| "to_code Nonconforming = 1"
| "to_code (Conforms Preparation) = 2"
| "to_code (Conforms Transfer) = 3"

definition from_code :: "i64 \<Rightarrow> zip318_classification" where
  "from_code code =
     (if code = 1 then Nonconforming
      else if code = 2 then Conforms Preparation
      else if code = 3 then Conforms Transfer
      else Unknown)"

record zip318_evidence =
  source_actions :: "usize option"
  destination_actions :: "usize option"
  other_bundles_present :: "bool option"
  source_is_send_to_self :: "bool option"
  sole_destination_value :: "zatoshis option"
  expiry_is_canonical :: "bool option"
  anchor_on_grid :: "bool option"
  fee_is_canonical :: "bool option"

definition default_evidence :: zip318_evidence where
  "default_evidence =
     \<lparr>source_actions = None, destination_actions = None, other_bundles_present = None,
      source_is_send_to_self = None, sole_destination_value = None, expiry_is_canonical = None,
      anchor_on_grid = None, fee_is_canonical = None\<rparr>"

text \<open>The builder methods \<open>with_*\<close>.\<close>

definition with_source_actions :: "usize option \<Rightarrow> zip318_evidence \<Rightarrow> zip318_evidence" where
  "with_source_actions v ev = ev\<lparr>source_actions := v\<rparr>"

definition with_destination_actions :: "usize option \<Rightarrow> zip318_evidence \<Rightarrow> zip318_evidence" where
  "with_destination_actions v ev = ev\<lparr>destination_actions := v\<rparr>"

definition with_other_bundles_present :: "bool option \<Rightarrow> zip318_evidence \<Rightarrow> zip318_evidence" where
  "with_other_bundles_present v ev = ev\<lparr>other_bundles_present := v\<rparr>"

definition with_source_is_send_to_self :: "bool option \<Rightarrow> zip318_evidence \<Rightarrow> zip318_evidence" where
  "with_source_is_send_to_self v ev = ev\<lparr>source_is_send_to_self := v\<rparr>"

definition with_sole_destination_value :: "zatoshis option \<Rightarrow> zip318_evidence \<Rightarrow> zip318_evidence" where
  "with_sole_destination_value v ev = ev\<lparr>sole_destination_value := v\<rparr>"

definition with_expiry_is_canonical :: "bool option \<Rightarrow> zip318_evidence \<Rightarrow> zip318_evidence" where
  "with_expiry_is_canonical v ev = ev\<lparr>expiry_is_canonical := v\<rparr>"

definition with_anchor_on_grid :: "bool option \<Rightarrow> zip318_evidence \<Rightarrow> zip318_evidence" where
  "with_anchor_on_grid v ev = ev\<lparr>anchor_on_grid := v\<rparr>"

definition with_fee_is_canonical :: "bool option \<Rightarrow> zip318_evidence \<Rightarrow> zip318_evidence" where
  "with_fee_is_canonical v ev = ev\<lparr>fee_is_canonical := v\<rparr>"

definition classify_preparation ::
  "zip318_evidence \<Rightarrow> pool_migration_constants \<Rightarrow> usize \<Rightarrow> zip318_classification" where
  "classify_preparation ev c src =
     (if src \<noteq> preparation_tx_actions c then Nonconforming
      else case source_is_send_to_self ev of
             None \<Rightarrow> Unknown
           | Some b \<Rightarrow> if b then Conforms Preparation else Nonconforming)"

definition classify_crossing ::
  "zip318_evidence \<Rightarrow> pool_migration_constants \<Rightarrow> usize \<Rightarrow> zip318_classification option" where
  "classify_crossing ev c src =
     (if src \<noteq> CROSSING_SOURCE_ACTIONS then Some Nonconforming
      else case sole_destination_value ev of
             None \<Rightarrow> Some Unknown
           | Some value \<Rightarrow>
               map_option (\<lambda>ok. if \<not> ok then Nonconforming else Conforms Transfer)
                 (constants_is_canonical_denomination c value))"

definition classify :: "zip318_evidence \<Rightarrow> pool_migration_constants \<Rightarrow> zip318_classification option" where
  "classify ev c =
     (if anchor_on_grid ev = Some False \<or> fee_is_canonical ev = Some False then Some Nonconforming
      else case (source_actions ev, destination_actions ev, other_bundles_present ev,
                 expiry_is_canonical ev) of
        (Some src, Some dst, Some other, Some expiry) \<Rightarrow>
          (if other \<or> \<not> expiry then Some Nonconforming
           else if dst = 0 then Some (classify_preparation ev c src)
           else if dst = CROSSING_DESTINATION_ACTIONS then classify_crossing ev c src
           else Some Nonconforming)
      | _ \<Rightarrow> Some Unknown)"

subsection \<open>The denomination series\<close>

text \<open>The series itself, over the integers.\<close>

definition one_two_five :: "int \<Rightarrow> bool" where
  "one_two_five v \<longleftrightarrow> (\<exists>k. v = 10 ^ k \<or> v = 2 * 10 ^ k \<or> v = 5 * 10 ^ k)"

lemma one_two_five_iff: "one_two_five v \<longleftrightarrow> (\<exists>m \<in> {1, 2, 5}. \<exists>k. v = m * 10 ^ k)"
  by (auto simp: one_two_five_def)

lemma one_two_fiveD: "one_two_five v \<Longrightarrow> \<exists>m j. v = m * 10 ^ j \<and> m \<in> {1, 2, 5}"
  unfolding one_two_five_iff by blast

lemma checked_mul_Some:
  "checked_mul_u64 a b = Some c \<longleftrightarrow> uint a * uint b < 2 ^ 64 \<and> c = a * b"
  by (auto simp: checked_mul_u64_def)

lemma checked_mul_val: "checked_mul_u64 a b = Some c \<Longrightarrow> uint c = uint a * uint b"
  using uint_mul_exact64 by (simp add: checked_mul_Some)

lemma checked_mul_le_iff:
  "(\<exists>c. checked_mul_u64 a b = Some c \<and> c \<le> hi) \<longleftrightarrow> uint a * uint b \<le> uint hi"
proof
  assume "uint a * uint b \<le> uint hi"
  moreover from this have "uint a * uint b < 2 ^ 64"
    using uint_lt2p [of hi] by simp
  ultimately show "\<exists>c. checked_mul_u64 a b = Some c \<and> c \<le> hi"
    by (simp add: checked_mul_Some word_le_def uint_mul_exact64)
next
  assume "\<exists>c. checked_mul_u64 a b = Some c \<and> c \<le> hi"
  then obtain c where "checked_mul_u64 a b = Some c" "c \<le> hi" by blast
  then show "uint a * uint b \<le> uint hi"
    using checked_mul_val [of a b c] by (simp add: word_le_def)
qed

lemma grow_power_step:
  "grow_power hi pow =
     (if uint pow * 10 \<le> uint hi then grow_power hi (pow * 10) else Some pow)"
proof (cases "uint pow * 10 \<le> uint hi")
  case True
  then obtain c where "checked_mul_u64 pow 10 = Some c" "c \<le> hi"
    using checked_mul_le_iff [of pow 10 hi] by auto
  then show ?thesis
    using True by (subst grow_power.simps) (simp add: DENOMINATION_RADIX_def)
next
  case False
  then have "checked_mul_u64 pow 10 = Some c \<Longrightarrow> \<not> c \<le> hi" for c
    using checked_mul_le_iff [of pow 10 hi] by auto
  then show ?thesis
    using False by (subst grow_power.simps) (auto simp: DENOMINATION_RADIX_def split: option.splits)
qed

text \<open>From a positive power the loop ends at the largest scaling by ten that fits.\<close>

lemma grow_power_result:
  assumes "0 < uint pow" "uint pow \<le> uint hi"
  shows "\<exists>r k. grow_power hi pow = Some r \<and> uint r = uint pow * 10 ^ k
    \<and> uint r \<le> uint hi \<and> uint hi < uint r * 10"
  using assms
proof (induction "nat (uint hi - uint pow)" arbitrary: pow rule: less_induct)
  case less
  show ?case
  proof (cases "uint pow * 10 \<le> uint hi")
    case True
    then have v: "uint (pow * 10) = uint pow * 10"
      using uint_lt2p [of hi] by (simp add: uint_mul_exact64)
    have meas: "nat (uint hi - uint (pow * 10)) < nat (uint hi - uint pow)"
      unfolding v using True less.prems(1) by (simp only: nat_mono_iff)
    have prem: "0 < uint (pow * 10)" "uint (pow * 10) \<le> uint hi"
      unfolding v using True less.prems(1) by simp_all
    obtain r k where r: "grow_power hi (pow * 10) = Some r" "uint r = uint (pow * 10) * 10 ^ k"
        "uint r \<le> uint hi" "uint hi < uint r * 10"
      using less.hyps [OF meas prem] by blast
    have "grow_power hi pow = Some r"
      using True r(1) by (subst grow_power_step) simp
    moreover have "uint r = uint pow * 10 ^ Suc k"
      using r(2) unfolding v by (simp only: power_Suc mult.assoc)
    ultimately show ?thesis using r(3,4) by blast
  next
    case False
    then have "grow_power hi pow = Some pow" by (subst grow_power_step) simp
    then show ?thesis
      using False less.prems by (intro exI [of _ pow] exI [of _ 0]) simp
  qed
qed

lemma grow_power_zero: "grow_power hi 0 = None"
proof -
  have "pow \<noteq> 0" if "grow_power hi pow = Some y" for hi pow y
  proof (rule grow_power.raw_induct [of "\<lambda>hi pow y. pow \<noteq> 0", OF _ that])
    fix f :: "u64 \<Rightarrow> u64 \<Rightarrow> u64 option" and hi pow y
    assume rec: "\<And>hi pow y. f hi pow = Some y \<Longrightarrow> pow \<noteq> 0"
      and body: "(case checked_mul_u64 pow DENOMINATION_RADIX of None \<Rightarrow> Some pow
        | Some p \<Rightarrow> if p \<le> hi then f hi (pow * DENOMINATION_RADIX) else Some pow) = Some y"
    show "pow \<noteq> 0"
    proof
      assume "pow = 0"
      then have "f hi 0 = Some y"
        using body by (simp add: DENOMINATION_RADIX_def checked_mul_u64_def)
      then show False using rec by blast
    qed
  qed
  then show ?thesis by (cases "grow_power hi 0") auto
qed

lemma first_multiple_val:
  "uint (first_multiple hi pow ONE_TWO_FIVE_DESCENDING) =
     (if uint pow * 5 \<le> uint hi then uint pow * 5
      else if uint pow * 2 \<le> uint hi then uint pow * 2 else uint pow)"
proof -
  have step: "first_multiple hi pow (m # ms) =
      (if uint pow * uint m \<le> uint hi then pow * m else first_multiple hi pow ms)" for m ms
  proof (cases "checked_mul_u64 pow m")
    case None
    then show ?thesis using checked_mul_le_iff [of pow m hi] by simp
  next
    case (Some c)
    then have "c = pow * m" by (simp add: checked_mul_Some)
    moreover have "c \<le> hi \<longleftrightarrow> uint pow * uint m \<le> uint hi"
      using checked_mul_le_iff [of pow m hi] Some by auto
    ultimately show ?thesis using Some by simp
  qed
  have exact: "uint pow * uint m \<le> uint hi \<Longrightarrow> uint (pow * m) = uint pow * uint m" for m
    using uint_lt2p [of hi] by (intro uint_mul_exact64) simp
  show ?thesis
    using exact [of 5] exact [of 2] by (simp add: ONE_TWO_FIVE_DESCENDING_def step del: first_multiple.simps(2))
qed

lemma strip_radix_step:
  "strip_radix n = (if uint n mod 10 = 0 then strip_radix (n div 10) else Some n)"
proof -
  have "n mod 10 = 0 \<longleftrightarrow> uint n mod 10 = 0"
    by (simp add: word_eq_iff_unsigned [where ?'a = int] uint_mod_distrib)
  then show ?thesis by (subst strip_radix.simps) (simp add: DENOMINATION_RADIX_def)
qed

lemma strip_radix_result:
  assumes "n \<noteq> 0"
  shows "\<exists>r k. strip_radix n = Some r \<and> uint n = uint r * 10 ^ k \<and> uint r mod 10 \<noteq> 0"
  using assms
proof (induction "nat (uint n)" arbitrary: n rule: less_induct)
  case less
  have pos: "0 < uint n" using less.prems by (rule uint_pos)
  show ?case
  proof (cases "uint n mod 10 = 0")
    case True
    have q: "uint (n div 10) = uint n div 10" by (simp add: uint_div_distrib)
    have nz: "uint n = uint n div 10 * 10" using True by (simp add: dvd_eq_mod_eq_0)
    then have "0 < uint n div 10" "uint n div 10 < uint n" using pos by linarith+
    then have "nat (uint (n div 10)) < nat (uint n)" "n div 10 \<noteq> 0"
      using pos unfolding q [symmetric] by (simp_all only: nat_less_eq_zless nat_mono_iff) auto
    then obtain r k where "strip_radix (n div 10) = Some r" "uint (n div 10) = uint r * 10 ^ k"
        "uint r mod 10 \<noteq> 0"
      using less.hyps by blast
    moreover have "strip_radix n = strip_radix (n div 10)"
      using True by (subst strip_radix_step) simp
    ultimately show ?thesis
      using nz q by (intro exI [of _ r] exI [of _ "Suc k"]) simp
  next
    case False
    then have "strip_radix n = Some n" by (subst strip_radix_step) simp
    then show ?thesis
      using False by (intro exI [of _ n] exI [of _ 0]) simp
  qed
qed

lemma strip_unique:
  fixes a b :: int
  assumes "a * 10 ^ k = b * 10 ^ j" "a mod 10 \<noteq> 0" "b mod 10 \<noteq> 0"
  shows "a = b"
proof -
  have aux: "a = b" if "a * 10 ^ k = b * 10 ^ j" "b mod 10 \<noteq> 0" "k \<le> j" "a mod 10 \<noteq> 0" for a b :: int and j k
  proof -
    obtain d where d: "j = k + d" using \<open>k \<le> j\<close> le_Suc_ex by blast
    then have "a = b * 10 ^ d" using that(1) by (simp add: power_add)
    then show ?thesis using that(4) by (cases d) auto
  qed
  show ?thesis
    using aux [of a k b j] aux [of b j a k] assms by (cases "k \<le> j") auto
qed

lemma strip_radix_zero: "strip_radix 0 = None"
proof -
  have "n \<noteq> 0" if "strip_radix n = Some y" for n y
  proof (rule strip_radix.raw_induct [of "\<lambda>n y. n \<noteq> 0", OF _ that])
    fix f :: "u64 \<Rightarrow> u64 option" and n y
    assume rec: "\<And>n y. f n = Some y \<Longrightarrow> n \<noteq> 0"
      and body: "(if n mod DENOMINATION_RADIX = 0 then f (n div DENOMINATION_RADIX) else Some n) = Some y"
    show "n \<noteq> 0"
    proof
      assume "n = 0"
      then have "f 0 = Some y" using body by (simp add: DENOMINATION_RADIX_def)
      then show False using rec by blast
    qed
  qed
  then show ?thesis by (cases "strip_radix 0") auto
qed

text \<open>Any series value that fits below \<open>10\<close> times a power is at most the best multiple of it.\<close>

lemma series_below:
  assumes v: "one_two_five v" "v \<le> hi" and hi: "hi < 10 ^ (k + 1)" "10 ^ k \<le> hi"
  shows "v \<le> (if 5 * 10 ^ k \<le> hi then 5 * 10 ^ k else if 2 * 10 ^ k \<le> hi then 2 * 10 ^ k else 10 ^ k)"
proof -
  obtain j m where m: "v = m * 10 ^ j" "m = 1 \<or> m = 2 \<or> m = 5"
    using one_two_fiveD [OF v(1)] by blast
  have "(10::int) ^ j \<le> v" using m by auto
  then have "(10::int) ^ j < 10 ^ (k + 1)" using v(2) hi(1) by linarith
  then have "j < k + 1" by (rule power_less_imp_less_exp [rotated]) simp
  then have "j \<le> k" by simp
  show ?thesis
  proof (cases "j = k")
    case True
    then show ?thesis using m v(2) by auto
  next
    case False
    then have "(10::int) ^ Suc j \<le> 10 ^ k" using \<open>j \<le> k\<close> by (intro power_increasing) auto
    moreover have "v \<le> 5 * 10 ^ j" using m by auto
    moreover have "(5::int) * 10 ^ j \<le> 10 ^ Suc j" by simp
    ultimately have "v \<le> 10 ^ k" by linarith
    moreover have "(0::int) < 10 ^ k" by simp
    ultimately show ?thesis by (smt (verit))
  qed
qed

text \<open>For a power-of-ten floor, \<open>largest_one_two_five\<close> returns the greatest element of the
  \<open>{1, 2, 5} * 10^k\<close> series not exceeding \<open>hi\<close> (and not below the floor), or 0 when \<open>hi\<close> is below
  the floor; it returns for every non-zero floor and never for floor 0, and no product wraps.\<close>

theorem largest_one_two_five_maximal:
  "(uint floor = 10 ^ j \<longrightarrow>
      (case largest_one_two_five hi floor of
         None \<Rightarrow> False
       | Some v \<Rightarrow>
           if hi < floor then v = 0
           else one_two_five (uint v) \<and> floor \<le> v \<and> v \<le> hi
              \<and> (\<forall>w. one_two_five w \<longrightarrow> w \<le> uint hi \<longrightarrow> w \<le> uint v)))
    \<and> (largest_one_two_five hi floor = None \<longleftrightarrow> floor = 0)"
proof
  have pos: "floor \<noteq> 0 \<Longrightarrow> 0 < uint floor" by (rule uint_pos)
  have res: "\<exists>r k. grow_power hi floor = Some r \<and> uint r = uint floor * 10 ^ k
      \<and> uint r \<le> uint hi \<and> uint hi < uint r * 10" if "floor \<noteq> 0" "\<not> hi < floor"
    using grow_power_result pos that by (simp add: word_less_def)
  show "largest_one_two_five hi floor = None \<longleftrightarrow> floor = 0"
  proof (cases "floor = 0")
    case True
    then show ?thesis using grow_power_zero by (simp add: largest_one_two_five_def)
  next
    case False
    then show ?thesis using res by (cases "hi < floor") (auto simp: largest_one_two_five_def)
  qed
  show "uint floor = 10 ^ j \<longrightarrow>
      (case largest_one_two_five hi floor of
         None \<Rightarrow> False
       | Some v \<Rightarrow>
           if hi < floor then v = 0
           else one_two_five (uint v) \<and> floor \<le> v \<and> v \<le> hi
              \<and> (\<forall>w. one_two_five w \<longrightarrow> w \<le> uint hi \<longrightarrow> w \<le> uint v))"
  proof (cases "hi < floor")
    case True
    then show ?thesis by (simp add: largest_one_two_five_def)
  next
    case False
    show ?thesis
    proof
      assume fl: "uint floor = 10 ^ j"
      then have "floor \<noteq> 0" by auto
      then obtain r k where r: "grow_power hi floor = Some r" "uint r = 10 ^ (j + k)"
          "uint r \<le> uint hi" "uint hi < uint r * 10"
        using res False fl by (auto simp: power_add)
      let ?v = "first_multiple hi r ONE_TWO_FIVE_DESCENDING"
      have v: "uint ?v = (if 5 * 10 ^ (j + k) \<le> uint hi then 5 * 10 ^ (j + k)
          else if 2 * 10 ^ (j + k) \<le> uint hi then 2 * 10 ^ (j + k) else 10 ^ (j + k))"
        using first_multiple_val [of hi r] r(2) by (simp add: mult.commute)
      have "w \<le> uint ?v" if "one_two_five w" "w \<le> uint hi" for w
        using series_below [OF that, of "j + k"] r unfolding v by simp
      moreover have "one_two_five (uint ?v)"
        unfolding v one_two_five_def by (intro exI [of _ "j + k"]) auto
      moreover have "uint ?v \<le> uint hi" using v r by auto
      moreover have "(10::int) ^ j \<le> 10 ^ (j + k)" by (intro power_increasing) auto
      then have "uint floor \<le> uint ?v" using v fl by (smt (verit) zero_le_power)
      ultimately show "case largest_one_two_five hi floor of
         None \<Rightarrow> False
       | Some v \<Rightarrow>
           if hi < floor then v = 0
           else one_two_five (uint v) \<and> floor \<le> v \<and> v \<le> hi
              \<and> (\<forall>w. one_two_five w \<longrightarrow> w \<le> uint hi \<longrightarrow> w \<le> uint v)"
        using False r(1) by (simp add: largest_one_two_five_def word_le_def)
    qed
  qed
qed

lemma largest_one_two_five_maximal_witness:
  "\<exists>v. largest_one_two_five 370 10 = Some v \<and> 200 \<le> uint v"
proof -
  have "one_two_five 200" unfolding one_two_five_def by (intro exI [of _ 2]) simp
  then show ?thesis
    using largest_one_two_five_maximal [of 10 1 370] by (simp split: option.splits)
qed

lemma canonical_within_eval:
  assumes "zat_raw min_value \<noteq> 0"
  shows "is_canonical_within v min_value max_value =
    Some (min_value \<le> v \<and> v \<le> max_value \<and> one_two_five (zat_val v))"
proof (cases "v < min_value \<or> v > max_value")
  case True
  then show ?thesis by (auto simp: is_canonical_within_def)
next
  case False
  then have "zat_raw v \<noteq> 0"
    using assms by (auto simp: less_zatoshis_def word_neq_0_conv)
  then obtain r k where r: "strip_radix (zat_raw v) = Some r" "zat_val v = uint r * 10 ^ k"
      "uint r mod 10 \<noteq> 0"
    using strip_radix_result by blast
  have "r \<in> set ONE_TWO_FIVE_DESCENDING \<longleftrightarrow> uint r \<in> {1, 2, 5}"
    by (auto simp: ONE_TWO_FIVE_DESCENDING_def word_eq_iff_unsigned [where ?'a = int])
  also have "\<dots> \<longleftrightarrow> one_two_five (zat_val v)"
  proof
    assume "uint r \<in> {1, 2, 5}"
    then show "one_two_five (zat_val v)"
      using r(2) by (auto simp: one_two_five_def)
  next
    assume "one_two_five (zat_val v)"
    then obtain j m where m: "zat_val v = m * 10 ^ j" "m \<in> {1, 2, 5}"
      using one_two_fiveD by blast
    then have eq: "uint r * 10 ^ k = m * 10 ^ j" and "m mod 10 \<noteq> 0" using r(2) by auto
    show "uint r \<in> {1, 2, 5}"
      using strip_unique [OF eq r(3) \<open>m mod 10 \<noteq> 0\<close>] m(2) by simp
  qed
  finally show ?thesis using False r(1) by (auto simp: is_canonical_within_def)
qed

text \<open>\<open>is_canonical_denomination\<close> always returns, and holds of exactly the \<open>{1, 2, 5} * 10^k\<close>
  zatoshi amounts between 0.01 ZEC and 10,000 ZEC; under overridden bounds the check returns
  for every value as soon as the lower bound is positive, with the same meaning.\<close>

theorem canonical_denomination_iff:
  "is_canonical_denomination v =
     Some (1000000 \<le> zat_val v \<and> zat_val v \<le> 1000000000000 \<and> one_two_five (zat_val v))
   \<and> (max_residual_value c \<noteq> Zatoshis 0 \<longrightarrow>
        constants_is_canonical_denomination c v =
          Some (max_residual_value c \<le> v \<and> v \<le> denomination_cap c \<and> one_two_five (zat_val v)))"
proof
  have nz: "zat_raw MAX_RESIDUAL_VALUE \<noteq> 0"
    by (simp add: MAX_RESIDUAL_VALUE_def COIN_def)
  show "is_canonical_denomination v =
     Some (1000000 \<le> zat_val v \<and> zat_val v \<le> 1000000000000 \<and> one_two_five (zat_val v))"
    by (simp add: is_canonical_denomination_def canonical_within_eval [OF nz]
        less_eq_zatoshis_def word_le_def)
      (simp add: MAX_RESIDUAL_VALUE_def DENOM_CAP_def COIN_def)
  show "max_residual_value c \<noteq> Zatoshis 0 \<longrightarrow>
        constants_is_canonical_denomination c v =
          Some (max_residual_value c \<le> v \<and> v \<le> denomination_cap c \<and> one_two_five (zat_val v))"
  proof
    assume "max_residual_value c \<noteq> Zatoshis 0"
    then have "zat_raw (max_residual_value c) \<noteq> 0" by (metis zatoshis.exhaust_sel)
    then show "constants_is_canonical_denomination c v =
        Some (max_residual_value c \<le> v \<and> v \<le> denomination_cap c \<and> one_two_five (zat_val v))"
      unfolding constants_is_canonical_denomination_def by (rule canonical_within_eval)
  qed
qed

lemma canonical_denomination_iff_witness:
  "is_canonical_denomination (Zatoshis 300000000) = Some False
   \<and> constants_is_canonical_denomination zip318_constants (Zatoshis 5) = Some False"
proof -
  have "zat_val (Zatoshis 300000000) = 3 * 10 ^ 8" by simp
  moreover have "\<not> one_two_five (3 * 10 ^ 8)"
  proof
    assume "one_two_five (3 * 10 ^ 8)"
    then obtain m j where "3 * 10 ^ 8 = m * (10::int) ^ j" "m \<in> {1, 2, 5}"
      using one_two_fiveD by blast
    then show False using strip_unique [of 3 8 m j] by auto
  qed
  ultimately show ?thesis
    using canonical_denomination_iff [of "Zatoshis 300000000" zip318_constants]
      canonical_denomination_iff [of "Zatoshis 5" zip318_constants]
    by (simp add: zip318_constants_def MAX_RESIDUAL_VALUE_def COIN_def less_eq_zatoshis_def)
qed

text \<open>C35: The positivity the comment in \<open>is_canonical_within\<close> relies on is needed: with a lower
  bound of zero (which an implementor of \<open>PoolMigrationConstants\<close> may return) the check of the
  zero amount does not return.\<close>

theorem canonical_within_zero_diverges:
  assumes "max_residual_value c = Zatoshis 0"
  shows "constants_is_canonical_denomination c (Zatoshis 0) = None"
  using assms strip_radix_zero
  by (simp add: constants_is_canonical_denomination_def is_canonical_within_def less_zatoshis_def)

lemma canonical_within_zero_diverges_witness:
  "constants_is_canonical_denomination (zip318_constants\<lparr>max_residual_value := Zatoshis 0\<rparr>) (Zatoshis 0) = None"
  by (rule canonical_within_zero_diverges) simp

subsection \<open>The rolling expiry window\<close>

lemma uint_round_down:
  "uint (h - h mod m :: u32) = uint h - uint h mod uint m"
proof -
  have le: "uint h mod uint m \<le> uint h"
    by (simp add: zmod_le_nonneg_dividend)
  have "0 \<le> uint h mod uint m"
    by (cases "uint m = 0") (simp_all add: order.not_eq_order_implies_strict)
  then show ?thesis
    using le uint32_less [of h] by (simp add: uint_word_ariths uint_mod_distrib)
qed

lemma uint_EXPIRY [simp]: "uint EXPIRY_MODULUS = 34560" "uint EXPIRY_WINDOW = 69120"
  by (simp_all add: EXPIRY_MODULUS_def EXPIRY_WINDOW_def)

lemma uint_expiry_height:
  "uint (bh_raw (expiry_height t)) =
     min (uint (bh_raw t) - uint (bh_raw t) mod 34560 + 69120) 4294967295"
  by (simp add: expiry_height_def Let_def bh_add_def BlockHeight_from_u32_def
      u32_from_BlockHeight_def uint_saturating_add_u32 uint_round_down)

lemma expiry_is_default_canonical: "canonical_expiry zip318_constants t = Some (expiry_height t)"
  by (simp add: canonical_expiry_def zip318_constants_def expiry_height_def EXPIRY_MODULUS_def
      Let_def)

lemma expiry_value_default:
  "is_canonical_expiry_value zip318_constants e =
     Some (69120 \<le> uint (bh_raw e) \<and> uint (bh_raw e) mod 34560 = 0)"
  by (simp add: is_canonical_expiry_value_def zip318_constants_def Let_def u32_from_BlockHeight_def
      word_le_def word_eq_iff_unsigned [where ?'a = int] uint_mod_distrib)

text \<open>Below saturation the canonical expiry of a target height is a multiple of the modulus, more
  than one and at most two moduli above the target, shared by every target of the same period,
  and recognised by \<open>is_canonical_expiry_value\<close> without the reference height.\<close>

theorem expiry_height_window:
  assumes "uint (bh_raw t) - uint (bh_raw t) mod 34560 + 69120 \<le> 4294967295"
  shows "uint (bh_raw (expiry_height t)) mod 34560 = 0
    \<and> uint (bh_raw t) + 34560 < uint (bh_raw (expiry_height t))
    \<and> uint (bh_raw (expiry_height t)) \<le> uint (bh_raw t) + 69120
    \<and> (expiry_height t = expiry_height t' \<longleftrightarrow> uint (bh_raw t) div 34560 = uint (bh_raw t') div 34560)
    \<and> is_canonical_expiry zip318_constants (expiry_height t) t = Some True
    \<and> is_canonical_expiry_value zip318_constants (expiry_height t) = Some True"
proof -
  let ?t = "uint (bh_raw t)" and ?t' = "uint (bh_raw t')"
  have e: "uint (bh_raw (expiry_height t)) = ?t div 34560 * 34560 + 69120"
    using assms by (simp add: uint_expiry_height minus_mod_eq_div_mult)
  have e': "uint (bh_raw (expiry_height t')) = min (?t' div 34560 * 34560 + 69120) 4294967295"
    by (simp add: uint_expiry_height minus_mod_eq_div_mult)
  have "expiry_height t = expiry_height t' \<longleftrightarrow>
      uint (bh_raw (expiry_height t)) = uint (bh_raw (expiry_height t'))"
    by (metis block_height.expand word_uint_eq_iff)
  also have "\<dots> \<longleftrightarrow> ?t div 34560 = ?t' div 34560"
  proof -
    have "(a * 34560 + 69120 = min (b * 34560 + 69120) 4294967295) = (a = b)"
      if "a * 34560 + 69120 \<le> 4294967295" for a b :: int
    proof (cases "b * 34560 + 69120 \<le> 4294967295")
      case False
      have "a * 34560 + 69120 \<noteq> 4294967295"
      proof
        assume eq: "a * 34560 + 69120 = 4294967295"
        have "(a * 34560 + 69120) mod 34560 = 0" by simp
        then show False unfolding eq by simp
      qed
      then show ?thesis using False that by auto
    qed (simp add: min_def)
    then show ?thesis
      using assms unfolding e e' minus_mod_eq_div_mult by blast
  qed
  finally have period: "expiry_height t = expiry_height t' \<longleftrightarrow> ?t div 34560 = ?t' div 34560" .
  define q r where "q = ?t div 34560" and "r = ?t mod 34560"
  have tq: "?t = q * 34560 + r" "0 \<le> r" "r < 34560" "0 \<le> q"
    unfolding q_def r_def by (simp_all add: pos_imp_zdiv_nonneg_iff)
  have eq: "uint (bh_raw (expiry_height t)) = q * 34560 + 69120"
    unfolding e q_def ..
  have "(q * 34560 + 69120) mod 34560 = 0" by simp
  then have valc: "is_canonical_expiry_value zip318_constants (expiry_height t) = Some True"
    unfolding expiry_value_default eq using tq(4) by simp
  have ref: "is_canonical_expiry zip318_constants (expiry_height t) t = Some True"
    by (simp add: is_canonical_expiry_def expiry_is_default_canonical)
  show ?thesis
  proof (intro conjI)
    show "uint (bh_raw (expiry_height t)) mod 34560 = 0" unfolding eq by simp
    show "?t + 34560 < uint (bh_raw (expiry_height t))" unfolding eq using tq by linarith
    show "uint (bh_raw (expiry_height t)) \<le> ?t + 69120" unfolding eq using tq by linarith
  qed (fact period ref valc)+
qed

lemma expiry_height_window_witness:
  "is_canonical_expiry_value zip318_constants (expiry_height (BlockHeight 3000000)) = Some True"
  using expiry_height_window [of "BlockHeight 3000000" H0] by simp

text \<open>At the top of the height range the expiry saturates: it is then not strictly above its
  target (the documentation says it always is), and the height-independent check refuses the very
  value the reference-height check accepts.\<close>

theorem expiry_height_saturated:
  assumes "bh_raw t = - 1"
  shows "expiry_height t = t
    \<and> is_canonical_expiry zip318_constants t t = Some True
    \<and> is_canonical_expiry_value zip318_constants t = Some False"
proof -
  have t: "uint (bh_raw t) = 4294967295"
    using assms by (simp add: unsigned_minus_1_eq_mask mask_eq_exp_minus_1)
  then have "uint (bh_raw (expiry_height t)) = uint (bh_raw t)"
    by (simp add: uint_expiry_height)
  then have "expiry_height t = t"
    by (intro block_height.expand) (simp add: word_eq_iff_unsigned [where ?'a = int])
  then show ?thesis
    using t by (simp add: is_canonical_expiry_def expiry_is_default_canonical expiry_value_default)
qed

lemma expiry_height_saturated_witness:
  "is_canonical_expiry_value zip318_constants (BlockHeight (- 1)) = Some False"
  using expiry_height_saturated [of "BlockHeight (- 1)"] by simp

subsection \<open>The anchor grid\<close>

lemma is_boundary_iff:
  "is_boundary i h \<longleftrightarrow> uint (interval_blocks i) dvd uint (bh_raw h)"
  by (simp add: is_boundary_def u32_from_BlockHeight_def word_eq_iff_unsigned [where ?'a = int]
      uint_mod_distrib dvd_eq_mod_eq_0)

lemma uint_boundary_below:
  "uint (bh_raw (boundary_at_or_below i h)) =
     uint (bh_raw h) - uint (bh_raw h) mod uint (interval_blocks i)"
  by (simp add: boundary_at_or_below_def Let_def BlockHeight_from_u32_def u32_from_BlockHeight_def
      uint_round_down)

lemma uint_boundary_above:
  assumes "wf_interval i"
  shows "uint (bh_raw (boundary_at_or_above i h)) =
     (let n = uint (interval_blocks i); v = uint (bh_raw h) in
       if v mod n = 0 then v else min (v + (n - v mod n)) 4294967295)"
proof -
  let ?n = "interval_blocks i" and ?h = "bh_raw h"
  have n: "0 < uint ?n" using assms by (simp add: wf_interval_def uint_pos)
  have r: "uint (?h mod ?n) = uint ?h mod uint ?n" by (simp add: uint_mod_distrib)
  then have z: "?h mod ?n = 0 \<longleftrightarrow> uint ?h mod uint ?n = 0"
    by (simp add: word_eq_iff_unsigned [where ?'a = int])
  have "uint ?h mod uint ?n < uint ?n" "0 \<le> uint ?h mod uint ?n" using n by simp_all
  then have d: "uint (?n - ?h mod ?n) = uint ?n - uint ?h mod uint ?n"
    using uint32_less [of ?n] by (simp add: uint_word_ariths uint_mod_distrib)
  show ?thesis
    by (simp add: boundary_at_or_above_def Let_def BlockHeight_from_u32_def
        u32_from_BlockHeight_def uint_saturating_add_u32 z d)
qed

text \<open>Rounding to the anchor grid is exact: \<open>boundary_at_or_below\<close> is the greatest boundary not
  above the height; \<open>boundary_at_or_above\<close> is at most every boundary not below it, and is itself
  one unless no such boundary is representable, when it saturates at \<open>u32::MAX\<close>.\<close>

theorem boundary_rounding:
  assumes "wf_interval i"
  shows "is_boundary i (boundary_at_or_below i h) \<and> boundary_at_or_below i h \<le> h
    \<and> (is_boundary i b \<and> b \<le> h \<longrightarrow> b \<le> boundary_at_or_below i h)
    \<and> h \<le> boundary_at_or_above i h
    \<and> (is_boundary i b \<and> h \<le> b \<longrightarrow> boundary_at_or_above i h \<le> b \<and> is_boundary i (boundary_at_or_above i h))
    \<and> (is_boundary i (boundary_at_or_above i h) \<or> bh_raw (boundary_at_or_above i h) = - 1)"
proof -
  define n v w where "n = uint (interval_blocks i)" and "v = uint (bh_raw h)" and "w = uint (bh_raw b)"
  note le = less_eq_block_height_def word_le_def
  have n: "0 < n" using assms by (simp add: n_def wf_interval_def uint_pos)
  have lt: "v < 4294967296" "w < 4294967296" by (simp_all add: v_def w_def uint32_less)
  have md: "0 \<le> v mod n" "v mod n < n" "v mod n \<le> v" "n dvd v - v mod n"
    using n by (simp_all add: v_def zmod_le_nonneg_dividend flip: mod_eq_dvd_iff)
  have below: "uint (bh_raw (boundary_at_or_below i h)) = v - v mod n"
    by (simp add: uint_boundary_below v_def n_def)
  have above: "uint (bh_raw (boundary_at_or_above i h)) =
      (if v mod n = 0 then v else min (v + (n - v mod n)) 4294967295)"
    using uint_boundary_above [OF assms] by (simp add: v_def n_def Let_def)
  have down: "w \<le> v - v mod n" if w: "n dvd w" "w \<le> v"
    using w(1)
  proof (elim dvdE)
    fix q assume q: "w = n * q"
    have "n * q < n * (v div n + 1)"
      using w(2) md(2) mult_div_mod_eq [of n v] unfolding q distrib_left by linarith
    then have "q \<le> v div n" using n by simp
    then have "n * q \<le> n * (v div n)" using n by simp
    then show "w \<le> v - v mod n" using q by (simp add: minus_mod_eq_mult_div)
  qed
  have up: "v + (n - v mod n) \<le> w" if w: "n dvd w" "v \<le> w" "v mod n \<noteq> 0"
    using w(1)
  proof (elim dvdE)
    fix q assume q: "w = n * q"
    have "n * (v div n) < n * q"
      using w(2,3) md(1) mult_div_mod_eq [of n v] unfolding q by linarith
    then have "n * (v div n + 1) \<le> n * q" using n by simp
    then show "v + (n - v mod n) \<le> w"
      using q mult_div_mod_eq [of n v] unfolding distrib_left by linarith
  qed
  have max32: "bh_raw x = - 1 \<longleftrightarrow> uint (bh_raw x) = 4294967295" for x
    by (simp add: word_eq_iff_unsigned [where ?'a = int] unsigned_minus_1_eq_mask mask_eq_exp_minus_1)
  have dv: "n dvd v + (n - v mod n)"
    using dvd_add [OF md(4) dvd_refl] by (simp add: algebra_simps)
  show ?thesis
    unfolding is_boundary_iff le below above max32 n_def [symmetric] v_def [symmetric] w_def [symmetric]
    using md lt dv down up by (auto simp: min_def mod_eq_0_iff_dvd)
qed

lemma boundary_rounding_witness:
  "is_boundary ZIP_318_interval (boundary_at_or_below ZIP_318_interval (BlockHeight 1000))
   \<and> BlockHeight 864 \<le> boundary_at_or_below ZIP_318_interval (BlockHeight 1000)"
proof -
  have wf: "wf_interval ZIP_318_interval" by (simp add: wf_interval_def ZIP_318_interval_def)
  have "is_boundary ZIP_318_interval (BlockHeight 864) \<and> BlockHeight 864 \<le> BlockHeight 1000"
    by (simp add: is_boundary_iff ZIP_318_interval_def block_height_ord)
  then show ?thesis using boundary_rounding [OF wf, of "BlockHeight 1000" "BlockHeight 864"] by blast
qed

subsection \<open>Classification\<close>

text \<open>The information order of the documentation: an unanswered clause is below every answer.\<close>

definition answer_le :: "'a option \<Rightarrow> 'a option \<Rightarrow> bool" where
  "answer_le a b \<longleftrightarrow> a = None \<or> a = b"

definition evidence_le :: "zip318_evidence \<Rightarrow> zip318_evidence \<Rightarrow> bool" where
  "evidence_le a b \<longleftrightarrow>
     answer_le (source_actions a) (source_actions b)
     \<and> answer_le (destination_actions a) (destination_actions b)
     \<and> answer_le (other_bundles_present a) (other_bundles_present b)
     \<and> answer_le (source_is_send_to_self a) (source_is_send_to_self b)
     \<and> answer_le (sole_destination_value a) (sole_destination_value b)
     \<and> answer_le (expiry_is_canonical a) (expiry_is_canonical b)
     \<and> anchor_on_grid a = anchor_on_grid b \<and> fee_is_canonical a = fee_is_canonical b"

definition classification_le :: "zip318_classification \<Rightarrow> zip318_classification \<Rightarrow> bool" where
  "classification_le k k' \<longleftrightarrow> k = Unknown \<or> k = k'"

lemma crossing_total:
  assumes "max_residual_value c \<noteq> Zatoshis 0"
  shows "classify_crossing ev c src =
    Some (if src \<noteq> CROSSING_SOURCE_ACTIONS then Nonconforming
          else case sole_destination_value ev of None \<Rightarrow> Unknown
             | Some v \<Rightarrow> if max_residual_value c \<le> v \<and> v \<le> denomination_cap c \<and> one_two_five (zat_val v)
                        then Conforms Transfer else Nonconforming)"
proof -
  have "zat_raw (max_residual_value c) \<noteq> 0" using assms by (metis zatoshis.exhaust_sel)
  then show ?thesis
    by (simp add: classify_crossing_def constants_is_canonical_denomination_def canonical_within_eval
        split: option.split)
qed





end
