(* ===== verification/Fees.thy ===== *)
theory Fees
  imports Consensus
begin

text \<open>
  \<open>zcash_primitives/src/transaction/fees.rs\<close> and its modules: the fee rule interface, the ZIP 317
  rule, the fixed rule and the input and output sizes they are given. Sizes and counts are
  \<open>usize\<close> words whose additions wrap, as in a release build; a division by zero panics, which is
  the outer \<open>None\<close> of a result. Outpoints and scripts are external types.
\<close>

subsection \<open>Input and output sizes\<close>

datatype 'op input_size = Known usize | Unknown 'op

definition P2PKH_STANDARD_INPUT_SIZE :: usize where "P2PKH_STANDARD_INPUT_SIZE = 150"
definition P2PKH_STANDARD_OUTPUT_SIZE :: usize where "P2PKH_STANDARD_OUTPUT_SIZE = 34"

definition STANDARD_P2PKH :: "'op input_size" where
  "STANDARD_P2PKH = Known P2PKH_STANDARD_INPUT_SIZE"

text \<open>The script parser and solver, and the coin of an input, are external.\<close>

datatype script_kind = PubKeyHash | OtherScript

definition InputView_serialized_size ::
  "(bytes \<Rightarrow> 'e + 'ps) \<Rightarrow> ('ps \<Rightarrow> script_kind option) \<Rightarrow> bytes \<Rightarrow> 'op \<Rightarrow> 'op input_size" where
  "InputView_serialized_size parse standard script_pubkey outpoint =
     (case Option.bind (res_ok (parse script_pubkey)) standard of
        Some PubKeyHash \<Rightarrow> STANDARD_P2PKH
      | _ \<Rightarrow> Unknown outpoint)"

text \<open>The spend information of a builder input: a P2SH input has a length when its script is known.\<close>

datatype spend_info = P2pkh | P2sh "usize option"

definition TransparentInputInfo_serialized_size :: "spend_info \<Rightarrow> 'op \<Rightarrow> 'op input_size" where
  "TransparentInputInfo_serialized_size info outpoint = (case info of
     P2pkh \<Rightarrow> STANDARD_P2PKH
   | P2sh serialized_len \<Rightarrow> (case serialized_len of None \<Rightarrow> Unknown outpoint | Some n \<Rightarrow> Known n))"

definition OutputView_serialized_size :: "usize \<Rightarrow> usize" where
  "OutputView_serialized_size script_size = 8 + script_size"

subsection \<open>The fee rules\<close>

definition MARGINAL_FEE :: zatoshis where "MARGINAL_FEE = Zatoshis 5000"
definition GRACE_ACTIONS :: usize where "GRACE_ACTIONS = 2"
definition MAX_TRANSPARENT_INPUT_SIZE :: usize where "MAX_TRANSPARENT_INPUT_SIZE = 36 + 9 + 10000 + 4"
definition TRANSPARENT_BUNDLE_OVERHEAD :: usize where "TRANSPARENT_BUNDLE_OVERHEAD = 18"
definition TX_HEADER_SIZE :: usize where "TX_HEADER_SIZE = 32"
definition MINIMUM_FEE :: zatoshis where "MINIMUM_FEE = Zatoshis 10000"

record fee_rule =
  fr_marginal_fee :: zatoshis
  fr_grace_actions :: usize
  fr_input_size :: usize
  fr_output_size :: usize

definition FeeRule_standard :: fee_rule where
  "FeeRule_standard = \<lparr>fr_marginal_fee = MARGINAL_FEE, fr_grace_actions = GRACE_ACTIONS,
     fr_input_size = P2PKH_STANDARD_INPUT_SIZE, fr_output_size = P2PKH_STANDARD_OUTPUT_SIZE\<rparr>"

definition FeeRule_non_standard :: "zatoshis \<Rightarrow> usize \<Rightarrow> usize \<Rightarrow> usize \<Rightarrow> fee_rule option" where
  "FeeRule_non_standard marginal_fee grace_actions input_size output_size =
     (if input_size = 0 \<or> output_size = 0 then None
      else Some \<lparr>fr_marginal_fee = marginal_fee, fr_grace_actions = grace_actions,
                 fr_input_size = input_size, fr_output_size = output_size\<rparr>)"

datatype 'op fee_error = FeeBalance balance_error | UnknownP2shInputs "'op list"

text \<open>The loop over the input sizes: the running total and the unknown outpoints.\<close>

fun sum_input_sizes :: "usize \<Rightarrow> 'op list \<Rightarrow> 'op input_size list \<Rightarrow> usize \<times> 'op list" where
  "sum_input_sizes acc unknown [] = (acc, unknown)"
| "sum_input_sizes acc unknown (Known s # szs) = sum_input_sizes (acc + s) unknown szs"
| "sum_input_sizes acc unknown (Unknown outpoint # szs) =
     sum_input_sizes acc (unknown @ [outpoint]) szs"

text \<open>\<open>usize::div_ceil\<close>.\<close>

definition div_ceil :: "usize \<Rightarrow> usize \<Rightarrow> usize option" where
  "div_ceil num den = (if den = 0 then None
     else Some (let d = num div den; r = num mod den in if r > 0 then d + 1 else d))"

definition zip317_fee_required ::
  "fee_rule \<Rightarrow> parameters \<Rightarrow> block_height \<Rightarrow> 'op input_size list \<Rightarrow> usize list \<Rightarrow> usize \<Rightarrow> usize
     \<Rightarrow> usize \<Rightarrow> usize \<Rightarrow> ('op fee_error + zatoshis) option" where
  "zip317_fee_required rule params target_height input_sizes output_sizes
       sapling_input_count sapling_output_count orchard_action_count ironwood_action_count =
     (let (t_in_total_size, unknown) = sum_input_sizes 0 [] input_sizes in
      if unknown \<noteq> [] then Some (Inl (UnknownP2shInputs unknown))
      else
        let t_out_total_size = foldl (+) 0 output_sizes in
        Option.bind (div_ceil t_in_total_size (fr_input_size rule)) (\<lambda>t_in.
        Option.bind (div_ceil t_out_total_size (fr_output_size rule)) (\<lambda>t_out.
          let logical_actions = max t_in t_out + max sapling_input_count sapling_output_count
                + orchard_action_count + ironwood_action_count in
          Some (ok_or (zat_mul (fr_marginal_fee rule) (max (fr_grace_actions rule) logical_actions))
                 (FeeBalance Overflow)))))"

definition fixed_fee_required ::
  "zatoshis \<Rightarrow> parameters \<Rightarrow> block_height \<Rightarrow> 'op input_size list \<Rightarrow> usize list \<Rightarrow> usize \<Rightarrow> usize
     \<Rightarrow> usize \<Rightarrow> usize \<Rightarrow> 'e + zatoshis" where
  "fixed_fee_required fixed_fee params target_height input_sizes output_sizes
       sapling_input_count sapling_output_count orchard_action_count ironwood_action_count =
     Inr fixed_fee"

subsection \<open>Exact sizes\<close>

definition known_size :: "'op input_size \<Rightarrow> nat" where
  "known_size sz = (case sz of Known s \<Rightarrow> unat s | Unknown _ \<Rightarrow> 0)"

definition unknown_outpoints :: "'op input_size list \<Rightarrow> 'op list" where
  "unknown_outpoints szs = concat (map (\<lambda>sz. case sz of Known _ \<Rightarrow> [] | Unknown op \<Rightarrow> [op]) szs)"

definition wf_fee_rule :: "fee_rule \<Rightarrow> bool" where
  "wf_fee_rule rule \<longleftrightarrow> fr_input_size rule \<noteq> 0 \<and> fr_output_size rule \<noteq> 0 \<and> wf_zats (fr_marginal_fee rule)"

definition ceil_div :: "nat \<Rightarrow> nat \<Rightarrow> nat" where
  "ceil_div n d = (n + d - 1) div d"

lemma unat_add_exact:
  fixes a b :: usize
  shows "unat a + unat b < 2 ^ 64 \<Longrightarrow> unat (a + b) = unat a + unat b"
  by (simp add: unat_word_ariths)

lemma sum_input_sizes_eq:
  "unat acc + sum_list (map known_size szs) < 2 ^ 64 \<Longrightarrow>
     unat (fst (sum_input_sizes acc unknown szs)) = unat acc + sum_list (map known_size szs)"
proof (induction acc unknown szs rule: sum_input_sizes.induct)
  case (2 acc unknown s szs)
  then have "unat (acc + s) = unat acc + unat s"
    by (intro unat_add_exact) (simp add: known_size_def)
  then show ?case using 2 by (simp add: known_size_def)
qed (simp_all add: known_size_def)

lemma sum_input_sizes_unknown:
  "snd (sum_input_sizes acc unknown szs) = unknown @ unknown_outpoints szs"
  by (induction acc unknown szs rule: sum_input_sizes.induct) (simp_all add: unknown_outpoints_def)

lemma sum_output_sizes:
  "unat acc + sum_list (map unat szs) < 2 ^ 64 \<Longrightarrow>
     unat (foldl (+) (acc :: usize) szs) = unat acc + sum_list (map unat szs)"
proof (induction szs arbitrary: acc)
  case (Cons s szs)
  then have "unat (acc + s) = unat acc + unat s" by (intro unat_add_exact) simp
  then show ?case using Cons by simp
qed simp

lemma ceil_div_mod: "0 < d \<Longrightarrow> ceil_div n d = n div d + (if n mod d = 0 then 0 else 1)"
proof -
  assume d: "0 < d"
  have "n + d - 1 = (n mod d + d - 1) + n div d * d"
    using mod_div_mult_eq [of n d] d by linarith
  then have "(n + d - 1) div d = n div d + (n mod d + d - 1) div d"
    using d by (simp only: div_mult_self1 [OF less_imp_neq [OF d, symmetric]])
  also have "(n mod d + d - 1) div d = (if n mod d = 0 then 0 else 1)"
  proof (cases "n mod d = 0")
    case False
    then have "n mod d + d - 1 = (n mod d - 1) + 1 * d" by simp
    moreover have "(n mod d - 1) div d = 0" using mod_less_divisor [OF d, of n] by simp
    ultimately show ?thesis
      using False d by (simp only: div_mult_self1 [OF less_imp_neq [OF d, symmetric]]) simp
  qed (use d in simp)
  finally show ?thesis by (simp add: ceil_div_def)
qed

lemma div_ceil_exact:
  assumes "den \<noteq> 0"
  shows "\<exists>q. div_ceil num den = Some q \<and> unat q = ceil_div (unat num) (unat den)"
proof -
  have d: "0 < unat den" using assms by (simp add: unat_gt_0)
  have r: "num mod den > 0 \<longleftrightarrow> unat num mod unat den \<noteq> 0"
    by (simp add: word_less_nat_alt unat_mod_distrib)
  have "unat (num div den + 1) = unat num div unat den + 1" if "unat num mod unat den \<noteq> 0"
  proof -
    have two: "2 \<le> unat den" using that d by (cases "unat den = 1") auto
    have "unat num div unat den \<le> unat num div 2" using two div_le_mono2 [of 2 "unat den" "unat num"] by simp
    moreover have "unat num div 2 < 2 ^ 63"
      using unsigned_less [of num, where ?'a = nat] by (intro less_mult_imp_div_less) simp
    ultimately have "unat num div unat den + 1 < 2 ^ 64" by simp
    then show ?thesis
      using unat_add_exact [of "num div den" 1] by (simp add: unat_div_distrib)
  qed
  then show ?thesis
    using assms r by (auto simp: div_ceil_def Let_def ceil_div_mod [OF d] unat_div_distrib)
qed

text \<open>The number of logical actions of ZIP 317, over the natural numbers.\<close>

definition logical_actions_of ::
  "fee_rule \<Rightarrow> 'op input_size list \<Rightarrow> usize list \<Rightarrow> usize \<Rightarrow> usize \<Rightarrow> usize \<Rightarrow> usize \<Rightarrow> nat" where
  "logical_actions_of rule ins outs sin sout orchard ironwood =
     max (ceil_div (sum_list (map known_size ins)) (unat (fr_input_size rule)))
         (ceil_div (sum_list (map unat outs)) (unat (fr_output_size rule)))
     + max (unat sin) (unat sout) + unat orchard + unat ironwood"

text \<open>Sizes and counts whose sums fit a \<open>usize\<close>, as those of any transaction do.\<close>

definition sizes_fit ::
  "fee_rule \<Rightarrow> 'op input_size list \<Rightarrow> usize list \<Rightarrow> usize \<Rightarrow> usize \<Rightarrow> usize \<Rightarrow> usize \<Rightarrow> bool" where
  "sizes_fit rule ins outs sin sout orchard ironwood \<longleftrightarrow>
     sum_list (map known_size ins) < 2 ^ 64 \<and> sum_list (map unat outs) < 2 ^ 64
     \<and> logical_actions_of rule ins outs sin sout orchard ironwood < 2 ^ 64"

lemma unat_max: "unat (max a b) = max (unat a) (unat b)" for a b :: usize
  by (simp add: max_def word_le_nat_alt)

text \<open>C26: The ZIP 317 fee. A rule with nonzero standard sizes never panics. With unknown inputs the
  result is the error that lists exactly their outpoints, in order. Otherwise, for sizes that fit a
  \<open>usize\<close>, the fee is the marginal fee times the larger of the grace actions and the logical actions
  computed over the natural numbers, or an overflow error exactly when that exceeds the monetary
  range.\<close>

theorem zip317_fee_exact:
  assumes "wf_fee_rule rule" "sizes_fit rule ins outs sin sout orchard ironwood"
  shows "zip317_fee_required rule params height ins outs sin sout orchard ironwood = Some
    (if unknown_outpoints ins \<noteq> [] then Inl (UnknownP2shInputs (unknown_outpoints ins))
     else
       let fee = zat_val (fr_marginal_fee rule) *
             int (max (unat (fr_grace_actions rule))
                    (logical_actions_of rule ins outs sin sout orchard ironwood))
       in if fee \<le> 2100000000000000 then Inr (Zatoshis (word_of_int fee)) else Inl (FeeBalance Overflow))"
proof -
  let ?n = "sum_list (map known_size ins)" and ?m = "sum_list (map unat outs)"
  let ?t = "sum_input_sizes 0 [] ins"
  have fit: "?n < 2 ^ 64" "?m < 2 ^ 64"
    "logical_actions_of rule ins outs sin sout orchard ironwood < 2 ^ 64"
    using assms(2) by (simp_all add: sizes_fit_def)
  have n: "unat (fst ?t) = ?n" using sum_input_sizes_eq [of 0 ins "[]"] fit(1) by simp
  have m: "unat (foldl (+) 0 outs) = ?m" using sum_output_sizes [of 0 outs] fit(2) by simp
  obtain q where q: "div_ceil (fst ?t) (fr_input_size rule) = Some q"
      "unat q = ceil_div ?n (unat (fr_input_size rule))"
    using div_ceil_exact [of "fr_input_size rule" "fst ?t"] assms(1) n by (auto simp: wf_fee_rule_def)
  obtain r where r: "div_ceil (foldl (+) 0 outs) (fr_output_size rule) = Some r"
      "unat r = ceil_div ?m (unat (fr_output_size rule))"
    using div_ceil_exact [of "fr_output_size rule" "foldl (+) 0 outs"] assms(1) m
    by (auto simp: wf_fee_rule_def)
  define w where "w = max q r + max sin sout + orchard + ironwood"
  have w: "unat w = logical_actions_of rule ins outs sin sout orchard ironwood"
    using fit(3) unfolding w_def logical_actions_of_def q(2) [symmetric] r(2) [symmetric]
    by (simp add: unat_max [symmetric] unat_word_ariths)
  have i: "uint (max (fr_grace_actions rule) w) =
      int (max (unat (fr_grace_actions rule)) (logical_actions_of rule ins outs sin sout orchard ironwood))"
    unfolding w [symmetric] unat_max [symmetric] by simp
  have zero: "0 \<le> zat_val (fr_marginal_fee rule) * uint (max (fr_grace_actions rule) w)"
    by simp
  have "zip317_fee_required rule params height ins outs sin sout orchard ironwood = Some
      (if unknown_outpoints ins \<noteq> [] then Inl (UnknownP2shInputs (unknown_outpoints ins))
       else ok_or (zat_mul (fr_marginal_fee rule) (max (fr_grace_actions rule) w)) (FeeBalance Overflow))"
    using q(1) r(1)
    by (simp add: zip317_fee_required_def case_prod_beta sum_input_sizes_unknown w_def Let_def)
  then show ?thesis
    unfolding zat_mul_eq Let_def i [symmetric] using zero by (simp add: ok_or_def)
qed

lemma zip317_fee_exact_witness:
  "zip317_fee_required FeeRule_standard MainNetwork (BlockHeight 100)
     [Known 150, Known 151 :: nat input_size] [34, 34] 0 3 0 1 = Some (Inr (Zatoshis 35000))
   \<and> zip317_fee_required FeeRule_standard MainNetwork (BlockHeight 100)
     [Unknown (7 :: nat), Known 150] [34] 0 0 0 0 = Some (Inl (UnknownP2shInputs [7]))"
proof -
  have wf: "wf_fee_rule FeeRule_standard"
    by (simp add: wf_fee_rule_def FeeRule_standard_def P2PKH_STANDARD_INPUT_SIZE_def
        P2PKH_STANDARD_OUTPUT_SIZE_def MARGINAL_FEE_def wf_zats_iff)
  have fit: "sizes_fit FeeRule_standard [Known 150, Known 151 :: nat input_size] [34, 34] 0 3 0 1"
      "sizes_fit FeeRule_standard [Unknown (7 :: nat), Known 150] [34] 0 0 0 0"
    by (simp_all add: sizes_fit_def logical_actions_of_def ceil_div_def known_size_def FeeRule_standard_def
        P2PKH_STANDARD_INPUT_SIZE_def P2PKH_STANDARD_OUTPUT_SIZE_def)
  show ?thesis
    unfolding zip317_fee_exact [OF wf fit(1)] zip317_fee_exact [OF wf fit(2)]
    by (simp add: unknown_outpoints_def logical_actions_of_def ceil_div_def known_size_def
        FeeRule_standard_def P2PKH_STANDARD_INPUT_SIZE_def P2PKH_STANDARD_OUTPUT_SIZE_def
        MARGINAL_FEE_def GRACE_ACTIONS_def)
qed

end
