(* ===== verification/TxVersion.thy ===== *)
theory TxVersion
  imports Consensus
begin

text \<open>
  The version part of \<open>zcash_primitives/src/transaction/mod.rs\<close>: the transaction formats, their
  four or eight byte header, what each format can carry and which consensus branches admit it. The
  crosslink build, without the \<open>nu7\<close> branch.
\<close>

unbundle bit_operations_syntax

datatype tx_version = Sprout u32 | V3 | V4 | V5 | V6 | VCrosslink

text \<open>The match on the version number and the group id that follow a set overwintered bit.\<close>

definition format_of :: "u32 \<Rightarrow> u32 \<Rightarrow> tx_version option" where
  "format_of version gid =
     (if version = V3_TX_VERSION \<and> gid = V3_VERSION_GROUP_ID then Some V3
      else if version = V4_TX_VERSION \<and> gid = V4_VERSION_GROUP_ID then Some V4
      else if version = V5_TX_VERSION \<and> gid = V5_VERSION_GROUP_ID then Some V5
      else if version = V6_TX_VERSION \<and> gid = V6_VERSION_GROUP_ID then Some V6
      else if version = VCROSSLINK_TX_VERSION \<and> gid = VCROSSLINK_VERSION_GROUP_ID
      then Some VCrosslink else None)"

definition TxVersion_read :: "tx_version reader" where
  "TxVersion_read = rbind read_u32_le (\<lambda>header.
     let overwintered = (drop_bit 31 header = 1); version = header AND 0x7FFFFFFF in
     if overwintered then
       rbind read_u32_le (\<lambda>gid. rlift (ok_or (format_of version gid)
         (InvalidData ''Unknown transaction format'')))
     else if version \<ge> 1 then rret (Sprout version)
     else rfail (InvalidData ''Unknown transaction format''))"

fun TxVersion_number :: "tx_version \<Rightarrow> u32" where
  "TxVersion_number (Sprout v) = v"
| "TxVersion_number V3 = V3_TX_VERSION"
| "TxVersion_number V4 = V4_TX_VERSION"
| "TxVersion_number V5 = V5_TX_VERSION"
| "TxVersion_number V6 = V6_TX_VERSION"
| "TxVersion_number VCrosslink = VCROSSLINK_TX_VERSION"

definition TxVersion_header :: "tx_version \<Rightarrow> u32" where
  "TxVersion_header v =
     (case v of Sprout _ \<Rightarrow> 0 | _ \<Rightarrow> push_bit 31 1) OR TxVersion_number v"

fun TxVersion_version_group_id :: "tx_version \<Rightarrow> u32" where
  "TxVersion_version_group_id (Sprout _) = 0"
| "TxVersion_version_group_id V3 = V3_VERSION_GROUP_ID"
| "TxVersion_version_group_id V4 = V4_VERSION_GROUP_ID"
| "TxVersion_version_group_id V5 = V5_VERSION_GROUP_ID"
| "TxVersion_version_group_id V6 = V6_VERSION_GROUP_ID"
| "TxVersion_version_group_id VCrosslink = VCROSSLINK_VERSION_GROUP_ID"

definition TxVersion_write :: "tx_version \<Rightarrow> bytes" where
  "TxVersion_write v = write_u32_le (TxVersion_header v)
     @ (case v of Sprout _ \<Rightarrow> [] | _ \<Rightarrow> write_u32_le (TxVersion_version_group_id v))"

fun version_has_sprout :: "tx_version \<Rightarrow> bool" where
  "version_has_sprout (Sprout v) \<longleftrightarrow> v \<ge> 2"
| "version_has_sprout V3 \<longleftrightarrow> True"
| "version_has_sprout V4 \<longleftrightarrow> True"
| "version_has_sprout V5 \<longleftrightarrow> False"
| "version_has_sprout V6 \<longleftrightarrow> False"
| "version_has_sprout VCrosslink \<longleftrightarrow> False"

definition version_has_overwinter :: "tx_version \<Rightarrow> bool" where
  "version_has_overwinter v \<longleftrightarrow> (case v of Sprout _ \<Rightarrow> False | _ \<Rightarrow> True)"

fun version_has_sapling :: "tx_version \<Rightarrow> bool" where
  "version_has_sapling (Sprout _) \<longleftrightarrow> False"
| "version_has_sapling V3 \<longleftrightarrow> False"
| "version_has_sapling V4 \<longleftrightarrow> True"
| "version_has_sapling V5 \<longleftrightarrow> True"
| "version_has_sapling V6 \<longleftrightarrow> True"
| "version_has_sapling VCrosslink \<longleftrightarrow> True"

fun version_has_orchard :: "tx_version \<Rightarrow> bool" where
  "version_has_orchard (Sprout _) \<longleftrightarrow> False"
| "version_has_orchard V3 \<longleftrightarrow> False"
| "version_has_orchard V4 \<longleftrightarrow> False"
| "version_has_orchard V5 \<longleftrightarrow> True"
| "version_has_orchard V6 \<longleftrightarrow> True"
| "version_has_orchard VCrosslink \<longleftrightarrow> True"

fun version_has_ironwood :: "tx_version \<Rightarrow> bool" where
  "version_has_ironwood (Sprout _) \<longleftrightarrow> False"
| "version_has_ironwood V3 \<longleftrightarrow> False"
| "version_has_ironwood V4 \<longleftrightarrow> False"
| "version_has_ironwood V5 \<longleftrightarrow> False"
| "version_has_ironwood V6 \<longleftrightarrow> True"
| "version_has_ironwood VCrosslink \<longleftrightarrow> False"

definition version_has_crosslink :: "tx_version \<Rightarrow> bool" where
  "version_has_crosslink v \<longleftrightarrow> v = VCrosslink"

fun suggested_for_branch :: "branch_id \<Rightarrow> tx_version" where
  "suggested_for_branch BranchSprout = Sprout 2"
| "suggested_for_branch BranchOverwinter = V3"
| "suggested_for_branch BranchSapling = V4"
| "suggested_for_branch BranchBlossom = V4"
| "suggested_for_branch BranchHeartwood = V4"
| "suggested_for_branch BranchCanopy = V4"
| "suggested_for_branch BranchNu5 = V5"
| "suggested_for_branch BranchNu6 = V5"
| "suggested_for_branch BranchNu6_1 = V5"
| "suggested_for_branch BranchNu6_2 = V5"
| "suggested_for_branch BranchNu6_3 = V6"

fun valid_in_branch :: "tx_version \<Rightarrow> branch_id \<Rightarrow> bool" where
  "valid_in_branch (Sprout _) b \<longleftrightarrow> b = BranchSprout"
| "valid_in_branch V3 b \<longleftrightarrow> b = BranchOverwinter"
| "valid_in_branch V4 b \<longleftrightarrow> (case b of BranchSprout \<Rightarrow> False | BranchOverwinter \<Rightarrow> False | _ \<Rightarrow> True)"
| "valid_in_branch V5 b \<longleftrightarrow>
     (case b of BranchSprout \<Rightarrow> False | BranchOverwinter \<Rightarrow> False | BranchSapling \<Rightarrow> False
      | BranchBlossom \<Rightarrow> False | BranchHeartwood \<Rightarrow> False | BranchCanopy \<Rightarrow> False | _ \<Rightarrow> True)"
| "valid_in_branch V6 b \<longleftrightarrow> (case b of BranchNu6_3 \<Rightarrow> True | _ \<Rightarrow> False)"
| "valid_in_branch VCrosslink b \<longleftrightarrow>
     (case b of BranchSprout \<Rightarrow> False | BranchOverwinter \<Rightarrow> False | BranchSapling \<Rightarrow> False
      | BranchBlossom \<Rightarrow> False | BranchHeartwood \<Rightarrow> False | BranchCanopy \<Rightarrow> False | _ \<Rightarrow> True)"

definition wire_consensus_branch_id :: "tx_version \<Rightarrow> branch_id \<Rightarrow> u32" where
  "wire_consensus_branch_id v b = u32_from_BranchId b"

subsection \<open>The header codec\<close>

text \<open>The documented range of the argument of \<open>Sprout\<close>.\<close>

fun wf_tx_version :: "tx_version \<Rightarrow> bool" where
  "wf_tx_version (Sprout v) \<longleftrightarrow> 1 \<le> uint v \<and> uint v < 2 ^ 31"
| "wf_tx_version _ \<longleftrightarrow> True"

lemmas version_consts =
  V3_TX_VERSION_def V3_VERSION_GROUP_ID_def V4_TX_VERSION_def V4_VERSION_GROUP_ID_def
  V5_TX_VERSION_def V5_VERSION_GROUP_ID_def V6_TX_VERSION_def V6_VERSION_GROUP_ID_def
  VCROSSLINK_TX_VERSION_def VCROSSLINK_VERSION_GROUP_ID_def

lemma overwinter_bit:
  fixes h :: u32
  shows "drop_bit 31 h = 1 \<longleftrightarrow> 2 ^ 31 \<le> uint h"
proof -
  have "uint (drop_bit 31 h) = uint h div 2 ^ 31"
    by (simp add: drop_bit_eq_div uint_div_distrib)
  moreover have "uint h < 2 ^ 32" using unsigned_less [of h, where ?'a = int] by simp
  ultimately show ?thesis
    by (auto simp: word_eq_iff_unsigned [where ?'a = int])
qed

lemma low_bits:
  fixes h :: u32
  shows "uint (h AND 0x7FFFFFFF) = uint h mod 2 ^ 31"
proof -
  have m: "(0x7FFFFFFF :: u32) = mask 31" by (simp add: mask_eq_exp_minus_1)
  show ?thesis unfolding m by (simp add: unsigned_and_eq take_bit_eq_mod uint_mod_distrib flip: take_bit_eq_mask)
qed

lemma overwintered_iff:
  fixes h k :: u32
  assumes "uint k < 2 ^ 31"
  shows "drop_bit 31 h = 1 \<and> h AND 0x7FFFFFFF = k \<longleftrightarrow> h = 0x80000000 + k"
proof -
  have k: "uint (0x80000000 + k) = 2 ^ 31 + uint k"
    using assms by (simp add: uint_word_ariths)
  have h: "uint h < 2 ^ 32" using unsigned_less [of h, where ?'a = int] by simp
  have "2 ^ 31 \<le> uint h \<and> uint h mod 2 ^ 31 = uint k \<longleftrightarrow> uint h = 2 ^ 31 + uint k"
  proof
    assume *: "2 ^ 31 \<le> uint h \<and> uint h mod 2 ^ 31 = uint k"
    have "uint h mod 2 ^ 31 = (uint h - 2 ^ 31) mod 2 ^ 31" by simp
    also have "\<dots> = uint h - 2 ^ 31" using * h by (intro mod_pos_pos_trivial) auto
    finally show "uint h = 2 ^ 31 + uint k" using * by linarith
  next
    assume "uint h = 2 ^ 31 + uint k"
    then show "2 ^ 31 \<le> uint h \<and> uint h mod 2 ^ 31 = uint k"
      using assms mod_pos_pos_trivial [of "uint k" "2 ^ 31"] by simp
  qed
  then show ?thesis
    unfolding overwinter_bit using k low_bits [of h]
    by (simp add: word_eq_iff_unsigned [where ?'a = int])
qed

lemma sprout_iff:
  fixes h :: u32
  shows "drop_bit 31 h \<noteq> 1 \<and> h AND 0x7FFFFFFF = k \<and> k \<ge> 1 \<longleftrightarrow> h = k \<and> 1 \<le> uint k \<and> uint k < 2 ^ 31"
proof -
  have "\<not> 2 ^ 31 \<le> uint h \<and> uint h mod 2 ^ 31 = uint k \<longleftrightarrow> uint h = uint k \<and> uint k < 2 ^ 31"
    by auto
  then show ?thesis
    unfolding overwinter_bit using low_bits [of h]
    by (auto simp: word_eq_iff_unsigned [where ?'a = int] word_le_def)
qed

lemma TxVersion_header_values:
  "TxVersion_header V3 = 0x80000003" "TxVersion_header V4 = 0x80000004"
  "TxVersion_header V5 = 0x80000005" "TxVersion_header V6 = 0x80000006"
  "TxVersion_header VCrosslink = 0x80000007" "TxVersion_header (Sprout n) = n"
  by (simp_all add: TxVersion_header_def version_consts)

lemma format_of_iff:
  "format_of version gid = Some v \<longleftrightarrow> version_has_overwinter v
     \<and> version = TxVersion_number v \<and> gid = TxVersion_version_group_id v"
  by (cases v) (auto simp: format_of_def version_has_overwinter_def version_consts)

lemma TxVersion_read_iff:
  "TxVersion_read bs = Inr (v, rest) \<longleftrightarrow> wf_tx_version v \<and> bs = TxVersion_write v @ rest"
proof -
  have "TxVersion_read bs = Inr (v, rest) \<longleftrightarrow>
      (\<exists>h. bs = write_u32_le h @ write_u32_le (TxVersion_version_group_id v) @ rest
         \<and> version_has_overwinter v \<and> drop_bit 31 h = 1 \<and> h AND 0x7FFFFFFF = TxVersion_number v)
      \<or> (\<exists>h k. bs = write_u32_le h @ rest \<and> v = Sprout k
         \<and> (drop_bit 31 h \<noteq> 1 \<and> h AND 0x7FFFFFFF = k \<and> k \<ge> 1))"
    (is "_ \<longleftrightarrow> ?O \<or> ?S")
    unfolding TxVersion_read_def Let_def by (auto simp: codec_iff format_of_iff split: if_splits)
  also have "?S \<longleftrightarrow> (\<exists>k. v = Sprout k \<and> 1 \<le> uint k \<and> uint k < 2 ^ 31 \<and> bs = write_u32_le k @ rest)"
    unfolding sprout_iff by blast
  also have "?O \<or> \<dots> \<longleftrightarrow> wf_tx_version v \<and> bs = TxVersion_write v @ rest"
    by (cases v) (auto simp: TxVersion_write_def TxVersion_header_values
        version_has_overwinter_def version_consts overwintered_iff)
  finally show ?thesis .
qed

interpretation version_codec: exact_codec TxVersion_read TxVersion_write wf_tx_version
  by (rule exact_codecI) (rule TxVersion_read_iff)

lemmas version_codec_iff [codec_iff] = version_codec.rd_iff

text \<open>The version header is an exact codec: reading returns a version whose Sprout number is in
  \<open>1..=0x7FFFFFFF\<close> and consumed exactly its written form (four bytes before Overwinter, eight
  after); no two versions share a header, and a zero version or a version number with a foreign
  group id is refused.\<close>

theorem tx_version_codec:
  "(TxVersion_read bs = Inr (v, rest) \<longleftrightarrow> wf_tx_version v \<and> bs = TxVersion_write v @ rest)
   \<and> length (TxVersion_write v) = (if version_has_overwinter v then 8 else 4)
   \<and> (wf_tx_version v \<and> wf_tx_version w \<longrightarrow> (TxVersion_header v = TxVersion_header w \<longleftrightarrow> v = w))
   \<and> TxVersion_read (write_u32_le 0 @ bs) = Inl (InvalidData ''Unknown transaction format'')
   \<and> (version_has_overwinter v \<and> gid \<noteq> TxVersion_version_group_id v \<longrightarrow>
        TxVersion_read (write_u32_le (TxVersion_header v) @ write_u32_le gid @ bs)
          = Inl (InvalidData ''Unknown transaction format''))"
proof (intro conjI impI)
  show "TxVersion_read bs = Inr (v, rest) \<longleftrightarrow> wf_tx_version v \<and> bs = TxVersion_write v @ rest"
    by (rule TxVersion_read_iff)
  show "length (TxVersion_write v) = (if version_has_overwinter v then 8 else 4)"
    by (cases v) (simp_all add: TxVersion_write_def version_has_overwinter_def)
  show "TxVersion_header v = TxVersion_header w \<longleftrightarrow> v = w" if "wf_tx_version v \<and> wf_tx_version w"
    using that by (cases v; cases w) (auto simp: TxVersion_header_values)
  have u: "rbind read_u32_le f (write_u32_le h @ r) = f h r" for f :: "u32 \<Rightarrow> tx_version reader" and h r
    by (rule u32_codec.bind_written) simp
  show "TxVersion_read (write_u32_le 0 @ bs) = Inl (InvalidData ''Unknown transaction format'')"
    unfolding TxVersion_read_def Let_def u by simp
  show "TxVersion_read (write_u32_le (TxVersion_header v) @ write_u32_le gid @ bs)
      = Inl (InvalidData ''Unknown transaction format'')"
    if "version_has_overwinter v \<and> gid \<noteq> TxVersion_version_group_id v"
    using that unfolding TxVersion_read_def Let_def u
    by (cases v) (simp_all add: u TxVersion_header_values version_has_overwinter_def format_of_def
        version_consts)
qed

lemma tx_version_codec_witness:
  "TxVersion_read (TxVersion_write V5 @ [1]) = Inr (V5, [1])
   \<and> TxVersion_header V4 \<noteq> TxVersion_header (Sprout 4)
   \<and> TxVersion_read (write_u32_le (TxVersion_header V5) @ write_u32_le 7 @ [])
       = Inl (InvalidData ''Unknown transaction format'')"
  using tx_version_codec [of "TxVersion_write V5 @ [1]" V5 "[1]"]
    tx_version_codec [of "[]" V4 "[]" "Sprout 4"] tx_version_codec [of "[]" V5 "[]" V5 7]
  by (simp add: version_has_overwinter_def version_consts)



end
