(* ===== verification/BftKeys.thy ===== *)
theory BftKeys
  imports Consensus "HOL-Library.List_Lexorder"
begin

text \<open>
  The byte-array types of the BFT crate and of the protocol crate: \<open>hash.rs\<close>, \<open>keys.rs\<close>,
  \<open>height.rs\<close> and \<open>params.rs\<close> of \<open>crates/bft_primitives/src\<close> and \<open>txid.rs\<close> of
  \<open>components/zcash_protocol/src\<close>. A \<open>[u8; n]\<close> is a byte list with its length in the
  type's well-formedness predicate. Ed25519 is code outside \<open>src\<close>: key parsing and
  verification are parameters. Display text and the hex forms of \<open>serde\<close> are in BftText.
\<close>

subsection \<open>Hashes, keys, signatures and transaction identifiers\<close>

datatype blake3_hash = Blake3Hash (hash_bytes: bytes)

definition BLAKE3_HASH_BYTES :: nat where
  "BLAKE3_HASH_BYTES = 32"

definition wf_hash :: "blake3_hash \<Rightarrow> bool" where
  "wf_hash h \<longleftrightarrow> length (hash_bytes h) = BLAKE3_HASH_BYTES"

definition Blake3Hash_is_zero :: "blake3_hash \<Rightarrow> bool" where
  "Blake3Hash_is_zero h \<longleftrightarrow> hash_bytes h = replicate BLAKE3_HASH_BYTES 0"

definition Blake3Hash_read :: "blake3_hash reader" where
  "Blake3Hash_read = rbind (read_exact BLAKE3_HASH_BYTES) (\<lambda>bytes. rret (Blake3Hash bytes))"

definition Blake3Hash_write :: "blake3_hash \<Rightarrow> bytes" where
  "Blake3Hash_write h = hash_bytes h"

datatype pub_key_id = PubKeyId (pk_bytes: bytes)

definition PUB_KEY_ID_BYTES :: nat where
  "PUB_KEY_ID_BYTES = 32"

definition wf_pub_key :: "pub_key_id \<Rightarrow> bool" where
  "wf_pub_key k \<longleftrightarrow> length (pk_bytes k) = PUB_KEY_ID_BYTES"

definition PubKeyId_read :: "pub_key_id reader" where
  "PubKeyId_read = rbind (read_exact PUB_KEY_ID_BYTES) (\<lambda>bytes. rret (PubKeyId bytes))"

definition PubKeyId_write :: "pub_key_id \<Rightarrow> bytes" where
  "PubKeyId_write k = pk_bytes k"

text \<open>\<open>derive(PartialOrd, Ord)\<close>: the lexicographic order of the key bytes.\<close>

instantiation pub_key_id :: linorder
begin

definition less_eq_pub_key_id :: "pub_key_id \<Rightarrow> pub_key_id \<Rightarrow> bool" where
  "less_eq_pub_key_id a b \<longleftrightarrow> pk_bytes a \<le> pk_bytes b"

definition less_pub_key_id :: "pub_key_id \<Rightarrow> pub_key_id \<Rightarrow> bool" where
  "less_pub_key_id a b \<longleftrightarrow> pk_bytes a < pk_bytes b"

instance
  by standard (auto simp: less_eq_pub_key_id_def less_pub_key_id_def intro: pub_key_id.expand)

end

datatype vote_signature = VoteSignature (sig_bytes: bytes)

definition VOTE_SIGNATURE_BYTES :: nat where
  "VOTE_SIGNATURE_BYTES = 64"

definition wf_vote_signature :: "vote_signature \<Rightarrow> bool" where
  "wf_vote_signature s \<longleftrightarrow> length (sig_bytes s) = VOTE_SIGNATURE_BYTES"

definition VoteSignature_read :: "vote_signature reader" where
  "VoteSignature_read = rbind (read_exact VOTE_SIGNATURE_BYTES) (\<lambda>bytes. rret (VoteSignature bytes))"

definition VoteSignature_write :: "vote_signature \<Rightarrow> bytes" where
  "VoteSignature_write s = sig_bytes s"

datatype tx_id = TxId (txid_bytes: bytes)

definition wf_txid :: "tx_id \<Rightarrow> bool" where
  "wf_txid t \<longleftrightarrow> length (txid_bytes t) = 32"

definition TxId_NULL :: tx_id where
  "TxId_NULL = TxId (replicate 32 0)"

definition TxId_read :: "tx_id reader" where
  "TxId_read = rbind (read_exact 32) (\<lambda>hash. rret (TxId hash))"

definition TxId_write :: "tx_id \<Rightarrow> bytes" where
  "TxId_write t = txid_bytes t"

definition TxId_is_null :: "tx_id \<Rightarrow> bool" where
  "TxId_is_null t \<longleftrightarrow> t = TxId_NULL"

lemmas byte_array_consts [simp] =
  BLAKE3_HASH_BYTES_def PUB_KEY_ID_BYTES_def VOTE_SIGNATURE_BYTES_def

lemmas byte_array_wf [wf_simps] =
  wf_hash_def wf_pub_key_def wf_vote_signature_def wf_txid_def

interpretation hash_codec: fixed_codec Blake3Hash_read Blake3Hash_write wf_hash 32
  by (rule fixed_codecI)
    (simp_all add: Blake3Hash_read_def Blake3Hash_write_def wf_hash_def
      read_array_iff [where get = hash_bytes] del: rbind_iff)

interpretation pub_key_codec: fixed_codec PubKeyId_read PubKeyId_write wf_pub_key 32
  by (rule fixed_codecI)
    (simp_all add: PubKeyId_read_def PubKeyId_write_def wf_pub_key_def
      read_array_iff [where get = pk_bytes] del: rbind_iff)

interpretation vote_sig_codec: fixed_codec VoteSignature_read VoteSignature_write wf_vote_signature 64
  by (rule fixed_codecI)
    (simp_all add: VoteSignature_read_def VoteSignature_write_def wf_vote_signature_def
      read_array_iff [where get = sig_bytes] del: rbind_iff)

interpretation txid_codec: fixed_codec TxId_read TxId_write wf_txid 32
  by (rule fixed_codecI)
    (simp_all add: TxId_read_def TxId_write_def wf_txid_def
      read_array_iff [where get = txid_bytes] del: rbind_iff)

lemmas array_codec_iff [codec_iff] =
  hash_codec.rd_iff pub_key_codec.rd_iff vote_sig_codec.rd_iff txid_codec.rd_iff

subsection \<open>Signature verification\<close>

text \<open>
  \<open>ed25519_zebra\<close> as a record of the operations called: parsing a verification key,
  verifying one signature, and the batch verifier over queued items.
\<close>

record ('vk, 'e) ed25519 =
  vk_try_from :: "bytes \<Rightarrow> 'e + 'vk"
  vk_verify :: "'vk \<Rightarrow> bytes \<Rightarrow> bytes \<Rightarrow> 'e + unit"
  batch_verify :: "(bytes \<times> bytes \<times> bytes) list \<Rightarrow> bool"

datatype 'e signature_error =
    InvalidPublicKey 'e
  | InvalidSignature 'e
  | BatchVerificationFailed

definition VoteSignature_verify ::
  "('vk, 'e) ed25519 \<Rightarrow> vote_signature \<Rightarrow> pub_key_id \<Rightarrow> bytes \<Rightarrow> 'e signature_error + unit" where
  "VoteSignature_verify ed s pub_key signed_data =
     res_bind (map_err InvalidPublicKey (vk_try_from ed (pk_bytes pub_key))) (\<lambda>vk.
       map_err InvalidSignature (vk_verify ed vk (sig_bytes s) signed_data))"

definition VoteSignature_verify_with_namespace ::
  "('vk, 'e) ed25519 \<Rightarrow> vote_signature \<Rightarrow> pub_key_id \<Rightarrow> bytes \<Rightarrow> blake3_hash option
     \<Rightarrow> 'e signature_error + unit" where
  "VoteSignature_verify_with_namespace ed s pub_key signed_data namespace =
     (case namespace of
        None \<Rightarrow> VoteSignature_verify ed s pub_key signed_data
      | Some ns \<Rightarrow> VoteSignature_verify ed s pub_key (signed_data @ hash_bytes ns))"

subsection \<open>BFT heights\<close>

datatype bft_height = BftHeight (bft_raw: u32)

instantiation bft_height :: linorder
begin

definition less_eq_bft_height :: "bft_height \<Rightarrow> bft_height \<Rightarrow> bool" where
  "less_eq_bft_height a b \<longleftrightarrow> bft_raw a \<le> bft_raw b"

definition less_bft_height :: "bft_height \<Rightarrow> bft_height \<Rightarrow> bool" where
  "less_bft_height a b \<longleftrightarrow> bft_raw a < bft_raw b"

instance
  by standard (auto simp: less_eq_bft_height_def less_bft_height_def intro: bft_height.expand)

end

definition BftHeight_ZERO :: bft_height where
  "BftHeight_ZERO = BftHeight 0"

definition BftHeight_new :: "u32 \<Rightarrow> bft_height" where
  "BftHeight_new height = BftHeight height"

definition u32_from_BftHeight :: "bft_height \<Rightarrow> u32" where
  "u32_from_BftHeight h = bft_raw h"

definition u64_from_BftHeight :: "bft_height \<Rightarrow> u64" where
  "u64_from_BftHeight h = ucast (bft_raw h)"

subsection \<open>Crosslink parameters\<close>

datatype invalid_parameters = ZeroConfirmationDepth | GapBelowTwiceSigma u64 u64

record zcash_crosslink_parameters =
  pow_confirmation_depth_sigma :: u64
  finalization_gap_bound :: u64

text \<open>\<open>2 * sigma\<close> is a plain multiplication of \<open>u64\<close>: it wraps in a release build.\<close>

definition ZcashCrosslinkParameters_new ::
  "u64 \<Rightarrow> u64 \<Rightarrow> invalid_parameters + zcash_crosslink_parameters" where
  "ZcashCrosslinkParameters_new sigma gap =
     (if sigma = 0 then Inl ZeroConfirmationDepth
      else if gap < 2 * sigma then Inl (GapBelowTwiceSigma sigma gap)
      else Inr \<lparr>pow_confirmation_depth_sigma = sigma, finalization_gap_bound = gap\<rparr>)"

definition PROTOTYPE_PARAMETERS :: zcash_crosslink_parameters where
  "PROTOTYPE_PARAMETERS = \<lparr>pow_confirmation_depth_sigma = 3, finalization_gap_bound = 7\<rparr>"

record equihash_parameters =
  eh_n :: u32
  eh_k :: u32

definition EquihashParameters_ZCASH :: equihash_parameters where
  "EquihashParameters_ZCASH = \<lparr>eh_n = 200, eh_k = 9\<rparr>"

definition EquihashParameters_new :: "u32 \<Rightarrow> u32 \<Rightarrow> equihash_parameters" where
  "EquihashParameters_new n k = \<lparr>eh_n = n, eh_k = k\<rparr>"

text \<open>The documented guarantee of \<open>new\<close>, over the integers.\<close>

definition consistent_parameters :: "zcash_crosslink_parameters \<Rightarrow> bool" where
  "consistent_parameters p \<longleftrightarrow> 1 \<le> uint (pow_confirmation_depth_sigma p)
     \<and> 2 * uint (pow_confirmation_depth_sigma p) \<le> uint (finalization_gap_bound p)"

text \<open>As long as twice the confirmation depth fits in \<open>u64\<close>, \<open>new\<close> accepts exactly the pairs
  with \<open>sigma >= 1\<close> and \<open>gap >= 2 * sigma\<close>, returns them unchanged, and names the violated bound
  otherwise; the prototype constants satisfy the guarantee.\<close>

theorem crosslink_parameters_new_iff:
  assumes "uint sigma < 2 ^ 63"
  shows "ZcashCrosslinkParameters_new sigma gap =
      (if uint sigma = 0 then Inl ZeroConfirmationDepth
       else if uint gap < 2 * uint sigma then Inl (GapBelowTwiceSigma sigma gap)
       else Inr \<lparr>pow_confirmation_depth_sigma = sigma, finalization_gap_bound = gap\<rparr>)
    \<and> (ZcashCrosslinkParameters_new sigma gap = Inr p \<longrightarrow> consistent_parameters p)
    \<and> consistent_parameters PROTOTYPE_PARAMETERS"
proof -
  have two: "uint (2 * sigma) = 2 * uint sigma"
    using uint_mul_exact64 [of 2 sigma] assms by simp
  have zero: "sigma = 0 \<longleftrightarrow> uint sigma = 0"
    by (simp add: word_eq_iff_unsigned [where ?'a = int])
  have pos: "1 \<le> uint sigma" if "sigma \<noteq> 0" using uint_pos [OF that] by simp
  show ?thesis
    using pos by (auto simp: ZcashCrosslinkParameters_new_def consistent_parameters_def
        PROTOTYPE_PARAMETERS_def word_less_def two)
qed

lemma crosslink_parameters_new_iff_witness:
  "ZcashCrosslinkParameters_new 3 5 = Inl (GapBelowTwiceSigma 3 5)"
  using crosslink_parameters_new_iff [of 3 5] by simp

text \<open>For a confirmation depth of \<open>2^63\<close> the unchecked multiplication wraps to zero, and \<open>new\<close>
  accepts every gap bound, including 0, against its documented guarantee.\<close>

theorem crosslink_parameters_overflow:
  assumes "uint sigma = 2 ^ 63"
  shows "ZcashCrosslinkParameters_new sigma gap =
      Inr \<lparr>pow_confirmation_depth_sigma = sigma, finalization_gap_bound = gap\<rparr>
    \<and> \<not> consistent_parameters \<lparr>pow_confirmation_depth_sigma = sigma, finalization_gap_bound = gap\<rparr>"
proof
  have "uint (2 * sigma) = 0" using assms by (simp add: uint_word_ariths)
  then have "2 * sigma = 0" by (simp add: word_eq_iff_unsigned [where ?'a = int])
  moreover have "sigma \<noteq> 0" using assms by auto
  ultimately show "ZcashCrosslinkParameters_new sigma gap =
      Inr \<lparr>pow_confirmation_depth_sigma = sigma, finalization_gap_bound = gap\<rparr>"
    by (simp add: ZcashCrosslinkParameters_new_def)
  have "uint gap < 2 ^ 64" using uint_lt2p [of gap] by simp
  then show "\<not> consistent_parameters \<lparr>pow_confirmation_depth_sigma = sigma, finalization_gap_bound = gap\<rparr>"
    using assms by (simp add: consistent_parameters_def)
qed

lemma crosslink_parameters_overflow_witness:
  "ZcashCrosslinkParameters_new 0x8000000000000000 0 =
     Inr \<lparr>pow_confirmation_depth_sigma = 0x8000000000000000, finalization_gap_bound = 0\<rparr>"
  using crosslink_parameters_overflow [of "0x8000000000000000" 0] by simp

end
