(* ===== verification/Staking.thy ===== *)
theory Staking
  imports BftKeys
begin

text \<open>
  \<open>zcash_primitives/src/transaction/components/staking.rs\<close>: the seven staking actions of a version
  7 transaction, their fields, the tagged encoding of an optional action and the value an action
  moves in or out of the transaction's balance. Each action's field codec is a \<open>fixed_codec\<close>;
  the tagged one is an \<open>exact_codec\<close>. The accessors are the record selectors.
\<close>

subsection \<open>Identifiers, challenges and signatures\<close>

datatype bond_id = BondId (bond_bytes: bytes)

definition BondId_read :: "bond_id reader" where
  "BondId_read = rbind (read_exact 32) (\<lambda>bytes. rret (BondId bytes))"

definition BondId_write :: "bond_id \<Rightarrow> bytes" where
  "BondId_write b = bond_bytes b"

datatype staking_auth_challenge = StakingAuthChallenge (challenge_bytes: bytes)

definition StakingAuthChallenge_read :: "staking_auth_challenge reader" where
  "StakingAuthChallenge_read = rbind (read_exact 32) (\<lambda>bytes. rret (StakingAuthChallenge bytes))"

definition StakingAuthChallenge_write :: "staking_auth_challenge \<Rightarrow> bytes" where
  "StakingAuthChallenge_write c = challenge_bytes c"

datatype staking_auth_sig = StakingAuthSig (staking_sig_bytes: bytes)

definition StakingAuthSig_read :: "staking_auth_sig reader" where
  "StakingAuthSig_read = rbind (read_exact 64) (\<lambda>bytes. rret (StakingAuthSig bytes))"

definition StakingAuthSig_write :: "staking_auth_sig \<Rightarrow> bytes" where
  "StakingAuthSig_write s = staking_sig_bytes s"

definition read_staking_zatoshis :: "zatoshis reader" where
  "read_staking_zatoshis = rbind read_u64_le (\<lambda>amount.
     rlift (map_err (\<lambda>_. InvalidData ''staking amount out of range'') (Zatoshis_from_u64 amount)))"

definition write_staking_zatoshis :: "zatoshis \<Rightarrow> bytes" where
  "write_staking_zatoshis amount = write_u64_le (Zatoshis_into_u64 amount)"

subsection \<open>The actions\<close>

record create_new_delegation_bond =
  cb_unique_pubkey :: bond_id
  cb_challenge :: staking_auth_challenge
  cb_signature :: staking_auth_sig
  cb_target_finalizer :: pub_key_id
  cb_amount :: zatoshis

record begin_delegation_unbonding =
  bu_unique_pubkey :: bond_id
  bu_challenge :: staking_auth_challenge
  bu_signature :: staking_auth_sig

record withdraw_delegation_bond =
  wd_unique_pubkey :: bond_id
  wd_challenge :: staking_auth_challenge
  wd_signature :: staking_auth_sig
  wd_amount :: zatoshis

record retarget_delegation_bond =
  rt_unique_pubkey :: bond_id
  rt_challenge :: staking_auth_challenge
  rt_signature :: staking_auth_sig
  rt_target_finalizer :: pub_key_id

record register_finalizer =
  rf_unique_pubkey :: bond_id
  rf_challenge :: staking_auth_challenge
  rf_signature :: staking_auth_sig

record convert_finalizer_reward =
  cv_unique_pubkey :: bond_id
  cv_challenge :: staking_auth_challenge
  cv_signature :: staking_auth_sig
  cv_this_finalizer :: pub_key_id
  cv_amount :: zatoshis
  cv_second_challenge :: staking_auth_challenge
  cv_finalizer_signature :: staking_auth_sig

record update_finalizer_key =
  uk_unique_pubkey :: bond_id
  uk_challenge :: staking_auth_challenge
  uk_signature :: staking_auth_sig
  uk_this_finalizer :: pub_key_id
  uk_second_challenge :: staking_auth_challenge
  uk_finalizer_signature :: staking_auth_sig

definition CreateNewDelegationBond_write_fields :: "create_new_delegation_bond \<Rightarrow> bytes" where
  "CreateNewDelegationBond_write_fields a =
     BondId_write (cb_unique_pubkey a)
     @ StakingAuthChallenge_write (cb_challenge a)
     @ StakingAuthSig_write (cb_signature a)
     @ PubKeyId_write (cb_target_finalizer a)
     @ write_staking_zatoshis (cb_amount a)"

definition CreateNewDelegationBond_read_fields :: "create_new_delegation_bond reader" where
  "CreateNewDelegationBond_read_fields =
     rbind BondId_read (\<lambda>unique_pubkey.
     rbind StakingAuthChallenge_read (\<lambda>challenge.
     rbind StakingAuthSig_read (\<lambda>signature.
     rbind PubKeyId_read (\<lambda>target_finalizer.
     rbind read_staking_zatoshis (\<lambda>amount.
     rret \<lparr>cb_unique_pubkey = unique_pubkey, cb_challenge = challenge,
           cb_signature = signature, cb_target_finalizer = target_finalizer,
           cb_amount = amount\<rparr>)))))"

definition BeginDelegationUnbonding_write_fields :: "begin_delegation_unbonding \<Rightarrow> bytes" where
  "BeginDelegationUnbonding_write_fields a =
     BondId_write (bu_unique_pubkey a)
     @ StakingAuthChallenge_write (bu_challenge a)
     @ StakingAuthSig_write (bu_signature a)"

definition BeginDelegationUnbonding_read_fields :: "begin_delegation_unbonding reader" where
  "BeginDelegationUnbonding_read_fields =
     rbind BondId_read (\<lambda>unique_pubkey.
     rbind StakingAuthChallenge_read (\<lambda>challenge.
     rbind StakingAuthSig_read (\<lambda>signature.
     rret \<lparr>bu_unique_pubkey = unique_pubkey, bu_challenge = challenge,
           bu_signature = signature\<rparr>)))"

definition WithdrawDelegationBond_write_fields :: "withdraw_delegation_bond \<Rightarrow> bytes" where
  "WithdrawDelegationBond_write_fields a =
     BondId_write (wd_unique_pubkey a)
     @ StakingAuthChallenge_write (wd_challenge a)
     @ StakingAuthSig_write (wd_signature a)
     @ write_staking_zatoshis (wd_amount a)"

definition WithdrawDelegationBond_read_fields :: "withdraw_delegation_bond reader" where
  "WithdrawDelegationBond_read_fields =
     rbind BondId_read (\<lambda>unique_pubkey.
     rbind StakingAuthChallenge_read (\<lambda>challenge.
     rbind StakingAuthSig_read (\<lambda>signature.
     rbind read_staking_zatoshis (\<lambda>amount.
     rret \<lparr>wd_unique_pubkey = unique_pubkey, wd_challenge = challenge,
           wd_signature = signature, wd_amount = amount\<rparr>))))"

definition RetargetDelegationBond_write_fields :: "retarget_delegation_bond \<Rightarrow> bytes" where
  "RetargetDelegationBond_write_fields a =
     BondId_write (rt_unique_pubkey a)
     @ StakingAuthChallenge_write (rt_challenge a)
     @ StakingAuthSig_write (rt_signature a)
     @ PubKeyId_write (rt_target_finalizer a)"

definition RetargetDelegationBond_read_fields :: "retarget_delegation_bond reader" where
  "RetargetDelegationBond_read_fields =
     rbind BondId_read (\<lambda>unique_pubkey.
     rbind StakingAuthChallenge_read (\<lambda>challenge.
     rbind StakingAuthSig_read (\<lambda>signature.
     rbind PubKeyId_read (\<lambda>target_finalizer.
     rret \<lparr>rt_unique_pubkey = unique_pubkey, rt_challenge = challenge,
           rt_signature = signature, rt_target_finalizer = target_finalizer\<rparr>))))"

definition RegisterFinalizer_write_fields :: "register_finalizer \<Rightarrow> bytes" where
  "RegisterFinalizer_write_fields a =
     BondId_write (rf_unique_pubkey a)
     @ StakingAuthChallenge_write (rf_challenge a)
     @ StakingAuthSig_write (rf_signature a)"

definition RegisterFinalizer_read_fields :: "register_finalizer reader" where
  "RegisterFinalizer_read_fields =
     rbind BondId_read (\<lambda>unique_pubkey.
     rbind StakingAuthChallenge_read (\<lambda>challenge.
     rbind StakingAuthSig_read (\<lambda>signature.
     rret \<lparr>rf_unique_pubkey = unique_pubkey, rf_challenge = challenge,
           rf_signature = signature\<rparr>)))"

definition ConvertFinalizerRewardToDelegationBond_write_fields :: "convert_finalizer_reward \<Rightarrow> bytes" where
  "ConvertFinalizerRewardToDelegationBond_write_fields a =
     BondId_write (cv_unique_pubkey a)
     @ StakingAuthChallenge_write (cv_challenge a)
     @ StakingAuthSig_write (cv_signature a)
     @ PubKeyId_write (cv_this_finalizer a)
     @ write_staking_zatoshis (cv_amount a)
     @ StakingAuthChallenge_write (cv_second_challenge a)
     @ StakingAuthSig_write (cv_finalizer_signature a)"

definition ConvertFinalizerRewardToDelegationBond_read_fields :: "convert_finalizer_reward reader" where
  "ConvertFinalizerRewardToDelegationBond_read_fields =
     rbind BondId_read (\<lambda>unique_pubkey.
     rbind StakingAuthChallenge_read (\<lambda>challenge.
     rbind StakingAuthSig_read (\<lambda>signature.
     rbind PubKeyId_read (\<lambda>this_finalizer.
     rbind read_staking_zatoshis (\<lambda>amount.
     rbind StakingAuthChallenge_read (\<lambda>second_challenge.
     rbind StakingAuthSig_read (\<lambda>finalizer_signature.
     rret \<lparr>cv_unique_pubkey = unique_pubkey, cv_challenge = challenge,
           cv_signature = signature, cv_this_finalizer = this_finalizer,
           cv_amount = amount, cv_second_challenge = second_challenge,
           cv_finalizer_signature = finalizer_signature\<rparr>)))))))"

definition UpdateFinalizerKey_write_fields :: "update_finalizer_key \<Rightarrow> bytes" where
  "UpdateFinalizerKey_write_fields a =
     BondId_write (uk_unique_pubkey a)
     @ StakingAuthChallenge_write (uk_challenge a)
     @ StakingAuthSig_write (uk_signature a)
     @ PubKeyId_write (uk_this_finalizer a)
     @ StakingAuthChallenge_write (uk_second_challenge a)
     @ StakingAuthSig_write (uk_finalizer_signature a)"

definition UpdateFinalizerKey_read_fields :: "update_finalizer_key reader" where
  "UpdateFinalizerKey_read_fields =
     rbind BondId_read (\<lambda>unique_pubkey.
     rbind StakingAuthChallenge_read (\<lambda>challenge.
     rbind StakingAuthSig_read (\<lambda>signature.
     rbind PubKeyId_read (\<lambda>this_finalizer.
     rbind StakingAuthChallenge_read (\<lambda>second_challenge.
     rbind StakingAuthSig_read (\<lambda>finalizer_signature.
     rret \<lparr>uk_unique_pubkey = unique_pubkey, uk_challenge = challenge,
           uk_signature = signature, uk_this_finalizer = this_finalizer,
           uk_second_challenge = second_challenge, uk_finalizer_signature = finalizer_signature\<rparr>))))))"

datatype staking_action_kind =
    KindCreateNewDelegationBond
  | KindBeginDelegationUnbonding
  | KindWithdrawDelegationBond
  | KindRetargetDelegationBond
  | KindRegisterFinalizer
  | KindConvertFinalizerRewardToDelegationBond
  | KindUpdateFinalizerKey

datatype staking_action =
    CreateNewDelegationBond create_new_delegation_bond
  | BeginDelegationUnbonding begin_delegation_unbonding
  | WithdrawDelegationBond withdraw_delegation_bond
  | RetargetDelegationBond retarget_delegation_bond
  | RegisterFinalizer register_finalizer
  | ConvertFinalizerRewardToDelegationBond convert_finalizer_reward
  | UpdateFinalizerKey update_finalizer_key

fun StakingAction_kind :: "staking_action \<Rightarrow> staking_action_kind" where
  "StakingAction_kind (CreateNewDelegationBond _) = KindCreateNewDelegationBond"
| "StakingAction_kind (BeginDelegationUnbonding _) = KindBeginDelegationUnbonding"
| "StakingAction_kind (WithdrawDelegationBond _) = KindWithdrawDelegationBond"
| "StakingAction_kind (RetargetDelegationBond _) = KindRetargetDelegationBond"
| "StakingAction_kind (RegisterFinalizer _) = KindRegisterFinalizer"
| "StakingAction_kind (ConvertFinalizerRewardToDelegationBond _) =
     KindConvertFinalizerRewardToDelegationBond"
| "StakingAction_kind (UpdateFinalizerKey _) = KindUpdateFinalizerKey"

fun value_balance_contribution :: "staking_action \<Rightarrow> zat_balance" where
  "value_balance_contribution (CreateNewDelegationBond a) = zb_neg (ZatBalance_from_Zatoshis (cb_amount a))"
| "value_balance_contribution (WithdrawDelegationBond a) = ZatBalance_from_Zatoshis (wd_amount a)"
| "value_balance_contribution _ = ZatBalance_zero"

definition TAG_ABSENT :: u8 where "TAG_ABSENT = 0"
definition TAG_CREATE_NEW_DELEGATION_BOND :: u8 where "TAG_CREATE_NEW_DELEGATION_BOND = 1"
definition TAG_BEGIN_DELEGATION_UNBONDING :: u8 where "TAG_BEGIN_DELEGATION_UNBONDING = 2"
definition TAG_WITHDRAW_DELEGATION_BOND :: u8 where "TAG_WITHDRAW_DELEGATION_BOND = 3"
definition TAG_RETARGET_DELEGATION_BOND :: u8 where "TAG_RETARGET_DELEGATION_BOND = 4"
definition TAG_REGISTER_FINALIZER :: u8 where "TAG_REGISTER_FINALIZER = 5"
definition TAG_CONVERT_FINALIZER_REWARD_TO_DELEGATION_BOND :: u8 where
  "TAG_CONVERT_FINALIZER_REWARD_TO_DELEGATION_BOND = 6"
definition TAG_UPDATE_FINALIZER_KEY :: u8 where "TAG_UPDATE_FINALIZER_KEY = 7"

lemmas staking_tags =
  TAG_ABSENT_def TAG_CREATE_NEW_DELEGATION_BOND_def TAG_BEGIN_DELEGATION_UNBONDING_def
  TAG_WITHDRAW_DELEGATION_BOND_def TAG_RETARGET_DELEGATION_BOND_def TAG_REGISTER_FINALIZER_def
  TAG_CONVERT_FINALIZER_REWARD_TO_DELEGATION_BOND_def TAG_UPDATE_FINALIZER_KEY_def

fun StakingAction_write_body :: "staking_action \<Rightarrow> bytes" where
  "StakingAction_write_body (CreateNewDelegationBond a) =
     write_u8 TAG_CREATE_NEW_DELEGATION_BOND @ CreateNewDelegationBond_write_fields a"
| "StakingAction_write_body (BeginDelegationUnbonding a) =
     write_u8 TAG_BEGIN_DELEGATION_UNBONDING @ BeginDelegationUnbonding_write_fields a"
| "StakingAction_write_body (WithdrawDelegationBond a) =
     write_u8 TAG_WITHDRAW_DELEGATION_BOND @ WithdrawDelegationBond_write_fields a"
| "StakingAction_write_body (RetargetDelegationBond a) =
     write_u8 TAG_RETARGET_DELEGATION_BOND @ RetargetDelegationBond_write_fields a"
| "StakingAction_write_body (RegisterFinalizer a) =
     write_u8 TAG_REGISTER_FINALIZER @ RegisterFinalizer_write_fields a"
| "StakingAction_write_body (ConvertFinalizerRewardToDelegationBond a) =
     write_u8 TAG_CONVERT_FINALIZER_REWARD_TO_DELEGATION_BOND
     @ ConvertFinalizerRewardToDelegationBond_write_fields a"
| "StakingAction_write_body (UpdateFinalizerKey a) =
     write_u8 TAG_UPDATE_FINALIZER_KEY @ UpdateFinalizerKey_write_fields a"

definition StakingAction_write :: "staking_action option \<Rightarrow> bytes" where
  "StakingAction_write action = (case action of
     None \<Rightarrow> write_u8 TAG_ABSENT
   | Some action \<Rightarrow> StakingAction_write_body action)"

definition read_tagged :: "('a \<Rightarrow> staking_action) \<Rightarrow> 'a reader \<Rightarrow> staking_action option reader" where
  "read_tagged C rd = rbind rd (\<lambda>a. rret (Some (C a)))"

definition StakingAction_read :: "staking_action option reader" where
  "StakingAction_read = rbind read_u8 (\<lambda>tag.
     if tag = TAG_ABSENT then rret None
     else if tag = TAG_CREATE_NEW_DELEGATION_BOND then
       read_tagged CreateNewDelegationBond CreateNewDelegationBond_read_fields
     else if tag = TAG_BEGIN_DELEGATION_UNBONDING then
       read_tagged BeginDelegationUnbonding BeginDelegationUnbonding_read_fields
     else if tag = TAG_WITHDRAW_DELEGATION_BOND then
       read_tagged WithdrawDelegationBond WithdrawDelegationBond_read_fields
     else if tag = TAG_RETARGET_DELEGATION_BOND then
       read_tagged RetargetDelegationBond RetargetDelegationBond_read_fields
     else if tag = TAG_REGISTER_FINALIZER then
       read_tagged RegisterFinalizer RegisterFinalizer_read_fields
     else if tag = TAG_CONVERT_FINALIZER_REWARD_TO_DELEGATION_BOND then
       read_tagged ConvertFinalizerRewardToDelegationBond ConvertFinalizerRewardToDelegationBond_read_fields
     else if tag = TAG_UPDATE_FINALIZER_KEY then
       read_tagged UpdateFinalizerKey UpdateFinalizerKey_read_fields
     else rfail (InvalidInput ''unknown staking action kind''))"

subsection \<open>Field codecs\<close>

definition wf_bond :: "bond_id \<Rightarrow> bool" where "wf_bond b \<longleftrightarrow> length (bond_bytes b) = 32"
definition wf_challenge :: "staking_auth_challenge \<Rightarrow> bool" where
  "wf_challenge c \<longleftrightarrow> length (challenge_bytes c) = 32"
definition wf_staking_sig :: "staking_auth_sig \<Rightarrow> bool" where
  "wf_staking_sig s \<longleftrightarrow> length (staking_sig_bytes s) = 64"

interpretation bond_codec: fixed_codec BondId_read BondId_write wf_bond 32
  by (rule fixed_codecI)
    (simp_all add: BondId_read_def BondId_write_def wf_bond_def
      read_array_iff [where get = bond_bytes] del: rbind_iff)

interpretation challenge_codec: fixed_codec StakingAuthChallenge_read StakingAuthChallenge_write wf_challenge 32
  by (rule fixed_codecI)
    (simp_all add: StakingAuthChallenge_read_def StakingAuthChallenge_write_def wf_challenge_def
      read_array_iff [where get = challenge_bytes] del: rbind_iff)

interpretation staking_sig_codec: fixed_codec StakingAuthSig_read StakingAuthSig_write wf_staking_sig 64
  by (rule fixed_codecI)
    (simp_all add: StakingAuthSig_read_def StakingAuthSig_write_def wf_staking_sig_def
      read_array_iff [where get = staking_sig_bytes] del: rbind_iff)

interpretation staking_amount_codec: fixed_codec read_staking_zatoshis write_staking_zatoshis wf_zats 8
proof (rule fixed_codecI)
  show "read_staking_zatoshis bs = Inr (z, rest) \<longleftrightarrow> wf_zats z \<and> bs = write_staking_zatoshis z @ rest"
    for bs z rest
    by (cases z) (auto simp: read_staking_zatoshis_def write_staking_zatoshis_def Zatoshis_into_u64_def
        codec_iff Zatoshis_from_u64_iff)
qed (simp add: write_staking_zatoshis_def)

lemmas staking_codec_iff [codec_iff] =
  bond_codec.rd_iff challenge_codec.rd_iff staking_sig_codec.rd_iff staking_amount_codec.rd_iff

lemmas staking_lengths =
  bond_codec.width challenge_codec.width staking_sig_codec.width
  staking_amount_codec.width pub_key_codec.width

definition wf_cb :: "create_new_delegation_bond \<Rightarrow> bool" where
  "wf_cb a \<longleftrightarrow> wf_bond (cb_unique_pubkey a) \<and> wf_challenge (cb_challenge a) \<and> wf_staking_sig (cb_signature a) \<and> wf_pub_key (cb_target_finalizer a) \<and> wf_zats (cb_amount a)"

definition wf_bu :: "begin_delegation_unbonding \<Rightarrow> bool" where
  "wf_bu a \<longleftrightarrow> wf_bond (bu_unique_pubkey a) \<and> wf_challenge (bu_challenge a) \<and> wf_staking_sig (bu_signature a)"

definition wf_wd :: "withdraw_delegation_bond \<Rightarrow> bool" where
  "wf_wd a \<longleftrightarrow> wf_bond (wd_unique_pubkey a) \<and> wf_challenge (wd_challenge a) \<and> wf_staking_sig (wd_signature a) \<and> wf_zats (wd_amount a)"

definition wf_rt :: "retarget_delegation_bond \<Rightarrow> bool" where
  "wf_rt a \<longleftrightarrow> wf_bond (rt_unique_pubkey a) \<and> wf_challenge (rt_challenge a) \<and> wf_staking_sig (rt_signature a) \<and> wf_pub_key (rt_target_finalizer a)"

definition wf_rf :: "register_finalizer \<Rightarrow> bool" where
  "wf_rf a \<longleftrightarrow> wf_bond (rf_unique_pubkey a) \<and> wf_challenge (rf_challenge a) \<and> wf_staking_sig (rf_signature a)"

definition wf_cv :: "convert_finalizer_reward \<Rightarrow> bool" where
  "wf_cv a \<longleftrightarrow> wf_bond (cv_unique_pubkey a) \<and> wf_challenge (cv_challenge a) \<and> wf_staking_sig (cv_signature a) \<and> wf_pub_key (cv_this_finalizer a) \<and> wf_zats (cv_amount a) \<and> wf_challenge (cv_second_challenge a) \<and> wf_staking_sig (cv_finalizer_signature a)"

definition wf_uk :: "update_finalizer_key \<Rightarrow> bool" where
  "wf_uk a \<longleftrightarrow> wf_bond (uk_unique_pubkey a) \<and> wf_challenge (uk_challenge a) \<and> wf_staking_sig (uk_signature a) \<and> wf_pub_key (uk_this_finalizer a) \<and> wf_challenge (uk_second_challenge a) \<and> wf_staking_sig (uk_finalizer_signature a)"

lemmas action_wf [wf_simps] = wf_cb_def wf_bu_def wf_wd_def wf_rt_def wf_rf_def wf_cv_def wf_uk_def

interpretation cb_codec: fixed_codec CreateNewDelegationBond_read_fields CreateNewDelegationBond_write_fields wf_cb 168
proof (rule fixed_codecI)
  show "CreateNewDelegationBond_read_fields bs = Inr (a, rest) \<longleftrightarrow>
      wf_cb a \<and> bs = CreateNewDelegationBond_write_fields a @ rest" for bs a rest
    by (cases a) (auto simp: CreateNewDelegationBond_read_fields_def CreateNewDelegationBond_write_fields_def wf_cb_def codec_iff)
  show "length (CreateNewDelegationBond_write_fields a) = 168" if "wf_cb a" for a
    using that by (simp add: CreateNewDelegationBond_write_fields_def wf_cb_def staking_lengths)
qed

interpretation bu_codec: fixed_codec BeginDelegationUnbonding_read_fields BeginDelegationUnbonding_write_fields wf_bu 128
proof (rule fixed_codecI)
  show "BeginDelegationUnbonding_read_fields bs = Inr (a, rest) \<longleftrightarrow>
      wf_bu a \<and> bs = BeginDelegationUnbonding_write_fields a @ rest" for bs a rest
    by (cases a) (auto simp: BeginDelegationUnbonding_read_fields_def BeginDelegationUnbonding_write_fields_def wf_bu_def codec_iff)
  show "length (BeginDelegationUnbonding_write_fields a) = 128" if "wf_bu a" for a
    using that by (simp add: BeginDelegationUnbonding_write_fields_def wf_bu_def staking_lengths)
qed

interpretation wd_codec: fixed_codec WithdrawDelegationBond_read_fields WithdrawDelegationBond_write_fields wf_wd 136
proof (rule fixed_codecI)
  show "WithdrawDelegationBond_read_fields bs = Inr (a, rest) \<longleftrightarrow>
      wf_wd a \<and> bs = WithdrawDelegationBond_write_fields a @ rest" for bs a rest
    by (cases a) (auto simp: WithdrawDelegationBond_read_fields_def WithdrawDelegationBond_write_fields_def wf_wd_def codec_iff)
  show "length (WithdrawDelegationBond_write_fields a) = 136" if "wf_wd a" for a
    using that by (simp add: WithdrawDelegationBond_write_fields_def wf_wd_def staking_lengths)
qed

interpretation rt_codec: fixed_codec RetargetDelegationBond_read_fields RetargetDelegationBond_write_fields wf_rt 160
proof (rule fixed_codecI)
  show "RetargetDelegationBond_read_fields bs = Inr (a, rest) \<longleftrightarrow>
      wf_rt a \<and> bs = RetargetDelegationBond_write_fields a @ rest" for bs a rest
    by (cases a) (auto simp: RetargetDelegationBond_read_fields_def RetargetDelegationBond_write_fields_def wf_rt_def codec_iff)
  show "length (RetargetDelegationBond_write_fields a) = 160" if "wf_rt a" for a
    using that by (simp add: RetargetDelegationBond_write_fields_def wf_rt_def staking_lengths)
qed

interpretation rf_codec: fixed_codec RegisterFinalizer_read_fields RegisterFinalizer_write_fields wf_rf 128
proof (rule fixed_codecI)
  show "RegisterFinalizer_read_fields bs = Inr (a, rest) \<longleftrightarrow>
      wf_rf a \<and> bs = RegisterFinalizer_write_fields a @ rest" for bs a rest
    by (cases a) (auto simp: RegisterFinalizer_read_fields_def RegisterFinalizer_write_fields_def wf_rf_def codec_iff)
  show "length (RegisterFinalizer_write_fields a) = 128" if "wf_rf a" for a
    using that by (simp add: RegisterFinalizer_write_fields_def wf_rf_def staking_lengths)
qed

interpretation cv_codec: fixed_codec ConvertFinalizerRewardToDelegationBond_read_fields ConvertFinalizerRewardToDelegationBond_write_fields wf_cv 264
proof (rule fixed_codecI)
  show "ConvertFinalizerRewardToDelegationBond_read_fields bs = Inr (a, rest) \<longleftrightarrow>
      wf_cv a \<and> bs = ConvertFinalizerRewardToDelegationBond_write_fields a @ rest" for bs a rest
    by (cases a) (auto simp: ConvertFinalizerRewardToDelegationBond_read_fields_def ConvertFinalizerRewardToDelegationBond_write_fields_def wf_cv_def codec_iff)
  show "length (ConvertFinalizerRewardToDelegationBond_write_fields a) = 264" if "wf_cv a" for a
    using that by (simp add: ConvertFinalizerRewardToDelegationBond_write_fields_def wf_cv_def staking_lengths)
qed

interpretation uk_codec: fixed_codec UpdateFinalizerKey_read_fields UpdateFinalizerKey_write_fields wf_uk 256
proof (rule fixed_codecI)
  show "UpdateFinalizerKey_read_fields bs = Inr (a, rest) \<longleftrightarrow>
      wf_uk a \<and> bs = UpdateFinalizerKey_write_fields a @ rest" for bs a rest
    by (cases a) (auto simp: UpdateFinalizerKey_read_fields_def UpdateFinalizerKey_write_fields_def wf_uk_def codec_iff)
  show "length (UpdateFinalizerKey_write_fields a) = 256" if "wf_uk a" for a
    using that by (simp add: UpdateFinalizerKey_write_fields_def wf_uk_def staking_lengths)
qed

subsection \<open>The tagged codec\<close>

fun wf_action :: "staking_action \<Rightarrow> bool" where
  "wf_action (CreateNewDelegationBond a) \<longleftrightarrow> wf_cb a"
| "wf_action (BeginDelegationUnbonding a) \<longleftrightarrow> wf_bu a"
| "wf_action (WithdrawDelegationBond a) \<longleftrightarrow> wf_wd a"
| "wf_action (RetargetDelegationBond a) \<longleftrightarrow> wf_rt a"
| "wf_action (RegisterFinalizer a) \<longleftrightarrow> wf_rf a"
| "wf_action (ConvertFinalizerRewardToDelegationBond a) \<longleftrightarrow> wf_cv a"
| "wf_action (UpdateFinalizerKey a) \<longleftrightarrow> wf_uk a"

definition wf_opt_action :: "staking_action option \<Rightarrow> bool" where
  "wf_opt_action = pred_option wf_action"

text \<open>The length of the body of an action, tag included.\<close>

fun action_width :: "staking_action_kind \<Rightarrow> nat" where
  "action_width KindCreateNewDelegationBond = 169"
| "action_width KindBeginDelegationUnbonding = 129"
| "action_width KindWithdrawDelegationBond = 137"
| "action_width KindRetargetDelegationBond = 161"
| "action_width KindRegisterFinalizer = 129"
| "action_width KindConvertFinalizerRewardToDelegationBond = 265"
| "action_width KindUpdateFinalizerKey = 257"

lemma read_tagged_iff:
  "read_tagged C rd bs = Inr (x, rest) \<longleftrightarrow> (\<exists>a. rd bs = Inr (a, rest) \<and> x = Some (C a))"
  by (auto simp: read_tagged_def)

lemmas action_read_iff =
  cb_codec.rd_iff bu_codec.rd_iff wd_codec.rd_iff rt_codec.rd_iff rf_codec.rd_iff cv_codec.rd_iff
  uk_codec.rd_iff

lemma write_u8_append: "write_u8 t @ bs = t # bs"
  by (simp add: write_u8_def)

lemma write_body_nonempty: "StakingAction_write_body a \<noteq> []"
  by (cases a) (simp_all add: write_u8_append)

lemma StakingAction_read_Nil: "StakingAction_read [] = Inl UnexpectedEof"
  by (simp add: StakingAction_read_def read_u8_def rbind_def read_exact_def)

lemma read_u8_Cons: "read_u8 (t # bs) = Inr (t, bs)"
  by (simp add: codec_iff write_u8_append)

lemma StakingAction_read_Cons:
  "StakingAction_read (t # bs) =
     (if t = TAG_ABSENT then rret None
      else if t = TAG_CREATE_NEW_DELEGATION_BOND then
        read_tagged CreateNewDelegationBond CreateNewDelegationBond_read_fields
      else if t = TAG_BEGIN_DELEGATION_UNBONDING then
        read_tagged BeginDelegationUnbonding BeginDelegationUnbonding_read_fields
      else if t = TAG_WITHDRAW_DELEGATION_BOND then
        read_tagged WithdrawDelegationBond WithdrawDelegationBond_read_fields
      else if t = TAG_RETARGET_DELEGATION_BOND then
        read_tagged RetargetDelegationBond RetargetDelegationBond_read_fields
      else if t = TAG_REGISTER_FINALIZER then
        read_tagged RegisterFinalizer RegisterFinalizer_read_fields
      else if t = TAG_CONVERT_FINALIZER_REWARD_TO_DELEGATION_BOND then
        read_tagged ConvertFinalizerRewardToDelegationBond ConvertFinalizerRewardToDelegationBond_read_fields
      else if t = TAG_UPDATE_FINALIZER_KEY then
        read_tagged UpdateFinalizerKey UpdateFinalizerKey_read_fields
      else rfail (InvalidInput ''unknown staking action kind'')) bs"
proof -
  have step: "rbind read_u8 f (t # bs) = f t bs" for f :: "u8 \<Rightarrow> staking_action option reader"
    by (rule rbind_step, rule read_u8_Cons)
  show ?thesis unfolding StakingAction_read_def step by (rule refl)
qed

interpretation action_codec: exact_codec StakingAction_read StakingAction_write wf_opt_action
proof (rule exact_codecI)
  fix bs x rest
  show "StakingAction_read bs = Inr (x, rest) \<longleftrightarrow> wf_opt_action x \<and> bs = StakingAction_write x @ rest"
  proof (cases bs)
    case Nil
    have "StakingAction_write x \<noteq> []"
      using write_body_nonempty by (auto simp: StakingAction_write_def write_u8_def split: option.splits)
    then show ?thesis by (simp add: Nil StakingAction_read_Nil)
  next
    case (Cons t bs')
    show ?thesis
    proof (cases x)
      case None
      then show ?thesis
        by (auto simp: Cons StakingAction_read_Cons wf_opt_action_def StakingAction_write_def
            read_tagged_iff write_u8_append)
    next
      case (Some a)
      then show ?thesis
        by (cases a) (auto simp: Cons StakingAction_read_Cons wf_opt_action_def StakingAction_write_def
            read_tagged_iff write_u8_append staking_tags action_read_iff)
    qed
  qed
qed

lemma action_width:
  "wf_action a \<Longrightarrow> length (StakingAction_write (Some a)) = action_width (StakingAction_kind a)"
  by (cases a) (simp_all add: StakingAction_write_def cb_codec.width bu_codec.width
      wd_codec.width rt_codec.width rf_codec.width cv_codec.width
      uk_codec.width)

text \<open>The tagged codec of an optional staking action is exact: a successful read returns a
  well-formed action and consumed exactly its written form, whose length is fixed by the kind; every
  well-formed action (or its absence) is read back, an unknown tag is refused as invalid input and
  an empty input as a truncated one.\<close>

theorem staking_action_codec:
  "(StakingAction_read bs = Inr (x, rest) \<longleftrightarrow> wf_opt_action x \<and> bs = StakingAction_write x @ rest)
   \<and> (wf_action a \<longrightarrow> length (StakingAction_write (Some a)) = action_width (StakingAction_kind a)
        \<and> StakingAction_read (StakingAction_write (Some a) @ rest) = Inr (Some a, rest)
        \<and> (\<forall>k < action_width (StakingAction_kind a).
             \<exists>e. StakingAction_read (take k (StakingAction_write (Some a))) = Inl e))
   \<and> StakingAction_read (StakingAction_write None @ rest) = Inr (None, rest)
   \<and> (7 < uint t \<longrightarrow> StakingAction_read (t # bs) = Inl (InvalidInput ''unknown staking action kind''))
   \<and> StakingAction_read [] = Inl UnexpectedEof"
proof (intro conjI impI)
  show "StakingAction_read bs = Inr (x, rest) \<longleftrightarrow> wf_opt_action x \<and> bs = StakingAction_write x @ rest"
    by (rule action_codec.rd_iff)
  show "StakingAction_read [] = Inl UnexpectedEof" by (rule StakingAction_read_Nil)
  show "StakingAction_read (StakingAction_write None @ rest) = Inr (None, rest)"
    unfolding action_codec.rd_iff by (simp add: wf_opt_action_def)
  show "StakingAction_read (t # bs) = Inl (InvalidInput ''unknown staking action kind'')" if "7 < uint t"
    using that by (auto simp: StakingAction_read_Cons staking_tags)
next
  assume wf: "wf_action a"
  show len: "length (StakingAction_write (Some a)) = action_width (StakingAction_kind a)"
    by (rule action_width [OF wf])
  show "StakingAction_read (StakingAction_write (Some a) @ rest) = Inr (Some a, rest)"
    unfolding action_codec.rd_iff using wf by (simp add: wf_opt_action_def)
  show "\<forall>k < action_width (StakingAction_kind a).
      \<exists>e. StakingAction_read (take k (StakingAction_write (Some a))) = Inl e"
  proof (intro allI impI)
    fix k assume "k < action_width (StakingAction_kind a)"
    then have "drop k (StakingAction_write (Some a)) \<noteq> []" using len by simp
    then show "\<exists>e. StakingAction_read (take k (StakingAction_write (Some a))) = Inl e"
      using action_codec.truncated [of "Some a" "take k (StakingAction_write (Some a))"
          "drop k (StakingAction_write (Some a))"] wf
      by (simp add: wf_opt_action_def)
  qed
qed

definition example_action :: staking_action where
  "example_action = CreateNewDelegationBond
     \<lparr>cb_unique_pubkey = BondId (replicate 32 1), cb_challenge = StakingAuthChallenge (replicate 32 2),
      cb_signature = StakingAuthSig (replicate 64 3), cb_target_finalizer = PubKeyId (replicate 32 4),
      cb_amount = Zatoshis 500\<rparr>"

lemma wf_example_action: "wf_action example_action"
  by (simp add: example_action_def wf_simps wf_bond_def wf_challenge_def wf_staking_sig_def wf_zats_def
      MAX_MONEY_num)

lemma staking_action_codec_witness:
  "length (StakingAction_write (Some example_action)) = 169
   \<and> StakingAction_read (StakingAction_write (Some example_action) @ [9]) = Inr (Some example_action, [9])
   \<and> StakingAction_read [8] = Inl (InvalidInput ''unknown staking action kind'')"
  using staking_action_codec [of "[]" None "[9]" example_action 8] wf_example_action
  by (simp add: example_action_def)

subsection \<open>Value\<close>

lemma amount_as_balance:
  assumes "wf_zats z"
  shows "zb_val (ZatBalance_from_Zatoshis z) = zat_val z" "0 \<le> zat_val z"
    "zat_val z \<le> 2100000000000000"
  using assms wf_zats_sint [of z] by (simp_all add: ZatBalance_from_Zatoshis_def wf_zats_iff)

lemma negated_amount:
  assumes "wf_zats z"
  shows "zb_val (zb_neg (ZatBalance_from_Zatoshis z)) = - zat_val z"
proof -
  have "0 \<le> zb_val (ZatBalance_from_Zatoshis z)"
    unfolding amount_as_balance(1) [OF assms] by (rule amount_as_balance(2) [OF assms])
  then have "- (2 ^ 63) < zb_val (ZatBalance_from_Zatoshis z)"
    by (rule less_le_trans [rotated]) simp
  from sint_neg_exact [OF this] show ?thesis
    unfolding zb_neg_def zat_balance.sel amount_as_balance(1) [OF assms] .
qed

text \<open>The value a staking action moves: a new bond takes exactly its amount out of the
  transaction's balance, a withdrawal adds exactly its amount, every other action is neutral; the
  contribution is always a valid balance, so computing it never wraps.\<close>

theorem staking_value_contribution:
  assumes "wf_action a"
  shows "zb_val (value_balance_contribution a) =
      (case a of CreateNewDelegationBond x \<Rightarrow> - zat_val (cb_amount x)
       | WithdrawDelegationBond x \<Rightarrow> zat_val (wd_amount x)
       | _ \<Rightarrow> 0)
    \<and> wf_balance (value_balance_contribution a)
    \<and> (ZatBalance_is_negative (value_balance_contribution a) \<longrightarrow>
         StakingAction_kind a = KindCreateNewDelegationBond)
    \<and> (ZatBalance_is_positive (value_balance_contribution a) \<longrightarrow>
         StakingAction_kind a = KindWithdrawDelegationBond)"
proof (cases a)
  case (CreateNewDelegationBond x)
  then have wf: "wf_zats (cb_amount x)" using assms by (simp add: wf_cb_def)
  show ?thesis
    unfolding CreateNewDelegationBond wf_balance_iff ZatBalance_is_negative_def ZatBalance_is_positive_def
      value_balance_contribution.simps negated_amount [OF wf] staking_action.case StakingAction_kind.simps
    by (insert amount_as_balance(2,3) [OF wf], intro conjI impI; (rule refl | linarith))
next
  case (WithdrawDelegationBond x)
  then have wf: "wf_zats (wd_amount x)" using assms by (simp add: wf_wd_def)
  show ?thesis
    unfolding WithdrawDelegationBond wf_balance_iff ZatBalance_is_negative_def ZatBalance_is_positive_def
      value_balance_contribution.simps amount_as_balance(1) [OF wf] staking_action.case StakingAction_kind.simps
    by (insert amount_as_balance(2,3) [OF wf], intro conjI impI; (rule refl | linarith))
qed (simp_all add: ZatBalance_zero_def wf_balance_iff ZatBalance_is_negative_def
    ZatBalance_is_positive_def)

lemma staking_value_contribution_witness:
  "zb_val (value_balance_contribution example_action) = - 500"
  using staking_value_contribution [OF wf_example_action] by (simp add: example_action_def)

end
