(* ===== verification/CompactSize.thy ===== *)
theory CompactSize
  imports ByteIO
begin

text \<open>
  \<open>CompactSize\<close> belongs to the crate \<open>zcash_encoding\<close>, which is not under \<open>src\<close>: the model takes
  its reader and writer as a parameter, and the properties that depend on it assume its
  documented contract. This theory states the contract and shows that it can hold, on the
  variable-length encoding of the Bitcoin protocol; the witnesses use that instance.
\<close>

record compact_size =
  cs_read :: "u64 reader"
  cs_write :: "usize \<Rightarrow> bytes"

definition MAX_COMPACT_SIZE :: u64 where
  "MAX_COMPACT_SIZE = 0x02000000"

text \<open>It reads back what it writes, and refuses non-canonical encodings and values above the bound.\<close>

definition compact_size_ok :: "compact_size \<Rightarrow> bool" where
  "compact_size_ok cs \<longleftrightarrow> exact_codec (cs_read cs) (cs_write cs) (\<lambda>n. n \<le> MAX_COMPACT_SIZE)"

lemma compact_size_iff:
  "compact_size_ok cs \<Longrightarrow> cs_read cs bs = Inr (n, r) \<longleftrightarrow> n \<le> MAX_COMPACT_SIZE \<and> bs = cs_write cs n @ r"
  unfolding compact_size_ok_def by (rule exact_codec.rd_iff)

definition bitcoin_write :: "usize \<Rightarrow> bytes" where
  "bitcoin_write n =
     (if unat n < 253 then [ucast n]
      else if unat n \<le> 65535 then 253 # write_u16_le (ucast n)
      else if unat n \<le> 4294967295 then 254 # write_u32_le (ucast n)
      else 255 # write_u64_le n)"

definition bitcoin_read :: "u64 reader" where
  "bitcoin_read =
     rbind read_u8 (\<lambda>flag.
     rbind (if flag = 253 then rbind read_u16_le (\<lambda>n.
              rbind (rguard (253 \<le> unat n) (InvalidInput ''non-canonical CompactSize'')) (\<lambda>_. rret (ucast n)))
            else if flag = 254 then rbind read_u32_le (\<lambda>n.
              rbind (rguard (65536 \<le> unat n) (InvalidInput ''non-canonical CompactSize'')) (\<lambda>_. rret (ucast n)))
            else if flag = 255 then rbind read_u64_le (\<lambda>n.
              rbind (rguard (4294967296 \<le> unat n) (InvalidInput ''non-canonical CompactSize'')) (\<lambda>_. rret n))
            else rret (ucast flag)) (\<lambda>n.
     rbind (rguard (n \<le> MAX_COMPACT_SIZE) (InvalidInput ''CompactSize too large'')) (\<lambda>_. rret n)))"

definition bitcoin_compact_size :: compact_size where
  "bitcoin_compact_size = \<lparr>cs_read = bitcoin_read, cs_write = bitcoin_write\<rparr>"

lemma unat_u8_less: "unat (y :: u8) < 256"
  using unsigned_less [of y, where ?'a = nat] by simp

lemma unat_u16_less: "unat (y :: u16) < 65536"
  using unsigned_less [of y, where ?'a = nat] by simp

lemma unat_ucast_small [simp]:
  "unat (ucast (a :: u8) :: u64) = unat a"
  "unat (ucast (b :: u16) :: u64) = unat b"
  using unat_u8_less [of a] unat_u16_less [of b]
  by (simp_all add: unsigned_ucast_eq take_bit_nat_eq_self)

lemma eq_ucast_iff:
  "n = ucast (a :: u8) \<longleftrightarrow> unat (n :: u64) = unat a"
  "n = ucast (b :: u16) \<longleftrightarrow> unat (n :: u64) = unat b"
  "n = ucast (c :: u32) \<longleftrightarrow> unat (n :: u64) = unat c"
  by (simp_all add: word_eq_iff_unsigned [where ?'a = nat])

lemma unat_ucast_down:
  "unat n < 256 \<Longrightarrow> unat (ucast (n :: u64) :: u8) = unat n"
  "unat n < 65536 \<Longrightarrow> unat (ucast (n :: u64) :: u16) = unat n"
  by (simp_all add: unsigned_ucast_eq take_bit_nat_eq_self)

lemma flag_unat:
  "(flag :: u8) = 253 \<longleftrightarrow> unat flag = 253" "(flag :: u8) = 254 \<longleftrightarrow> unat flag = 254"
  "(flag :: u8) = 255 \<longleftrightarrow> unat flag = 255"
  by (simp_all add: word_eq_iff_unsigned [where ?'a = nat])

lemma flag_small: "(x :: u8) \<noteq> 253 \<Longrightarrow> x \<noteq> 254 \<Longrightarrow> x \<noteq> 255 \<Longrightarrow> unat x < 253"
  using unat_u8_less [of x] flag_unat [of x] by linarith

lemma narrow_iff:
  fixes n :: u64
  shows "n = ucast w8 \<longleftrightarrow> unat n < 256 \<and> w8 = (ucast n :: u8)"
    and "n = ucast w16 \<longleftrightarrow> unat n < 65536 \<and> w16 = (ucast n :: u16)"
    and "n = ucast w32 \<longleftrightarrow> unat n < 4294967296 \<and> w32 = (ucast n :: u32)"
  using unat_u8_less [of w8] unat_u16_less [of w16] unat_u32_less [of w32]
  by (auto simp: eq_ucast_iff unat_ucast_down unat_ucast_u64_u32 word_eq_iff_unsigned [where ?'a = nat])

lemma bitcoin_read_iff:
  "bitcoin_read bs = Inr (n, r) \<longleftrightarrow> n \<le> MAX_COMPACT_SIZE \<and> bs = bitcoin_write n @ r"
proof -
  have "bitcoin_read bs = Inr (n, r) \<longleftrightarrow> n \<le> MAX_COMPACT_SIZE \<and>
      ((\<exists>w :: u16. 253 \<le> unat w \<and> n = ucast w \<and> bs = 253 # write_u16_le w @ r)
       \<or> (\<exists>w :: u32. 65536 \<le> unat w \<and> n = ucast w \<and> bs = 254 # write_u32_le w @ r)
       \<or> (4294967296 \<le> unat n \<and> bs = 255 # write_u64_le n @ r)
       \<or> (\<exists>w :: u8. unat w < 253 \<and> n = ucast w \<and> bs = w # r))" (is "?L \<longleftrightarrow> ?R")
  proof
    assume ?L
    then show ?R
      unfolding bitcoin_read_def
      by (auto simp: codec_iff write_u8_def flag_small split: if_splits)
  next
    assume ?R
    then show ?L
      unfolding bitcoin_read_def by (auto simp: codec_iff write_u8_def flag_unat)
  qed
  also have "\<dots> \<longleftrightarrow> n \<le> MAX_COMPACT_SIZE \<and> bs = bitcoin_write n @ r"
    unfolding narrow_iff bitcoin_write_def
    by (auto simp: unat_ucast_down unat_ucast_u64_u32)
  finally show ?thesis .
qed

lemma bitcoin_compact_size_ok: "compact_size_ok bitcoin_compact_size"
  unfolding compact_size_ok_def bitcoin_compact_size_def
  by (rule exact_codecI) (simp add: bitcoin_read_iff)

end
