(* ===== verification/ExtCodec.thy ===== *)
theory ExtCodec
  imports CompactSize
begin

text \<open>
  The shapes in which the transaction components use code outside \<open>src\<close>: \<open>Vector\<close> and \<open>Array\<close> of
  the crate \<open>zcash_encoding\<close>, and the group and field elements of the shielded protocols, parsed
  from fixed-width byte arrays. Each is a record of the functions called, taken as a parameter, with
  its documented behaviour as a predicate that the properties assume. The last section shows that
  the laws can hold.
\<close>

subsection \<open>\<open>Vector\<close> and \<open>Array\<close>\<close>

record 'a vector_io =
  vec_read :: "'a reader \<Rightarrow> 'a list reader"
  vec_write :: "('a \<Rightarrow> bytes) \<Rightarrow> 'a list \<Rightarrow> bytes"

text \<open>A vector is its length as a \<open>CompactSize\<close>, then its elements.\<close>

definition vector_ok :: "compact_size \<Rightarrow> 'a vector_io \<Rightarrow> bool" where
  "vector_ok cs v \<longleftrightarrow>
     (\<forall>rd bs xs rest. vec_read v rd bs = Inr (xs, rest) \<longleftrightarrow>
        (\<exists>n r. cs_read cs bs = Inr (n, r) \<and> read_n (unat n) rd r = Inr (xs, rest)))
   \<and> (\<forall>wr xs. vec_write v wr xs = cs_write cs (of_nat (length xs)) @ concat (map wr xs))"

record 'a array_io =
  arr_read :: "usize \<Rightarrow> 'a reader \<Rightarrow> 'a list reader"
  arr_write :: "('a \<Rightarrow> bytes) \<Rightarrow> 'a list \<Rightarrow> bytes"

text \<open>An array is its elements; the reader is told how many.\<close>

definition array_ok :: "'a array_io \<Rightarrow> bool" where
  "array_ok v \<longleftrightarrow>
     (\<forall>n rd bs xs rest. arr_read v n rd bs = Inr (xs, rest) \<longleftrightarrow> read_n (unat n) rd bs = Inr (xs, rest))
   \<and> (\<forall>wr xs. arr_write v wr xs = concat (map wr xs))"

lemma MAX_COMPACT_SIZE_unat: "unat MAX_COMPACT_SIZE = 33554432"
  by (simp add: MAX_COMPACT_SIZE_def)

lemma vector_count:
  "n \<le> MAX_COMPACT_SIZE \<and> length xs = unat n \<longleftrightarrow> length xs \<le> 33554432 \<and> n = of_nat (length xs)"
  using count_u64_iff [of n "length xs"] MAX_COMPACT_SIZE_unat
  by (auto simp: word_le_nat_alt)

lemma vector_read_iff:
  assumes "compact_size_ok cs" "vector_ok cs v" "exact_codec rd wr ok"
  shows "vec_read v rd bs = Inr (xs, rest) \<longleftrightarrow>
    list_all ok xs \<and> length xs \<le> 33554432 \<and> bs = vec_write v wr xs @ rest"
proof -
  have "vec_read v rd bs = Inr (xs, rest) \<longleftrightarrow>
      (\<exists>n. (n \<le> MAX_COMPACT_SIZE \<and> length xs = unat n) \<and> list_all ok xs
         \<and> bs = cs_write cs n @ concat (map wr xs) @ rest)"
    using assms(2) by (auto simp: vector_ok_def compact_size_iff [OF assms(1)]
        exact_codec.read_list_iff [OF assms(3)])
  also have "\<dots> \<longleftrightarrow> list_all ok xs \<and> length xs \<le> 33554432 \<and> bs = vec_write v wr xs @ rest"
    unfolding vector_count using assms(2) by (auto simp: vector_ok_def)
  finally show ?thesis .
qed

lemma vector_codec:
  assumes "compact_size_ok cs" "vector_ok cs v" "exact_codec rd wr ok"
  shows "exact_codec (vec_read v rd) (vec_write v wr) (\<lambda>xs. list_all ok xs \<and> length xs \<le> 33554432)"
  by (rule exact_codecI) (simp add: vector_read_iff [OF assms])

lemma array_read_iff:
  assumes "array_ok v" "exact_codec rd wr ok"
  shows "arr_read v n rd bs = Inr (xs, rest) \<longleftrightarrow>
    list_all ok xs \<and> length xs = unat n \<and> bs = arr_write v wr xs @ rest"
  using assms(1) by (auto simp: array_ok_def exact_codec.read_list_iff [OF assms(2)])

subsection \<open>Elements of the shielded protocols\<close>

text \<open>
  A parser from a byte array and the encoder of its values. What the code relies on is that parsing
  is canonical: a parsed value encodes to the bytes it was parsed from.
\<close>

record 'x element =
  el_parse :: "bytes \<Rightarrow> 'x option"
  el_bytes :: "'x \<Rightarrow> bytes"

definition element_ok :: "nat \<Rightarrow> 'x element \<Rightarrow> bool" where
  "element_ok n el \<longleftrightarrow> (\<forall>bytes x. length bytes = n \<and> el_parse el bytes = Some x \<longrightarrow> el_bytes el x = bytes)"

definition wf_element :: "nat \<Rightarrow> 'x element \<Rightarrow> 'x \<Rightarrow> bool" where
  "wf_element n el x \<longleftrightarrow> length (el_bytes el x) = n \<and> el_parse el (el_bytes el x) = Some x"

lemma element_codec:
  assumes "element_ok n el"
  shows "fixed_codec (rbind (read_exact n) (\<lambda>bytes. rlift (ok_or (el_parse el bytes) err)))
    (el_bytes el) (wf_element n el) n"
proof (rule fixed_codecI)
  show "rbind (read_exact n) (\<lambda>bytes. rlift (ok_or (el_parse el bytes) err)) bs = Inr (x, rest) \<longleftrightarrow>
      wf_element n el x \<and> bs = el_bytes el x @ rest" for bs x rest
    using assms by (auto simp: read_exact_iff element_ok_def wf_element_def)
qed (simp add: wf_element_def)

lemma element_iff:
  assumes "element_ok n el"
  shows "(\<exists>bytes bs'. length bytes = n \<and> bs = bytes @ bs' \<and> el_parse el bytes = Some x \<and> P bs')
    \<longleftrightarrow> wf_element n el x \<and> (\<exists>bs'. bs = el_bytes el x @ bs' \<and> P bs')"
  using assms by (auto simp: element_ok_def wf_element_def)

subsection \<open>Instances\<close>

definition std_vector :: "compact_size \<Rightarrow> 'a vector_io" where
  "std_vector cs = \<lparr>vec_read = \<lambda>rd. rbind (cs_read cs) (\<lambda>n. read_n (unat n) rd),
     vec_write = \<lambda>wr xs. cs_write cs (of_nat (length xs)) @ concat (map wr xs)\<rparr>"

definition std_array :: "'a array_io" where
  "std_array = \<lparr>arr_read = \<lambda>n rd. read_n (unat n) rd, arr_write = \<lambda>wr xs. concat (map wr xs)\<rparr>"

definition byte_element :: "bytes element" where
  "byte_element = \<lparr>el_parse = Some, el_bytes = \<lambda>x. x\<rparr>"

lemma std_vector_ok: "vector_ok cs (std_vector cs)"
  by (simp add: vector_ok_def std_vector_def)

lemma std_array_ok: "array_ok std_array"
  by (simp add: array_ok_def std_array_def)

lemma byte_element_ok: "element_ok n byte_element"
  by (simp add: element_ok_def byte_element_def)

end
