(* ===== verification/Sprout.thy ===== *)
theory Sprout
  imports Value ExtCodec
begin

text \<open>
  \<open>zcash_primitives/src/transaction/components/sprout.rs\<close>: JoinSplit descriptions with their
  byte layout for both proving systems, the net value of a JoinSplit and the value balance of a
  Sprout bundle. A pair of fixed-size arrays is a pair of byte lists. The accessors are the record
  selectors.
\<close>

definition GROTH_PROOF_SIZE :: nat where "GROTH_PROOF_SIZE = 48 + 96 + 48"
definition PHGR_PROOF_SIZE :: nat where "PHGR_PROOF_SIZE = 33 + 33 + 65 + 33 + 33 + 33 + 33 + 33"
definition ZC_NUM_JS_INPUTS :: nat where "ZC_NUM_JS_INPUTS = 2"
definition ZC_NUM_JS_OUTPUTS :: nat where "ZC_NUM_JS_OUTPUTS = 2"

datatype sprout_proof = Groth bytes | PHGR bytes

record js_description =
  js_vpub_old :: zat_balance
  js_vpub_new :: zat_balance
  js_anchor :: bytes
  js_nullifiers :: "bytes list"
  js_commitments :: "bytes list"
  js_ephemeral_key :: bytes
  js_random_seed :: bytes
  js_macs :: "bytes list"
  js_proof :: sprout_proof
  js_ciphertexts :: "bytes list"

record sprout_bundle =
  sb_joinsplits :: "js_description list"
  sb_joinsplit_pubkey :: bytes
  sb_joinsplit_sig :: bytes

definition read_vpub :: "string \<Rightarrow> zat_balance reader" where
  "read_vpub msg = rbind (read_exact 8) (\<lambda>tmp.
     rlift (map_err (\<lambda>_. InvalidData msg) (ZatBalance_from_u64_le_bytes tmp)))"

definition read_sprout_proof :: "bool \<Rightarrow> sprout_proof reader" where
  "read_sprout_proof use_groth =
     (if use_groth then rbind (read_exact GROTH_PROOF_SIZE) (\<lambda>proof. rret (Groth proof))
      else rbind (read_exact PHGR_PROOF_SIZE) (\<lambda>proof. rret (PHGR proof)))"

definition JsDescription_read :: "bool \<Rightarrow> js_description reader" where
  "JsDescription_read use_groth =
     rbind (read_vpub ''vpub_old out of range'') (\<lambda>vpub_old.
     rbind (read_vpub ''vpub_new out of range'') (\<lambda>vpub_new.
     rbind (read_exact 32) (\<lambda>anchor.
     rbind (read_n ZC_NUM_JS_INPUTS (read_exact 32)) (\<lambda>nullifiers.
     rbind (read_n ZC_NUM_JS_OUTPUTS (read_exact 32)) (\<lambda>commitments.
     rbind (read_exact 32) (\<lambda>ephemeral_key.
     rbind (read_exact 32) (\<lambda>random_seed.
     rbind (read_n ZC_NUM_JS_INPUTS (read_exact 32)) (\<lambda>macs.
     rbind (read_sprout_proof use_groth) (\<lambda>sproof.
     rbind (read_n ZC_NUM_JS_OUTPUTS (read_exact 601)) (\<lambda>ciphertexts.
     rret \<lparr>js_vpub_old = vpub_old, js_vpub_new = vpub_new, js_anchor = anchor,
           js_nullifiers = nullifiers, js_commitments = commitments,
           js_ephemeral_key = ephemeral_key, js_random_seed = random_seed, js_macs = macs,
           js_proof = sproof, js_ciphertexts = ciphertexts\<rparr>))))))))))"

fun sprout_proof_bytes :: "sprout_proof \<Rightarrow> bytes" where
  "sprout_proof_bytes (Groth p) = p"
| "sprout_proof_bytes (PHGR p) = p"

definition JsDescription_write :: "js_description \<Rightarrow> bytes" where
  "JsDescription_write js =
     ZatBalance_to_i64_le_bytes (js_vpub_old js)
     @ ZatBalance_to_i64_le_bytes (js_vpub_new js)
     @ js_anchor js
     @ js_nullifiers js ! 0 @ js_nullifiers js ! 1
     @ js_commitments js ! 0 @ js_commitments js ! 1
     @ js_ephemeral_key js
     @ js_random_seed js
     @ js_macs js ! 0 @ js_macs js ! 1
     @ sprout_proof_bytes (js_proof js)
     @ js_ciphertexts js ! 0 @ js_ciphertexts js ! 1"

text \<open>The \<open>expect\<close> on the difference: a panic is \<open>None\<close>.\<close>

definition JsDescription_net_value :: "js_description \<Rightarrow> zat_balance option" where
  "JsDescription_net_value js = zb_sub (js_vpub_new js) (js_vpub_old js)"

definition groth_proof_bytes :: "js_description \<Rightarrow> bytes option" where
  "groth_proof_bytes js = (case js_proof js of Groth p \<Rightarrow> Some p | PHGR _ \<Rightarrow> None)"

text \<open>\<open>try_fold\<close> over the net values; the outer option is the panic of \<open>net_value\<close>.\<close>

primrec sprout_fold :: "zat_balance \<Rightarrow> js_description list \<Rightarrow> zat_balance option option" where
  "sprout_fold acc [] = Some (Some acc)"
| "sprout_fold acc (js # jss) = Option.bind (JsDescription_net_value js) (\<lambda>net.
     case zb_add acc net of None \<Rightarrow> Some None | Some acc' \<Rightarrow> sprout_fold acc' jss)"

definition SproutBundle_value_balance :: "sprout_bundle \<Rightarrow> zat_balance option option" where
  "SproutBundle_value_balance b = sprout_fold ZatBalance_zero (sb_joinsplits b)"

subsection \<open>The layout\<close>

definition byte_pair :: "nat \<Rightarrow> bytes list \<Rightarrow> bool" where
  "byte_pair n bs \<longleftrightarrow> length bs = 2 \<and> list_all (\<lambda>b. length b = n) bs"

definition wf_proof :: "bool \<Rightarrow> sprout_proof \<Rightarrow> bool" where
  "wf_proof use_groth p \<longleftrightarrow> (case p of Groth b \<Rightarrow> use_groth \<and> length b = GROTH_PROOF_SIZE
     | PHGR b \<Rightarrow> \<not> use_groth \<and> length b = PHGR_PROOF_SIZE)"

text \<open>Both amounts of a JoinSplit are non-negative.\<close>

definition wf_vpub :: "zat_balance \<Rightarrow> bool" where
  "wf_vpub b \<longleftrightarrow> wf_balance b \<and> 0 \<le> zb_val b"

definition wf_js :: "bool \<Rightarrow> js_description \<Rightarrow> bool" where
  "wf_js use_groth js \<longleftrightarrow> wf_vpub (js_vpub_old js) \<and> wf_vpub (js_vpub_new js)
     \<and> length (js_anchor js) = 32 \<and> byte_pair 32 (js_nullifiers js)
     \<and> byte_pair 32 (js_commitments js) \<and> length (js_ephemeral_key js) = 32
     \<and> length (js_random_seed js) = 32 \<and> byte_pair 32 (js_macs js)
     \<and> wf_proof use_groth (js_proof js) \<and> byte_pair 601 (js_ciphertexts js)"

lemma read_pair_iff:
  "read_n 2 (read_exact n) bs = Inr (xs, rest) \<longleftrightarrow> byte_pair n xs \<and> bs = xs ! 0 @ xs ! 1 @ rest"
proof -
  have codec: "exact_codec (read_exact n) (\<lambda>b. b) (\<lambda>b. length b = n)"
    by (rule exact_codecI) (simp add: read_exact_iff)
  show ?thesis
    unfolding exact_codec.read_list_iff [OF codec]
    by (auto simp: byte_pair_def length_Suc_conv numeral_2_eq_2)
qed

interpretation vpub_codec: fixed_codec "read_vpub msg" ZatBalance_to_i64_le_bytes wf_vpub 8
proof (rule fixed_codecI)
  show "read_vpub msg bs = Inr (b, rest) \<longleftrightarrow> wf_vpub b \<and> bs = ZatBalance_to_i64_le_bytes b @ rest"
    for bs b rest
  proof -
    have "wf_vpub b \<longleftrightarrow> zb_raw b \<le> MAX_MONEY"
    proof
      assume "wf_vpub b"
      then have "0 \<le> zb_val b" "zb_val b \<le> 2100000000000000" by (simp_all add: wf_vpub_def wf_balance_iff)
      moreover from this have "uint (zb_raw b) = zb_val b" by (intro uint_eq_sint64)
      ultimately show "zb_raw b \<le> MAX_MONEY" by (simp only: word_le_def uint_MAX_MONEY)
    next
      assume "zb_raw b \<le> MAX_MONEY"
      then have le: "uint (zb_raw b) \<le> 2100000000000000" by (simp only: word_le_def uint_MAX_MONEY)
      then have "zb_val b = uint (zb_raw b)" by (intro sint_eq_uint64) simp
      then show "wf_vpub b" using le by (simp add: wf_vpub_def wf_balance_iff)
    qed
    then have wf: "wf_vpub b \<longleftrightarrow> zb_raw b \<le> MAX_MONEY" .
    have "read_vpub msg bs = Inr (b, rest) \<longleftrightarrow>
        (\<exists>tmp. bs = tmp @ rest \<and> (length tmp = 8 \<and> le_word tmp = zb_raw b) \<and> zb_raw b \<le> MAX_MONEY)"
      unfolding read_vpub_def ZatBalance_from_u64_le_bytes_def ZatBalance_from_u64_def
      by (cases b) (auto simp: read_exact_iff split: if_splits)
    also have "\<dots> \<longleftrightarrow> wf_vpub b \<and> bs = ZatBalance_to_i64_le_bytes b @ rest"
      unfolding wf ZatBalance_to_i64_le_bytes_def
      by (auto simp: le_word_iff [where n = 8])
    finally show ?thesis .
  qed
qed (simp add: ZatBalance_to_i64_le_bytes_def)

lemma read_proof_iff:
  "read_sprout_proof g bs = Inr (p, rest) \<longleftrightarrow> wf_proof g p \<and> bs = sprout_proof_bytes p @ rest"
  by (cases p) (auto simp: read_sprout_proof_def wf_proof_def read_exact_iff)

text \<open>The length of a JoinSplit description.\<close>

definition js_width :: "bool \<Rightarrow> nat" where
  "js_width use_groth = (if use_groth then 1698 else 1802)"

interpretation js_codec: fixed_codec "JsDescription_read g" JsDescription_write "wf_js g" "js_width g"
proof (rule fixed_codecI)
  show "JsDescription_read g bs = Inr (js, rest) \<longleftrightarrow> wf_js g js \<and> bs = JsDescription_write js @ rest"
    for bs js rest
    by (cases js) (auto simp: JsDescription_read_def JsDescription_write_def wf_js_def vpub_codec.rd_iff
        read_exact_iff read_pair_iff read_proof_iff ZC_NUM_JS_INPUTS_def ZC_NUM_JS_OUTPUTS_def)
  have pair: "length (xs ! 0) = n \<and> length (xs ! Suc 0) = n" if "byte_pair n xs" for n xs
    using that by (auto simp: byte_pair_def list_all_length)
  have proof_len: "length (sprout_proof_bytes p) = (if g then 192 else 296)" if "wf_proof g p" for p
    using that by (cases p) (auto simp: wf_proof_def GROTH_PROOF_SIZE_def PHGR_PROOF_SIZE_def)
  show "length (JsDescription_write js) = js_width g" if "wf_js g js" for js
    using that pair [of 32 "js_nullifiers js"] pair [of 32 "js_commitments js"]
      pair [of 32 "js_macs js"] pair [of 601 "js_ciphertexts js"] proof_len [of "js_proof js"]
    by (simp add: JsDescription_write_def wf_js_def js_width_def ZatBalance_to_i64_le_bytes_def)
qed

lemmas js_codec_iff [codec_iff] = js_codec.rd_iff

text \<open>A JoinSplit description is read exactly as it is written, with the proof of the proving
  system asked for (1698 bytes with Groth16, 1802 with PHGR13) and both public values within the
  monetary range; a proof of the other system or a truncated description is never accepted.\<close>

theorem js_description_codec:
  "(JsDescription_read g bs = Inr (js, rest) \<longleftrightarrow> wf_js g js \<and> bs = JsDescription_write js @ rest)
   \<and> (wf_js g js \<longrightarrow> length (JsDescription_write js) = (if g then 1698 else 1802)
        \<and> 0 \<le> zb_val (js_vpub_old js) \<and> zb_val (js_vpub_new js) \<le> 2100000000000000
        \<and> ((\<exists>p. groth_proof_bytes js = Some p) \<longleftrightarrow> g))
   \<and> (length bs < js_width g \<longrightarrow> (\<exists>e. JsDescription_read g bs = Inl e))"
proof (intro conjI impI)
  show "JsDescription_read g bs = Inr (js, rest) \<longleftrightarrow> wf_js g js \<and> bs = JsDescription_write js @ rest"
    by (rule js_codec.rd_iff)
  show "\<exists>e. JsDescription_read g bs = Inl e" if "length bs < js_width g"
    using that by (rule js_codec.too_short)
next
  assume wf: "wf_js g js"
  show "length (JsDescription_write js) = (if g then 1698 else 1802)"
    using js_codec.width [OF wf] by (simp add: js_width_def)
  show "0 \<le> zb_val (js_vpub_old js)" "zb_val (js_vpub_new js) \<le> 2100000000000000"
    using wf by (simp_all add: wf_js_def wf_vpub_def wf_balance_iff)
  show "(\<exists>p. groth_proof_bytes js = Some p) \<longleftrightarrow> g"
    using wf by (cases "js_proof js") (simp_all add: groth_proof_bytes_def wf_js_def wf_proof_def)
qed

definition example_js :: js_description where
  "example_js = \<lparr>js_vpub_old = ZatBalance 5, js_vpub_new = ZatBalance 8, js_anchor = replicate 32 0,
     js_nullifiers = [replicate 32 1, replicate 32 2],
     js_commitments = [replicate 32 3, replicate 32 4], js_ephemeral_key = replicate 32 5,
     js_random_seed = replicate 32 6, js_macs = [replicate 32 7, replicate 32 8],
     js_proof = Groth (replicate 192 9), js_ciphertexts = [replicate 601 10, replicate 601 11]\<rparr>"

lemma wf_example_js: "wf_js True example_js"
  by (simp add: wf_js_def example_js_def wf_vpub_def wf_balance_iff byte_pair_def wf_proof_def
      GROTH_PROOF_SIZE_def)

lemma js_description_codec_witness:
  "JsDescription_read True (JsDescription_write example_js @ [1]) = Inr (example_js, [1])
   \<and> length (JsDescription_write example_js) = 1698 \<and> (\<exists>e. JsDescription_read False [0] = Inl e)"
  using js_description_codec [of True "JsDescription_write example_js @ [1]" example_js "[1]"]
    js_description_codec [of False "[0]" example_js "[]"] wf_example_js
  by (simp add: js_width_def)

subsection \<open>Value\<close>

lemma net_value_exact:
  assumes "wf_js g js"
  shows "\<exists>net. JsDescription_net_value js = Some net \<and> wf_balance net
    \<and> zb_val net = zb_val (js_vpub_new js) - zb_val (js_vpub_old js)"
proof -
  let ?d = "zb_val (js_vpub_new js) - zb_val (js_vpub_old js)"
  have range: "- 2100000000000000 \<le> ?d \<and> ?d \<le> 2100000000000000"
    using assms by (simp add: wf_js_def wf_vpub_def wf_balance_iff)
  then have "sint (zb_raw (js_vpub_new js) - zb_raw (js_vpub_old js)) = ?d"
    by (intro sint_sub_exact) simp_all
  then show ?thesis
    using range by (simp add: JsDescription_net_value_def zb_sub_def ZatBalance_from_i64_iff wf_balance_iff)
qed

definition js_net :: "js_description \<Rightarrow> zat_balance" where
  "js_net js = the (JsDescription_net_value js)"

lemma js_net:
  assumes "wf_js g js"
  shows "JsDescription_net_value js = Some (js_net js)" "wf_balance (js_net js)"
    "zb_val (js_net js) = zb_val (js_vpub_new js) - zb_val (js_vpub_old js)"
  using net_value_exact [OF assms] by (auto simp: js_net_def)

lemma sprout_fold_eq:
  "list_all (wf_js g) jss \<Longrightarrow> sprout_fold acc jss = Some (fold_opt zb_add acc (map js_net jss))"
proof (induction jss arbitrary: acc)
  case (Cons js jss)
  then show ?case using js_net(1) [of g js] by (simp split: option.splits)
qed simp

text \<open>The value balance of a Sprout bundle never panics: every net value is the exact difference
  of its public values. The balance is the exact sum of the net values when every running sum, in
  order, stays within the monetary range, and is absent when one of them leaves it.\<close>

theorem sprout_value_balance:
  assumes "list_all (wf_js g) (sb_joinsplits b)"
  shows "\<exists>r. SproutBundle_value_balance b = Some r
    \<and> (let nets = map (\<lambda>js. zb_val (js_vpub_new js) - zb_val (js_vpub_old js)) (sb_joinsplits b) in
       case r of
         Some s \<Rightarrow> wf_balance s \<and> zb_val s = sum_list nets
           \<and> (\<forall>k \<le> length nets. in_balance_range (sum_list (take k nets)))
       | None \<Rightarrow> (\<exists>k \<le> length nets. \<not> in_balance_range (sum_list (take k nets))))"
proof -
  let ?nets = "map js_net (sb_joinsplits b)"
  have ok: "list_all wf_balance ?nets"
    using assms js_net(2) by (auto simp: list_all_iff)
  have vals: "map (\<lambda>js. zb_val (js_vpub_new js) - zb_val (js_vpub_old js)) (sb_joinsplits b) = map zb_val ?nets"
    using assms js_net(3) by (auto simp: list_all_iff)
  have r: "SproutBundle_value_balance b = Some (zb_sum ?nets)"
    unfolding SproutBundle_value_balance_def sprout_fold_eq [OF assms] zb_sum_def by simp
  have dom: "(\<exists>s. zb_sum ?nets = Some s) \<longleftrightarrow>
      (\<forall>k \<le> length ?nets. in_balance_range (sum_list (map zb_val (take k ?nets))))"
    using zb.total_defined_from [OF zb.zero_ok ok] by (simp add: zb_sum_def zb.zero_val)
  show ?thesis
  proof (cases "zb_sum ?nets")
    case None
    then show ?thesis using r dom unfolding vals Let_def by (auto simp: take_map)
  next
    case (Some s)
    then have "wf_balance s \<and> zb_val s = sum_list (map zb_val ?nets)"
      using zb.total [OF ok] by (simp add: zb_sum_def)
    then show ?thesis using r dom Some unfolding vals Let_def by (auto simp: take_map)
  qed
qed

lemma sprout_value_balance_witness:
  "\<exists>r. SproutBundle_value_balance \<lparr>sb_joinsplits = [example_js, example_js],
       sb_joinsplit_pubkey = replicate 32 0, sb_joinsplit_sig = replicate 64 0\<rparr> = Some r
     \<and> (case r of Some s \<Rightarrow> zb_val s = 6 | None \<Rightarrow> False)"
  using sprout_value_balance [of True "\<lparr>sb_joinsplits = [example_js, example_js],
       sb_joinsplit_pubkey = replicate 32 0, sb_joinsplit_sig = replicate 64 0\<rparr>"] wf_example_js
  by (auto simp: all_le_Suc example_js_def Let_def less_Suc_eq_le numeral_2_eq_2 split: option.splits)

end
