(* ===== verification/Sapling.thy ===== *)
theory Sapling
  imports Consensus Sprout
begin

text \<open>
  \<open>zcash_primitives/src/transaction/components/sapling.rs\<close>: ZIP 212 enforcement and the byte
  formats of Sapling spends, outputs and bundles in version 4 and version 5 transactions. The
  points and field elements, \<open>Vector\<close>, \<open>Array\<close> and \<open>Bundle::from_parts\<close> are external and come in
  a record; the descriptions and the bundle are the records of the accessors of the external types.
\<close>

subsection \<open>ZIP 212 enforcement\<close>

datatype zip212_enforcement = Zip212Off | Zip212GracePeriod | Zip212On

text \<open>The \<open>unwrap\<close> of the activation height is the option.\<close>

definition zip212_enforcement_at :: "parameters \<Rightarrow> block_height \<Rightarrow> zip212_enforcement option" where
  "zip212_enforcement_at params height =
     (if is_nu_active params NuCanopy height then
        Option.bind (activation_height params NuCanopy) (\<lambda>canopy.
          let grace_period_end_height = bh_add canopy ZIP212_GRACE_PERIOD in
          Some (if height < grace_period_end_height then Zip212GracePeriod else Zip212On))
      else Some Zip212Off)"

subsection \<open>Descriptions and bundles\<close>

definition ENC_CIPHERTEXT_SIZE :: nat where "ENC_CIPHERTEXT_SIZE = 580"
definition OUT_CIPHERTEXT_SIZE :: nat where "OUT_CIPHERTEXT_SIZE = 80"

definition SPEND_DESCRIPTION_SIZE :: nat where
  "SPEND_DESCRIPTION_SIZE = 32 + 32 + 32 + 32 + GROTH_PROOF_SIZE + 64"

definition OUTPUT_DESCRIPTION_SIZE :: nat where
  "OUTPUT_DESCRIPTION_SIZE = 32 + 32 + 32 + ENC_CIPHERTEXT_SIZE + OUT_CIPHERTEXT_SIZE + GROTH_PROOF_SIZE"

definition SAPLING_BUNDLE_OVERHEAD :: nat where
  "SAPLING_BUNDLE_OVERHEAD = 9 + 9 + 8 + 32 + 64"

record ('cv, 'fe, 'rk) spend_description =
  sd_cv :: 'cv
  sd_anchor :: 'fe
  sd_nullifier :: bytes
  sd_rk :: 'rk
  sd_zkproof :: bytes
  sd_spend_auth_sig :: bytes

record ('cv, 'rk) spend_description_v5 =
  sd5_cv :: 'cv
  sd5_nullifier :: bytes
  sd5_rk :: 'rk

record ('cv, 'cmu) output_description =
  od_cv :: 'cv
  od_cmu :: 'cmu
  od_ephemeral_key :: bytes
  od_enc_ciphertext :: bytes
  od_out_ciphertext :: bytes
  od_zkproof :: bytes

record ('cv, 'cmu) output_description_v5 =
  od5_cv :: 'cv
  od5_cmu :: 'cmu
  od5_ephemeral_key :: bytes
  od5_enc_ciphertext :: bytes
  od5_out_ciphertext :: bytes

record ('cv, 'fe, 'cmu, 'rk) sapling_bundle =
  sap_spends :: "('cv, 'fe, 'rk) spend_description list"
  sap_outputs :: "('cv, 'cmu) output_description list"
  sap_value_balance :: zat_balance
  sap_binding_sig :: bytes

record ('cv, 'fe, 'cmu, 'rk) sapling_ext =
  sx_cv :: "'cv element"
  sx_base :: "'fe element"
  sx_cmu :: "'cmu element"
  sx_rk :: "'rk element"
  sx_spends :: "('cv, 'fe, 'rk) spend_description vector_io"
  sx_outputs :: "('cv, 'cmu) output_description vector_io"
  sx_spends_v5 :: "('cv, 'rk) spend_description_v5 vector_io"
  sx_outputs_v5 :: "('cv, 'cmu) output_description_v5 vector_io"
  sx_array :: "bytes array_io"
  sx_cs :: compact_size
  sx_from_parts :: "('cv, 'fe, 'rk) spend_description list \<Rightarrow> ('cv, 'cmu) output_description list
    \<Rightarrow> zat_balance \<Rightarrow> bytes \<Rightarrow> ('cv, 'fe, 'cmu, 'rk) sapling_bundle option"

subsection \<open>Elements\<close>

definition read_value_commitment :: "('cv, 'fe, 'cmu, 'rk) sapling_ext \<Rightarrow> 'cv reader" where
  "read_value_commitment sx = rbind (read_exact 32) (\<lambda>bytes.
     rlift (ok_or (el_parse (sx_cv sx) bytes) (InvalidInput ''invalid cv'')))"

definition read_cmu :: "('cv, 'fe, 'cmu, 'rk) sapling_ext \<Rightarrow> 'cmu reader" where
  "read_cmu sx = rbind (read_exact 32) (\<lambda>f.
     rlift (ok_or (el_parse (sx_cmu sx) f) (InvalidInput ''cmu not in field'')))"

definition read_base :: "('cv, 'fe, 'cmu, 'rk) sapling_ext \<Rightarrow> 'fe reader" where
  "read_base sx = rbind (read_exact 32) (\<lambda>f.
     rlift (ok_or (el_parse (sx_base sx) f) (InvalidInput ''base value not a valid field element'')))"

definition read_zkproof :: "bytes reader" where
  "read_zkproof = read_exact GROTH_PROOF_SIZE"

definition read_nullifier :: "bytes reader" where
  "read_nullifier = read_exact 32"

definition read_rk :: "('cv, 'fe, 'cmu, 'rk) sapling_ext \<Rightarrow> 'rk reader" where
  "read_rk sx = rbind (read_exact 32) (\<lambda>bytes.
     rlift (ok_or (el_parse (sx_rk sx) bytes) (InvalidData ''verification key is invalid'')))"

definition read_spend_auth_sig :: "bytes reader" where
  "read_spend_auth_sig = read_exact 64"

definition read_amount :: "zat_balance reader" where
  "read_amount = rbind (read_exact 8) (\<lambda>tmp.
     rlift (map_err (\<lambda>_. InvalidData ''valueBalance out of range'') (ZatBalance_from_i64_le_bytes tmp)))"

subsection \<open>Spends and outputs\<close>

definition read_spend_v4 ::
  "('cv, 'fe, 'cmu, 'rk) sapling_ext \<Rightarrow> ('cv, 'fe, 'rk) spend_description reader" where
  "read_spend_v4 sx =
     rbind (read_value_commitment sx) (\<lambda>cv.
     rbind (read_base sx) (\<lambda>anchor.
     rbind read_nullifier (\<lambda>nullifier.
     rbind (read_rk sx) (\<lambda>rk.
     rbind read_zkproof (\<lambda>zkproof.
     rbind read_spend_auth_sig (\<lambda>spend_auth_sig.
     rret \<lparr>sd_cv = cv, sd_anchor = anchor, sd_nullifier = nullifier, sd_rk = rk,
           sd_zkproof = zkproof, sd_spend_auth_sig = spend_auth_sig\<rparr>))))))"

definition write_spend_v4 ::
  "('cv, 'fe, 'cmu, 'rk) sapling_ext \<Rightarrow> ('cv, 'fe, 'rk) spend_description \<Rightarrow> bytes" where
  "write_spend_v4 sx spend =
     el_bytes (sx_cv sx) (sd_cv spend)
     @ el_bytes (sx_base sx) (sd_anchor spend)
     @ sd_nullifier spend
     @ el_bytes (sx_rk sx) (sd_rk spend)
     @ sd_zkproof spend
     @ sd_spend_auth_sig spend"

definition write_spend_v5_without_witness_data ::
  "('cv, 'fe, 'cmu, 'rk) sapling_ext \<Rightarrow> ('cv, 'fe, 'rk) spend_description \<Rightarrow> bytes" where
  "write_spend_v5_without_witness_data sx spend =
     el_bytes (sx_cv sx) (sd_cv spend)
     @ sd_nullifier spend
     @ el_bytes (sx_rk sx) (sd_rk spend)"

definition read_spend_v5 ::
  "('cv, 'fe, 'cmu, 'rk) sapling_ext \<Rightarrow> ('cv, 'rk) spend_description_v5 reader" where
  "read_spend_v5 sx =
     rbind (read_value_commitment sx) (\<lambda>cv.
     rbind read_nullifier (\<lambda>nullifier.
     rbind (read_rk sx) (\<lambda>rk.
     rret \<lparr>sd5_cv = cv, sd5_nullifier = nullifier, sd5_rk = rk\<rparr>)))"

definition read_output_v4 ::
  "('cv, 'fe, 'cmu, 'rk) sapling_ext \<Rightarrow> ('cv, 'cmu) output_description reader" where
  "read_output_v4 sx =
     rbind (read_value_commitment sx) (\<lambda>cv.
     rbind (read_cmu sx) (\<lambda>cmu.
     rbind (read_exact 32) (\<lambda>ephemeral_key.
     rbind (read_exact ENC_CIPHERTEXT_SIZE) (\<lambda>enc_ciphertext.
     rbind (read_exact OUT_CIPHERTEXT_SIZE) (\<lambda>out_ciphertext.
     rbind read_zkproof (\<lambda>zkproof.
     rret \<lparr>od_cv = cv, od_cmu = cmu, od_ephemeral_key = ephemeral_key,
           od_enc_ciphertext = enc_ciphertext, od_out_ciphertext = out_ciphertext,
           od_zkproof = zkproof\<rparr>))))))"

definition write_output_v4 ::
  "('cv, 'fe, 'cmu, 'rk) sapling_ext \<Rightarrow> ('cv, 'cmu) output_description \<Rightarrow> bytes" where
  "write_output_v4 sx output =
     el_bytes (sx_cv sx) (od_cv output)
     @ el_bytes (sx_cmu sx) (od_cmu output)
     @ od_ephemeral_key output
     @ od_enc_ciphertext output
     @ od_out_ciphertext output
     @ od_zkproof output"

definition write_output_v5_without_proof ::
  "('cv, 'fe, 'cmu, 'rk) sapling_ext \<Rightarrow> ('cv, 'cmu) output_description \<Rightarrow> bytes" where
  "write_output_v5_without_proof sx output =
     el_bytes (sx_cv sx) (od_cv output)
     @ el_bytes (sx_cmu sx) (od_cmu output)
     @ od_ephemeral_key output
     @ od_enc_ciphertext output
     @ od_out_ciphertext output"

definition read_output_v5 ::
  "('cv, 'fe, 'cmu, 'rk) sapling_ext \<Rightarrow> ('cv, 'cmu) output_description_v5 reader" where
  "read_output_v5 sx =
     rbind (read_value_commitment sx) (\<lambda>cv.
     rbind (read_cmu sx) (\<lambda>cmu.
     rbind (read_exact 32) (\<lambda>ephemeral_key.
     rbind (read_exact 580) (\<lambda>enc_ciphertext.
     rbind (read_exact 80) (\<lambda>out_ciphertext.
     rret \<lparr>od5_cv = cv, od5_cmu = cmu, od5_ephemeral_key = ephemeral_key,
           od5_enc_ciphertext = enc_ciphertext, od5_out_ciphertext = out_ciphertext\<rparr>)))))"

subsection \<open>The components of a version 4 transaction\<close>

type_synonym ('cv, 'fe, 'cmu, 'rk) v4_components =
  "zat_balance \<times> ('cv, 'fe, 'rk) spend_description list \<times> ('cv, 'cmu) output_description list"

definition read_v4_components ::
  "('cv, 'fe, 'cmu, 'rk) sapling_ext \<Rightarrow> bool \<Rightarrow> ('cv, 'fe, 'cmu, 'rk) v4_components reader" where
  "read_v4_components sx tx_has_sapling =
     (if tx_has_sapling then
        rbind read_amount (\<lambda>vb.
        rbind (vec_read (sx_spends sx) (read_spend_v4 sx)) (\<lambda>ss.
        rbind (vec_read (sx_outputs sx) (read_output_v4 sx)) (\<lambda>so.
        rret (vb, ss, so))))
      else rret (ZatBalance_zero, [], []))"

definition write_v4_components ::
  "('cv, 'fe, 'cmu, 'rk) sapling_ext \<Rightarrow> ('cv, 'fe, 'cmu, 'rk) sapling_bundle option \<Rightarrow> bool
     \<Rightarrow> io_error + bytes" where
  "write_v4_components sx bundle tx_has_sapling =
     (if tx_has_sapling then Inr (
        ZatBalance_to_i64_le_bytes (case bundle of None \<Rightarrow> ZatBalance_zero | Some b \<Rightarrow> sap_value_balance b)
        @ vec_write (sx_spends sx) (write_spend_v4 sx) (case bundle of None \<Rightarrow> [] | Some b \<Rightarrow> sap_spends b)
        @ vec_write (sx_outputs sx) (write_output_v4 sx) (case bundle of None \<Rightarrow> [] | Some b \<Rightarrow> sap_outputs b))
      else if bundle \<noteq> None then
        Inl (InvalidInput ''Sapling components may not be present if Sapling is not active.'')
      else Inr [])"

subsection \<open>The bundle of a version 5 transaction\<close>

definition spend_from_v5 ::
  "('cv, 'rk) spend_description_v5 \<Rightarrow> 'fe \<Rightarrow> bytes \<Rightarrow> bytes \<Rightarrow> ('cv, 'fe, 'rk) spend_description" where
  "spend_from_v5 sd anchor zkproof spend_auth_sig =
     \<lparr>sd_cv = sd5_cv sd, sd_anchor = anchor, sd_nullifier = sd5_nullifier sd, sd_rk = sd5_rk sd,
      sd_zkproof = zkproof, sd_spend_auth_sig = spend_auth_sig\<rparr>"

definition output_from_v5 ::
  "('cv, 'cmu) output_description_v5 \<Rightarrow> bytes \<Rightarrow> ('cv, 'cmu) output_description" where
  "output_from_v5 od zkproof =
     \<lparr>od_cv = od5_cv od, od_cmu = od5_cmu od, od_ephemeral_key = od5_ephemeral_key od,
      od_enc_ciphertext = od5_enc_ciphertext od, od_out_ciphertext = od5_out_ciphertext od,
      od_zkproof = zkproof\<rparr>"

text \<open>The anchor of the spends: its \<open>unwrap\<close> is only reached when there is a spend.\<close>

definition assemble_spends ::
  "('cv, 'rk) spend_description_v5 list \<Rightarrow> 'fe option \<Rightarrow> bytes list \<Rightarrow> bytes list
     \<Rightarrow> ('cv, 'fe, 'rk) spend_description list" where
  "assemble_spends sds anchor proofs sigs = (case anchor of
     None \<Rightarrow> []
   | Some a \<Rightarrow> map (\<lambda>(sd, zkproof, spend_auth_sig). spend_from_v5 sd a zkproof spend_auth_sig)
       (zip sds (zip proofs sigs)))"

definition read_v5_bundle ::
  "('cv, 'fe, 'cmu, 'rk) sapling_ext \<Rightarrow> ('cv, 'fe, 'cmu, 'rk) sapling_bundle option reader" where
  "read_v5_bundle sx =
     rbind (vec_read (sx_spends_v5 sx) (read_spend_v5 sx)) (\<lambda>sd_v5s.
     rbind (vec_read (sx_outputs_v5 sx) (read_output_v5 sx)) (\<lambda>od_v5s.
     let n_spends = length sd_v5s; n_outputs = length od_v5s in
     rbind (if n_spends > 0 \<or> n_outputs > 0 then read_amount else rret ZatBalance_zero) (\<lambda>value_balance.
     rbind (if n_spends > 0 then rbind (read_base sx) (\<lambda>a. rret (Some a)) else rret None) (\<lambda>anchor.
     rbind (arr_read (sx_array sx) (of_nat n_spends) read_zkproof) (\<lambda>spend_proofs.
     rbind (arr_read (sx_array sx) (of_nat n_spends) read_spend_auth_sig) (\<lambda>spend_auth_sigs.
     rbind (arr_read (sx_array sx) (of_nat n_outputs) read_zkproof) (\<lambda>output_proofs.
     rbind (if n_spends > 0 \<or> n_outputs > 0 then rbind (read_exact 64) (\<lambda>sig. rret (Some sig))
            else rret None) (\<lambda>binding_sig.
       let shielded_spends = assemble_spends sd_v5s anchor spend_proofs spend_auth_sigs;
           shielded_outputs = map (\<lambda>(od, zkproof). output_from_v5 od zkproof) (zip od_v5s output_proofs)
       in rret (Option.bind binding_sig (\<lambda>sig.
            sx_from_parts sx shielded_spends shielded_outputs value_balance sig))))))))))"

definition write_v5_bundle ::
  "('cv, 'fe, 'cmu, 'rk) sapling_ext \<Rightarrow> ('cv, 'fe, 'cmu, 'rk) sapling_bundle option \<Rightarrow> bytes" where
  "write_v5_bundle sx sapling_bundle = (case sapling_bundle of
     Some b \<Rightarrow>
       vec_write (sx_spends sx) (write_spend_v5_without_witness_data sx) (sap_spends b)
       @ vec_write (sx_outputs sx) (write_output_v5_without_proof sx) (sap_outputs b)
       @ (if \<not> (sap_spends b = [] \<and> sap_outputs b = [])
          then ZatBalance_to_i64_le_bytes (sap_value_balance b) else [])
       @ (case sap_spends b of [] \<Rightarrow> [] | s # _ \<Rightarrow> el_bytes (sx_base sx) (sd_anchor s))
       @ arr_write (sx_array sx) (\<lambda>e. e) (map sd_zkproof (sap_spends b))
       @ arr_write (sx_array sx) (\<lambda>e. e) (map sd_spend_auth_sig (sap_spends b))
       @ arr_write (sx_array sx) (\<lambda>e. e) (map od_zkproof (sap_outputs b))
       @ (if \<not> (sap_spends b = [] \<and> sap_outputs b = []) then sap_binding_sig b else [])
   | None \<Rightarrow> cs_write (sx_cs sx) 0 @ cs_write (sx_cs sx) 0)"

subsection \<open>The documented behaviour of the external code\<close>

definition sapling_ext_ok :: "('cv, 'fe, 'cmu, 'rk) sapling_ext \<Rightarrow> bool" where
  "sapling_ext_ok sx \<longleftrightarrow> compact_size_ok (sx_cs sx)
     \<and> element_ok 32 (sx_cv sx) \<and> element_ok 32 (sx_base sx) \<and> element_ok 32 (sx_cmu sx)
     \<and> element_ok 32 (sx_rk sx)
     \<and> vector_ok (sx_cs sx) (sx_spends sx) \<and> vector_ok (sx_cs sx) (sx_outputs sx)
     \<and> vector_ok (sx_cs sx) (sx_spends_v5 sx) \<and> vector_ok (sx_cs sx) (sx_outputs_v5 sx)
     \<and> array_ok (sx_array sx)
     \<and> (\<forall>ss so vb sig. sx_from_parts sx ss so vb sig =
          (if ss = [] \<and> so = [] then None
           else Some \<lparr>sap_spends = ss, sap_outputs = so, sap_value_balance = vb, sap_binding_sig = sig\<rparr>))"

definition wf_spend :: "('cv, 'fe, 'cmu, 'rk) sapling_ext \<Rightarrow> ('cv, 'fe, 'rk) spend_description \<Rightarrow> bool" where
  "wf_spend sx s \<longleftrightarrow> wf_element 32 (sx_cv sx) (sd_cv s) \<and> wf_element 32 (sx_base sx) (sd_anchor s)
     \<and> length (sd_nullifier s) = 32 \<and> wf_element 32 (sx_rk sx) (sd_rk s)
     \<and> length (sd_zkproof s) = GROTH_PROOF_SIZE \<and> length (sd_spend_auth_sig s) = 64"

definition wf_output :: "('cv, 'fe, 'cmu, 'rk) sapling_ext \<Rightarrow> ('cv, 'cmu) output_description \<Rightarrow> bool" where
  "wf_output sx d \<longleftrightarrow> wf_element 32 (sx_cv sx) (od_cv d) \<and> wf_element 32 (sx_cmu sx) (od_cmu d)
     \<and> length (od_ephemeral_key d) = 32 \<and> length (od_enc_ciphertext d) = 580
     \<and> length (od_out_ciphertext d) = 80 \<and> length (od_zkproof d) = GROTH_PROOF_SIZE"

lemma amount_iff [codec_iff]:
  "read_amount bs = Inr (b, rest) \<longleftrightarrow> wf_balance b \<and> bs = ZatBalance_to_i64_le_bytes b @ rest"
proof -
  have "read_amount bs = Inr (b, rest) \<longleftrightarrow>
      (\<exists>tmp. bs = tmp @ rest \<and> (length tmp = 8 \<and> le_word tmp = zb_raw b) \<and> wf_balance b)"
    unfolding read_amount_def ZatBalance_from_i64_le_bytes_def
    by (cases b) (auto simp: read_exact_iff ZatBalance_from_i64_iff)
  then show ?thesis
    by (auto simp: ZatBalance_to_i64_le_bytes_def le_word_iff [where n = 8])
qed

lemma sapling_element_codecs:
  assumes "sapling_ext_ok sx"
  shows "fixed_codec (read_value_commitment sx) (el_bytes (sx_cv sx)) (wf_element 32 (sx_cv sx)) 32"
    "fixed_codec (read_base sx) (el_bytes (sx_base sx)) (wf_element 32 (sx_base sx)) 32"
    "fixed_codec (read_cmu sx) (el_bytes (sx_cmu sx)) (wf_element 32 (sx_cmu sx)) 32"
    "fixed_codec (read_rk sx) (el_bytes (sx_rk sx)) (wf_element 32 (sx_rk sx)) 32"
  using assms
  by (simp_all add: sapling_ext_ok_def read_value_commitment_def read_base_def read_cmu_def read_rk_def
      element_codec)

lemmas sapling_element_iff =
  exact_codec.rd_iff [OF fixed_codec.axioms(1) [OF sapling_element_codecs(1)]]
  exact_codec.rd_iff [OF fixed_codec.axioms(1) [OF sapling_element_codecs(2)]]
  exact_codec.rd_iff [OF fixed_codec.axioms(1) [OF sapling_element_codecs(3)]]
  exact_codec.rd_iff [OF fixed_codec.axioms(1) [OF sapling_element_codecs(4)]]

lemmas sapling_sizes = read_zkproof_def read_nullifier_def read_spend_auth_sig_def
  ENC_CIPHERTEXT_SIZE_def OUT_CIPHERTEXT_SIZE_def read_exact_iff

lemma spend_v4_codec:
  assumes "sapling_ext_ok sx"
  shows "exact_codec (read_spend_v4 sx) (write_spend_v4 sx) (wf_spend sx)"
proof (rule exact_codecI)
  show "read_spend_v4 sx bs = Inr (s, rest) \<longleftrightarrow> wf_spend sx s \<and> bs = write_spend_v4 sx s @ rest" for bs s rest
    by (cases s) (auto simp: read_spend_v4_def write_spend_v4_def wf_spend_def sapling_sizes
        sapling_element_iff [OF assms])
qed

lemma output_v4_codec:
  assumes "sapling_ext_ok sx"
  shows "exact_codec (read_output_v4 sx) (write_output_v4 sx) (wf_output sx)"
proof (rule exact_codecI)
  show "read_output_v4 sx bs = Inr (s, rest) \<longleftrightarrow> wf_output sx s \<and> bs = write_output_v4 sx s @ rest" for bs s rest
    by (cases s) (auto simp: read_output_v4_def write_output_v4_def wf_output_def sapling_sizes
        sapling_element_iff [OF assms])
qed

text \<open>The version 5 parts of a description.\<close>

definition spend_part :: "('cv, 'fe, 'rk) spend_description \<Rightarrow> ('cv, 'rk) spend_description_v5" where
  "spend_part s = \<lparr>sd5_cv = sd_cv s, sd5_nullifier = sd_nullifier s, sd5_rk = sd_rk s\<rparr>"

definition output_part :: "('cv, 'cmu) output_description \<Rightarrow> ('cv, 'cmu) output_description_v5" where
  "output_part d = \<lparr>od5_cv = od_cv d, od5_cmu = od_cmu d, od5_ephemeral_key = od_ephemeral_key d,
     od5_enc_ciphertext = od_enc_ciphertext d, od5_out_ciphertext = od_out_ciphertext d\<rparr>"

definition spend_part_bytes ::
  "('cv, 'fe, 'cmu, 'rk) sapling_ext \<Rightarrow> ('cv, 'rk) spend_description_v5 \<Rightarrow> bytes" where
  "spend_part_bytes sx p = el_bytes (sx_cv sx) (sd5_cv p) @ sd5_nullifier p @ el_bytes (sx_rk sx) (sd5_rk p)"

definition output_part_bytes ::
  "('cv, 'fe, 'cmu, 'rk) sapling_ext \<Rightarrow> ('cv, 'cmu) output_description_v5 \<Rightarrow> bytes" where
  "output_part_bytes sx p = el_bytes (sx_cv sx) (od5_cv p) @ el_bytes (sx_cmu sx) (od5_cmu p)
     @ od5_ephemeral_key p @ od5_enc_ciphertext p @ od5_out_ciphertext p"

definition wf_spend_part ::
  "('cv, 'fe, 'cmu, 'rk) sapling_ext \<Rightarrow> ('cv, 'rk) spend_description_v5 \<Rightarrow> bool" where
  "wf_spend_part sx p \<longleftrightarrow> wf_element 32 (sx_cv sx) (sd5_cv p) \<and> length (sd5_nullifier p) = 32
     \<and> wf_element 32 (sx_rk sx) (sd5_rk p)"

definition wf_output_part ::
  "('cv, 'fe, 'cmu, 'rk) sapling_ext \<Rightarrow> ('cv, 'cmu) output_description_v5 \<Rightarrow> bool" where
  "wf_output_part sx p \<longleftrightarrow> wf_element 32 (sx_cv sx) (od5_cv p) \<and> wf_element 32 (sx_cmu sx) (od5_cmu p)
     \<and> length (od5_ephemeral_key p) = 32 \<and> length (od5_enc_ciphertext p) = 580
     \<and> length (od5_out_ciphertext p) = 80"

lemma spend_part_codec:
  assumes "sapling_ext_ok sx"
  shows "exact_codec (read_spend_v5 sx) (spend_part_bytes sx) (wf_spend_part sx)"
proof (rule exact_codecI)
  show "read_spend_v5 sx bs = Inr (s, rest) \<longleftrightarrow> wf_spend_part sx s \<and> bs = spend_part_bytes sx s @ rest"
    for bs s rest
    by (cases s) (auto simp: read_spend_v5_def spend_part_bytes_def wf_spend_part_def sapling_sizes
        sapling_element_iff [OF assms])
qed

lemma output_part_codec:
  assumes "sapling_ext_ok sx"
  shows "exact_codec (read_output_v5 sx) (output_part_bytes sx) (wf_output_part sx)"
proof (rule exact_codecI)
  show "read_output_v5 sx bs = Inr (s, rest) \<longleftrightarrow> wf_output_part sx s \<and> bs = output_part_bytes sx s @ rest"
    for bs s rest
    by (cases s) (auto simp: read_output_v5_def output_part_bytes_def wf_output_part_def sapling_sizes
        sapling_element_iff [OF assms])
qed

lemma spend_part_bytes_eq: "spend_part_bytes sx (spend_part s) = write_spend_v5_without_witness_data sx s"
  by (simp add: spend_part_bytes_def spend_part_def write_spend_v5_without_witness_data_def)

lemma output_part_bytes_eq: "output_part_bytes sx (output_part d) = write_output_v5_without_proof sx d"
  by (simp add: output_part_bytes_def output_part_def write_output_v5_without_proof_def)

lemma bytes_codec: "exact_codec (read_exact n) (\<lambda>e. e) (\<lambda>e. length e = n)"
  by (rule exact_codecI) (simp add: read_exact_iff)

lemma assemble_spends_iff:
  assumes "length sds = length ps" "length ps = length sigs"
  shows "assemble_spends sds (Some a) ps sigs = ss \<longleftrightarrow>
    sds = map spend_part ss \<and> ps = map sd_zkproof ss \<and> sigs = map sd_spend_auth_sig ss
    \<and> list_all (\<lambda>s. sd_anchor s = a) ss"
  using assms
proof (induction sds ps sigs arbitrary: ss rule: list_induct3)
  case (Cons sd sds p ps sig sigs)
  then show ?case
    by (cases ss; cases sd)
      (auto simp: assemble_spends_def spend_from_v5_def spend_part_def spend_description.defs)
qed (auto simp: assemble_spends_def)

lemma assemble_outputs_iff:
  assumes "length ods = length ps"
  shows "map (\<lambda>(od, zkproof). output_from_v5 od zkproof) (zip ods ps) = ds \<longleftrightarrow>
    ods = map output_part ds \<and> ps = map od_zkproof ds"
  using assms
proof (induction ods ps arbitrary: ds rule: list_induct2)
  case (Cons od ods p ps)
  then show ?case
    by (cases ds; cases od) (auto simp: output_from_v5_def output_part_def output_description.defs)
qed auto

text \<open>What the sequence of reads establishes about its parts.\<close>

definition v5_parts ::
  "('cv, 'fe, 'cmu, 'rk) sapling_ext \<Rightarrow> ('cv, 'rk) spend_description_v5 list
     \<Rightarrow> ('cv, 'cmu) output_description_v5 list \<Rightarrow> zat_balance \<Rightarrow> 'fe option \<Rightarrow> bytes list \<Rightarrow> bytes list
     \<Rightarrow> bytes list \<Rightarrow> bytes option \<Rightarrow> bool" where
  "v5_parts sx sds ods vb anchor ps sigs ops bsig \<longleftrightarrow>
     list_all (wf_spend_part sx) sds \<and> length sds \<le> 33554432
     \<and> list_all (wf_output_part sx) ods \<and> length ods \<le> 33554432
     \<and> (if sds \<noteq> [] \<or> ods \<noteq> [] then wf_balance vb else vb = ZatBalance_zero)
     \<and> (if sds \<noteq> [] then \<exists>a. anchor = Some a \<and> wf_element 32 (sx_base sx) a else anchor = None)
     \<and> length ps = length sds \<and> list_all (\<lambda>p. length p = GROTH_PROOF_SIZE) ps
     \<and> length sigs = length sds \<and> list_all (\<lambda>p. length p = 64) sigs
     \<and> length ops = length ods \<and> list_all (\<lambda>p. length p = GROTH_PROOF_SIZE) ops
     \<and> (if sds \<noteq> [] \<or> ods \<noteq> [] then \<exists>s. bsig = Some s \<and> length s = 64 else bsig = None)"

definition v5_bytes ::
  "('cv, 'fe, 'cmu, 'rk) sapling_ext \<Rightarrow> ('cv, 'rk) spend_description_v5 list
     \<Rightarrow> ('cv, 'cmu) output_description_v5 list \<Rightarrow> zat_balance \<Rightarrow> 'fe option \<Rightarrow> bytes list \<Rightarrow> bytes list
     \<Rightarrow> bytes list \<Rightarrow> bytes option \<Rightarrow> bytes" where
  "v5_bytes sx sds ods vb anchor ps sigs ops bsig =
     vec_write (sx_spends_v5 sx) (spend_part_bytes sx) sds
     @ vec_write (sx_outputs_v5 sx) (output_part_bytes sx) ods
     @ (if sds \<noteq> [] \<or> ods \<noteq> [] then ZatBalance_to_i64_le_bytes vb else [])
     @ (case anchor of None \<Rightarrow> [] | Some a \<Rightarrow> el_bytes (sx_base sx) a)
     @ concat ps @ concat sigs @ concat ops
     @ (case bsig of None \<Rightarrow> [] | Some s \<Rightarrow> s)"

lemma unat_small: "n \<le> 33554432 \<Longrightarrow> unat (of_nat n :: usize) = n"
  by (rule count_u64_iff [THEN iffD2]) simp

lemma opt_amount_iff:
  "(if c then read_amount else rret ZatBalance_zero) bs = Inr (vb, r) \<longleftrightarrow>
     (if c then wf_balance vb else vb = ZatBalance_zero)
     \<and> bs = (if c then ZatBalance_to_i64_le_bytes vb else []) @ r"
  by (auto simp: amount_iff)

lemma opt_anchor_iff:
  assumes "sapling_ext_ok sx"
  shows "(if c then rbind (read_base sx) (\<lambda>a. rret (Some a)) else rret None) bs = Inr (anchor, r) \<longleftrightarrow>
     (if c then \<exists>a. anchor = Some a \<and> wf_element 32 (sx_base sx) a else anchor = None)
     \<and> bs = (case anchor of None \<Rightarrow> [] | Some a \<Rightarrow> el_bytes (sx_base sx) a) @ r"
  by (auto simp: sapling_element_iff [OF assms])

lemma opt_sig_iff:
  "(if c then rbind (read_exact 64) (\<lambda>sig. rret (Some sig)) else rret None) bs = Inr (bsig, r) \<longleftrightarrow>
     (if c then \<exists>s. bsig = Some s \<and> length s = 64 else bsig = None)
     \<and> bs = (case bsig of None \<Rightarrow> [] | Some s \<Rightarrow> s) @ r"
  by (auto simp: read_exact_iff)

lemma read_v5_bundle_raw:
  assumes "sapling_ext_ok sx"
  shows "read_v5_bundle sx bs = Inr (ob, rest) \<longleftrightarrow>
    (\<exists>sds ods vb anchor ps sigs ops bsig. v5_parts sx sds ods vb anchor ps sigs ops bsig
       \<and> bs = v5_bytes sx sds ods vb anchor ps sigs ops bsig @ rest
       \<and> ob = Option.bind bsig (\<lambda>sig. sx_from_parts sx (assemble_spends sds anchor ps sigs)
                (map (\<lambda>(od, zkproof). output_from_v5 od zkproof) (zip ods ops)) vb sig))"
    (is "?L \<longleftrightarrow> ?R")
proof -
  have cs: "compact_size_ok (sx_cs sx)" "vector_ok (sx_cs sx) (sx_spends_v5 sx)"
      "vector_ok (sx_cs sx) (sx_outputs_v5 sx)" "array_ok (sx_array sx)"
    using assms by (simp_all add: sapling_ext_ok_def)
  note spends = vector_read_iff [OF cs(1,2) spend_part_codec [OF assms]]
  note outputs = vector_read_iff [OF cs(1,3) output_part_codec [OF assms]]
  note arrays = array_read_iff [OF cs(4) bytes_codec]
  have arr: "arr_write (sx_array sx) (\<lambda>e. e) xs = concat xs" for xs
    using cs(4) by (simp add: array_ok_def)
  note reads = spends outputs arrays arr opt_amount_iff opt_anchor_iff [OF assms] opt_sig_iff
    read_zkproof_def read_spend_auth_sig_def rbind_iff rret_iff
  show ?thesis
  proof
    assume ?L
    then obtain sds ods vb anchor ps sigs ops bsig where
      "list_all (wf_spend_part sx) sds \<and> length sds \<le> 33554432"
      "list_all (wf_output_part sx) ods \<and> length ods \<le> 33554432"
      "if length sds > 0 \<or> length ods > 0 then wf_balance vb else vb = ZatBalance_zero"
      "if length sds > 0 then \<exists>a. anchor = Some a \<and> wf_element 32 (sx_base sx) a else anchor = None"
      "list_all (\<lambda>p. length p = GROTH_PROOF_SIZE) ps" "length ps = unat (of_nat (length sds) :: usize)"
      "list_all (\<lambda>p. length p = 64) sigs" "length sigs = unat (of_nat (length sds) :: usize)"
      "list_all (\<lambda>p. length p = GROTH_PROOF_SIZE) ops" "length ops = unat (of_nat (length ods) :: usize)"
      "if length sds > 0 \<or> length ods > 0 then \<exists>s. bsig = Some s \<and> length s = 64 else bsig = None"
      "bs = vec_write (sx_spends_v5 sx) (spend_part_bytes sx) sds
        @ vec_write (sx_outputs_v5 sx) (output_part_bytes sx) ods
        @ (if length sds > 0 \<or> length ods > 0 then ZatBalance_to_i64_le_bytes vb else [])
        @ (case anchor of None \<Rightarrow> [] | Some a \<Rightarrow> el_bytes (sx_base sx) a)
        @ concat ps @ concat sigs @ concat ops @ (case bsig of None \<Rightarrow> [] | Some s \<Rightarrow> s) @ rest"
      "ob = Option.bind bsig (\<lambda>sig. sx_from_parts sx (assemble_spends sds anchor ps sigs)
                (map (\<lambda>(od, zkproof). output_from_v5 od zkproof) (zip ods ops)) vb sig)"
      unfolding read_v5_bundle_def Let_def reads by blast
    then show ?R
      unfolding v5_parts_def v5_bytes_def
      by (intro exI [of _ sds] exI [of _ ods] exI [of _ vb] exI [of _ anchor] exI [of _ ps]
          exI [of _ sigs] exI [of _ ops] exI [of _ bsig]) (simp add: unat_small)
  next
    assume ?R
    then obtain sds ods vb anchor ps sigs ops bsig where
      p: "v5_parts sx sds ods vb anchor ps sigs ops bsig" and
      b: "bs = v5_bytes sx sds ods vb anchor ps sigs ops bsig @ rest" and
      o: "ob = Option.bind bsig (\<lambda>sig. sx_from_parts sx (assemble_spends sds anchor ps sigs)
                (map (\<lambda>(od, zkproof). output_from_v5 od zkproof) (zip ods ops)) vb sig)"
      by blast
    have c: "length xs > 0 \<longleftrightarrow> xs \<noteq> []" for xs :: "'z list" by simp
    note parts = p [unfolded v5_parts_def]
    have steps:
      "vec_read (sx_spends_v5 sx) (read_spend_v5 sx) (vec_write (sx_spends_v5 sx) (spend_part_bytes sx) sds @ r)
         = Inr (sds, r)"
      "vec_read (sx_outputs_v5 sx) (read_output_v5 sx) (vec_write (sx_outputs_v5 sx) (output_part_bytes sx) ods @ r)
         = Inr (ods, r)"
      "(if length sds > 0 \<or> length ods > 0 then read_amount else rret ZatBalance_zero)
         ((if sds \<noteq> [] \<or> ods \<noteq> [] then ZatBalance_to_i64_le_bytes vb else []) @ r) = Inr (vb, r)"
      "(if length sds > 0 then rbind (read_base sx) (\<lambda>a. rret (Some a)) else rret None)
         ((case anchor of None \<Rightarrow> [] | Some a \<Rightarrow> el_bytes (sx_base sx) a) @ r) = Inr (anchor, r)"
      "arr_read (sx_array sx) (of_nat (length sds)) read_zkproof (concat ps @ r) = Inr (ps, r)"
      "arr_read (sx_array sx) (of_nat (length sds)) read_spend_auth_sig (concat sigs @ r) = Inr (sigs, r)"
      "arr_read (sx_array sx) (of_nat (length ods)) read_zkproof (concat ops @ r) = Inr (ops, r)"
      "(if length sds > 0 \<or> length ods > 0 then rbind (read_exact 64) (\<lambda>sig. rret (Some sig)) else rret None)
         ((case bsig of None \<Rightarrow> [] | Some s \<Rightarrow> s) @ r) = Inr (bsig, r)" for r
      unfolding reads c using parts by (auto simp: unat_small)
    show ?L
      unfolding read_v5_bundle_def Let_def b v5_bytes_def append_assoc
      by (simp only: rbind_at [OF steps(1)] rbind_at [OF steps(2)] rbind_at [OF steps(3)]
          rbind_at [OF steps(4)] rbind_at [OF steps(5)] rbind_at [OF steps(6)]
          rbind_at [OF steps(7)] rbind_at [OF steps(8)] rret_iff o simp_thms)
  qed
qed

text \<open>Version 5 stores one anchor for all the spends.\<close>

definition same_anchor :: "('cv, 'fe, 'rk) spend_description list \<Rightarrow> bool" where
  "same_anchor ss \<longleftrightarrow> (\<forall>s \<in> set ss. sd_anchor s = sd_anchor (hd ss))"

definition wf_v5_bundle ::
  "('cv, 'fe, 'cmu, 'rk) sapling_ext \<Rightarrow> ('cv, 'fe, 'cmu, 'rk) sapling_bundle \<Rightarrow> bool" where
  "wf_v5_bundle sx b \<longleftrightarrow> \<not> (sap_spends b = [] \<and> sap_outputs b = [])
     \<and> list_all (wf_spend sx) (sap_spends b) \<and> length (sap_spends b) \<le> 33554432
     \<and> list_all (wf_output sx) (sap_outputs b) \<and> length (sap_outputs b) \<le> 33554432
     \<and> same_anchor (sap_spends b)
     \<and> wf_balance (sap_value_balance b) \<and> length (sap_binding_sig b) = 64"

lemma vector_write_eq:
  assumes "vector_ok cs v"
  shows "vec_write v wr xs = cs_write cs (of_nat (length xs)) @ concat (map wr xs)"
  using assms by (simp add: vector_ok_def)

lemma v5_bytes_write:
  assumes "sapling_ext_ok sx" "wf_v5_bundle sx b"
  shows "v5_bytes sx (map spend_part (sap_spends b)) (map output_part (sap_outputs b)) (sap_value_balance b)
      (case sap_spends b of [] \<Rightarrow> None | s # _ \<Rightarrow> Some (sd_anchor s)) (map sd_zkproof (sap_spends b))
      (map sd_spend_auth_sig (sap_spends b)) (map od_zkproof (sap_outputs b)) (Some (sap_binding_sig b))
    = write_v5_bundle sx (Some b)"
proof -
  have v: "vector_ok (sx_cs sx) (sx_spends sx)" "vector_ok (sx_cs sx) (sx_spends_v5 sx)"
    "vector_ok (sx_cs sx) (sx_outputs sx)" "vector_ok (sx_cs sx) (sx_outputs_v5 sx)"
    "arr_write (sx_array sx) (\<lambda>e. e) xs = concat xs" for xs
    using assms(1) by (simp_all add: sapling_ext_ok_def array_ok_def)
  have ne: "\<not> (sap_spends b = [] \<and> sap_outputs b = [])" using assms(2) by (simp add: wf_v5_bundle_def)
  have w: "vec_write (sx_spends_v5 sx) (spend_part_bytes sx) (map spend_part ss)
        = vec_write (sx_spends sx) (write_spend_v5_without_witness_data sx) ss"
    "vec_write (sx_outputs_v5 sx) (output_part_bytes sx) (map output_part ds)
        = vec_write (sx_outputs sx) (write_output_v5_without_proof sx) ds" for ss ds
    using v(1-4) by (simp_all add: vector_ok_def comp_def spend_part_bytes_eq output_part_bytes_eq)
  show ?thesis
  proof (cases "sap_spends b")
    case Nil
    then show ?thesis
      using ne by (simp add: v5_bytes_def write_v5_bundle_def w v(5) w(1) [of "[]", simplified])
  next
    case (Cons x xs)
    then show ?thesis
      using w(1) [of "x # xs"] by (simp add: v5_bytes_def write_v5_bundle_def w(2) v(5))
  qed
qed

lemma v5_parts_wf:
  assumes "wf_v5_bundle sx b"
  shows "v5_parts sx (map spend_part (sap_spends b)) (map output_part (sap_outputs b)) (sap_value_balance b)
      (case sap_spends b of [] \<Rightarrow> None | s # _ \<Rightarrow> Some (sd_anchor s)) (map sd_zkproof (sap_spends b))
      (map sd_spend_auth_sig (sap_spends b)) (map od_zkproof (sap_outputs b)) (Some (sap_binding_sig b))"
proof -
  have s: "list_all (wf_spend sx) (sap_spends b)" "list_all (wf_output sx) (sap_outputs b)"
    "length (sap_spends b) \<le> 33554432" "length (sap_outputs b) \<le> 33554432"
    "wf_balance (sap_value_balance b)" "length (sap_binding_sig b) = 64"
    "sap_spends b \<noteq> [] \<or> sap_outputs b \<noteq> []"
    using assms by (auto simp: wf_v5_bundle_def)
  have parts: "wf_spend sx x \<Longrightarrow> wf_spend_part sx (spend_part x) \<and> length (sd_zkproof x) = GROTH_PROOF_SIZE
      \<and> length (sd_spend_auth_sig x) = 64 \<and> wf_element 32 (sx_base sx) (sd_anchor x)"
    "wf_output sx d \<Longrightarrow> wf_output_part sx (output_part d) \<and> length (od_zkproof d) = GROTH_PROOF_SIZE" for x d
    by (simp_all add: wf_spend_def wf_spend_part_def spend_part_def wf_output_def wf_output_part_def
        output_part_def)
  have "list_all (wf_spend_part sx) (map spend_part (sap_spends b))"
    "list_all (\<lambda>p. length p = GROTH_PROOF_SIZE) (map sd_zkproof (sap_spends b))"
    "list_all (\<lambda>p. length p = 64) (map sd_spend_auth_sig (sap_spends b))"
    "list_all (wf_output_part sx) (map output_part (sap_outputs b))"
    "list_all (\<lambda>p. length p = GROTH_PROOF_SIZE) (map od_zkproof (sap_outputs b))"
    using s(1,2) parts by (simp_all add: list_all_iff)
  moreover have "if sap_spends b \<noteq> [] then \<exists>a. (case sap_spends b of [] \<Rightarrow> None | s # _ \<Rightarrow> Some (sd_anchor s))
        = Some a \<and> wf_element 32 (sx_base sx) a
      else (case sap_spends b of [] \<Rightarrow> None | s # _ \<Rightarrow> Some (sd_anchor s)) = None"
    using s(1) parts(1) by (cases "sap_spends b") simp_all
  ultimately show ?thesis
    using s(3-) by (simp add: v5_parts_def)
qed

lemma v5_parts_bundle:
  assumes "v5_parts sx sds ods vb anchor ps sigs ops (Some sig)"
    "ss = assemble_spends sds anchor ps sigs"
    "ds = map (\<lambda>(od, zkproof). output_from_v5 od zkproof) (zip ods ops)"
  shows "sds = map spend_part ss \<and> ods = map output_part ds \<and> ps = map sd_zkproof ss
    \<and> sigs = map sd_spend_auth_sig ss \<and> ops = map od_zkproof ds
    \<and> anchor = (case ss of [] \<Rightarrow> None | s # _ \<Rightarrow> Some (sd_anchor s))
    \<and> wf_v5_bundle sx \<lparr>sap_spends = ss, sap_outputs = ds, sap_value_balance = vb, sap_binding_sig = sig\<rparr>"
proof -
  note p = assms(1) [unfolded v5_parts_def]
  have d: "ods = map output_part ds \<and> ops = map od_zkproof ds"
    using p assms(3) by (intro assemble_outputs_iff [THEN iffD1]) auto
  have s: "sds = map spend_part ss \<and> ps = map sd_zkproof ss \<and> sigs = map sd_spend_auth_sig ss
      \<and> (\<forall>s \<in> set ss. anchor = Some (sd_anchor s))"
  proof (cases anchor)
    case None
    then have "sds = []" using p by (auto split: if_splits)
    then show ?thesis using p assms(2) None by (simp add: assemble_spends_def)
  next
    case (Some a)
    then show ?thesis
      using p assms(2) assemble_spends_iff [of sds ps sigs a ss] by (auto simp: list_all_iff)
  qed
  have a: "anchor = (case ss of [] \<Rightarrow> None | s # _ \<Rightarrow> Some (sd_anchor s))"
    using p s by (auto split: list.split)
  have "list_all (wf_spend sx) ss"
  proof -
    have "wf_spend sx x" if "x \<in> set ss" for x
    proof -
      have "ss \<noteq> []" "anchor = Some (sd_anchor x)" using that s by auto
      then have "wf_element 32 (sx_base sx) (sd_anchor x)" using p s by auto
      then show ?thesis
        using p s that by (auto simp: list_all_iff wf_spend_def wf_spend_part_def spend_part_def)
    qed
    then show ?thesis by (simp add: list_all_iff)
  qed
  moreover have "list_all (wf_output sx) ds"
    using p d by (auto simp: list_all_iff wf_output_def wf_output_part_def output_part_def)
  moreover have "same_anchor ss"
    unfolding same_anchor_def using s by (metis hd_in_set list.set_cases list.distinct(1) option.inject)
  ultimately show ?thesis
    using p s d a by (auto simp: wf_v5_bundle_def split: if_splits)
qed

lemma sapling_v5_iff:
  assumes "sapling_ext_ok sx"
  shows "read_v5_bundle sx bs = Inr (ob, rest) \<longleftrightarrow>
    pred_option (wf_v5_bundle sx) ob \<and> bs = write_v5_bundle sx ob @ rest"
proof -
  have fp: "sx_from_parts sx ss so vb sig = (if ss = [] \<and> so = [] then None
      else Some \<lparr>sap_spends = ss, sap_outputs = so, sap_value_balance = vb, sap_binding_sig = sig\<rparr>)"
    for ss so vb sig
    using assms by (simp add: sapling_ext_ok_def)
  show ?thesis
  proof
    assume "read_v5_bundle sx bs = Inr (ob, rest)"
    then obtain sds ods vb anchor ps sigs ops bsig where
      p: "v5_parts sx sds ods vb anchor ps sigs ops bsig" and
      b: "bs = v5_bytes sx sds ods vb anchor ps sigs ops bsig @ rest" and
      o: "ob = Option.bind bsig (\<lambda>sig. sx_from_parts sx (assemble_spends sds anchor ps sigs)
                (map (\<lambda>(od, zkproof). output_from_v5 od zkproof) (zip ods ops)) vb sig)"
      unfolding read_v5_bundle_raw [OF assms] by blast
    show "pred_option (wf_v5_bundle sx) ob \<and> bs = write_v5_bundle sx ob @ rest"
    proof (cases bsig)
      case None
      then have "sds = [] \<and> ods = []" using p by (auto simp: v5_parts_def split: if_splits)
      then show ?thesis
        using p o b None assms
        by (auto simp: v5_parts_def v5_bytes_def write_v5_bundle_def sapling_ext_ok_def vector_ok_def)
    next
      case (Some sig)
      let ?ss = "assemble_spends sds anchor ps sigs"
      let ?ds = "map (\<lambda>(od, zkproof). output_from_v5 od zkproof) (zip ods ops)"
      let ?b = "\<lparr>sap_spends = ?ss, sap_outputs = ?ds, sap_value_balance = vb, sap_binding_sig = sig\<rparr>"
      note parts = v5_parts_bundle [OF p [unfolded Some] refl refl]
      then have wf: "wf_v5_bundle sx ?b" by blast
      then have ob: "ob = Some ?b" using o Some by (simp add: fp wf_v5_bundle_def)
      have eqs: "map spend_part ?ss = sds" "map output_part ?ds = ods" "map sd_zkproof ?ss = ps"
          "map sd_spend_auth_sig ?ss = sigs" "map od_zkproof ?ds = ops"
          "(case ?ss of [] \<Rightarrow> None | s # _ \<Rightarrow> Some (sd_anchor s)) = anchor"
        using parts by metis+
      have "write_v5_bundle sx ob = v5_bytes sx sds ods vb anchor ps sigs ops (Some sig)"
        unfolding ob v5_bytes_write [OF assms wf, symmetric] by (simp only: sapling_bundle.simps eqs)
      then show ?thesis using b wf ob Some by simp
    qed
  next
    assume r: "pred_option (wf_v5_bundle sx) ob \<and> bs = write_v5_bundle sx ob @ rest"
    show "read_v5_bundle sx bs = Inr (ob, rest)"
    proof (cases ob)
      case None
      then show ?thesis
        unfolding read_v5_bundle_raw [OF assms]
        using r assms
        by (intro exI [of _ "[]"] exI [of _ ZatBalance_zero] exI [of _ None])
          (auto simp: v5_parts_def v5_bytes_def write_v5_bundle_def sapling_ext_ok_def vector_ok_def)
    next
      case (Some b)
      then have wf: "wf_v5_bundle sx b" using r by simp
      let ?a = "case sap_spends b of [] \<Rightarrow> None | s # _ \<Rightarrow> Some (sd_anchor s)"
      have s: "assemble_spends (map spend_part (sap_spends b)) ?a (map sd_zkproof (sap_spends b))
          (map sd_spend_auth_sig (sap_spends b)) = sap_spends b"
      proof (cases "sap_spends b")
        case (Cons x xs)
        then have "\<forall>s \<in> set (sap_spends b). sd_anchor s = sd_anchor x"
          using wf Cons by (simp add: wf_v5_bundle_def same_anchor_def)
        then show ?thesis
          using assemble_spends_iff [of "map spend_part (sap_spends b)" "map sd_zkproof (sap_spends b)"
              "map sd_spend_auth_sig (sap_spends b)" "sd_anchor x" "sap_spends b"] Cons
          by (simp add: list_all_iff)
      qed (simp add: assemble_spends_def)
      have d: "map (\<lambda>(od, zkproof). output_from_v5 od zkproof)
          (zip (map output_part (sap_outputs b)) (map od_zkproof (sap_outputs b))) = sap_outputs b"
        by (rule assemble_outputs_iff [THEN iffD2]) simp_all
      have "ob = Option.bind (Some (sap_binding_sig b)) (\<lambda>sig. sx_from_parts sx
          (assemble_spends (map spend_part (sap_spends b)) ?a (map sd_zkproof (sap_spends b))
             (map sd_spend_auth_sig (sap_spends b)))
          (map (\<lambda>(od, zkproof). output_from_v5 od zkproof)
             (zip (map output_part (sap_outputs b)) (map od_zkproof (sap_outputs b)))) (sap_value_balance b) sig)"
        unfolding s d using wf Some by (simp add: fp wf_v5_bundle_def)
      then show ?thesis
        unfolding read_v5_bundle_raw [OF assms]
        using v5_parts_wf [OF wf] v5_bytes_write [OF assms wf] r Some by metis
    qed
  qed
qed

lemma sapling_v5_codec:
  assumes "sapling_ext_ok sx"
  shows "exact_codec (read_v5_bundle sx) (write_v5_bundle sx) (pred_option (wf_v5_bundle sx))"
  by (rule exact_codecI) (rule sapling_v5_iff [OF assms])

end
