(* ===== verification/SaplingSpec.thy ===== *)
theory SaplingSpec
  imports Sapling
begin

text \<open>
  What the Sapling byte formats guarantee: the version 5 bundle format as an exact codec, the
  version 4 components with what they lose, and the ZIP 212 schedule. The witnesses instantiate the
  external code with byte-array elements and the standard vector encoding.
\<close>

definition byte_sapling :: "(bytes, bytes, bytes, bytes) sapling_ext" where
  "byte_sapling =
     \<lparr>sx_cv = byte_element, sx_base = byte_element, sx_cmu = byte_element, sx_rk = byte_element,
      sx_spends = std_vector bitcoin_compact_size, sx_outputs = std_vector bitcoin_compact_size,
      sx_spends_v5 = std_vector bitcoin_compact_size, sx_outputs_v5 = std_vector bitcoin_compact_size,
      sx_array = std_array, sx_cs = bitcoin_compact_size,
      sx_from_parts = (\<lambda>ss so vb sig. if ss = [] \<and> so = [] then None
        else Some \<lparr>sap_spends = ss, sap_outputs = so, sap_value_balance = vb, sap_binding_sig = sig\<rparr>)\<rparr>"

lemma byte_sapling_ok: "sapling_ext_ok byte_sapling"
  by (simp add: sapling_ext_ok_def byte_sapling_def bitcoin_compact_size_ok byte_element_ok
      std_vector_ok std_array_ok)

definition example_spend :: "bytes \<Rightarrow> (bytes, bytes, bytes) spend_description" where
  "example_spend anchor = \<lparr>sd_cv = replicate 32 1, sd_anchor = anchor, sd_nullifier = replicate 32 2,
     sd_rk = replicate 32 3, sd_zkproof = replicate 192 4, sd_spend_auth_sig = replicate 64 5\<rparr>"

definition example_sapling :: "(bytes, bytes, bytes, bytes) sapling_bundle" where
  "example_sapling = \<lparr>sap_spends = [example_spend (replicate 32 7), example_spend (replicate 32 7)],
     sap_outputs = [], sap_value_balance = ZatBalance 10, sap_binding_sig = replicate 64 6\<rparr>"

lemma wf_byte_element: "wf_element n byte_element b \<longleftrightarrow> length b = n"
  by (simp add: wf_element_def byte_element_def)

lemma wf_example_spend: "length a = 32 \<Longrightarrow> wf_spend byte_sapling (example_spend a)"
  by (simp add: wf_spend_def example_spend_def byte_sapling_def wf_byte_element GROTH_PROOF_SIZE_def)

lemma wf_example_sapling: "wf_v5_bundle byte_sapling example_sapling"
  by (simp add: wf_v5_bundle_def example_sapling_def wf_example_spend same_anchor_def wf_balance_iff)

text \<open>The version 5 Sapling bundle format is exact: a successful read returns no bundle or a
  well-formed one and consumed exactly its written form, and every well-formed bundle is read back.
  The format stores a single anchor: a bundle whose spends have different anchors is the result of
  no read, although it can be written.\<close>

theorem sapling_v5_bundle_codec:
  assumes "sapling_ext_ok sx"
  shows "(read_v5_bundle sx bs = Inr (ob, rest) \<longleftrightarrow>
      pred_option (wf_v5_bundle sx) ob \<and> bs = write_v5_bundle sx ob @ rest)
    \<and> (wf_v5_bundle sx b \<longrightarrow> read_v5_bundle sx (write_v5_bundle sx (Some b) @ rest) = Inr (Some b, rest))
    \<and> (s \<in> set (sap_spends b) \<and> s' \<in> set (sap_spends b) \<and> sd_anchor s \<noteq> sd_anchor s' \<longrightarrow>
        read_v5_bundle sx bs \<noteq> Inr (Some b, rest))"
proof (intro conjI impI)
  show iff: "read_v5_bundle sx bs = Inr (ob, rest) \<longleftrightarrow>
      pred_option (wf_v5_bundle sx) ob \<and> bs = write_v5_bundle sx ob @ rest"
    by (rule sapling_v5_iff [OF assms])
  show "read_v5_bundle sx (write_v5_bundle sx (Some b) @ rest) = Inr (Some b, rest)"
    if "wf_v5_bundle sx b"
    unfolding sapling_v5_iff [OF assms] using that by simp
  show "read_v5_bundle sx bs \<noteq> Inr (Some b, rest)"
    if "s \<in> set (sap_spends b) \<and> s' \<in> set (sap_spends b) \<and> sd_anchor s \<noteq> sd_anchor s'"
  proof
    assume "read_v5_bundle sx bs = Inr (Some b, rest)"
    then have "same_anchor (sap_spends b)"
      unfolding sapling_v5_iff [OF assms] by (simp add: wf_v5_bundle_def)
    with that show False unfolding same_anchor_def by metis
  qed
qed

lemma sapling_v5_bundle_codec_witness:
  "read_v5_bundle byte_sapling (write_v5_bundle byte_sapling (Some example_sapling) @ [1])
     = Inr (Some example_sapling, [1])"
  using sapling_v5_bundle_codec [OF byte_sapling_ok, of "[]" None "[1]" example_sapling]
    wf_example_sapling by blast

subsection \<open>Version 4\<close>

definition wf_v4_components ::
  "('cv, 'fe, 'cmu, 'rk) sapling_ext \<Rightarrow> ('cv, 'fe, 'cmu, 'rk) v4_components \<Rightarrow> bool" where
  "wf_v4_components sx c \<longleftrightarrow> (case c of (vb, ss, so) \<Rightarrow>
     wf_balance vb \<and> list_all (wf_spend sx) ss \<and> length ss \<le> 33554432
     \<and> list_all (wf_output sx) so \<and> length so \<le> 33554432)"

definition v4_component_bytes ::
  "('cv, 'fe, 'cmu, 'rk) sapling_ext \<Rightarrow> ('cv, 'fe, 'cmu, 'rk) v4_components \<Rightarrow> bytes" where
  "v4_component_bytes sx c = (case c of (vb, ss, so) \<Rightarrow>
     ZatBalance_to_i64_le_bytes vb @ vec_write (sx_spends sx) (write_spend_v4 sx) ss
     @ vec_write (sx_outputs sx) (write_output_v4 sx) so)"

lemma v4_components_iff:
  assumes "sapling_ext_ok sx"
  shows "read_v4_components sx True bs = Inr (c, rest) \<longleftrightarrow>
    wf_v4_components sx c \<and> bs = v4_component_bytes sx c @ rest"
proof -
  have cs: "compact_size_ok (sx_cs sx)" "vector_ok (sx_cs sx) (sx_spends sx)"
      "vector_ok (sx_cs sx) (sx_outputs sx)"
    using assms by (simp_all add: sapling_ext_ok_def)
  show ?thesis
    by (cases c) (auto simp: read_v4_components_def wf_v4_components_def v4_component_bytes_def amount_iff
        vector_read_iff [OF cs(1,2) spend_v4_codec [OF assms]]
        vector_read_iff [OF cs(1,3) output_v4_codec [OF assms]])
qed

lemma write_v4_bundle:
  "write_v4_components sx (Some b) True =
     Inr (v4_component_bytes sx (sap_value_balance b, sap_spends b, sap_outputs b))"
  "write_v4_components sx None True = Inr (v4_component_bytes sx (ZatBalance_zero, [], []))"
  by (simp_all add: write_v4_components_def v4_component_bytes_def)

subsection \<open>ZIP 212\<close>

text \<open>ZIP 212 is off before Canopy, in its grace period for the next 32256 blocks and on from then,
  on every network; a network without a Canopy height never leaves the first state, and reading the
  activation height never panics.\<close>

theorem zip212_schedule:
  "zip212_enforcement_at params height = Some
     (case activation_height params NuCanopy of
        None \<Rightarrow> Zip212Off
      | Some canopy \<Rightarrow>
          if uint (bh_raw height) < uint (bh_raw canopy) then Zip212Off
          else if uint (bh_raw height) < min (uint (bh_raw canopy) + 32256) 4294967295
          then Zip212GracePeriod else Zip212On)"
proof (cases "activation_height params NuCanopy")
  case (Some canopy)
  have "canopy \<le> height \<longleftrightarrow> \<not> uint (bh_raw height) < uint (bh_raw canopy)"
    by (simp add: less_eq_block_height_def word_le_def not_less)
  moreover have "height < bh_add canopy ZIP212_GRACE_PERIOD \<longleftrightarrow>
      uint (bh_raw height) < min (uint (bh_raw canopy) + 32256) 4294967295"
    by (simp add: less_block_height_def word_less_def bh_add_def uint_saturating_add_u32
        ZIP212_GRACE_PERIOD_def)
  ultimately show ?thesis
    by (simp add: zip212_enforcement_at_def is_nu_active_def Some Let_def)
qed (simp add: zip212_enforcement_at_def is_nu_active_def)

end
