(* ===== verification/Orchard.thy ===== *)
theory Orchard
  imports Sapling
begin

text \<open>
  \<open>zcash_primitives/src/transaction/components/orchard.rs\<close>: which bundle version each value pool has
  in each consensus branch, and the byte format of Orchard and Ironwood bundles. The crate \<open>orchard\<close>
  is external: its elements, flags, and the fallible constructors of actions and bundles come in a
  record; \<open>BundleVersion\<close> has the four values the code names.
\<close>

subsection \<open>Bundle versions\<close>

datatype bundle_version = OrchardInsecureV1 | OrchardBundleV2 | OrchardBundleV3 | IronwoodBundleV3
datatype value_pool = PoolOrchard | PoolIronwood

definition bundle_version_for_branch :: "branch_id \<Rightarrow> value_pool \<Rightarrow> bundle_version option" where
  "bundle_version_for_branch consensus_branch_id pool =
     Option.bind (branch_orchard_revision consensus_branch_id) (\<lambda>revision.
       case pool of
         PoolOrchard \<Rightarrow> Some (case revision of
             InsecureV1 \<Rightarrow> OrchardInsecureV1 | OrchardV2 \<Rightarrow> OrchardBundleV2 | OrchardV3 \<Rightarrow> OrchardBundleV3)
       | PoolIronwood \<Rightarrow> (case revision of
             InsecureV1 \<Rightarrow> None | OrchardV2 \<Rightarrow> None | OrchardV3 \<Rightarrow> Some IronwoodBundleV3))"

definition check_v6_bundle_version :: "bundle_version \<Rightarrow> io_error + unit" where
  "check_v6_bundle_version v =
     (if v = OrchardBundleV3 \<or> v = IronwoodBundleV3 then Inr ()
      else Inl (InvalidInput ''v6 Orchard bundles require orchard_v3 or ironwood_v3''))"

subsection \<open>Actions and bundles\<close>

definition ACTION_SIZE :: nat where
  "ACTION_SIZE = 32 + 32 + 32 + 32 + 32 + ENC_CIPHERTEXT_SIZE + OUT_CIPHERTEXT_SIZE"
definition SPEND_AUTH_SIG_SIZE :: nat where "SPEND_AUTH_SIG_SIZE = 64"
definition ORCHARD_BUNDLE_OVERHEAD :: nat where "ORCHARD_BUNDLE_OVERHEAD = 1 + 8 + 32 + 64 + 10"

record note_ciphertext =
  nc_epk_bytes :: bytes
  nc_enc_ciphertext :: bytes
  nc_out_ciphertext :: bytes

record ('cv, 'nf, 'rk, 'cmx, 'au) orchard_action =
  oa_nullifier :: 'nf
  oa_rk :: 'rk
  oa_cmx :: 'cmx
  oa_encrypted_note :: note_ciphertext
  oa_cv_net :: 'cv
  oa_authorization :: 'au

record ('cv, 'nf, 'rk, 'cmx, 'an, 'fl) orchard_bundle =
  ob_actions :: "('cv, 'nf, 'rk, 'cmx, bytes) orchard_action list"
  ob_flags :: 'fl
  ob_value_balance :: zat_balance
  ob_anchor :: 'an
  ob_proof :: bytes
  ob_binding_sig :: bytes
  ob_version :: bundle_version

record ('cv, 'nf, 'rk, 'cmx, 'an, 'fl) orchard_ext =
  ox_cv :: "'cv element"
  ox_nf :: "'nf element"
  ox_rk :: "'rk element"
  ox_cmx :: "'cmx element"
  ox_anchor :: "'an element"
  ox_flags_from_byte :: "u8 \<Rightarrow> bundle_version \<Rightarrow> 'fl option"
  ox_flag_byte :: "'fl \<Rightarrow> bundle_version \<Rightarrow> u8"
  ox_action :: "'nf \<Rightarrow> 'rk \<Rightarrow> 'cmx \<Rightarrow> note_ciphertext \<Rightarrow> 'cv
    \<Rightarrow> string + ('cv, 'nf, 'rk, 'cmx, unit) orchard_action"
  ox_bundle :: "('cv, 'nf, 'rk, 'cmx, bytes) orchard_action list \<Rightarrow> 'fl \<Rightarrow> zat_balance \<Rightarrow> 'an
    \<Rightarrow> bytes \<Rightarrow> bytes \<Rightarrow> bundle_version \<Rightarrow> string + ('cv, 'nf, 'rk, 'cmx, 'an, 'fl) orchard_bundle"
  ox_actions :: "('cv, 'nf, 'rk, 'cmx, unit) orchard_action vector_io"
  ox_write_nonempty :: "(('cv, 'nf, 'rk, 'cmx, bytes) orchard_action \<Rightarrow> bytes)
    \<Rightarrow> ('cv, 'nf, 'rk, 'cmx, bytes) orchard_action list \<Rightarrow> bytes"
  ox_bytes :: "u8 vector_io"
  ox_sigs :: "bytes array_io"
  ox_cs :: compact_size

definition read_orchard_cv :: "('cv, 'nf, 'rk, 'cmx, 'an, 'fl) orchard_ext \<Rightarrow> 'cv reader" where
  "read_orchard_cv ox = rbind (read_exact 32) (\<lambda>bytes.
     rlift (ok_or (el_parse (ox_cv ox) bytes)
       (InvalidInput ''invalid Pallas point for value commitment'')))"

definition read_orchard_nullifier :: "('cv, 'nf, 'rk, 'cmx, 'an, 'fl) orchard_ext \<Rightarrow> 'nf reader" where
  "read_orchard_nullifier ox = rbind (read_exact 32) (\<lambda>bytes.
     rlift (ok_or (el_parse (ox_nf ox) bytes) (InvalidInput ''invalid Pallas point for nullifier'')))"

definition read_verification_key :: "('cv, 'nf, 'rk, 'cmx, 'an, 'fl) orchard_ext \<Rightarrow> 'rk reader" where
  "read_verification_key ox = rbind (read_exact 32) (\<lambda>bytes.
     rlift (ok_or (el_parse (ox_rk ox) bytes) (InvalidInput ''invalid verification key'')))"

definition read_cmx :: "('cv, 'nf, 'rk, 'cmx, 'an, 'fl) orchard_ext \<Rightarrow> 'cmx reader" where
  "read_cmx ox = rbind (read_exact 32) (\<lambda>bytes.
     rlift (ok_or (el_parse (ox_cmx ox) bytes) (InvalidInput ''invalid Pallas base for field cmx'')))"

definition read_note_ciphertext :: "note_ciphertext reader" where
  "read_note_ciphertext =
     rbind (read_exact 32) (\<lambda>epk_bytes.
     rbind (read_exact 580) (\<lambda>enc_ciphertext.
     rbind (read_exact 80) (\<lambda>out_ciphertext.
     rret \<lparr>nc_epk_bytes = epk_bytes, nc_enc_ciphertext = enc_ciphertext,
           nc_out_ciphertext = out_ciphertext\<rparr>)))"

definition read_action_without_auth ::
  "('cv, 'nf, 'rk, 'cmx, 'an, 'fl) orchard_ext \<Rightarrow> ('cv, 'nf, 'rk, 'cmx, unit) orchard_action reader" where
  "read_action_without_auth ox =
     rbind (read_orchard_cv ox) (\<lambda>cv_net.
     rbind (read_orchard_nullifier ox) (\<lambda>nf_old.
     rbind (read_verification_key ox) (\<lambda>rk.
     rbind (read_cmx ox) (\<lambda>cmx.
     rbind read_note_ciphertext (\<lambda>encrypted_note.
     rlift (map_err InvalidData (ox_action ox nf_old rk cmx encrypted_note cv_net)))))))"

definition read_flags :: "('cv, 'nf, 'rk, 'cmx, 'an, 'fl) orchard_ext \<Rightarrow> bundle_version \<Rightarrow> 'fl reader" where
  "read_flags ox bundle_version = rbind (read_exact 1) (\<lambda>byte.
     rlift (ok_or (ox_flags_from_byte ox (byte ! 0) bundle_version) (InvalidInput ''invalid Orchard flags'')))"

definition read_anchor :: "('cv, 'nf, 'rk, 'cmx, 'an, 'fl) orchard_ext \<Rightarrow> 'an reader" where
  "read_anchor ox = rbind (read_exact 32) (\<lambda>bytes.
     rlift (ok_or (el_parse (ox_anchor ox) bytes) (InvalidInput ''invalid Orchard anchor'')))"

definition read_signature :: "bytes reader" where
  "read_signature = read_exact 64"

definition with_auth ::
  "('cv, 'nf, 'rk, 'cmx, 'a) orchard_action \<Rightarrow> 'b \<Rightarrow> ('cv, 'nf, 'rk, 'cmx, 'b) orchard_action" where
  "with_auth act auth = \<lparr>oa_nullifier = oa_nullifier act, oa_rk = oa_rk act, oa_cmx = oa_cmx act,
     oa_encrypted_note = oa_encrypted_note act, oa_cv_net = oa_cv_net act, oa_authorization = auth\<rparr>"

text \<open>\<open>try_map\<close> over the actions with a signature read for each.\<close>

primrec read_auths ::
  "('cv, 'nf, 'rk, 'cmx, unit) orchard_action list \<Rightarrow> ('cv, 'nf, 'rk, 'cmx, bytes) orchard_action list reader" where
  "read_auths [] = rret []"
| "read_auths (act # acts) = rbind read_signature (\<lambda>sig. rbind (read_auths acts) (\<lambda>rest.
     rret (with_auth act sig # rest)))"

definition read_bundle ::
  "('cv, 'nf, 'rk, 'cmx, 'an, 'fl) orchard_ext \<Rightarrow> bundle_version option
     \<Rightarrow> ('cv, 'nf, 'rk, 'cmx, 'an, 'fl) orchard_bundle option reader" where
  "read_bundle ox bundle_version =
     rbind (vec_read (ox_actions ox) (read_action_without_auth ox)) (\<lambda>actions_without_auth.
     if actions_without_auth = [] then rret None
     else
       rbind (rlift (ok_or bundle_version (InvalidData
         ''Orchard-protocol bundles may not be present in this transaction version''))) (\<lambda>version.
       rbind (read_flags ox version) (\<lambda>flags.
       rbind read_amount (\<lambda>value_balance.
       rbind (read_anchor ox) (\<lambda>anchor.
       rbind (vec_read (ox_bytes ox) read_u8) (\<lambda>proof_bytes.
       rbind (read_auths actions_without_auth) (\<lambda>actions.
       rbind read_signature (\<lambda>binding_signature.
       rbind (rlift (map_err InvalidData (ox_bundle ox actions flags value_balance anchor proof_bytes
                binding_signature version))) (\<lambda>bundle.
       rret (Some bundle))))))))))"

definition read_orchard_v5_bundle ::
  "('cv, 'nf, 'rk, 'cmx, 'an, 'fl) orchard_ext \<Rightarrow> branch_id
     \<Rightarrow> ('cv, 'nf, 'rk, 'cmx, 'an, 'fl) orchard_bundle option reader" where
  "read_orchard_v5_bundle ox consensus_branch_id =
     read_bundle ox (bundle_version_for_branch consensus_branch_id PoolOrchard)"

definition read_v6_bundle ::
  "('cv, 'nf, 'rk, 'cmx, 'an, 'fl) orchard_ext \<Rightarrow> branch_id \<Rightarrow> value_pool
     \<Rightarrow> ('cv, 'nf, 'rk, 'cmx, 'an, 'fl) orchard_bundle option reader" where
  "read_v6_bundle ox consensus_branch_id pool =
     read_bundle ox (bundle_version_for_branch consensus_branch_id pool)"

definition write_note_ciphertext :: "note_ciphertext \<Rightarrow> bytes" where
  "write_note_ciphertext nc = nc_epk_bytes nc @ nc_enc_ciphertext nc @ nc_out_ciphertext nc"

definition write_action_without_auth ::
  "('cv, 'nf, 'rk, 'cmx, 'an, 'fl) orchard_ext \<Rightarrow> ('cv, 'nf, 'rk, 'cmx, 'au) orchard_action \<Rightarrow> bytes" where
  "write_action_without_auth ox act =
     el_bytes (ox_cv ox) (oa_cv_net act)
     @ el_bytes (ox_nf ox) (oa_nullifier act)
     @ el_bytes (ox_rk ox) (oa_rk act)
     @ el_bytes (ox_cmx ox) (oa_cmx act)
     @ write_note_ciphertext (oa_encrypted_note act)"

definition write_bundle ::
  "('cv, 'nf, 'rk, 'cmx, 'an, 'fl) orchard_ext \<Rightarrow> ('cv, 'nf, 'rk, 'cmx, 'an, 'fl) orchard_bundle option \<Rightarrow> bytes" where
  "write_bundle ox bundle = (case bundle of
     Some b \<Rightarrow>
       ox_write_nonempty ox (write_action_without_auth ox) (ob_actions b)
       @ [ox_flag_byte ox (ob_flags b) (ob_version b)]
       @ ZatBalance_to_i64_le_bytes (ob_value_balance b)
       @ el_bytes (ox_anchor ox) (ob_anchor b)
       @ vec_write (ox_bytes ox) (\<lambda>b. [b]) (ob_proof b)
       @ arr_write (ox_sigs ox) (\<lambda>auth. auth) (map oa_authorization (ob_actions b))
       @ ob_binding_sig b
   | None \<Rightarrow> cs_write (ox_cs ox) 0)"

definition write_orchard_v5_bundle ::
  "('cv, 'nf, 'rk, 'cmx, 'an, 'fl) orchard_ext \<Rightarrow> ('cv, 'nf, 'rk, 'cmx, 'an, 'fl) orchard_bundle option \<Rightarrow> bytes" where
  "write_orchard_v5_bundle ox bundle = write_bundle ox bundle"

definition write_v6_bundle ::
  "('cv, 'nf, 'rk, 'cmx, 'an, 'fl) orchard_ext \<Rightarrow> ('cv, 'nf, 'rk, 'cmx, 'an, 'fl) orchard_bundle option
     \<Rightarrow> io_error + bytes" where
  "write_v6_bundle ox bundle =
     res_bind (case bundle of None \<Rightarrow> Inr () | Some b \<Rightarrow> check_v6_bundle_version (ob_version b)) (\<lambda>_.
       Inr (write_bundle ox bundle))"

subsection \<open>The documented behaviour of the external code\<close>

definition orchard_ext_ok :: "('cv, 'nf, 'rk, 'cmx, 'an, 'fl) orchard_ext \<Rightarrow> bool" where
  "orchard_ext_ok ox \<longleftrightarrow> compact_size_ok (ox_cs ox)
     \<and> element_ok 32 (ox_cv ox) \<and> element_ok 32 (ox_nf ox) \<and> element_ok 32 (ox_rk ox)
     \<and> element_ok 32 (ox_cmx ox) \<and> element_ok 32 (ox_anchor ox)
     \<and> (\<forall>byte v f. ox_flags_from_byte ox byte v = Some f \<longrightarrow> ox_flag_byte ox f v = byte)
     \<and> (\<forall>nf rk cmx nc cv a. ox_action ox nf rk cmx nc cv = Inr a \<longrightarrow>
          a = \<lparr>oa_nullifier = nf, oa_rk = rk, oa_cmx = cmx, oa_encrypted_note = nc, oa_cv_net = cv,
               oa_authorization = ()\<rparr>)
     \<and> (\<forall>acts fl vb an prf sig v b. ox_bundle ox acts fl vb an prf sig v = Inr b \<longrightarrow>
          b = \<lparr>ob_actions = acts, ob_flags = fl, ob_value_balance = vb, ob_anchor = an, ob_proof = prf,
               ob_binding_sig = sig, ob_version = v\<rparr>)
     \<and> vector_ok (ox_cs ox) (ox_actions ox) \<and> vector_ok (ox_cs ox) (ox_bytes ox) \<and> array_ok (ox_sigs ox)
     \<and> (\<forall>wr xs. ox_write_nonempty ox wr xs = cs_write (ox_cs ox) (of_nat (length xs)) @ concat (map wr xs))"

definition wf_ciphertext :: "note_ciphertext \<Rightarrow> bool" where
  "wf_ciphertext nc \<longleftrightarrow> length (nc_epk_bytes nc) = 32 \<and> length (nc_enc_ciphertext nc) = 580
     \<and> length (nc_out_ciphertext nc) = 80"

text \<open>The external constructor accepts the parts of the action.\<close>

definition action_accepted ::
  "('cv, 'nf, 'rk, 'cmx, 'an, 'fl) orchard_ext \<Rightarrow> ('cv, 'nf, 'rk, 'cmx, 'au) orchard_action \<Rightarrow> bool" where
  "action_accepted ox a \<longleftrightarrow>
     ox_action ox (oa_nullifier a) (oa_rk a) (oa_cmx a) (oa_encrypted_note a) (oa_cv_net a)
       = Inr (with_auth a ())"

definition wf_action_parts ::
  "('cv, 'nf, 'rk, 'cmx, 'an, 'fl) orchard_ext \<Rightarrow> ('cv, 'nf, 'rk, 'cmx, 'au) orchard_action \<Rightarrow> bool" where
  "wf_action_parts ox a \<longleftrightarrow> wf_element 32 (ox_cv ox) (oa_cv_net a) \<and> wf_element 32 (ox_nf ox) (oa_nullifier a)
     \<and> wf_element 32 (ox_rk ox) (oa_rk a) \<and> wf_element 32 (ox_cmx ox) (oa_cmx a)
     \<and> wf_ciphertext (oa_encrypted_note a)
     \<and> action_accepted ox a"

text \<open>\<open>try_from_parts\<close> accepts the parts of the bundle.\<close>

definition bundle_accepted ::
  "('cv, 'nf, 'rk, 'cmx, 'an, 'fl) orchard_ext \<Rightarrow> ('cv, 'nf, 'rk, 'cmx, 'an, 'fl) orchard_bundle \<Rightarrow> bool" where
  "bundle_accepted ox b \<longleftrightarrow> ox_bundle ox (ob_actions b) (ob_flags b) (ob_value_balance b) (ob_anchor b)
     (ob_proof b) (ob_binding_sig b) (ob_version b) = Inr b"

definition wf_orchard_bundle ::
  "('cv, 'nf, 'rk, 'cmx, 'an, 'fl) orchard_ext \<Rightarrow> ('cv, 'nf, 'rk, 'cmx, 'an, 'fl) orchard_bundle \<Rightarrow> bool" where
  "wf_orchard_bundle ox b \<longleftrightarrow> ob_actions b \<noteq> [] \<and> length (ob_actions b) \<le> 33554432
     \<and> list_all (\<lambda>a. wf_action_parts ox a \<and> length (oa_authorization a) = 64) (ob_actions b)
     \<and> ox_flags_from_byte ox (ox_flag_byte ox (ob_flags b) (ob_version b)) (ob_version b) = Some (ob_flags b)
     \<and> wf_balance (ob_value_balance b) \<and> wf_element 32 (ox_anchor ox) (ob_anchor b)
     \<and> length (ob_proof b) \<le> 33554432 \<and> length (ob_binding_sig b) = 64
     \<and> bundle_accepted ox b"

subsection \<open>The codec\<close>

lemma orchard_element_codecs:
  assumes "orchard_ext_ok ox"
  shows "fixed_codec (read_orchard_cv ox) (el_bytes (ox_cv ox)) (wf_element 32 (ox_cv ox)) 32"
    "fixed_codec (read_orchard_nullifier ox) (el_bytes (ox_nf ox)) (wf_element 32 (ox_nf ox)) 32"
    "fixed_codec (read_verification_key ox) (el_bytes (ox_rk ox)) (wf_element 32 (ox_rk ox)) 32"
    "fixed_codec (read_cmx ox) (el_bytes (ox_cmx ox)) (wf_element 32 (ox_cmx ox)) 32"
    "fixed_codec (read_anchor ox) (el_bytes (ox_anchor ox)) (wf_element 32 (ox_anchor ox)) 32"
  using assms
  by (simp_all add: orchard_ext_ok_def read_orchard_cv_def read_orchard_nullifier_def
      read_verification_key_def read_cmx_def read_anchor_def element_codec)

lemmas orchard_element_iff =
  exact_codec.rd_iff [OF fixed_codec.axioms(1) [OF orchard_element_codecs(1)]]
  exact_codec.rd_iff [OF fixed_codec.axioms(1) [OF orchard_element_codecs(2)]]
  exact_codec.rd_iff [OF fixed_codec.axioms(1) [OF orchard_element_codecs(3)]]
  exact_codec.rd_iff [OF fixed_codec.axioms(1) [OF orchard_element_codecs(4)]]
  exact_codec.rd_iff [OF fixed_codec.axioms(1) [OF orchard_element_codecs(5)]]

lemma ciphertext_iff:
  "read_note_ciphertext bs = Inr (nc, rest) \<longleftrightarrow> wf_ciphertext nc \<and> bs = write_note_ciphertext nc @ rest"
  by (cases nc) (auto simp: read_note_ciphertext_def wf_ciphertext_def write_note_ciphertext_def read_exact_iff)

lemma orchard_action_codec:
  assumes "orchard_ext_ok ox"
  shows "exact_codec (read_action_without_auth ox) (write_action_without_auth ox) (wf_action_parts ox)"
proof (rule exact_codecI)
  have act: "a = \<lparr>oa_nullifier = nf, oa_rk = rk, oa_cmx = cmx, oa_encrypted_note = nc, oa_cv_net = cv,
      oa_authorization = ()\<rparr>" if "ox_action ox nf rk cmx nc cv = Inr a" for nf rk cmx nc cv a
    using assms that unfolding orchard_ext_ok_def by blast
  have acc: "ox_action ox nf rk cmx nc cv = Inr a \<longleftrightarrow> nf = oa_nullifier a \<and> rk = oa_rk a \<and> cmx = oa_cmx a
      \<and> nc = oa_encrypted_note a \<and> cv = oa_cv_net a \<and> action_accepted ox a" for nf rk cmx nc cv a
  proof
    assume r: "ox_action ox nf rk cmx nc cv = Inr a"
    then show "nf = oa_nullifier a \<and> rk = oa_rk a \<and> cmx = oa_cmx a
      \<and> nc = oa_encrypted_note a \<and> cv = oa_cv_net a \<and> action_accepted ox a"
      using act [OF r] by (simp add: action_accepted_def with_auth_def)
  next
    assume "nf = oa_nullifier a \<and> rk = oa_rk a \<and> cmx = oa_cmx a
      \<and> nc = oa_encrypted_note a \<and> cv = oa_cv_net a \<and> action_accepted ox a"
    then show "ox_action ox nf rk cmx nc cv = Inr a"
      by (simp add: action_accepted_def with_auth_def)
  qed
  show "read_action_without_auth ox bs = Inr (a, rest) \<longleftrightarrow>
      wf_action_parts ox a \<and> bs = write_action_without_auth ox a @ rest" for bs a rest
    by (auto simp: read_action_without_auth_def write_action_without_auth_def wf_action_parts_def
        orchard_element_iff [OF assms] ciphertext_iff acc)
qed

lemma flags_iff:
  assumes "orchard_ext_ok ox"
  shows "read_flags ox v bs = Inr (f, rest) \<longleftrightarrow>
    ox_flags_from_byte ox (ox_flag_byte ox f v) v = Some f \<and> bs = ox_flag_byte ox f v # rest"
proof -
  have canon: "ox_flags_from_byte ox byte v = Some f \<longleftrightarrow>
      byte = ox_flag_byte ox f v \<and> ox_flags_from_byte ox (ox_flag_byte ox f v) v = Some f" for byte
    using assms unfolding orchard_ext_ok_def by metis
  have "read_flags ox v bs = Inr (f, rest) \<longleftrightarrow>
      (\<exists>byte. bs = byte # rest \<and> ox_flags_from_byte ox byte v = Some f)"
    by (auto simp: read_flags_def read_exact_iff length_Suc_conv)
  then show ?thesis using canon by metis
qed

lemma read_auths_iff:
  "read_auths acts bs = Inr (ss, rest) \<longleftrightarrow>
     acts = map (\<lambda>a. with_auth a ()) ss \<and> list_all (\<lambda>a. length (oa_authorization a) = 64) ss
     \<and> bs = concat (map oa_authorization ss) @ rest"
proof (induction acts arbitrary: bs ss)
  case (Cons act acts)
  have split: "s = with_auth act sig \<longleftrightarrow> act = with_auth s () \<and> sig = oa_authorization s" for sig s
    by (cases act; cases s) (auto simp: with_auth_def)
  have "read_auths (act # acts) bs = Inr (ss, rest) \<longleftrightarrow>
      (\<exists>sig r s ss'. ss = s # ss' \<and> s = with_auth act sig \<and> length sig = 64 \<and> bs = sig @ r
         \<and> read_auths acts r = Inr (ss', rest))"
    by (auto simp: read_signature_def read_exact_iff)
  then show ?case
    unfolding split Cons.IH by (cases ss) auto
qed auto

text \<open>What a non-empty bundle has after its actions.\<close>

definition orchard_tail ::
  "('cv, 'nf, 'rk, 'cmx, 'an, 'fl) orchard_ext \<Rightarrow> bundle_version
     \<Rightarrow> ('cv, 'nf, 'rk, 'cmx, unit) orchard_action list
     \<Rightarrow> ('cv, 'nf, 'rk, 'cmx, 'an, 'fl) orchard_bundle option reader" where
  "orchard_tail ox version acts =
     rbind (read_flags ox version) (\<lambda>flags.
     rbind read_amount (\<lambda>value_balance.
     rbind (read_anchor ox) (\<lambda>anchor.
     rbind (vec_read (ox_bytes ox) read_u8) (\<lambda>proof_bytes.
     rbind (read_auths acts) (\<lambda>actions.
     rbind read_signature (\<lambda>binding_signature.
     rbind (rlift (map_err InvalidData (ox_bundle ox actions flags value_balance anchor proof_bytes
              binding_signature version))) (\<lambda>bundle.
     rret (Some bundle))))))))"

definition orchard_tail_bytes ::
  "('cv, 'nf, 'rk, 'cmx, 'an, 'fl) orchard_ext \<Rightarrow> ('cv, 'nf, 'rk, 'cmx, 'an, 'fl) orchard_bundle \<Rightarrow> bytes" where
  "orchard_tail_bytes ox b =
       ox_flag_byte ox (ob_flags b) (ob_version b)
       # ZatBalance_to_i64_le_bytes (ob_value_balance b)
       @ el_bytes (ox_anchor ox) (ob_anchor b)
       @ vec_write (ox_bytes ox) write_u8 (ob_proof b)
       @ concat (map oa_authorization (ob_actions b))
       @ ob_binding_sig b"

definition wf_orchard_tail ::
  "('cv, 'nf, 'rk, 'cmx, 'an, 'fl) orchard_ext \<Rightarrow> ('cv, 'nf, 'rk, 'cmx, 'an, 'fl) orchard_bundle \<Rightarrow> bool" where
  "wf_orchard_tail ox b \<longleftrightarrow> list_all (\<lambda>a. length (oa_authorization a) = 64) (ob_actions b)
     \<and> ox_flags_from_byte ox (ox_flag_byte ox (ob_flags b) (ob_version b)) (ob_version b) = Some (ob_flags b)
     \<and> wf_balance (ob_value_balance b) \<and> wf_element 32 (ox_anchor ox) (ob_anchor b)
     \<and> length (ob_proof b) \<le> 33554432 \<and> length (ob_binding_sig b) = 64 \<and> bundle_accepted ox b"

lemma bundle_constructor_iff:
  assumes "orchard_ext_ok ox"
  shows "ox_bundle ox acts fl vb an prf sig v = Inr b \<longleftrightarrow>
    acts = ob_actions b \<and> fl = ob_flags b \<and> vb = ob_value_balance b \<and> an = ob_anchor b
    \<and> prf = ob_proof b \<and> sig = ob_binding_sig b \<and> v = ob_version b \<and> bundle_accepted ox b"
proof
  assume r: "ox_bundle ox acts fl vb an prf sig v = Inr b"
  with assms have "b = \<lparr>ob_actions = acts, ob_flags = fl, ob_value_balance = vb, ob_anchor = an,
      ob_proof = prf, ob_binding_sig = sig, ob_version = v\<rparr>"
    unfolding orchard_ext_ok_def by blast
  then show "acts = ob_actions b \<and> fl = ob_flags b \<and> vb = ob_value_balance b \<and> an = ob_anchor b
    \<and> prf = ob_proof b \<and> sig = ob_binding_sig b \<and> v = ob_version b \<and> bundle_accepted ox b"
    using r by (simp add: bundle_accepted_def)
qed (simp add: bundle_accepted_def)

lemma proof_bytes_iff:
  assumes "orchard_ext_ok ox"
  shows "vec_read (ox_bytes ox) read_u8 bs = Inr (xs, rest) \<longleftrightarrow>
    length xs \<le> 33554432 \<and> bs = vec_write (ox_bytes ox) write_u8 xs @ rest"
proof -
  have "compact_size_ok (ox_cs ox)" "vector_ok (ox_cs ox) (ox_bytes ox)"
    using assms by (simp_all add: orchard_ext_ok_def)
  from vector_read_iff [OF this u8_codec.exact_codec_axioms] show ?thesis
    by (simp add: list_all_iff)
qed

lemma orchard_tail_iff:
  assumes "orchard_ext_ok ox"
  shows "orchard_tail ox version acts bs = Inr (ob, rest) \<longleftrightarrow>
    (\<exists>b. ob = Some b \<and> version = ob_version b \<and> acts = map (\<lambda>a. with_auth a ()) (ob_actions b)
       \<and> wf_orchard_tail ox b \<and> bs = orchard_tail_bytes ox b @ rest)"
  by (auto simp: orchard_tail_def wf_orchard_tail_def orchard_tail_bytes_def flags_iff [OF assms]
      amount_iff orchard_element_iff [OF assms] proof_bytes_iff [OF assms] read_auths_iff
      read_signature_def read_exact_iff bundle_constructor_iff [OF assms])

lemma parts_with_auth:
  "wf_action_parts ox (with_auth a x) \<longleftrightarrow> wf_action_parts ox a"
  "write_action_without_auth ox (with_auth a x) = write_action_without_auth ox a"
  by (simp_all add: wf_action_parts_def write_action_without_auth_def action_accepted_def with_auth_def)

lemma action_vector_iff:
  assumes "orchard_ext_ok ox"
  shows "vec_read (ox_actions ox) (read_action_without_auth ox) bs = Inr (acts, rest) \<longleftrightarrow>
    list_all (wf_action_parts ox) acts \<and> length acts \<le> 33554432
    \<and> bs = cs_write (ox_cs ox) (of_nat (length acts)) @ concat (map (write_action_without_auth ox) acts) @ rest"
proof -
  have v: "compact_size_ok (ox_cs ox)" "vector_ok (ox_cs ox) (ox_actions ox)"
    using assms by (simp_all add: orchard_ext_ok_def)
  then show ?thesis
    using vector_read_iff [OF v orchard_action_codec [OF assms]] by (auto simp: vector_ok_def)
qed

definition wf_orchard_slot ::
  "('cv, 'nf, 'rk, 'cmx, 'an, 'fl) orchard_ext \<Rightarrow> bundle_version option
     \<Rightarrow> ('cv, 'nf, 'rk, 'cmx, 'an, 'fl) orchard_bundle option \<Rightarrow> bool" where
  "wf_orchard_slot ox version ob \<longleftrightarrow>
     (case ob of None \<Rightarrow> True | Some b \<Rightarrow> version = Some (ob_version b) \<and> wf_orchard_bundle ox b)"

lemma write_bundle_parts:
  assumes "orchard_ext_ok ox"
  shows "write_bundle ox (Some b) = cs_write (ox_cs ox) (of_nat (length (ob_actions b)))
    @ concat (map (write_action_without_auth ox) (ob_actions b)) @ orchard_tail_bytes ox b"
proof -
  have "(\<lambda>b. [b]) = write_u8" by (simp add: fun_eq_iff write_u8_def)
  then show ?thesis
    using assms by (simp add: write_bundle_def orchard_tail_bytes_def orchard_ext_ok_def array_ok_def)
qed

lemma wf_orchard_bundle_parts:
  "wf_orchard_bundle ox b \<longleftrightarrow> ob_actions b \<noteq> [] \<and> length (ob_actions b) \<le> 33554432
     \<and> list_all (wf_action_parts ox) (ob_actions b) \<and> wf_orchard_tail ox b"
  unfolding wf_orchard_bundle_def wf_orchard_tail_def list_all_iff by blast

lemma orchard_bundle_iff:
  assumes "orchard_ext_ok ox"
  shows "read_bundle ox version bs = Inr (ob, rest) \<longleftrightarrow>
    wf_orchard_slot ox version ob \<and> bs = write_bundle ox ob @ rest"
proof -
  have start: "read_bundle ox version bs = Inr (ob, rest) \<longleftrightarrow>
      (\<exists>acts r. vec_read (ox_actions ox) (read_action_without_auth ox) bs = Inr (acts, r) \<and>
         (if acts = [] then ob = None \<and> r = rest
          else \<exists>v. version = Some v \<and> orchard_tail ox v acts r = Inr (ob, rest)))"
    unfolding read_bundle_def orchard_tail_def [symmetric]
    by (subst rbind_iff, intro iff_exI) auto
  show ?thesis
  proof (cases ob)
    case None
    have "read_bundle ox version bs = Inr (ob, rest) \<longleftrightarrow>
        vec_read (ox_actions ox) (read_action_without_auth ox) bs = Inr ([], rest)"
      unfolding start orchard_tail_iff [OF assms] using None by (auto split: if_splits)
    then show ?thesis
      by (simp add: None action_vector_iff [OF assms] wf_orchard_slot_def write_bundle_def)
  next
    case (Some b)
    let ?acts = "map (\<lambda>a. with_auth a ()) (ob_actions b)"
    have "read_bundle ox version bs = Inr (ob, rest) \<longleftrightarrow>
        (\<exists>r. vec_read (ox_actions ox) (read_action_without_auth ox) bs = Inr (?acts, r)
          \<and> ?acts \<noteq> [] \<and> version = Some (ob_version b) \<and> wf_orchard_tail ox b
          \<and> r = orchard_tail_bytes ox b @ rest)"
      unfolding start orchard_tail_iff [OF assms] using Some by (auto split: if_splits)
    also have "\<dots> \<longleftrightarrow> version = Some (ob_version b) \<and> wf_orchard_bundle ox b
        \<and> bs = write_bundle ox (Some b) @ rest"
      unfolding action_vector_iff [OF assms] wf_orchard_bundle_parts write_bundle_parts [OF assms]
      by (auto simp: parts_with_auth list_all_iff comp_def)
    finally show ?thesis by (simp add: Some wf_orchard_slot_def)
  qed
qed

lemma orchard_bundle_codec:
  assumes "orchard_ext_ok ox"
  shows "exact_codec (read_bundle ox version) (write_bundle ox) (wf_orchard_slot ox version)"
  by (rule exact_codecI) (rule orchard_bundle_iff [OF assms])

end
