(* ===== verification/OrchardSpec.thy ===== *)
theory OrchardSpec
  imports Orchard
begin

text \<open>
  What the Orchard byte formats guarantee, with an instance of the external code for the witnesses:
  byte-array elements, the flag byte itself as the flags, and constructors that always accept.
\<close>

definition byte_orchard :: "(bytes, bytes, bytes, bytes, bytes, u8) orchard_ext" where
  "byte_orchard =
     \<lparr>ox_cv = byte_element, ox_nf = byte_element, ox_rk = byte_element, ox_cmx = byte_element,
      ox_anchor = byte_element, ox_flags_from_byte = (\<lambda>byte v. Some byte), ox_flag_byte = (\<lambda>f v. f),
      ox_action = (\<lambda>nf rk cmx nc cv. Inr \<lparr>oa_nullifier = nf, oa_rk = rk, oa_cmx = cmx,
        oa_encrypted_note = nc, oa_cv_net = cv, oa_authorization = ()\<rparr>),
      ox_bundle = (\<lambda>acts fl vb an prf sig v. Inr \<lparr>ob_actions = acts, ob_flags = fl, ob_value_balance = vb,
        ob_anchor = an, ob_proof = prf, ob_binding_sig = sig, ob_version = v\<rparr>),
      ox_actions = std_vector bitcoin_compact_size,
      ox_write_nonempty = (\<lambda>wr xs. cs_write bitcoin_compact_size (of_nat (length xs)) @ concat (map wr xs)),
      ox_bytes = std_vector bitcoin_compact_size, ox_sigs = std_array, ox_cs = bitcoin_compact_size\<rparr>"

lemma byte_orchard_ok: "orchard_ext_ok byte_orchard"
  by (simp add: orchard_ext_ok_def byte_orchard_def bitcoin_compact_size_ok byte_element_ok
      std_vector_ok std_array_ok)

definition example_orchard_action :: "(bytes, bytes, bytes, bytes, bytes) orchard_action" where
  "example_orchard_action = \<lparr>oa_nullifier = replicate 32 1, oa_rk = replicate 32 2, oa_cmx = replicate 32 3,
     oa_encrypted_note = \<lparr>nc_epk_bytes = replicate 32 4, nc_enc_ciphertext = replicate 580 5,
       nc_out_ciphertext = replicate 80 6\<rparr>,
     oa_cv_net = replicate 32 7, oa_authorization = replicate 64 8\<rparr>"

definition example_orchard :: "bundle_version \<Rightarrow> (bytes, bytes, bytes, bytes, bytes, u8) orchard_bundle" where
  "example_orchard version = \<lparr>ob_actions = [example_orchard_action, example_orchard_action], ob_flags = 3,
     ob_value_balance = ZatBalance 10, ob_anchor = replicate 32 9, ob_proof = [1, 2, 3],
     ob_binding_sig = replicate 64 4, ob_version = version\<rparr>"

lemma wf_example_orchard: "wf_orchard_bundle byte_orchard (example_orchard version)"
  by (simp add: wf_orchard_bundle_def example_orchard_def example_orchard_action_def byte_orchard_def
      wf_action_parts_def wf_ciphertext_def action_accepted_def bundle_accepted_def with_auth_def
      wf_element_def byte_element_def wf_balance_iff)

lemma bundle_version_v3:
  "branch_orchard_revision branch = Some OrchardV3 \<Longrightarrow>
     bundle_version_for_branch branch pool = Some (case pool of PoolOrchard \<Rightarrow> OrchardBundleV3
       | PoolIronwood \<Rightarrow> IronwoodBundleV3)"
  by (cases pool) (simp_all add: bundle_version_for_branch_def del: branch_orchard_revision.simps)

lemma bundle_version_not_v3:
  "branch_orchard_revision branch \<noteq> Some OrchardV3 \<Longrightarrow> bundle_version_for_branch branch pool = Some v \<Longrightarrow>
     pool = PoolOrchard \<and> check_v6_bundle_version v
       = Inl (InvalidInput ''v6 Orchard bundles require orchard_v3 or ironwood_v3'')"
  by (cases branch; cases pool) (auto simp: bundle_version_for_branch_def check_v6_bundle_version_def)

lemma write_v6_slot:
  assumes "branch_orchard_revision branch = Some OrchardV3"
    and "wf_orchard_slot ox (bundle_version_for_branch branch pool) ob"
  shows "write_v6_bundle ox ob = Inr (write_bundle ox ob)"
  using assms by (cases pool) (auto simp: write_v6_bundle_def wf_orchard_slot_def check_v6_bundle_version_def
      bundle_version_v3 split: option.splits simp del: branch_orchard_revision.simps)

text \<open>C31: The Orchard bundle formats are exact. In a version 5 transaction a read returns no bundle or a
  well-formed one of the version of the branch, and consumed exactly its written form. In a version 6
  transaction the same holds for both pools from NU6.3 on; in an earlier branch the reader still
  accepts an Orchard bundle (never an Ironwood one), which the writer then refuses.\<close>

theorem orchard_bundle_formats:
  assumes "orchard_ext_ok ox"
  shows "(read_orchard_v5_bundle ox branch bs = Inr (ob, rest) \<longleftrightarrow>
      wf_orchard_slot ox (bundle_version_for_branch branch PoolOrchard) ob
      \<and> bs = write_orchard_v5_bundle ox ob @ rest)
    \<and> (branch_orchard_revision branch = Some OrchardV3 \<longrightarrow>
        (read_v6_bundle ox branch pool bs = Inr (ob, rest) \<longleftrightarrow>
          wf_orchard_slot ox (bundle_version_for_branch branch pool) ob
          \<and> (\<exists>w. write_v6_bundle ox ob = Inr w \<and> bs = w @ rest)))
    \<and> (branch_orchard_revision branch \<noteq> Some OrchardV3 \<and> read_v6_bundle ox branch pool bs = Inr (Some b, rest)
        \<longrightarrow> pool = PoolOrchard \<and> write_v6_bundle ox (Some b)
          = Inl (InvalidInput ''v6 Orchard bundles require orchard_v3 or ironwood_v3''))"
proof (intro conjI impI)
  show "read_orchard_v5_bundle ox branch bs = Inr (ob, rest) \<longleftrightarrow>
      wf_orchard_slot ox (bundle_version_for_branch branch PoolOrchard) ob
      \<and> bs = write_orchard_v5_bundle ox ob @ rest"
    by (simp add: read_orchard_v5_bundle_def write_orchard_v5_bundle_def orchard_bundle_iff [OF assms])
  show "read_v6_bundle ox branch pool bs = Inr (ob, rest) \<longleftrightarrow>
      wf_orchard_slot ox (bundle_version_for_branch branch pool) ob
      \<and> (\<exists>w. write_v6_bundle ox ob = Inr w \<and> bs = w @ rest)"
    if "branch_orchard_revision branch = Some OrchardV3"
    using write_v6_slot [OF that, of ox pool ob]
    by (auto simp: read_v6_bundle_def orchard_bundle_iff [OF assms])
next
  assume *: "branch_orchard_revision branch \<noteq> Some OrchardV3 \<and> read_v6_bundle ox branch pool bs = Inr (Some b, rest)"
  then have "bundle_version_for_branch branch pool = Some (ob_version b)"
    by (simp add: read_v6_bundle_def orchard_bundle_iff [OF assms] wf_orchard_slot_def)
  from bundle_version_not_v3 [OF conjunct1 [OF *] this]
  show "pool = PoolOrchard"
    and "write_v6_bundle ox (Some b)
          = Inl (InvalidInput ''v6 Orchard bundles require orchard_v3 or ironwood_v3'')"
    by (simp_all add: write_v6_bundle_def)
qed

lemma orchard_bundle_formats_witness:
  "(\<exists>w. write_v6_bundle byte_orchard (Some (example_orchard IronwoodBundleV3)) = Inr w
      \<and> read_v6_bundle byte_orchard BranchNu6_3 PoolIronwood (w @ [1])
          = Inr (Some (example_orchard IronwoodBundleV3), [1]))
   \<and> write_v6_bundle byte_orchard (Some (example_orchard OrchardBundleV2))
      = Inl (InvalidInput ''v6 Orchard bundles require orchard_v3 or ironwood_v3'')"
proof
  have slot: "wf_orchard_slot byte_orchard (bundle_version_for_branch BranchNu6_3 PoolIronwood)
      (Some (example_orchard IronwoodBundleV3))"
    using wf_example_orchard by (simp add: wf_orchard_slot_def bundle_version_for_branch_def example_orchard_def)
  have w: "write_v6_bundle byte_orchard (Some (example_orchard IronwoodBundleV3))
      = Inr (write_bundle byte_orchard (Some (example_orchard IronwoodBundleV3)))"
    by (simp add: write_v6_bundle_def check_v6_bundle_version_def example_orchard_def)
  show "\<exists>w. write_v6_bundle byte_orchard (Some (example_orchard IronwoodBundleV3)) = Inr w
      \<and> read_v6_bundle byte_orchard BranchNu6_3 PoolIronwood (w @ [1])
          = Inr (Some (example_orchard IronwoodBundleV3), [1])"
    using orchard_bundle_formats [OF byte_orchard_ok, of BranchNu6_3 "[]" None "[]" PoolIronwood]
      orchard_bundle_formats [OF byte_orchard_ok, of BranchNu6_3
        "write_bundle byte_orchard (Some (example_orchard IronwoodBundleV3)) @ [1]"
        "Some (example_orchard IronwoodBundleV3)" "[1]" PoolIronwood] slot w by auto
  have "wf_orchard_slot byte_orchard (bundle_version_for_branch BranchNu6_2 PoolOrchard)
      (Some (example_orchard OrchardBundleV2))"
    using wf_example_orchard by (simp add: wf_orchard_slot_def bundle_version_for_branch_def example_orchard_def)
  then have "read_v6_bundle byte_orchard BranchNu6_2 PoolOrchard
      (write_bundle byte_orchard (Some (example_orchard OrchardBundleV2)) @ [])
      = Inr (Some (example_orchard OrchardBundleV2), [])"
    unfolding read_v6_bundle_def orchard_bundle_iff [OF byte_orchard_ok] by simp
  then show "write_v6_bundle byte_orchard (Some (example_orchard OrchardBundleV2))
      = Inl (InvalidInput ''v6 Orchard bundles require orchard_v3 or ironwood_v3'')"
    using orchard_bundle_formats [OF byte_orchard_ok, of BranchNu6_2 _ None "[]" PoolOrchard] by simp
qed

end
