(* ===== verification/TxData.thy ===== *)
theory TxData
  imports TxVersion Staking SaplingSpec OrchardSpec
begin

text \<open>
  The data of a transaction (\<open>TransactionData\<close> of \<open>zcash_primitives/src/transaction/mod.rs\<close>): its
  constructors and the fee it pays. As in the source the record is generic in its bundles. The crate
  \<open>transparent\<close> is external: its inputs and outputs come with their codecs in a record.
\<close>

subsection \<open>The record and its constructors\<close>

record ('tb, 'sb, 'ob) transaction_data =
  td_version :: tx_version
  td_consensus_branch_id :: branch_id
  td_lock_time :: u32
  td_expiry_height :: block_height
  td_transparent_bundle :: "'tb option"
  td_sprout_bundle :: "sprout_bundle option"
  td_sapling_bundle :: "'sb option"
  td_orchard_bundle :: "'ob option"
  td_ironwood_bundle :: "'ob option"
  td_staking_action :: "staking_action option"

record ('tb, 'sb, 'ob) transaction =
  tx_txid :: tx_id
  tx_data :: "('tb, 'sb, 'ob) transaction_data"

definition TransactionData_from_parts ::
  "tx_version \<Rightarrow> branch_id \<Rightarrow> u32 \<Rightarrow> block_height \<Rightarrow> 'tb option \<Rightarrow> sprout_bundle option
     \<Rightarrow> 'sb option \<Rightarrow> 'ob option \<Rightarrow> ('tb, 'sb, 'ob) transaction_data" where
  "TransactionData_from_parts version consensus_branch_id lock_time expiry_height transparent_bundle
       sprout_bundle sapling_bundle orchard_bundle =
     \<lparr>td_version = version, td_consensus_branch_id = consensus_branch_id, td_lock_time = lock_time,
      td_expiry_height = expiry_height, td_transparent_bundle = transparent_bundle,
      td_sprout_bundle = sprout_bundle, td_sapling_bundle = sapling_bundle,
      td_orchard_bundle = orchard_bundle, td_ironwood_bundle = None, td_staking_action = None\<rparr>"

definition TransactionData_from_parts_v6 ::
  "branch_id \<Rightarrow> u32 \<Rightarrow> block_height \<Rightarrow> 'tb option \<Rightarrow> 'sb option \<Rightarrow> 'ob option \<Rightarrow> 'ob option
     \<Rightarrow> ('tb, 'sb, 'ob) transaction_data" where
  "TransactionData_from_parts_v6 consensus_branch_id lock_time expiry_height transparent_bundle
       sapling_bundle orchard_bundle ironwood_bundle =
     \<lparr>td_version = V6, td_consensus_branch_id = consensus_branch_id, td_lock_time = lock_time,
      td_expiry_height = expiry_height, td_transparent_bundle = transparent_bundle,
      td_sprout_bundle = None, td_sapling_bundle = sapling_bundle,
      td_orchard_bundle = orchard_bundle, td_ironwood_bundle = ironwood_bundle,
      td_staking_action = None\<rparr>"

definition TransactionData_from_parts_vcrosslink ::
  "branch_id \<Rightarrow> u32 \<Rightarrow> block_height \<Rightarrow> 'tb option \<Rightarrow> 'sb option \<Rightarrow> 'ob option
     \<Rightarrow> staking_action option \<Rightarrow> ('tb, 'sb, 'ob) transaction_data" where
  "TransactionData_from_parts_vcrosslink consensus_branch_id lock_time expiry_height transparent_bundle
       sapling_bundle orchard_bundle staking_action =
     \<lparr>td_version = VCrosslink, td_consensus_branch_id = consensus_branch_id, td_lock_time = lock_time,
      td_expiry_height = expiry_height, td_transparent_bundle = transparent_bundle,
      td_sprout_bundle = None, td_sapling_bundle = sapling_bundle,
      td_orchard_bundle = orchard_bundle, td_ironwood_bundle = None,
      td_staking_action = staking_action\<rparr>"

definition fix_consensus_branch_id ::
  "('tb, 'sb, 'ob) transaction_data \<Rightarrow> branch_id \<Rightarrow> ('tb, 'sb, 'ob) transaction_data" where
  "fix_consensus_branch_id tx consensus_branch_id = (case td_version tx of
     Sprout _ \<Rightarrow> tx\<lparr>td_consensus_branch_id := consensus_branch_id\<rparr>
   | V3 \<Rightarrow> tx\<lparr>td_consensus_branch_id := consensus_branch_id\<rparr>
   | V4 \<Rightarrow> tx\<lparr>td_consensus_branch_id := consensus_branch_id\<rparr>
   | _ \<Rightarrow> tx)"

subsection \<open>Fees\<close>

text \<open>\<open>map_or_else(zero, value_balance)\<close> over an optional bundle.\<close>

definition bundle_balance :: "('b \<Rightarrow> zat_balance) \<Rightarrow> 'b option \<Rightarrow> zat_balance" where
  "bundle_balance value_balance b = (case b of None \<Rightarrow> ZatBalance_zero | Some b \<Rightarrow> value_balance b)"

definition sapling_value_balance ::
  "('tb, ('cv, 'fe, 'cmu, 'rk) sapling_bundle, 'ob) transaction_data \<Rightarrow> zat_balance" where
  "sapling_value_balance tx = bundle_balance sap_value_balance (td_sapling_bundle tx)"

text \<open>
  The transparent balance comes from the external \<open>value_balance\<close> of the transparent bundle applied
  to \<open>get_prevout\<close>; its error type \<open>E\<close> embeds the balance errors by \<open>from_balance\<close>. The outer
  option is the panic that the value balance of a Sprout bundle can raise.
\<close>

definition fee_paid ::
  "(balance_error \<Rightarrow> 'e) \<Rightarrow> ('tb \<Rightarrow> 'e + zat_balance option) \<Rightarrow> ('sb \<Rightarrow> zat_balance) \<Rightarrow> ('ob \<Rightarrow> zat_balance)
     \<Rightarrow> ('tb, 'sb, 'ob) transaction_data \<Rightarrow> ('e + zatoshis option) option" where
  "fee_paid from_balance transparent_value sapling_value orchard_value tx =
     (case (case td_transparent_bundle tx of
              None \<Rightarrow> Inr (Some ZatBalance_zero) | Some b \<Rightarrow> transparent_value b) of
        Inl e \<Rightarrow> Some (Inl e)
      | Inr None \<Rightarrow> Some (Inr None)
      | Inr (Some transparent_balance) \<Rightarrow>
          map_option (\<lambda>r. map_ok Some (map_err from_balance r))
            (Option.bind
              (case td_sprout_bundle tx of
                 None \<Rightarrow> Some (Some ZatBalance_zero) | Some b \<Rightarrow> SproutBundle_value_balance b)
              (\<lambda>sprout_balance. Some (
                 res_bind (ok_or sprout_balance Overflow) (\<lambda>sprout_balance.
                 res_bind (ok_or (zb_sum
                   [transparent_balance,
                    sprout_balance,
                    bundle_balance sapling_value (td_sapling_bundle tx),
                    bundle_balance orchard_value (td_orchard_bundle tx),
                    bundle_balance orchard_value (td_ironwood_bundle tx),
                    bundle_balance value_balance_contribution (td_staking_action tx)]) Overflow)
                   (\<lambda>overall_balance.
                 map_err (\<lambda>_. Underflow) (Zatoshis_try_from_ZatBalance overall_balance)))))))"

text \<open>The balances of a transaction as integers, in the order in which they are added.\<close>

definition tx_balances ::
  "zat_balance \<Rightarrow> zat_balance \<Rightarrow> ('sb \<Rightarrow> zat_balance) \<Rightarrow> ('ob \<Rightarrow> zat_balance)
     \<Rightarrow> ('tb, 'sb, 'ob) transaction_data \<Rightarrow> zat_balance list" where
  "tx_balances tb sb sapling_value orchard_value tx =
     [tb, sb, bundle_balance sapling_value (td_sapling_bundle tx),
      bundle_balance orchard_value (td_orchard_bundle tx),
      bundle_balance orchard_value (td_ironwood_bundle tx),
      bundle_balance value_balance_contribution (td_staking_action tx)]"

lemma balance_to_zatoshis:
  assumes "wf_balance b"
  shows "Zatoshis_try_from_ZatBalance b = (if 0 \<le> zb_val b then Inr (Zatoshis (zb_raw b)) else Inl Underflow)"
    and "0 \<le> zb_val b \<Longrightarrow> zat_val (Zatoshis (zb_raw b)) = zb_val b"
proof -
  have "wf_zats (Zatoshis (zb_raw b))" if "0 \<le> zb_val b"
    using uint_eq_sint64 [OF that] assms by (simp add: wf_zats_iff wf_balance_iff)
  then show "Zatoshis_try_from_ZatBalance b = (if 0 \<le> zb_val b then Inr (Zatoshis (zb_raw b)) else Inl Underflow)"
    by (auto simp: Zatoshis_try_from_ZatBalance_def Zatoshis_from_nonnegative_i64_iff)
      (auto simp: Zatoshis_from_nonnegative_i64_def try_u64_of_i64_def)
  show "zat_val (Zatoshis (zb_raw b)) = zb_val b" if "0 \<le> zb_val b"
    using uint_eq_sint64 [OF that] by simp
qed

lemma fee_paid_eq:
  assumes "(case td_transparent_bundle tx of None \<Rightarrow> Inr (Some ZatBalance_zero) | Some b \<Rightarrow> transparent_value b)
      = Inr (Some tb)"
    and "(case td_sprout_bundle tx of None \<Rightarrow> Some (Some ZatBalance_zero) | Some b \<Rightarrow> SproutBundle_value_balance b)
      = Some (Some sb)"
  shows "fee_paid from_balance transparent_value sapling_value orchard_value tx = Some
    (case zb_sum (tx_balances tb sb sapling_value orchard_value tx) of
       None \<Rightarrow> Inl (from_balance Overflow)
     | Some s \<Rightarrow> map_ok Some (map_err from_balance (map_err (\<lambda>_. Underflow) (Zatoshis_try_from_ZatBalance s))))"
  using assms unfolding fee_paid_def tx_balances_def by (simp split: option.splits)


definition example_fee_tx :: "(unit, zat_balance, zat_balance) transaction_data" where
  "example_fee_tx = TransactionData_from_parts_vcrosslink BranchNu6_2 0 (BlockHeight 0) None
     (Some (ZatBalance 700)) (Some (ZatBalance (- 100))) (Some example_action)"

lemma example_fee_balances:
  "map zb_val (tx_balances ZatBalance_zero ZatBalance_zero (\<lambda>x. x) (\<lambda>x. x) example_fee_tx)
     = [0, 0, 700, - 100, 0, - 500]"
  by (simp add: tx_balances_def example_fee_tx_def TransactionData_from_parts_vcrosslink_def
      bundle_balance_def ZatBalance_zero_def negated_amount wf_zats_iff example_action_def)


end
