(* ===== verification/TxTransparent.thy ===== *)
theory TxTransparent
  imports ExtCodec
begin

text \<open>
  The transparent part of a transaction (\<open>read_transparent\<close> and \<open>write_transparent\<close> of
  \<open>zcash_primitives/src/transaction/mod.rs\<close>). Inputs and outputs belong to the external crate
  \<open>transparent\<close>: their codecs, and the parts of an input that the digests read, come in a record.
\<close>

record ('i, 'o) transparent_bundle =
  tb_vin :: "'i list"
  tb_vout :: "'o list"

record ('i, 'o) transparent_ext =
  tp_read_in :: "'i reader"
  tp_write_in :: "'i \<Rightarrow> bytes"
  tp_read_out :: "'o reader"
  tp_write_out :: "'o \<Rightarrow> bytes"
  tp_vin :: "'i vector_io"
  tp_vout :: "'o vector_io"
  tp_cs :: compact_size
  tp_prevout_bytes :: "'i \<Rightarrow> bytes"
  tp_sequence :: "'i \<Rightarrow> u32"
  tp_script_sig_bytes :: "'i \<Rightarrow> bytes"

definition read_transparent ::
  "('i, 'o) transparent_ext \<Rightarrow> ('i, 'o) transparent_bundle option reader" where
  "read_transparent tp =
     rbind (vec_read (tp_vin tp) (tp_read_in tp)) (\<lambda>vin.
     rbind (vec_read (tp_vout tp) (tp_read_out tp)) (\<lambda>vout.
     rret (if vin = [] \<and> vout = [] then None else Some \<lparr>tb_vin = vin, tb_vout = vout\<rparr>)))"

definition write_transparent ::
  "('i, 'o) transparent_ext \<Rightarrow> ('i, 'o) transparent_bundle option \<Rightarrow> bytes" where
  "write_transparent tp transparent_bundle = (case transparent_bundle of
     Some bundle \<Rightarrow>
       vec_write (tp_vin tp) (tp_write_in tp) (tb_vin bundle)
       @ vec_write (tp_vout tp) (tp_write_out tp) (tb_vout bundle)
   | None \<Rightarrow> cs_write (tp_cs tp) 0 @ cs_write (tp_cs tp) 0)"

subsection \<open>The codec\<close>

text \<open>The inputs and outputs in the range of their codecs.\<close>

definition wf_txin :: "('i, 'o) transparent_ext \<Rightarrow> 'i \<Rightarrow> bool" where
  "wf_txin tp x \<longleftrightarrow> tp_read_in tp (tp_write_in tp x) = Inr (x, [])"

definition wf_txout :: "('i, 'o) transparent_ext \<Rightarrow> 'o \<Rightarrow> bool" where
  "wf_txout tp x \<longleftrightarrow> tp_read_out tp (tp_write_out tp x) = Inr (x, [])"

text \<open>What the code relies on: canonical codecs, outpoints of 36 bytes and outputs of at
  least one.\<close>

definition transparent_ext_ok :: "('i, 'o) transparent_ext \<Rightarrow> bool" where
  "transparent_ext_ok tp \<longleftrightarrow> compact_size_ok (tp_cs tp)
     \<and> vector_ok (tp_cs tp) (tp_vin tp) \<and> vector_ok (tp_cs tp) (tp_vout tp)
     \<and> exact_codec (tp_read_in tp) (tp_write_in tp) (wf_txin tp)
     \<and> exact_codec (tp_read_out tp) (tp_write_out tp) (wf_txout tp)
     \<and> (\<forall>x. length (tp_prevout_bytes tp x) = 36)
     \<and> (\<forall>x. wf_txout tp x \<longrightarrow> tp_write_out tp x \<noteq> [])"

definition wf_transparent :: "('i, 'o) transparent_ext \<Rightarrow> ('i, 'o) transparent_bundle \<Rightarrow> bool" where
  "wf_transparent tp b \<longleftrightarrow> \<not> (tb_vin b = [] \<and> tb_vout b = [])
     \<and> list_all (wf_txin tp) (tb_vin b) \<and> length (tb_vin b) \<le> 33554432
     \<and> list_all (wf_txout tp) (tb_vout b) \<and> length (tb_vout b) \<le> 33554432"

lemma transparent_iff:
  assumes "transparent_ext_ok tp"
  shows "read_transparent tp bs = Inr (ob, rest) \<longleftrightarrow>
    pred_option (wf_transparent tp) ob \<and> bs = write_transparent tp ob @ rest"
proof -
  have ok: "compact_size_ok (tp_cs tp)" "vector_ok (tp_cs tp) (tp_vin tp)" "vector_ok (tp_cs tp) (tp_vout tp)"
      "exact_codec (tp_read_in tp) (tp_write_in tp) (wf_txin tp)"
      "exact_codec (tp_read_out tp) (tp_write_out tp) (wf_txout tp)"
    using assms by (simp_all add: transparent_ext_ok_def)
  have "read_transparent tp bs = Inr (ob, rest) \<longleftrightarrow>
      (\<exists>vin vout. list_all (wf_txin tp) vin \<and> length vin \<le> 33554432
         \<and> list_all (wf_txout tp) vout \<and> length vout \<le> 33554432
         \<and> ob = (if vin = [] \<and> vout = [] then None else Some \<lparr>tb_vin = vin, tb_vout = vout\<rparr>)
         \<and> bs = vec_write (tp_vin tp) (tp_write_in tp) vin @ vec_write (tp_vout tp) (tp_write_out tp) vout @ rest)"
    unfolding read_transparent_def
    by (auto simp: vector_read_iff [OF ok(1,2,4)] vector_read_iff [OF ok(1,3,5)])
  also have "\<dots> \<longleftrightarrow> pred_option (wf_transparent tp) ob \<and> bs = write_transparent tp ob @ rest"
  proof (cases ob)
    case None
    then show ?thesis using ok(2,3) by (auto simp: write_transparent_def vector_ok_def)
  next
    case (Some b)
    then show ?thesis
      by (cases b) (auto simp: write_transparent_def wf_transparent_def)
  qed
  finally show ?thesis .
qed

lemma transparent_codec:
  assumes "transparent_ext_ok tp"
  shows "exact_codec (read_transparent tp) (write_transparent tp) (pred_option (wf_transparent tp))"
  by (rule exact_codecI) (rule transparent_iff [OF assms])

subsection \<open>An instance\<close>

text \<open>Inputs with an empty script (outpoint, script length, sequence) and outputs of 8 value bytes with
  a one-byte empty script, as byte arrays.\<close>

definition byte_transparent :: "(bytes, bytes) transparent_ext" where
  "byte_transparent = \<lparr>tp_read_in = read_exact 41, tp_write_in = (\<lambda>x. x), tp_read_out = read_exact 9,
     tp_write_out = (\<lambda>x. x), tp_vin = std_vector bitcoin_compact_size,
     tp_vout = std_vector bitcoin_compact_size, tp_cs = bitcoin_compact_size,
     tp_prevout_bytes = (\<lambda>x. take 36 (x @ replicate 36 0)), tp_sequence = (\<lambda>x. le_word (drop 37 x)),
     tp_script_sig_bytes = (\<lambda>x. take 1 (drop 36 x))\<rparr>"

lemma wf_byte_tx:
  "wf_txin byte_transparent x \<longleftrightarrow> length x = 41" "wf_txout byte_transparent y \<longleftrightarrow> length y = 9"
  by (simp_all add: wf_txin_def wf_txout_def byte_transparent_def read_exact_iff)

lemma byte_transparent_ok: "transparent_ext_ok byte_transparent"
proof -
  have "exact_codec (tp_read_in byte_transparent) (tp_write_in byte_transparent) (wf_txin byte_transparent)"
    by (rule exact_codecI) (simp add: wf_byte_tx, simp add: byte_transparent_def read_exact_iff)
  moreover have "exact_codec (tp_read_out byte_transparent) (tp_write_out byte_transparent)
      (wf_txout byte_transparent)"
    by (rule exact_codecI) (simp add: wf_byte_tx, simp add: byte_transparent_def read_exact_iff)
  ultimately show ?thesis
    by (simp add: transparent_ext_ok_def wf_byte_tx)
      (auto simp: byte_transparent_def bitcoin_compact_size_ok std_vector_ok min_def)
qed

end
