(* ===== verification/TxId.thy ===== *)
theory TxId
  imports TxData TxTransparent
begin

text \<open>
  Transaction identifiers (\<open>zcash_primitives/src/transaction/txid.rs\<close>, and \<open>TransactionData::digest\<close> of
  \<open>transaction/mod.rs\<close>): the digest trees of ZIP 244 and ZIP 229, for the identifier and for the
  authorizing data. BLAKE2b is external: a function of the personalization and of the bytes written.
  So are the commitments to Orchard bundles, whose \<open>expect\<close> makes a digest an option.
\<close>

datatype orchard_tx_version = OrchardTxV5 | OrchardTxV6

record 'ob digest_ext =
  dx_blake2b :: "bytes \<Rightarrow> bytes \<Rightarrow> bytes"
  dx_sha256d :: "bytes \<Rightarrow> bytes"
  dx_commitment :: "'ob \<Rightarrow> orchard_tx_version \<Rightarrow> bytes option"
  dx_authorizing_commitment :: "'ob \<Rightarrow> orchard_tx_version \<Rightarrow> bytes option"
  dx_bundle_txid_empty :: "value_pool \<Rightarrow> orchard_tx_version \<Rightarrow> bytes option"
  dx_bundle_auth_empty :: "value_pool \<Rightarrow> orchard_tx_version \<Rightarrow> bytes option"

subsection \<open>Personalizations\<close>

text \<open>A byte string literal.\<close>

definition ascii :: "string \<Rightarrow> bytes" where
  "ascii s = map of_char s"

definition ZCASH_TX_PERSONALIZATION_PREFIX :: bytes where
  "ZCASH_TX_PERSONALIZATION_PREFIX = ascii ''ZcashTxHash_''"
definition ZCASH_HEADERS_HASH_PERSONALIZATION :: bytes where
  "ZCASH_HEADERS_HASH_PERSONALIZATION = ascii ''ZTxIdHeadersHash''"
definition ZCASH_TRANSPARENT_HASH_PERSONALIZATION :: bytes where
  "ZCASH_TRANSPARENT_HASH_PERSONALIZATION = ascii ''ZTxIdTranspaHash''"
definition ZCASH_SAPLING_HASH_PERSONALIZATION :: bytes where
  "ZCASH_SAPLING_HASH_PERSONALIZATION = ascii ''ZTxIdSaplingHash''"
definition ZCASH_CROSSLINK_HASH_PERSONALIZATION :: bytes where
  "ZCASH_CROSSLINK_HASH_PERSONALIZATION = ascii ''ZTxCrosslinkHash''"
definition ZCASH_PREVOUTS_HASH_PERSONALIZATION :: bytes where
  "ZCASH_PREVOUTS_HASH_PERSONALIZATION = ascii ''ZTxIdPrevoutHash''"
definition ZCASH_SEQUENCE_HASH_PERSONALIZATION :: bytes where
  "ZCASH_SEQUENCE_HASH_PERSONALIZATION = ascii ''ZTxIdSequencHash''"
definition ZCASH_OUTPUTS_HASH_PERSONALIZATION :: bytes where
  "ZCASH_OUTPUTS_HASH_PERSONALIZATION = ascii ''ZTxIdOutputsHash''"
definition ZCASH_SAPLING_SPENDS_HASH_PERSONALIZATION :: bytes where
  "ZCASH_SAPLING_SPENDS_HASH_PERSONALIZATION = ascii ''ZTxIdSSpendsHash''"
definition ZCASH_SAPLING_SPENDS_COMPACT_HASH_PERSONALIZATION :: bytes where
  "ZCASH_SAPLING_SPENDS_COMPACT_HASH_PERSONALIZATION = ascii ''ZTxIdSSpendCHash''"
definition ZCASH_SAPLING_SPENDS_NONCOMPACT_HASH_PERSONALIZATION :: bytes where
  "ZCASH_SAPLING_SPENDS_NONCOMPACT_HASH_PERSONALIZATION = ascii ''ZTxIdSSpendNHash''"
definition ZCASH_SAPLING_SPENDS_V6_NONCOMPACT_HASH_PERSONALIZATION :: bytes where
  "ZCASH_SAPLING_SPENDS_V6_NONCOMPACT_HASH_PERSONALIZATION = ascii ''ZTxIdSSpendNH_v6''"
definition ZCASH_SAPLING_OUTPUTS_HASH_PERSONALIZATION :: bytes where
  "ZCASH_SAPLING_OUTPUTS_HASH_PERSONALIZATION = ascii ''ZTxIdSOutputHash''"
definition ZCASH_SAPLING_OUTPUTS_COMPACT_HASH_PERSONALIZATION :: bytes where
  "ZCASH_SAPLING_OUTPUTS_COMPACT_HASH_PERSONALIZATION = ascii ''ZTxIdSOutC__Hash''"
definition ZCASH_SAPLING_OUTPUTS_MEMOS_HASH_PERSONALIZATION :: bytes where
  "ZCASH_SAPLING_OUTPUTS_MEMOS_HASH_PERSONALIZATION = ascii ''ZTxIdSOutM__Hash''"
definition ZCASH_SAPLING_OUTPUTS_NONCOMPACT_HASH_PERSONALIZATION :: bytes where
  "ZCASH_SAPLING_OUTPUTS_NONCOMPACT_HASH_PERSONALIZATION = ascii ''ZTxIdSOutN__Hash''"
definition ZCASH_AUTH_PERSONALIZATION_PREFIX :: bytes where
  "ZCASH_AUTH_PERSONALIZATION_PREFIX = ascii ''ZTxAuthHash_''"
definition ZCASH_TRANSPARENT_SCRIPTS_HASH_PERSONALIZATION :: bytes where
  "ZCASH_TRANSPARENT_SCRIPTS_HASH_PERSONALIZATION = ascii ''ZTxAuthTransHash''"
definition ZCASH_SAPLING_SIGS_HASH_PERSONALIZATION :: bytes where
  "ZCASH_SAPLING_SIGS_HASH_PERSONALIZATION = ascii ''ZTxAuthSapliHash''"
definition ZCASH_SAPLING_V6_SIGS_HASH_PERSONALIZATION :: bytes where
  "ZCASH_SAPLING_V6_SIGS_HASH_PERSONALIZATION = ascii ''ZTxAuthSapliH_v6''"

definition sapling_spends_noncompact_personalization :: "tx_version \<Rightarrow> bytes" where
  "sapling_spends_noncompact_personalization version = (case version of
     V6 \<Rightarrow> ZCASH_SAPLING_SPENDS_V6_NONCOMPACT_HASH_PERSONALIZATION
   | _ \<Rightarrow> ZCASH_SAPLING_SPENDS_NONCOMPACT_HASH_PERSONALIZATION)"

definition sapling_auth_personalization :: "tx_version \<Rightarrow> bytes" where
  "sapling_auth_personalization version = (case version of
     V6 \<Rightarrow> ZCASH_SAPLING_V6_SIGS_HASH_PERSONALIZATION
   | _ \<Rightarrow> ZCASH_SAPLING_SIGS_HASH_PERSONALIZATION)"

definition sapling_auth_includes_anchor :: "tx_version \<Rightarrow> bool" where
  "sapling_auth_includes_anchor version = (case version of V6 \<Rightarrow> True | _ \<Rightarrow> False)"

definition orchard_commitment_domain :: "tx_version \<Rightarrow> value_pool \<times> orchard_tx_version" where
  "orchard_commitment_domain version = (case version of
     V6 \<Rightarrow> (PoolOrchard, OrchardTxV6) | _ \<Rightarrow> (PoolOrchard, OrchardTxV5))"

definition ironwood_v6_domain :: "value_pool \<times> orchard_tx_version" where
  "ironwood_v6_domain = (PoolIronwood, OrchardTxV6)"

text \<open>A \<open>hasher(personal)\<close> after the writes \<open>written\<close>, finalized.\<close>

definition hasher :: "'ob digest_ext \<Rightarrow> bytes \<Rightarrow> bytes \<Rightarrow> bytes" where
  "hasher dx personal msg = dx_blake2b dx personal msg"

subsection \<open>The component digests\<close>

definition transparent_prevout_hash :: "'ob digest_ext \<Rightarrow> ('i, 'o) transparent_ext \<Rightarrow> 'i list \<Rightarrow> bytes" where
  "transparent_prevout_hash dx tp vin =
     hasher dx ZCASH_PREVOUTS_HASH_PERSONALIZATION (concat (map (tp_prevout_bytes tp) vin))"

definition transparent_sequence_hash :: "'ob digest_ext \<Rightarrow> ('i, 'o) transparent_ext \<Rightarrow> 'i list \<Rightarrow> bytes" where
  "transparent_sequence_hash dx tp vin =
     hasher dx ZCASH_SEQUENCE_HASH_PERSONALIZATION (concat (map (\<lambda>t_in. write_u32_le (tp_sequence tp t_in)) vin))"

definition transparent_outputs_hash :: "'ob digest_ext \<Rightarrow> ('i, 'o) transparent_ext \<Rightarrow> 'o list \<Rightarrow> bytes" where
  "transparent_outputs_hash dx tp vout =
     hasher dx ZCASH_OUTPUTS_HASH_PERSONALIZATION (concat (map (tp_write_out tp) vout))"

definition write_anchor :: "tx_version \<Rightarrow> bool" where
  "write_anchor version = (case version of V6 \<Rightarrow> False | _ \<Rightarrow> True)"

definition spend_noncompact ::
  "('cv, 'fe, 'cmu, 'rk) sapling_ext \<Rightarrow> tx_version \<Rightarrow> ('cv, 'fe, 'rk) spend_description \<Rightarrow> bytes" where
  "spend_noncompact sx version s_spend =
     el_bytes (sx_cv sx) (sd_cv s_spend)
     @ (if write_anchor version then el_bytes (sx_base sx) (sd_anchor s_spend) else [])
     @ el_bytes (sx_rk sx) (sd_rk s_spend)"

definition hash_sapling_spends ::
  "'ob digest_ext \<Rightarrow> ('cv, 'fe, 'cmu, 'rk) sapling_ext \<Rightarrow> tx_version \<Rightarrow> ('cv, 'fe, 'rk) spend_description list \<Rightarrow> bytes" where
  "hash_sapling_spends dx sx version shielded_spends =
     hasher dx ZCASH_SAPLING_SPENDS_HASH_PERSONALIZATION
       (if shielded_spends \<noteq> [] then
          hasher dx ZCASH_SAPLING_SPENDS_COMPACT_HASH_PERSONALIZATION
            (concat (map sd_nullifier shielded_spends))
          @ hasher dx (sapling_spends_noncompact_personalization version)
            (concat (map (spend_noncompact sx version) shielded_spends))
        else [])"

definition output_compact ::
  "('cv, 'fe, 'cmu, 'rk) sapling_ext \<Rightarrow> ('cv, 'cmu) output_description \<Rightarrow> bytes" where
  "output_compact sx s_out = el_bytes (sx_cmu sx) (od_cmu s_out) @ od_ephemeral_key s_out
     @ take 52 (od_enc_ciphertext s_out)"

definition output_memo :: "('cv, 'cmu) output_description \<Rightarrow> bytes" where
  "output_memo s_out = take 512 (drop 52 (od_enc_ciphertext s_out))"

definition output_noncompact ::
  "('cv, 'fe, 'cmu, 'rk) sapling_ext \<Rightarrow> ('cv, 'cmu) output_description \<Rightarrow> bytes" where
  "output_noncompact sx s_out = el_bytes (sx_cv sx) (od_cv s_out)
     @ drop 564 (od_enc_ciphertext s_out) @ od_out_ciphertext s_out"

definition hash_sapling_outputs ::
  "'ob digest_ext \<Rightarrow> ('cv, 'fe, 'cmu, 'rk) sapling_ext \<Rightarrow> ('cv, 'cmu) output_description list \<Rightarrow> bytes" where
  "hash_sapling_outputs dx sx shielded_outputs =
     hasher dx ZCASH_SAPLING_OUTPUTS_HASH_PERSONALIZATION
       (if shielded_outputs \<noteq> [] then
          hasher dx ZCASH_SAPLING_OUTPUTS_COMPACT_HASH_PERSONALIZATION
            (concat (map (output_compact sx) shielded_outputs))
          @ hasher dx ZCASH_SAPLING_OUTPUTS_MEMOS_HASH_PERSONALIZATION
            (concat (map output_memo shielded_outputs))
          @ hasher dx ZCASH_SAPLING_OUTPUTS_NONCOMPACT_HASH_PERSONALIZATION
            (concat (map (output_noncompact sx) shielded_outputs))
        else [])"

record transparent_digests =
  trd_prevouts_digest :: bytes
  trd_sequence_digest :: bytes
  trd_outputs_digest :: bytes

definition transparent_digests_of ::
  "'ob digest_ext \<Rightarrow> ('i, 'o) transparent_ext \<Rightarrow> ('i, 'o) transparent_bundle \<Rightarrow> transparent_digests" where
  "transparent_digests_of dx tp bundle =
     \<lparr>trd_prevouts_digest = transparent_prevout_hash dx tp (tb_vin bundle),
      trd_sequence_digest = transparent_sequence_hash dx tp (tb_vin bundle),
      trd_outputs_digest = transparent_outputs_hash dx tp (tb_vout bundle)\<rparr>"

definition header_txid_data :: "tx_version \<Rightarrow> branch_id \<Rightarrow> u32 \<Rightarrow> block_height \<Rightarrow> bytes" where
  "header_txid_data version consensus_branch_id lock_time expiry_height =
     write_u32_le (TxVersion_header version)
     @ write_u32_le (TxVersion_version_group_id version)
     @ write_u32_le (wire_consensus_branch_id version consensus_branch_id)
     @ write_u32_le lock_time
     @ write_u32_le (u32_from_BlockHeight expiry_height)"

definition hash_header_txid_data ::
  "'ob digest_ext \<Rightarrow> tx_version \<Rightarrow> branch_id \<Rightarrow> u32 \<Rightarrow> block_height \<Rightarrow> bytes" where
  "hash_header_txid_data dx version consensus_branch_id lock_time expiry_height =
     hasher dx ZCASH_HEADERS_HASH_PERSONALIZATION
       (header_txid_data version consensus_branch_id lock_time expiry_height)"

definition transparent_txid_data :: "transparent_digests option \<Rightarrow> bytes" where
  "transparent_txid_data t_digests = (case t_digests of None \<Rightarrow> []
     | Some d \<Rightarrow> trd_prevouts_digest d @ trd_sequence_digest d @ trd_outputs_digest d)"

definition hash_transparent_txid_data :: "'ob digest_ext \<Rightarrow> transparent_digests option \<Rightarrow> bytes" where
  "hash_transparent_txid_data dx t_digests =
     hasher dx ZCASH_TRANSPARENT_HASH_PERSONALIZATION (transparent_txid_data t_digests)"

definition sapling_txid_data ::
  "'ob digest_ext \<Rightarrow> ('cv, 'fe, 'cmu, 'rk) sapling_ext \<Rightarrow> tx_version \<Rightarrow> ('cv, 'fe, 'cmu, 'rk) sapling_bundle \<Rightarrow> bytes" where
  "sapling_txid_data dx sx version bundle =
     (if \<not> (sap_spends bundle = [] \<and> sap_outputs bundle = []) then
        hash_sapling_spends dx sx version (sap_spends bundle)
        @ hash_sapling_outputs dx sx (sap_outputs bundle)
        @ ZatBalance_to_i64_le_bytes (sap_value_balance bundle)
      else [])"

definition hash_sapling_txid_data ::
  "'ob digest_ext \<Rightarrow> ('cv, 'fe, 'cmu, 'rk) sapling_ext \<Rightarrow> tx_version \<Rightarrow> ('cv, 'fe, 'cmu, 'rk) sapling_bundle \<Rightarrow> bytes" where
  "hash_sapling_txid_data dx sx version bundle =
     hasher dx ZCASH_SAPLING_HASH_PERSONALIZATION (sapling_txid_data dx sx version bundle)"

definition hash_sapling_txid_empty :: "'ob digest_ext \<Rightarrow> bytes" where
  "hash_sapling_txid_empty dx = hasher dx ZCASH_SAPLING_HASH_PERSONALIZATION []"

subsection \<open>The transaction identifier\<close>

record tx_digests =
  txd_header_digest :: bytes
  txd_transparent_digests :: "transparent_digests option"
  txd_sapling_digest :: "bytes option"
  txd_orchard_digest :: "bytes option"
  txd_ironwood_digest :: "bytes option"
  txd_crosslink_digest :: "bytes option"

text \<open>An optional bundle digested by a function that can panic.\<close>

definition map_digest :: "('b \<Rightarrow> bytes option) \<Rightarrow> 'b option \<Rightarrow> bytes option option" where
  "map_digest f b = (case b of None \<Rightarrow> Some None | Some b \<Rightarrow> map_option Some (f b))"

definition txid_digest_orchard ::
  "'ob digest_ext \<Rightarrow> tx_version \<Rightarrow> 'ob option \<Rightarrow> bytes option option" where
  "txid_digest_orchard dx version orchard_bundle =
     map_digest (\<lambda>b. dx_commitment dx b (snd (orchard_commitment_domain version))) orchard_bundle"

definition txid_digest_ironwood :: "'ob digest_ext \<Rightarrow> 'ob option \<Rightarrow> bytes option option" where
  "txid_digest_ironwood dx ironwood_bundle =
     map_digest (\<lambda>b. dx_commitment dx b (snd ironwood_v6_domain)) ironwood_bundle"

definition txid_digest_crosslink :: "'ob digest_ext \<Rightarrow> staking_action option \<Rightarrow> bytes option" where
  "txid_digest_crosslink dx staking_action = map_option (\<lambda>action.
     hasher dx ZCASH_CROSSLINK_HASH_PERSONALIZATION (StakingAction_write (Some action))) staking_action"

text \<open>\<open>TransactionData::digest(TxIdDigester)\<close>.\<close>

definition txid_digests ::
  "'ob digest_ext \<Rightarrow> ('i, 'o) transparent_ext \<Rightarrow> ('cv, 'fe, 'cmu, 'rk) sapling_ext
     \<Rightarrow> (('i, 'o) transparent_bundle, ('cv, 'fe, 'cmu, 'rk) sapling_bundle, 'ob) transaction_data
     \<Rightarrow> tx_digests option" where
  "txid_digests dx tp sx data =
     Option.bind (txid_digest_orchard dx (td_version data) (td_orchard_bundle data)) (\<lambda>orchard_digest.
     Option.bind (txid_digest_ironwood dx (td_ironwood_bundle data)) (\<lambda>ironwood_digest.
     Some \<lparr>txd_header_digest = hash_header_txid_data dx (td_version data) (td_consensus_branch_id data)
             (td_lock_time data) (td_expiry_height data),
           txd_transparent_digests = map_option (transparent_digests_of dx tp) (td_transparent_bundle data),
           txd_sapling_digest = map_option (hash_sapling_txid_data dx sx (td_version data)) (td_sapling_bundle data),
           txd_orchard_digest = orchard_digest,
           txd_ironwood_digest = ironwood_digest,
           txd_crosslink_digest = txid_digest_crosslink dx (td_staking_action data)\<rparr>))"

definition or_empty :: "'ob digest_ext \<Rightarrow> value_pool \<times> orchard_tx_version \<Rightarrow> bytes option \<Rightarrow> bytes option" where
  "or_empty dx domain digest = (case digest of Some d \<Rightarrow> Some d
     | None \<Rightarrow> dx_bundle_txid_empty dx (fst domain) (snd domain))"

definition tx_personal :: "bytes \<Rightarrow> u32 \<Rightarrow> bytes" where
  "tx_personal prefix branch = prefix @ write_u32_le branch"

definition to_hash ::
  "'ob digest_ext \<Rightarrow> tx_version \<Rightarrow> branch_id \<Rightarrow> bytes \<Rightarrow> bytes \<Rightarrow> bytes option \<Rightarrow> bytes option
     \<Rightarrow> bytes option \<Rightarrow> bytes option" where
  "to_hash dx txversion consensus_branch_id header_digest transparent_digest sapling_digest
       orchard_digest crosslink_digest =
     Option.bind (or_empty dx (orchard_commitment_domain txversion) orchard_digest) (\<lambda>orchard.
     Some (hasher dx (tx_personal ZCASH_TX_PERSONALIZATION_PREFIX
             (wire_consensus_branch_id txversion consensus_branch_id))
       (header_digest
        @ transparent_digest
        @ (case sapling_digest of Some d \<Rightarrow> d | None \<Rightarrow> hash_sapling_txid_empty dx)
        @ orchard
        @ (case crosslink_digest of Some d \<Rightarrow> d | None \<Rightarrow> []))))"

definition to_hash_v6 ::
  "'ob digest_ext \<Rightarrow> branch_id \<Rightarrow> bytes \<Rightarrow> bytes \<Rightarrow> bytes option \<Rightarrow> bytes option
     \<Rightarrow> bytes option \<Rightarrow> bytes option" where
  "to_hash_v6 dx consensus_branch_id header_digest transparent_digest sapling_digest
       orchard_digest ironwood_digest =
     Option.bind (or_empty dx (orchard_commitment_domain V6) orchard_digest) (\<lambda>orchard.
     Option.bind (or_empty dx ironwood_v6_domain ironwood_digest) (\<lambda>ironwood.
     Some (hasher dx (tx_personal ZCASH_TX_PERSONALIZATION_PREFIX (u32_from_BranchId consensus_branch_id))
       (header_digest
        @ transparent_digest
        @ (case sapling_digest of Some d \<Rightarrow> d | None \<Rightarrow> hash_sapling_txid_empty dx)
        @ orchard
        @ ironwood))))"

definition to_txid :: "'ob digest_ext \<Rightarrow> tx_version \<Rightarrow> branch_id \<Rightarrow> tx_digests \<Rightarrow> tx_id option" where
  "to_txid dx txversion consensus_branch_id digests = map_option TxId
     (if version_has_ironwood txversion then
        to_hash_v6 dx consensus_branch_id (txd_header_digest digests)
          (hash_transparent_txid_data dx (txd_transparent_digests digests))
          (txd_sapling_digest digests) (txd_orchard_digest digests) (txd_ironwood_digest digests)
      else
        to_hash dx txversion consensus_branch_id (txd_header_digest digests)
          (hash_transparent_txid_data dx (txd_transparent_digests digests))
          (txd_sapling_digest digests) (txd_orchard_digest digests) (txd_crosslink_digest digests))"

text \<open>\<open>to_txid(version, branch, &data.digest(TxIdDigester))\<close>, as the versions from 5 on use it.\<close>

definition data_txid ::
  "'ob digest_ext \<Rightarrow> ('i, 'o) transparent_ext \<Rightarrow> ('cv, 'fe, 'cmu, 'rk) sapling_ext
     \<Rightarrow> (('i, 'o) transparent_bundle, ('cv, 'fe, 'cmu, 'rk) sapling_bundle, 'ob) transaction_data
     \<Rightarrow> tx_id option" where
  "data_txid dx tp sx data = Option.bind (txid_digests dx tp sx data)
     (to_txid dx (td_version data) (td_consensus_branch_id data))"

subsection \<open>The commitment to the authorizing data\<close>

definition auth_digest_transparent ::
  "'ob digest_ext \<Rightarrow> ('i, 'o) transparent_ext \<Rightarrow> ('i, 'o) transparent_bundle option \<Rightarrow> bytes" where
  "auth_digest_transparent dx tp transparent_bundle =
     hasher dx ZCASH_TRANSPARENT_SCRIPTS_HASH_PERSONALIZATION
       (case transparent_bundle of None \<Rightarrow> []
        | Some bundle \<Rightarrow> concat (map (tp_script_sig_bytes tp) (tb_vin bundle)))"

definition auth_digest_sapling ::
  "'ob digest_ext \<Rightarrow> ('cv, 'fe, 'cmu, 'rk) sapling_ext \<Rightarrow> tx_version
     \<Rightarrow> ('cv, 'fe, 'cmu, 'rk) sapling_bundle option \<Rightarrow> bytes" where
  "auth_digest_sapling dx sx version sapling_bundle =
     hasher dx (sapling_auth_personalization version)
       (case sapling_bundle of None \<Rightarrow> []
        | Some bundle \<Rightarrow>
            concat (map sd_zkproof (sap_spends bundle))
            @ concat (map sd_spend_auth_sig (sap_spends bundle))
            @ concat (map od_zkproof (sap_outputs bundle))
            @ sap_binding_sig bundle
            @ (if sapling_auth_includes_anchor version then
                 (case sap_spends bundle of [] \<Rightarrow> [] | spend # _ \<Rightarrow> el_bytes (sx_base sx) (sd_anchor spend))
               else []))"

definition auth_digest_orchard ::
  "'ob digest_ext \<Rightarrow> value_pool \<times> orchard_tx_version \<Rightarrow> 'ob option \<Rightarrow> bytes option" where
  "auth_digest_orchard dx domain bundle = (case bundle of
     None \<Rightarrow> dx_bundle_auth_empty dx (fst domain) (snd domain)
   | Some b \<Rightarrow> dx_authorizing_commitment dx b (snd domain))"

definition auth_digest_crosslink :: "'ob digest_ext \<Rightarrow> staking_action option \<Rightarrow> bytes" where
  "auth_digest_crosslink dx staking_action = hasher dx ZCASH_CROSSLINK_HASH_PERSONALIZATION
     (case staking_action of None \<Rightarrow> [] | Some action \<Rightarrow> StakingAction_write (Some action))"

definition auth_combine ::
  "'ob digest_ext \<Rightarrow> tx_version \<times> branch_id \<Rightarrow> bytes \<Rightarrow> bytes \<Rightarrow> bytes \<Rightarrow> bytes \<Rightarrow> bytes \<Rightarrow> bytes" where
  "auth_combine dx tx_context transparent_digest sapling_digest orchard_digest ironwood_digest
       crosslink_digest = (case tx_context of (txversion, consensus_branch_id) \<Rightarrow>
     hasher dx (tx_personal ZCASH_AUTH_PERSONALIZATION_PREFIX
         (wire_consensus_branch_id txversion consensus_branch_id))
       (transparent_digest @ sapling_digest @ orchard_digest @ crosslink_digest
        @ (if version_has_ironwood txversion then ironwood_digest else [])))"

text \<open>\<open>Transaction::auth_commitment\<close>: \<open>digest(BlockTxCommitmentDigester)\<close>.\<close>

definition auth_commitment ::
  "'ob digest_ext \<Rightarrow> ('i, 'o) transparent_ext \<Rightarrow> ('cv, 'fe, 'cmu, 'rk) sapling_ext
     \<Rightarrow> (('i, 'o) transparent_bundle, ('cv, 'fe, 'cmu, 'rk) sapling_bundle, 'ob) transaction_data
     \<Rightarrow> bytes option" where
  "auth_commitment dx tp sx data =
     Option.bind (auth_digest_orchard dx (orchard_commitment_domain (td_version data)) (td_orchard_bundle data))
       (\<lambda>orchard_digest.
     Option.bind (auth_digest_orchard dx ironwood_v6_domain (td_ironwood_bundle data)) (\<lambda>ironwood_digest.
     Some (auth_combine dx (td_version data, td_consensus_branch_id data)
       (auth_digest_transparent dx tp (td_transparent_bundle data))
       (auth_digest_sapling dx sx (td_version data) (td_sapling_bundle data))
       orchard_digest ironwood_digest
       (auth_digest_crosslink dx (td_staking_action data)))))"

end
