(* ===== verification/Transaction.thy ===== *)
theory Transaction
  imports TxId
begin

text \<open>
  The transaction formats (\<open>Transaction\<close> of \<open>zcash_primitives/src/transaction/mod.rs\<close>): reading and
  writing versions up to 4, version 5, version 6 and Crosslink, and the identifier computed by each.
  The readers return an option: its \<open>None\<close> is the panic of a digest that has no value.
\<close>

subsection \<open>The external code\<close>

record ('i, 'o, 'cv, 'fe, 'cmu, 'rk, 'ocv, 'nf, 'ork, 'cmx, 'an, 'fl) tx_ext =
  te_transparent :: "('i, 'o) transparent_ext"
  te_sapling :: "('cv, 'fe, 'cmu, 'rk) sapling_ext"
  te_orchard :: "('ocv, 'nf, 'ork, 'cmx, 'an, 'fl) orchard_ext"
  te_digest :: "('ocv, 'nf, 'ork, 'cmx, 'an, 'fl) orchard_bundle digest_ext"
  te_joinsplits :: "js_description vector_io"
  te_cs :: compact_size

type_synonym ('i, 'o, 'cv, 'fe, 'cmu, 'rk, 'ocv, 'nf, 'ork, 'cmx, 'an, 'fl) authorized_data =
  "(('i, 'o) transparent_bundle, ('cv, 'fe, 'cmu, 'rk) sapling_bundle,
    ('ocv, 'nf, 'ork, 'cmx, 'an, 'fl) orchard_bundle) transaction_data"

type_synonym ('i, 'o, 'cv, 'fe, 'cmu, 'rk, 'ocv, 'nf, 'ork, 'cmx, 'an, 'fl) authorized_tx =
  "(('i, 'o) transparent_bundle, ('cv, 'fe, 'cmu, 'rk) sapling_bundle,
    ('ocv, 'nf, 'ork, 'cmx, 'an, 'fl) orchard_bundle) transaction"

subsection \<open>Writing\<close>

definition write_sprout_bundle where
  "write_sprout_bundle te sprout_bundle = (case sprout_bundle of
     Some bundle \<Rightarrow> vec_write (te_joinsplits te) JsDescription_write (sb_joinsplits bundle)
       @ sb_joinsplit_pubkey bundle @ sb_joinsplit_sig bundle
   | None \<Rightarrow> cs_write (te_cs te) 0)"

definition write_v4 ::
  "('i, 'o, 'cv, 'fe, 'cmu, 'rk, 'ocv, 'nf, 'ork, 'cmx, 'an, 'fl) tx_ext
     \<Rightarrow> ('i, 'o, 'cv, 'fe, 'cmu, 'rk, 'ocv, 'nf, 'ork, 'cmx, 'an, 'fl) authorized_data \<Rightarrow> io_error + bytes" where
  "write_v4 te tx =
     (if td_orchard_bundle tx \<noteq> None then Inl (InvalidInput
        ''Orchard components cannot be present when serializing to the V4 transaction format.'')
      else res_bind (write_v4_components (te_sapling te) (td_sapling_bundle tx) (version_has_sapling (td_version tx)))
        (\<lambda>components. Inr (
          TxVersion_write (td_version tx)
          @ write_transparent (te_transparent te) (td_transparent_bundle tx)
          @ write_u32_le (td_lock_time tx)
          @ (if version_has_overwinter (td_version tx)
             then write_u32_le (u32_from_BlockHeight (td_expiry_height tx)) else [])
          @ components
          @ (if version_has_sprout (td_version tx) then write_sprout_bundle te (td_sprout_bundle tx) else [])
          @ (if version_has_sapling (td_version tx)
             then (case td_sapling_bundle tx of Some bundle \<Rightarrow> sap_binding_sig bundle | None \<Rightarrow> [])
             else []))))"

definition write_v5_header where
  "write_v5_header tx =
     TxVersion_write (td_version tx)
     @ write_u32_le (wire_consensus_branch_id (td_version tx) (td_consensus_branch_id tx))
     @ write_u32_le (td_lock_time tx)
     @ write_u32_le (u32_from_BlockHeight (td_expiry_height tx))"

definition write_v6_header where
  "write_v6_header tx =
     TxVersion_write (td_version tx)
     @ write_u32_le (u32_from_BranchId (td_consensus_branch_id tx))
     @ write_u32_le (td_lock_time tx)
     @ write_u32_le (u32_from_BlockHeight (td_expiry_height tx))"

definition write_v5 ::
  "('i, 'o, 'cv, 'fe, 'cmu, 'rk, 'ocv, 'nf, 'ork, 'cmx, 'an, 'fl) tx_ext
     \<Rightarrow> ('i, 'o, 'cv, 'fe, 'cmu, 'rk, 'ocv, 'nf, 'ork, 'cmx, 'an, 'fl) authorized_data \<Rightarrow> io_error + bytes" where
  "write_v5 te tx =
     (if td_sprout_bundle tx \<noteq> None then Inl (InvalidInput
        ''Sprout components cannot be present when serializing to the V5 transaction format.'')
      else Inr (
        write_v5_header tx
        @ write_transparent (te_transparent te) (td_transparent_bundle tx)
        @ write_v5_bundle (te_sapling te) (td_sapling_bundle tx)
        @ write_orchard_v5_bundle (te_orchard te) (td_orchard_bundle tx)))"

definition write_v6 ::
  "('i, 'o, 'cv, 'fe, 'cmu, 'rk, 'ocv, 'nf, 'ork, 'cmx, 'an, 'fl) tx_ext
     \<Rightarrow> ('i, 'o, 'cv, 'fe, 'cmu, 'rk, 'ocv, 'nf, 'ork, 'cmx, 'an, 'fl) authorized_data \<Rightarrow> io_error + bytes" where
  "write_v6 te tx =
     (if td_sprout_bundle tx \<noteq> None then Inl (InvalidInput
        ''Sprout components cannot be present when serializing to the V6 transaction format.'')
      else
        res_bind (write_v6_bundle (te_orchard te) (td_orchard_bundle tx)) (\<lambda>orchard.
        res_bind (write_v6_bundle (te_orchard te) (td_ironwood_bundle tx)) (\<lambda>ironwood. Inr (
        write_v6_header tx
        @ write_transparent (te_transparent te) (td_transparent_bundle tx)
        @ write_v5_bundle (te_sapling te) (td_sapling_bundle tx)
        @ orchard
        @ ironwood))))"

definition write_vcrosslink ::
  "('i, 'o, 'cv, 'fe, 'cmu, 'rk, 'ocv, 'nf, 'ork, 'cmx, 'an, 'fl) tx_ext
     \<Rightarrow> ('i, 'o, 'cv, 'fe, 'cmu, 'rk, 'ocv, 'nf, 'ork, 'cmx, 'an, 'fl) authorized_data \<Rightarrow> io_error + bytes" where
  "write_vcrosslink te tx =
     (if td_sprout_bundle tx \<noteq> None then Inl (InvalidInput
        ''Sprout components cannot be present when serializing to the VCrosslink transaction format.'')
      else if td_ironwood_bundle tx \<noteq> None then Inl (InvalidInput
        ''Ironwood components cannot be present when serializing to the VCrosslink transaction format.'')
      else Inr (
        write_v5_header tx
        @ write_transparent (te_transparent te) (td_transparent_bundle tx)
        @ write_v5_bundle (te_sapling te) (td_sapling_bundle tx)
        @ write_orchard_v5_bundle (te_orchard te) (td_orchard_bundle tx)
        @ StakingAction_write (td_staking_action tx)))"

definition Transaction_write ::
  "('i, 'o, 'cv, 'fe, 'cmu, 'rk, 'ocv, 'nf, 'ork, 'cmx, 'an, 'fl) tx_ext
     \<Rightarrow> ('i, 'o, 'cv, 'fe, 'cmu, 'rk, 'ocv, 'nf, 'ork, 'cmx, 'an, 'fl) authorized_data \<Rightarrow> io_error + bytes" where
  "Transaction_write te tx = (case td_version tx of
     Sprout _ \<Rightarrow> write_v4 te tx
   | V3 \<Rightarrow> write_v4 te tx
   | V4 \<Rightarrow> write_v4 te tx
   | V5 \<Rightarrow> write_v5 te tx
   | V6 \<Rightarrow> write_v6 te tx
   | VCrosslink \<Rightarrow> write_vcrosslink te tx)"

subsection \<open>Freezing data into a transaction\<close>

definition from_data_v4 ::
  "('i, 'o, 'cv, 'fe, 'cmu, 'rk, 'ocv, 'nf, 'ork, 'cmx, 'an, 'fl) tx_ext
     \<Rightarrow> ('i, 'o, 'cv, 'fe, 'cmu, 'rk, 'ocv, 'nf, 'ork, 'cmx, 'an, 'fl) authorized_data
     \<Rightarrow> io_error + ('i, 'o, 'cv, 'fe, 'cmu, 'rk, 'ocv, 'nf, 'ork, 'cmx, 'an, 'fl) authorized_tx" where
  "from_data_v4 te data = map_ok (\<lambda>bs.
     \<lparr>tx_txid = TxId (dx_sha256d (te_digest te) bs), tx_data = data\<rparr>) (Transaction_write te data)"

text \<open>\<open>from_data_v5\<close>, \<open>from_data_v6\<close> and \<open>from_data_vcrosslink\<close> have the same body.\<close>

definition from_data_v5 ::
  "('i, 'o, 'cv, 'fe, 'cmu, 'rk, 'ocv, 'nf, 'ork, 'cmx, 'an, 'fl) tx_ext
     \<Rightarrow> ('i, 'o, 'cv, 'fe, 'cmu, 'rk, 'ocv, 'nf, 'ork, 'cmx, 'an, 'fl) authorized_data
     \<Rightarrow> ('i, 'o, 'cv, 'fe, 'cmu, 'rk, 'ocv, 'nf, 'ork, 'cmx, 'an, 'fl) authorized_tx option" where
  "from_data_v5 te data = map_option (\<lambda>txid. \<lparr>tx_txid = txid, tx_data = data\<rparr>)
     (data_txid (te_digest te) (te_transparent te) (te_sapling te) data)"

definition from_data_v6 where "from_data_v6 te data = from_data_v5 te data"
definition from_data_vcrosslink where "from_data_vcrosslink te data = from_data_v5 te data"

definition Transaction_from_data ::
  "('i, 'o, 'cv, 'fe, 'cmu, 'rk, 'ocv, 'nf, 'ork, 'cmx, 'an, 'fl) tx_ext
     \<Rightarrow> ('i, 'o, 'cv, 'fe, 'cmu, 'rk, 'ocv, 'nf, 'ork, 'cmx, 'an, 'fl) authorized_data
     \<Rightarrow> (io_error + ('i, 'o, 'cv, 'fe, 'cmu, 'rk, 'ocv, 'nf, 'ork, 'cmx, 'an, 'fl) authorized_tx) option" where
  "Transaction_from_data te data = (case td_version data of
     Sprout _ \<Rightarrow> Some (from_data_v4 te data)
   | V3 \<Rightarrow> Some (from_data_v4 te data)
   | V4 \<Rightarrow> Some (from_data_v4 te data)
   | V5 \<Rightarrow> map_option Inr (from_data_v5 te data)
   | V6 \<Rightarrow> map_option Inr (from_data_v6 te data)
   | VCrosslink \<Rightarrow> map_option Inr (from_data_vcrosslink te data))"

subsection \<open>Reading versions up to 4\<close>

text \<open>A reader together with the bytes it consumed, as \<open>HashReader\<close> hashes them.\<close>

definition rconsumed :: "'a reader \<Rightarrow> ('a \<times> bytes) reader" where
  "rconsumed rd = (\<lambda>bs. case rd bs of Inl e \<Rightarrow> Inl e
     | Inr (x, rest) \<Rightarrow> Inr ((x, take (length bs - length rest) bs), rest))"

definition read_expiry_height :: "tx_version \<Rightarrow> block_height reader" where
  "read_expiry_height version =
     (if version_has_overwinter version then rbind read_u32_le (\<lambda>h. rret (BlockHeight h)) else rret (BlockHeight 0))"

definition read_sprout_bundle where
  "read_sprout_bundle te version =
     (if version_has_sprout version then
        rbind (vec_read (te_joinsplits te) (JsDescription_read (version_has_sapling version))) (\<lambda>joinsplits.
        if joinsplits \<noteq> [] then
          rbind (read_exact 32) (\<lambda>joinsplit_pubkey.
          rbind (read_exact 64) (\<lambda>joinsplit_sig.
          rret (Some \<lparr>sb_joinsplits = joinsplits, sb_joinsplit_pubkey = joinsplit_pubkey,
            sb_joinsplit_sig = joinsplit_sig\<rparr>)))
        else rret None)
      else rret None)"

definition read_binding_sig :: "bool \<Rightarrow> bytes option reader" where
  "read_binding_sig present = (if present then rbind (read_exact 64) (\<lambda>sig. rret (Some sig)) else rret None)"

definition read_v4_data ::
  "('i, 'o, 'cv, 'fe, 'cmu, 'rk, 'ocv, 'nf, 'ork, 'cmx, 'an, 'fl) tx_ext \<Rightarrow> tx_version \<Rightarrow> branch_id
     \<Rightarrow> ('i, 'o, 'cv, 'fe, 'cmu, 'rk, 'ocv, 'nf, 'ork, 'cmx, 'an, 'fl) authorized_data reader" where
  "read_v4_data te version consensus_branch_id =
     rbind (read_transparent (te_transparent te)) (\<lambda>transparent_bundle.
     rbind read_u32_le (\<lambda>lock_time.
     rbind (read_expiry_height version) (\<lambda>expiry_height.
     rbind (read_v4_components (te_sapling te) (version_has_sapling version))
       (\<lambda>(value_balance, shielded_spends, shielded_outputs).
     rbind (read_sprout_bundle te version) (\<lambda>sprout_bundle.
     rbind (read_binding_sig (version_has_sapling version
         \<and> \<not> (shielded_spends = [] \<and> shielded_outputs = []))) (\<lambda>binding_sig.
     rret \<lparr>td_version = version, td_consensus_branch_id = consensus_branch_id, td_lock_time = lock_time,
       td_expiry_height = expiry_height, td_transparent_bundle = transparent_bundle,
       td_sprout_bundle = sprout_bundle,
       td_sapling_bundle = Option.bind binding_sig (\<lambda>binding_sig.
         sx_from_parts (te_sapling te) shielded_spends shielded_outputs value_balance binding_sig),
       td_orchard_bundle = None, td_ironwood_bundle = None, td_staking_action = None\<rparr>))))))"

text \<open>The identifier is the hash of the bytes that were read, the \<open>hashed\<close> ones before the call included.\<close>

definition read_v4 ::
  "('i, 'o, 'cv, 'fe, 'cmu, 'rk, 'ocv, 'nf, 'ork, 'cmx, 'an, 'fl) tx_ext \<Rightarrow> bytes \<Rightarrow> tx_version \<Rightarrow> branch_id
     \<Rightarrow> ('i, 'o, 'cv, 'fe, 'cmu, 'rk, 'ocv, 'nf, 'ork, 'cmx, 'an, 'fl) authorized_tx reader" where
  "read_v4 te hashed version consensus_branch_id =
     rbind (rconsumed (read_v4_data te version consensus_branch_id)) (\<lambda>(data, bytes).
     rret \<lparr>tx_txid = TxId (dx_sha256d (te_digest te) (hashed @ bytes)), tx_data = data\<rparr>)"

subsection \<open>Reading versions from 5\<close>

definition read_header_fragment :: "(branch_id \<times> u32 \<times> block_height) reader" where
  "read_header_fragment =
     rbind (rbind read_u32_le (\<lambda>v. rlift (map_err (\<lambda>_. InvalidData ''invalid consensus branch id'')
       (BranchId_try_from_u32 v)))) (\<lambda>consensus_branch_id.
     rbind read_u32_le (\<lambda>lock_time.
     rbind read_u32_le (\<lambda>h.
     rret (consensus_branch_id, lock_time, BlockHeight h))))"

definition read_v6_header_fragment :: "(branch_id \<times> u32 \<times> block_height) reader" where
  "read_v6_header_fragment = read_header_fragment"

definition read_v5 ::
  "('i, 'o, 'cv, 'fe, 'cmu, 'rk, 'ocv, 'nf, 'ork, 'cmx, 'an, 'fl) tx_ext \<Rightarrow> tx_version
     \<Rightarrow> ('i, 'o, 'cv, 'fe, 'cmu, 'rk, 'ocv, 'nf, 'ork, 'cmx, 'an, 'fl) authorized_tx option reader" where
  "read_v5 te version =
     rbind read_header_fragment (\<lambda>(consensus_branch_id, lock_time, expiry_height).
     rbind (read_transparent (te_transparent te)) (\<lambda>transparent_bundle.
     rbind (read_v5_bundle (te_sapling te)) (\<lambda>sapling_bundle.
     rbind (read_orchard_v5_bundle (te_orchard te) consensus_branch_id) (\<lambda>orchard_bundle.
     rret (from_data_v5 te \<lparr>td_version = version, td_consensus_branch_id = consensus_branch_id,
       td_lock_time = lock_time, td_expiry_height = expiry_height,
       td_transparent_bundle = transparent_bundle, td_sprout_bundle = None,
       td_sapling_bundle = sapling_bundle, td_orchard_bundle = orchard_bundle,
       td_ironwood_bundle = None, td_staking_action = None\<rparr>)))))"

definition read_vcrosslink ::
  "('i, 'o, 'cv, 'fe, 'cmu, 'rk, 'ocv, 'nf, 'ork, 'cmx, 'an, 'fl) tx_ext \<Rightarrow> tx_version
     \<Rightarrow> ('i, 'o, 'cv, 'fe, 'cmu, 'rk, 'ocv, 'nf, 'ork, 'cmx, 'an, 'fl) authorized_tx option reader" where
  "read_vcrosslink te version =
     rbind read_header_fragment (\<lambda>(consensus_branch_id, lock_time, expiry_height).
     rbind (read_transparent (te_transparent te)) (\<lambda>transparent_bundle.
     rbind (read_v5_bundle (te_sapling te)) (\<lambda>sapling_bundle.
     rbind (read_orchard_v5_bundle (te_orchard te) consensus_branch_id) (\<lambda>orchard_bundle.
     rbind StakingAction_read (\<lambda>staking_action.
     rret (from_data_vcrosslink te \<lparr>td_version = version, td_consensus_branch_id = consensus_branch_id,
       td_lock_time = lock_time, td_expiry_height = expiry_height,
       td_transparent_bundle = transparent_bundle, td_sprout_bundle = None,
       td_sapling_bundle = sapling_bundle, td_orchard_bundle = orchard_bundle,
       td_ironwood_bundle = None, td_staking_action = staking_action\<rparr>))))))"

definition read_v6 ::
  "('i, 'o, 'cv, 'fe, 'cmu, 'rk, 'ocv, 'nf, 'ork, 'cmx, 'an, 'fl) tx_ext \<Rightarrow> tx_version
     \<Rightarrow> ('i, 'o, 'cv, 'fe, 'cmu, 'rk, 'ocv, 'nf, 'ork, 'cmx, 'an, 'fl) authorized_tx option reader" where
  "read_v6 te version =
     rbind read_v6_header_fragment (\<lambda>(consensus_branch_id, lock_time, expiry_height).
     rbind (read_transparent (te_transparent te)) (\<lambda>transparent_bundle.
     rbind (read_v5_bundle (te_sapling te)) (\<lambda>sapling_bundle.
     rbind (read_v6_bundle (te_orchard te) consensus_branch_id PoolOrchard) (\<lambda>orchard_bundle.
     rbind (read_v6_bundle (te_orchard te) consensus_branch_id PoolIronwood) (\<lambda>ironwood_bundle.
     rret (from_data_v6 te \<lparr>td_version = version, td_consensus_branch_id = consensus_branch_id,
       td_lock_time = lock_time, td_expiry_height = expiry_height,
       td_transparent_bundle = transparent_bundle, td_sprout_bundle = None,
       td_sapling_bundle = sapling_bundle, td_orchard_bundle = orchard_bundle,
       td_ironwood_bundle = ironwood_bundle, td_staking_action = None\<rparr>))))))"

definition Transaction_read ::
  "('i, 'o, 'cv, 'fe, 'cmu, 'rk, 'ocv, 'nf, 'ork, 'cmx, 'an, 'fl) tx_ext \<Rightarrow> branch_id
     \<Rightarrow> ('i, 'o, 'cv, 'fe, 'cmu, 'rk, 'ocv, 'nf, 'ork, 'cmx, 'an, 'fl) authorized_tx option reader" where
  "Transaction_read te consensus_branch_id =
     rbind (rconsumed TxVersion_read) (\<lambda>(version, hashed). case version of
       Sprout _ \<Rightarrow> rbind (read_v4 te hashed version consensus_branch_id) (\<lambda>tx. rret (Some tx))
     | V3 \<Rightarrow> rbind (read_v4 te hashed version consensus_branch_id) (\<lambda>tx. rret (Some tx))
     | V4 \<Rightarrow> rbind (read_v4 te hashed version consensus_branch_id) (\<lambda>tx. rret (Some tx))
     | V5 \<Rightarrow> read_v5 te version
     | V6 \<Rightarrow> read_v6 te version
     | VCrosslink \<Rightarrow> read_vcrosslink te version)"

subsection \<open>The formats from version 5\<close>

definition tx_ext_ok ::
  "('i, 'o, 'cv, 'fe, 'cmu, 'rk, 'ocv, 'nf, 'ork, 'cmx, 'an, 'fl) tx_ext \<Rightarrow> bool" where
  "tx_ext_ok te \<longleftrightarrow> transparent_ext_ok (te_transparent te) \<and> sapling_ext_ok (te_sapling te)
     \<and> orchard_ext_ok (te_orchard te) \<and> compact_size_ok (te_cs te) \<and> vector_ok (te_cs te) (te_joinsplits te)"

lemma rconsumed_iff:
  "rconsumed rd bs = Inr ((x, w), rest) \<longleftrightarrow>
     rd bs = Inr (x, rest) \<and> w = take (length bs - length rest) bs"
  by (auto simp: rconsumed_def split: sum.splits)

lemma rconsumed_codec:
  assumes "exact_codec rd wr ok"
  shows "rconsumed rd bs = Inr ((x, w), rest) \<longleftrightarrow> ok x \<and> bs = wr x @ rest \<and> w = wr x"
  by (auto simp: rconsumed_iff exact_codec.rd_iff [OF assms])

lemma header_fragment_iff:
  "read_header_fragment bs = Inr ((b, l, h), rest) \<longleftrightarrow>
     bs = write_u32_le (u32_from_BranchId b) @ write_u32_le l @ write_u32_le (u32_from_BlockHeight h) @ rest"
  by (cases h) (auto simp: read_header_fragment_def u32_codec.rd_iff BranchId_try_from_iff u32_from_BlockHeight_def)

lemma read_dispatch:
  "Transaction_read te b bs = Inr (ot, rest) \<longleftrightarrow>
     (\<exists>v r. wf_tx_version v \<and> bs = TxVersion_write v @ r
        \<and> (case v of V5 \<Rightarrow> read_v5 te v r = Inr (ot, rest) | V6 \<Rightarrow> read_v6 te v r = Inr (ot, rest)
           | VCrosslink \<Rightarrow> read_vcrosslink te v r = Inr (ot, rest)
           | _ \<Rightarrow> \<exists>t. ot = Some t \<and> read_v4 te (TxVersion_write v) v b r = Inr (t, rest)))"
proof -
  let ?f = "\<lambda>(version, hashed). case version of
       Sprout _ \<Rightarrow> rbind (read_v4 te hashed version b) (\<lambda>tx. rret (Some tx))
     | V3 \<Rightarrow> rbind (read_v4 te hashed version b) (\<lambda>tx. rret (Some tx))
     | V4 \<Rightarrow> rbind (read_v4 te hashed version b) (\<lambda>tx. rret (Some tx))
     | V5 \<Rightarrow> read_v5 te version | V6 \<Rightarrow> read_v6 te version | VCrosslink \<Rightarrow> read_vcrosslink te version"
  have step: "?f (v, h) r = Inr (ot, rest) \<longleftrightarrow>
      (case v of V5 \<Rightarrow> read_v5 te v r = Inr (ot, rest) | V6 \<Rightarrow> read_v6 te v r = Inr (ot, rest)
           | VCrosslink \<Rightarrow> read_vcrosslink te v r = Inr (ot, rest)
           | _ \<Rightarrow> \<exists>t. ot = Some t \<and> read_v4 te h v b r = Inr (t, rest))" for v h r
    by (cases v) auto
  have "Transaction_read te b bs = Inr (ot, rest) \<longleftrightarrow>
      (\<exists>v h r. rconsumed TxVersion_read bs = Inr ((v, h), r) \<and> ?f (v, h) r = Inr (ot, rest))"
    by (simp only: Transaction_read_def rbind_iff split_paired_Ex)
  then show ?thesis
    unfolding step rconsumed_codec [OF version_codec.exact_codec_axioms] by blast
qed

lemma read_dispatch_at:
  assumes "wf_tx_version v"
  shows "Transaction_read te b (TxVersion_write v @ r) = Inr (ot, rest) \<longleftrightarrow>
    (case v of V5 \<Rightarrow> read_v5 te v r = Inr (ot, rest) | V6 \<Rightarrow> read_v6 te v r = Inr (ot, rest)
       | VCrosslink \<Rightarrow> read_vcrosslink te v r = Inr (ot, rest)
       | _ \<Rightarrow> \<exists>t. ot = Some t \<and> read_v4 te (TxVersion_write v) v b r = Inr (t, rest))"
  unfolding read_dispatch using version_codec.prefix_free [OF assms] assms by blast

text \<open>The well-formed data of each format, and their bytes after the version.\<close>

definition wf_later where
  "wf_later te d \<longleftrightarrow> td_sprout_bundle d = None
     \<and> pred_option (wf_transparent (te_transparent te)) (td_transparent_bundle d)
     \<and> pred_option (wf_v5_bundle (te_sapling te)) (td_sapling_bundle d)
     \<and> wf_orchard_slot (te_orchard te) (bundle_version_for_branch (td_consensus_branch_id d) PoolOrchard)
         (td_orchard_bundle d)
     \<and> (case td_version d of
          V5 \<Rightarrow> td_ironwood_bundle d = None \<and> td_staking_action d = None
        | V6 \<Rightarrow> wf_orchard_slot (te_orchard te) (bundle_version_for_branch (td_consensus_branch_id d) PoolIronwood)
                  (td_ironwood_bundle d) \<and> td_staking_action d = None
        | VCrosslink \<Rightarrow> td_ironwood_bundle d = None \<and> wf_opt_action (td_staking_action d)
        | _ \<Rightarrow> False)"

definition later_header_bytes where
  "later_header_bytes d = write_u32_le (u32_from_BranchId (td_consensus_branch_id d))
     @ write_u32_le (td_lock_time d) @ write_u32_le (u32_from_BlockHeight (td_expiry_height d))"

definition common_bytes where
  "common_bytes te d = later_header_bytes d
     @ write_transparent (te_transparent te) (td_transparent_bundle d)
     @ write_v5_bundle (te_sapling te) (td_sapling_bundle d)
     @ write_bundle (te_orchard te) (td_orchard_bundle d)"

definition tail_bytes where
  "tail_bytes te d = (case td_version d of
     V6 \<Rightarrow> write_bundle (te_orchard te) (td_ironwood_bundle d)
   | VCrosslink \<Rightarrow> StakingAction_write (td_staking_action d)
   | _ \<Rightarrow> [])"

text \<open>The fields that versions 5, 6 and Crosslink read.\<close>

definition later_data ::
  "tx_version \<Rightarrow> branch_id \<Rightarrow> u32 \<Rightarrow> block_height \<Rightarrow> 'tb option \<Rightarrow> 'sb option \<Rightarrow> 'ob option \<Rightarrow> 'ob option
     \<Rightarrow> staking_action option \<Rightarrow> ('tb, 'sb, 'ob) transaction_data" where
  "later_data v b l h tb sb ob ib sa = \<lparr>td_version = v, td_consensus_branch_id = b, td_lock_time = l,
     td_expiry_height = h, td_transparent_bundle = tb, td_sprout_bundle = None, td_sapling_bundle = sb,
     td_orchard_bundle = ob, td_ironwood_bundle = ib, td_staking_action = sa\<rparr>"

lemma later_data_sel [simp]:
  "td_version (later_data v b l h tb sb ob ib sa) = v"
  "td_consensus_branch_id (later_data v b l h tb sb ob ib sa) = b"
  "td_lock_time (later_data v b l h tb sb ob ib sa) = l"
  "td_expiry_height (later_data v b l h tb sb ob ib sa) = h"
  "td_transparent_bundle (later_data v b l h tb sb ob ib sa) = tb"
  "td_sprout_bundle (later_data v b l h tb sb ob ib sa) = None"
  "td_sapling_bundle (later_data v b l h tb sb ob ib sa) = sb"
  "td_orchard_bundle (later_data v b l h tb sb ob ib sa) = ob"
  "td_ironwood_bundle (later_data v b l h tb sb ob ib sa) = ib"
  "td_staking_action (later_data v b l h tb sb ob ib sa) = sa"
  by (simp_all add: later_data_def)

lemma later_data_ex:
  "(\<exists>d. td_sprout_bundle d = None \<and> P d) \<longleftrightarrow> (\<exists>v b l h tb sb ob ib sa. P (later_data v b l h tb sb ob ib sa))"
proof
  assume "\<exists>d. td_sprout_bundle d = None \<and> P d"
  then obtain d where d: "td_sprout_bundle d = None" "P d" by blast
  then have "d = later_data (td_version d) (td_consensus_branch_id d) (td_lock_time d) (td_expiry_height d)
      (td_transparent_bundle d) (td_sapling_bundle d) (td_orchard_bundle d) (td_ironwood_bundle d) (td_staking_action d)"
    by (simp add: later_data_def)
  with d(2) show "\<exists>v b l h tb sb ob ib sa. P (later_data v b l h tb sb ob ib sa)" by metis
next
  assume "\<exists>v b l h tb sb ob ib sa. P (later_data v b l h tb sb ob ib sa)"
  then show "\<exists>d. td_sprout_bundle d = None \<and> P d" using later_data_sel(6) by metis
qed

lemma wf_later_data:
  "wf_later te (later_data v b l h tb sb ob ib sa) \<longleftrightarrow>
     pred_option (wf_transparent (te_transparent te)) tb \<and> pred_option (wf_v5_bundle (te_sapling te)) sb
     \<and> wf_orchard_slot (te_orchard te) (bundle_version_for_branch b PoolOrchard) ob
     \<and> (case v of V5 \<Rightarrow> ib = None \<and> sa = None
        | V6 \<Rightarrow> wf_orchard_slot (te_orchard te) (bundle_version_for_branch b PoolIronwood) ib \<and> sa = None
        | VCrosslink \<Rightarrow> ib = None \<and> wf_opt_action sa | _ \<Rightarrow> False)"
  by (cases v) (simp_all add: wf_later_def)

lemma later_bytes:
  "common_bytes te (later_data v b l h tb sb ob ib sa) =
     write_u32_le (u32_from_BranchId b) @ write_u32_le l @ write_u32_le (u32_from_BlockHeight h)
     @ write_transparent (te_transparent te) tb @ write_v5_bundle (te_sapling te) sb @ write_bundle (te_orchard te) ob"
  "tail_bytes te (later_data v b l h tb sb ob ib sa) = (case v of
     V6 \<Rightarrow> write_bundle (te_orchard te) ib | VCrosslink \<Rightarrow> StakingAction_write sa | _ \<Rightarrow> [])"
  by (cases v; simp add: common_bytes_def later_header_bytes_def tail_bytes_def)+

lemma read_later_iff:
  assumes ok: "tx_ext_ok te"
  shows
  "read_v5 te V5 r = Inr (ot, rest) \<longleftrightarrow> (\<exists>d. td_sprout_bundle d = None \<and> td_version d = V5 \<and> wf_later te d
      \<and> ot = from_data_v5 te d \<and> r = common_bytes te d @ tail_bytes te d @ rest)"
  "read_v6 te V6 r = Inr (ot, rest) \<longleftrightarrow> (\<exists>d. td_sprout_bundle d = None \<and> td_version d = V6 \<and> wf_later te d
      \<and> ot = from_data_v5 te d \<and> r = common_bytes te d @ tail_bytes te d @ rest)"
  "read_vcrosslink te VCrosslink r = Inr (ot, rest) \<longleftrightarrow> (\<exists>d. td_sprout_bundle d = None \<and> td_version d = VCrosslink
      \<and> wf_later te d \<and> ot = from_data_v5 te d \<and> r = common_bytes te d @ tail_bytes te d @ rest)"
proof -
  have exts: "transparent_ext_ok (te_transparent te)" "sapling_ext_ok (te_sapling te)" "orchard_ext_ok (te_orchard te)"
    using ok by (simp_all add: tx_ext_ok_def)
  note iffs = header_fragment_iff transparent_iff [OF exts(1)] sapling_v5_iff [OF exts(2)]
    orchard_bundle_iff [OF exts(3)] action_codec.rd_iff
  show "read_v5 te V5 r = Inr (ot, rest) \<longleftrightarrow> (\<exists>d. td_sprout_bundle d = None \<and> td_version d = V5 \<and> wf_later te d
      \<and> ot = from_data_v5 te d \<and> r = common_bytes te d @ tail_bytes te d @ rest)"
    unfolding later_data_ex wf_later_data later_bytes later_data_sel
    unfolding read_v5_def read_orchard_v5_bundle_def
    by (simp add: split_paired_Ex iffs later_data_def [symmetric]) blast
  show "read_v6 te V6 r = Inr (ot, rest) \<longleftrightarrow> (\<exists>d. td_sprout_bundle d = None \<and> td_version d = V6 \<and> wf_later te d
      \<and> ot = from_data_v5 te d \<and> r = common_bytes te d @ tail_bytes te d @ rest)"
    unfolding later_data_ex wf_later_data later_bytes later_data_sel
    unfolding read_v6_def read_v6_bundle_def read_v6_header_fragment_def from_data_v6_def
    by (simp add: split_paired_Ex iffs later_data_def [symmetric]) blast
  show "read_vcrosslink te VCrosslink r = Inr (ot, rest) \<longleftrightarrow> (\<exists>d. td_sprout_bundle d = None \<and> td_version d = VCrosslink
      \<and> wf_later te d \<and> ot = from_data_v5 te d \<and> r = common_bytes te d @ tail_bytes te d @ rest)"
    unfolding later_data_ex wf_later_data later_bytes later_data_sel
    unfolding read_vcrosslink_def read_orchard_v5_bundle_def from_data_vcrosslink_def
    by (simp add: split_paired_Ex iffs later_data_def [symmetric]) blast
qed

text \<open>What the writers of these versions produce.\<close>

lemma write_later:
  assumes "wf_later te d"
  shows "Transaction_write te d =
    (if td_version d = V6 \<and> \<not> (branch_orchard_revision (td_consensus_branch_id d) = Some OrchardV3
          \<or> td_orchard_bundle d = None)
     then Inl (InvalidInput ''v6 Orchard bundles require orchard_v3 or ironwood_v3'')
     else Inr (TxVersion_write (td_version d) @ common_bytes te d @ tail_bytes te d))"
proof (cases "td_version d")
  case V6
  let ?b = "td_consensus_branch_id d"
  have slots: "wf_orchard_slot (te_orchard te) (bundle_version_for_branch ?b PoolOrchard) (td_orchard_bundle d)"
      "wf_orchard_slot (te_orchard te) (bundle_version_for_branch ?b PoolIronwood) (td_ironwood_bundle d)"
    using assms V6 by (simp_all add: wf_later_def)
  show ?thesis
  proof (cases "branch_orchard_revision ?b = Some OrchardV3")
    case True
    then show ?thesis
      using assms V6 write_v6_slot [OF True slots(1)] write_v6_slot [OF True slots(2)]
      by (simp add: Transaction_write_def write_v6_def wf_later_def write_v6_header_def common_bytes_def
          later_header_bytes_def tail_bytes_def del: branch_orchard_revision.simps)
  next
    case False
    have ib: "td_ironwood_bundle d = None"
    proof (cases "td_ironwood_bundle d")
      case (Some b)
      then have "bundle_version_for_branch ?b PoolIronwood = Some (ob_version b)"
        using slots(2) by (simp add: wf_orchard_slot_def)
      with bundle_version_not_v3 [OF False] show ?thesis by blast
    qed simp
    show ?thesis
    proof (cases "td_orchard_bundle d")
      case None
      then show ?thesis
        using assms V6 ib by (simp add: Transaction_write_def write_v6_def wf_later_def write_v6_header_def
            common_bytes_def later_header_bytes_def tail_bytes_def write_v6_bundle_def)
    next
      case (Some b)
      then have "bundle_version_for_branch ?b PoolOrchard = Some (ob_version b)"
        using slots(1) by (simp add: wf_orchard_slot_def)
      with bundle_version_not_v3 [OF False] have c: "check_v6_bundle_version (ob_version b)
          = Inl (InvalidInput ''v6 Orchard bundles require orchard_v3 or ironwood_v3'')" by blast
      show ?thesis
        using assms V6 False c Some
        by (simp add: Transaction_write_def write_v6_def wf_later_def write_v6_bundle_def
            del: branch_orchard_revision.simps)
    qed
  qed
qed (use assms in \<open>simp_all add: Transaction_write_def write_v5_def write_vcrosslink_def wf_later_def
    write_v5_header_def common_bytes_def later_header_bytes_def tail_bytes_def wire_consensus_branch_id_def
    write_orchard_v5_bundle_def\<close>)

subsection \<open>The formats up to version 4\<close>

definition wf_sprout_bundle where
  "wf_sprout_bundle use_groth b \<longleftrightarrow> sb_joinsplits b \<noteq> [] \<and> list_all (wf_js use_groth) (sb_joinsplits b)
     \<and> length (sb_joinsplits b) \<le> 33554432
     \<and> length (sb_joinsplit_pubkey b) = 32 \<and> length (sb_joinsplit_sig b) = 64"

definition wf_sprout_slot where
  "wf_sprout_slot version ob \<longleftrightarrow> (if version_has_sprout version
     then pred_option (wf_sprout_bundle (version_has_sapling version)) ob else ob = None)"

definition sprout_slot_bytes where
  "sprout_slot_bytes te version ob = (if version_has_sprout version then write_sprout_bundle te ob else [])"

lemma sprout_slot_iff:
  assumes "tx_ext_ok te"
  shows "read_sprout_bundle te version bs = Inr (ob, rest) \<longleftrightarrow>
    wf_sprout_slot version ob \<and> bs = sprout_slot_bytes te version ob @ rest"
proof (cases "version_has_sprout version")
  case True
  have v: "compact_size_ok (te_cs te)" "vector_ok (te_cs te) (te_joinsplits te)"
    using assms by (simp_all add: tx_ext_ok_def)
  note js = vector_read_iff [OF v fixed_codec.axioms(1) [OF js_codec.fixed_codec_axioms]]
  let ?rd = "\<lambda>joinsplits. if joinsplits \<noteq> [] then
          rbind (read_exact 32) (\<lambda>joinsplit_pubkey.
          rbind (read_exact 64) (\<lambda>joinsplit_sig.
          rret (Some \<lparr>sb_joinsplits = joinsplits, sb_joinsplit_pubkey = joinsplit_pubkey,
            sb_joinsplit_sig = joinsplit_sig\<rparr>)))
        else rret None"
  have rd: "?rd jss r = Inr (ob, rest) \<longleftrightarrow> (case ob of None \<Rightarrow> jss = [] \<and> r = rest
      | Some b \<Rightarrow> jss \<noteq> [] \<and> jss = sb_joinsplits b \<and> length (sb_joinsplit_pubkey b) = 32
          \<and> length (sb_joinsplit_sig b) = 64 \<and> r = sb_joinsplit_pubkey b @ sb_joinsplit_sig b @ rest)" for jss r
  proof (cases ob)
    case (Some b)
    then show ?thesis by (cases b; cases "jss = []") (auto simp: read_exact_iff)
  qed (cases "jss = []"; auto)
  have "read_sprout_bundle te version bs = Inr (ob, rest) \<longleftrightarrow>
      (\<exists>jss r. (list_all (wf_js (version_has_sapling version)) jss \<and> length jss \<le> 33554432
         \<and> bs = vec_write (te_joinsplits te) JsDescription_write jss @ r) \<and> ?rd jss r = Inr (ob, rest))"
    by (simp only: read_sprout_bundle_def True if_True rbind_iff js)
  also have "\<dots> \<longleftrightarrow> wf_sprout_slot version ob \<and> bs = sprout_slot_bytes te version ob @ rest"
  proof (cases ob)
    case None
    then show ?thesis unfolding rd using v(2)
      by (simp add: wf_sprout_slot_def sprout_slot_bytes_def write_sprout_bundle_def True vector_ok_def)
  next
    case (Some b)
    then show ?thesis unfolding rd
      by (simp add: wf_sprout_slot_def sprout_slot_bytes_def write_sprout_bundle_def
          wf_sprout_bundle_def True) blast
  qed
  finally show ?thesis .
qed (auto simp: read_sprout_bundle_def wf_sprout_slot_def sprout_slot_bytes_def)

definition wf_expiry where
  "wf_expiry version h \<longleftrightarrow> version_has_overwinter version \<or> h = BlockHeight 0"

definition expiry_bytes where
  "expiry_bytes version h = (if version_has_overwinter version then write_u32_le (u32_from_BlockHeight h) else [])"

lemma expiry_iff:
  "read_expiry_height version bs = Inr (h, rest) \<longleftrightarrow> wf_expiry version h \<and> bs = expiry_bytes version h @ rest"
  by (cases h) (auto simp: read_expiry_height_def wf_expiry_def expiry_bytes_def u32_codec.rd_iff
      u32_from_BlockHeight_def)

text \<open>The Sapling components with the value balance that stands in the bytes.\<close>

definition components_of where
  "components_of vb ob = (case ob of None \<Rightarrow> (vb, [], []) | Some b \<Rightarrow> (vb, sap_spends b, sap_outputs b))"

definition wf_v4_sapling where
  "wf_v4_sapling sx present vb ob \<longleftrightarrow>
     (if present then wf_v4_components sx (components_of vb ob)
        \<and> (case ob of None \<Rightarrow> True | Some b \<Rightarrow> \<not> (sap_spends b = [] \<and> sap_outputs b = [])
             \<and> vb = sap_value_balance b \<and> length (sap_binding_sig b) = 64)
      else ob = None \<and> vb = ZatBalance_zero)"

definition components_bytes where
  "components_bytes sx present vb ob = (if present then v4_component_bytes sx (components_of vb ob) else [])"

definition binding_sig_bytes where
  "binding_sig_bytes present ob = (if present then (case ob of None \<Rightarrow> [] | Some b \<Rightarrow> sap_binding_sig b) else [])"

lemma v4_sapling_parts:
  assumes "sapling_ext_ok sx"
  shows "(\<exists>ss so sig r. read_v4_components sx present bs = Inr ((vb, ss, so), r)
      \<and> Q r r' \<and> read_binding_sig (present \<and> \<not> (ss = [] \<and> so = [])) r' = Inr (sig, rest)
      \<and> ob = Option.bind sig (\<lambda>s. sx_from_parts sx ss so vb s)) \<longleftrightarrow>
    wf_v4_sapling sx present vb ob \<and> r' = binding_sig_bytes present ob @ rest
    \<and> (\<exists>r. bs = components_bytes sx present vb ob @ r \<and> Q r r')"
proof -
  have fp: "sx_from_parts sx ss so vb s = (if ss = [] \<and> so = [] then None
      else Some \<lparr>sap_spends = ss, sap_outputs = so, sap_value_balance = vb, sap_binding_sig = s\<rparr>)" for ss so vb s
    using assms unfolding sapling_ext_ok_def by blast
  show ?thesis
  proof (cases present)
    case False
    then show ?thesis
      by (auto simp: read_v4_components_def read_binding_sig_def wf_v4_sapling_def binding_sig_bytes_def
          components_bytes_def)
  next
    case True
    have sig: "read_binding_sig (\<not> (ss = [] \<and> so = [])) r' = Inr (sig, rest)
        \<and> ob = Option.bind sig (\<lambda>s. sx_from_parts sx ss so vb s) \<longleftrightarrow>
      (case ob of None \<Rightarrow> ss = [] \<and> so = [] \<and> sig = None \<and> r' = rest
       | Some b \<Rightarrow> \<not> (ss = [] \<and> so = []) \<and> ss = sap_spends b \<and> so = sap_outputs b \<and> vb = sap_value_balance b
           \<and> sig = Some (sap_binding_sig b) \<and> length (sap_binding_sig b) = 64 \<and> r' = sap_binding_sig b @ rest)"
      for ss so sig
      by (cases ob) (auto simp: read_binding_sig_def fp read_exact_iff)
    have "(\<exists>ss so sig r. read_v4_components sx present bs = Inr ((vb, ss, so), r)
        \<and> Q r r' \<and> read_binding_sig (present \<and> \<not> (ss = [] \<and> so = [])) r' = Inr (sig, rest)
        \<and> ob = Option.bind sig (\<lambda>s. sx_from_parts sx ss so vb s)) \<longleftrightarrow>
      (\<exists>ss so sig r. wf_v4_components sx (vb, ss, so) \<and> bs = v4_component_bytes sx (vb, ss, so) @ r \<and> Q r r'
        \<and> (read_binding_sig (\<not> (ss = [] \<and> so = [])) r' = Inr (sig, rest)
        \<and> ob = Option.bind sig (\<lambda>s. sx_from_parts sx ss so vb s)))"
      using True by (simp only: v4_components_iff [OF assms] conj_assoc simp_thms)
    also have "\<dots> \<longleftrightarrow> wf_v4_sapling sx present vb ob \<and> r' = binding_sig_bytes present ob @ rest
        \<and> (\<exists>r. bs = components_bytes sx present vb ob @ r \<and> Q r r')"
    proof (cases ob)
      case None
      then show ?thesis unfolding sig using True
        by (simp add: wf_v4_sapling_def binding_sig_bytes_def components_bytes_def components_of_def) blast
    next
      case (Some b)
      then show ?thesis unfolding sig using True
        by (simp add: wf_v4_sapling_def binding_sig_bytes_def components_bytes_def components_of_def) blast
    qed
    finally show ?thesis .
  qed
qed

text \<open>The data of a version up to 4, with the value balance that stands in its bytes.\<close>

definition wf_v4 where
  "wf_v4 te vb d \<longleftrightarrow> (case td_version d of V5 \<Rightarrow> False | V6 \<Rightarrow> False | VCrosslink \<Rightarrow> False | _ \<Rightarrow> True)
     \<and> wf_tx_version (td_version d)
     \<and> pred_option (wf_transparent (te_transparent te)) (td_transparent_bundle d)
     \<and> wf_expiry (td_version d) (td_expiry_height d)
     \<and> wf_v4_sapling (te_sapling te) (version_has_sapling (td_version d)) vb (td_sapling_bundle d)
     \<and> wf_sprout_slot (td_version d) (td_sprout_bundle d)
     \<and> td_orchard_bundle d = None \<and> td_ironwood_bundle d = None \<and> td_staking_action d = None"

definition v4_body where
  "v4_body te vb d = write_transparent (te_transparent te) (td_transparent_bundle d)
     @ write_u32_le (td_lock_time d) @ expiry_bytes (td_version d) (td_expiry_height d)
     @ components_bytes (te_sapling te) (version_has_sapling (td_version d)) vb (td_sapling_bundle d)
     @ sprout_slot_bytes te (td_version d) (td_sprout_bundle d)
     @ binding_sig_bytes (version_has_sapling (td_version d)) (td_sapling_bundle d)"

lemma read_v4_data_steps:
  "read_v4_data te v b r = Inr (d, rest) \<longleftrightarrow>
    td_version d = v \<and> td_consensus_branch_id d = b \<and> td_orchard_bundle d = None
      \<and> td_ironwood_bundle d = None \<and> td_staking_action d = None
    \<and> (\<exists>vb ss so sig r1 r2 r3 r4 r5.
        read_transparent (te_transparent te) r = Inr (td_transparent_bundle d, r1)
      \<and> read_u32_le r1 = Inr (td_lock_time d, r2)
      \<and> read_expiry_height v r2 = Inr (td_expiry_height d, r3)
      \<and> read_v4_components (te_sapling te) (version_has_sapling v) r3 = Inr ((vb, ss, so), r4)
      \<and> read_sprout_bundle te v r4 = Inr (td_sprout_bundle d, r5)
      \<and> read_binding_sig (version_has_sapling v \<and> \<not> (ss = [] \<and> so = [])) r5 = Inr (sig, rest)
      \<and> td_sapling_bundle d = Option.bind sig (\<lambda>s. sx_from_parts (te_sapling te) ss so vb s))" (is "?L \<longleftrightarrow> ?R")
proof
  assume ?L
  then show ?R
    unfolding read_v4_data_def rbind_iff split_paired_Ex prod.case rret_iff
    by (elim exE conjE, hypsubst_thin, unfold transaction_data.select_convs, intro conjI exI)
      ((rule refl | assumption)+)
next
  assume ?R
  then obtain vb ss so sig r1 r2 r3 r4 r5 where
    eq: "td_version d = v" "td_consensus_branch_id d = b" "td_orchard_bundle d = None"
      "td_ironwood_bundle d = None" "td_staking_action d = None"
      "td_sapling_bundle d = Option.bind sig (\<lambda>s. sx_from_parts (te_sapling te) ss so vb s)"
    and rs: "read_transparent (te_transparent te) r = Inr (td_transparent_bundle d, r1)"
      "read_u32_le r1 = Inr (td_lock_time d, r2)" "read_expiry_height v r2 = Inr (td_expiry_height d, r3)"
      "read_v4_components (te_sapling te) (version_has_sapling v) r3 = Inr ((vb, ss, so), r4)"
      "read_sprout_bundle te v r4 = Inr (td_sprout_bundle d, r5)"
      "read_binding_sig (version_has_sapling v \<and> \<not> (ss = [] \<and> so = [])) r5 = Inr (sig, rest)"
    by blast
  have "read_v4_data te v b r = Inr (\<lparr>td_version = v, td_consensus_branch_id = b, td_lock_time = td_lock_time d,
         td_expiry_height = td_expiry_height d, td_transparent_bundle = td_transparent_bundle d,
         td_sprout_bundle = td_sprout_bundle d,
         td_sapling_bundle = Option.bind sig (\<lambda>s. sx_from_parts (te_sapling te) ss so vb s),
         td_orchard_bundle = None, td_ironwood_bundle = None, td_staking_action = None\<rparr>, rest)"
    unfolding read_v4_data_def using rs by (simp add: rbind_def rret_def)
  also have "\<dots> = Inr (d, rest)" using eq by (cases d) simp
  finally show ?L .
qed

lemma read_v4_data_iff:
  assumes "tx_ext_ok te"
    and v: "(case v of V5 \<Rightarrow> False | V6 \<Rightarrow> False | VCrosslink \<Rightarrow> False | _ \<Rightarrow> True)" "wf_tx_version v"
  shows "read_v4_data te v b r = Inr (d, rest) \<longleftrightarrow>
    td_version d = v \<and> td_consensus_branch_id d = b \<and> (\<exists>vb. wf_v4 te vb d \<and> r = v4_body te vb d @ rest)"
proof -
  have exts: "transparent_ext_ok (te_transparent te)" "sapling_ext_ok (te_sapling te)"
    using assms(1) by (simp_all add: tx_ext_ok_def)
  have "read_v4_data te v b r = Inr (d, rest) \<longleftrightarrow>
    td_version d = v \<and> td_consensus_branch_id d = b \<and> td_orchard_bundle d = None
      \<and> td_ironwood_bundle d = None \<and> td_staking_action d = None
    \<and> (\<exists>vb r1 r2 r3 r5. read_transparent (te_transparent te) r = Inr (td_transparent_bundle d, r1)
      \<and> read_u32_le r1 = Inr (td_lock_time d, r2)
      \<and> read_expiry_height v r2 = Inr (td_expiry_height d, r3)
      \<and> (\<exists>ss so sig r4. read_v4_components (te_sapling te) (version_has_sapling v) r3 = Inr ((vb, ss, so), r4)
        \<and> read_sprout_bundle te v r4 = Inr (td_sprout_bundle d, r5)
        \<and> read_binding_sig (version_has_sapling v \<and> \<not> (ss = [] \<and> so = [])) r5 = Inr (sig, rest)
        \<and> td_sapling_bundle d = Option.bind sig (\<lambda>s. sx_from_parts (te_sapling te) ss so vb s)))"
    unfolding read_v4_data_steps by blast
  also have "\<dots> \<longleftrightarrow> td_version d = v \<and> td_consensus_branch_id d = b
      \<and> (\<exists>vb. wf_v4 te vb d \<and> r = v4_body te vb d @ rest)"
    unfolding v4_sapling_parts [OF exts(2), where Q = "\<lambda>r4 r5. read_sprout_bundle te v r4 = Inr (td_sprout_bundle d, r5)"]
    unfolding transparent_iff [OF exts(1)] u32_codec.rd_iff expiry_iff sprout_slot_iff [OF assms(1)]
      wf_v4_def v4_body_def
    using v by (simp add: conj_ac cong: conj_cong)
  finally show ?thesis .
qed

lemma read_v4_iff:
  assumes "tx_ext_ok te"
    and v: "(case v of V5 \<Rightarrow> False | V6 \<Rightarrow> False | VCrosslink \<Rightarrow> False | _ \<Rightarrow> True)" "wf_tx_version v"
  shows "read_v4 te hashed v b r = Inr (t, rest) \<longleftrightarrow>
    (\<exists>vb. td_version (tx_data t) = v \<and> td_consensus_branch_id (tx_data t) = b \<and> wf_v4 te vb (tx_data t)
       \<and> tx_txid t = TxId (dx_sha256d (te_digest te) (hashed @ v4_body te vb (tx_data t)))
       \<and> r = v4_body te vb (tx_data t) @ rest)"
proof -
  have "read_v4 te hashed v b r = Inr (t, rest) \<longleftrightarrow>
      read_v4_data te v b r = Inr (tx_data t, rest)
      \<and> tx_txid t = TxId (dx_sha256d (te_digest te) (hashed @ take (length r - length rest) r))"
    by (cases t) (auto simp: read_v4_def rconsumed_iff)
  then show ?thesis
    unfolding read_v4_data_iff [OF assms] by auto
qed

lemma write_v4_eq:
  assumes "wf_v4 te vb d"
  shows "Transaction_write te d = Inr (TxVersion_write (td_version d) @ v4_body te (sapling_value_balance d) d)"
proof -
  let ?sx = "te_sapling te" and ?v = "td_version d" and ?ob = "td_sapling_bundle d"
  have ob: "td_orchard_bundle d = None" and sap: "wf_v4_sapling ?sx (version_has_sapling ?v) vb ?ob"
    and sp: "wf_sprout_slot ?v (td_sprout_bundle d)"
    using assms by (simp_all add: wf_v4_def)
  have comps: "write_v4_components ?sx ?ob (version_has_sapling ?v)
      = Inr (components_bytes ?sx (version_has_sapling ?v) (sapling_value_balance d) ?ob)"
  proof (cases "version_has_sapling ?v")
    case True
    then show ?thesis
      by (cases ?ob) (simp_all add: write_v4_bundle components_bytes_def components_of_def
          sapling_value_balance_def bundle_balance_def)
  next
    case False
    then show ?thesis using sap by (simp add: wf_v4_sapling_def write_v4_components_def components_bytes_def)
  qed
  have "Transaction_write te d = write_v4 te d"
    using assms by (cases ?v) (simp_all add: wf_v4_def Transaction_write_def)
  then show ?thesis
    by (simp add: write_v4_def ob comps v4_body_def expiry_bytes_def sprout_slot_bytes_def binding_sig_bytes_def
        cong: option.case_cong)
qed

lemma v4_body_inject:
  assumes "wf_v4 te vb d" "wf_v4 te vb' d"
  shows "v4_body te vb d = v4_body te vb' d \<longleftrightarrow> vb = vb'"
proof (cases "td_sapling_bundle d")
  case None
  have l: "length (ZatBalance_to_i64_le_bytes b) = 8" for b by (simp add: ZatBalance_to_i64_le_bytes_def)
  have "ZatBalance_to_i64_le_bytes vb = ZatBalance_to_i64_le_bytes vb' \<longleftrightarrow> vb = vb'"
    using le_bytes_inject [of 8 "zb_raw vb" "zb_raw vb'"]
    by (auto simp: ZatBalance_to_i64_le_bytes_def zat_balance.expand)
  then show ?thesis
    using assms None by (cases "version_has_sapling (td_version d)")
      (auto simp: v4_body_def components_bytes_def components_of_def v4_component_bytes_def wf_v4_def
        wf_v4_sapling_def l)
next
  case (Some b)
  then have "version_has_sapling (td_version d)" "vb = sap_value_balance b" "vb' = sap_value_balance b"
    using assms by (auto simp: wf_v4_def wf_v4_sapling_def split: if_splits)
  then show ?thesis by simp
qed

end
