(* ===== verification/TxIdSpec.thy ===== *)
theory TxIdSpec
  imports TxId
begin

text \<open>
  What a transaction identifier commits to. The effects of a transaction are the data that the
  identifier is meant to fix; the preimages are the inputs of BLAKE2b in its computation. Two
  transactions with the same effects have the same identifier, and two with the same identifier have
  the same effects, unless two of these preimages collide.
\<close>

subsection \<open>Concatenated blocks\<close>

lemma concat_blocks_inject:
  assumes "0 < n" "\<And>x. x \<in> set xs \<Longrightarrow> length (f x) = n" "\<And>y. y \<in> set ys \<Longrightarrow> length (g y) = n"
    and "concat (map f xs) = concat (map g ys)"
  shows "map f xs = map g ys"
  using assms(2,3,4)
proof (induction xs arbitrary: ys)
  case Nil
  then show ?case using assms(1) by (cases ys) auto
next
  case (Cons x xs)
  show ?case
  proof (cases ys)
    case Nil
    then show ?thesis using Cons.prems(1,3) assms(1) by auto
  next
    case (Cons y zs)
    have "length (f x) = length (g y)" using Cons.prems \<open>ys = y # zs\<close> by simp
    then have "f x = g y" "concat (map f xs) = concat (map g zs)"
      using Cons.prems(3) \<open>ys = y # zs\<close> by simp_all
    with Cons.IH [of zs] Cons.prems(1,2) \<open>ys = y # zs\<close> show ?thesis by simp
  qed
qed

lemma map_eq_mapI:
  assumes "map f xs = map f ys" "map g xs = map g ys"
    and "\<And>x y. x \<in> set xs \<Longrightarrow> y \<in> set ys \<Longrightarrow> f x = f y \<Longrightarrow> g x = g y \<Longrightarrow> h x = h y"
  shows "map h xs = map h ys"
proof (rule nth_equalityI)
  show len: "length (map h xs) = length (map h ys)"
    using map_eq_imp_length_eq [OF assms(1)] by simp
  fix i assume "i < length (map h xs)"
  then have i: "i < length xs" "i < length ys" using len by simp_all
  have "map f xs ! i = map f ys ! i" "map g xs ! i = map g ys ! i" using assms(1,2) by simp_all
  then have "f (xs ! i) = f (ys ! i)" "g (xs ! i) = g (ys ! i)" using i by simp_all
  then show "map h xs ! i = map h ys ! i" using assms(3) i by simp
qed

context codec
begin

lemma concat_inject:
  assumes "list_all ok xs" "list_all ok ys" "\<And>x. ok x \<Longrightarrow> wr x \<noteq> []"
    and "concat (map wr xs) = concat (map wr ys)"
  shows "xs = ys"
  using assms(1,2,4)
proof (induction xs arbitrary: ys)
  case Nil
  then show ?case using assms(3) by (cases ys) simp_all
next
  case (Cons x xs)
  show ?case
  proof (cases ys)
    case Nil
    then have "wr x = []" "ok x" using Cons.prems by simp_all
    then show ?thesis using assms(3) by blast
  next
    case (Cons y zs)
    have ok: "ok x" "list_all ok xs" "ok y" "list_all ok zs" using Cons.prems(1,2) \<open>ys = y # zs\<close> by simp_all
    have "wr x @ concat (map wr xs) = wr y @ concat (map wr zs)" using Cons.prems(3) \<open>ys = y # zs\<close> by simp
    from prefix_free [OF ok(1,3) this] Cons.IH [OF ok(2,4)] show ?thesis using \<open>ys = y # zs\<close> by simp
  qed
qed

end

subsection \<open>Collisions\<close>

text \<open>Two different pairs of a personalization and a message, one of each list, with the same hash.\<close>

definition collides :: "'ob digest_ext \<Rightarrow> (bytes \<times> bytes) list \<Rightarrow> (bytes \<times> bytes) list \<Rightarrow> bool" where
  "collides dx ps qs \<longleftrightarrow> (\<exists>(p, m) \<in> set ps. \<exists>(q, n) \<in> set qs.
     (p, m) \<noteq> (q, n) \<and> dx_blake2b dx p m = dx_blake2b dx q n)"

lemma no_collision:
  assumes "\<not> collides dx ps qs" "hasher dx p m = hasher dx q n" "(p, m) \<in> set ps" "(q, n) \<in> set qs"
  shows "p = q" "m = n"
  using assms by (auto simp: collides_def hasher_def)

lemma collides_mono: "collides dx ps qs \<Longrightarrow> set ps \<subseteq> set ps' \<Longrightarrow> set qs \<subseteq> set qs' \<Longrightarrow> collides dx ps' qs'"
  unfolding collides_def by blast

definition digest_ext_ok :: "'ob digest_ext \<Rightarrow> bool" where
  "digest_ext_ok dx \<longleftrightarrow> (\<forall>p m. length (dx_blake2b dx p m) = 32)
     \<and> (\<forall>b v c. dx_commitment dx b v = Some c \<longrightarrow> length c = 32)
     \<and> (\<forall>p v c. dx_bundle_txid_empty dx p v = Some c \<longrightarrow> length c = 32)"

lemma length_hasher: "digest_ext_ok dx \<Longrightarrow> length (hasher dx p m) = 32"
  by (simp add: digest_ext_ok_def hasher_def)

subsection \<open>The transparent part\<close>

definition transparent_effects ::
  "('i, 'o) transparent_ext \<Rightarrow> ('i, 'o) transparent_bundle option \<Rightarrow> (bytes list \<times> u32 list \<times> 'o list) option" where
  "transparent_effects tp = map_option (\<lambda>b. (map (tp_prevout_bytes tp) (tb_vin b),
     map (tp_sequence tp) (tb_vin b), tb_vout b))"

definition transparent_preimages ::
  "'ob digest_ext \<Rightarrow> ('i, 'o) transparent_ext \<Rightarrow> ('i, 'o) transparent_bundle option \<Rightarrow> (bytes \<times> bytes) list" where
  "transparent_preimages dx tp ob =
     (ZCASH_TRANSPARENT_HASH_PERSONALIZATION, transparent_txid_data (map_option (transparent_digests_of dx tp) ob))
     # (case ob of None \<Rightarrow> [] | Some b \<Rightarrow>
         [(ZCASH_PREVOUTS_HASH_PERSONALIZATION, concat (map (tp_prevout_bytes tp) (tb_vin b))),
          (ZCASH_SEQUENCE_HASH_PERSONALIZATION, concat (map (\<lambda>t_in. write_u32_le (tp_sequence tp t_in)) (tb_vin b))),
          (ZCASH_OUTPUTS_HASH_PERSONALIZATION, concat (map (tp_write_out tp) (tb_vout b)))])"

lemma transparent_hash_cong:
  "transparent_effects tp ob = transparent_effects tp ob' \<Longrightarrow>
     hash_transparent_txid_data dx (map_option (transparent_digests_of dx tp) ob)
       = hash_transparent_txid_data dx (map_option (transparent_digests_of dx tp) ob')"
proof -
  have seq: "concat (map (\<lambda>x. write_u32_le (tp_sequence tp x)) xs) = concat (map write_u32_le (map (tp_sequence tp) xs))" for xs
    by (simp add: comp_def)
  assume "transparent_effects tp ob = transparent_effects tp ob'"
  then show ?thesis
    unfolding transparent_effects_def transparent_digests_of_def transparent_prevout_hash_def
      transparent_sequence_hash_def transparent_outputs_hash_def seq
    by (cases ob; cases ob') (auto simp del: map_map)
qed

lemma transparent_binding:
  assumes ok: "transparent_ext_ok tp" "digest_ext_ok dx"
    and wf: "pred_option (wf_transparent tp) ob" "pred_option (wf_transparent tp) ob'"
    and nc: "\<not> collides dx (transparent_preimages dx tp ob) (transparent_preimages dx tp ob')"
    and eq: "hash_transparent_txid_data dx (map_option (transparent_digests_of dx tp) ob)
       = hash_transparent_txid_data dx (map_option (transparent_digests_of dx tp) ob')"
  shows "transparent_effects tp ob = transparent_effects tp ob'"
proof -
  have d: "transparent_txid_data (map_option (transparent_digests_of dx tp) ob)
      = transparent_txid_data (map_option (transparent_digests_of dx tp) ob')"
    by (rule no_collision(2) [OF nc eq [unfolded hash_transparent_txid_data_def]])
      (simp_all add: transparent_preimages_def)
  show ?thesis
  proof (cases ob)
    case None
    then show ?thesis using d length_hasher [OF ok(2)]
      by (cases ob') (auto simp: transparent_txid_data_def transparent_effects_def transparent_digests_of_def
          transparent_prevout_hash_def simp flip: length_0_conv)
  next
    case (Some b)
    have "length (transparent_txid_data (Some (transparent_digests_of dx tp b))) \<noteq> 0"
      by (simp add: transparent_txid_data_def transparent_digests_of_def transparent_prevout_hash_def
          length_hasher [OF ok(2)] del: length_0_conv)
    then obtain b' where b': "ob' = Some b'"
      using d by (cases ob') (simp_all add: Some transparent_txid_data_def)
    from d have h: "transparent_prevout_hash dx tp (tb_vin b) = transparent_prevout_hash dx tp (tb_vin b')"
        "transparent_sequence_hash dx tp (tb_vin b) = transparent_sequence_hash dx tp (tb_vin b')"
        "transparent_outputs_hash dx tp (tb_vout b) = transparent_outputs_hash dx tp (tb_vout b')"
      by (simp_all add: Some b' transparent_txid_data_def transparent_digests_of_def
          transparent_prevout_hash_def transparent_sequence_hash_def transparent_outputs_hash_def
          length_hasher [OF ok(2)])
    note hs = h [unfolded transparent_prevout_hash_def transparent_sequence_hash_def transparent_outputs_hash_def]
    note m = no_collision(2) [OF nc hs(1)] no_collision(2) [OF nc hs(2)] no_collision(2) [OF nc hs(3)]
    have "map (tp_prevout_bytes tp) (tb_vin b) = map (tp_prevout_bytes tp) (tb_vin b')"
    proof (rule concat_blocks_inject [where n = 36])
      show "concat (map (tp_prevout_bytes tp) (tb_vin b)) = concat (map (tp_prevout_bytes tp) (tb_vin b'))"
        by (rule m(1)) (simp_all add: transparent_preimages_def Some b')
    qed (use ok(1) in \<open>simp_all add: transparent_ext_ok_def\<close>)
    moreover have "map (\<lambda>x. write_u32_le (tp_sequence tp x)) (tb_vin b) = map (\<lambda>x. write_u32_le (tp_sequence tp x)) (tb_vin b')"
    proof (rule concat_blocks_inject [where n = 4])
      show "concat (map (\<lambda>x. write_u32_le (tp_sequence tp x)) (tb_vin b))
          = concat (map (\<lambda>x. write_u32_le (tp_sequence tp x)) (tb_vin b'))"
        by (rule m(2)) (simp_all add: transparent_preimages_def Some b')
    qed simp_all
    from map_eq_mapI [OF this this] have "map (tp_sequence tp) (tb_vin b) = map (tp_sequence tp) (tb_vin b')"
      by simp
    moreover have "tb_vout b = tb_vout b'"
    proof -
      have "exact_codec (tp_read_out tp) (tp_write_out tp) (wf_txout tp)"
        using ok(1) by (simp add: transparent_ext_ok_def)
      note out = codec.concat_inject [OF exact_codec.axioms(1) [OF this]]
      have "concat (map (tp_write_out tp) (tb_vout b)) = concat (map (tp_write_out tp) (tb_vout b'))"
        by (rule m(3)) (simp_all add: transparent_preimages_def Some b')
      then show ?thesis
        using out [of "tb_vout b" "tb_vout b'"] wf ok(1)
        by (simp add: Some b' wf_transparent_def transparent_ext_ok_def)
    qed
    ultimately show ?thesis by (simp add: transparent_effects_def Some b')
  qed
qed

subsection \<open>The Sapling part\<close>

definition wf_sapling_parts :: "('cv, 'fe, 'cmu, 'rk) sapling_ext \<Rightarrow> ('cv, 'fe, 'cmu, 'rk) sapling_bundle \<Rightarrow> bool" where
  "wf_sapling_parts sx b \<longleftrightarrow> list_all (wf_spend sx) (sap_spends b) \<and> list_all (wf_output sx) (sap_outputs b)"

definition sapling_hash ::
  "'ob digest_ext \<Rightarrow> ('cv, 'fe, 'cmu, 'rk) sapling_ext \<Rightarrow> tx_version \<Rightarrow> ('cv, 'fe, 'cmu, 'rk) sapling_bundle option \<Rightarrow> bytes" where
  "sapling_hash dx sx version sb = (case map_option (hash_sapling_txid_data dx sx version) sb of
     Some d \<Rightarrow> d | None \<Rightarrow> hash_sapling_txid_empty dx)"

text \<open>The effects of a spend (its anchor only before version 6) and of an output.\<close>

definition spend_effects ::
  "('cv, 'fe, 'cmu, 'rk) sapling_ext \<Rightarrow> tx_version \<Rightarrow> ('cv, 'fe, 'rk) spend_description
     \<Rightarrow> bytes \<times> bytes \<times> bytes option \<times> bytes" where
  "spend_effects sx version s = (sd_nullifier s, el_bytes (sx_cv sx) (sd_cv s),
     if write_anchor version then Some (el_bytes (sx_base sx) (sd_anchor s)) else None,
     el_bytes (sx_rk sx) (sd_rk s))"

definition output_effects ::
  "('cv, 'fe, 'cmu, 'rk) sapling_ext \<Rightarrow> ('cv, 'cmu) output_description
     \<Rightarrow> bytes \<times> bytes \<times> bytes \<times> bytes \<times> bytes" where
  "output_effects sx d = (el_bytes (sx_cmu sx) (od_cmu d), od_ephemeral_key d, od_enc_ciphertext d,
     el_bytes (sx_cv sx) (od_cv d), od_out_ciphertext d)"

definition sapling_effects where
  "sapling_effects sx version sb = (case sb of None \<Rightarrow> None | Some b \<Rightarrow>
     if sap_spends b = [] \<and> sap_outputs b = [] then None
     else Some (map (spend_effects sx version) (sap_spends b), map (output_effects sx) (sap_outputs b),
       sap_value_balance b))"

definition spends_msg where
  "spends_msg dx sx version ss = (if ss \<noteq> [] then
     hasher dx ZCASH_SAPLING_SPENDS_COMPACT_HASH_PERSONALIZATION (concat (map sd_nullifier ss))
     @ hasher dx (sapling_spends_noncompact_personalization version) (concat (map (spend_noncompact sx version) ss))
     else [])"

definition outputs_msg where
  "outputs_msg dx sx so = (if so \<noteq> [] then
     hasher dx ZCASH_SAPLING_OUTPUTS_COMPACT_HASH_PERSONALIZATION (concat (map (output_compact sx) so))
     @ hasher dx ZCASH_SAPLING_OUTPUTS_MEMOS_HASH_PERSONALIZATION (concat (map output_memo so))
     @ hasher dx ZCASH_SAPLING_OUTPUTS_NONCOMPACT_HASH_PERSONALIZATION (concat (map (output_noncompact sx) so))
     else [])"

definition spends_preimages where
  "spends_preimages dx sx version ss =
     (ZCASH_SAPLING_SPENDS_HASH_PERSONALIZATION, spends_msg dx sx version ss)
     # (if ss = [] then [] else
         [(ZCASH_SAPLING_SPENDS_COMPACT_HASH_PERSONALIZATION, concat (map sd_nullifier ss)),
          (sapling_spends_noncompact_personalization version, concat (map (spend_noncompact sx version) ss))])"

definition outputs_preimages where
  "outputs_preimages dx sx so =
     (ZCASH_SAPLING_OUTPUTS_HASH_PERSONALIZATION, outputs_msg dx sx so)
     # (if so = [] then [] else
         [(ZCASH_SAPLING_OUTPUTS_COMPACT_HASH_PERSONALIZATION, concat (map (output_compact sx) so)),
          (ZCASH_SAPLING_OUTPUTS_MEMOS_HASH_PERSONALIZATION, concat (map output_memo so)),
          (ZCASH_SAPLING_OUTPUTS_NONCOMPACT_HASH_PERSONALIZATION, concat (map (output_noncompact sx) so))])"

lemma spends_effects_inject:
  assumes "wf_spend sx s" "wf_spend sx s'" "sd_nullifier s = sd_nullifier s'"
    and "spend_noncompact sx version s = spend_noncompact sx version s'"
  shows "spend_effects sx version s = spend_effects sx version s'"
proof -
  have "length (el_bytes (sx_cv sx) (sd_cv s)) = 32" "length (el_bytes (sx_cv sx) (sd_cv s')) = 32"
      "length (el_bytes (sx_base sx) (sd_anchor s)) = 32" "length (el_bytes (sx_base sx) (sd_anchor s')) = 32"
    using assms(1,2) by (simp_all add: wf_spend_def wf_element_def)
  then show ?thesis
    using assms(3,4) by (simp add: spend_noncompact_def spend_effects_def split: if_splits)
qed

lemma output_effects_inject:
  assumes "wf_output sx d" "wf_output sx d'" "output_compact sx d = output_compact sx d'"
    and "output_memo d = output_memo d'" "output_noncompact sx d = output_noncompact sx d'"
  shows "output_effects sx d = output_effects sx d'"
proof -
  let ?e = "od_enc_ciphertext d" and ?e' = "od_enc_ciphertext d'"
  have split: "x = take 52 x @ take 512 (drop 52 x) @ drop 564 x" for x :: bytes
    using append_take_drop_id [of 52 x] append_take_drop_id [of 512 "drop 52 x"] by simp
  have len: "length (el_bytes (sx_cmu sx) (od_cmu d)) = 32" "length (el_bytes (sx_cmu sx) (od_cmu d')) = 32"
      "length (od_ephemeral_key d) = 32" "length (od_ephemeral_key d') = 32" "length ?e = 580" "length ?e' = 580"
      "length (el_bytes (sx_cv sx) (od_cv d)) = 32" "length (el_bytes (sx_cv sx) (od_cv d')) = 32"
    using assms(1,2) by (simp_all add: wf_output_def wf_element_def)
  have parts: "el_bytes (sx_cmu sx) (od_cmu d) = el_bytes (sx_cmu sx) (od_cmu d')"
      "od_ephemeral_key d = od_ephemeral_key d'" "take 52 ?e = take 52 ?e'"
      "el_bytes (sx_cv sx) (od_cv d) = el_bytes (sx_cv sx) (od_cv d')"
      "drop 564 ?e = drop 564 ?e'" "od_out_ciphertext d = od_out_ciphertext d'"
    using assms(3,5) len by (simp_all add: output_compact_def output_noncompact_def)
  then have "?e = ?e'"
    using split [of ?e] split [of ?e'] assms(4) by (simp add: output_memo_def)
  with parts show ?thesis by (simp add: output_effects_def)
qed

lemma msg_empty_iff:
  assumes "digest_ext_ok dx"
  shows "spends_msg dx sx version ss = [] \<longleftrightarrow> ss = []" "outputs_msg dx sx so = [] \<longleftrightarrow> so = []"
proof -
  have "hasher dx p m \<noteq> []" for p m using length_hasher [OF assms, of p m] by (metis list.size(3) zero_neq_numeral)
  then show "spends_msg dx sx version ss = [] \<longleftrightarrow> ss = []" "outputs_msg dx sx so = [] \<longleftrightarrow> so = []"
    by (simp_all add: spends_msg_def outputs_msg_def)
qed

lemma spends_binding:
  assumes ok: "digest_ext_ok dx" and wf: "list_all (wf_spend sx) ss" "list_all (wf_spend sx) ss'"
    and nc: "\<not> collides dx (spends_preimages dx sx version ss) (spends_preimages dx sx version ss')"
    and eq: "hash_sapling_spends dx sx version ss = hash_sapling_spends dx sx version ss'"
  shows "map (spend_effects sx version) ss = map (spend_effects sx version) ss'"
proof -
  have msg: "spends_msg dx sx version ss = spends_msg dx sx version ss'"
    by (rule no_collision(2) [OF nc eq [unfolded hash_sapling_spends_def, folded spends_msg_def]])
      (simp_all add: spends_preimages_def)
  show ?thesis
  proof (cases "ss = [] \<or> ss' = []")
    case True
    then have "ss = []" "ss' = []" using msg msg_empty_iff(1) [OF ok] by metis+
    then show ?thesis by simp
  next
    case False
    then have hs: "hasher dx ZCASH_SAPLING_SPENDS_COMPACT_HASH_PERSONALIZATION (concat (map sd_nullifier ss))
        = hasher dx ZCASH_SAPLING_SPENDS_COMPACT_HASH_PERSONALIZATION (concat (map sd_nullifier ss'))"
      "hasher dx (sapling_spends_noncompact_personalization version) (concat (map (spend_noncompact sx version) ss))
        = hasher dx (sapling_spends_noncompact_personalization version) (concat (map (spend_noncompact sx version) ss'))"
      using msg by (simp_all add: spends_msg_def length_hasher [OF ok])
    show ?thesis
    proof (rule map_eq_mapI)
      have "concat (map sd_nullifier ss) = concat (map sd_nullifier ss')"
        by (rule no_collision(2) [OF nc hs(1)]) (use False in \<open>simp_all add: spends_preimages_def\<close>)
      then show "map sd_nullifier ss = map sd_nullifier ss'"
        by (rule concat_blocks_inject [rotated 3, where n = 32])
          (use wf in \<open>auto simp: list_all_iff wf_spend_def\<close>)
      have "concat (map (spend_noncompact sx version) ss) = concat (map (spend_noncompact sx version) ss')"
        by (rule no_collision(2) [OF nc hs(2)]) (use False in \<open>simp_all add: spends_preimages_def\<close>)
      then show "map (spend_noncompact sx version) ss = map (spend_noncompact sx version) ss'"
        by (rule concat_blocks_inject [rotated 3, where n = "if write_anchor version then 96 else 64"])
          (use wf in \<open>simp_all add: list_all_iff wf_spend_def wf_element_def spend_noncompact_def\<close>)
    qed (use wf in \<open>simp add: list_all_iff spends_effects_inject\<close>)
  qed
qed

lemma outputs_binding:
  assumes ok: "digest_ext_ok dx" and wf: "list_all (wf_output sx) so" "list_all (wf_output sx) so'"
    and nc: "\<not> collides dx (outputs_preimages dx sx so) (outputs_preimages dx sx so')"
    and eq: "hash_sapling_outputs dx sx so = hash_sapling_outputs dx sx so'"
  shows "map (output_effects sx) so = map (output_effects sx) so'"
proof -
  have msg: "outputs_msg dx sx so = outputs_msg dx sx so'"
    by (rule no_collision(2) [OF nc eq [unfolded hash_sapling_outputs_def, folded outputs_msg_def]])
      (simp_all add: outputs_preimages_def)
  show ?thesis
  proof (cases "so = [] \<or> so' = []")
    case True
    then have "so = []" "so' = []" using msg msg_empty_iff(2) [OF ok] by metis+
    then show ?thesis by simp
  next
    case False
    then have hs: "hasher dx ZCASH_SAPLING_OUTPUTS_COMPACT_HASH_PERSONALIZATION (concat (map (output_compact sx) so))
        = hasher dx ZCASH_SAPLING_OUTPUTS_COMPACT_HASH_PERSONALIZATION (concat (map (output_compact sx) so'))"
      "hasher dx ZCASH_SAPLING_OUTPUTS_MEMOS_HASH_PERSONALIZATION (concat (map output_memo so))
        = hasher dx ZCASH_SAPLING_OUTPUTS_MEMOS_HASH_PERSONALIZATION (concat (map output_memo so'))"
      "hasher dx ZCASH_SAPLING_OUTPUTS_NONCOMPACT_HASH_PERSONALIZATION (concat (map (output_noncompact sx) so))
        = hasher dx ZCASH_SAPLING_OUTPUTS_NONCOMPACT_HASH_PERSONALIZATION (concat (map (output_noncompact sx) so'))"
      using msg by (simp_all add: outputs_msg_def length_hasher [OF ok])
    have blocks: "length (output_compact sx d) = 116 \<and> length (output_memo d) = 512
        \<and> length (output_noncompact sx d) = 128" if "d \<in> set so \<union> set so'" for d
      using that wf by (auto simp: list_all_iff wf_output_def wf_element_def output_compact_def output_memo_def
          output_noncompact_def)
    have c: "map (output_compact sx) so = map (output_compact sx) so'"
      by (rule concat_blocks_inject [where n = 116], simp_all add: blocks,
          rule no_collision(2) [OF nc hs(1)], use False in \<open>simp_all add: outputs_preimages_def\<close>)
    have m: "map output_memo so = map output_memo so'"
      by (rule concat_blocks_inject [where n = 512], simp_all add: blocks,
          rule no_collision(2) [OF nc hs(2)], use False in \<open>simp_all add: outputs_preimages_def\<close>)
    have n: "map (output_noncompact sx) so = map (output_noncompact sx) so'"
      by (rule concat_blocks_inject [where n = 128], simp_all add: blocks,
          rule no_collision(2) [OF nc hs(3)], use False in \<open>simp_all add: outputs_preimages_def\<close>)
    have "map (\<lambda>d. (output_compact sx d, output_memo d)) so = map (\<lambda>d. (output_compact sx d, output_memo d)) so'"
      by (rule map_eq_mapI [OF c m]) simp
    then show ?thesis
      by (rule map_eq_mapI [OF _ n]) (use wf in \<open>auto simp: list_all_iff intro: output_effects_inject\<close>)
  qed
qed

definition sapling_preimages where
  "sapling_preimages dx sx version sb =
     (ZCASH_SAPLING_HASH_PERSONALIZATION, case sb of None \<Rightarrow> [] | Some b \<Rightarrow> sapling_txid_data dx sx version b)
     # (case sb of None \<Rightarrow> [] | Some b \<Rightarrow>
         if sap_spends b = [] \<and> sap_outputs b = [] then []
         else spends_preimages dx sx version (sap_spends b) @ outputs_preimages dx sx (sap_outputs b))"

lemma sapling_hash_eq:
  "sapling_hash dx sx version sb = hasher dx ZCASH_SAPLING_HASH_PERSONALIZATION
     (case sb of None \<Rightarrow> [] | Some b \<Rightarrow> sapling_txid_data dx sx version b)"
  by (cases sb) (simp_all add: sapling_hash_def hash_sapling_txid_data_def hash_sapling_txid_empty_def)

lemma sapling_txid_data_empty_iff:
  "sapling_txid_data dx sx version b = [] \<longleftrightarrow> sap_spends b = [] \<and> sap_outputs b = []"
proof -
  have "length (ZatBalance_to_i64_le_bytes v) = 8" for v by (simp add: ZatBalance_to_i64_le_bytes_def)
  then have "ZatBalance_to_i64_le_bytes v \<noteq> []" for v by (metis list.size(3) zero_neq_numeral)
  then show ?thesis by (simp add: sapling_txid_data_def)
qed

lemma sapling_binding:
  assumes ok: "digest_ext_ok dx" and wf: "pred_option (wf_sapling_parts sx) sb" "pred_option (wf_sapling_parts sx) sb'"
    and nc: "\<not> collides dx (sapling_preimages dx sx version sb) (sapling_preimages dx sx version sb')"
    and eq: "sapling_hash dx sx version sb = sapling_hash dx sx version sb'"
  shows "sapling_effects sx version sb = sapling_effects sx version sb'"
proof -
  let ?m = "\<lambda>sb. case sb of None \<Rightarrow> [] | Some b \<Rightarrow> sapling_txid_data dx sx version b"
  have m: "?m sb = ?m sb'"
    by (rule no_collision(2) [OF nc eq [unfolded sapling_hash_eq]]) (simp_all add: sapling_preimages_def)
  have none: "sapling_effects sx version s = None \<longleftrightarrow> ?m s = []" for s
    by (cases s) (auto simp: sapling_effects_def sapling_txid_data_empty_iff)
  show ?thesis
  proof (cases "?m sb = []")
    case True
    then show ?thesis using m none [of sb] none [of sb'] by simp
  next
    case False
    then obtain b where b: "sb = Some b" "\<not> (sap_spends b = [] \<and> sap_outputs b = [])"
      by (cases sb) (auto simp: sapling_txid_data_empty_iff)
    from False m obtain b' where b': "sb' = Some b'" "\<not> (sap_spends b' = [] \<and> sap_outputs b' = [])"
      by (cases sb') (auto simp: sapling_txid_data_empty_iff)
    have len: "length (hash_sapling_spends dx sx version xs) = 32" "length (hash_sapling_outputs dx sx ys) = 32" for xs ys
      by (simp_all add: hash_sapling_spends_def hash_sapling_outputs_def length_hasher [OF ok])
    have "sapling_txid_data dx sx version b = sapling_txid_data dx sx version b'"
      using m by (simp add: b(1) b'(1))
    then have h: "hash_sapling_spends dx sx version (sap_spends b) = hash_sapling_spends dx sx version (sap_spends b')"
        "hash_sapling_outputs dx sx (sap_outputs b) = hash_sapling_outputs dx sx (sap_outputs b')"
        "ZatBalance_to_i64_le_bytes (sap_value_balance b) = ZatBalance_to_i64_le_bytes (sap_value_balance b')"
      using b(2) b'(2) len by (simp_all add: sapling_txid_data_def)
    have pre: "set (spends_preimages dx sx version (sap_spends b)) \<subseteq> set (sapling_preimages dx sx version sb)"
        "set (outputs_preimages dx sx (sap_outputs b)) \<subseteq> set (sapling_preimages dx sx version sb)"
        "set (spends_preimages dx sx version (sap_spends b')) \<subseteq> set (sapling_preimages dx sx version sb')"
        "set (outputs_preimages dx sx (sap_outputs b')) \<subseteq> set (sapling_preimages dx sx version sb')"
      using b b' by (auto simp: sapling_preimages_def)
    have parts: "wf_sapling_parts sx b" "wf_sapling_parts sx b'" using wf b(1) b'(1) by simp_all
    have ncs: "\<not> collides dx (spends_preimages dx sx version (sap_spends b)) (spends_preimages dx sx version (sap_spends b'))"
        "\<not> collides dx (outputs_preimages dx sx (sap_outputs b)) (outputs_preimages dx sx (sap_outputs b'))"
      using nc collides_mono [OF _ pre(1,3)] collides_mono [OF _ pre(2,4)] by blast+
    have "map (spend_effects sx version) (sap_spends b) = map (spend_effects sx version) (sap_spends b')"
      by (rule spends_binding [OF ok _ _ ncs(1) h(1)]) (use parts in \<open>simp_all add: wf_sapling_parts_def\<close>)
    moreover have "map (output_effects sx) (sap_outputs b) = map (output_effects sx) (sap_outputs b')"
      by (rule outputs_binding [OF ok _ _ ncs(2) h(2)]) (use parts in \<open>simp_all add: wf_sapling_parts_def\<close>)
    moreover have "sap_value_balance b = sap_value_balance b'"
      using h(3) le_bytes_inject [of 8 "zb_raw (sap_value_balance b)" "zb_raw (sap_value_balance b')"]
      by (simp add: ZatBalance_to_i64_le_bytes_def zat_balance.expand)
    ultimately show ?thesis using b b' by (simp add: sapling_effects_def)
  qed
qed

subsection \<open>The root\<close>

text \<open>The Orchard and Ironwood digests of the root; \<open>None\<close> is a panic.\<close>

definition orchard_effect where
  "orchard_effect dx version ob =
     Option.bind (txid_digest_orchard dx version ob) (or_empty dx (orchard_commitment_domain version))"

definition ironwood_effect where
  "ironwood_effect dx ob = Option.bind (txid_digest_ironwood dx ob) (or_empty dx ironwood_v6_domain)"

text \<open>What follows the Orchard digest: the Ironwood digest in version 6, the staking digest, when
  there is an action, in the other versions.\<close>

definition root_tail where
  "root_tail dx d = (if version_has_ironwood (td_version d) then ironwood_effect dx (td_ironwood_bundle d)
     else map_option (\<lambda>_. case txid_digest_crosslink dx (td_staking_action d) of Some c \<Rightarrow> c | None \<Rightarrow> [])
       (txid_digest_ironwood dx (td_ironwood_bundle d)))"

definition root_message where
  "root_message dx tp sx d =
     Option.bind (orchard_effect dx (td_version d) (td_orchard_bundle d)) (\<lambda>orchard.
     Option.bind (root_tail dx d) (\<lambda>tail. Some (
       hash_header_txid_data dx (td_version d) (td_consensus_branch_id d) (td_lock_time d) (td_expiry_height d)
       @ hash_transparent_txid_data dx (map_option (transparent_digests_of dx tp) (td_transparent_bundle d))
       @ sapling_hash dx sx (td_version d) (td_sapling_bundle d)
       @ orchard @ tail)))"

definition root_personal where
  "root_personal d = tx_personal ZCASH_TX_PERSONALIZATION_PREFIX (u32_from_BranchId (td_consensus_branch_id d))"

lemma data_txid_root:
  "data_txid dx tp sx d = map_option (\<lambda>m. TxId (hasher dx (root_personal d) m)) (root_message dx tp sx d)"
proof (cases "version_has_ironwood (td_version d)")
  case True
  then have v: "td_version d = V6" by (cases "td_version d") simp_all
  show ?thesis
    by (simp add: v data_txid_def txid_digests_def to_txid_def to_hash_v6_def root_message_def root_tail_def
        orchard_effect_def ironwood_effect_def root_personal_def sapling_hash_def split: bind_split)
next
  case False
  then show ?thesis
    by (simp add: data_txid_def txid_digests_def to_txid_def to_hash_def root_message_def root_tail_def
        orchard_effect_def root_personal_def sapling_hash_def wire_consensus_branch_id_def split: bind_split)
qed

definition tx_effects where
  "tx_effects dx tp sx d =
     ((td_version d, td_consensus_branch_id d, td_lock_time d, td_expiry_height d),
      transparent_effects tp (td_transparent_bundle d),
      sapling_effects sx (td_version d) (td_sapling_bundle d),
      orchard_effect dx (td_version d) (td_orchard_bundle d),
      if version_has_ironwood (td_version d) then (ironwood_effect dx (td_ironwood_bundle d), None)
      else (None, td_staking_action d))"

definition txid_preimages where
  "txid_preimages dx tp sx d =
     (ZCASH_HEADERS_HASH_PERSONALIZATION,
       header_txid_data (td_version d) (td_consensus_branch_id d) (td_lock_time d) (td_expiry_height d))
     # transparent_preimages dx tp (td_transparent_bundle d)
     @ sapling_preimages dx sx (td_version d) (td_sapling_bundle d)
     @ (case td_staking_action d of None \<Rightarrow> []
        | Some a \<Rightarrow> [(ZCASH_CROSSLINK_HASH_PERSONALIZATION, StakingAction_write (Some a))])
     @ (case root_message dx tp sx d of None \<Rightarrow> [] | Some m \<Rightarrow> [(root_personal d, m)])"

text \<open>A transaction of the versions identified by their digests, with well-formed parts.\<close>

definition wf_effecting where
  "wf_effecting tp sx d \<longleftrightarrow> td_version d \<in> {V5, V6, VCrosslink}
     \<and> pred_option (wf_transparent tp) (td_transparent_bundle d)
     \<and> pred_option (wf_sapling_parts sx) (td_sapling_bundle d)
     \<and> pred_option wf_action (td_staking_action d)"

lemma header_data_inject:
  assumes "v \<in> {V5, V6, VCrosslink}" "v' \<in> {V5, V6, VCrosslink}"
    and "header_txid_data v b l e = header_txid_data v' b' l' e'"
  shows "v = v' \<and> b = b' \<and> l = l' \<and> e = e'"
proof -
  have "TxVersion_header v = TxVersion_header v' \<and> u32_from_BranchId b = u32_from_BranchId b'
      \<and> l = l' \<and> u32_from_BlockHeight e = u32_from_BlockHeight e'"
    using assms(3) by (simp add: header_txid_data_def wire_consensus_branch_id_def)
  moreover have "TxVersion_header v = TxVersion_header v' \<Longrightarrow> v = v'"
    using assms(1,2) by (auto simp: TxVersion_header_values)
  moreover have "u32_from_BranchId b = u32_from_BranchId b' \<Longrightarrow> b = b'"
    by (metis BranchId_try_from_iff sum.inject(2))
  ultimately show ?thesis by (cases e; cases e') (auto simp: u32_from_BlockHeight_def)
qed

lemma sapling_hash_cong:
  assumes "sapling_effects sx v sb = sapling_effects sx v sb'"
  shows "sapling_hash dx sx v sb = sapling_hash dx sx v sb'"
proof -
  have spnd: "map sd_nullifier xs = map fst (map (spend_effects sx v) xs)"
      "map (spend_noncompact sx v) xs = map (\<lambda>(nf, cv, an, rk). cv @ (case an of None \<Rightarrow> [] | Some a \<Rightarrow> a) @ rk)
         (map (spend_effects sx v) xs)" for xs
    by (simp_all add: spend_effects_def spend_noncompact_def)
  have outp: "map (output_compact sx) xs = map (\<lambda>(cmu, epk, enc, cv, out). cmu @ epk @ take 52 enc) (map (output_effects sx) xs)"
      "map output_memo xs = map (\<lambda>(cmu, epk, enc, cv, out). take 512 (drop 52 enc)) (map (output_effects sx) xs)"
      "map (output_noncompact sx) xs = map (\<lambda>(cmu, epk, enc, cv, out). cv @ drop 564 enc @ out) (map (output_effects sx) xs)" for xs
    by (simp_all add: output_effects_def output_compact_def output_memo_def output_noncompact_def)
  have spends: "hash_sapling_spends dx sx v xs = hash_sapling_spends dx sx v ys"
    if "map (spend_effects sx v) xs = map (spend_effects sx v) ys" for xs ys
  proof -
    have "xs = [] \<longleftrightarrow> ys = []" using map_eq_imp_length_eq [OF that] by auto
    then show ?thesis unfolding hash_sapling_spends_def spnd that by simp
  qed
  have outputs: "hash_sapling_outputs dx sx xs = hash_sapling_outputs dx sx ys"
    if "map (output_effects sx) xs = map (output_effects sx) ys" for xs ys
  proof -
    have "xs = [] \<longleftrightarrow> ys = []" using map_eq_imp_length_eq [OF that] by auto
    then show ?thesis unfolding hash_sapling_outputs_def outp that by simp
  qed
  have data: "(case sb of None \<Rightarrow> [] | Some b \<Rightarrow> sapling_txid_data dx sx v b) = (case sapling_effects sx v sb of
      None \<Rightarrow> [] | Some _ \<Rightarrow> (case sb of None \<Rightarrow> [] | Some b \<Rightarrow> hash_sapling_spends dx sx v (sap_spends b)
        @ hash_sapling_outputs dx sx (sap_outputs b) @ ZatBalance_to_i64_le_bytes (sap_value_balance b)))" for sb
    by (simp add: sapling_effects_def sapling_txid_data_def split: option.split)
  show ?thesis
  proof (cases "sapling_effects sx v sb'")
    case None
    then show ?thesis unfolding sapling_hash_eq data assms by simp
  next
    case (Some e)
    then obtain b b' where b: "sb = Some b" "sb' = Some b'"
        "map (spend_effects sx v) (sap_spends b) = map (spend_effects sx v) (sap_spends b')"
        "map (output_effects sx) (sap_outputs b) = map (output_effects sx) (sap_outputs b')"
        "sap_value_balance b = sap_value_balance b'"
      using assms by (simp add: sapling_effects_def split: option.splits if_splits) blast
    show ?thesis
      unfolding sapling_hash_eq data assms Some unfolding b(1,2)
      using spends [OF b(3)] outputs [OF b(4)] b(5) by simp
  qed
qed

lemma root_lengths:
  assumes "digest_ext_ok dx"
  shows "length (hash_header_txid_data dx v b l e) = 32" "length (hash_transparent_txid_data dx td) = 32"
    "length (sapling_hash dx sx v sb) = 32" "orchard_effect dx v ob = Some c \<Longrightarrow> length c = 32"
  using assms
  by (auto simp: hash_header_txid_data_def hash_transparent_txid_data_def sapling_hash_eq length_hasher
      orchard_effect_def txid_digest_orchard_def map_digest_def or_empty_def digest_ext_ok_def
      split: option.splits bind_splits)

text \<open>The tails of two root messages: the versions with and without Ironwood.\<close>

lemma staking_binding:
  assumes ok: "digest_ext_ok dx" and wf: "pred_option wf_action s" "pred_option wf_action s'"
    and nc: "\<not> collides dx (case s of None \<Rightarrow> [] | Some a \<Rightarrow> [(ZCASH_CROSSLINK_HASH_PERSONALIZATION, StakingAction_write (Some a))])
       (case s' of None \<Rightarrow> [] | Some a \<Rightarrow> [(ZCASH_CROSSLINK_HASH_PERSONALIZATION, StakingAction_write (Some a))])"
    and eq: "(case txid_digest_crosslink dx s of Some c \<Rightarrow> c | None \<Rightarrow> [])
       = (case txid_digest_crosslink dx s' of Some c \<Rightarrow> c | None \<Rightarrow> [])"
  shows "s = s'"
proof -
  have ne: "hasher dx p m \<noteq> []" for p m
    using length_hasher [OF ok, of p m] by (metis list.size(3) zero_neq_numeral)
  show ?thesis
  proof (cases s)
    case None
    then show ?thesis using eq ne ne [symmetric] by (cases s') (simp_all add: txid_digest_crosslink_def)
  next
    case (Some a)
    then obtain a' where a': "s' = Some a'" using eq ne ne [symmetric] by (cases s') (simp_all add: txid_digest_crosslink_def)
    have h: "hasher dx ZCASH_CROSSLINK_HASH_PERSONALIZATION (StakingAction_write (Some a))
        = hasher dx ZCASH_CROSSLINK_HASH_PERSONALIZATION (StakingAction_write (Some a'))"
      using eq by (simp add: Some a' txid_digest_crosslink_def)
    have "StakingAction_write (Some a) = StakingAction_write (Some a')"
      by (rule no_collision(2) [OF nc h]) (simp_all add: Some a')
    moreover have "wf_opt_action (Some a)" "wf_opt_action (Some a')"
      using wf by (simp_all add: Some a' wf_opt_action_def)
    ultimately show ?thesis using action_codec.write_inject by (simp add: Some a')
  qed
qed

lemma root_message_Some:
  "root_message dx tp sx d = Some m \<longleftrightarrow> (\<exists>o' tl. orchard_effect dx (td_version d) (td_orchard_bundle d) = Some o'
     \<and> root_tail dx d = Some tl
     \<and> m = hash_header_txid_data dx (td_version d) (td_consensus_branch_id d) (td_lock_time d) (td_expiry_height d)
       @ hash_transparent_txid_data dx (map_option (transparent_digests_of dx tp) (td_transparent_bundle d))
       @ sapling_hash dx sx (td_version d) (td_sapling_bundle d) @ o' @ tl)"
  by (auto simp: root_message_def bind_eq_Some_conv)

lemma txid_binding:
  assumes ok: "transparent_ext_ok tp" "digest_ext_ok dx"
    and wf: "wf_effecting tp sx d" "wf_effecting tp sx d'"
    and m: "root_message dx tp sx d = Some m" "root_message dx tp sx d' = Some m'"
    and eq: "hasher dx (root_personal d) m = hasher dx (root_personal d') m'"
    and nc: "\<not> collides dx (txid_preimages dx tp sx d) (txid_preimages dx tp sx d')"
  shows "tx_effects dx tp sx d = tx_effects dx tp sx d'"
proof -
  obtain o1 t1 where p: "orchard_effect dx (td_version d) (td_orchard_bundle d) = Some o1" "root_tail dx d = Some t1"
      "m = hash_header_txid_data dx (td_version d) (td_consensus_branch_id d) (td_lock_time d) (td_expiry_height d)
       @ hash_transparent_txid_data dx (map_option (transparent_digests_of dx tp) (td_transparent_bundle d))
       @ sapling_hash dx sx (td_version d) (td_sapling_bundle d) @ o1 @ t1"
    using m(1) unfolding root_message_Some by blast
  obtain o2 t2 where p': "orchard_effect dx (td_version d') (td_orchard_bundle d') = Some o2" "root_tail dx d' = Some t2"
      "m' = hash_header_txid_data dx (td_version d') (td_consensus_branch_id d') (td_lock_time d') (td_expiry_height d')
       @ hash_transparent_txid_data dx (map_option (transparent_digests_of dx tp) (td_transparent_bundle d'))
       @ sapling_hash dx sx (td_version d') (td_sapling_bundle d') @ o2 @ t2"
    using m(2) unfolding root_message_Some by blast
  have mm: "m = m'"
    by (rule no_collision(2) [OF nc eq]) (simp_all add: txid_preimages_def m)
  note parts = mm [unfolded p(3) p'(3)]
  have h: "hash_header_txid_data dx (td_version d) (td_consensus_branch_id d) (td_lock_time d) (td_expiry_height d)
      = hash_header_txid_data dx (td_version d') (td_consensus_branch_id d') (td_lock_time d') (td_expiry_height d')"
    and tr: "hash_transparent_txid_data dx (map_option (transparent_digests_of dx tp) (td_transparent_bundle d))
      = hash_transparent_txid_data dx (map_option (transparent_digests_of dx tp) (td_transparent_bundle d'))"
    and sa: "sapling_hash dx sx (td_version d) (td_sapling_bundle d) = sapling_hash dx sx (td_version d') (td_sapling_bundle d')"
    and oo: "o1 = o2" and tt: "t1 = t2"
    using parts root_lengths(4) [OF ok(2) p(1)] root_lengths(4) [OF ok(2) p'(1)]
    by (simp_all add: root_lengths(1-3) [OF ok(2)])
  have sub: "set (transparent_preimages dx tp (td_transparent_bundle x)) \<subseteq> set (txid_preimages dx tp sx x)"
      "set (sapling_preimages dx sx (td_version x) (td_sapling_bundle x)) \<subseteq> set (txid_preimages dx tp sx x)"
      "set (case td_staking_action x of None \<Rightarrow> [] | Some a \<Rightarrow>
        [(ZCASH_CROSSLINK_HASH_PERSONALIZATION, StakingAction_write (Some a))]) \<subseteq> set (txid_preimages dx tp sx x)" for x
    by (auto simp: txid_preimages_def)
  have "header_txid_data (td_version d) (td_consensus_branch_id d) (td_lock_time d) (td_expiry_height d)
      = header_txid_data (td_version d') (td_consensus_branch_id d') (td_lock_time d') (td_expiry_height d')"
    by (rule no_collision(2) [OF nc h [unfolded hash_header_txid_data_def]]) (simp_all add: txid_preimages_def)
  then have hd: "td_version d = td_version d'" "td_consensus_branch_id d = td_consensus_branch_id d'"
      "td_lock_time d = td_lock_time d'" "td_expiry_height d = td_expiry_height d'"
    using header_data_inject wf unfolding wf_effecting_def by blast+
  have "transparent_effects tp (td_transparent_bundle d) = transparent_effects tp (td_transparent_bundle d')"
    by (rule transparent_binding [OF ok _ _ _ tr])
      (use wf nc collides_mono [OF _ sub(1) sub(1)] in \<open>auto simp: wf_effecting_def\<close>)
  moreover have "sapling_effects sx (td_version d') (td_sapling_bundle d)
      = sapling_effects sx (td_version d') (td_sapling_bundle d')"
  proof (rule sapling_binding [OF ok(2) _ _ _ sa [unfolded hd]])
    show "\<not> collides dx (sapling_preimages dx sx (td_version d') (td_sapling_bundle d))
        (sapling_preimages dx sx (td_version d') (td_sapling_bundle d'))"
      using nc collides_mono [OF _ sub(2) [of d] sub(2) [of d']] unfolding hd by blast
  qed (use wf in \<open>simp_all add: wf_effecting_def\<close>)
  moreover have "orchard_effect dx (td_version d') (td_orchard_bundle d) = orchard_effect dx (td_version d') (td_orchard_bundle d')"
    using p(1) p'(1) oo unfolding hd by simp
  moreover have "version_has_ironwood (td_version d') \<Longrightarrow>
      ironwood_effect dx (td_ironwood_bundle d) = ironwood_effect dx (td_ironwood_bundle d')"
    using p(2) p'(2) tt by (simp add: root_tail_def hd)
  moreover have "td_staking_action d = td_staking_action d'" if "\<not> version_has_ironwood (td_version d')"
  proof (rule staking_binding [OF ok(2)])
    show "(case txid_digest_crosslink dx (td_staking_action d) of Some c \<Rightarrow> c | None \<Rightarrow> [])
       = (case txid_digest_crosslink dx (td_staking_action d') of Some c \<Rightarrow> c | None \<Rightarrow> [])"
      using p(2) p'(2) tt that by (auto simp: root_tail_def hd)
  qed (use wf nc collides_mono [OF _ sub(3) sub(3)] in \<open>auto simp: wf_effecting_def\<close>)
  ultimately show ?thesis by (simp add: tx_effects_def hd)
qed


subsection \<open>Authorizing data\<close>

definition reauthorize_sapling ::
  "(('cv, 'fe, 'rk) spend_description \<Rightarrow> bytes) \<Rightarrow> (('cv, 'fe, 'rk) spend_description \<Rightarrow> bytes)
     \<Rightarrow> (('cv, 'cmu) output_description \<Rightarrow> bytes) \<Rightarrow> bytes
     \<Rightarrow> ('cv, 'fe, 'cmu, 'rk) sapling_bundle \<Rightarrow> ('cv, 'fe, 'cmu, 'rk) sapling_bundle" where
  "reauthorize_sapling spend_proof spend_sig output_proof sig b =
     b\<lparr>sap_spends := map (\<lambda>s. s\<lparr>sd_zkproof := spend_proof s, sd_spend_auth_sig := spend_sig s\<rparr>) (sap_spends b),
       sap_outputs := map (\<lambda>d. d\<lparr>od_zkproof := output_proof d\<rparr>) (sap_outputs b), sap_binding_sig := sig\<rparr>"

definition reanchor_sapling ::
  "'fe \<Rightarrow> ('cv, 'fe, 'cmu, 'rk) sapling_bundle \<Rightarrow> ('cv, 'fe, 'cmu, 'rk) sapling_bundle" where
  "reanchor_sapling anchor b = b\<lparr>sap_spends := map (\<lambda>s. s\<lparr>sd_anchor := anchor\<rparr>) (sap_spends b)\<rparr>"

text \<open>The identifier does not depend on the Sapling proofs and signatures, in any version; in version
  6 it does not depend on the anchors either, which the commitment to the authorizing data covers
  instead; and it never depends on the staking action in version 6 nor on the Ironwood bundle in the
  other versions (as long as its digest is defined).\<close>

theorem txid_ignores_authorization:
  "data_txid dx tp sx (d\<lparr>td_sapling_bundle := Some (reauthorize_sapling p q r sig b)\<rparr>)
      = data_txid dx tp sx (d\<lparr>td_sapling_bundle := Some b\<rparr>)
    \<and> data_txid dx tp sx (d\<lparr>td_version := V6, td_sapling_bundle := Some (reanchor_sapling a b)\<rparr>)
      = data_txid dx tp sx (d\<lparr>td_version := V6, td_sapling_bundle := Some b\<rparr>)
    \<and> data_txid dx tp sx (d\<lparr>td_version := V6, td_staking_action := s\<rparr>)
      = data_txid dx tp sx (d\<lparr>td_version := V6\<rparr>)
    \<and> data_txid dx tp sx (d\<lparr>td_version := VCrosslink, td_ironwood_bundle := ib\<rparr>) \<in>
        {None, data_txid dx tp sx (d\<lparr>td_version := VCrosslink, td_ironwood_bundle := None\<rparr>)}"
proof (intro conjI)
  have re: "sapling_hash dx sx v (Some (reauthorize_sapling p q r sig b)) = sapling_hash dx sx v (Some b)" for v
    by (rule sapling_hash_cong)
      (simp add: sapling_effects_def reauthorize_sapling_def spend_effects_def output_effects_def)
  show "data_txid dx tp sx (d\<lparr>td_sapling_bundle := Some (reauthorize_sapling p q r sig b)\<rparr>)
      = data_txid dx tp sx (d\<lparr>td_sapling_bundle := Some b\<rparr>)"
    unfolding data_txid_root root_message_def root_tail_def root_personal_def by (simp add: re)
  have an: "sapling_hash dx sx V6 (Some (reanchor_sapling a b)) = sapling_hash dx sx V6 (Some b)"
    by (rule sapling_hash_cong)
      (simp add: sapling_effects_def reanchor_sapling_def spend_effects_def write_anchor_def)
  show "data_txid dx tp sx (d\<lparr>td_version := V6, td_sapling_bundle := Some (reanchor_sapling a b)\<rparr>)
      = data_txid dx tp sx (d\<lparr>td_version := V6, td_sapling_bundle := Some b\<rparr>)"
    unfolding data_txid_root root_message_def root_tail_def root_personal_def by (simp add: an)
  show "data_txid dx tp sx (d\<lparr>td_version := V6, td_staking_action := s\<rparr>)
      = data_txid dx tp sx (d\<lparr>td_version := V6\<rparr>)"
    unfolding data_txid_root root_message_def root_tail_def root_personal_def by simp
  show "data_txid dx tp sx (d\<lparr>td_version := VCrosslink, td_ironwood_bundle := ib\<rparr>) \<in>
        {None, data_txid dx tp sx (d\<lparr>td_version := VCrosslink, td_ironwood_bundle := None\<rparr>)}"
    unfolding data_txid_root root_message_def root_tail_def root_personal_def
    by (cases ib) (auto simp: txid_digest_ironwood_def map_digest_def split: bind_splits)
qed

subsection \<open>An instance\<close>

definition byte_digest :: "(bytes, bytes, bytes, bytes, bytes, u8) orchard_bundle digest_ext" where
  "byte_digest = \<lparr>dx_blake2b = (\<lambda>p m. take 32 (p @ m @ replicate 32 0)), dx_sha256d = (\<lambda>m. take 32 (m @ replicate 32 0)),
     dx_commitment = (\<lambda>b v. Some (replicate 32 1)), dx_authorizing_commitment = (\<lambda>b v. Some (replicate 32 2)),
     dx_bundle_txid_empty = (\<lambda>p v. Some (replicate 32 3)), dx_bundle_auth_empty = (\<lambda>p v. Some (replicate 32 4))\<rparr>"

lemma byte_digest_ok: "digest_ext_ok byte_digest"
  by (auto simp: digest_ext_ok_def byte_digest_def min_def)

definition example_data ::
  "tx_version \<Rightarrow> (bytes, bytes, bytes, bytes) sapling_bundle option
     \<Rightarrow> ((bytes, bytes) transparent_bundle, (bytes, bytes, bytes, bytes) sapling_bundle,
          (bytes, bytes, bytes, bytes, bytes, u8) orchard_bundle) transaction_data" where
  "example_data v sb = \<lparr>td_version = v, td_consensus_branch_id = BranchNu6_3, td_lock_time = 0,
     td_expiry_height = BlockHeight 100,
     td_transparent_bundle = Some \<lparr>tb_vin = [replicate 41 1], tb_vout = [replicate 9 2]\<rparr>,
     td_sprout_bundle = None, td_sapling_bundle = sb, td_orchard_bundle = None, td_ironwood_bundle = None,
     td_staking_action = None\<rparr>"

lemma example_data_parts: "v \<in> {V5, V6, VCrosslink} \<Longrightarrow> pred_option (wf_sapling_parts byte_sapling) sb \<Longrightarrow>
    wf_effecting byte_transparent byte_sapling (example_data v sb)"
  by (simp add: wf_effecting_def example_data_def wf_transparent_def wf_byte_tx)

lemma example_txid: "\<exists>t. data_txid byte_digest byte_transparent byte_sapling (example_data V5 sb) = Some t"
  by (simp add: data_txid_root root_message_def root_tail_def orchard_effect_def txid_digest_orchard_def
      txid_digest_ironwood_def map_digest_def or_empty_def example_data_def byte_digest_def)


end
