(* ===== verification/TransactionSpec.thy ===== *)
theory TransactionSpec
  imports Transaction TxIdSpec
begin

text \<open>
  What the transaction formats guarantee: which bytes each version reads and writes, the identifier
  that results, and what a format refuses or drops.
\<close>

subsection \<open>An instance\<close>

definition byte_tx where
  "byte_tx = \<lparr>te_transparent = byte_transparent, te_sapling = byte_sapling, te_orchard = byte_orchard,
     te_digest = byte_digest, te_joinsplits = std_vector bitcoin_compact_size, te_cs = bitcoin_compact_size\<rparr>"

lemma byte_tx_ok: "tx_ext_ok byte_tx"
  by (simp add: tx_ext_ok_def byte_tx_def byte_transparent_ok byte_sapling_ok byte_orchard_ok
      bitcoin_compact_size_ok std_vector_ok)

lemma wf_example_later: "wf_later byte_tx (example_data V5 (Some example_sapling))"
  by (simp add: wf_later_def example_data_def byte_tx_def wf_transparent_def wf_byte_tx wf_example_sapling
      wf_orchard_slot_def)

subsection \<open>Versions up to 4\<close>

definition is_v4_format :: "tx_version \<Rightarrow> bool" where
  "is_v4_format v \<longleftrightarrow> (case v of V5 \<Rightarrow> False | V6 \<Rightarrow> False | VCrosslink \<Rightarrow> False | _ \<Rightarrow> True)"

lemma from_data_v5_data: "Some t = from_data_v5 te d \<Longrightarrow> tx_data t = d"
  by (auto simp: from_data_v5_def dest: sym)

lemma read_v4_dispatch:
  assumes "tx_ext_ok te"
  shows "Transaction_read te b bs = Inr (Some t, rest) \<and> is_v4_format (td_version (tx_data t)) \<longleftrightarrow>
    (\<exists>vb. td_consensus_branch_id (tx_data t) = b \<and> wf_v4 te vb (tx_data t)
       \<and> tx_txid t = TxId (dx_sha256d (te_digest te) (TxVersion_write (td_version (tx_data t)) @ v4_body te vb (tx_data t)))
       \<and> bs = TxVersion_write (td_version (tx_data t)) @ v4_body te vb (tx_data t) @ rest)" (is "?L \<longleftrightarrow> ?R")
proof
  assume L: ?L
  then obtain v r where v: "wf_tx_version v" "bs = TxVersion_write v @ r"
    and c: "case v of V5 \<Rightarrow> read_v5 te v r = Inr (Some t, rest) | V6 \<Rightarrow> read_v6 te v r = Inr (Some t, rest)
           | VCrosslink \<Rightarrow> read_vcrosslink te v r = Inr (Some t, rest)
           | _ \<Rightarrow> \<exists>t'. Some t = Some t' \<and> read_v4 te (TxVersion_write v) v b r = Inr (t', rest)"
    unfolding read_dispatch by blast
  have later: "\<not> (\<exists>d. td_version d = w \<and> Some t = from_data_v5 te d)" if "w \<in> {V5, V6, VCrosslink}" for w
    using L that from_data_v5_data [of t te] by (auto simp: is_v4_format_def)
  have "is_v4_format v"
    using c later by (cases v) (auto simp: is_v4_format_def read_later_iff [OF assms])
  then have "read_v4 te (TxVersion_write v) v b r = Inr (t, rest)"
    using c by (cases v) (simp_all add: is_v4_format_def)
  then show ?R
    using read_v4_iff [OF assms \<open>is_v4_format v\<close> [unfolded is_v4_format_def] v(1)] v(2) by auto
next
  assume ?R
  then obtain vb where R: "td_consensus_branch_id (tx_data t) = b" "wf_v4 te vb (tx_data t)"
      "tx_txid t = TxId (dx_sha256d (te_digest te) (TxVersion_write (td_version (tx_data t)) @ v4_body te vb (tx_data t)))"
      "bs = TxVersion_write (td_version (tx_data t)) @ v4_body te vb (tx_data t) @ rest" by blast
  let ?v = "td_version (tx_data t)"
  have v: "is_v4_format ?v" "wf_tx_version ?v" using R(2) by (simp_all add: wf_v4_def is_v4_format_def)
  have "read_v4 te (TxVersion_write ?v) ?v b (v4_body te vb (tx_data t) @ rest) = Inr (t, rest)"
    unfolding read_v4_iff [OF assms v(1) [unfolded is_v4_format_def] v(2)] using R by auto
  then show ?L
    unfolding R(4) read_dispatch_at [OF v(2)] using v(1) by (cases ?v) (simp_all add: is_v4_format_def)
qed

text \<open>C10: The formats up to version 4. A transaction whose parts the version can carry is written, and
  read back (with the branch given to the reader) as the same data, with the double SHA-256 of the
  bytes as identifier, which is also the identifier that freezing the data gives. Conversely a
  successful read has the hash of exactly the bytes it consumed as identifier, and writing it again
  gives these bytes unless it has no Sapling bundle while its bytes hold a nonzero value balance,
  which the data forget.\<close>

theorem transaction_v4_codec:
  assumes "tx_ext_ok te"
  shows "(wf_v4 te (sapling_value_balance d) d \<and> td_consensus_branch_id d = b \<longrightarrow>
      (\<exists>w. Transaction_write te d = Inr w
        \<and> (let t = \<lparr>tx_txid = TxId (dx_sha256d (te_digest te) w), tx_data = d\<rparr> in
           Transaction_read te b (w @ rest) = Inr (Some t, rest)
           \<and> Transaction_from_data te d = Some (Inr t))))
    \<and> (Transaction_read te b bs = Inr (Some t, rest) \<and> is_v4_format (td_version (tx_data t)) \<longrightarrow>
      (\<exists>w vb. bs = w @ rest \<and> wf_v4 te vb (tx_data t) \<and> td_consensus_branch_id (tx_data t) = b
        \<and> tx_txid t = TxId (dx_sha256d (te_digest te) w)
        \<and> (Transaction_write te (tx_data t) = Inr w \<longleftrightarrow> vb = sapling_value_balance (tx_data t))
        \<and> (td_sapling_bundle (tx_data t) \<noteq> None \<longrightarrow> vb = sapling_value_balance (tx_data t))))"
proof (intro conjI impI)
  assume wf: "wf_v4 te (sapling_value_balance d) d \<and> td_consensus_branch_id d = b"
  let ?w = "TxVersion_write (td_version d) @ v4_body te (sapling_value_balance d) d"
  let ?t = "\<lparr>tx_txid = TxId (dx_sha256d (te_digest te) ?w), tx_data = d\<rparr>"
  have w: "Transaction_write te d = Inr ?w" using write_v4_eq wf by blast
  moreover have "Transaction_read te b (?w @ rest) = Inr (Some ?t, rest)"
    using read_v4_dispatch [OF assms, of b "?w @ rest" ?t rest] wf by auto
  moreover have "Transaction_from_data te d = Some (Inr ?t)"
    using wf w by (cases "td_version d") (simp_all add: Transaction_from_data_def from_data_v4_def wf_v4_def)
  ultimately show "\<exists>w. Transaction_write te d = Inr w
        \<and> (let t = \<lparr>tx_txid = TxId (dx_sha256d (te_digest te) w), tx_data = d\<rparr> in
           Transaction_read te b (w @ rest) = Inr (Some t, rest)
           \<and> Transaction_from_data te d = Some (Inr t))" unfolding Let_def by blast
next
  assume "Transaction_read te b bs = Inr (Some t, rest) \<and> is_v4_format (td_version (tx_data t))"
  then obtain vb where vb: "td_consensus_branch_id (tx_data t) = b" "wf_v4 te vb (tx_data t)"
       "tx_txid t = TxId (dx_sha256d (te_digest te) (TxVersion_write (td_version (tx_data t)) @ v4_body te vb (tx_data t)))"
       "bs = TxVersion_write (td_version (tx_data t)) @ v4_body te vb (tx_data t) @ rest"
    unfolding read_v4_dispatch [OF assms] by blast
  let ?w = "TxVersion_write (td_version (tx_data t)) @ v4_body te vb (tx_data t)"
  let ?vb' = "sapling_value_balance (tx_data t)"
  have some: "vb = ?vb'" if "td_sapling_bundle (tx_data t) \<noteq> None"
    using vb(2) that by (auto simp: wf_v4_def wf_v4_sapling_def sapling_value_balance_def bundle_balance_def
        split: if_splits)
  have "wf_v4 te ?vb' (tx_data t)"
  proof (cases "td_sapling_bundle (tx_data t)")
    case None
    then show ?thesis using vb(2) by (auto simp: wf_v4_def wf_v4_sapling_def wf_v4_components_def
        components_of_def sapling_value_balance_def bundle_balance_def zb.zero_ok)
  qed (use vb(2) some in simp)
  from v4_body_inject [OF vb(2) this] have "Transaction_write te (tx_data t) = Inr ?w \<longleftrightarrow> vb = ?vb'"
    using write_v4_eq [OF vb(2)] by auto
  then show "\<exists>w vb. bs = w @ rest \<and> wf_v4 te vb (tx_data t) \<and> td_consensus_branch_id (tx_data t) = b
        \<and> tx_txid t = TxId (dx_sha256d (te_digest te) w)
        \<and> (Transaction_write te (tx_data t) = Inr w \<longleftrightarrow> vb = sapling_value_balance (tx_data t))
        \<and> (td_sapling_bundle (tx_data t) \<noteq> None \<longrightarrow> vb = sapling_value_balance (tx_data t))"
    using vb some by (intro exI [of _ ?w] exI [of _ vb]) auto
qed

definition example_v4 where
  "example_v4 = (example_data V4 None)\<lparr>td_sprout_bundle := Some \<lparr>sb_joinsplits = [example_js],
     sb_joinsplit_pubkey = replicate 32 1, sb_joinsplit_sig = replicate 64 2\<rparr>\<rparr>"

lemma wf_example_v4: "wf_balance vb \<Longrightarrow> wf_v4 byte_tx vb example_v4"
  by (simp add: wf_v4_def example_v4_def example_data_def byte_tx_def wf_transparent_def wf_byte_tx
      wf_expiry_def wf_v4_sapling_def wf_v4_components_def components_of_def wf_sprout_slot_def
      wf_sprout_bundle_def wf_example_js version_has_overwinter_def)

lemma transaction_v4_codec_witness:
  "\<exists>w t. Transaction_write byte_tx example_v4 = Inr w
     \<and> Transaction_read byte_tx BranchNu6_3 (w @ [7]) = Inr (Some t, [7]) \<and> tx_data t = example_v4"
proof -
  have vb: "sapling_value_balance example_v4 = ZatBalance_zero"
    by (simp add: sapling_value_balance_def bundle_balance_def example_v4_def example_data_def)
  have b: "td_consensus_branch_id example_v4 = BranchNu6_3" by (simp add: example_v4_def example_data_def)
  obtain w where w: "Transaction_write byte_tx example_v4 = Inr w"
      "let t = \<lparr>tx_txid = TxId (dx_sha256d (te_digest byte_tx) w), tx_data = example_v4\<rparr> in
         Transaction_read byte_tx BranchNu6_3 (w @ [7]) = Inr (Some t, [7])
         \<and> Transaction_from_data byte_tx example_v4 = Some (Inr t)"
    using conjunct1 [OF transaction_v4_codec [OF byte_tx_ok, of example_v4 BranchNu6_3 "[7]"]]
      wf_example_v4 [OF zb.zero_ok] vb b by auto
  then show ?thesis unfolding Let_def by (intro exI conjI) (assumption | simp)+
qed

subsection \<open>Versions from 5\<close>

lemma later_dispatch:
  assumes "tx_ext_ok te" "v \<in> {V5, V6, VCrosslink}"
  shows "Transaction_read te b (TxVersion_write v @ r) = Inr (ot, rest) \<longleftrightarrow>
      (\<exists>d. td_sprout_bundle d = None \<and> td_version d = v \<and> wf_later te d \<and> ot = from_data_v5 te d
         \<and> r = common_bytes te d @ tail_bytes te d @ rest)"
proof -
  have wf: "wf_tx_version v" using assms(2) by auto
  show ?thesis unfolding read_dispatch_at [OF wf] using assms(2) read_later_iff [OF assms(1)] by auto
qed

text \<open>C6: The formats of versions 5, 6 and Crosslink, whose branch stands in the bytes: the reader
  ignores the branch it is given. Whatever a format writes for well-formed data is read back as these
  data, frozen into a transaction by their digests. Conversely every successful read returns frozen
  well-formed data of the version, and these are written back as exactly the bytes read; the one
  exception is a version 6 transaction with an Orchard bundle in a branch before NU6.3, which is read
  but not written.\<close>

theorem transaction_later_codec:
  assumes "tx_ext_ok te"
  shows "(wf_later te d \<and> Transaction_write te d = Inr w \<longrightarrow>
      Transaction_read te b (w @ rest) = Inr (from_data_v5 te d, rest))
    \<and> (v \<in> {V5, V6, VCrosslink} \<and> Transaction_read te b (TxVersion_write v @ r) = Inr (ot, rest) \<longrightarrow>
      (\<exists>d. td_version d = v \<and> wf_later te d \<and> ot = from_data_v5 te d
        \<and> (if v = V6 \<and> branch_orchard_revision (td_consensus_branch_id d) \<noteq> Some OrchardV3
               \<and> td_orchard_bundle d \<noteq> None
           then Transaction_write te d = Inl (InvalidInput ''v6 Orchard bundles require orchard_v3 or ironwood_v3'')
           else \<exists>w. Transaction_write te d = Inr w \<and> TxVersion_write v @ r = w @ rest)))"
proof (intro conjI impI)
  note dispatch = later_dispatch [OF assms]
  show "Transaction_read te b (w @ rest) = Inr (from_data_v5 te d, rest)"
    if "wf_later te d \<and> Transaction_write te d = Inr w"
  proof -
    have v: "td_version d \<in> {V5, V6, VCrosslink}" "td_sprout_bundle d = None"
      using that by (auto simp: wf_later_def split: tx_version.splits)
    have "w = TxVersion_write (td_version d) @ common_bytes te d @ tail_bytes te d"
      using that write_later [of te d] by (auto split: if_splits)
    then show ?thesis using dispatch [OF v(1)] v(2) that by auto
  qed
  assume "v \<in> {V5, V6, VCrosslink} \<and> Transaction_read te b (TxVersion_write v @ r) = Inr (ot, rest)"
  then obtain d where d: "td_version d = v" "wf_later te d" "ot = from_data_v5 te d"
      "r = common_bytes te d @ tail_bytes te d @ rest"
    using dispatch by blast
  then show "\<exists>d. td_version d = v \<and> wf_later te d \<and> ot = from_data_v5 te d
        \<and> (if v = V6 \<and> branch_orchard_revision (td_consensus_branch_id d) \<noteq> Some OrchardV3
               \<and> td_orchard_bundle d \<noteq> None
           then Transaction_write te d = Inl (InvalidInput ''v6 Orchard bundles require orchard_v3 or ironwood_v3'')
           else \<exists>w. Transaction_write te d = Inr w \<and> TxVersion_write v @ r = w @ rest)"
    using write_later [OF d(2)] by (intro exI [of _ d]) (simp del: branch_orchard_revision.simps)
qed

lemma transaction_later_codec_witness:
  "\<exists>w t. Transaction_write byte_tx (example_data V5 (Some example_sapling)) = Inr w
     \<and> Transaction_read byte_tx BranchSprout (w @ [7]) = Inr (Some t, [7])
     \<and> tx_data t = example_data V5 (Some example_sapling)"
proof -
  let ?d = "example_data V5 (Some example_sapling)"
  obtain w where w: "Transaction_write byte_tx ?d = Inr w"
    using write_later [OF wf_example_later] by (auto simp: example_data_def split: if_splits)
  obtain t where t: "from_data_v5 byte_tx ?d = Some t"
    using example_txid [of "Some example_sapling"] by (auto simp: from_data_v5_def byte_tx_def)
  have "Transaction_read byte_tx BranchSprout (w @ [7]) = Inr (Some t, [7])"
    using conjunct1 [OF transaction_later_codec [OF byte_tx_ok, where d = ?d and w = w and rest = "[7]" and b = BranchSprout
        and v = V5 and r = "[]" and ot = None]] wf_example_later w t by simp
  with w from_data_v5_data [OF t [symmetric]] show ?thesis by blast
qed

subsection \<open>What the writers refuse and what they drop\<close>



subsection \<open>The branch of versions up to 4\<close>

lemma fix_branch:
  "fix_consensus_branch_id d b = (if is_v4_format (td_version d) then d\<lparr>td_consensus_branch_id := b\<rparr> else d)"
  by (cases "td_version d") (simp_all add: is_v4_format_def fix_consensus_branch_id_def)

lemma v4_body_branch [simp]:
  "v4_body te vb (d\<lparr>td_consensus_branch_id := b\<rparr>) = v4_body te vb d"
  "wf_v4 te vb (d\<lparr>td_consensus_branch_id := b\<rparr>) = wf_v4 te vb d"
  by (simp_all add: v4_body_def wf_v4_def)

lemma read_later_dispatch:
  assumes "tx_ext_ok te"
  shows "Transaction_read te b bs = Inr (Some t, rest) \<and> \<not> is_v4_format (td_version (tx_data t)) \<longleftrightarrow>
    wf_later te (tx_data t) \<and> from_data_v5 te (tx_data t) = Some t
    \<and> bs = TxVersion_write (td_version (tx_data t)) @ common_bytes te (tx_data t) @ tail_bytes te (tx_data t) @ rest"
    (is "?L \<longleftrightarrow> ?R")
proof
  assume L: ?L
  then obtain v r where v: "wf_tx_version v" "bs = TxVersion_write v @ r"
    and c: "case v of V5 \<Rightarrow> read_v5 te v r = Inr (Some t, rest) | V6 \<Rightarrow> read_v6 te v r = Inr (Some t, rest)
         | VCrosslink \<Rightarrow> read_vcrosslink te v r = Inr (Some t, rest)
         | _ \<Rightarrow> \<exists>t'. Some t = Some t' \<and> read_v4 te (TxVersion_write v) v b r = Inr (t', rest)"
    unfolding read_dispatch by blast
  have "\<not> is_v4_format v"
  proof
    assume v4: "is_v4_format v"
    then have "read_v4 te (TxVersion_write v) v b r = Inr (t, rest)"
      using c by (cases v) (simp_all add: is_v4_format_def)
    then have "td_version (tx_data t) = v"
      using read_v4_iff [OF assms v4 [unfolded is_v4_format_def] v(1)] by blast
    with L v4 show False by simp
  qed
  then have "\<exists>d. td_version d = v \<and> wf_later te d \<and> Some t = from_data_v5 te d
      \<and> r = common_bytes te d @ tail_bytes te d @ rest"
    using c by (cases v) (auto simp: is_v4_format_def read_later_iff [OF assms])
  then obtain d where d: "td_version d = v" "wf_later te d" "Some t = from_data_v5 te d"
      "r = common_bytes te d @ tail_bytes te d @ rest" by blast
  then show ?R using from_data_v5_data [OF d(3)] v(2) by simp
next
  assume R: ?R
  then have w: "wf_tx_version (td_version (tx_data t))" "td_sprout_bundle (tx_data t) = None"
    by (auto simp: wf_later_def split: tx_version.splits)
  have "\<exists>d. td_sprout_bundle d = None \<and> td_version d = td_version (tx_data t) \<and> wf_later te d
      \<and> Some t = from_data_v5 te d
      \<and> common_bytes te (tx_data t) @ tail_bytes te (tx_data t) @ rest = common_bytes te d @ tail_bytes te d @ rest"
    using R w by (intro exI [of _ "tx_data t"]) simp
  then show ?L
    using R w(1) by (cases "td_version (tx_data t)")
      (simp_all add: read_dispatch_at is_v4_format_def read_later_iff [OF assms] wf_later_def)
qed

lemma read_other_branch:
  assumes "tx_ext_ok te" "Transaction_read te b bs = Inr (Some t, rest)"
  shows "Transaction_read te b' bs = Inr (Some (t\<lparr>tx_data := fix_consensus_branch_id (tx_data t) b'\<rparr>), rest)"
proof (cases "is_v4_format (td_version (tx_data t))")
  case True
  then show ?thesis
    using read_v4_dispatch [OF assms(1), of b bs t rest] assms(2)
      read_v4_dispatch [OF assms(1), of b' bs "t\<lparr>tx_data := (tx_data t)\<lparr>td_consensus_branch_id := b'\<rparr>\<rparr>" rest]
    by (simp add: fix_branch)
next
  case False
  then show ?thesis
    using read_later_dispatch [OF assms(1), of b bs t rest] read_later_dispatch [OF assms(1), of b' bs t rest] assms(2)
    by (simp add: fix_branch)
qed

text \<open>C13: The branch identifier is not part of the formats up to version 4. Reading the same bytes with
  another branch succeeds with the same identifier and data up to the branch, and correcting the
  branch afterwards gives what reading with the right branch would have given; in the later versions
  neither the argument of the reader nor the correction has an effect.\<close>

theorem branch_id_correction:
  assumes "tx_ext_ok te" "Transaction_read te b bs = Inr (Some t, rest)"
  shows "Transaction_read te b' bs = Inr (Some (t\<lparr>tx_data := fix_consensus_branch_id (tx_data t) b'\<rparr>), rest)
    \<and> (\<not> is_v4_format (td_version (tx_data t)) \<longrightarrow> fix_consensus_branch_id (tx_data t) b' = tx_data t)"
  using read_other_branch [OF assms] by (simp add: fix_branch)

lemma branch_id_correction_witness:
  "\<exists>w t. Transaction_read byte_tx BranchSapling w
      = Inr (Some (t\<lparr>tx_data := fix_consensus_branch_id (tx_data t) BranchSapling\<rparr>), [])
    \<and> tx_data t = example_v4"
proof -
  have v: "is_v4_format (td_version example_v4)" and b: "td_consensus_branch_id example_v4 = BranchNu6_3"
    by (simp_all add: example_v4_def example_data_def is_v4_format_def)
  let ?w = "TxVersion_write (td_version example_v4) @ v4_body byte_tx ZatBalance_zero example_v4"
  let ?t = "\<lparr>tx_txid = TxId (dx_sha256d (te_digest byte_tx) ?w), tx_data = example_v4\<rparr>"
  have "Transaction_read byte_tx BranchNu6_3 (?w @ []) = Inr (Some ?t, [])"
    using read_v4_dispatch [OF byte_tx_ok, of BranchNu6_3 "?w @ []" ?t "[]"] wf_example_v4 [OF zb.zero_ok] b by auto
  from conjunct1 [OF branch_id_correction [OF byte_tx_ok this, of BranchSapling]]
  show ?thesis by (intro exI conjI) (assumption | simp)+
qed

end
