(* ===== verification/BftVote.thy ===== *)
theory BftVote
  imports BftKeys
begin

unbundle bit_operations_syntax

text \<open>
  \<open>crates/bft_primitives/src/vote.rs\<close>: rounds, votes and their 76-byte signing layout, and
  the round word that packs the vote kind with the round.
\<close>

subsection \<open>Rounds and votes\<close>

definition VOTE_BYTES :: nat where "VOTE_BYTES = 76"
definition COMMIT_FLAG :: u32 where "COMMIT_FLAG = 0x80000000"
definition ROUND_MASK :: u32 where "ROUND_MASK = 0x7fffffff"

datatype invalid_round = InvalidRound u32

datatype round = Round (round_value: u32)

definition Round_ZERO :: round where "Round_ZERO = Round 0"
definition Round_MAX :: u32 where "Round_MAX = ROUND_MASK"

definition Round_new :: "u32 \<Rightarrow> invalid_round + round" where
  "Round_new r = (if r > Round_MAX then Inl (InvalidRound r) else Inr (Round r))"

definition wf_round :: "round \<Rightarrow> bool" where
  "wf_round r \<longleftrightarrow> round_value r \<le> Round_MAX"

datatype vote_kind = Prevote | Precommit

record vote =
  validator :: pub_key_id
  vote_value :: "blake3_hash option"
  vote_height :: bft_height
  vote_kind :: vote_kind
  vote_round :: round

definition Vote_new ::
  "pub_key_id \<Rightarrow> blake3_hash option \<Rightarrow> bft_height \<Rightarrow> vote_kind \<Rightarrow> round \<Rightarrow> vote" where
  "Vote_new key value height kind round =
     \<lparr>validator = key, vote_value = value, vote_height = height, vote_kind = kind,
      vote_round = round\<rparr>"

definition round_word :: "vote_kind \<Rightarrow> round \<Rightarrow> u32" where
  "round_word kind round =
     (let word = round_value round AND ROUND_MASK
      in if kind = Precommit then word OR COMMIT_FLAG else word)"

definition write_round_word :: "vote_kind \<Rightarrow> round \<Rightarrow> bytes" where
  "write_round_word kind round = write_u32_le (round_word kind round)"

definition read_round_word :: "(vote_kind \<times> round) reader" where
  "read_round_word = rbind read_u32_le (\<lambda>word.
     rret (if word AND COMMIT_FLAG \<noteq> 0 then Precommit else Prevote, Round (word AND ROUND_MASK)))"

definition read_height_u64 :: "bft_height reader" where
  "read_height_u64 = rbind read_u64_le (\<lambda>height.
     rbind (rlift (ok_or (try_u32 height) (InvalidData ''BFT height out of range''))) (\<lambda>height.
       rret (BftHeight_new height)))"

text \<open>
  \<open>to_bytes\<close> fills a zeroed 76-byte array at the offsets 0, 32, 64 and 72; on the fixed-size
  fields that is the concatenation, with zeros for a Nil value.
\<close>

definition Vote_to_bytes :: "vote \<Rightarrow> bytes" where
  "Vote_to_bytes v =
     pk_bytes (validator v)
     @ (case vote_value v of Some h \<Rightarrow> hash_bytes h | None \<Rightarrow> replicate 32 0)
     @ le_bytes 8 (u64_from_BftHeight (vote_height v))
     @ le_bytes 4 (round_word (vote_kind v) (vote_round v))"

definition Vote_read :: "vote reader" where
  "Vote_read =
     rbind PubKeyId_read (\<lambda>key.
     rbind (read_exact BLAKE3_HASH_BYTES) (\<lambda>value_bytes.
       let value = (if value_bytes = replicate BLAKE3_HASH_BYTES 0 then None
                    else Some (Blake3Hash value_bytes)) in
     rbind read_height_u64 (\<lambda>height.
     rbind read_round_word (\<lambda>(kind, round).
     rret (Vote_new key value height kind round)))))"

text \<open>The cursor runs over the 76-byte array and what it leaves is dropped.\<close>

definition Vote_from_bytes :: "bytes \<Rightarrow> io_error + vote" where
  "Vote_from_bytes bs = map_ok fst (Vote_read bs)"

record signed_vote =
  sv_vote :: vote
  sv_signature :: vote_signature

definition SignedVote_from_parts :: "vote \<Rightarrow> vote_signature \<Rightarrow> signed_vote" where
  "SignedVote_from_parts v s = \<lparr>sv_vote = v, sv_signature = s\<rparr>"

definition SignedVote_verify ::
  "('vk, 'e) ed25519 \<Rightarrow> signed_vote \<Rightarrow> blake3_hash option \<Rightarrow> 'e signature_error + unit" where
  "SignedVote_verify ed sv namespace =
     VoteSignature_verify_with_namespace ed (sv_signature sv) (validator (sv_vote sv))
       (Vote_to_bytes (sv_vote sv)) namespace"

subsection \<open>The round word\<close>

lemma COMMIT_FLAG_bit: "bit COMMIT_FLAG i \<longleftrightarrow> i = 31"
proof -
  have m: "COMMIT_FLAG = 2 ^ 31" by (simp add: COMMIT_FLAG_def)
  show ?thesis unfolding m by (simp only: bit_exp_iff) auto
qed

lemma ROUND_MASK_bit: "bit ROUND_MASK i \<longleftrightarrow> i < 31"
proof -
  have m: "ROUND_MASK = mask 31" by (simp add: ROUND_MASK_def mask_eq_exp_minus_1)
  show ?thesis unfolding m by (auto simp: bit_mask_iff)
qed

lemma flag_test: "w AND COMMIT_FLAG \<noteq> 0 \<longleftrightarrow> bit w 31" for w :: u32
proof
  assume "bit w 31"
  then have "bit (w AND COMMIT_FLAG) 31" by (simp add: bit_and_iff COMMIT_FLAG_bit)
  then show "w AND COMMIT_FLAG \<noteq> 0" by (metis bit_0_eq bot_apply bot_bool_def)
next
  assume nz: "w AND COMMIT_FLAG \<noteq> 0"
  show "bit w 31"
  proof (rule ccontr)
    assume "\<not> bit w 31"
    then have "w AND COMMIT_FLAG = 0"
      by (intro bit_word_eqI) (auto simp: bit_and_iff COMMIT_FLAG_bit)
    then show False using nz by simp
  qed
qed

lemma wf_round_iff: "wf_round r \<longleftrightarrow> round_value r AND ROUND_MASK = round_value r"
proof -
  have m: "ROUND_MASK = mask 31" by (simp add: ROUND_MASK_def mask_eq_exp_minus_1)
  have "round_value r AND ROUND_MASK = round_value r \<longleftrightarrow> take_bit 31 (round_value r) = round_value r"
    unfolding m by (simp add: take_bit_eq_mask)
  also have "\<dots> \<longleftrightarrow> uint (round_value r) < 2 ^ 31"
    by (simp add: word_eq_iff_unsigned [where ?'a = int] unsigned_take_bit_eq take_bit_int_eq_self_iff)
  also have "\<dots> \<longleftrightarrow> wf_round r"
    by (simp add: wf_round_def Round_MAX_def ROUND_MASK_def word_le_def) linarith
  finally show ?thesis by simp
qed

lemma wf_round_bit: "wf_round r \<Longrightarrow> bit (round_value r) i \<Longrightarrow> i < 31"
  unfolding wf_round_iff by (metis ROUND_MASK_bit bit_and_iff)

lemma wf_round_masked: "wf_round (Round (w AND ROUND_MASK))"
  by (simp add: wf_round_iff and.assoc)

lemma round_word_decode:
  assumes "wf_round r"
  shows "round_word kind r AND COMMIT_FLAG \<noteq> 0 \<longleftrightarrow> kind = Precommit"
    and "Round (round_word kind r AND ROUND_MASK) = r"
proof -
  show "round_word kind r AND COMMIT_FLAG \<noteq> 0 \<longleftrightarrow> kind = Precommit"
    using wf_round_bit [OF assms, of 31]
    by (auto simp: flag_test round_word_def Let_def bit_simps COMMIT_FLAG_bit)
  have "round_word kind r AND ROUND_MASK = round_value r"
    using wf_round_bit [OF assms]
    by (intro bit_eqI) (auto simp: round_word_def Let_def bit_simps COMMIT_FLAG_bit ROUND_MASK_bit)
  then show "Round (round_word kind r AND ROUND_MASK) = r" by (cases r) simp
qed

lemma round_word_encode:
  "round_word (if w AND COMMIT_FLAG \<noteq> 0 then Precommit else Prevote) (Round (w AND ROUND_MASK)) = w"
proof (rule bit_word_eqI)
  fix i assume "i < LENGTH(32)"
  then have "i = 31 \<or> i < 31" by auto
  then show "bit (round_word (if w AND COMMIT_FLAG \<noteq> 0 then Precommit else Prevote)
      (Round (w AND ROUND_MASK))) i = bit w i"
    by (auto simp: flag_test round_word_def Let_def bit_simps COMMIT_FLAG_bit ROUND_MASK_bit)
qed

interpretation round_word_codec: fixed_codec read_round_word
  "\<lambda>(kind, round). write_round_word kind round" "\<lambda>(kind, round). wf_round round" 4
proof (rule fixed_codecI)
  fix bs rest :: bytes and x :: "vote_kind \<times> round"
  obtain k r where x: "x = (k, r)" by (cases x)
  show "read_round_word bs = Inr (x, rest) \<longleftrightarrow>
      (case x of (kind, round) \<Rightarrow> wf_round round)
      \<and> bs = (case x of (kind, round) \<Rightarrow> write_round_word kind round) @ rest" (is "?L \<longleftrightarrow> ?R")
  proof
    assume ?L
    then obtain w where w: "bs = write_u32_le w @ rest"
        "k = (if w AND COMMIT_FLAG \<noteq> 0 then Precommit else Prevote)" "r = Round (w AND ROUND_MASK)"
      by (auto simp: read_round_word_def codec_iff x)
    then have "round_word k r = w" using round_word_encode by simp
    then show ?R using w wf_round_masked by (simp add: x write_round_word_def)
  next
    assume ?R
    then show ?L
      using round_word_decode [of r k]
      by (cases k) (auto simp: x read_round_word_def codec_iff write_round_word_def
          intro!: exI [of _ "round_word k r"])
  qed
qed (auto simp: write_round_word_def)

interpretation height_codec: fixed_codec read_height_u64
  "\<lambda>h. write_u64_le (u64_from_BftHeight h)" "\<lambda>_. True" 8
proof (rule fixed_codecI)
  show "read_height_u64 bs = Inr (h, rest) \<longleftrightarrow> True \<and> bs = write_u64_le (u64_from_BftHeight h) @ rest"
    for bs h rest
    by (cases h) (auto simp: read_height_u64_def codec_iff BftHeight_new_def u64_from_BftHeight_def try_u32_Some)
qed simp

lemma height_codec_iff [codec_iff]:
  "read_height_u64 bs = Inr (h, rest) \<longleftrightarrow> bs = write_u64_le (u64_from_BftHeight h) @ rest"
  using height_codec.rd_iff by simp

lemma round_word_codec_iff [codec_iff]:
  "read_round_word bs = Inr (x, rest) \<longleftrightarrow>
     wf_round (snd x) \<and> bs = write_round_word (fst x) (snd x) @ rest"
  using round_word_codec.rd_iff [of bs x rest] by (simp add: case_prod_beta)

subsection \<open>The signing layout\<close>

definition wf_vote :: "vote \<Rightarrow> bool" where
  "wf_vote v \<longleftrightarrow> wf_pub_key (validator v)
     \<and> (case vote_value v of None \<Rightarrow> True | Some h \<Rightarrow> wf_hash h)
     \<and> wf_round (vote_round v)"

text \<open>A value of all zeros is indistinguishable from Nil in the layout.\<close>

definition proper_vote :: "vote \<Rightarrow> bool" where
  "proper_vote v \<longleftrightarrow> wf_vote v \<and> vote_value v \<noteq> Some (Blake3Hash (replicate 32 0))"

definition value_of_bytes :: "bytes \<Rightarrow> blake3_hash option" where
  "value_of_bytes b = (if b = replicate 32 0 then None else Some (Blake3Hash b))"

definition bytes_of_value :: "blake3_hash option \<Rightarrow> bytes" where
  "bytes_of_value vh = (case vh of Some h \<Rightarrow> hash_bytes h | None \<Rightarrow> replicate 32 0)"

lemma value_bytes_iff:
  "length b = 32 \<and> vh = value_of_bytes b \<longleftrightarrow>
     (case vh of None \<Rightarrow> True | Some h \<Rightarrow> wf_hash h) \<and> vh \<noteq> Some (Blake3Hash (replicate 32 0))
     \<and> b = bytes_of_value vh"
  by (cases vh) (auto simp: value_of_bytes_def bytes_of_value_def wf_hash_def intro: blake3_hash.expand)

lemma Vote_read_iff:
  "Vote_read bs = Inr (v, rest) \<longleftrightarrow> proper_vote v \<and> bs = Vote_to_bytes v @ rest"
proof -
  have "Vote_read bs = Inr (v, rest) \<longleftrightarrow>
      (\<exists>b. length b = 32 \<and> vote_value v = value_of_bytes b
        \<and> wf_pub_key (validator v) \<and> wf_round (vote_round v)
        \<and> bs = pk_bytes (validator v) @ b @ write_u64_le (u64_from_BftHeight (vote_height v))
                @ write_round_word (vote_kind v) (vote_round v) @ rest)"
    by (cases v) (auto simp: Vote_read_def Let_def codec_iff Vote_new_def PubKeyId_write_def value_of_bytes_def)
  also have "\<dots> \<longleftrightarrow> proper_vote v \<and> bs = Vote_to_bytes v @ rest"
    using value_bytes_iff [of _ "vote_value v"]
    by (auto simp: proper_vote_def wf_vote_def Vote_to_bytes_def write_u64_le_def
        write_round_word_def write_u32_le_def bytes_of_value_def)
  finally show ?thesis .
qed

lemma length_Vote_to_bytes: "wf_vote v \<Longrightarrow> length (Vote_to_bytes v) = VOTE_BYTES"
  by (auto simp: Vote_to_bytes_def wf_vote_def wf_simps VOTE_BYTES_def split: option.splits)

interpretation vote_codec: fixed_codec Vote_read Vote_to_bytes proper_vote 76
  by (rule fixed_codecI)
    (auto simp: Vote_read_iff proper_vote_def length_Vote_to_bytes VOTE_BYTES_def)

lemma read_height_eval:
  assumes "length c = 8"
  shows "read_height_u64 (c @ r) =
    (case try_u32 (le_word c) of None \<Rightarrow> Inl (InvalidData ''BFT height out of range'')
     | Some h \<Rightarrow> Inr (BftHeight h, r))"
  using assms
  by (simp add: read_height_u64_def read_u64_le_def rbind_def rret_def rlift_def ok_or_def
      BftHeight_new_def split: option.split)

lemma Vote_from_bytes_Inl:
  assumes "length bs = 76"
  shows "Vote_from_bytes bs = Inl e \<longleftrightarrow>
    try_u32 (le_word (take 8 (drop 64 bs))) = None \<and> e = InvalidData ''BFT height out of range''"
proof -
  define a b c d where "a = take 32 bs" and "b = take 32 (drop 32 bs)"
    and "c = take 8 (drop 64 bs)" and "d = drop 72 bs"
  have len: "length a = 32" "length b = 32" "length c = 8" "length d = 4"
    using assms by (simp_all add: a_def b_def c_def d_def)
  have "bs = a @ b @ c @ d"
    unfolding a_def b_def c_def d_def using append_take_drop_id [of 32 bs]
      append_take_drop_id [of 32 "drop 32 bs"] append_take_drop_id [of 8 "drop 64 bs"] by simp
  moreover have "read_round_word (d @ []) \<noteq> Inl x" for x
    unfolding read_round_word_def read_u32_le_def rbind_def rret_def
    using read_exact_append [OF len(4), of "[]"] by simp
  ultimately show ?thesis
    using len read_height_eval [OF len(3), of d] unfolding c_def [symmetric]
    by (auto simp: Vote_from_bytes_def Vote_read_def PubKeyId_read_def rbind_Inl Let_def
        split: option.splits)
qed

text \<open>The 76-byte signing layout is canonical: \<open>from_bytes\<close> accepts exactly the layouts of
  votes (with a value that is not the zero hash) and returns the vote that produces them, and the
  only refusal of a 76-byte input is a height word above \<open>u32::MAX\<close>.\<close>

theorem vote_layout_canonical:
  assumes "length bs = VOTE_BYTES"
  shows "(Vote_from_bytes bs = Inr v \<longleftrightarrow> proper_vote v \<and> bs = Vote_to_bytes v)
    \<and> (Vote_from_bytes bs = Inl e \<longleftrightarrow>
         e = InvalidData ''BFT height out of range''
         \<and> 2 ^ 32 \<le> uint (le_word (take 8 (drop 64 bs)) :: u64))"
proof
  show "Vote_from_bytes bs = Inr v \<longleftrightarrow> proper_vote v \<and> bs = Vote_to_bytes v"
  proof
    assume "Vote_from_bytes bs = Inr v"
    then obtain r where "Vote_read bs = Inr (v, r)"
      by (auto simp: Vote_from_bytes_def)
    then have v: "proper_vote v" "bs = Vote_to_bytes v @ r" by (simp_all add: Vote_read_iff)
    then have "length bs = 76 + length r"
      using length_Vote_to_bytes [of v] by (simp add: proper_vote_def VOTE_BYTES_def)
    then have "r = []" using assms by (simp add: VOTE_BYTES_def)
    then show "proper_vote v \<and> bs = Vote_to_bytes v" using v by simp
  qed (auto simp: Vote_from_bytes_def Vote_read_iff intro: exI [of _ "[]"])
  let ?h = "le_word (take 8 (drop 64 bs)) :: u64"
  have "Vote_from_bytes bs = Inl e \<longleftrightarrow>
      try_u32 ?h = None \<and> e = InvalidData ''BFT height out of range''"
    by (rule Vote_from_bytes_Inl) (use assms in \<open>simp add: VOTE_BYTES_def\<close>)
  then show "Vote_from_bytes bs = Inl e \<longleftrightarrow>
         e = InvalidData ''BFT height out of range'' \<and> 2 ^ 32 \<le> uint ?h"
    unfolding try_u32_None by blast
qed

lemma vote_layout_canonical_witness:
  "\<exists>v. vote_kind v = Precommit \<and> vote_value v = None \<and> Vote_from_bytes (Vote_to_bytes v) = Inr v"
proof -
  let ?v = "\<lparr>validator = PubKeyId (replicate 32 7), vote_value = None, vote_height = BftHeight 4,
          vote_kind = Precommit, vote_round = Round 5\<rparr>"
  have v: "proper_vote ?v"
    by (simp add: proper_vote_def wf_vote_def wf_simps wf_round_def Round_MAX_def ROUND_MASK_def)
  then have "length (Vote_to_bytes ?v) = VOTE_BYTES"
    by (intro length_Vote_to_bytes) (simp add: proper_vote_def)
  then have "Vote_from_bytes (Vote_to_bytes ?v) = Inr ?v"
    using vote_layout_canonical [of "Vote_to_bytes ?v" ?v UnexpectedEof] v by blast
  then show ?thesis by (intro exI [of _ ?v]) simp
qed

text \<open>The signing layout does not separate a vote for the all-zero hash from a Nil vote: both have
  the same bytes, and parsing them returns the Nil vote.\<close>

theorem zero_value_vote_collides:
  assumes "wf_vote v" "vote_value v = Some (Blake3Hash (replicate 32 0))"
  shows "Vote_to_bytes v = Vote_to_bytes (v\<lparr>vote_value := None\<rparr>)
    \<and> Vote_from_bytes (Vote_to_bytes v) = Inr (v\<lparr>vote_value := None\<rparr>)"
proof
  show same: "Vote_to_bytes v = Vote_to_bytes (v\<lparr>vote_value := None\<rparr>)"
    using assms(2) by (simp add: Vote_to_bytes_def)
  have "proper_vote (v\<lparr>vote_value := None\<rparr>)"
    using assms(1) by (simp add: proper_vote_def wf_vote_def)
  then show "Vote_from_bytes (Vote_to_bytes v) = Inr (v\<lparr>vote_value := None\<rparr>)"
    unfolding same Vote_from_bytes_def by (simp add: vote_codec.read_written)
qed

lemma zero_value_vote_collides_witness:
  "Vote_from_bytes (Vote_to_bytes
     \<lparr>validator = PubKeyId (replicate 32 1), vote_value = Some (Blake3Hash (replicate 32 0)),
      vote_height = BftHeight 9, vote_kind = Prevote, vote_round = Round 2\<rparr>) =
   Inr \<lparr>validator = PubKeyId (replicate 32 1), vote_value = None,
      vote_height = BftHeight 9, vote_kind = Prevote, vote_round = Round 2\<rparr>"
  (is "Vote_from_bytes (Vote_to_bytes ?v) = _")
proof -
  have "wf_vote ?v"
    by (simp add: wf_vote_def wf_simps wf_round_def Round_MAX_def ROUND_MASK_def)
  then have "Vote_from_bytes (Vote_to_bytes ?v) = Inr (?v\<lparr>vote_value := None\<rparr>)"
    using zero_value_vote_collides [of ?v] by (metis vote.select_convs(2))
  then show ?thesis by simp
qed

end
