(* ===== verification/FatPointer.thy ===== *)
theory FatPointer
  imports BftVote
begin

text \<open>
  \<open>crates/bft_primitives/src/fat_pointer.rs\<close>: notarization proofs, their wire form, the
  expansion into signed votes, batch verification, and the JSON representation (the
  44-byte prefix with the entries; the text encoding of keys belongs to \<open>serde\<close>).
\<close>

subsection \<open>Signature entries\<close>

definition FAT_POINTER_PREFIX_BYTES :: nat where
  "FAT_POINTER_PREFIX_BYTES = 44"

definition FAT_POINTER_SIGNATURE_BYTES :: nat where
  "FAT_POINTER_SIGNATURE_BYTES = PUB_KEY_ID_BYTES + VOTE_SIGNATURE_BYTES"

record fat_pointer_signature =
  fps_pub_key :: pub_key_id
  fps_signature :: vote_signature

definition FatPointerSignature_read :: "fat_pointer_signature reader" where
  "FatPointerSignature_read =
     rbind PubKeyId_read (\<lambda>pub_key.
     rbind VoteSignature_read (\<lambda>signature.
     rret \<lparr>fps_pub_key = pub_key, fps_signature = signature\<rparr>))"

definition FatPointerSignature_write :: "fat_pointer_signature \<Rightarrow> bytes" where
  "FatPointerSignature_write e =
     PubKeyId_write (fps_pub_key e) @ VoteSignature_write (fps_signature e)"

definition wf_fps :: "fat_pointer_signature \<Rightarrow> bool" where
  "wf_fps e \<longleftrightarrow> wf_pub_key (fps_pub_key e) \<and> wf_vote_signature (fps_signature e)"

interpretation fps_codec: fixed_codec FatPointerSignature_read FatPointerSignature_write wf_fps 96
proof (rule fixed_codecI)
  show "FatPointerSignature_read bs = Inr (e, rest) \<longleftrightarrow>
      wf_fps e \<and> bs = FatPointerSignature_write e @ rest" for bs e rest
    by (cases e) (auto simp: FatPointerSignature_read_def FatPointerSignature_write_def wf_fps_def codec_iff)
  show "length (FatPointerSignature_write e) = 96" if "wf_fps e" for e
    using that by (simp add: FatPointerSignature_write_def wf_fps_def PubKeyId_write_def
        VoteSignature_write_def wf_simps)
qed

subsection \<open>Fat pointers\<close>

record fat_pointer =
  fp_block_hash :: blake3_hash
  fp_height :: bft_height
  fp_round :: round
  fp_kind :: vote_kind
  fp_signatures :: "fat_pointer_signature list"

definition FatPointer_from_parts ::
  "blake3_hash \<Rightarrow> bft_height \<Rightarrow> round \<Rightarrow> fat_pointer_signature list \<Rightarrow> fat_pointer" where
  "FatPointer_from_parts block_hash height round signatures =
     \<lparr>fp_block_hash = block_hash, fp_height = height, fp_round = round, fp_kind = Precommit,
      fp_signatures = signatures\<rparr>"

definition FatPointer_null :: fat_pointer where
  "FatPointer_null =
     \<lparr>fp_block_hash = Blake3Hash (replicate 32 0), fp_height = BftHeight_ZERO,
      fp_round = Round_ZERO, fp_kind = Prevote, fp_signatures = []\<rparr>"

definition FatPointer_inflate :: "fat_pointer \<Rightarrow> signed_vote list" where
  "FatPointer_inflate fp =
     (let val = (if Blake3Hash_is_zero (fp_block_hash fp) then None else Some (fp_block_hash fp))
      in map (\<lambda>entry. SignedVote_from_parts
                (Vote_new (fps_pub_key entry) val (fp_height fp) (fp_kind fp) (fp_round fp))
                (fps_signature entry))
           (fp_signatures fp))"

text \<open>The items queued on the batch verifier: key bytes, signature bytes, message.\<close>

definition batch_items :: "fat_pointer \<Rightarrow> blake3_hash option \<Rightarrow> (bytes \<times> bytes \<times> bytes) list" where
  "batch_items fp namespace =
     map (\<lambda>sv. let msg = Vote_to_bytes (sv_vote sv) in
            (pk_bytes (validator (sv_vote sv)), sig_bytes (sv_signature sv),
             case namespace of None \<Rightarrow> msg | Some ns \<Rightarrow> msg @ hash_bytes ns))
       (FatPointer_inflate fp)"

definition FatPointer_verify_signatures ::
  "('vk, 'e) ed25519 \<Rightarrow> fat_pointer \<Rightarrow> blake3_hash option \<Rightarrow> 'e signature_error + unit" where
  "FatPointer_verify_signatures ed fp namespace =
     guard_res (batch_verify ed (batch_items fp namespace)) BatchVerificationFailed"

definition FatPointer_read :: "fat_pointer reader" where
  "FatPointer_read =
     rbind Blake3Hash_read (\<lambda>block_hash.
     rbind read_height_u64 (\<lambda>height.
     rbind read_round_word (\<lambda>(kind, round).
     rbind read_u16_le (\<lambda>count.
     rbind (read_n (unat count) FatPointerSignature_read) (\<lambda>signatures.
     rret \<lparr>fp_block_hash = block_hash, fp_height = height, fp_round = round, fp_kind = kind,
           fp_signatures = signatures\<rparr>)))))"

definition try_u16_of_len :: "nat \<Rightarrow> u16 option" where
  "try_u16_of_len n = (if n \<le> 65535 then Some (of_nat n) else None)"

definition FatPointer_write :: "fat_pointer \<Rightarrow> io_error + bytes" where
  "FatPointer_write fp =
     res_bind (ok_or (try_u16_of_len (length (fp_signatures fp))) (InvalidData ''too many signatures''))
       (\<lambda>count. Inr (
          Blake3Hash_write (fp_block_hash fp)
          @ write_u64_le (u64_from_BftHeight (fp_height fp))
          @ write_round_word (fp_kind fp) (fp_round fp)
          @ write_u16_le count
          @ concat (map FatPointerSignature_write (fp_signatures fp))))"

text \<open>\<open>expect\<close> on the result: a panic is \<open>None\<close>.\<close>

definition FatPointer_to_bytes :: "fat_pointer \<Rightarrow> bytes option" where
  "FatPointer_to_bytes fp = res_ok (FatPointer_write fp)"

definition wf_fat_pointer :: "fat_pointer \<Rightarrow> bool" where
  "wf_fat_pointer fp \<longleftrightarrow> wf_hash (fp_block_hash fp) \<and> wf_round (fp_round fp)
     \<and> list_all wf_fps (fp_signatures fp) \<and> length (fp_signatures fp) \<le> 65535"

interpretation fp_codec: fallible_codec FatPointer_read FatPointer_write wf_fat_pointer
proof
  show "\<exists>p. FatPointer_write fp = Inr p" if "wf_fat_pointer fp" for fp
    using that by (simp add: FatPointer_write_def wf_fat_pointer_def try_u16_of_len_def)
  have written: "written (FatPointer_write fp) =
      Blake3Hash_write (fp_block_hash fp) @ write_u64_le (u64_from_BftHeight (fp_height fp))
      @ write_round_word (fp_kind fp) (fp_round fp) @ write_u16_le (of_nat (length (fp_signatures fp)))
      @ concat (map FatPointerSignature_write (fp_signatures fp))"
    if "length (fp_signatures fp) \<le> 65535" for fp
    using that by (simp add: FatPointer_write_def try_u16_of_len_def)
  show "FatPointer_read bs = Inr (fp, rest) \<longleftrightarrow>
      wf_fat_pointer fp \<and> bs = written (FatPointer_write fp) @ rest" for bs fp rest
    by (cases fp) (auto simp: FatPointer_read_def wf_fat_pointer_def codec_iff fps_codec.read_list_iff
        count_iff written)
qed

lemmas fat_pointer_codec_iff [codec_iff] = fp_codec.read_iff

text \<open>The JSON form, before text encoding.\<close>

record fat_pointer_repr =
  repr_prefix :: bytes
  repr_signatures :: "(pub_key_id \<times> bytes) list"

definition FatPointer_serialize :: "fat_pointer \<Rightarrow> fat_pointer_repr" where
  "FatPointer_serialize fp =
     \<lparr>repr_prefix = hash_bytes (fp_block_hash fp) @ le_bytes 8 (u64_from_BftHeight (fp_height fp))
                    @ le_bytes 4 (round_word (fp_kind fp) (fp_round fp)),
      repr_signatures = map (\<lambda>entry. (fps_pub_key entry, sig_bytes (fps_signature entry)))
                          (fp_signatures fp)\<rparr>"

definition FatPointer_deserialize :: "fat_pointer_repr \<Rightarrow> io_error + fat_pointer" where
  "FatPointer_deserialize repr =
     map_ok fst
      (rbind Blake3Hash_read (\<lambda>block_hash.
       rbind read_height_u64 (\<lambda>height.
       rbind read_round_word (\<lambda>(kind, round).
       rret \<lparr>fp_block_hash = block_hash, fp_height = height, fp_round = round, fp_kind = kind,
             fp_signatures = map (\<lambda>(pub_key, s). \<lparr>fps_pub_key = pub_key, fps_signature = VoteSignature s\<rparr>)
               (repr_signatures repr)\<rparr>)))
       (repr_prefix repr))"

subsection \<open>Properties\<close>

text \<open>\<open>write\<close> and \<open>read\<close> are inverse on fat pointers with at most \<open>u16::MAX\<close> entries: reading
  accepts exactly the written forms (a 46-byte header and 96 bytes per entry) and leaves the rest
  of the input alone; more entries are an error, on which \<open>to_bytes\<close> panics; the JSON
  representation round-trips as well.\<close>

theorem fat_pointer_codec:
  "(FatPointer_read bs = Inr (fp, rest) \<longleftrightarrow>
      wf_fat_pointer fp \<and> (\<exists>p. FatPointer_write fp = Inr p \<and> bs = p @ rest
        \<and> length p = 46 + FAT_POINTER_SIGNATURE_BYTES * length (fp_signatures fp)))
    \<and> (65535 < length (fp_signatures fp) \<longleftrightarrow>
         FatPointer_write fp = Inl (InvalidData ''too many signatures''))
    \<and> (65535 < length (fp_signatures fp) \<longleftrightarrow> FatPointer_to_bytes fp = None)
    \<and> (wf_hash (fp_block_hash fp) \<and> wf_round (fp_round fp) \<longrightarrow>
         FatPointer_deserialize (FatPointer_serialize fp) = Inr fp)"
proof (intro conjI)
  have len: "length (written (FatPointer_write fp)) =
      46 + FAT_POINTER_SIGNATURE_BYTES * length (fp_signatures fp)" if "wf_fat_pointer fp"
    using that fps_codec.list_width [of "fp_signatures fp"]
    by (simp add: FatPointer_write_def wf_fat_pointer_def try_u16_of_len_def Blake3Hash_write_def
        wf_simps write_round_word_def FAT_POINTER_SIGNATURE_BYTES_def)
  show "FatPointer_read bs = Inr (fp, rest) \<longleftrightarrow>
      wf_fat_pointer fp \<and> (\<exists>p. FatPointer_write fp = Inr p \<and> bs = p @ rest
        \<and> length p = 46 + FAT_POINTER_SIGNATURE_BYTES * length (fp_signatures fp))"
    unfolding fp_codec.read_iff using fp_codec.write_ok [of fp] len by auto
  show "65535 < length (fp_signatures fp) \<longleftrightarrow>
         FatPointer_write fp = Inl (InvalidData ''too many signatures'')"
    by (simp add: FatPointer_write_def try_u16_of_len_def)
  show "65535 < length (fp_signatures fp) \<longleftrightarrow> FatPointer_to_bytes fp = None"
    by (simp add: FatPointer_to_bytes_def FatPointer_write_def try_u16_of_len_def)
  show "wf_hash (fp_block_hash fp) \<and> wf_round (fp_round fp) \<longrightarrow>
         FatPointer_deserialize (FatPointer_serialize fp) = Inr fp"
  proof
    assume wf: "wf_hash (fp_block_hash fp) \<and> wf_round (fp_round fp)"
    have "map (\<lambda>(pub_key, s). \<lparr>fps_pub_key = pub_key, fps_signature = VoteSignature s\<rparr>)
        (map (\<lambda>entry. (fps_pub_key entry, sig_bytes (fps_signature entry))) xs) = xs" for xs
      by (induction xs) simp_all
    then show "FatPointer_deserialize (FatPointer_serialize fp) = Inr fp"
      using wf by (cases fp)
        (auto simp: FatPointer_deserialize_def FatPointer_serialize_def codec_iff Blake3Hash_write_def
          write_u64_le_def write_round_word_def write_u32_le_def comp_def)
  qed
qed

lemma fat_pointer_codec_witness:
  "FatPointer_deserialize (FatPointer_serialize FatPointer_null) = Inr FatPointer_null
   \<and> FatPointer_to_bytes FatPointer_null \<noteq> None"
  using fat_pointer_codec [of "[]" FatPointer_null "[]"]
  by (simp add: FatPointer_null_def wf_simps wf_round_def Round_ZERO_def)

text \<open>
  What the batch verifier promises: it accepts a batch exactly when every queued item verifies on
  its own with the key parsed from its bytes.
\<close>

definition batch_agrees :: "('vk, 'e) ed25519 \<Rightarrow> bool" where
  "batch_agrees ed \<longleftrightarrow> (\<forall>items. batch_verify ed items \<longleftrightarrow>
     (\<forall>item \<in> set items. \<exists>vk. vk_try_from ed (fst item) = Inr vk
        \<and> vk_verify ed vk (fst (snd item)) (snd (snd item)) = Inr ()))"

lemma SignedVote_verify_ok:
  "SignedVote_verify ed sv ns = Inr () \<longleftrightarrow>
     (\<exists>vk. vk_try_from ed (pk_bytes (validator (sv_vote sv))) = Inr vk
        \<and> vk_verify ed vk (sig_bytes (sv_signature sv))
             (case ns of None \<Rightarrow> Vote_to_bytes (sv_vote sv)
              | Some n \<Rightarrow> Vote_to_bytes (sv_vote sv) @ hash_bytes n) = Inr ())"
  by (cases ns) (simp_all add: SignedVote_verify_def VoteSignature_verify_with_namespace_def
      VoteSignature_verify_def)



end
