(* ===== verification/HardFork.thy ===== *)
theory HardFork
  imports FatPointer "HOL-Library.Multiset"
begin

text \<open>
  \<open>crates/bft_primitives/src/hard_fork.rs\<close> and \<open>roster.rs\<close>: user-led hardfork rules with their
  canonical ordering, their wire form and their checked JSON form, and the staking roster's
  entries. The hexadecimal text of keys in JSON belongs to the \<open>hex\<close> and \<open>serde\<close> crates; the JSON
  form is modelled after it has been decoded.
\<close>

subsection \<open>Hardfork rules\<close>

definition MAX_TERMINATED_FINALIZERS :: u32 where
  "MAX_TERMINATED_FINALIZERS = 4096"

datatype invalid_hard_fork_config = NoTerminatedFinalizers | DuplicateFinalizer pub_key_id

record hard_fork_config =
  pow_activation_height :: block_height
  bft_certificate_height :: bft_height
  terminated_finalizers :: "pub_key_id list"

text \<open>The loop over \<open>windows(2)\<close>: the first adjacent equal pair is an error.\<close>

fun reject_adjacent_equal :: "pub_key_id list \<Rightarrow> invalid_hard_fork_config + unit" where
  "reject_adjacent_equal (a # b # xs) =
     (if a = b then Inl (DuplicateFinalizer a) else reject_adjacent_equal (b # xs))"
| "reject_adjacent_equal _ = Inr ()"

definition HardForkConfig_new ::
  "block_height \<Rightarrow> bft_height \<Rightarrow> pub_key_id list \<Rightarrow> invalid_hard_fork_config + hard_fork_config" where
  "HardForkConfig_new pow_height cert_height finalizers =
     (if finalizers = [] then Inl NoTerminatedFinalizers
      else let sorted_finalizers = sort finalizers in
        res_bind (reject_adjacent_equal sorted_finalizers) (\<lambda>_.
          Inr \<lparr>pow_activation_height = pow_height, bft_certificate_height = cert_height,
               terminated_finalizers = sorted_finalizers\<rparr>))"

definition read_block_height_u64 :: "block_height reader" where
  "read_block_height_u64 = rbind read_u64_le (\<lambda>height.
     rbind (rlift (ok_or (try_u32 height) (InvalidData ''PoW height out of range''))) (\<lambda>height.
       rret (BlockHeight_from_u32 height)))"

definition HardForkConfig_read :: "hard_fork_config reader" where
  "HardForkConfig_read =
     rbind read_block_height_u64 (\<lambda>pow_height.
     rbind read_height_u64 (\<lambda>cert_height.
     rbind read_u32_le (\<lambda>count.
     rbind (rguard (\<not> count > MAX_TERMINATED_FINALIZERS)
              (InvalidData ''terminated_finalizers count exceeds maximum'')) (\<lambda>_.
     rbind (read_n (unat count) PubKeyId_read) (\<lambda>finalizers.
     rret \<lparr>pow_activation_height = pow_height, bft_certificate_height = cert_height,
           terminated_finalizers = finalizers\<rparr>)))))"

definition try_u32_of_len :: "nat \<Rightarrow> u32 option" where
  "try_u32_of_len n = (if n \<le> 4294967295 then Some (of_nat n) else None)"

definition HardForkConfig_write :: "hard_fork_config \<Rightarrow> io_error + bytes" where
  "HardForkConfig_write h =
     res_bind (ok_or (try_u32_of_len (length (terminated_finalizers h))) (InvalidData ''too many finalizers''))
       (\<lambda>count. Inr (
          write_u64_le (ucast (u32_from_BlockHeight (pow_activation_height h)))
          @ write_u64_le (u64_from_BftHeight (bft_certificate_height h))
          @ write_u32_le count
          @ concat (map PubKeyId_write (terminated_finalizers h))))"

text \<open>The range of values that can be written and read back.\<close>

definition wf_hard_fork :: "hard_fork_config \<Rightarrow> bool" where
  "wf_hard_fork h \<longleftrightarrow> list_all wf_pub_key (terminated_finalizers h)
     \<and> length (terminated_finalizers h) \<le> unat MAX_TERMINATED_FINALIZERS"

text \<open>The invariant of \<open>new\<close>: a non-empty list in strictly ascending key order.\<close>

definition canonical_finalizers :: "pub_key_id list \<Rightarrow> bool" where
  "canonical_finalizers ks \<longleftrightarrow> ks \<noteq> [] \<and> sorted_wrt (<) ks"

text \<open>The JSON form and its checks, in their order; an error is its message.\<close>

record hard_fork_repr =
  repr_pow_activation_height :: u64
  repr_bft_certificate_height :: u64
  repr_terminated_finalizers :: "pub_key_id list"

datatype hard_fork_json_error =
    ZeroActivationHeight
  | NotMultipleOfStakingPeriod u64 u64 u64
  | EmptyFinalizers
  | RepeatedFinalizer pub_key_id
  | PowHeightOutOfRange
  | BftHeightOutOfRange

definition HardForkConfig_serialize :: "hard_fork_config \<Rightarrow> hard_fork_repr" where
  "HardForkConfig_serialize h =
     \<lparr>repr_pow_activation_height = ucast (u32_from_BlockHeight (pow_activation_height h)),
      repr_bft_certificate_height = u64_from_BftHeight (bft_certificate_height h),
      repr_terminated_finalizers = terminated_finalizers h\<rparr>"

fun reject_seen :: "pub_key_id list \<Rightarrow> pub_key_id list \<Rightarrow> hard_fork_json_error + unit" where
  "reject_seen seen [] = Inr ()"
| "reject_seen seen (k # ks) =
     (if k \<in> set seen then Inl (RepeatedFinalizer k) else reject_seen (seen @ [k]) ks)"

definition HardForkConfig_deserialize :: "hard_fork_repr \<Rightarrow> hard_fork_json_error + hard_fork_config" where
  "HardForkConfig_deserialize repr =
    (let period = ucast STAKING_PERIOD; h = repr_pow_activation_height repr in
     res_bind (guard_res (h \<noteq> 0) ZeroActivationHeight) (\<lambda>_.
     res_bind (guard_res (h mod period = 0)
       (NotMultipleOfStakingPeriod h (h div period * period) ((h div period + 1) * period))) (\<lambda>_.
     res_bind (guard_res (repr_terminated_finalizers repr \<noteq> []) EmptyFinalizers) (\<lambda>_.
     res_bind (reject_seen [] (repr_terminated_finalizers repr)) (\<lambda>_.
     res_bind (ok_or (try_u32 h) PowHeightOutOfRange) (\<lambda>pow_height.
     res_bind (ok_or (try_u32 (repr_bft_certificate_height repr)) BftHeightOutOfRange) (\<lambda>cert_height.
     Inr \<lparr>pow_activation_height = BlockHeight_from_u32 pow_height,
          bft_certificate_height = BftHeight_new cert_height,
          terminated_finalizers = repr_terminated_finalizers repr\<rparr>)))))))"

interpretation block_height_codec: fixed_codec read_block_height_u64
  "\<lambda>h. write_u64_le (ucast (u32_from_BlockHeight h))" "\<lambda>_. True" 8
proof (rule fixed_codecI)
  show "read_block_height_u64 bs = Inr (h, rest) \<longleftrightarrow>
      True \<and> bs = write_u64_le (ucast (u32_from_BlockHeight h)) @ rest" for bs h rest
    by (cases h) (auto simp: read_block_height_u64_def codec_iff BlockHeight_from_u32_def
        u32_from_BlockHeight_def try_u32_Some)
qed simp

lemma block_height_codec_iff [codec_iff]:
  "read_block_height_u64 bs = Inr (h, rest) \<longleftrightarrow>
     bs = write_u64_le (ucast (u32_from_BlockHeight h)) @ rest"
  using block_height_codec.rd_iff by simp

lemma MAX_TERMINATED_unat: "\<not> (c > MAX_TERMINATED_FINALIZERS) \<longleftrightarrow> unat c \<le> 4096"
  by (simp add: MAX_TERMINATED_FINALIZERS_def word_less_nat_alt not_less)

interpretation hard_fork_codec: fallible_codec HardForkConfig_read HardForkConfig_write wf_hard_fork
proof
  show "\<exists>p. HardForkConfig_write h = Inr p" if "wf_hard_fork h" for h
    using that by (simp add: HardForkConfig_write_def wf_hard_fork_def try_u32_of_len_def
        MAX_TERMINATED_FINALIZERS_def)
  have written: "written (HardForkConfig_write h) =
      write_u64_le (ucast (u32_from_BlockHeight (pow_activation_height h)))
      @ write_u64_le (u64_from_BftHeight (bft_certificate_height h))
      @ write_u32_le (of_nat (length (terminated_finalizers h)))
      @ concat (map PubKeyId_write (terminated_finalizers h))"
    if "length (terminated_finalizers h) \<le> 4096" for h
    using that by (simp add: HardForkConfig_write_def try_u32_of_len_def)
  have cnt: "length ks = unat c \<and> \<not> (c > MAX_TERMINATED_FINALIZERS) \<longleftrightarrow>
      length ks \<le> 4096 \<and> c = of_nat (length ks)" for c :: u32 and ks :: "pub_key_id list"
    unfolding MAX_TERMINATED_unat using count_u32_iff [of c "length ks"] by auto
  show "HardForkConfig_read bs = Inr (h, rest) \<longleftrightarrow>
      wf_hard_fork h \<and> bs = written (HardForkConfig_write h) @ rest" for bs h rest
  proof -
    have "HardForkConfig_read bs = Inr (h, rest) \<longleftrightarrow>
        (\<exists>c. (length (terminated_finalizers h) = unat c \<and> \<not> (c > MAX_TERMINATED_FINALIZERS))
          \<and> list_all wf_pub_key (terminated_finalizers h)
          \<and> bs = write_u64_le (ucast (u32_from_BlockHeight (pow_activation_height h)))
                 @ write_u64_le (u64_from_BftHeight (bft_certificate_height h))
                 @ write_u32_le c @ concat (map PubKeyId_write (terminated_finalizers h)) @ rest)"
      by (cases h) (auto simp: HardForkConfig_read_def codec_iff pub_key_codec.read_list_iff)
    then show ?thesis
      unfolding cnt by (auto simp: wf_hard_fork_def MAX_TERMINATED_FINALIZERS_def written)
  qed
qed

lemmas hard_fork_codec_iff [codec_iff] = hard_fork_codec.read_iff

subsection \<open>Properties of hardfork rules\<close>

lemma reject_adjacent_equal_ok:
  "sorted ks \<Longrightarrow> reject_adjacent_equal ks = Inr () \<longleftrightarrow> distinct ks"
proof (induction ks rule: reject_adjacent_equal.induct)
  case (1 a b xs)
  then show ?case by (auto simp: order_le_less)
qed auto

text \<open>On a sorted list the reported key is the least one that occurs twice.\<close>

lemma reject_adjacent_equal_dup:
  "sorted ks \<Longrightarrow> reject_adjacent_equal ks = Inl e \<Longrightarrow>
     \<exists>k. e = DuplicateFinalizer k \<and> 2 \<le> count_list ks k
       \<and> (\<forall>k'. 2 \<le> count_list ks k' \<longrightarrow> k \<le> k')"
proof (induction ks rule: reject_adjacent_equal.induct)
  case (1 a b xs)
  show ?case
  proof (cases "a = b")
    case True
    have "a \<le> k'" if "2 \<le> count_list (a # b # xs) k'" for k'
    proof -
      have "k' \<in> set (a # b # xs)" using that by (metis count_notin not_numeral_le_zero)
      then show ?thesis using 1(2) True by auto
    qed
    then show ?thesis using True 1(3) by auto
  next
    case False
    then obtain k where k: "e = DuplicateFinalizer k" "2 \<le> count_list (b # xs) k"
        "\<And>k'. 2 \<le> count_list (b # xs) k' \<Longrightarrow> k \<le> k'"
      using 1 by auto
    have notin: "count_list (b # xs) a = 0" using False 1(2) by (intro count_notin) auto
    then have "k \<noteq> a" using k(2) by auto
    moreover have "count_list (a # b # xs) k' = count_list (b # xs) k'" if "k' \<noteq> a" for k'
      using that by simp
    moreover have "count_list (a # b # xs) a = 1" using notin by simp
    ultimately show ?thesis using k by (metis Suc_1 not_less_eq_eq le_refl)
  qed
qed auto

lemma count_list_mset: "mset xs = mset ys \<Longrightarrow> count_list xs k = count_list ys k"
  by (metis count_mset)

text \<open>\<open>HardForkConfig::new\<close> succeeds exactly on non-empty lists without repetition and returns
  the same finalizers in strictly ascending order, so the rule does not depend on the order they
  were given in; with repetitions it reports the least finalizer listed twice.\<close>

theorem hard_fork_new_canonical:
  assumes "mset ks' = mset ks"
  shows "(HardForkConfig_new ph ch ks = Inr h \<longleftrightarrow>
        pow_activation_height h = ph \<and> bft_certificate_height h = ch
        \<and> canonical_finalizers (terminated_finalizers h)
        \<and> mset (terminated_finalizers h) = mset ks)
    \<and> (HardForkConfig_new ph ch ks = Inl NoTerminatedFinalizers \<longleftrightarrow> ks = [])
    \<and> (HardForkConfig_new ph ch ks = Inl (DuplicateFinalizer k) \<longrightarrow>
         2 \<le> count_list ks k \<and> (\<forall>k'. 2 \<le> count_list ks k' \<longrightarrow> k \<le> k'))
    \<and> HardForkConfig_new ph ch ks' = HardForkConfig_new ph ch ks"
proof (intro conjI impI)
  have same: "sort ks' = sort ks" using assms by (metis mset_sort properties_for_sort sorted_sort)
  have nil: "ks' = [] \<longleftrightarrow> ks = []" using assms by auto
  show "HardForkConfig_new ph ch ks' = HardForkConfig_new ph ch ks"
    by (simp add: HardForkConfig_new_def same nil)
  have strict: "sorted ks \<and> distinct ks \<longleftrightarrow> sorted_wrt (<) ks" for ks :: "pub_key_id list"
    by (rule strict_sorted_iff [symmetric])
  show "HardForkConfig_new ph ch ks = Inr h \<longleftrightarrow>
        pow_activation_height h = ph \<and> bft_certificate_height h = ch
        \<and> canonical_finalizers (terminated_finalizers h)
        \<and> mset (terminated_finalizers h) = mset ks" (is "?L \<longleftrightarrow> ?R")
  proof
    assume ?L
    then have "ks \<noteq> []" "reject_adjacent_equal (sort ks) = Inr ()"
        "h = \<lparr>pow_activation_height = ph, bft_certificate_height = ch, terminated_finalizers = sort ks\<rparr>"
      by (auto simp: HardForkConfig_new_def Let_def split: if_splits)
    then show ?R
      using reject_adjacent_equal_ok [of "sort ks"] strict [of "sort ks"]
      by (auto simp: canonical_finalizers_def) (metis set_empty set_sort)
  next
    assume R: ?R
    then have "sorted (terminated_finalizers h)" "distinct (terminated_finalizers h)"
      using strict [of "terminated_finalizers h"] by (simp_all add: canonical_finalizers_def)
    then have "sort ks = terminated_finalizers h" "reject_adjacent_equal (terminated_finalizers h) = Inr ()"
      using R reject_adjacent_equal_ok by (auto intro: properties_for_sort)
    moreover have "ks \<noteq> []" using R by (auto simp: canonical_finalizers_def)
    ultimately show ?L using R by (cases h) (simp add: HardForkConfig_new_def Let_def)
  qed
  show "HardForkConfig_new ph ch ks = Inl NoTerminatedFinalizers \<longleftrightarrow> ks = []"
    using reject_adjacent_equal_dup [of "sort ks" NoTerminatedFinalizers]
    by (auto simp: HardForkConfig_new_def Let_def res_bind_eq_Inl)
  assume "HardForkConfig_new ph ch ks = Inl (DuplicateFinalizer k)"
  then have "reject_adjacent_equal (sort ks) = Inl (DuplicateFinalizer k)"
    by (auto simp: HardForkConfig_new_def Let_def res_bind_eq_Inl split: if_splits)
  then show "2 \<le> count_list ks k" "\<forall>k'. 2 \<le> count_list ks k' \<longrightarrow> k \<le> k'"
    using reject_adjacent_equal_dup [of "sort ks"] count_list_mset [of "sort ks" ks] by auto
qed

lemma hard_fork_new_canonical_witness:
  "HardForkConfig_new (BlockHeight 150) (BftHeight 1) [PubKeyId [2], PubKeyId [1]] =
   HardForkConfig_new (BlockHeight 150) (BftHeight 1) [PubKeyId [1], PubKeyId [2]]"
  using hard_fork_new_canonical [of "[PubKeyId [2], PubKeyId [1]]" "[PubKeyId [1], PubKeyId [2]]"]
  by simp

text \<open>\<open>write\<close> and \<open>read\<close> are inverse on rules of at most 4096 finalizers, whatever the order of
  the list; \<open>write\<close> also accepts longer lists, and \<open>read\<close> refuses every such written form.\<close>

theorem hard_fork_codec_bound:
  "(HardForkConfig_read bs = Inr (h, rest) \<longleftrightarrow>
      wf_hard_fork h \<and> (\<exists>p. HardForkConfig_write h = Inr p \<and> bs = p @ rest))
    \<and> (4096 < length (terminated_finalizers h) \<and> length (terminated_finalizers h) \<le> 4294967295 \<longrightarrow>
        (\<exists>p. HardForkConfig_write h = Inr p \<and>
           HardForkConfig_read (p @ rest) = Inl (InvalidData ''terminated_finalizers count exceeds maximum'')))"
proof (intro conjI impI)
  show "HardForkConfig_read bs = Inr (h, rest) \<longleftrightarrow>
      wf_hard_fork h \<and> (\<exists>p. HardForkConfig_write h = Inr p \<and> bs = p @ rest)"
    unfolding hard_fork_codec.read_iff using hard_fork_codec.write_ok [of h] by auto
  assume long: "4096 < length (terminated_finalizers h) \<and> length (terminated_finalizers h) \<le> 4294967295"
  let ?n = "of_nat (length (terminated_finalizers h)) :: u32"
  let ?ks = "concat (map PubKeyId_write (terminated_finalizers h))"
  let ?p = "write_u64_le (ucast (u32_from_BlockHeight (pow_activation_height h)))
    @ write_u64_le (u64_from_BftHeight (bft_certificate_height h)) @ write_u32_le ?n @ ?ks"
  have "HardForkConfig_write h = Inr ?p"
    using long by (simp add: HardForkConfig_write_def try_u32_of_len_def)
  moreover have "unat ?n = length (terminated_finalizers h)"
    using long by (simp add: count_u32_iff)
  then have big: "?n > MAX_TERMINATED_FINALIZERS"
    using long MAX_TERMINATED_unat [of ?n] by simp
  have "HardForkConfig_read (?p @ rest) = Inl (InvalidData ''terminated_finalizers count exceeds maximum'')"
    unfolding HardForkConfig_read_def append_assoc
    by (subst rbind_step, rule block_height_codec.roundtrip, simp,
        subst rbind_step, rule height_codec.roundtrip, simp,
        subst rbind_step, rule u32_codec.roundtrip, simp,
        rule rbind_stop, simp add: big)
  ultimately show "\<exists>p. HardForkConfig_write h = Inr p \<and>
      HardForkConfig_read (p @ rest) = Inl (InvalidData ''terminated_finalizers count exceeds maximum'')"
    by blast
qed

lemma hard_fork_codec_bound_witness:
  "\<exists>p. HardForkConfig_read (p @ [7]) =
     Inl (InvalidData ''terminated_finalizers count exceeds maximum'')"
proof -
  let ?h = "\<lparr>pow_activation_height = BlockHeight 150, bft_certificate_height = BftHeight 1,
             terminated_finalizers = replicate 4097 (PubKeyId (replicate 32 1))\<rparr>"
  show ?thesis using hard_fork_codec_bound [of "[]" ?h "[7]"] by fastforce
qed

lemma reject_seen_ok: "reject_seen seen ks = Inr () \<longleftrightarrow> distinct ks \<and> set seen \<inter> set ks = {}"
  by (induction seen ks rule: reject_seen.induct) auto

text \<open>The JSON form is accepted exactly when the activation height is a non-zero multiple of the
  staking period within \<open>u32\<close>, the certificate height fits in \<open>u32\<close> and the finalizers are
  non-empty without repetition, and then it is the serialisation of the result. The list keeps its
  order: a rule read from JSON need not have the ascending order \<open>new\<close> establishes.\<close>

theorem hard_fork_json:
  "(HardForkConfig_deserialize r = Inr h \<longleftrightarrow>
      r = HardForkConfig_serialize h
      \<and> 0 < uint (bh_raw (pow_activation_height h))
      \<and> uint (bh_raw (pow_activation_height h)) mod 150 = 0
      \<and> terminated_finalizers h \<noteq> [] \<and> distinct (terminated_finalizers h))
    \<and> (\<exists>r' h'. HardForkConfig_deserialize r' = Inr h'
         \<and> \<not> canonical_finalizers (terminated_finalizers h'))"
proof -
  have period: "(ucast STAKING_PERIOD :: u64) = 150" by (simp add: STAKING_PERIOD_def)
  have md: "x mod 150 = 0 \<longleftrightarrow> uint x mod 150 = 0" for x :: u64
    by (simp add: word_eq_iff_unsigned [where ?'a = int] uint_mod_distrib)
  have nz: "x \<noteq> 0 \<longleftrightarrow> 0 < uint x" for x :: u64
    using uint_pos by auto
  have iff: "HardForkConfig_deserialize r = Inr h \<longleftrightarrow>
      r = HardForkConfig_serialize h
      \<and> 0 < uint (bh_raw (pow_activation_height h))
      \<and> uint (bh_raw (pow_activation_height h)) mod 150 = 0
      \<and> terminated_finalizers h \<noteq> [] \<and> distinct (terminated_finalizers h)" for r h
  proof -
    have "HardForkConfig_deserialize r = Inr h \<longleftrightarrow>
        0 < uint (repr_pow_activation_height r) \<and> uint (repr_pow_activation_height r) mod 150 = 0
        \<and> repr_terminated_finalizers r \<noteq> [] \<and> distinct (repr_terminated_finalizers r)
        \<and> repr_pow_activation_height r = ucast (bh_raw (pow_activation_height h))
        \<and> repr_bft_certificate_height r = ucast (bft_raw (bft_certificate_height h))
        \<and> terminated_finalizers h = repr_terminated_finalizers r"
      by (cases h, cases "pow_activation_height h", cases "bft_certificate_height h")
        (auto simp: HardForkConfig_deserialize_def Let_def period md nz reject_seen_ok try_u32_Some
          BlockHeight_from_u32_def BftHeight_new_def)
    also have "\<dots> \<longleftrightarrow> r = HardForkConfig_serialize h
      \<and> 0 < uint (bh_raw (pow_activation_height h))
      \<and> uint (bh_raw (pow_activation_height h)) mod 150 = 0
      \<and> terminated_finalizers h \<noteq> [] \<and> distinct (terminated_finalizers h)"
      by (cases r) (auto simp: HardForkConfig_serialize_def u32_from_BlockHeight_def u64_from_BftHeight_def)
    finally show ?thesis .
  qed
  let ?h = "\<lparr>pow_activation_height = BlockHeight 150, bft_certificate_height = BftHeight 0,
             terminated_finalizers = [PubKeyId [2], PubKeyId [1]]\<rparr>"
  have "HardForkConfig_deserialize (HardForkConfig_serialize ?h) = Inr ?h"
    unfolding iff by simp
  moreover have "\<not> canonical_finalizers (terminated_finalizers ?h)"
    by (simp add: canonical_finalizers_def less_pub_key_id_def)
  ultimately show ?thesis using iff [of r h] by blast
qed

subsection \<open>The staking roster\<close>

record stake_tx_id =
  stake_txid :: tx_id
  stake_zats :: zatoshis

record roster_member =
  rm_pub_key :: pub_key_id
  rm_voting_power :: zatoshis
  rm_txids :: "stake_tx_id list"

definition read_zatoshis :: "zatoshis reader" where
  "read_zatoshis = rbind read_u64_le (\<lambda>zats.
     rlift (map_err (\<lambda>_. InvalidData ''amount out of range'') (Zatoshis_from_u64 zats)))"

definition StakeTxId_read :: "stake_tx_id reader" where
  "StakeTxId_read =
     rbind (read_exact 32) (\<lambda>txid.
     rbind read_zatoshis (\<lambda>zats.
     rret \<lparr>stake_txid = TxId txid, stake_zats = zats\<rparr>))"

definition StakeTxId_write :: "stake_tx_id \<Rightarrow> bytes" where
  "StakeTxId_write s = txid_bytes (stake_txid s) @ write_u64_le (zat_raw (stake_zats s))"

definition RosterMember_read :: "roster_member reader" where
  "RosterMember_read =
     rbind PubKeyId_read (\<lambda>pub_key.
     rbind read_zatoshis (\<lambda>voting_power.
     rbind read_u64_le (\<lambda>count.
     rbind (read_n (unat count) StakeTxId_read) (\<lambda>txids.
     rret \<lparr>rm_pub_key = pub_key, rm_voting_power = voting_power, rm_txids = txids\<rparr>))))"

definition RosterMember_write :: "roster_member \<Rightarrow> bytes" where
  "RosterMember_write m =
     PubKeyId_write (rm_pub_key m)
     @ write_u64_le (zat_raw (rm_voting_power m))
     @ write_u64_le (of_nat (length (rm_txids m)))
     @ concat (map StakeTxId_write (rm_txids m))"

definition wf_stake :: "stake_tx_id \<Rightarrow> bool" where
  "wf_stake s \<longleftrightarrow> wf_txid (stake_txid s) \<and> wf_zats (stake_zats s)"

text \<open>A list is shorter than \<open>2^64\<close>: the length of a \<open>Vec\<close> is a \<open>usize\<close>.\<close>

definition wf_member :: "roster_member \<Rightarrow> bool" where
  "wf_member m \<longleftrightarrow> wf_pub_key (rm_pub_key m) \<and> wf_zats (rm_voting_power m)
     \<and> list_all wf_stake (rm_txids m) \<and> length (rm_txids m) \<le> 18446744073709551615"

lemma read_zatoshis_iff [codec_iff]:
  "read_zatoshis bs = Inr (z, rest) \<longleftrightarrow> wf_zats z \<and> bs = write_u64_le (zat_raw z) @ rest"
  by (cases z) (auto simp: read_zatoshis_def codec_iff Zatoshis_from_u64_iff)

interpretation stake_codec: fixed_codec StakeTxId_read StakeTxId_write wf_stake 40
proof (rule fixed_codecI)
  show "StakeTxId_read bs = Inr (s, rest) \<longleftrightarrow> wf_stake s \<and> bs = StakeTxId_write s @ rest" for bs s rest
    by (cases s, cases "stake_txid s")
      (auto simp: StakeTxId_read_def StakeTxId_write_def wf_stake_def wf_txid_def codec_iff)
  show "length (StakeTxId_write s) = 40" if "wf_stake s" for s
    using that by (simp add: StakeTxId_write_def wf_stake_def wf_txid_def)
qed

interpretation member_codec: exact_codec RosterMember_read RosterMember_write wf_member
proof (rule exact_codecI)
  show "RosterMember_read bs = Inr (m, rest) \<longleftrightarrow> wf_member m \<and> bs = RosterMember_write m @ rest"
    for bs m rest
    by (cases m) (auto simp: RosterMember_read_def RosterMember_write_def wf_member_def codec_iff
        stake_codec.read_list_iff count_iff)
qed

text \<open>A roster member is read back exactly as it was written, with every amount within
  \<open>MAX_MONEY\<close>, nothing after it consumed, and a truncated member refused; reading accepts no other
  bytes.\<close>

theorem roster_member_codec:
  "(RosterMember_read bs = Inr (m, rest) \<longleftrightarrow> wf_member m \<and> bs = RosterMember_write m @ rest)
    \<and> (wf_member m \<longrightarrow> length (RosterMember_write m) = 48 + 40 * length (rm_txids m))
    \<and> (wf_member m \<and> RosterMember_write m = p @ q \<and> q \<noteq> [] \<longrightarrow> (\<exists>e. RosterMember_read p = Inl e))"
proof (intro conjI impI)
  show "RosterMember_read bs = Inr (m, rest) \<longleftrightarrow> wf_member m \<and> bs = RosterMember_write m @ rest"
    by (rule member_codec.rd_iff)
  show "length (RosterMember_write m) = 48 + 40 * length (rm_txids m)" if "wf_member m"
    using that stake_codec.list_width [of "rm_txids m"]
    by (simp add: RosterMember_write_def wf_member_def PubKeyId_write_def wf_pub_key_def)
  show "\<exists>e. RosterMember_read p = Inl e" if "wf_member m \<and> RosterMember_write m = p @ q \<and> q \<noteq> []"
    using that member_codec.truncated by blast
qed

lemma roster_member_codec_witness:
  "\<exists>m. rm_txids m \<noteq> [] \<and> RosterMember_read (RosterMember_write m @ [9]) = Inr (m, [9])"
proof -
  let ?m = "\<lparr>rm_pub_key = PubKeyId (replicate 32 1), rm_voting_power = Zatoshis 5,
    rm_txids = [\<lparr>stake_txid = TxId (replicate 32 2), stake_zats = Zatoshis 5\<rparr>]\<rparr>"
  have "wf_member ?m" by (simp add: wf_member_def wf_stake_def wf_simps wf_zats_iff)
  then have "RosterMember_read (RosterMember_write ?m @ [9]) = Inr (?m, [9])"
    using roster_member_codec [of "RosterMember_write ?m @ [9]" ?m "[9]" "[]" "[]"] by blast
  then show ?thesis by (intro exI [of _ ?m]) simp
qed

end
