(* ===== verification/BftBlock.thy ===== *)
theory BftBlock
  imports HardFork CompactSize
begin

text \<open>
  \<open>crates/bft_primitives/src/block.rs\<close>: proof-of-work headers kept as their exact bytes, BFT
  blocks of both layouts, their hash, the stateless header validation and notarized
  blocks. Code outside \<open>src\<close> is a parameter: \<open>CompactSize\<close> of \<open>zcash_encoding\<close> (with
  the law \<open>compact_size_ok\<close> where a property needs it), SHA-256, BLAKE3 and the Equihash
  verifier. \<open>usize\<close> is 64 bits wide, so \<open>usize::try_from(u64)\<close> never fails.
\<close>

subsection \<open>External code\<close>

record blake3 =
  blake3_derive_key :: "string \<Rightarrow> bytes"
  blake3_keyed :: "bytes \<Rightarrow> bytes \<Rightarrow> bytes"

type_synonym 'e equihash_verifier = "u32 \<Rightarrow> u32 \<Rightarrow> bytes \<Rightarrow> bytes \<Rightarrow> bytes \<Rightarrow> 'e + unit"

subsection \<open>Proof-of-work headers\<close>

definition HEADER_PREFIX_BYTES :: nat where "HEADER_PREFIX_BYTES = 140"
definition EQUIHASH_INPUT_BYTES :: nat where "EQUIHASH_INPUT_BYTES = 108"
definition HEADER_NONCE_BYTES :: nat where
  "HEADER_NONCE_BYTES = HEADER_PREFIX_BYTES - EQUIHASH_INPUT_BYTES"
definition SOLUTION_BYTES_MAINNET :: usize where "SOLUTION_BYTES_MAINNET = 1344"
definition SOLUTION_BYTES_REGTEST :: usize where "SOLUTION_BYTES_REGTEST = 36"
definition MIN_HEADER_VERSION :: u32 where "MIN_HEADER_VERSION = 4"
definition FAT_POINTER_HEADER_VERSION :: u32 where "FAT_POINTER_HEADER_VERSION = 5"
definition MAX_HEADER_COUNT :: u32 where "MAX_HEADER_COUNT = 2048"
definition MAX_HARDFORKS_PER_BLOCK :: nat where "MAX_HARDFORKS_PER_BLOCK = 255"

datatype pow_block_hash = PowBlockHash (pbh_bytes: bytes)

record encoded_pow_header =
  header_bytes :: bytes
  solution_start :: nat
  solution_len :: nat

definition wrong_solution_len :: "usize \<Rightarrow> bool" where
  "wrong_solution_len n \<longleftrightarrow> n \<noteq> SOLUTION_BYTES_MAINNET \<and> n \<noteq> SOLUTION_BYTES_REGTEST"

definition EncodedPowHeader_read :: "compact_size \<Rightarrow> encoded_pow_header reader" where
  "EncodedPowHeader_read cs =
     rbind (read_exact HEADER_PREFIX_BYTES) (\<lambda>prefix.
       let version = le_word (take 4 prefix) :: u32 in
     rbind (rguard (\<not> version < MIN_HEADER_VERSION) (InvalidData ''header version must be at least 4'')) (\<lambda>_.
     rbind (cs_read cs) (\<lambda>sol_len.
     rbind (rguard (\<not> wrong_solution_len sol_len)
              (InvalidData ''incorrect equihash solution size'')) (\<lambda>_.
       let framed = prefix @ cs_write cs sol_len in
     rbind (read_exact (unat sol_len)) (\<lambda>solution.
     rbind FatPointer_read (\<lambda>fp.
     rbind (rlift (FatPointer_write fp)) (\<lambda>fp_bytes.
     rret \<lparr>header_bytes = framed @ solution @ fp_bytes,
           solution_start = length framed, solution_len = unat sol_len\<rparr>)))))))"

definition EncodedPowHeader_write :: "encoded_pow_header \<Rightarrow> bytes" where
  "EncodedPowHeader_write h = header_bytes h"

definition EncodedPowHeader_version :: "encoded_pow_header \<Rightarrow> u32" where
  "EncodedPowHeader_version h = le_word (take 4 (header_bytes h))"

definition EncodedPowHeader_prev_block_hash :: "encoded_pow_header \<Rightarrow> pow_block_hash" where
  "EncodedPowHeader_prev_block_hash h = PowBlockHash (take 32 (drop 4 (header_bytes h)))"

definition EncodedPowHeader_hash :: "(bytes \<Rightarrow> bytes) \<Rightarrow> encoded_pow_header \<Rightarrow> pow_block_hash" where
  "EncodedPowHeader_hash sha256 h = PowBlockHash (sha256 (sha256 (header_bytes h)))"

definition EncodedPowHeader_solution :: "encoded_pow_header \<Rightarrow> bytes" where
  "EncodedPowHeader_solution h = take (solution_len h) (drop (solution_start h) (header_bytes h))"

definition EncodedPowHeader_check_pow ::
  "'e equihash_verifier \<Rightarrow> encoded_pow_header \<Rightarrow> equihash_parameters \<Rightarrow> 'e + unit" where
  "EncodedPowHeader_check_pow is_valid_solution h pow =
     is_valid_solution (eh_n pow) (eh_k pow)
       (take EQUIHASH_INPUT_BYTES (header_bytes h))
       (take (HEADER_PREFIX_BYTES - EQUIHASH_INPUT_BYTES) (drop EQUIHASH_INPUT_BYTES (header_bytes h)))
       (EncodedPowHeader_solution h)"

text \<open>A header value is well formed when it is what parsing its own bytes yields.\<close>

definition wf_header :: "compact_size \<Rightarrow> encoded_pow_header \<Rightarrow> bool" where
  "wf_header cs h \<longleftrightarrow> EncodedPowHeader_read cs (header_bytes h) = Inr (h, [])"

text \<open>The layout of the bytes of a header.\<close>

definition header_layout ::
  "compact_size \<Rightarrow> bytes \<Rightarrow> bytes \<Rightarrow> fat_pointer \<Rightarrow> encoded_pow_header \<Rightarrow> bool" where
  "header_layout cs prefix solution fp h \<longleftrightarrow>
     length prefix = 140 \<and> \<not> (le_word (take 4 prefix) :: u32) < MIN_HEADER_VERSION
     \<and> (length solution = 1344 \<or> length solution = 36) \<and> wf_fat_pointer fp
     \<and> h = \<lparr>header_bytes = prefix @ cs_write cs (of_nat (length solution)) @ solution
                            @ written (FatPointer_write fp),
            solution_start = 140 + length (cs_write cs (of_nat (length solution))),
            solution_len = length solution\<rparr>"

lemma solution_len_iff:
  "\<not> wrong_solution_len n \<and> length sol = unat n \<longleftrightarrow>
     (length sol = 1344 \<or> length sol = 36) \<and> n = of_nat (length sol)"
  using count_u64_iff [of n "length sol"]
  by (auto simp: wrong_solution_len_def SOLUTION_BYTES_MAINNET_def SOLUTION_BYTES_REGTEST_def)

lemma header_read_iff:
  assumes "compact_size_ok cs"
  shows "EncodedPowHeader_read cs bs = Inr (h, rest) \<longleftrightarrow>
    (\<exists>prefix solution fp. header_layout cs prefix solution fp h \<and> bs = header_bytes h @ rest)"
proof -
  have cs: "cs_read cs bs = Inr (n, r) \<longleftrightarrow> n \<le> MAX_COMPACT_SIZE \<and> bs = cs_write cs n @ r" for bs n r
    using assms by (rule compact_size_iff)
  have le: "n \<le> MAX_COMPACT_SIZE"
    if "\<not> wrong_solution_len n" for n
    using that by (auto simp: wrong_solution_len_def SOLUTION_BYTES_MAINNET_def SOLUTION_BYTES_REGTEST_def
        MAX_COMPACT_SIZE_def)
  let ?body = "\<lambda>prefix n sol fp. prefix @ cs_write cs n @ sol @ written (FatPointer_write fp)"
  have "EncodedPowHeader_read cs bs = Inr (h, rest) \<longleftrightarrow>
      (\<exists>prefix n sol fp. length prefix = 140 \<and> \<not> (le_word (take 4 prefix) :: u32) < MIN_HEADER_VERSION
        \<and> (\<not> wrong_solution_len n \<and> length sol = unat n)
        \<and> wf_fat_pointer fp \<and> bs = ?body prefix n sol fp @ rest
        \<and> h = \<lparr>header_bytes = ?body prefix n sol fp, solution_start = 140 + length (cs_write cs n),
               solution_len = length sol\<rparr>)" (is "?L \<longleftrightarrow> ?R")
  proof
    assume ?L
    then obtain prefix n sol fp fpb where r: "length prefix = 140"
        "\<not> (le_word (take 4 prefix) :: u32) < MIN_HEADER_VERSION"
        "\<not> wrong_solution_len n" "length sol = unat n"
        "wf_fat_pointer fp" "FatPointer_write fp = Inr fpb"
        "bs = prefix @ cs_write cs n @ sol @ written (FatPointer_write fp) @ rest"
        "h = \<lparr>header_bytes = (prefix @ cs_write cs n) @ sol @ fpb,
              solution_start = length (prefix @ cs_write cs n), solution_len = unat n\<rparr>"
      unfolding EncodedPowHeader_read_def Let_def
      by (auto simp: HEADER_PREFIX_BYTES_def read_exact_iff cs fp_codec.read_iff)
    then show ?R
      by (intro exI [of _ prefix] exI [of _ n] exI [of _ sol] exI [of _ fp]) simp
  next
    assume ?R
    then obtain prefix n sol fp where r: "length prefix = 140"
        "\<not> (le_word (take 4 prefix) :: u32) < MIN_HEADER_VERSION"
        "\<not> wrong_solution_len n" "length sol = unat n"
        "wf_fat_pointer fp" "bs = ?body prefix n sol fp @ rest"
        "h = \<lparr>header_bytes = ?body prefix n sol fp, solution_start = 140 + length (cs_write cs n),
               solution_len = length sol\<rparr>"
      by blast
    have "read_exact 140 bs = Inr (prefix, cs_write cs n @ sol @ written (FatPointer_write fp) @ rest)"
      using r by (simp add: read_exact_iff)
    moreover have "cs_read cs (cs_write cs n @ sol @ written (FatPointer_write fp) @ rest) =
        Inr (n, sol @ written (FatPointer_write fp) @ rest)"
      using cs le [OF r(3)] by simp
    moreover have "read_exact (unat n) (sol @ written (FatPointer_write fp) @ rest) =
        Inr (sol, written (FatPointer_write fp) @ rest)"
      using r(4) by (simp add: read_exact_iff)
    moreover have "FatPointer_read (written (FatPointer_write fp) @ rest) = Inr (fp, rest)"
      using r(5) by (simp add: fp_codec.read_iff)
    moreover obtain fpb where "FatPointer_write fp = Inr fpb"
      using fp_codec.accepts [OF r(5)] by blast
    ultimately show ?L
      unfolding EncodedPowHeader_read_def Let_def HEADER_PREFIX_BYTES_def
      using r(1-5,7)
      by (auto simp: rbind_step rguard_def rret_def rlift_def rfail_def)
  qed
  also have "?R \<longleftrightarrow> (\<exists>prefix solution fp. header_layout cs prefix solution fp h \<and> bs = header_bytes h @ rest)"
    (is "_ \<longleftrightarrow> ?R'")
  proof
    assume ?R
    then obtain prefix n sol fp where r: "length prefix = 140"
        "\<not> (le_word (take 4 prefix) :: u32) < MIN_HEADER_VERSION"
        "length sol = 1344 \<or> length sol = 36" "n = of_nat (length sol)"
        "wf_fat_pointer fp" "bs = ?body prefix n sol fp @ rest"
        "h = \<lparr>header_bytes = ?body prefix n sol fp, solution_start = 140 + length (cs_write cs n),
               solution_len = length sol\<rparr>"
      unfolding solution_len_iff by blast
    then have "header_layout cs prefix sol fp h \<and> bs = header_bytes h @ rest"
      unfolding header_layout_def by simp
    then show ?R' by blast
  next
    assume ?R'
    then obtain prefix sol fp where l: "header_layout cs prefix sol fp h" "bs = header_bytes h @ rest"
      by blast
    then show ?R
      unfolding solution_len_iff header_layout_def
      by (intro exI [of _ prefix] exI [of _ "of_nat (length sol)"] exI [of _ sol] exI [of _ fp]) simp
  qed
  finally show ?thesis .
qed

lemma header_layout_read:
  assumes "compact_size_ok cs" "header_layout cs prefix solution fp h"
  shows "EncodedPowHeader_read cs (header_bytes h @ rest) = Inr (h, rest)"
  using header_read_iff [OF assms(1)] assms(2) by blast

lemma wf_header_iff:
  assumes "compact_size_ok cs"
  shows "wf_header cs h \<longleftrightarrow> (\<exists>prefix solution fp. header_layout cs prefix solution fp h)"
  using header_read_iff [OF assms, of "header_bytes h" h "[]"] by (simp add: wf_header_def)

lemma header_codec:
  assumes "compact_size_ok cs"
  shows "exact_codec (EncodedPowHeader_read cs) EncodedPowHeader_write (wf_header cs)"
  by (rule exact_codecI)
    (auto simp: header_read_iff [OF assms] wf_header_iff [OF assms] EncodedPowHeader_write_def)

text \<open>Reading a header preserves its bytes: what \<open>read\<close> consumed is exactly \<open>as_bytes\<close> of the
  result, which parses back to the same header; the recorded slice is the Equihash solution of
  1344 or 36 bytes, the version is at least 4, and the bytes after the solution are a fat
  pointer.\<close>

theorem header_read_preserves_bytes:
  assumes "compact_size_ok cs" "EncodedPowHeader_read cs bs = Inr (h, rest)"
  shows "bs = EncodedPowHeader_write h @ rest
    \<and> EncodedPowHeader_read cs (EncodedPowHeader_write h @ rest') = Inr (h, rest')
    \<and> 4 \<le> uint (EncodedPowHeader_version h)
    \<and> (length (EncodedPowHeader_solution h) = 1344 \<or> length (EncodedPowHeader_solution h) = 36)
    \<and> EncodedPowHeader_solution h = take (solution_len h) (drop (solution_start h) bs)
    \<and> EncodedPowHeader_prev_block_hash h = PowBlockHash (take 32 (drop 4 bs))
    \<and> (\<exists>fp. FatPointer_read (drop (solution_start h + solution_len h) (header_bytes h)) = Inr (fp, []))"
proof -
  obtain prefix solution fp where l: "header_layout cs prefix solution fp h" "bs = header_bytes h @ rest"
    using assms header_read_iff by blast
  note lay = l(1) [unfolded header_layout_def]
  have "EncodedPowHeader_version h = le_word (take 4 prefix)"
    using lay by (simp add: EncodedPowHeader_version_def)
  then have "4 \<le> uint (EncodedPowHeader_version h)"
    using lay by (simp add: MIN_HEADER_VERSION_def word_less_def not_less)
  moreover have sol: "EncodedPowHeader_solution h = solution"
    using lay by (simp add: EncodedPowHeader_solution_def)
  moreover have "drop (solution_start h + solution_len h) (header_bytes h) = written (FatPointer_write fp)"
    using lay by simp
  moreover have "FatPointer_read (written (FatPointer_write fp)) = Inr (fp, [])"
    using lay fp_codec.read_written [of fp] by simp
  moreover have "take (solution_len h) (drop (solution_start h) bs) = solution"
    using lay l(2) by simp
  moreover have "EncodedPowHeader_prev_block_hash h = PowBlockHash (take 32 (drop 4 bs))"
    using lay l(2) by (simp add: EncodedPowHeader_prev_block_hash_def)
  ultimately show ?thesis
    using lay l header_layout_read [OF assms(1) l(1)] by (auto simp: EncodedPowHeader_write_def)
qed

text \<open>A concrete header for the witnesses: version 4, a 36-byte solution and the null fat pointer.\<close>

definition example_header :: encoded_pow_header where
  "example_header =
     \<lparr>header_bytes = (write_u32_le 4 @ replicate 136 0) @ bitcoin_write 36 @ replicate 36 1
                     @ written (FatPointer_write FatPointer_null),
      solution_start = 141, solution_len = 36\<rparr>"

lemma example_header_layout:
  "header_layout bitcoin_compact_size (write_u32_le 4 @ replicate 136 0) (replicate 36 1) FatPointer_null
     example_header"
  by (simp add: header_layout_def example_header_def bitcoin_compact_size_def bitcoin_write_def
      wf_fat_pointer_def FatPointer_null_def wf_simps wf_round_def Round_ZERO_def MIN_HEADER_VERSION_def
      write_u32_le_def le_word_le_bytes)

lemma wf_example_header: "wf_header bitcoin_compact_size example_header"
  using example_header_layout wf_header_iff [OF bitcoin_compact_size_ok] by blast

lemma header_read_preserves_bytes_witness:
  "EncodedPowHeader_prev_block_hash example_header = PowBlockHash (take 32 (drop 4 (header_bytes example_header)))
   \<and> 4 \<le> uint (EncodedPowHeader_version example_header)"
  using header_read_preserves_bytes [OF bitcoin_compact_size_ok, of "header_bytes example_header" example_header "[]"]
    wf_example_header by (simp add: wf_header_def)

subsection \<open>Blocks\<close>

datatype 'e invalid_bft_block =
    UnsupportedVersion u32
  | TooManyHardforks nat
  | IncorrectConfirmationDepth u64 u64
  | UnknownHeaderVersion nat u32
  | BrokenHeaderChain nat
  | InvalidEquihashSolution nat 'e

record bft_block_v2_data =
  v2_version :: u32
  v2_hardforks :: "hard_fork_config list"
  v2_do_not_include_until :: block_height

definition BftBlockV2Data_new ::
  "u32 \<Rightarrow> hard_fork_config list \<Rightarrow> block_height \<Rightarrow> 'e invalid_bft_block + bft_block_v2_data" where
  "BftBlockV2Data_new version hardforks until =
     (if version < 2 then Inl (UnsupportedVersion version)
      else if length hardforks > MAX_HARDFORKS_PER_BLOCK then Inl (TooManyHardforks (length hardforks))
      else Inr \<lparr>v2_version = version, v2_hardforks = hardforks, v2_do_not_include_until = until\<rparr>)"

datatype bft_block_version = V1 | V2Plus bft_block_v2_data

record bft_block =
  bb_version :: bft_block_version
  bb_height :: bft_height
  bb_previous_block_fat_ptr :: fat_pointer
  bb_headers :: "encoded_pow_header list"

fun version_number_of :: "bft_block_version \<Rightarrow> u32" where
  "version_number_of V1 = 1"
| "version_number_of (V2Plus data) = v2_version data"

definition BftBlock_version_number :: "bft_block \<Rightarrow> u32" where
  "BftBlock_version_number b = version_number_of (bb_version b)"

definition BftBlock_previous_block_hash :: "bft_block \<Rightarrow> blake3_hash" where
  "BftBlock_previous_block_hash b = fp_block_hash (bb_previous_block_fat_ptr b)"

definition BftBlock_finalization_candidate :: "bft_block \<Rightarrow> encoded_pow_header option" where
  "BftBlock_finalization_candidate b = (case bb_headers b of [] \<Rightarrow> None | h # _ \<Rightarrow> Some h)"

definition BftBlock_hardforks :: "bft_block \<Rightarrow> hard_fork_config list" where
  "BftBlock_hardforks b = (case bb_version b of V1 \<Rightarrow> [] | V2Plus data \<Rightarrow> v2_hardforks data)"

definition BftBlock_do_not_include_until :: "bft_block \<Rightarrow> block_height" where
  "BftBlock_do_not_include_until b =
     (case bb_version b of V1 \<Rightarrow> BlockHeight_from_u32 0 | V2Plus data \<Rightarrow> v2_do_not_include_until data)"

definition read_v2_data :: "u32 \<Rightarrow> bft_block_version reader" where
  "read_v2_data version =
     rbind read_u8 (\<lambda>hardfork_count.
     rbind (read_n (unat hardfork_count) HardForkConfig_read) (\<lambda>hardforks.
     rbind read_block_height_u64 (\<lambda>until.
     rret (V2Plus \<lparr>v2_version = version, v2_hardforks = hardforks, v2_do_not_include_until = until\<rparr>))))"

definition read_version_tail :: "u32 \<Rightarrow> bft_block_version reader" where
  "read_version_tail version = (if version \<ge> 2 then read_v2_data version else rret V1)"

text \<open>Version 1 stores the height plus one: \<open>checked_sub(1)\<close>.\<close>

definition normalized_height :: "u32 \<Rightarrow> u32 \<Rightarrow> u32 option" where
  "normalized_height version raw_height =
     (if version < 2 then (if raw_height = 0 then None else Some (raw_height - 1))
      else Some raw_height)"

definition BftBlock_read :: "compact_size \<Rightarrow> bft_block reader" where
  "BftBlock_read cs =
     rbind read_u32_le (\<lambda>version.
     rbind (rguard (version \<noteq> 0) (InvalidData ''BFT block version 0 is not valid'')) (\<lambda>_.
     rbind read_u32_le (\<lambda>raw_height.
     rbind (rlift (ok_or (normalized_height version raw_height)
              (InvalidData ''v1 BFT block has a zero serialized height, which cannot be normalized'')))
       (\<lambda>height.
     rbind FatPointer_read (\<lambda>prev.
     rbind read_u32_le (\<lambda>_.
     rbind read_u32_le (\<lambda>header_count.
     rbind (rguard (\<not> header_count > MAX_HEADER_COUNT)
              (InvalidData ''header_count was greater than 2048.'')) (\<lambda>_.
     rbind (read_n (unat header_count) (EncodedPowHeader_read cs)) (\<lambda>headers.
     rbind (read_version_tail version) (\<lambda>version.
     rret \<lparr>bb_version = version, bb_height = BftHeight_new height,
           bb_previous_block_fat_ptr = prev, bb_headers = headers\<rparr>))))))))))"

definition try_u8_of_len :: "nat \<Rightarrow> u8 option" where
  "try_u8_of_len n = (if n \<le> 255 then Some (of_nat n) else None)"

definition write_v2_data :: "bft_block_version \<Rightarrow> io_error + bytes" where
  "write_v2_data version = (case version of
     V1 \<Rightarrow> Inr []
   | V2Plus data \<Rightarrow>
       res_bind (ok_or (try_u8_of_len (length (v2_hardforks data))) (InvalidData ''too many hardforks'')) (\<lambda>n.
       res_bind (write_all_res HardForkConfig_write (v2_hardforks data)) (\<lambda>hfs.
       Inr (write_u8 n @ hfs
            @ write_u64_le (ucast (u32_from_BlockHeight (v2_do_not_include_until data)))))))"

definition serialized_height :: "bft_block \<Rightarrow> io_error + u32" where
  "serialized_height b = (case bb_version b of
     V1 \<Rightarrow> (let h = u32_from_BftHeight (bb_height b)
            in if h = - 1 then Inl (InvalidData ''v1 BFT height out of range'') else Inr (h + 1))
   | V2Plus _ \<Rightarrow> Inr (u32_from_BftHeight (bb_height b)))"

definition BftBlock_write :: "bft_block \<Rightarrow> io_error + bytes" where
  "BftBlock_write b =
     res_bind (serialized_height b) (\<lambda>h.
     res_bind (FatPointer_write (bb_previous_block_fat_ptr b)) (\<lambda>prev.
     res_bind (ok_or (try_u32_of_len (length (bb_headers b))) (InvalidData ''too many headers'')) (\<lambda>n.
     res_bind (write_v2_data (bb_version b)) (\<lambda>tail.
     Inr (write_u32_le (BftBlock_version_number b) @ write_u32_le h @ prev
          @ write_u32_le 0 @ write_u32_le n
          @ concat (map EncodedPowHeader_write (bb_headers b)) @ tail)))))"

definition BftBlock_to_bytes :: "bft_block \<Rightarrow> io_error + bytes" where
  "BftBlock_to_bytes b = BftBlock_write b"

definition VALUE_ID_DOMAIN :: string where
  "VALUE_ID_DOMAIN = ''BFT Value ID''"

definition keyed_hasher :: "blake3 \<Rightarrow> string \<Rightarrow> bytes \<Rightarrow> bytes" where
  "keyed_hasher b3 domain = blake3_keyed b3 (blake3_derive_key b3 domain)"

definition BftBlock_hash :: "blake3 \<Rightarrow> bft_block \<Rightarrow> io_error + blake3_hash" where
  "BftBlock_hash b3 b = map_ok (\<lambda>bs. Blake3Hash (keyed_hasher b3 VALUE_ID_DOMAIN bs)) (BftBlock_to_bytes b)"

subsection \<open>Stateless validation\<close>

definition check_headers ::
  "(bytes \<Rightarrow> bytes) \<Rightarrow> 'e equihash_verifier \<Rightarrow> zcash_crosslink_parameters \<Rightarrow> equihash_parameters
     \<Rightarrow> encoded_pow_header list \<Rightarrow> 'e invalid_bft_block + unit" where
  "check_headers sha256 eq params pow headers =
    (let expected = pow_confirmation_depth_sigma params; actual = of_nat (length headers) in
     res_bind (guard_res (actual = expected) (IncorrectConfirmationDepth expected actual)) (\<lambda>_.
     res_bind (for_enumerate (\<lambda>index header.
         let version = EncodedPowHeader_version header in
         guard_res (\<not> version < MIN_HEADER_VERSION) (UnknownHeaderVersion index version)) 0 headers) (\<lambda>_.
     res_bind (for_enumerate (\<lambda>index header.
         guard_res (\<not> (index > 0 \<and> EncodedPowHeader_prev_block_hash header
                            \<noteq> EncodedPowHeader_hash sha256 (headers ! (index - 1))))
           (BrokenHeaderChain index)) 0 headers) (\<lambda>_.
     for_enumerate (\<lambda>index header.
         map_err (InvalidEquihashSolution index) (EncodedPowHeader_check_pow eq header pow)) 0 headers))))"

definition BftBlock_check_stateless ::
  "(bytes \<Rightarrow> bytes) \<Rightarrow> 'e equihash_verifier \<Rightarrow> bft_block \<Rightarrow> zcash_crosslink_parameters
     \<Rightarrow> equihash_parameters \<Rightarrow> 'e invalid_bft_block + unit" where
  "BftBlock_check_stateless sha256 eq b params pow = check_headers sha256 eq params pow (bb_headers b)"

definition BftBlock_new ::
  "(bytes \<Rightarrow> bytes) \<Rightarrow> 'e equihash_verifier \<Rightarrow> zcash_crosslink_parameters \<Rightarrow> equihash_parameters
     \<Rightarrow> bft_block_version \<Rightarrow> bft_height \<Rightarrow> fat_pointer \<Rightarrow> encoded_pow_header list
     \<Rightarrow> 'e invalid_bft_block + bft_block" where
  "BftBlock_new sha256 eq params pow version height prev headers =
     res_bind (check_headers sha256 eq params pow headers) (\<lambda>_.
       Inr \<lparr>bb_version = version, bb_height = height, bb_previous_block_fat_ptr = prev,
            bb_headers = headers\<rparr>)"

subsection \<open>Notarized blocks\<close>

record notarized_block =
  nb_block :: bft_block
  nb_fat_ptr :: fat_pointer

definition NotarizedBftBlock_from_parts ::
  "blake3 \<Rightarrow> bft_block \<Rightarrow> bft_height \<Rightarrow> round \<Rightarrow> fat_pointer_signature list
     \<Rightarrow> io_error + notarized_block" where
  "NotarizedBftBlock_from_parts b3 block height round signatures =
     res_bind (BftBlock_hash b3 block) (\<lambda>hash.
       Inr \<lparr>nb_block = block, nb_fat_ptr = FatPointer_from_parts hash height round signatures\<rparr>)"

definition NotarizedBftBlock_read :: "compact_size \<Rightarrow> notarized_block reader" where
  "NotarizedBftBlock_read cs =
     rbind (BftBlock_read cs) (\<lambda>block. rbind FatPointer_read (\<lambda>fp.
       rret \<lparr>nb_block = block, nb_fat_ptr = fp\<rparr>))"

definition NotarizedBftBlock_write :: "notarized_block \<Rightarrow> io_error + bytes" where
  "NotarizedBftBlock_write nb =
     res_bind (BftBlock_write (nb_block nb)) (\<lambda>block.
     res_bind (FatPointer_write (nb_fat_ptr nb)) (\<lambda>fp. Inr (block @ fp)))"

subsection \<open>The block codec\<close>

definition wf_version :: "bft_block_version \<Rightarrow> bool" where
  "wf_version v = (case v of V1 \<Rightarrow> True
     | V2Plus data \<Rightarrow> \<not> v2_version data < 2 \<and> list_all wf_hard_fork (v2_hardforks data)
         \<and> length (v2_hardforks data) \<le> 255)"

definition wf_block :: "compact_size \<Rightarrow> bft_block \<Rightarrow> bool" where
  "wf_block cs b \<longleftrightarrow> wf_version (bb_version b)
     \<and> (bb_version b = V1 \<longrightarrow> bft_raw (bb_height b) \<noteq> - 1)
     \<and> wf_fat_pointer (bb_previous_block_fat_ptr b)
     \<and> list_all (wf_header cs) (bb_headers b) \<and> length (bb_headers b) \<le> 2048"

text \<open>The bytes of a block with a given content of the dead 4-byte slot.\<close>

definition block_bytes :: "u32 \<Rightarrow> bft_block \<Rightarrow> bytes" where
  "block_bytes slot b =
     write_u32_le (BftBlock_version_number b)
     @ write_u32_le (if bb_version b = V1 then bft_raw (bb_height b) + 1 else bft_raw (bb_height b))
     @ written (FatPointer_write (bb_previous_block_fat_ptr b))
     @ write_u32_le slot @ write_u32_le (of_nat (length (bb_headers b)))
     @ concat (map EncodedPowHeader_write (bb_headers b))
     @ written (write_v2_data (bb_version b))"

lemma v2_data_write:
  assumes "wf_version v"
  shows "write_v2_data v = Inr (written (write_v2_data v))"
  using assms hard_fork_codec.write_all_ok
  by (auto simp: wf_version_def write_v2_data_def try_u8_of_len_def split: bft_block_version.splits)

lemma v2_data_read_iff:
  assumes "\<not> version < 2"
  shows "read_v2_data version bs = Inr (v, rest) \<longleftrightarrow>
    wf_version v \<and> v \<noteq> V1 \<and> version_number_of v = version \<and> bs = written (write_v2_data v) @ rest"
proof (cases v)
  case V1
  then show ?thesis by (auto simp: read_v2_data_def)
next
  case (V2Plus data)
  show ?thesis
    using assms hard_fork_codec.write_all_ok [of "v2_hardforks data"]
    by (cases data)
      (auto simp: V2Plus read_v2_data_def wf_version_def write_v2_data_def try_u8_of_len_def codec_iff
        hard_fork_codec.read_list_iff count_iff)
qed

lemma block_write_wf:
  assumes "wf_block cs b"
  shows "BftBlock_write b = Inr (block_bytes 0 b)"
proof -
  have "wf_version (bb_version b)" using assms by (simp add: wf_block_def)
  note v = v2_data_write [OF this]
  obtain fpb where fp: "FatPointer_write (bb_previous_block_fat_ptr b) = Inr fpb"
    using assms fp_codec.accepts by (auto simp: wf_block_def)
  obtain vb where vb: "write_v2_data (bb_version b) = Inr vb" using v by blast
  show ?thesis
    using assms fp vb
    by (auto simp: BftBlock_write_def block_bytes_def serialized_height_def wf_block_def Let_def
        u32_from_BftHeight_def try_u32_of_len_def split: bft_block_version.splits)
qed

lemma MAX_HEADER_unat: "\<not> (c > MAX_HEADER_COUNT) \<longleftrightarrow> unat c \<le> 2048"
  by (simp add: MAX_HEADER_COUNT_def word_less_nat_alt not_less)

definition version_matches :: "u32 \<Rightarrow> bft_block_version \<Rightarrow> bool" where
  "version_matches version v \<longleftrightarrow> (if version < 2 then v = V1 else version_number_of v = version)"

lemma version_tail_iff:
  "read_version_tail version bs = Inr (v, rest) \<longleftrightarrow>
     wf_version v \<and> version_matches version v \<and> bs = written (write_v2_data v) @ rest"
proof (cases "version < 2")
  case True
  then show ?thesis
    by (auto simp: read_version_tail_def wf_version_def write_v2_data_def not_le version_matches_def)
next
  case False
  have "v \<noteq> V1" if "version_number_of v = version"
    using that False by (auto simp: word_less_def)
  then show ?thesis
    using False v2_data_read_iff [OF False]
    by (auto simp: read_version_tail_def not_less version_matches_def)
qed

lemma normalized_height_iff:
  "normalized_height version raw = Some h \<longleftrightarrow>
     raw = (if version < 2 then h + 1 else h) \<and> (version < 2 \<longrightarrow> h \<noteq> - 1)"
  by (auto simp: normalized_height_def eq_neg_iff_add_eq_0)

lemma version_matches_iff:
  assumes "wf_version v"
  shows "version \<noteq> 0 \<and> version_matches version v \<longleftrightarrow> version = version_number_of v"
proof (cases v)
  case V1
  have "version \<noteq> 0 \<and> version < 2 \<longleftrightarrow> version = 1"
  proof -
    have "uint version \<noteq> 0 \<and> uint version < 2 \<longleftrightarrow> uint version = 1"
      using uint_ge_0 [of version] by linarith
    then show ?thesis by (simp add: word_less_def word_eq_iff_unsigned [where ?'a = int])
  qed
  then show ?thesis by (auto simp: V1 version_matches_def word_less_def)
next
  case (V2Plus data)
  then show ?thesis using assms by (auto simp: version_matches_def wf_version_def)
qed

lemma wf_version_less2: "wf_version v \<Longrightarrow> version_number_of v < 2 \<longleftrightarrow> v = V1"
  by (cases v) (auto simp: wf_version_def)

lemma block_read_iff:
  assumes "compact_size_ok cs"
  shows "BftBlock_read cs bs = Inr (b, rest) \<longleftrightarrow>
    wf_block cs b \<and> (\<exists>slot. bs = block_bytes slot b @ rest)"
proof -
  note hdr = exact_codec.read_list_iff [OF header_codec [OF assms]]
  obtain v h prev hs where b: "b = \<lparr>bb_version = v, bb_height = BftHeight h,
      bb_previous_block_fat_ptr = prev, bb_headers = hs\<rparr>"
    by (cases b, cases "bb_height b") auto
  let ?bytes = "\<lambda>version raw slot c. write_u32_le version @ write_u32_le raw
      @ written (FatPointer_write prev) @ write_u32_le slot @ write_u32_le c
      @ concat (map EncodedPowHeader_write hs) @ written (write_v2_data v)"
  have "BftBlock_read cs bs = Inr (b, rest) \<longleftrightarrow>
      (\<exists>version raw slot c. version \<noteq> 0 \<and> normalized_height version raw = Some h
        \<and> wf_fat_pointer prev
        \<and> \<not> (c > MAX_HEADER_COUNT) \<and> length hs = unat c \<and> list_all (wf_header cs) hs
        \<and> wf_version v \<and> version_matches version v
        \<and> bs = ?bytes version raw slot c @ rest)" (is "?L \<longleftrightarrow> ?M")
  proof
    assume ?L
    then show ?M
      unfolding BftBlock_read_def b
      by (auto simp: codec_iff hdr version_tail_iff BftHeight_new_def)
  next
    assume ?M
    then obtain version raw slot c where m: "version \<noteq> 0" "normalized_height version raw = Some h"
        "wf_fat_pointer prev" "\<not> (c > MAX_HEADER_COUNT)"
        "length hs = unat c" "list_all (wf_header cs) hs"
        "wf_version v" "version_matches version v" "bs = ?bytes version raw slot c @ rest"
      by blast
    show ?L
      unfolding BftBlock_read_def b
      using m by (auto simp: codec_iff hdr version_tail_iff BftHeight_new_def intro!: exI [of _ prev])
  qed
  also have "?M \<longleftrightarrow> wf_block cs b \<and> (\<exists>slot. bs = block_bytes slot b @ rest)" (is "_ \<longleftrightarrow> ?R")
  proof
    assume ?M
    then obtain version raw slot c where m: "version \<noteq> 0" "normalized_height version raw = Some h"
        "wf_fat_pointer prev" "unat c \<le> 2048" "unat c = length hs" "list_all (wf_header cs) hs"
        "wf_version v" "version_matches version v" "bs = ?bytes version raw slot c @ rest"
      unfolding MAX_HEADER_unat by metis
    have ver: "version = version_number_of v" using m version_matches_iff by blast
    have "c = of_nat (length hs)" using m(5) count_u32_iff by blast
    then show ?R
      using m(2-9) unfolding ver b normalized_height_iff wf_version_less2 [OF m(7)]
      by (auto simp: wf_block_def block_bytes_def BftBlock_version_number_def intro!: exI [of _ slot])
  next
    assume ?R
    then obtain slot where wf: "wf_block cs b" and bs: "bs = block_bytes slot b @ rest" by blast
    then have v: "wf_version v" and n: "length hs \<le> 2048" by (simp_all add: wf_block_def b)
    have c: "unat (of_nat (length hs) :: u32) = length hs"
      using n by (intro count_u32_iff [THEN iffD2]) simp
    have nz: "version_number_of v \<noteq> 0 \<and> version_matches (version_number_of v) v"
      using version_matches_iff [OF v] by blast
    show ?M
      unfolding MAX_HEADER_unat normalized_height_iff
      using wf nz c n v bs
      by (intro exI [of _ "version_number_of v"] exI [of _ slot] exI [of _ "of_nat (length hs)"] exI
          [of _ "if v = V1 then h + 1 else h"])
        (auto simp: wf_block_def b block_bytes_def BftBlock_version_number_def wf_version_less2)
  qed
  finally show ?thesis .
qed

lemma block_read_written:
  assumes "compact_size_ok cs" "wf_block cs b"
  shows "BftBlock_read cs (block_bytes slot b @ rest) = Inr (b, rest)"
  using assms block_read_iff by blast

text \<open>The position of the dead slot in the bytes of a block.\<close>

definition dead_slot_offset :: "bft_block \<Rightarrow> nat" where
  "dead_slot_offset b = 8 + length (written (FatPointer_write (bb_previous_block_fat_ptr b)))"

lemma block_bytes_split:
  "\<exists>hd tl. length hd = dead_slot_offset b \<and> (\<forall>slot. block_bytes slot b = hd @ write_u32_le slot @ tl)"
  by (rule exI [of _ "write_u32_le (BftBlock_version_number b)
       @ write_u32_le (if bb_version b = V1 then bft_raw (bb_height b) + 1 else bft_raw (bb_height b))
       @ written (FatPointer_write (bb_previous_block_fat_ptr b))"],
      rule exI [of _ "write_u32_le (of_nat (length (bb_headers b)))
       @ concat (map EncodedPowHeader_write (bb_headers b)) @ written (write_v2_data (bb_version b))"])
    (simp add: dead_slot_offset_def block_bytes_def)

lemma four_bytes: "length s = 4 \<Longrightarrow> write_u32_le (le_word s) = s"
  by (simp add: write_u32_le_def le_bytes_le_word)

text \<open>C32: A block that was read is written back as the bytes it was read from, except that the
  four-byte dead slot between the fat pointer and the header count becomes zero; reading ignores
  what the slot holds, so every content of it decodes to the same block (and so to the same
  block hash).\<close>

theorem block_read_write_dead_slot:
  assumes "compact_size_ok cs" "BftBlock_read cs bs = Inr (b, rest)"
  shows "BftBlock_write b = Inr (take (dead_slot_offset b) bs @ [0, 0, 0, 0]
           @ drop (dead_slot_offset b + 4) (take (length bs - length rest) bs))
    \<and> (\<forall>slot. length slot = 4 \<longrightarrow>
         BftBlock_read cs (take (dead_slot_offset b) bs @ slot @ drop (dead_slot_offset b + 4) bs)
           = Inr (b, rest))"
proof -
  obtain slot where wf: "wf_block cs b" and bs: "bs = block_bytes slot b @ rest"
    using assms block_read_iff by blast
  obtain pre post where len: "length pre = dead_slot_offset b"
    and split: "\<And>slot. block_bytes slot b = pre @ write_u32_le slot @ post"
    using block_bytes_split by blast
  have zero: "write_u32_le 0 = [0, 0, 0, 0]"
    by (simp add: write_u32_le_def le_bytes_zero numeral_nat)
  have "BftBlock_write b = Inr (block_bytes 0 b)" using wf by (rule block_write_wf)
  moreover have "BftBlock_read cs (pre @ s @ post @ rest) = Inr (b, rest)" if "length s = 4" for s
    using block_read_written [OF assms(1) wf, of "le_word s" rest] that
    by (simp add: split four_bytes)
  ultimately show ?thesis by (simp add: bs split zero flip: len)
qed

text \<open>A block of one header, and its bytes with a nonzero dead slot.\<close>

definition example_block :: bft_block where
  "example_block = \<lparr>bb_version = V1, bb_height = BftHeight 7, bb_previous_block_fat_ptr = FatPointer_null,
                    bb_headers = [example_header]\<rparr>"

lemma wf_FatPointer_null: "wf_fat_pointer FatPointer_null"
  using example_header_layout by (simp add: header_layout_def)

lemma wf_example_block: "wf_block bitcoin_compact_size example_block"
  by (simp add: wf_block_def example_block_def wf_version_def wf_FatPointer_null wf_example_header)

lemma block_read_write_dead_slot_witness:
  "BftBlock_write example_block = Inr (take (dead_slot_offset example_block) (block_bytes 77 example_block)
      @ [0, 0, 0, 0] @ drop (dead_slot_offset example_block + 4) (block_bytes 77 example_block))"
  using block_read_write_dead_slot [OF bitcoin_compact_size_ok, of "block_bytes 77 example_block"
      example_block "[]"] block_read_written [OF bitcoin_compact_size_ok wf_example_block, of 77 "[]"]
  by simp

text \<open>A notarized block built by \<open>from_parts\<close> names its own block: the fat pointer carries
  the block's hash and is a precommit. Its written form reads back to the same value with nothing
  left over, provided the parts are within the limits of the format and the hash has 32 bytes.\<close>

theorem notarized_block_roundtrip:
  assumes "compact_size_ok cs" "wf_block cs b" "list_all wf_fps sigs" "length sigs \<le> 65535"
    "wf_round r" "\<And>k m. length (blake3_keyed b3 k m) = 32"
  shows "\<exists>nb out h. NotarizedBftBlock_from_parts b3 b height r sigs = Inr nb
    \<and> BftBlock_hash b3 b = Inr h \<and> fp_block_hash (nb_fat_ptr nb) = h
    \<and> fp_kind (nb_fat_ptr nb) = Precommit
    \<and> NotarizedBftBlock_write nb = Inr out
    \<and> NotarizedBftBlock_read cs (out @ rest) = Inr (nb, rest)"
proof -
  note w = block_write_wf [OF assms(2)]
  obtain h where h: "BftBlock_hash b3 b = Inr (Blake3Hash h)" "length h = 32"
    using assms(6) w by (simp add: BftBlock_hash_def BftBlock_to_bytes_def keyed_hasher_def)
  define fp where "fp = FatPointer_from_parts (Blake3Hash h) height r sigs"
  have wf: "wf_fat_pointer fp"
    using assms h by (simp add: fp_def FatPointer_from_parts_def wf_fat_pointer_def wf_simps)
  obtain fpb where fpb: "FatPointer_write fp = Inr fpb" using fp_codec.accepts [OF wf] by blast
  have "FatPointer_read (fpb @ rest) = Inr (fp, rest)"
    using wf fpb by (simp add: fp_codec.read_iff)
  moreover have "BftBlock_read cs (block_bytes 0 b @ fpb @ rest) = Inr (b, fpb @ rest)"
    by (rule block_read_written [OF assms(1,2)])
  ultimately show ?thesis
    using h w fpb
    by (simp add: NotarizedBftBlock_from_parts_def NotarizedBftBlock_write_def
        NotarizedBftBlock_read_def rbind_step fp_def [symmetric] rret_def)
      (simp add: fp_def FatPointer_from_parts_def)
qed

lemma notarized_block_roundtrip_witness:
  "\<exists>nb out h. NotarizedBftBlock_from_parts \<lparr>blake3_derive_key = \<lambda>_. [], blake3_keyed = \<lambda>k m. replicate 32 9\<rparr>
       example_block (BftHeight 8) Round_ZERO [] = Inr nb
    \<and> BftBlock_hash \<lparr>blake3_derive_key = \<lambda>_. [], blake3_keyed = \<lambda>k m. replicate 32 9\<rparr> example_block = Inr h
    \<and> fp_block_hash (nb_fat_ptr nb) = h
    \<and> NotarizedBftBlock_write nb = Inr out
    \<and> NotarizedBftBlock_read bitcoin_compact_size (out @ [1]) = Inr (nb, [1])"
  using notarized_block_roundtrip [OF bitcoin_compact_size_ok wf_example_block, of "[]" Round_ZERO
      "\<lparr>blake3_derive_key = \<lambda>_. [], blake3_keyed = \<lambda>k m. replicate 32 9\<rparr>" "BftHeight 8" "[1]"]
  by (auto simp: wf_round_def Round_ZERO_def)

subsection \<open>What the stateless validation accepts and rejects\<close>

text \<open>The three conditions on the header at an index.\<close>

definition header_version_ok :: "encoded_pow_header \<Rightarrow> bool" where
  "header_version_ok h \<longleftrightarrow> 4 \<le> uint (EncodedPowHeader_version h)"

definition header_linked :: "(bytes \<Rightarrow> bytes) \<Rightarrow> encoded_pow_header list \<Rightarrow> nat \<Rightarrow> bool" where
  "header_linked sha256 hs i \<longleftrightarrow> i = 0 \<or>
     EncodedPowHeader_prev_block_hash (hs ! i) = EncodedPowHeader_hash sha256 (hs ! (i - 1))"

lemma version_guard: "\<not> EncodedPowHeader_version h < MIN_HEADER_VERSION \<longleftrightarrow> header_version_ok h"
  by (simp add: header_version_ok_def MIN_HEADER_VERSION_def word_less_def not_less)

lemma link_guard:
  "\<not> (i > 0 \<and> EncodedPowHeader_prev_block_hash (hs ! i) \<noteq> EncodedPowHeader_hash sha256 (hs ! (i - 1)))
     \<longleftrightarrow> header_linked sha256 hs i"
  by (auto simp: header_linked_def)

lemma map_err_Inr_unit: "map_err g m = Inr () \<longleftrightarrow> m = Inr ()"
  by simp

text \<open>C17: The stateless check accepts a chain exactly when its length is the confirmation depth,
  every header has version at least 4, every header after the first names the hash of its
  predecessor, and every Equihash solution verifies.\<close>

theorem check_headers_accepts:
  "check_headers sha256 eq params pow hs = Inr () \<longleftrightarrow>
     of_nat (length hs) = pow_confirmation_depth_sigma params
     \<and> (\<forall>i < length hs. header_version_ok (hs ! i))
     \<and> (\<forall>i < length hs. header_linked sha256 hs i)
     \<and> (\<forall>i < length hs. EncodedPowHeader_check_pow eq (hs ! i) pow = Inr ())"
  unfolding check_headers_def Let_def res_bind_eq_Inr for_enumerate_Inr guard_res_simps
    map_err_Inr_unit version_guard add_0 link_guard
  by (auto simp: for_enumerate_Inr header_linked_def)

definition accept_all :: "unit equihash_verifier" where
  "accept_all = (\<lambda>_ _ _ _ _. Inr ())"

definition sigma_one :: zcash_crosslink_parameters where
  "sigma_one = \<lparr>pow_confirmation_depth_sigma = 1, finalization_gap_bound = 2\<rparr>"

lemma check_headers_accepts_witness:
  "check_headers (\<lambda>x. x) accept_all sigma_one \<lparr>eh_n = 48, eh_k = 5\<rparr> [example_header] = Inr ()"
  unfolding check_headers_accepts
  using header_read_preserves_bytes [OF bitcoin_compact_size_ok, of "header_bytes example_header" example_header "[]" "[]"]
    wf_example_header
  by (simp add: header_version_ok_def header_linked_def EncodedPowHeader_check_pow_def accept_all_def
      sigma_one_def wf_header_def)

definition first_failure :: "(nat \<Rightarrow> bool) \<Rightarrow> nat \<Rightarrow> nat \<Rightarrow> bool" where
  "first_failure ok n i \<longleftrightarrow> i < n \<and> \<not> ok i \<and> (\<forall>j < i. ok j)"

lemma for_enumerate_guard:
  "for_enumerate (\<lambda>i x. guard_res (ok i x) (err i x)) 0 xs = Inl e \<longleftrightarrow>
     (\<exists>i. first_failure (\<lambda>i. ok i (xs ! i)) (length xs) i \<and> e = err i (xs ! i))"
  by (auto simp: for_enumerate_Inl first_failure_def)

lemma for_enumerate_map_err:
  "for_enumerate (\<lambda>i x. map_err (err i) (f x)) 0 xs = Inl e \<longleftrightarrow>
     (\<exists>i c. first_failure (\<lambda>i. f (xs ! i) = Inr ()) (length xs) i \<and> f (xs ! i) = Inl c \<and> e = err i c)"
  by (auto simp: for_enumerate_Inl first_failure_def)

text \<open>C19: The error of the stateless check is that of the first failing stage (count, versions,
  chain links, Equihash) at its first failing index, and no later stage is consulted.\<close>

theorem check_headers_rejects:
  "check_headers sha256 eq params pow hs = Inl e \<longleftrightarrow>
     (let depth_ok = (of_nat (length hs) = pow_confirmation_depth_sigma params);
          version_ok = (\<lambda>i. header_version_ok (hs ! i));
          link_ok = header_linked sha256 hs;
          work_ok = (\<lambda>i. EncodedPowHeader_check_pow eq (hs ! i) pow = Inr ());
          all = (\<lambda>ok. list_all ok [0 ..< length hs])
      in \<not> depth_ok \<and> e = IncorrectConfirmationDepth (pow_confirmation_depth_sigma params) (of_nat (length hs))
       \<or> depth_ok \<and> (\<exists>i. first_failure version_ok (length hs) i
            \<and> e = UnknownHeaderVersion i (EncodedPowHeader_version (hs ! i)))
       \<or> depth_ok \<and> all version_ok \<and> (\<exists>i. first_failure link_ok (length hs) i \<and> e = BrokenHeaderChain i)
       \<or> depth_ok \<and> all version_ok \<and> all link_ok
           \<and> (\<exists>i c. first_failure work_ok (length hs) i
                \<and> EncodedPowHeader_check_pow eq (hs ! i) pow = Inl c \<and> e = InvalidEquihashSolution i c))"
proof -
  define vs :: "'a invalid_bft_block + unit" where
    "vs = for_enumerate (\<lambda>i h. guard_res (\<not> EncodedPowHeader_version h < MIN_HEADER_VERSION)
       (UnknownHeaderVersion i (EncodedPowHeader_version h))) 0 hs"
  define ls :: "'a invalid_bft_block + unit" where
    "ls = for_enumerate (\<lambda>i h. guard_res (\<not> (i > 0 \<and> EncodedPowHeader_prev_block_hash h
        \<noteq> EncodedPowHeader_hash sha256 (hs ! (i - 1)))) (BrokenHeaderChain i)) 0 hs"
  define ws where
    "ws = for_enumerate (\<lambda>i h. map_err (InvalidEquihashSolution i) (EncodedPowHeader_check_pow eq h pow)) 0 hs"
  have v: "vs = Inr () \<longleftrightarrow> list_all (\<lambda>i. header_version_ok (hs ! i)) [0 ..< length hs]"
    "vs = Inl e \<longleftrightarrow> (\<exists>i. first_failure (\<lambda>i. header_version_ok (hs ! i)) (length hs) i
       \<and> e = UnknownHeaderVersion i (EncodedPowHeader_version (hs ! i)))"
    unfolding vs_def for_enumerate_guard for_enumerate_Inr guard_res_simps version_guard
    by (auto simp: list_all_iff)
  have l: "ls = Inr () \<longleftrightarrow> list_all (header_linked sha256 hs) [0 ..< length hs]"
    "ls = Inl e \<longleftrightarrow> (\<exists>i. first_failure (header_linked sha256 hs) (length hs) i \<and> e = BrokenHeaderChain i)"
    unfolding ls_def for_enumerate_guard for_enumerate_Inr guard_res_simps link_guard add_0
    by (auto simp: list_all_iff)
  have w: "ws = Inl e \<longleftrightarrow> (\<exists>i c. first_failure (\<lambda>i. EncodedPowHeader_check_pow eq (hs ! i) pow = Inr ()) (length hs) i
       \<and> EncodedPowHeader_check_pow eq (hs ! i) pow = Inl c \<and> e = InvalidEquihashSolution i c)"
    unfolding ws_def for_enumerate_map_err by simp
  have "check_headers sha256 eq params pow hs =
      res_bind (guard_res (of_nat (length hs) = pow_confirmation_depth_sigma params)
        (IncorrectConfirmationDepth (pow_confirmation_depth_sigma params) (of_nat (length hs))))
        (\<lambda>_. res_bind vs (\<lambda>_. res_bind ls (\<lambda>_. ws)))"
    by (simp add: check_headers_def vs_def ls_def ws_def Let_def)
  then show ?thesis
    by (auto simp: res_bind_eq_Inl v l w Let_def)
qed

text \<open>Constructing a block is checking it: \<open>new\<close> succeeds with a block of exactly the given
  fields when and only when that block passes \<open>check_stateless\<close>, and fails with the same error; a
  constructed block has a finalization candidate unless the confirmation depth is zero.\<close>

theorem block_new_checks:
  "(BftBlock_new sha256 eq params pow version height prev hs = Inr b \<longleftrightarrow>
      b = \<lparr>bb_version = version, bb_height = height, bb_previous_block_fat_ptr = prev, bb_headers = hs\<rparr>
      \<and> BftBlock_check_stateless sha256 eq b params pow = Inr ())
   \<and> (BftBlock_new sha256 eq params pow version height prev hs = Inl e \<longleftrightarrow>
      BftBlock_check_stateless sha256 eq
        \<lparr>bb_version = version, bb_height = height, bb_previous_block_fat_ptr = prev, bb_headers = hs\<rparr>
        params pow = Inl e)
   \<and> (BftBlock_check_stateless sha256 eq b params pow = Inr ()
        \<and> BftBlock_finalization_candidate b = None \<longleftrightarrow>
      bb_headers b = [] \<and> pow_confirmation_depth_sigma params = 0)"
proof -
  have none: "BftBlock_finalization_candidate b = None \<longleftrightarrow> bb_headers b = []"
    by (simp add: BftBlock_finalization_candidate_def split: list.splits)
  have empty: "check_headers sha256 eq params pow [] = Inr () \<longleftrightarrow> pow_confirmation_depth_sigma params = 0"
    by (auto simp: check_headers_def Let_def)
  show ?thesis
    unfolding none BftBlock_new_def BftBlock_check_stateless_def res_bind_eq_Inl
    using empty by auto
qed

end
