(* ===== verification/Block.thy ===== *)
theory Block
  imports TransactionSpec BftBlock
begin

text \<open>
  Blocks (\<open>zcash_primitives/src/block.rs\<close>): block hashes, headers with their codec and hash, the
  conversions to the proof-of-work headers of \<open>bft_primitives\<close>, and the block format with the rules
  checked while reading. A panic is \<open>None\<close>.
\<close>

subsection \<open>Readers that can panic\<close>

definition robind :: "'a option reader \<Rightarrow> ('a \<Rightarrow> 'b option reader) \<Rightarrow> 'b option reader" where
  "robind m f = rbind m (\<lambda>r. case r of None \<Rightarrow> rret None | Some x \<Rightarrow> f x)"

text \<open>\<open>n\<close> such reads; the first error or panic ends them.\<close>

primrec read_opt_n :: "nat \<Rightarrow> 'a option reader \<Rightarrow> 'a list option reader" where
  "read_opt_n 0 rd = rret (Some [])"
| "read_opt_n (Suc n) rd = robind rd (\<lambda>x. robind (read_opt_n n rd) (\<lambda>xs. rret (Some (x # xs))))"

lemma robind_Some [simp]:
  "robind m f bs = Inr (Some y, rest) \<longleftrightarrow> (\<exists>x r. m bs = Inr (Some x, r) \<and> f x r = Inr (Some y, rest))"
proof -
  have "robind m f bs = Inr (Some y, rest) \<longleftrightarrow> (\<exists>r bs'. m bs = Inr (r, bs')
      \<and> (case r of None \<Rightarrow> rret None | Some x \<Rightarrow> f x) bs' = Inr (Some y, rest))"
    by (simp add: robind_def)
  also have "\<dots> \<longleftrightarrow> (\<exists>x r. m bs = Inr (Some x, r) \<and> f x r = Inr (Some y, rest))" (is "?L \<longleftrightarrow> ?R")
  proof
    assume ?L
    then obtain r bs' where r: "m bs = Inr (r, bs')"
      "(case r of None \<Rightarrow> rret None | Some x \<Rightarrow> f x) bs' = Inr (Some y, rest)" by blast
    then show ?R by (cases r) auto
  next
    assume ?R
    then obtain x r where "m bs = Inr (Some x, r)" "f x r = Inr (Some y, rest)" by blast
    then show ?L by (intro exI [of _ "Some x"] exI [of _ r]) simp
  qed
  finally show ?thesis .
qed

lemma read_opt_n_iff:
  "read_opt_n n rd bs = Inr (Some xs, rest) \<longleftrightarrow> read_n n rd bs = Inr (map Some xs, rest)"
proof (induction n arbitrary: bs xs)
  case (Suc n)
  show ?case by (cases xs) (auto simp: Suc.IH)
qed auto

subsection \<open>External code\<close>

text \<open>
  The functions of \<open>sha2\<close>, \<open>zcash_encoding\<close> and \<open>transparent\<close> used here. \<open>be_script_height\<close> is
  the first push of an input's script, absent or parsed to a number; \<open>usize\<close> has 64 bits.
\<close>

datatype 'tx nonempty = NonEmpty (ne_head: 'tx) (ne_tail: "'tx list")

definition ne_list :: "'tx nonempty \<Rightarrow> 'tx list" where
  "ne_list v = ne_head v # ne_tail v"

record ('i, 'o, 'tx) block_lib =
  be_sha256 :: "bytes \<Rightarrow> bytes"
  be_solution :: "u8 vector_io"
  be_read_txs :: "usize \<Rightarrow> 'tx option reader \<Rightarrow> 'tx list option reader"
  be_write_vtx :: "('tx \<Rightarrow> io_error + bytes) \<Rightarrow> 'tx nonempty \<Rightarrow> io_error + bytes"
  be_is_coinbase :: "('i, 'o) transparent_bundle \<Rightarrow> bool"
  be_null_prevout :: "'i \<Rightarrow> bool"
  be_script_height :: "'i \<Rightarrow> (unit + i64) option"

text \<open>Their documented behaviour: arrays and vectors of elements, and a coinbase as a
  single input that spends the null outpoint.\<close>

definition block_lib_ok :: "compact_size \<Rightarrow> ('i, 'o, 'tx) block_lib \<Rightarrow> bool" where
  "block_lib_ok cs be \<longleftrightarrow> vector_ok cs (be_solution be)
     \<and> (\<forall>n rd bs. be_read_txs be n rd bs = read_opt_n (unat n) rd bs)
     \<and> (\<forall>wr v. be_write_vtx be wr v =
          map_ok (\<lambda>ws. cs_write cs (of_nat (length (ne_list v))) @ concat ws) (map_res wr (ne_list v)))
     \<and> (\<forall>b. be_is_coinbase be b \<longleftrightarrow> (\<exists>x. tb_vin b = [x] \<and> be_null_prevout be x))"

subsection \<open>Block hashes\<close>

datatype block_hash = BlockHash (blkh_bytes: bytes)

definition BlockHash_try_from_slice :: "bytes \<Rightarrow> block_hash option" where
  "BlockHash_try_from_slice bytes = (if length bytes = 32 then Some (BlockHash bytes) else None)"

text \<open>\<open>unwrap\<close>: the panic is \<open>None\<close>.\<close>

definition BlockHash_from_slice :: "bytes \<Rightarrow> block_hash option" where
  "BlockHash_from_slice bytes = BlockHash_try_from_slice bytes"

text \<open>\<open>encode\<close> stands for \<open>hex::encode\<close>.\<close>

definition BlockHash_fmt :: "(bytes \<Rightarrow> string) \<Rightarrow> block_hash \<Rightarrow> string" where
  "BlockHash_fmt encode h = encode (rev (blkh_bytes h))"

definition PowBlockHash_from_BlockHash :: "block_hash \<Rightarrow> pow_block_hash" where
  "PowBlockHash_from_BlockHash hash = PowBlockHash (blkh_bytes hash)"

definition BlockHash_from_PowBlockHash :: "pow_block_hash \<Rightarrow> block_hash" where
  "BlockHash_from_PowBlockHash hash = BlockHash (pbh_bytes hash)"

subsection \<open>Headers\<close>

record block_header_data =
  bh_version :: i32
  bh_prev_block :: block_hash
  bh_merkle_root :: bytes
  bh_final_sapling_root :: bytes
  bh_time :: u32
  bh_bits :: u32
  bh_nonce :: bytes
  bh_solution :: bytes
  bh_fat_pointer :: fat_pointer

record block_header =
  hdr_hash :: block_hash
  hdr_data :: block_header_data

definition BlockHeaderData_read_data :: "('i, 'o, 'tx) block_lib \<Rightarrow> block_header_data reader" where
  "BlockHeaderData_read_data be =
     rbind read_i32_le (\<lambda>version.
     rbind (read_exact 32) (\<lambda>prev_block.
     rbind (read_exact 32) (\<lambda>merkle_root.
     rbind (read_exact 32) (\<lambda>final_sapling_root.
     rbind read_u32_le (\<lambda>time.
     rbind read_u32_le (\<lambda>bits.
     rbind (read_exact 32) (\<lambda>nonce.
     rbind (vec_read (be_solution be) read_u8) (\<lambda>solution.
     rbind FatPointer_read (\<lambda>fat_pointer_to_bft_block.
     rret \<lparr>bh_version = version, bh_prev_block = BlockHash prev_block, bh_merkle_root = merkle_root,
       bh_final_sapling_root = final_sapling_root, bh_time = time, bh_bits = bits, bh_nonce = nonce,
       bh_solution = solution, bh_fat_pointer = fat_pointer_to_bft_block\<rparr>)))))))))"

definition BlockHeaderData_write_data ::
  "('i, 'o, 'tx) block_lib \<Rightarrow> block_header_data \<Rightarrow> io_error + bytes" where
  "BlockHeaderData_write_data be data = map_ok (\<lambda>fat_pointer.
     write_i32_le (bh_version data)
     @ blkh_bytes (bh_prev_block data)
     @ bh_merkle_root data
     @ bh_final_sapling_root data
     @ write_u32_le (bh_time data)
     @ write_u32_le (bh_bits data)
     @ bh_nonce data
     @ vec_write (be_solution be) write_u8 (bh_solution data)
     @ fat_pointer) (FatPointer_write (bh_fat_pointer data))"

text \<open>\<open>expect\<close> on the write to the hasher.\<close>

definition BlockHeader_from_data :: "('i, 'o, 'tx) block_lib \<Rightarrow> block_header_data \<Rightarrow> block_header option" where
  "BlockHeader_from_data be data = map_option
     (\<lambda>bytes. \<lparr>hdr_hash = BlockHash (be_sha256 be (be_sha256 be bytes)), hdr_data = data\<rparr>)
     (res_ok (BlockHeaderData_write_data be data))"

definition BlockHeaderData_freeze :: "('i, 'o, 'tx) block_lib \<Rightarrow> block_header_data \<Rightarrow> block_header option" where
  "BlockHeaderData_freeze be data = BlockHeader_from_data be data"

definition BlockHeader_read :: "('i, 'o, 'tx) block_lib \<Rightarrow> block_header option reader" where
  "BlockHeader_read be =
     rbind (BlockHeaderData_read_data be) (\<lambda>data. rret (BlockHeader_from_data be data))"

definition BlockHeader_write :: "('i, 'o, 'tx) block_lib \<Rightarrow> block_header \<Rightarrow> io_error + bytes" where
  "BlockHeader_write be header = BlockHeaderData_write_data be (hdr_data header)"

text \<open>The conversions \<open>expect\<close> that one format parses the other.\<close>

definition EncodedPowHeader_from_BlockHeader ::
  "compact_size \<Rightarrow> ('i, 'o, 'tx) block_lib \<Rightarrow> block_header \<Rightarrow> encoded_pow_header option" where
  "EncodedPowHeader_from_BlockHeader cs be header =
     Option.bind (res_ok (BlockHeader_write be header)) (\<lambda>bytes.
     map_option fst (res_ok (EncodedPowHeader_read cs bytes)))"

definition BlockHeader_from_EncodedPowHeader ::
  "('i, 'o, 'tx) block_lib \<Rightarrow> encoded_pow_header \<Rightarrow> block_header option" where
  "BlockHeader_from_EncodedPowHeader be header =
     Option.bind (res_ok (BlockHeader_read be (encoded_pow_header.header_bytes header))) fst"

subsection \<open>Blocks\<close>

record 'tx block =
  blk_header :: block_header
  blk_vtx :: "'tx nonempty"
  blk_claimed_height :: block_height

text \<open>The height that the coinbase claims: an error, a panic of \<open>expect\<close>, or the value.\<close>

definition coinbase_claimed_height where
  "coinbase_claimed_height be coinbase =
     (case td_transparent_bundle (tx_data coinbase) of
        None \<Rightarrow> Inl (OtherError ''first tx of block is not coinbase'')
      | Some coinbase_transparent \<Rightarrow>
          if \<not> be_is_coinbase be coinbase_transparent
          then Inl (OtherError ''first tx of block is not coinbase'')
          else if td_sprout_bundle (tx_data coinbase) \<noteq> None
          then Inl (OtherError ''coinbase tx has sprout data'')
          else (case tb_vin coinbase_transparent of
             [] \<Rightarrow> Inr None
           | coinbase_txin # _ \<Rightarrow> (case be_script_height be coinbase_txin of
                Some (Inr h) \<Rightarrow> map_ok Some (ok_or (BlockHeight_try_from_i64 h)
                  (OtherError ''coinbase input specifies an invalid block height''))
              | Some (Inl _) \<Rightarrow> Inl (OtherError ''coinbase input specifies an invalid block height'')
              | None \<Rightarrow> Inl (OtherError ''coinbase scriptSig missing height''))))"

text \<open>\<open>freeze().expect("valid")\<close> for the versions that do not commit to their branch.\<close>

definition correct_coinbase_branch where
  "correct_coinbase_branch te coinbase consensus_branch_id =
     (let refreeze = Inr (Option.bind (Transaction_from_data te
              (fix_consensus_branch_id (tx_data coinbase) consensus_branch_id)) res_ok) in
      case td_version (tx_data coinbase) of
        Sprout _ \<Rightarrow> refreeze
      | V3 \<Rightarrow> refreeze
      | V4 \<Rightarrow> refreeze
      | _ \<Rightarrow> if td_consensus_branch_id (tx_data coinbase) \<noteq> consensus_branch_id
             then Inl (OtherError ''coinbase tx's claimed height doesn't match its consensus branch ID for given network parameters'')
             else Inr (Some coinbase))"

definition has_null_input where
  "has_null_input be tx \<longleftrightarrow> (case td_transparent_bundle (tx_data tx) of
     None \<Rightarrow> False | Some b \<Rightarrow> list_ex (be_null_prevout be) (tb_vin b))"

definition Block_read ::
  "('i, 'o, 'cv, 'fe, 'cmu, 'rk, 'ocv, 'nf, 'ork, 'cmx, 'an, 'fl) tx_ext
     \<Rightarrow> ('i, 'o, ('i, 'o, 'cv, 'fe, 'cmu, 'rk, 'ocv, 'nf, 'ork, 'cmx, 'an, 'fl) authorized_tx) block_lib
     \<Rightarrow> parameters
     \<Rightarrow> ('i, 'o, 'cv, 'fe, 'cmu, 'rk, 'ocv, 'nf, 'ork, 'cmx, 'an, 'fl) authorized_tx block option reader" where
  "Block_read te be params =
     robind (BlockHeader_read be) (\<lambda>header.
     rbind (cs_read (te_cs te)) (\<lambda>n_tx.
     rbind (rguard (n_tx \<noteq> 0) (OtherError ''block has no coinbase tx'')) (\<lambda>_.
     robind (Transaction_read te BranchSprout) (\<lambda>coinbase.
     robind (rlift (coinbase_claimed_height be coinbase)) (\<lambda>claimed_height.
       let consensus_branch_id = for_height params claimed_height in
     robind (rlift (correct_coinbase_branch te coinbase consensus_branch_id)) (\<lambda>coinbase.
     robind (be_read_txs be (n_tx - 1) (Transaction_read te consensus_branch_id)) (\<lambda>non_coinbase.
     rbind (rguard (\<not> list_ex (has_null_input be) non_coinbase)
              (OtherError ''non-coinbase tx has null transparent input'')) (\<lambda>_.
     rret (Some \<lparr>blk_header = header, blk_vtx = NonEmpty coinbase non_coinbase,
       blk_claimed_height = claimed_height\<rparr>)))))))))"

definition Block_write where
  "Block_write te be block =
     res_bind (BlockHeader_write be (blk_header block)) (\<lambda>header.
     map_ok (\<lambda>vtx. header @ vtx)
       (be_write_vtx be (\<lambda>tx. Transaction_write te (tx_data tx)) (blk_vtx block)))"

definition Block_from_parts where
  "Block_from_parts header vtx claimed_height =
     \<lparr>blk_header = header, blk_vtx = vtx, blk_claimed_height = claimed_height\<rparr>"

definition Block_into_parts where
  "Block_into_parts block = (blk_header block, blk_vtx block)"

subsection \<open>The header codec\<close>

definition wf_block_header_data :: "block_header_data \<Rightarrow> bool" where
  "wf_block_header_data d \<longleftrightarrow> length (blkh_bytes (bh_prev_block d)) = 32 \<and> length (bh_merkle_root d) = 32
     \<and> length (bh_final_sapling_root d) = 32 \<and> length (bh_nonce d) = 32
     \<and> length (bh_solution d) \<le> 33554432 \<and> wf_fat_pointer (bh_fat_pointer d)"

lemma header_data_iff:
  assumes "compact_size_ok cs" "vector_ok cs (be_solution be)"
  shows "BlockHeaderData_read_data be bs = Inr (d, rest) \<longleftrightarrow>
    wf_block_header_data d \<and> bs = written (BlockHeaderData_write_data be d) @ rest"
proof -
  have ua: "list_all (\<lambda>_. True) (xs :: u8 list)" for xs by (simp add: list_all_iff)
  have w: "written (BlockHeaderData_write_data be d) =
      write_i32_le (bh_version d) @ blkh_bytes (bh_prev_block d) @ bh_merkle_root d
      @ bh_final_sapling_root d @ write_u32_le (bh_time d) @ write_u32_le (bh_bits d) @ bh_nonce d
      @ vec_write (be_solution be) write_u8 (bh_solution d) @ written (FatPointer_write (bh_fat_pointer d))"
    if wf: "wf_fat_pointer (bh_fat_pointer d)" for d
  proof -
    obtain p where "FatPointer_write (bh_fat_pointer d) = Inr p" using fp_codec.accepts [OF wf] by blast
    then show ?thesis by (simp add: BlockHeaderData_write_data_def)
  qed
  show ?thesis
    by (cases d; cases "bh_prev_block d")
      (auto simp: BlockHeaderData_read_data_def wf_block_header_data_def codec_iff w ua read_exact_iff
        vector_read_iff [OF assms u8_codec.exact_codec_axioms])
qed

lemma header_write_ok:
  "wf_block_header_data d \<Longrightarrow> BlockHeaderData_write_data be d = Inr (written (BlockHeaderData_write_data be d))"
  using fp_codec.accepts [of "bh_fat_pointer d"]
  by (auto simp: BlockHeaderData_write_data_def wf_block_header_data_def)

lemma from_data_wf:
  "wf_block_header_data d \<Longrightarrow> BlockHeader_from_data be d =
     Some \<lparr>hdr_hash = BlockHash (be_sha256 be (be_sha256 be (written (BlockHeaderData_write_data be d)))), hdr_data = d\<rparr>"
  by (subst BlockHeader_from_data_def, subst header_write_ok) simp_all

lemma from_data_None:
  "BlockHeader_from_data be d = None \<longleftrightarrow> 65535 < length (fp_signatures (bh_fat_pointer d))"
  by (auto simp: BlockHeader_from_data_def BlockHeaderData_write_data_def FatPointer_write_def try_u16_of_len_def)

lemma header_read_frozen:
  assumes "compact_size_ok cs" "vector_ok cs (be_solution be)"
  shows "BlockHeader_read be bs = Inr (oh, rest) \<longleftrightarrow>
    (\<exists>h. oh = Some h \<and> BlockHeader_from_data be (hdr_data h) = Some h \<and> wf_block_header_data (hdr_data h)
       \<and> bs = written (BlockHeader_write be h) @ rest)"
  unfolding BlockHeader_read_def BlockHeader_write_def
  by (auto simp: header_data_iff [OF assms] from_data_wf)

text \<open>The part of a header before its solution.\<close>

definition header_prefix :: "block_header_data \<Rightarrow> bytes" where
  "header_prefix d = write_i32_le (bh_version d) @ blkh_bytes (bh_prev_block d) @ bh_merkle_root d
     @ bh_final_sapling_root d @ write_u32_le (bh_time d) @ write_u32_le (bh_bits d) @ bh_nonce d"

lemma concat_write_u8: "concat (map write_u8 xs) = xs"
  by (induction xs) (simp_all add: write_u8_def)

lemma header_prefix_facts:
  assumes "wf_block_header_data d"
  shows "length (header_prefix d) = 140"
    and "le_word (take 4 (header_prefix d)) = bh_version d"
    and "take 32 (drop 4 (header_prefix d)) = blkh_bytes (bh_prev_block d)"
  using assms
  by (simp_all add: header_prefix_def wf_block_header_data_def write_i32_le_def le_word_le_bytes)

lemma header_bytes_split:
  assumes "vector_ok cs (be_solution be)" "wf_block_header_data d"
  shows "written (BlockHeaderData_write_data be d) =
    header_prefix d @ cs_write cs (of_nat (length (bh_solution d))) @ bh_solution d
    @ written (FatPointer_write (bh_fat_pointer d))"
proof -
  have "FatPointer_write (bh_fat_pointer d) = Inr (written (FatPointer_write (bh_fat_pointer d)))"
    using assms(2) fp_codec.write_ok by (simp add: wf_block_header_data_def)
  then obtain p where "FatPointer_write (bh_fat_pointer d) = Inr p" by metis
  then show ?thesis
    using assms(1) by (simp add: BlockHeaderData_write_data_def header_prefix_def vector_ok_def concat_write_u8)
qed

text \<open>The headers that the proof-of-work layout can hold.\<close>

definition pow_framed :: "block_header_data \<Rightarrow> bool" where
  "pow_framed d \<longleftrightarrow> \<not> bh_version d < MIN_HEADER_VERSION
     \<and> (length (bh_solution d) = 1344 \<or> length (bh_solution d) = 36)"

definition pow_header_of :: "compact_size \<Rightarrow> block_header_data \<Rightarrow> encoded_pow_header" where
  "pow_header_of cs d = \<lparr>encoded_pow_header.header_bytes = header_prefix d
       @ cs_write cs (of_nat (length (bh_solution d))) @ bh_solution d @ written (FatPointer_write (bh_fat_pointer d)),
     solution_start = 140 + length (cs_write cs (of_nat (length (bh_solution d)))),
     solution_len = length (bh_solution d)\<rparr>"

lemma pow_layout:
  assumes "wf_block_header_data d" "pow_framed d"
  shows "header_layout cs (header_prefix d) (bh_solution d) (bh_fat_pointer d) (pow_header_of cs d)"
  using assms header_prefix_facts [OF assms(1)]
  by (simp add: header_layout_def pow_header_of_def pow_framed_def wf_block_header_data_def)

lemma encoded_read_split:
  assumes "compact_size_ok cs" "vector_ok cs (be_solution be)" "wf_block_header_data d"
    and r: "EncodedPowHeader_read cs (written (BlockHeaderData_write_data be d)) = Inr (e, rest)"
  shows "pow_framed d \<and> e = pow_header_of cs d"
proof -
  obtain prefix sol fp where l: "header_layout cs prefix sol fp e"
    and b: "written (BlockHeaderData_write_data be d) = encoded_pow_header.header_bytes e @ rest"
    using r header_read_iff [OF assms(1)] by blast
  have split: "header_prefix d @ cs_write cs (of_nat (length (bh_solution d))) @ bh_solution d
        @ written (FatPointer_write (bh_fat_pointer d))
      = prefix @ cs_write cs (of_nat (length sol)) @ sol @ written (FatPointer_write fp) @ rest"
    using b l header_bytes_split [OF assms(2,3)] by (simp add: header_layout_def)
  then have p: "prefix = header_prefix d"
    using l header_prefix_facts(1) [OF assms(3)] by (simp add: header_layout_def append_eq_append_conv)
  have le: "of_nat (length sol) \<le> MAX_COMPACT_SIZE" "of_nat (length (bh_solution d)) \<le> MAX_COMPACT_SIZE"
    using l assms(3) vector_count [of "of_nat (length sol)" sol]
      vector_count [of "of_nat (length (bh_solution d))" "bh_solution d"]
    by (auto simp: header_layout_def wf_block_header_data_def)
  have n: "of_nat (length (bh_solution d)) = (of_nat (length sol) :: u64)"
    and s: "bh_solution d @ written (FatPointer_write (bh_fat_pointer d))
      = sol @ written (FatPointer_write fp) @ rest"
    using codec.prefix_free [OF exact_codec.axioms(1) [OF assms(1) [unfolded compact_size_ok_def]] le(2,1)] split p
    by auto
  have len: "length (bh_solution d) = length sol"
  proof -
    have u: "unat (of_nat n :: u64) = n" if "n \<le> 33554432" for n
      using that by (simp add: unsigned_of_nat take_bit_nat_eq_self)
    have "length sol \<le> 33554432" "length (bh_solution d) \<le> 33554432"
      using l assms(3) by (auto simp: header_layout_def wf_block_header_data_def)
    then show ?thesis using n u by metis
  qed
  have fpd: "wf_fat_pointer (bh_fat_pointer d)" "wf_fat_pointer fp"
    using l assms(3) by (auto simp: header_layout_def wf_block_header_data_def)
  have sol: "sol = bh_solution d" and f: "written (FatPointer_write (bh_fat_pointer d)) = written (FatPointer_write fp) @ rest"
    using s len by auto
  have "FatPointer_read (written (FatPointer_write (bh_fat_pointer d))) = Inr (fp, rest)"
    unfolding f by (simp add: fp_codec.read_iff fpd)
  then have "fp = bh_fat_pointer d" using fp_codec.read_written [OF fpd(1)] by simp
  then show ?thesis
    using l p sol header_prefix_facts(2) [OF assms(3)]
    by (auto simp: header_layout_def pow_framed_def pow_header_of_def)
qed

text \<open>C21: The header codec is exact and hashes what it reads: a successful read never panics, consumes
  exactly the bytes that writing the header gives, and the hash is the double SHA-256 of these. Freezing
  panics exactly on a fat pointer with more than 65535 signatures. Two well-formed headers with the
  same hash are the same, or exhibit a collision of SHA-256.\<close>

theorem block_header_codec:
  assumes "compact_size_ok cs" "vector_ok cs (be_solution be)"
  shows "(BlockHeader_read be bs = Inr (oh, rest) \<longleftrightarrow>
      (\<exists>h w. oh = Some h \<and> wf_block_header_data (hdr_data h) \<and> BlockHeader_write be h = Inr w
         \<and> hdr_hash h = BlockHash (be_sha256 be (be_sha256 be w)) \<and> bs = w @ rest))
    \<and> (BlockHeaderData_freeze be d = None \<longleftrightarrow> 65535 < length (fp_signatures (bh_fat_pointer d)))
    \<and> (wf_block_header_data d \<and> wf_block_header_data d'
         \<and> map_option hdr_hash (BlockHeaderData_freeze be d) = map_option hdr_hash (BlockHeaderData_freeze be d')
       \<longrightarrow> d = d' \<or> (\<exists>x y. x \<noteq> y \<and> be_sha256 be x = be_sha256 be y))"
proof (intro conjI impI)
  have frozen: "BlockHeader_from_data be (hdr_data h) = Some h \<longleftrightarrow>
      (\<exists>w. BlockHeader_write be h = Inr w \<and> hdr_hash h = BlockHash (be_sha256 be (be_sha256 be w)))" for h
    by (cases h) (auto simp: BlockHeader_from_data_def BlockHeader_write_def)
  show "BlockHeader_read be bs = Inr (oh, rest) \<longleftrightarrow>
      (\<exists>h w. oh = Some h \<and> wf_block_header_data (hdr_data h) \<and> BlockHeader_write be h = Inr w
         \<and> hdr_hash h = BlockHash (be_sha256 be (be_sha256 be w)) \<and> bs = w @ rest)"
    unfolding header_read_frozen [OF assms] frozen by auto
  show "BlockHeaderData_freeze be d = None \<longleftrightarrow> 65535 < length (fp_signatures (bh_fat_pointer d))"
    by (simp add: BlockHeaderData_freeze_def from_data_None)
next
  let ?w = "\<lambda>d. written (BlockHeaderData_write_data be d)"
  assume a: "wf_block_header_data d \<and> wf_block_header_data d'
      \<and> map_option hdr_hash (BlockHeaderData_freeze be d) = map_option hdr_hash (BlockHeaderData_freeze be d')"
  then have h: "be_sha256 be (be_sha256 be (?w d)) = be_sha256 be (be_sha256 be (?w d'))"
    by (auto simp: BlockHeaderData_freeze_def from_data_wf)
  show "d = d' \<or> (\<exists>x y. x \<noteq> y \<and> be_sha256 be x = be_sha256 be y)"
  proof (cases "?w d = ?w d'")
    case True
    have "BlockHeaderData_read_data be (?w d @ []) = Inr (d, [])"
      "BlockHeaderData_read_data be (?w d' @ []) = Inr (d', [])"
      using a by (simp_all only: header_data_iff [OF assms])
    with True show ?thesis by simp
  qed (use h in blast)
qed

definition byte_block :: "(bytes \<Rightarrow> bytes) \<Rightarrow> (bytes, bytes, 'tx) block_lib" where
  "byte_block sha256 = \<lparr>be_sha256 = sha256, be_solution = std_vector bitcoin_compact_size,
     be_read_txs = (\<lambda>n. read_opt_n (unat n)),
     be_write_vtx = (\<lambda>wr v. map_ok (\<lambda>ws. cs_write bitcoin_compact_size (of_nat (length (ne_list v))) @ concat ws)
       (map_res wr (ne_list v))),
     be_is_coinbase = (\<lambda>b. case tb_vin b of [x] \<Rightarrow> take 36 x = replicate 32 0 @ replicate 4 255 | _ \<Rightarrow> False),
     be_null_prevout = (\<lambda>x. take 36 x = replicate 32 0 @ replicate 4 255),
     be_script_height = (\<lambda>x. Some (Inr (le_word (drop 37 x))))\<rparr>"

lemma byte_block_ok: "block_lib_ok bitcoin_compact_size (byte_block sha256)"
proof -
  have "(case vin of [x] \<Rightarrow> P x | _ \<Rightarrow> False) \<longleftrightarrow> (\<exists>x. vin = [x] \<and> P x)" for vin :: "bytes list" and P
    by (auto split: list.splits)
  then show ?thesis by (simp add: block_lib_ok_def byte_block_def std_vector_ok)
qed

abbreviation unit_block :: "(bytes, bytes, unit) block_lib" where
  "unit_block \<equiv> byte_block (\<lambda>x. x)"

definition example_header_data :: block_header_data where
  "example_header_data = \<lparr>bh_version = 4, bh_prev_block = BlockHash (replicate 32 1),
     bh_merkle_root = replicate 32 2, bh_final_sapling_root = replicate 32 3, bh_time = 4, bh_bits = 5,
     bh_nonce = replicate 32 6, bh_solution = replicate 36 7, bh_fat_pointer = FatPointer_null\<rparr>"

lemma wf_example_header_data: "wf_block_header_data example_header_data"
  by (simp add: wf_block_header_data_def example_header_data_def wf_fat_pointer_def FatPointer_null_def
      wf_simps wf_round_def Round_ZERO_def)

lemma block_header_codec_witness:
  "\<exists>h w. BlockHeaderData_freeze unit_block example_header_data = Some h
     \<and> BlockHeader_read unit_block (w @ [9]) = Inr (Some h, [9])"
proof -
  let ?be = unit_block and ?d = example_header_data
  have v: "vector_ok bitcoin_compact_size (be_solution ?be)"
    using byte_block_ok unfolding block_lib_ok_def by blast
  let ?h = "\<lparr>hdr_hash = BlockHash (written (BlockHeaderData_write_data ?be ?d)), hdr_data = ?d\<rparr>"
  have "BlockHeader_read ?be (written (BlockHeaderData_write_data ?be ?d) @ [9]) = Inr (Some ?h, [9])"
    unfolding conjunct1 [OF block_header_codec [OF bitcoin_compact_size_ok v]]
    using header_write_ok [OF wf_example_header_data, of ?be] wf_example_header_data
    by (auto simp: BlockHeader_write_def byte_block_def)
  moreover have "BlockHeaderData_freeze ?be ?d = Some ?h"
    by (simp add: BlockHeaderData_freeze_def from_data_wf [OF wf_example_header_data] byte_block_def)
  ultimately show ?thesis by blast
qed

lemma encoded_from_header:
  assumes "compact_size_ok cs" "vector_ok cs (be_solution be)" "wf_block_header_data d" "hdr_data h = d"
  shows "EncodedPowHeader_from_BlockHeader cs be h = (if pow_framed d then Some (pow_header_of cs d) else None)"
proof -
  let ?w = "written (BlockHeaderData_write_data be d)"
  note wf = assms(3)
  have w: "BlockHeader_write be h = Inr ?w"
    using header_write_ok [OF wf] by (simp add: BlockHeader_write_def assms(4))
  show ?thesis
  proof (cases "pow_framed d")
    case True
    have "EncodedPowHeader_read cs ?w = Inr (pow_header_of cs d, [])"
      using header_layout_read [OF assms(1) pow_layout [OF wf True], of "[]"]
      by (simp add: header_bytes_split [OF assms(2) wf] pow_header_of_def)
    then show ?thesis using True by (simp add: EncodedPowHeader_from_BlockHeader_def w)
  next
    case False
    then have "EncodedPowHeader_read cs ?w = Inr p \<Longrightarrow> False" for p
      using encoded_read_split [OF assms(1,2) wf] by (cases p) blast
    then have "res_ok (EncodedPowHeader_read cs ?w) = None"
      by (cases "EncodedPowHeader_read cs ?w") auto
    then show ?thesis using False by (simp add: EncodedPowHeader_from_BlockHeader_def w)
  qed
qed

lemma header_from_pow:
  assumes "compact_size_ok cs" "vector_ok cs (be_solution be)" "wf_block_header_data d"
  shows "BlockHeader_from_EncodedPowHeader be (pow_header_of cs d) = BlockHeader_from_data be d"
proof -
  let ?w = "written (BlockHeaderData_write_data be d)"
  have "encoded_pow_header.header_bytes (pow_header_of cs d) = ?w @ []"
    by (simp add: pow_header_of_def header_bytes_split [OF assms(2,3)])
  moreover have "BlockHeader_read be (?w @ []) = Inr (BlockHeader_from_data be d, [])"
    unfolding BlockHeader_read_def rbind_iff rret_iff header_data_iff [OF assms(1,2)] using assms(3) by blast
  ultimately show ?thesis by (simp add: BlockHeader_from_EncodedPowHeader_def)
qed

lemma header_prefix_words:
  assumes "length prefix = 140"
    "bh_version d = le_word (take 4 prefix)" "bh_prev_block d = BlockHash (take 32 (drop 4 prefix))"
    "bh_merkle_root d = take 32 (drop 36 prefix)" "bh_final_sapling_root d = take 32 (drop 68 prefix)"
    "bh_time d = le_word (take 4 (drop 100 prefix))" "bh_bits d = le_word (take 4 (drop 104 prefix))"
    "bh_nonce d = drop 108 prefix"
  shows "header_prefix d = prefix"
proof -
  have w: "write_u32_le (le_word (take 4 xs)) = take 4 xs" "write_i32_le (le_word (take 4 xs)) = take 4 xs"
    if "4 \<le> length xs" for xs
    using that by (simp_all add: write_u32_le_def write_i32_le_def le_bytes_le_word)
  have td: "take n (drop m prefix) @ drop (n + m) prefix = drop m prefix" for n m
    by (metis append_take_drop_id drop_drop)
  show ?thesis
    using w td [of 4 104] td [of 4 100] td [of 32 68] td [of 32 36] td [of 32 4] append_take_drop_id [of 4 prefix]
    by (simp add: header_prefix_def assms)
qed

lemma pow_header_data:
  assumes "compact_size_ok cs" "wf_header cs e"
  shows "\<exists>d. wf_block_header_data d \<and> pow_framed d \<and> e = pow_header_of cs d"
proof -
  obtain prefix sol fp where l: "header_layout cs prefix sol fp e"
    using assms wf_header_iff by blast
  define d where "d = \<lparr>bh_version = le_word (take 4 prefix), bh_prev_block = BlockHash (take 32 (drop 4 prefix)),
    bh_merkle_root = take 32 (drop 36 prefix), bh_final_sapling_root = take 32 (drop 68 prefix),
    bh_time = le_word (take 4 (drop 100 prefix)), bh_bits = le_word (take 4 (drop 104 prefix)),
    bh_nonce = drop 108 prefix, bh_solution = sol, bh_fat_pointer = fp\<rparr>"
  have "header_prefix d = prefix"
    by (rule header_prefix_words) (use l in \<open>simp_all add: d_def header_layout_def\<close>)
  then have "wf_block_header_data d" "pow_framed d" "e = pow_header_of cs d"
    using l by (auto simp: wf_block_header_data_def pow_framed_def pow_header_of_def header_layout_def d_def)
  then show ?thesis by blast
qed

text \<open>C20: Converting a frozen header to a proof-of-work header keeps its bytes, its hash, the previous block
  and the solution, and the way back gives the same header. The conversion panics exactly on
  a version below 4 (compared without sign) or a solution of another length than 1344 or 36. The
  other way every proof-of-work header converts and comes back as itself.\<close>

theorem header_conversion:
  assumes "compact_size_ok cs" "vector_ok cs (be_solution be)"
  shows "(wf_block_header_data d \<and> BlockHeader_from_data be d = Some h \<longrightarrow>
      (if pow_framed d
       then \<exists>e. EncodedPowHeader_from_BlockHeader cs be h = Some e
         \<and> BlockHeader_from_EncodedPowHeader be e = Some h
         \<and> BlockHeader_write be h = Inr (EncodedPowHeader_write e)
         \<and> EncodedPowHeader_hash (be_sha256 be) e = PowBlockHash_from_BlockHash (hdr_hash h)
         \<and> BlockHash_from_PowBlockHash (EncodedPowHeader_prev_block_hash e) = bh_prev_block d
         \<and> EncodedPowHeader_solution e = bh_solution d
       else EncodedPowHeader_from_BlockHeader cs be h = None))
    \<and> (wf_header cs e \<longrightarrow> (\<exists>h. BlockHeader_from_EncodedPowHeader be e = Some h
         \<and> EncodedPowHeader_from_BlockHeader cs be h = Some e))"
proof -
  let ?P = "\<lambda>d h. if pow_framed d
       then \<exists>e. EncodedPowHeader_from_BlockHeader cs be h = Some e
         \<and> BlockHeader_from_EncodedPowHeader be e = Some h
         \<and> BlockHeader_write be h = Inr (EncodedPowHeader_write e)
         \<and> EncodedPowHeader_hash (be_sha256 be) e = PowBlockHash_from_BlockHash (hdr_hash h)
         \<and> BlockHash_from_PowBlockHash (EncodedPowHeader_prev_block_hash e) = bh_prev_block d
         \<and> EncodedPowHeader_solution e = bh_solution d
       else EncodedPowHeader_from_BlockHeader cs be h = None"
  have first: "?P d h" if wf: "wf_block_header_data d" and h: "BlockHeader_from_data be d = Some h" for d h
  proof -
    let ?w = "written (BlockHeaderData_write_data be d)"
    have hd: "hdr_data h = d" using h by (auto simp: BlockHeader_from_data_def)
    have pb: "encoded_pow_header.header_bytes (pow_header_of cs d) = ?w"
      by (simp add: pow_header_of_def header_bytes_split [OF assms(2) wf])
    have "BlockHeader_write be h = Inr ?w"
      using header_write_ok [OF wf] by (simp add: BlockHeader_write_def hd)
    moreover have "hdr_hash h = BlockHash (be_sha256 be (be_sha256 be ?w))"
      using h by (simp add: from_data_wf [OF wf]) auto
    moreover have "EncodedPowHeader_prev_block_hash (pow_header_of cs d) = PowBlockHash (blkh_bytes (bh_prev_block d))"
      using header_prefix_facts [OF wf] by (simp add: EncodedPowHeader_prev_block_hash_def pow_header_of_def)
    moreover have "EncodedPowHeader_solution (pow_header_of cs d) = bh_solution d"
      using header_prefix_facts(1) [OF wf] by (simp add: EncodedPowHeader_solution_def pow_header_of_def)
    ultimately show ?thesis
      using encoded_from_header [OF assms wf hd] header_from_pow [OF assms wf] h pb
      by (simp add: EncodedPowHeader_write_def EncodedPowHeader_hash_def PowBlockHash_from_BlockHash_def
          BlockHash_from_PowBlockHash_def)
  qed
  have second: "\<exists>h. BlockHeader_from_EncodedPowHeader be e = Some h
      \<and> EncodedPowHeader_from_BlockHeader cs be h = Some e" if e: "wf_header cs e" for e
  proof -
    obtain d where wf: "wf_block_header_data d" and p: "pow_framed d" and "e = pow_header_of cs d"
      using pow_header_data [OF assms(1) e] by blast
    then show ?thesis
      using encoded_from_header [OF assms wf, of "the (BlockHeader_from_data be d)"] header_from_pow [OF assms wf]
      by (simp add: from_data_wf [OF wf])
  qed
  show ?thesis using first second by blast
qed

lemma header_conversion_witness:
  "\<exists>h e. BlockHeader_from_data unit_block example_header_data = Some h
     \<and> EncodedPowHeader_from_BlockHeader bitcoin_compact_size unit_block h = Some e
     \<and> EncodedPowHeader_solution e = replicate 36 7"
proof -
  let ?be = unit_block and ?d = example_header_data
  have v: "vector_ok bitcoin_compact_size (be_solution ?be)"
    using byte_block_ok unfolding block_lib_ok_def by blast
  obtain h where h: "BlockHeader_from_data ?be ?d = Some h" using from_data_wf [OF wf_example_header_data] by blast
  have "pow_framed ?d" "bh_solution ?d = replicate 36 7"
    by (simp_all add: pow_framed_def example_header_data_def MIN_HEADER_VERSION_def)
  with h wf_example_header_data
    conjunct1 [OF header_conversion [OF bitcoin_compact_size_ok v, where d = ?d and h = h and e = undefined]]
  show ?thesis by auto
qed

end
