(* ===== verification/BlockSpec.thy ===== *)
theory BlockSpec
  imports Block
begin

text \<open>
  What reading a block guarantees: the layout of its bytes, the rules on the coinbase and the other
  transactions, that it does not panic, and that blocks survive a round trip.
\<close>

subsection \<open>Transactions and the bytes they are read from\<close>

definition tx_reads where
  "tx_reads te b w t \<longleftrightarrow> (\<forall>rest. Transaction_read te b (w @ rest) = Inr (Some t, rest))"

lemma read_consumes:
  assumes "tx_ext_ok te"
  shows "Transaction_read te b bs = Inr (Some t, rest) \<longleftrightarrow> (\<exists>w. bs = w @ rest \<and> tx_reads te b w t)"
proof
  assume r: "Transaction_read te b bs = Inr (Some t, rest)"
  show "\<exists>w. bs = w @ rest \<and> tx_reads te b w t"
  proof (cases "is_v4_format (td_version (tx_data t))")
    case True
    then show ?thesis
      using read_v4_dispatch [OF assms, of b bs t rest] r read_v4_dispatch [OF assms, of b _ t]
      unfolding tx_reads_def by (metis append.assoc)
  next
    case False
    then show ?thesis
      using read_later_dispatch [OF assms, of b bs t rest] r read_later_dispatch [OF assms, of b _ t]
      unfolding tx_reads_def by (metis append.assoc)
  qed
qed (auto simp: tx_reads_def)

lemma tx_reads_branch:
  "tx_ext_ok te \<Longrightarrow> tx_reads te b w t \<Longrightarrow> is_v4_format (td_version (tx_data t)) \<Longrightarrow> td_consensus_branch_id (tx_data t) = b"
  unfolding tx_reads_def using read_v4_dispatch by blast

lemma tx_reads_other_branch:
  "tx_ext_ok te \<Longrightarrow> tx_reads te b w t
     \<Longrightarrow> tx_reads te b' w (t\<lparr>tx_data := fix_consensus_branch_id (tx_data t) b'\<rparr>)"
  unfolding tx_reads_def using read_other_branch by blast

lemma read_txs_iff:
  assumes "tx_ext_ok te"
  shows "read_n n (Transaction_read te b) bs = Inr (map Some ts, rest) \<longleftrightarrow>
    length ts = n \<and> (\<exists>ws. list_all2 (tx_reads te b) ws ts \<and> bs = concat ws @ rest)"
proof (induction n arbitrary: bs ts)
  case (Suc n)
  show ?case
  proof (cases ts)
    case (Cons t ts')
    show ?thesis
    proof
      assume "read_n (Suc n) (Transaction_read te b) bs = Inr (map Some ts, rest)"
      then obtain w ws where "length ts' = n" "tx_reads te b w t" "list_all2 (tx_reads te b) ws ts'"
          "bs = w @ concat ws @ rest"
        by (auto simp: Suc.IH read_consumes [OF assms] Cons)
      then show "length ts = Suc n \<and> (\<exists>ws. list_all2 (tx_reads te b) ws ts \<and> bs = concat ws @ rest)"
        by (simp add: Cons) (intro exI [of _ "w # ws"], simp)
    next
      assume "length ts = Suc n \<and> (\<exists>ws. list_all2 (tx_reads te b) ws ts \<and> bs = concat ws @ rest)"
      then obtain w ws where "length ts' = n" "tx_reads te b w t" "list_all2 (tx_reads te b) ws ts'"
          "bs = w @ concat ws @ rest"
        by (auto simp: Cons list_all2_Cons2)
      moreover from this have "Transaction_read te b bs = Inr (Some t, concat ws @ rest)"
        unfolding tx_reads_def by simp
      ultimately show "read_n (Suc n) (Transaction_read te b) bs = Inr (map Some ts, rest)"
        by (auto simp: Suc.IH Cons)
    qed
  qed auto
qed auto

lemma list_all2_right_ex: "list_all2 P xs ys \<Longrightarrow> y \<in> set ys \<Longrightarrow> \<exists>x. P x y"
  by (auto simp: list_all2_conv_all_nth in_set_conv_nth)

text \<open>Correcting the branch of a coinbase of a version up to 4 freezes it anew, without a panic.\<close>

lemma correct_v4:
  assumes ok: "tx_ext_ok te" and r: "tx_reads te b0 w t" and v4: "is_v4_format (td_version (tx_data t))"
  shows "\<exists>w'. Transaction_write te (fix_consensus_branch_id (tx_data t) b) = Inr w'
    \<and> correct_coinbase_branch te t b = Inr (Some \<lparr>tx_txid = TxId (dx_sha256d (te_digest te) w'),
         tx_data = fix_consensus_branch_id (tx_data t) b\<rparr>)"
proof -
  have "Transaction_read te b0 (w @ []) = Inr (Some t, [])" using r unfolding tx_reads_def by blast
  then obtain vb where "wf_v4 te vb (tx_data t)"
    using read_v4_dispatch [OF ok, of b0 "w @ []" t "[]"] v4 by blast
  then obtain w' where w: "Transaction_write te (fix_consensus_branch_id (tx_data t) b) = Inr w'"
    using v4 write_v4_eq [of te vb "fix_consensus_branch_id (tx_data t) b"] by (simp add: fix_branch)
  then have "correct_coinbase_branch te t b = Inr (Some \<lparr>tx_txid = TxId (dx_sha256d (te_digest te) w'),
         tx_data = fix_consensus_branch_id (tx_data t) b\<rparr>)"
    using v4 by (cases "td_version (tx_data t)")
      (simp_all add: correct_coinbase_branch_def is_v4_format_def Transaction_from_data_def from_data_v4_def
        fix_consensus_branch_id_def)
  with w show ?thesis by blast
qed

lemma correct_later:
  "\<not> is_v4_format (td_version (tx_data t)) \<Longrightarrow> correct_coinbase_branch te t b =
     (if td_consensus_branch_id (tx_data t) \<noteq> b
      then Inl (OtherError ''coinbase tx's claimed height doesn't match its consensus branch ID for given network parameters'')
      else Inr (Some t))"
  by (cases "td_version (tx_data t)") (simp_all add: correct_coinbase_branch_def is_v4_format_def)

lemma corrected_coinbase:
  assumes "tx_ext_ok te" "tx_reads te b0 w0 cb" "correct_coinbase_branch te cb b = Inr (Some c)"
  shows "tx_data c = fix_consensus_branch_id (tx_data cb) b \<and> td_consensus_branch_id (tx_data c) = b
    \<and> (is_v4_format (td_version (tx_data c)) \<longrightarrow>
        (\<exists>w. Transaction_write te (tx_data c) = Inr w \<and> tx_txid c = TxId (dx_sha256d (te_digest te) w)))"
proof (cases "is_v4_format (td_version (tx_data cb))")
  case True
  with assms(3) correct_v4 [OF assms(1,2) True, of b] show ?thesis by (auto simp: fix_branch)
next
  case False
  with assms(3) correct_later [OF False, of te b] show ?thesis by (auto simp: fix_branch split: if_splits)
qed

subsection \<open>The block format\<close>

definition block_layout where
  "block_layout te be params blk header w0 cb ws \<longleftrightarrow>
     (let b = for_height params (blk_claimed_height blk) in
      wf_block_header_data (hdr_data (blk_header blk))
      \<and> BlockHeader_from_data be (hdr_data (blk_header blk)) = Some (blk_header blk)
      \<and> header = written (BlockHeader_write be (blk_header blk))
      \<and> length (ne_list (blk_vtx blk)) \<le> 33554432
      \<and> tx_reads te BranchSprout w0 cb
      \<and> coinbase_claimed_height be cb = Inr (Some (blk_claimed_height blk))
      \<and> correct_coinbase_branch te cb b = Inr (Some (ne_head (blk_vtx blk)))
      \<and> list_all2 (tx_reads te b) ws (ne_tail (blk_vtx blk))
      \<and> \<not> list_ex (has_null_input be) (ne_tail (blk_vtx blk)))"

lemma n_tx_iff:
  "n \<le> MAX_COMPACT_SIZE \<and> n \<noteq> 0 \<and> length ts = unat (n - 1) \<longleftrightarrow>
     length ts < 33554432 \<and> n = of_nat (Suc (length ts))"
proof -
  have "unat (n - 1) = unat n - 1" if "n \<noteq> 0" using that by (simp add: unat_minus_one)
  moreover have "unat n \<noteq> 0" if "n \<noteq> 0" using that by (simp add: unat_eq_zero)
  moreover have "n \<le> MAX_COMPACT_SIZE \<and> Suc (length ts) = unat n \<longleftrightarrow> Suc (length ts) \<le> 33554432 \<and> n = of_nat (Suc (length ts))"
    using vector_count [of n "() # map (\<lambda>_. ()) ts"] by simp
  moreover have "n \<noteq> 0" if "n = of_nat (Suc (length ts))" "Suc (length ts) \<le> 33554432"
    using calculation(3) that by (metis nat.simps(3) unat_0)
  ultimately show ?thesis by (cases "n = 0") auto
qed

lemma block_layout_iff:
  assumes ok: "tx_ext_ok te" "block_lib_ok (te_cs te) be"
  shows "Block_read te be params bs = Inr (Some blk, rest) \<longleftrightarrow>
    (\<exists>header w0 cb ws. block_layout te be params blk header w0 cb ws
       \<and> bs = header @ cs_write (te_cs te) (of_nat (length (ne_list (blk_vtx blk)))) @ w0 @ concat ws @ rest)"
proof -
  have cs: "compact_size_ok (te_cs te)" using ok(1) by (simp add: tx_ext_ok_def)
  have sol: "vector_ok (te_cs te) (be_solution be)" using ok(2) by (simp add: block_lib_ok_def)
  have txs: "be_read_txs be n rd bs = read_opt_n (unat n) rd bs" for n rd bs
    using ok(2) by (simp add: block_lib_ok_def)
  let ?b = "for_height params (blk_claimed_height blk)"
  have "Block_read te be params bs = Inr (Some blk, rest) \<longleftrightarrow>
    (\<exists>h n w0 cb c ws ts. (n \<le> MAX_COMPACT_SIZE \<and> n \<noteq> 0 \<and> length ts = unat (n - 1))
       \<and> BlockHeader_from_data be (hdr_data h) = Some h \<and> wf_block_header_data (hdr_data h)
       \<and> tx_reads te BranchSprout w0 cb
       \<and> coinbase_claimed_height be cb = Inr (Some (blk_claimed_height blk))
       \<and> correct_coinbase_branch te cb ?b = Inr (Some c)
       \<and> list_all2 (tx_reads te ?b) ws ts
       \<and> \<not> list_ex (has_null_input be) ts
       \<and> blk_header blk = h \<and> blk_vtx blk = NonEmpty c ts
       \<and> bs = written (BlockHeader_write be h) @ cs_write (te_cs te) n @ w0 @ concat ws @ rest)" (is "?L \<longleftrightarrow> ?R")
  proof
    assume ?L
    then obtain h n w0 cb c ws ts where
      "n \<le> MAX_COMPACT_SIZE" "n \<noteq> 0" "length ts = unat (n - 1)"
      "BlockHeader_from_data be (hdr_data h) = Some h" "wf_block_header_data (hdr_data h)"
      "tx_reads te BranchSprout w0 cb" "coinbase_claimed_height be cb = Inr (Some (blk_claimed_height blk))"
      "correct_coinbase_branch te cb ?b = Inr (Some c)" "list_all2 (tx_reads te ?b) ws ts"
      "\<not> list_ex (has_null_input be) ts" "blk_header blk = h" "blk_vtx blk = NonEmpty c ts"
      "bs = written (BlockHeader_write be h) @ cs_write (te_cs te) n @ w0 @ concat ws @ rest"
      unfolding Block_read_def Let_def
      by (cases blk) (auto simp: header_read_frozen [OF cs sol] compact_size_iff [OF cs] read_consumes [OF ok(1)] txs
          read_opt_n_iff read_txs_iff [OF ok(1)])
    then show ?R by blast
  next
    assume ?R
    then obtain h n w0 cb c ws ts where r:
      "n \<le> MAX_COMPACT_SIZE" "n \<noteq> 0" "length ts = unat (n - 1)"
      "BlockHeader_from_data be (hdr_data h) = Some h" "wf_block_header_data (hdr_data h)"
      "tx_reads te BranchSprout w0 cb" "coinbase_claimed_height be cb = Inr (Some (blk_claimed_height blk))"
      "correct_coinbase_branch te cb ?b = Inr (Some c)" "list_all2 (tx_reads te ?b) ws ts"
      "\<not> list_ex (has_null_input be) ts" "blk_header blk = h" "blk_vtx blk = NonEmpty c ts"
      "bs = written (BlockHeader_write be h) @ cs_write (te_cs te) n @ w0 @ concat ws @ rest"
      by blast
    have "BlockHeader_read be bs = Inr (Some h, cs_write (te_cs te) n @ w0 @ concat ws @ rest)"
      unfolding header_read_frozen [OF cs sol] using r by blast
    moreover have "cs_read (te_cs te) (cs_write (te_cs te) n @ w0 @ concat ws @ rest) = Inr (n, w0 @ concat ws @ rest)"
      by (simp add: compact_size_iff [OF cs] r(1))
    moreover have "Transaction_read te BranchSprout (w0 @ concat ws @ rest) = Inr (Some cb, concat ws @ rest)"
      using r(6) unfolding tx_reads_def by blast
    moreover have "be_read_txs be (n - 1) (Transaction_read te ?b) (concat ws @ rest) = Inr (Some ts, rest)"
      unfolding txs read_opt_n_iff read_txs_iff [OF ok(1)] using r(3,9) by blast
    ultimately show ?L
      unfolding Block_read_def Let_def using r(2,7,8,10,11,12)
      by (cases blk) (simp add: robind_def rbind_def rret_def rguard_def rlift_def)
  qed
  also have "\<dots> \<longleftrightarrow> (\<exists>header w0 cb ws. block_layout te be params blk header w0 cb ws
       \<and> bs = header @ cs_write (te_cs te) (of_nat (length (ne_list (blk_vtx blk)))) @ w0 @ concat ws @ rest)"
    unfolding n_tx_iff block_layout_def Let_def
    by (cases "blk_vtx blk") (simp add: ne_list_def less_Suc_eq_le [symmetric], blast)
  finally show ?thesis .
qed

lemma claimed_height_iff:
  assumes "block_lib_ok cs be"
  shows "coinbase_claimed_height be cb = Inr (Some height) \<longleftrightarrow>
    (\<exists>tb x n. td_transparent_bundle (tx_data cb) = Some tb \<and> tb_vin tb = [x] \<and> be_null_prevout be x
       \<and> td_sprout_bundle (tx_data cb) = None
       \<and> be_script_height be x = Some (Inr n) \<and> BlockHeight_try_from_i64 n = Some height)"
proof -
  have c: "be_is_coinbase be b \<longleftrightarrow> (\<exists>x. tb_vin b = [x] \<and> be_null_prevout be x)" for b
    using assms by (simp add: block_lib_ok_def)
  show ?thesis
    by (auto simp: coinbase_claimed_height_def c split: option.splits list.splits sum.splits if_splits)
qed

lemma claimed_height_not_panic:
  assumes "block_lib_ok cs be"
  shows "coinbase_claimed_height be cb \<noteq> Inr None"
proof -
  have c: "be_is_coinbase be b \<longleftrightarrow> (\<exists>x. tb_vin b = [x] \<and> be_null_prevout be x)" for b
    using assms by (simp add: block_lib_ok_def)
  show ?thesis
    by (auto simp: coinbase_claimed_height_def c split: option.splits list.splits sum.splits if_splits)
qed

lemma claimed_height_cong:
  assumes "td_transparent_bundle (tx_data t) = td_transparent_bundle (tx_data t')"
    and "td_sprout_bundle (tx_data t) = td_sprout_bundle (tx_data t')"
  shows "coinbase_claimed_height be t = coinbase_claimed_height be t'"
  unfolding coinbase_claimed_height_def assms by (rule refl)

lemma try_i64_sint:
  assumes "BlockHeight_try_from_i64 n = Some h"
  shows "sint n = uint (bh_raw h)"
proof -
  have n: "0 \<le> sint n" "sint n < 2 ^ 32" and h: "bh_raw h = ucast n"
    using assms by (auto simp: BlockHeight_try_from_i64_def split: if_splits)
  have "uint n = sint n" using n by (simp add: uint_sint take_bit_eq_mod)
  then have "uint (ucast n :: u32) = sint n"
    using n by (simp add: unsigned_ucast_eq take_bit_eq_mod)
  then show ?thesis using h by simp
qed

text \<open>C9: What a block that was read satisfies. Its first transaction is a coinbase without Sprout data, whose
  single input has a null outpoint and pushes the claimed height; it carries the branch of that
  height, and when its version does not commit to a branch its identifier is that of its rewritten
  bytes. The others have no null input, and those up to version 4 carry the same branch. The bytes
  consumed are the header, the count and the transactions.\<close>

theorem block_read_rules:
  assumes "tx_ext_ok te" "block_lib_ok (te_cs te) be"
    and "Block_read te be params bs = Inr (Some blk, rest)"
  shows "let b = for_height params (blk_claimed_height blk); coinbase = ne_head (blk_vtx blk) in
    (\<exists>tb x n. td_transparent_bundle (tx_data coinbase) = Some tb \<and> tb_vin tb = [x] \<and> be_null_prevout be x
       \<and> be_script_height be x = Some (Inr n) \<and> sint n = uint (bh_raw (blk_claimed_height blk)))
    \<and> td_sprout_bundle (tx_data coinbase) = None
    \<and> td_consensus_branch_id (tx_data coinbase) = b
    \<and> (is_v4_format (td_version (tx_data coinbase)) \<longrightarrow>
        (\<exists>w. Transaction_write te (tx_data coinbase) = Inr w
           \<and> tx_txid coinbase = TxId (dx_sha256d (te_digest te) w)))
    \<and> (\<forall>t \<in> set (ne_tail (blk_vtx blk)). \<not> has_null_input be t
        \<and> (is_v4_format (td_version (tx_data t)) \<longrightarrow> td_consensus_branch_id (tx_data t) = b))
    \<and> (\<exists>header txs. BlockHeader_write be (blk_header blk) = Inr header
        \<and> bs = header @ cs_write (te_cs te) (of_nat (length (ne_list (blk_vtx blk)))) @ txs @ rest)"
proof -
  let ?b = "for_height params (blk_claimed_height blk)" and ?c = "ne_head (blk_vtx blk)"
  obtain header w0 cb ws where l: "block_layout te be params blk header w0 cb ws"
    and bs: "bs = header @ cs_write (te_cs te) (of_nat (length (ne_list (blk_vtx blk)))) @ w0 @ concat ws @ rest"
    using assms(3) unfolding block_layout_iff [OF assms(1,2)] by blast
  note lay = l [unfolded block_layout_def Let_def]
  have cor: "correct_coinbase_branch te cb ?b = Inr (Some ?c)" and r: "tx_reads te BranchSprout w0 cb"
    using lay by blast+
  note same = corrected_coinbase [OF assms(1) r cor]
  have "\<exists>tb x n. td_transparent_bundle (tx_data cb) = Some tb \<and> tb_vin tb = [x] \<and> be_null_prevout be x
       \<and> td_sprout_bundle (tx_data cb) = None \<and> be_script_height be x = Some (Inr n)
       \<and> BlockHeight_try_from_i64 n = Some (blk_claimed_height blk)"
    using lay claimed_height_iff [OF assms(2)] by blast
  then have height: "(\<exists>tb x n. td_transparent_bundle (tx_data ?c) = Some tb \<and> tb_vin tb = [x] \<and> be_null_prevout be x
       \<and> be_script_height be x = Some (Inr n) \<and> sint n = uint (bh_raw (blk_claimed_height blk)))
    \<and> td_sprout_bundle (tx_data ?c) = None"
    using same by (auto simp: fix_branch dest: try_i64_sint)
  have others: "\<forall>t \<in> set (ne_tail (blk_vtx blk)). \<not> has_null_input be t
      \<and> (is_v4_format (td_version (tx_data t)) \<longrightarrow> td_consensus_branch_id (tx_data t) = ?b)"
  proof
    fix t assume t: "t \<in> set (ne_tail (blk_vtx blk))"
    have "list_all2 (tx_reads te ?b) ws (ne_tail (blk_vtx blk))"
      "\<not> list_ex (has_null_input be) (ne_tail (blk_vtx blk))" using lay by simp_all
    moreover from list_all2_right_ex [OF this(1) t] obtain w where "tx_reads te ?b w t" by blast
    ultimately show "\<not> has_null_input be t
        \<and> (is_v4_format (td_version (tx_data t)) \<longrightarrow> td_consensus_branch_id (tx_data t) = ?b)"
      using tx_reads_branch [OF assms(1), of ?b w t] t by (auto simp: list_ex_iff)
  qed
  have "BlockHeader_write be (blk_header blk) = Inr header"
    using lay header_write_ok [of "hdr_data (blk_header blk)" be] by (simp add: BlockHeader_write_def)
  then have bytes: "\<exists>header txs. BlockHeader_write be (blk_header blk) = Inr header
        \<and> bs = header @ cs_write (te_cs te) (of_nat (length (ne_list (blk_vtx blk)))) @ txs @ rest"
    using bs by (intro exI [of _ header] exI [of _ "w0 @ concat ws"]) simp
  show ?thesis unfolding Let_def
    by (rule conjI [OF height [THEN conjunct1] conjI [OF height [THEN conjunct2]
        conjI [OF same [THEN conjunct2, THEN conjunct1] conjI [OF same [THEN conjunct2, THEN conjunct2]
        conjI [OF others bytes]]]]])
qed

subsection \<open>Panics\<close>

lemma robind_None [simp]:
  "robind m f bs = Inr (None, rest) \<longleftrightarrow>
     m bs = Inr (None, rest) \<or> (\<exists>x r. m bs = Inr (Some x, r) \<and> f x r = Inr (None, rest))"
proof (cases "m bs")
  case (Inr p)
  then show ?thesis by (cases p; cases "fst p") (auto simp: robind_def rbind_def rret_def)
qed (simp add: robind_def rbind_def)

lemma robind_total:
  "(\<And>r. m bs \<noteq> Inr (None, r)) \<Longrightarrow> (\<And>x r. m bs = Inr (Some x, r) \<Longrightarrow> f x r \<noteq> Inr (None, rest))
    \<Longrightarrow> robind m f bs \<noteq> Inr (None, rest)"
  by auto

lemma rbind_total:
  "(\<And>x r. m bs = Inr (x, r) \<Longrightarrow> f x r \<noteq> Inr (y, rest)) \<Longrightarrow> rbind m f bs \<noteq> Inr (y, rest)"
  by auto

text \<open>The commitments to Orchard bundles, the only code of an identifier that can panic.\<close>

definition digests_total :: "'ob digest_ext \<Rightarrow> bool" where
  "digests_total dx \<longleftrightarrow> (\<forall>b v. dx_commitment dx b v \<noteq> None) \<and> (\<forall>p v. dx_bundle_txid_empty dx p v \<noteq> None)"

lemma from_data_v5_total:
  assumes "digests_total (te_digest te)"
  shows "from_data_v5 te d \<noteq> None"
proof -
  have "txid_digests (te_digest te) (te_transparent te) (te_sapling te) d \<noteq> None"
    using assms by (auto simp: txid_digests_def txid_digest_orchard_def txid_digest_ironwood_def digests_total_def
        map_digest_def bind_eq_None_conv split: option.splits)
  moreover have "to_txid (te_digest te) v b ds \<noteq> None" for v b ds
  proof -
    have oe: "\<exists>y. or_empty (te_digest te) domain digest = Some y" for domain digest
      using assms by (cases digest) (simp_all add: or_empty_def digests_total_def)
    obtain x y z where "or_empty (te_digest te) (orchard_commitment_domain v) (txd_orchard_digest ds) = Some x"
        "or_empty (te_digest te) (orchard_commitment_domain V6) (txd_orchard_digest ds) = Some y"
        "or_empty (te_digest te) ironwood_v6_domain (txd_ironwood_digest ds) = Some z"
      using oe by metis
    then show ?thesis by (simp add: to_txid_def to_hash_def to_hash_v6_def)
  qed
  ultimately show ?thesis by (auto simp: from_data_v5_def data_txid_def bind_eq_None_conv)
qed

lemma transaction_read_total:
  assumes "tx_ext_ok te" "digests_total (te_digest te)"
  shows "Transaction_read te b bs \<noteq> Inr (None, rest)"
proof
  assume "Transaction_read te b bs = Inr (None, rest)"
  then obtain v r where
    c: "case v of V5 \<Rightarrow> read_v5 te v r = Inr (None, rest) | V6 \<Rightarrow> read_v6 te v r = Inr (None, rest)
         | VCrosslink \<Rightarrow> read_vcrosslink te v r = Inr (None, rest)
         | _ \<Rightarrow> \<exists>t'. None = Some t' \<and> read_v4 te (TxVersion_write v) v b r = Inr (t', rest)"
    unfolding read_dispatch by blast
  then have "\<exists>d. from_data_v5 te d = None"
    by (cases v) (auto simp: read_later_iff [OF assms(1)] dest: sym)
  then show False using from_data_v5_total [OF assms(2)] by blast
qed

lemma read_opt_n_total: "(\<And>bs rest. rd bs \<noteq> Inr (None, rest)) \<Longrightarrow> read_opt_n n rd bs \<noteq> Inr (None, rest)"
  by (induction n arbitrary: bs) auto


subsection \<open>Round trip\<close>

text \<open>A transaction whose written bytes are read back as itself.\<close>

definition tx_stable where
  "tx_stable te b t \<longleftrightarrow> (\<exists>w. Transaction_write te (tx_data t) = Inr w \<and> tx_reads te b w t)"

definition block_rules where
  "block_rules te be params blk \<longleftrightarrow>
     (let b = for_height params (blk_claimed_height blk) in
      wf_block_header_data (hdr_data (blk_header blk))
      \<and> BlockHeader_from_data be (hdr_data (blk_header blk)) = Some (blk_header blk)
      \<and> length (ne_list (blk_vtx blk)) \<le> 33554432
      \<and> (\<forall>t \<in> set (ne_list (blk_vtx blk)). tx_stable te b t)
      \<and> coinbase_claimed_height be (ne_head (blk_vtx blk)) = Inr (Some (blk_claimed_height blk))
      \<and> td_consensus_branch_id (tx_data (ne_head (blk_vtx blk))) = b
      \<and> \<not> list_ex (has_null_input be) (ne_tail (blk_vtx blk)))"

lemma stable_list:
  "(\<forall>t \<in> set ts. tx_stable te b t) \<Longrightarrow>
     \<exists>ws. map_res (\<lambda>t. Transaction_write te (tx_data t)) ts = Inr ws \<and> list_all2 (tx_reads te b) ws ts"
proof (induction ts)
  case (Cons t ts)
  then obtain w ws where "Transaction_write te (tx_data t) = Inr w" "tx_reads te b w t"
      "map_res (\<lambda>t. Transaction_write te (tx_data t)) ts = Inr ws" "list_all2 (tx_reads te b) ws ts"
    by (auto simp: tx_stable_def)
  then show ?case by (intro exI [of _ "w # ws"]) simp
qed simp

text \<open>A stable coinbase, read with the branch Sprout and corrected, is itself.\<close>

lemma stable_coinbase:
  assumes ok: "tx_ext_ok te" and w: "Transaction_write te (tx_data t) = Inr w" "tx_reads te b w t"
    and b: "td_consensus_branch_id (tx_data t) = b"
  shows "\<exists>cb. tx_reads te BranchSprout w cb \<and> correct_coinbase_branch te cb b = Inr (Some t)
    \<and> td_transparent_bundle (tx_data cb) = td_transparent_bundle (tx_data t)
    \<and> td_sprout_bundle (tx_data cb) = td_sprout_bundle (tx_data t)"
proof -
  let ?cb = "t\<lparr>tx_data := fix_consensus_branch_id (tx_data t) BranchSprout\<rparr>"
  have r: "tx_reads te BranchSprout w ?cb" by (rule tx_reads_other_branch [OF ok w(2)])
  have "fix_consensus_branch_id (fix_consensus_branch_id (tx_data t) BranchSprout) b = tx_data t"
    using b by (simp add: fix_branch)
  moreover have "tx_txid t = TxId (dx_sha256d (te_digest te) w)" if v4: "is_v4_format (td_version (tx_data t))"
  proof -
    have "Transaction_read te b (w @ []) = Inr (Some t, [])" using w(2) unfolding tx_reads_def by blast
    then show ?thesis using read_v4_dispatch [OF ok, of b "w @ []" t "[]"] v4 by auto
  qed
  ultimately have "correct_coinbase_branch te ?cb b = Inr (Some t)"
    using correct_v4 [OF ok r, of b] correct_later [of ?cb te b] w(1) b
    by (cases "is_v4_format (td_version (tx_data t))") (auto simp: fix_branch)
  then show ?thesis using r by (intro exI [of _ ?cb]) (simp add: fix_branch)
qed

lemma rules_roundtrip:
  assumes ok: "tx_ext_ok te" "block_lib_ok (te_cs te) be" and rules: "block_rules te be params blk"
  shows "\<exists>w. Block_write te be blk = Inr w \<and> Block_read te be params (w @ rest) = Inr (Some blk, rest)"
proof -
  let ?b = "for_height params (blk_claimed_height blk)" and ?c = "ne_head (blk_vtx blk)"
  let ?h = "written (BlockHeader_write be (blk_header blk))" and ?wr = "\<lambda>t. Transaction_write te (tx_data t)"
  let ?n = "cs_write (te_cs te) (of_nat (length (ne_list (blk_vtx blk))))"
  note r = rules [unfolded block_rules_def Let_def]
  have st: "tx_stable te ?b ?c" "\<forall>t \<in> set (ne_tail (blk_vtx blk)). tx_stable te ?b t"
    using r by (auto simp: ne_list_def)
  obtain w0 where w0: "?wr ?c = Inr w0" "tx_reads te ?b w0 ?c" using st(1) unfolding tx_stable_def by blast
  obtain ws where ws: "map_res ?wr (ne_tail (blk_vtx blk)) = Inr ws"
      "list_all2 (tx_reads te ?b) ws (ne_tail (blk_vtx blk))"
    using stable_list [OF st(2)] by blast
  have cb: "td_consensus_branch_id (tx_data ?c) = ?b" using r by blast
  obtain cb where cb: "tx_reads te BranchSprout w0 cb" "correct_coinbase_branch te cb ?b = Inr (Some ?c)"
      "td_transparent_bundle (tx_data cb) = td_transparent_bundle (tx_data ?c)"
      "td_sprout_bundle (tx_data cb) = td_sprout_bundle (tx_data ?c)"
    using stable_coinbase [OF ok(1) w0 cb] by blast
  have "coinbase_claimed_height be cb = Inr (Some (blk_claimed_height blk))"
    using claimed_height_cong [OF cb(3,4), of be] r by simp
  then have "block_layout te be params blk ?h w0 cb ws"
    unfolding block_layout_def Let_def using r cb(1,2) ws(2) by simp
  then have "Block_read te be params (?h @ ?n @ w0 @ concat ws @ rest) = Inr (Some blk, rest)"
    unfolding block_layout_iff [OF ok] by blast
  moreover have "Block_write te be blk = Inr (?h @ ?n @ w0 @ concat ws)"
  proof -
    have "BlockHeader_write be (blk_header blk) = Inr ?h"
      using r header_write_ok [of "hdr_data (blk_header blk)" be] by (simp add: BlockHeader_write_def)
    moreover have "be_write_vtx be ?wr (blk_vtx blk) = Inr (?n @ w0 @ concat ws)"
      using ok(2) w0(1) ws(1) by (simp add: block_lib_ok_def ne_list_def)
    ultimately show ?thesis by (simp add: Block_write_def)
  qed
  ultimately show ?thesis by simp
qed

lemma layout_rules:
  assumes ok: "tx_ext_ok te" "block_lib_ok (te_cs te) be"
    and r: "Block_read te be params bs = Inr (Some blk, rest)"
    and st: "\<forall>t \<in> set (ne_list (blk_vtx blk)). tx_stable te (for_height params (blk_claimed_height blk)) t"
  shows "block_rules te be params blk"
proof -
  obtain header w0 cb ws where l: "block_layout te be params blk header w0 cb ws"
    using r unfolding block_layout_iff [OF ok] by blast
  note lay = l [unfolded block_layout_def Let_def]
  have "tx_reads te BranchSprout w0 cb" "correct_coinbase_branch te cb
      (for_height params (blk_claimed_height blk)) = Inr (Some (ne_head (blk_vtx blk)))" using lay by blast+
  note same = corrected_coinbase [OF ok(1) this]
  have "coinbase_claimed_height be (ne_head (blk_vtx blk)) = Inr (Some (blk_claimed_height blk))"
    using lay claimed_height_cong [of "ne_head (blk_vtx blk)" cb be] same by (simp add: fix_branch)
  then show ?thesis unfolding block_rules_def Let_def using lay same [THEN conjunct2, THEN conjunct1] st by simp
qed

text \<open>C12: A block that obeys the rules, each of whose transactions is read back from its written bytes, is
  written, and read back as itself. Conversely a block that was read with such
  transactions obeys the rules, so it is written as bytes that are read as the same block.\<close>

theorem block_roundtrip:
  assumes "tx_ext_ok te" "block_lib_ok (te_cs te) be"
  shows "(block_rules te be params blk \<longrightarrow>
      (\<exists>w. Block_write te be blk = Inr w \<and> Block_read te be params (w @ rest) = Inr (Some blk, rest)))
    \<and> (Block_read te be params bs = Inr (Some blk, rest)
        \<and> (\<forall>t \<in> set (ne_list (blk_vtx blk)). tx_stable te (for_height params (blk_claimed_height blk)) t)
      \<longrightarrow> block_rules te be params blk)"
  using rules_roundtrip [OF assms] layout_rules [OF assms] by blast

subsection \<open>An example\<close>

lemma stable_v4:
  assumes ok: "tx_ext_ok te" and wf: "wf_v4 te (sapling_value_balance d) d"
  shows "tx_stable te (td_consensus_branch_id d) \<lparr>tx_txid = TxId (dx_sha256d (te_digest te)
    (TxVersion_write (td_version d) @ v4_body te (sapling_value_balance d) d)), tx_data = d\<rparr>"
proof -
  have v: "is_v4_format (td_version d)" using wf by (simp add: wf_v4_def is_v4_format_def)
  show ?thesis
    unfolding tx_stable_def tx_reads_def
  proof (intro exI conjI allI)
    show "Transaction_write te (tx_data \<lparr>tx_txid = TxId (dx_sha256d (te_digest te)
        (TxVersion_write (td_version d) @ v4_body te (sapling_value_balance d) d)), tx_data = d\<rparr>)
      = Inr (TxVersion_write (td_version d) @ v4_body te (sapling_value_balance d) d)"
      using write_v4_eq [OF wf] by simp
    fix rest
    let ?w = "TxVersion_write (td_version d) @ v4_body te (sapling_value_balance d) d"
    let ?t = "\<lparr>tx_txid = TxId (dx_sha256d (te_digest te) ?w), tx_data = d\<rparr>"
    have "\<exists>vb. td_consensus_branch_id (tx_data ?t) = td_consensus_branch_id d \<and> wf_v4 te vb (tx_data ?t)
       \<and> tx_txid ?t = TxId (dx_sha256d (te_digest te) (TxVersion_write (td_version (tx_data ?t)) @ v4_body te vb (tx_data ?t)))
       \<and> ?w @ rest = TxVersion_write (td_version (tx_data ?t)) @ v4_body te vb (tx_data ?t) @ rest"
      using wf by (intro exI [of _ "sapling_value_balance d"]) simp
    then show "Transaction_read te (td_consensus_branch_id d) (?w @ rest) = Inr (Some ?t, rest)"
      using read_v4_dispatch [OF ok, of "td_consensus_branch_id d" "?w @ rest" ?t rest] by blast
  qed
qed

definition example_tx where
  "example_tx vin b = (let d = (example_data V4 None)\<lparr>td_consensus_branch_id := b,
       td_transparent_bundle := Some \<lparr>tb_vin = [vin], tb_vout = [replicate 9 2]\<rparr>\<rparr> in
     \<lparr>tx_txid = TxId (dx_sha256d byte_digest
        (TxVersion_write V4 @ v4_body byte_tx (sapling_value_balance d) d)), tx_data = d\<rparr>)"

definition null_input :: bytes where
  "null_input = replicate 32 0 @ replicate 4 255 @ [0, 5, 0, 0, 0]"

abbreviation tx_block :: "(bytes, bytes, (bytes, bytes, bytes, bytes, bytes, bytes, bytes, bytes, bytes, bytes, bytes, u8)
    authorized_tx) block_lib" where
  "tx_block \<equiv> byte_block (\<lambda>x. x)"

definition example_block where
  "example_block params = (let b = for_height params (BlockHeight 5) in
     \<lparr>blk_header = the (BlockHeader_from_data tx_block example_header_data),
      blk_vtx = NonEmpty (example_tx null_input b) [example_tx (replicate 41 1) b],
      blk_claimed_height = BlockHeight 5\<rparr>)"

lemma example_tx_data: "tx_data (example_tx vin b) = (example_data V4 None)\<lparr>td_consensus_branch_id := b,
       td_transparent_bundle := Some \<lparr>tb_vin = [vin], tb_vout = [replicate 9 2]\<rparr>\<rparr>"
  by (simp add: example_tx_def Let_def)

lemma example_tx_stable:
  assumes "length vin = 41"
  shows "tx_stable byte_tx b (example_tx vin b)"
proof -
  let ?d = "tx_data (example_tx vin b)"
  have vb: "sapling_value_balance ?d = ZatBalance_zero"
    by (simp add: sapling_value_balance_def bundle_balance_def example_tx_data example_data_def)
  have "wf_v4 byte_tx ZatBalance_zero ?d"
    using assms zb.zero_ok by (simp add: wf_v4_def example_tx_data example_data_def byte_tx_def wf_transparent_def
        wf_byte_tx wf_expiry_def wf_v4_sapling_def wf_v4_components_def components_of_def wf_sprout_slot_def
        version_has_overwinter_def)
  then show ?thesis
    using stable_v4 [OF byte_tx_ok, of ?d] vb
    by (simp add: example_tx_def Let_def byte_tx_def example_data_def)
qed

lemma example_block_rules: "block_rules byte_tx tx_block params (example_block params)"
proof -
  let ?be = tx_block and ?b = "for_height params (BlockHeight 5)"
  obtain h where h: "BlockHeader_from_data ?be example_header_data = Some h" "hdr_data h = example_header_data"
    using from_data_wf [OF wf_example_header_data, of ?be] by auto
  have "coinbase_claimed_height ?be (example_tx null_input ?b) = Inr (Some (BlockHeight 5))"
    by (simp add: coinbase_claimed_height_def example_tx_data example_data_def byte_block_def null_input_def
        BlockHeight_try_from_i64_def)
  moreover have "\<not> has_null_input ?be (example_tx (replicate 41 1) ?b)"
    by (simp add: has_null_input_def example_tx_data byte_block_def eval_nat_numeral)
  moreover have "tx_stable byte_tx ?b (example_tx null_input ?b)" "tx_stable byte_tx ?b (example_tx (replicate 41 1) ?b)"
    by (rule example_tx_stable, simp add: null_input_def)+
  ultimately show ?thesis
    using h wf_example_header_data
    by (simp add: block_rules_def example_block_def ne_list_def example_tx_data Let_def)
qed

lemma example_block_read:
  "\<exists>w. Block_read byte_tx tx_block params (w @ [7]) = Inr (Some (example_block params), [7])"
proof -
  have "block_lib_ok (te_cs byte_tx) tx_block" using byte_block_ok by (simp add: byte_tx_def)
  from rules_roundtrip [OF byte_tx_ok this example_block_rules] show ?thesis by blast
qed

lemma block_read_rules_witness:
  "\<exists>w. Block_read byte_tx tx_block (Network_parameters Network_Main) (w @ [7])
         = Inr (Some (example_block (Network_parameters Network_Main)), [7])
     \<and> td_consensus_branch_id (tx_data (ne_head (blk_vtx (example_block (Network_parameters Network_Main)))))
         = for_height (Network_parameters Network_Main)
             (blk_claimed_height (example_block (Network_parameters Network_Main)))"
proof -
  let ?p = "Network_parameters Network_Main"
  obtain w where w: "Block_read byte_tx tx_block ?p (w @ [7]) = Inr (Some (example_block ?p), [7])"
    using example_block_read by blast
  have ok: "block_lib_ok (te_cs byte_tx) tx_block" using byte_block_ok by (simp add: byte_tx_def)
  show ?thesis using block_read_rules [OF byte_tx_ok ok w] w unfolding Let_def by blast
qed


lemma block_roundtrip_witness:
  "\<exists>w. Block_write byte_tx tx_block (example_block (Network_parameters Network_Main)) = Inr w
     \<and> Block_read byte_tx tx_block (Network_parameters Network_Main) (w @ [7])
         = Inr (Some (example_block (Network_parameters Network_Main)), [7])"
proof -
  have ok: "block_lib_ok (te_cs byte_tx) tx_block" using byte_block_ok by (simp add: byte_tx_def)
  show ?thesis using conjunct1 [OF block_roundtrip [OF byte_tx_ok ok]] example_block_rules by blast
qed

end
