(* ===== verification/MerkleTree.thy ===== *)
theory MerkleTree
  imports ExtCodec
begin

text \<open>
  Serialization of note commitment trees (\<open>zcash_primitives/src/merkle_tree.rs\<close>): nodes, positions and
  addresses, frontiers in both layouts, commitment trees, incremental witnesses and Merkle paths.
  The tree types belong to the crate \<open>incrementalmerkletree\<close>, which is not under \<open>src\<close>: of each the
  code uses a constructor from parts that can refuse, and getters of these parts.
\<close>

subsection \<open>External code\<close>

record ('p, 'x) parts =
  pt_make :: "'p \<Rightarrow> 'x option"
  pt_get :: "'x \<Rightarrow> 'p"

text \<open>What is constructed from parts has these parts.\<close>

definition parts_ok :: "('p, 'x) parts \<Rightarrow> bool" where
  "parts_ok pt \<longleftrightarrow> (\<forall>p x. pt_make pt p = Some x \<longrightarrow> pt_get pt x = p)"

definition wf_parts :: "('p, 'x) parts \<Rightarrow> ('p \<Rightarrow> bool) \<Rightarrow> 'x \<Rightarrow> bool" where
  "wf_parts pt ok x \<longleftrightarrow> ok (pt_get pt x) \<and> pt_make pt (pt_get pt x) = Some x"

text \<open>\<open>Optional\<close> of \<open>zcash_encoding\<close>: a flag byte, then the value if there is one.\<close>

record 'a optional_io =
  opt_read :: "'a reader \<Rightarrow> 'a option reader"
  opt_write :: "('a \<Rightarrow> bytes) \<Rightarrow> 'a option \<Rightarrow> bytes"

definition optional_ok :: "'a optional_io \<Rightarrow> bool" where
  "optional_ok v \<longleftrightarrow>
     (\<forall>rd bs x rest. opt_read v rd bs = Inr (x, rest) \<longleftrightarrow>
        (x = None \<and> bs = 0 # rest \<or> (\<exists>y r. x = Some y \<and> bs = 1 # r \<and> rd r = Inr (y, rest))))
   \<and> (\<forall>wr x. opt_write v wr x = (case x of None \<Rightarrow> [0] | Some y \<Rightarrow> 1 # wr y))"

lemma optional_codec:
  assumes "optional_ok v" "exact_codec rd wr ok"
  shows "exact_codec (opt_read v rd) (opt_write v wr) (pred_option ok)"
proof (rule exact_codecI)
  fix bs x rest
  show "opt_read v rd bs = Inr (x, rest) \<longleftrightarrow> pred_option ok x \<and> bs = opt_write v wr x @ rest"
    using assms(1) by (cases x) (auto simp: optional_ok_def exact_codec.rd_iff [OF assms(2)])
qed

subsection \<open>Nodes\<close>

record 'h hash_ser =
  hs_read :: "'h reader"
  hs_write :: "'h \<Rightarrow> bytes"

definition Node_read :: "'h element \<Rightarrow> 'h reader" where
  "Node_read el = rbind (read_exact 32) (\<lambda>repr. rlift (ok_or (el_parse el repr)
     (InvalidData ''Non-canonical encoding of Jubjub base field value.'')))"

definition Node_write :: "'h element \<Rightarrow> 'h \<Rightarrow> bytes" where
  "Node_write el node = el_bytes el node"

definition MerkleHashOrchard_read :: "'h element \<Rightarrow> 'h reader" where
  "MerkleHashOrchard_read el = rbind (read_exact 32) (\<lambda>repr. rlift (ok_or (el_parse el repr)
     (InvalidData ''Non-canonical encoding of Pallas base field value.'')))"

definition MerkleHashOrchard_write :: "'h element \<Rightarrow> 'h \<Rightarrow> bytes" where
  "MerkleHashOrchard_write el node = el_bytes el node"

text \<open>The two implementations of \<open>HashSer\<close>.\<close>

definition sapling_node :: "'h element \<Rightarrow> 'h hash_ser" where
  "sapling_node el = \<lparr>hs_read = Node_read el, hs_write = Node_write el\<rparr>"

definition orchard_node :: "'h element \<Rightarrow> 'h hash_ser" where
  "orchard_node el = \<lparr>hs_read = MerkleHashOrchard_read el, hs_write = MerkleHashOrchard_write el\<rparr>"

definition hash_ser_ok :: "('h \<Rightarrow> bool) \<Rightarrow> 'h hash_ser \<Rightarrow> bool" where
  "hash_ser_ok ok h \<longleftrightarrow> fixed_codec (hs_read h) (hs_write h) ok 32"

lemma sapling_node_ok: "element_ok 32 el \<Longrightarrow> hash_ser_ok (wf_element 32 el) (sapling_node el)"
  using element_codec [of 32 el] by (simp add: hash_ser_ok_def sapling_node_def Node_read_def Node_write_def [abs_def])

lemma orchard_node_ok: "element_ok 32 el \<Longrightarrow> hash_ser_ok (wf_element 32 el) (orchard_node el)"
  using element_codec [of 32 el]
  by (simp add: hash_ser_ok_def orchard_node_def MerkleHashOrchard_read_def
      MerkleHashOrchard_write_def [abs_def])

subsection \<open>Positions and addresses\<close>

text \<open>\<open>usize\<close> has 64 bits, so neither conversion fails.\<close>

definition write_usize_leu64 :: "usize \<Rightarrow> bytes" where
  "write_usize_leu64 x = write_u64_le x"

definition read_leu64_usize :: "usize reader" where
  "read_leu64_usize = rbind (read_exact 8) (\<lambda>repr. rret (le_word repr))"

definition write_position :: "u64 \<Rightarrow> bytes" where
  "write_position position = write_u64_le position"

definition read_position :: "u64 reader" where
  "read_position = read_u64_le"

record merkle_address =
  addr_level :: u8
  addr_index :: u64

definition write_address :: "merkle_address \<Rightarrow> bytes" where
  "write_address addr = write_u8 (addr_level addr) @ write_u64_le (addr_index addr)"

definition read_address :: "merkle_address reader" where
  "read_address = rbind read_u8 (\<lambda>level. rbind read_u64_le (\<lambda>index.
     rret \<lparr>addr_level = level, addr_index = index\<rparr>))"

interpretation usize_codec: fixed_codec read_leu64_usize write_usize_leu64 "\<lambda>_. True" 8
  by (rule fixed_codecI)
    (auto simp: read_leu64_usize_def write_usize_leu64_def read_exact_iff write_u64_le_def le_word_le_bytes le_bytes_le_word)

interpretation position_codec: fixed_codec read_position write_position "\<lambda>_. True" 8
  unfolding read_position_def write_position_def by (rule u64_codec.fixed_codec_axioms)

interpretation address_codec: fixed_codec read_address write_address "\<lambda>_. True" 9
proof (rule fixed_codecI)
  show "read_address bs = Inr (a, rest) \<longleftrightarrow> True \<and> bs = write_address a @ rest" for bs a rest
    by (cases a) (auto simp: read_address_def write_address_def codec_iff)
qed (simp add: write_address_def)

subsection \<open>Trees, frontiers and witnesses\<close>

record ('h, 'nf, 'fr, 'ct, 'iw, 'mp) merkle_ext =
  mx_is_right_child :: "u64 \<Rightarrow> bool"
  mx_nonempty :: "(u64 \<times> 'h \<times> 'h list, 'nf) parts"
  mx_frontier :: "('nf, 'fr) parts"
  mx_frontier_empty :: 'fr
  mx_frontier_value :: "'fr \<Rightarrow> 'nf option"
  mx_tree :: "('h option \<times> 'h option \<times> 'h option list, 'ct) parts"
  mx_to_frontier :: "'ct \<Rightarrow> 'fr"
  mx_witness :: "('ct \<times> 'h list \<times> 'ct option, 'iw) parts"
  mx_path :: "'h list \<times> u64 \<Rightarrow> 'mp option"
  mx_opt_node :: "'h optional_io"
  mx_opt_nonempty :: "'nf optional_io"
  mx_opt_tree :: "'ct optional_io"
  mx_nodes :: "'h vector_io"
  mx_opt_nodes :: "'h option vector_io"

definition read_commitment_tree ::
  "('h, 'nf, 'fr, 'ct, 'iw, 'mp) merkle_ext \<Rightarrow> 'h hash_ser \<Rightarrow> 'ct reader" where
  "read_commitment_tree mx h =
     rbind (opt_read (mx_opt_node mx) (hs_read h)) (\<lambda>left.
     rbind (opt_read (mx_opt_node mx) (hs_read h)) (\<lambda>right.
     rbind (vec_read (mx_opt_nodes mx) (opt_read (mx_opt_node mx) (hs_read h))) (\<lambda>parents.
     rlift (ok_or (pt_make (mx_tree mx) (left, right, parents))
       (InvalidData ''parents vector exceeded tree depth'')))))"

definition write_commitment_tree ::
  "('h, 'nf, 'fr, 'ct, 'iw, 'mp) merkle_ext \<Rightarrow> 'h hash_ser \<Rightarrow> 'ct \<Rightarrow> bytes" where
  "write_commitment_tree mx h tree = (case pt_get (mx_tree mx) tree of (left, right, parents) \<Rightarrow>
     opt_write (mx_opt_node mx) (hs_write h) left
     @ opt_write (mx_opt_node mx) (hs_write h) right
     @ vec_write (mx_opt_nodes mx) (opt_write (mx_opt_node mx) (hs_write h)) parents)"

definition read_frontier_v0 ::
  "('h, 'nf, 'fr, 'ct, 'iw, 'mp) merkle_ext \<Rightarrow> 'h hash_ser \<Rightarrow> 'fr reader" where
  "read_frontier_v0 mx h = rbind (read_commitment_tree mx h) (\<lambda>tree. rret (mx_to_frontier mx tree))"

text \<open>The \<open>expect\<close> on the first ommer of a right-hand node: a panic is \<open>None\<close>.\<close>

definition write_nonempty_frontier_v1 ::
  "('h, 'nf, 'fr, 'ct, 'iw, 'mp) merkle_ext \<Rightarrow> 'h hash_ser \<Rightarrow> 'nf \<Rightarrow> bytes option" where
  "write_nonempty_frontier_v1 mx h frontier = (case pt_get (mx_nonempty mx) frontier of
     (position, leaf, ommers) \<Rightarrow>
       if mx_is_right_child mx position then
         (case ommers of [] \<Rightarrow> None | first # rest \<Rightarrow> Some (
            write_position position @ hs_write h first
            @ opt_write (mx_opt_node mx) (hs_write h) (Some leaf)
            @ vec_write (mx_nodes mx) (hs_write h) rest))
       else Some (
         write_position position @ hs_write h leaf
         @ opt_write (mx_opt_node mx) (hs_write h) None
         @ vec_write (mx_nodes mx) (hs_write h) ommers))"

definition read_nonempty_frontier_v1 ::
  "('h, 'nf, 'fr, 'ct, 'iw, 'mp) merkle_ext \<Rightarrow> 'h hash_ser \<Rightarrow> 'nf reader" where
  "read_nonempty_frontier_v1 mx h =
     rbind read_position (\<lambda>position.
     rbind (hs_read h) (\<lambda>left.
     rbind (opt_read (mx_opt_node mx) (hs_read h)) (\<lambda>right.
     rbind (vec_read (mx_nodes mx) (hs_read h)) (\<lambda>ommers.
       let (leaf, ommers) = (case right of Some right \<Rightarrow> (right, left # ommers) | None \<Rightarrow> (left, ommers)) in
     rlift (ok_or (pt_make (mx_nonempty mx) (position, leaf, ommers))
       (InvalidData ''Parsing resulted in an invalid Merkle frontier''))))))"

definition write_frontier_v1 ::
  "('h, 'nf, 'fr, 'ct, 'iw, 'mp) merkle_ext \<Rightarrow> 'h hash_ser \<Rightarrow> 'fr \<Rightarrow> bytes option" where
  "write_frontier_v1 mx h frontier = (case mx_frontier_value mx frontier of
     None \<Rightarrow> Some (opt_write (mx_opt_nonempty mx) (\<lambda>_. []) None)
   | Some f \<Rightarrow> map_option (\<lambda>bs. opt_write (mx_opt_nonempty mx) (\<lambda>_. bs) (Some f))
       (write_nonempty_frontier_v1 mx h f))"

definition read_frontier_v1 ::
  "('h, 'nf, 'fr, 'ct, 'iw, 'mp) merkle_ext \<Rightarrow> 'h hash_ser \<Rightarrow> 'fr reader" where
  "read_frontier_v1 mx h =
     rbind (opt_read (mx_opt_nonempty mx) (read_nonempty_frontier_v1 mx h)) (\<lambda>r. case r of
       None \<Rightarrow> rret (mx_frontier_empty mx)
     | Some f \<Rightarrow> rlift (ok_or (pt_make (mx_frontier mx) f)
         (InvalidData ''Parsing resulted in an invalid Merkle frontier'')))"

definition read_incremental_witness ::
  "('h, 'nf, 'fr, 'ct, 'iw, 'mp) merkle_ext \<Rightarrow> 'h hash_ser \<Rightarrow> 'iw reader" where
  "read_incremental_witness mx h =
     rbind (read_commitment_tree mx h) (\<lambda>tree.
     rbind (vec_read (mx_nodes mx) (hs_read h)) (\<lambda>filled.
     rbind (opt_read (mx_opt_tree mx) (read_commitment_tree mx h)) (\<lambda>cursor.
     rlift (ok_or (pt_make (mx_witness mx) (tree, filled, cursor))
       (InvalidData ''invalid witness: inconsistency detected between witness parts'')))))"

definition write_incremental_witness ::
  "('h, 'nf, 'fr, 'ct, 'iw, 'mp) merkle_ext \<Rightarrow> 'h hash_ser \<Rightarrow> 'iw \<Rightarrow> bytes" where
  "write_incremental_witness mx h witness = (case pt_get (mx_witness mx) witness of (tree, filled, cursor) \<Rightarrow>
     write_commitment_tree mx h tree
     @ vec_write (mx_nodes mx) (hs_write h) filled
     @ opt_write (mx_opt_tree mx) (write_commitment_tree mx h) cursor)"

subsection \<open>Merkle paths\<close>

text \<open>\<open>slice::as_chunks\<close>: the complete chunks of \<open>n\<close> bytes and the remainder.\<close>

definition as_chunks :: "nat \<Rightarrow> bytes \<Rightarrow> bytes list \<times> bytes" where
  "as_chunks n bs = (map (\<lambda>i. take n (drop (n * i) bs)) [0..<length bs div n], drop (n * (length bs div n)) bs)"

definition auth_path_element :: "'h hash_ser \<Rightarrow> bytes \<Rightarrow> io_error + 'h" where
  "auth_path_element h bytes =
     (if bytes ! 0 = 32 then map_ok fst (hs_read h (drop 1 bytes))
      else Inl (InvalidData ''length of auth path element is not the expected 32 bytes''))"

text \<open>Indexing the empty slice panics, which is \<open>None\<close>.\<close>

definition merkle_path_from_slice ::
  "('h, 'nf, 'fr, 'ct, 'iw, 'mp) merkle_ext \<Rightarrow> 'h hash_ser \<Rightarrow> u8 \<Rightarrow> bytes \<Rightarrow> (io_error + 'mp) option" where
  "merkle_path_from_slice mx h depth witness = (case witness of [] \<Rightarrow> None | first # witness \<Rightarrow> Some (
     if first \<noteq> depth then Inl (InvalidData ''depth is not as expected'')
     else case as_chunks 33 witness of (chunks, witness) \<Rightarrow>
       res_bind (map_res (auth_path_element h) (rev chunks)) (\<lambda>auth_path.
       if length auth_path \<noteq> unat depth then Inl (InvalidData ''auth path has unexpected length'')
       else res_bind (read_u64_le witness) (\<lambda>(position, witness).
         if witness = [] then ok_or (mx_path mx (auth_path, position))
           (InvalidData ''auth path contained incorrect number of elements'')
         else Inl (InvalidData ''trailing data found in auth path decoding'')))))"

subsection \<open>Codecs\<close>

definition merkle_ext_ok :: "compact_size \<Rightarrow> ('h, 'nf, 'fr, 'ct, 'iw, 'mp) merkle_ext \<Rightarrow> bool" where
  "merkle_ext_ok cs mx \<longleftrightarrow> compact_size_ok cs \<and> vector_ok cs (mx_nodes mx) \<and> vector_ok cs (mx_opt_nodes mx)
     \<and> optional_ok (mx_opt_node mx) \<and> optional_ok (mx_opt_nonempty mx) \<and> optional_ok (mx_opt_tree mx)
     \<and> parts_ok (mx_nonempty mx) \<and> parts_ok (mx_frontier mx) \<and> parts_ok (mx_tree mx) \<and> parts_ok (mx_witness mx)
     \<and> (\<forall>f fr. pt_make (mx_frontier mx) f = Some fr \<longrightarrow> mx_frontier_value mx fr = Some f)
     \<and> mx_frontier_value mx (mx_frontier_empty mx) = None"

text \<open>A value made of three parts that are read one after the other.\<close>

lemma three_parts:
  assumes "exact_codec r1 w1 ok1" "exact_codec r2 w2 ok2" "exact_codec r3 w3 ok3" "parts_ok pt"
  shows "rbind r1 (\<lambda>a. rbind r2 (\<lambda>b. rbind r3 (\<lambda>c. rlift (ok_or (pt_make pt (a, b, c)) e)))) bs = Inr (x, rest)
    \<longleftrightarrow> wf_parts pt (\<lambda>(a, b, c). ok1 a \<and> ok2 b \<and> ok3 c) x
      \<and> bs = (case pt_get pt x of (a, b, c) \<Rightarrow> w1 a @ w2 b @ w3 c) @ rest" (is "?L \<longleftrightarrow> ?R")
proof -
  have "?L \<longleftrightarrow> (\<exists>a b c. ok1 a \<and> ok2 b \<and> ok3 c \<and> pt_make pt (a, b, c) = Some x \<and> bs = w1 a @ w2 b @ w3 c @ rest)"
    by (simp only: rbind_iff rlift_iff ok_or_simps exact_codec.rd_iff [OF assms(1)] exact_codec.rd_iff [OF assms(2)]
        exact_codec.rd_iff [OF assms(3)]) blast
  also have "\<dots> \<longleftrightarrow> ?R"
  proof
    assume "\<exists>a b c. ok1 a \<and> ok2 b \<and> ok3 c \<and> pt_make pt (a, b, c) = Some x \<and> bs = w1 a @ w2 b @ w3 c @ rest"
    then obtain a b c where p: "ok1 a" "ok2 b" "ok3 c" "pt_make pt (a, b, c) = Some x" "bs = w1 a @ w2 b @ w3 c @ rest"
      by blast
    then have "pt_get pt x = (a, b, c)" using assms(4) by (simp add: parts_ok_def)
    with p show ?R by (simp add: wf_parts_def)
  next
    assume ?R
    then show "\<exists>a b c. ok1 a \<and> ok2 b \<and> ok3 c \<and> pt_make pt (a, b, c) = Some x \<and> bs = w1 a @ w2 b @ w3 c @ rest"
      by (cases "pt_get pt x") (auto simp: wf_parts_def)
  qed
  finally show ?thesis .
qed

text \<open>The number of elements a vector can hold.\<close>

definition wf_nodes :: "('a \<Rightarrow> bool) \<Rightarrow> 'a list \<Rightarrow> bool" where
  "wf_nodes ok xs \<longleftrightarrow> list_all ok xs \<and> length xs \<le> 33554432"

definition wf_tree where
  "wf_tree ok mx = wf_parts (mx_tree mx)
     (\<lambda>(left, right, parents). pred_option ok left \<and> pred_option ok right \<and> wf_nodes (pred_option ok) parents)"

definition wf_witness where
  "wf_witness ok mx = wf_parts (mx_witness mx)
     (\<lambda>(tree, filled, cursor). wf_tree ok mx tree \<and> wf_nodes ok filled \<and> pred_option (wf_tree ok mx) cursor)"

lemma tree_codec:
  assumes "merkle_ext_ok cs mx" "hash_ser_ok ok h"
  shows "exact_codec (read_commitment_tree mx h) (write_commitment_tree mx h) (wf_tree ok mx)"
proof (rule exact_codecI)
  have h: "exact_codec (hs_read h) (hs_write h) ok"
    using assms(2) by (simp add: hash_ser_ok_def fixed_codec_def)
  have mx: "compact_size_ok cs" "vector_ok cs (mx_opt_nodes mx)" "optional_ok (mx_opt_node mx)" "parts_ok (mx_tree mx)"
    using assms(1) by (simp_all add: merkle_ext_ok_def)
  note opt = optional_codec [OF mx(3) h]
  show "read_commitment_tree mx h bs = Inr (t, rest) \<longleftrightarrow> wf_tree ok mx t \<and> bs = write_commitment_tree mx h t @ rest"
    for bs t rest
    unfolding read_commitment_tree_def wf_tree_def write_commitment_tree_def wf_nodes_def
    by (rule three_parts [OF opt opt vector_codec [OF mx(1,2) opt] mx(4)])
qed

lemma witness_codec:
  assumes "merkle_ext_ok cs mx" "hash_ser_ok ok h"
  shows "exact_codec (read_incremental_witness mx h) (write_incremental_witness mx h) (wf_witness ok mx)"
proof (rule exact_codecI)
  have h: "exact_codec (hs_read h) (hs_write h) ok"
    using assms(2) by (simp add: hash_ser_ok_def fixed_codec_def)
  have mx: "compact_size_ok cs" "vector_ok cs (mx_nodes mx)" "optional_ok (mx_opt_tree mx)" "parts_ok (mx_witness mx)"
    using assms(1) by (simp_all add: merkle_ext_ok_def)
  note tree = tree_codec [OF assms]
  note opt = optional_codec [OF mx(3) tree]
  show "read_incremental_witness mx h bs = Inr (t, rest) \<longleftrightarrow>
      wf_witness ok mx t \<and> bs = write_incremental_witness mx h t @ rest" for bs t rest
    unfolding read_incremental_witness_def wf_witness_def write_incremental_witness_def wf_nodes_def
    by (rule three_parts [OF tree vector_codec [OF mx(1,2) h] opt mx(4)])
qed

text \<open>Commitment trees and incremental witnesses are read from exactly the bytes they are written as: a
  successful read returns a value whose parts are in the range of the node codec and are accepted by
  its constructor, and writing gives back the bytes read; parts that the constructor refuses are never
  returned. A frontier in the old layout is the frontier of the commitment tree in its bytes.\<close>

theorem tree_and_witness_codec:
  assumes "merkle_ext_ok cs mx" "hash_ser_ok ok h"
  shows "(read_commitment_tree mx h bs = Inr (t, rest) \<longleftrightarrow>
      wf_tree ok mx t \<and> bs = write_commitment_tree mx h t @ rest)
    \<and> (read_incremental_witness mx h bs = Inr (iw, rest) \<longleftrightarrow>
      wf_witness ok mx iw \<and> bs = write_incremental_witness mx h iw @ rest)
    \<and> (read_frontier_v0 mx h bs = Inr (fr, rest) \<longleftrightarrow>
      (\<exists>t. wf_tree ok mx t \<and> fr = mx_to_frontier mx t \<and> bs = write_commitment_tree mx h t @ rest))"
  using exact_codec.rd_iff [OF tree_codec [OF assms]] exact_codec.rd_iff [OF witness_codec [OF assms]]
  by (auto simp: read_frontier_v0_def)

subsection \<open>Frontiers\<close>

text \<open>The two encodings of a frontier: with its first ommer as left leaf, or with its leaf alone.\<close>

definition frontier_encoding ::
  "('h, 'nf, 'fr, 'ct, 'iw, 'mp) merkle_ext \<Rightarrow> 'h hash_ser \<Rightarrow> bool \<Rightarrow> 'nf \<Rightarrow> bytes option" where
  "frontier_encoding mx h two_leaves f = (case pt_get (mx_nonempty mx) f of (position, leaf, ommers) \<Rightarrow>
     if two_leaves then map_option (\<lambda>(first, rest). write_u64_le position @ hs_write h first @ 1 # hs_write h leaf
         @ vec_write (mx_nodes mx) (hs_write h) rest) (case ommers of [] \<Rightarrow> None | x # xs \<Rightarrow> Some (x, xs))
     else Some (write_u64_le position @ hs_write h leaf @ 0 # vec_write (mx_nodes mx) (hs_write h) ommers))"

definition wf_frontier_encoding where
  "wf_frontier_encoding ok mx two_leaves = wf_parts (mx_nonempty mx) (\<lambda>(position, leaf, ommers).
     ok leaf \<and> list_all ok ommers
     \<and> (if two_leaves then ommers \<noteq> [] \<and> length ommers \<le> 33554433 else length ommers \<le> 33554432))"

lemma frontier_read_iff:
  assumes "merkle_ext_ok cs mx" "hash_ser_ok ok h"
  shows "read_nonempty_frontier_v1 mx h bs = Inr (f, rest) \<longleftrightarrow>
    (\<exists>two_leaves w. wf_frontier_encoding ok mx two_leaves f \<and> frontier_encoding mx h two_leaves f = Some w
       \<and> bs = w @ rest)"
proof -
  have h: "exact_codec (hs_read h) (hs_write h) ok"
    using assms(2) by (simp add: hash_ser_ok_def fixed_codec_def)
  have mx: "compact_size_ok cs" "vector_ok cs (mx_nodes mx)" "optional_ok (mx_opt_node mx)" "parts_ok (mx_nonempty mx)"
    using assms(1) by (simp_all add: merkle_ext_ok_def)
  let ?mk = "pt_make (mx_nonempty mx)" and ?w = "hs_write h"
  let ?parts = "\<lambda>left right ommers. case right of Some r \<Rightarrow> (r, left # ommers) | None \<Rightarrow> (left, ommers)"
  have wo: "opt_write (mx_opt_node mx) ?w x = (case x of None \<Rightarrow> [0] | Some y \<Rightarrow> 1 # ?w y)" for x
    using mx(3) by (simp add: optional_ok_def)
  have "read_nonempty_frontier_v1 mx h bs = Inr (f, rest) \<longleftrightarrow> (\<exists>position left right ommers.
      ok left \<and> pred_option ok right \<and> list_all ok ommers \<and> length ommers \<le> 33554432
      \<and> ?mk (position, ?parts left right ommers) = Some f
      \<and> bs = write_u64_le position @ ?w left @ (case right of None \<Rightarrow> [0] | Some y \<Rightarrow> 1 # ?w y)
           @ vec_write (mx_nodes mx) ?w ommers @ rest)"
    unfolding read_nonempty_frontier_v1_def wo [symmetric]
    by (simp only: rbind_iff position_codec.rd_iff exact_codec.rd_iff [OF h] exact_codec.rd_iff [OF optional_codec [OF mx(3) h]]
        vector_read_iff [OF mx(1,2) h] Let_def case_prod_beta rlift_iff ok_or_simps prod.collapse write_position_def) blast
  also have "\<dots> \<longleftrightarrow> (\<exists>position left ommers. ok left \<and> list_all ok ommers \<and> length ommers \<le> 33554432
        \<and> ?mk (position, left, ommers) = Some f
        \<and> bs = write_u64_le position @ ?w left @ 0 # vec_write (mx_nodes mx) ?w ommers @ rest)
      \<or> (\<exists>position left right ommers. ok left \<and> ok right \<and> list_all ok ommers \<and> length ommers \<le> 33554432
        \<and> ?mk (position, right, left # ommers) = Some f
        \<and> bs = write_u64_le position @ ?w left @ 1 # ?w right @ vec_write (mx_nodes mx) ?w ommers @ rest)"
    unfolding split_option_ex by (simp only: option.case option.pred_inject simp_thms append_Cons append_Nil) blast
  also have "\<dots> \<longleftrightarrow> (\<exists>two_leaves w. wf_frontier_encoding ok mx two_leaves f
      \<and> frontier_encoding mx h two_leaves f = Some w \<and> bs = w @ rest)" (is "?A \<or> ?B \<longleftrightarrow> _")
  proof -
    obtain p l om where g: "pt_get (mx_nonempty mx) f = (p, l, om)" by (cases "pt_get (mx_nonempty mx) f") auto
    define made where "made \<longleftrightarrow> ?mk (p, l, om) = Some f"
    have mk: "?mk (a, b, c) = Some f \<longleftrightarrow> made \<and> a = p \<and> b = l \<and> c = om" for a b c
      using mx(4) g by (auto simp: parts_ok_def made_def)
    have "?A \<longleftrightarrow> wf_frontier_encoding ok mx False f \<and> (\<exists>w. frontier_encoding mx h False f = Some w \<and> bs = w @ rest)"
      by (auto simp: mk wf_frontier_encoding_def frontier_encoding_def wf_parts_def g)
    moreover have "?B \<longleftrightarrow> wf_frontier_encoding ok mx True f \<and> (\<exists>w. frontier_encoding mx h True f = Some w \<and> bs = w @ rest)"
      by (cases om) (auto simp: mk wf_frontier_encoding_def frontier_encoding_def wf_parts_def g)
    ultimately show ?thesis by (auto simp: ex_bool_eq)
  qed
  finally show ?thesis .
qed

lemma frontier_write_eq:
  assumes "merkle_ext_ok cs mx"
  shows "write_nonempty_frontier_v1 mx h f =
    frontier_encoding mx h (mx_is_right_child mx (fst (pt_get (mx_nonempty mx) f))) f"
  using assms by (auto simp: write_nonempty_frontier_v1_def frontier_encoding_def merkle_ext_ok_def optional_ok_def
      write_position_def split: list.split prod.split)

text \<open>C36: A frontier is written in one of two encodings, according to the side of its leaf, and is read from
  both: every successful read accepts one of them and returns the frontier it was made from. So what is
  written is read back, but the reader is not canonical: the encoding of the other side is
  accepted too. Writing panics exactly on a right-hand leaf without ommers.\<close>

theorem frontier_encodings:
  assumes "merkle_ext_ok cs mx" "hash_ser_ok ok h"
  shows "(read_nonempty_frontier_v1 mx h bs = Inr (f, rest) \<longleftrightarrow>
      (\<exists>two_leaves w. wf_frontier_encoding ok mx two_leaves f \<and> frontier_encoding mx h two_leaves f = Some w
         \<and> bs = w @ rest))
    \<and> write_nonempty_frontier_v1 mx h f =
        frontier_encoding mx h (mx_is_right_child mx (fst (pt_get (mx_nonempty mx) f))) f
    \<and> (write_nonempty_frontier_v1 mx h f = None \<longleftrightarrow>
        mx_is_right_child mx (fst (pt_get (mx_nonempty mx) f)) \<and> snd (snd (pt_get (mx_nonempty mx) f)) = [])
    \<and> (pt_make (mx_frontier mx) f = Some fr
        \<and> wf_frontier_encoding ok mx (mx_is_right_child mx (fst (pt_get (mx_nonempty mx) f))) f \<longrightarrow>
        (\<exists>w. write_frontier_v1 mx h fr = Some w \<and> read_frontier_v1 mx h (w @ rest) = Inr (fr, rest)))
    \<and> (\<exists>w. write_frontier_v1 mx h (mx_frontier_empty mx) = Some w
        \<and> read_frontier_v1 mx h (w @ rest) = Inr (mx_frontier_empty mx, rest))"
proof (intro conjI impI)
  let ?side = "mx_is_right_child mx (fst (pt_get (mx_nonempty mx) f))"
  note rd = frontier_read_iff [OF assms] and wr = frontier_write_eq [OF assms(1), of h f]
  show "read_nonempty_frontier_v1 mx h bs = Inr (f, rest) \<longleftrightarrow>
      (\<exists>two_leaves w. wf_frontier_encoding ok mx two_leaves f \<and> frontier_encoding mx h two_leaves f = Some w
         \<and> bs = w @ rest)" by (rule rd)
  show "write_nonempty_frontier_v1 mx h f = frontier_encoding mx h ?side f" by (rule wr)
  show "write_nonempty_frontier_v1 mx h f = None \<longleftrightarrow> ?side \<and> snd (snd (pt_get (mx_nonempty mx) f)) = []"
    unfolding wr by (auto simp: frontier_encoding_def split: list.split prod.split)
  have opt: "optional_ok (mx_opt_nonempty mx)" using assms(1) by (simp add: merkle_ext_ok_def)
  show "\<exists>w. write_frontier_v1 mx h fr = Some w \<and> read_frontier_v1 mx h (w @ rest) = Inr (fr, rest)"
    if a: "pt_make (mx_frontier mx) f = Some fr \<and> wf_frontier_encoding ok mx ?side f"
  proof -
    obtain w where w: "frontier_encoding mx h ?side f = Some w"
    proof (cases "snd (snd (pt_get (mx_nonempty mx) f))")
      case Nil
      with a that show ?thesis
        by (auto simp: wf_frontier_encoding_def wf_parts_def frontier_encoding_def split: prod.split_asm if_splits)
    next
      case (Cons x xs)
      with that show ?thesis
        by (cases "pt_get (mx_nonempty mx) f"; cases ?side) (simp_all add: frontier_encoding_def)
    qed
    have v: "mx_frontier_value mx fr = Some f" using assms(1) a by (simp add: merkle_ext_ok_def)
    have "read_nonempty_frontier_v1 mx h (w @ rest) = Inr (f, rest)" unfolding rd using a w by blast
    then have "opt_read (mx_opt_nonempty mx) (read_nonempty_frontier_v1 mx h) (1 # w @ rest) = Inr (Some f, rest)"
      using opt by (simp add: optional_ok_def)
    then have "read_frontier_v1 mx h ((1 # w) @ rest) = Inr (fr, rest)"
      using a by (simp add: read_frontier_v1_def rbind_def rlift_def)
    moreover have "write_frontier_v1 mx h fr = Some (1 # w)"
      using opt by (simp add: write_frontier_v1_def v wr w optional_ok_def)
    ultimately show ?thesis by blast
  qed
  have "opt_read (mx_opt_nonempty mx) (read_nonempty_frontier_v1 mx h) (0 # rest) = Inr (None, rest)"
    using opt by (simp add: optional_ok_def)
  then have "read_frontier_v1 mx h ([0] @ rest) = Inr (mx_frontier_empty mx, rest)"
    by (simp add: read_frontier_v1_def rbind_def rret_def)
  moreover have "write_frontier_v1 mx h (mx_frontier_empty mx) = Some [0]"
    using opt assms(1) by (simp add: write_frontier_v1_def optional_ok_def merkle_ext_ok_def)
  ultimately show "\<exists>w. write_frontier_v1 mx h (mx_frontier_empty mx) = Some w
        \<and> read_frontier_v1 mx h (w @ rest) = Inr (mx_frontier_empty mx, rest)" by blast
qed

subsection \<open>Reading a Merkle path\<close>

lemma map_res_iff: "map_res f xs = Inr ys \<longleftrightarrow> list_all2 (\<lambda>x y. f x = Inr y) xs ys"
  by (induction xs arbitrary: ys) (auto simp: list_all2_Cons1)

lemma as_chunks_concat:
  assumes "\<And>c. c \<in> set cs \<Longrightarrow> length c = n" "length r < n"
  shows "as_chunks n (concat cs @ r) = (cs, r)"
proof -
  have l: "length (concat cs) = n * length cs" if "\<And>c. c \<in> set cs \<Longrightarrow> length c = n" for cs :: "bytes list"
    using that by (induction cs) auto
  have d: "length (concat cs @ r) div n = length cs"
    using assms(2) l [OF assms(1)] by simp
  have c: "take n (drop (n * i) (concat cs @ r)) = cs ! i" if "i < length cs" for i
  proof -
    have s: "cs = take i cs @ cs ! i # drop (Suc i) cs" using that by (simp add: id_take_nth_drop)
    have "length (concat (take i cs)) = n * i"
      using l [of "take i cs"] assms(1) that by (auto dest: in_set_takeD)
    moreover have "length (cs ! i) = n" using assms(1) that by simp
    ultimately show ?thesis by (subst s) (simp del: append_take_drop_id)
  qed
  have "map (\<lambda>i. take n (drop (n * i) (concat cs @ r))) [0..<length cs] = cs"
    by (rule nth_equalityI) (simp_all only: length_map length_upt diff_zero nth_map_upt add_0 c)
  then show ?thesis using d l [OF assms(1)] by (simp add: as_chunks_def)
qed

lemma as_chunks_split:
  assumes "as_chunks n bs = (cs, r)" "0 < n"
  shows "bs = concat cs @ r \<and> (\<forall>c \<in> set cs. length c = n) \<and> length r < n"
proof -
  let ?k = "length bs div n"
  have cs: "cs = map (\<lambda>i. take n (drop (n * i) bs)) [0..<?k]" and r: "r = drop (n * ?k) bs"
    using assms(1) by (simp_all add: as_chunks_def)
  have "concat (map (\<lambda>i. take n (drop (n * i) bs)) [0..<k]) = take (n * k) bs" for k
    by (induction k) (simp_all add: take_add [symmetric] add.commute)
  then have "bs = concat cs @ r" using cs r by simp
  moreover have "\<forall>c \<in> set cs. length c = n"
  proof
    fix c assume "c \<in> set cs"
    then obtain i where i: "i < ?k" "c = take n (drop (n * i) bs)" using cs by auto
    have "n * Suc i \<le> n * ?k" using i(1) by (intro mult_le_mono2) simp
    also have "\<dots> \<le> length bs" by (rule times_div_less_eq_dividend)
    finally show "length c = n" using i(2) by simp
  qed
  moreover have "length r < n" using r assms(2) by (simp add: minus_mult_div_eq_mod)
  ultimately show ?thesis by blast
qed

lemma auth_path_element_iff:
  assumes "hash_ser_ok ok h" "length c = 33"
  shows "auth_path_element h c = Inr n \<longleftrightarrow> ok n \<and> c = 32 # hs_write h n"
proof -
  obtain b bs where c: "c = b # bs" "length bs = 32" using assms(2) by (cases c) auto
  have fc: "fixed_codec (hs_read h) (hs_write h) ok 32" using assms(1) by (simp add: hash_ser_ok_def)
  note h = fixed_codec.axioms(1) [OF fc] and w = fixed_codec.width [OF fc]
  have "map_ok fst (hs_read h bs) = Inr n \<longleftrightarrow> (\<exists>r. hs_read h bs = Inr (n, r))" by auto
  also have "\<dots> \<longleftrightarrow> ok n \<and> bs = hs_write h n"
    using w c(2) by (auto simp: exact_codec.rd_iff [OF h])
  finally show ?thesis by (auto simp: auth_path_element_def c(1))
qed

text \<open>A Merkle path is read exactly from its depth, then for each node from the last to the first its
  length 32 and its bytes, then the position, with nothing after it. All else is an error, but the
  empty slice panics.\<close>

theorem merkle_path_read:
  assumes "hash_ser_ok ok h"
  shows "(merkle_path_from_slice mx h depth bs = Some (Inr p) \<longleftrightarrow>
      (\<exists>nodes position. length nodes = unat depth \<and> list_all ok nodes \<and> mx_path mx (nodes, position) = Some p
         \<and> bs = depth # concat (map (\<lambda>n. 32 # hs_write h n) (rev nodes)) @ write_u64_le position))
    \<and> (merkle_path_from_slice mx h depth bs = None \<longleftrightarrow> bs = [])"
proof
  let ?enc = "\<lambda>n. 32 # hs_write h n"
  have w: "length (hs_write h n) = 32" if "ok n" for n
    using assms that fixed_codec.width by (auto simp: hash_ser_ok_def)
  show "merkle_path_from_slice mx h depth bs = Some (Inr p) \<longleftrightarrow>
      (\<exists>nodes position. length nodes = unat depth \<and> list_all ok nodes \<and> mx_path mx (nodes, position) = Some p
         \<and> bs = depth # concat (map ?enc (rev nodes)) @ write_u64_le position)" (is "?L \<longleftrightarrow> ?R")
  proof
    assume L: ?L
    then obtain ws where bs: "bs = depth # ws" by (auto simp: merkle_path_from_slice_def split: list.splits if_splits)
    obtain cs r where c: "as_chunks 33 ws = (cs, r)" by (cases "as_chunks 33 ws") auto
    from L obtain nodes position where n: "map_res (auth_path_element h) (rev cs) = Inr nodes"
        "length nodes = unat depth" "read_u64_le r = Inr (position, [])" "mx_path mx (nodes, position) = Some p"
      by (auto simp: merkle_path_from_slice_def bs c split: if_splits)
    have s: "ws = concat cs @ r" "\<forall>c \<in> set cs. length c = 33" using as_chunks_split [OF c] by simp_all
    have "list_all2 (\<lambda>c n. ok n \<and> c = ?enc n) (rev cs) nodes"
      using n(1) unfolding map_res_iff
      by (rule list.rel_mono_strong) (use s(2) auth_path_element_iff [OF assms] in auto)
    then have "rev cs = map ?enc nodes \<and> list_all ok nodes"
      by (induction rule: list_all2_induct) auto
    then have "cs = map ?enc (rev nodes)" "list_all ok nodes" by (simp_all add: rev_map [symmetric] rev_swap)
    moreover have "r = write_u64_le position" using n(3) by (simp add: u64_codec.rd_iff)
    ultimately show ?R using n(2,4) s(1) bs by auto
  next
    assume ?R
    then obtain nodes position where n: "length nodes = unat depth" "list_all ok nodes"
        "mx_path mx (nodes, position) = Some p" "bs = depth # concat (map ?enc (rev nodes)) @ write_u64_le position"
      by blast
    have c: "as_chunks 33 (concat (map ?enc (rev nodes)) @ write_u64_le position)
        = (map ?enc (rev nodes), write_u64_le position)"
      by (rule as_chunks_concat) (use n(2) w in \<open>auto simp: list_all_iff\<close>)
    have "map_res (auth_path_element h) (map ?enc nodes) = Inr nodes"
      unfolding map_res_iff using n(2) auth_path_element_iff [OF assms, of "?enc _"] w
      by (auto simp: list_all2_conv_all_nth list_all_length)
    then have "map_res (auth_path_element h) (rev (map ?enc (rev nodes))) = Inr nodes" by (simp add: rev_map)
    then show ?L
      using n c u64_codec.read_written [of position] by (simp add: merkle_path_from_slice_def)
  qed
  show "merkle_path_from_slice mx h depth bs = None \<longleftrightarrow> bs = []"
    by (simp add: merkle_path_from_slice_def split: list.split)
qed

subsection \<open>An instance\<close>

definition std_optional :: "'a optional_io" where
  "std_optional = \<lparr>opt_read = \<lambda>rd. rbind read_u8 (\<lambda>flag. if flag = 0 then rret None
       else if flag = 1 then rbind rd (\<lambda>x. rret (Some x)) else rfail (InvalidInput ''non-canonical Option<T>'')),
     opt_write = \<lambda>wr x. (case x of None \<Rightarrow> [0] | Some y \<Rightarrow> 1 # wr y)\<rparr>"

lemma std_optional_ok: "optional_ok std_optional"
  by (auto simp: optional_ok_def std_optional_def codec_iff write_u8_def split: if_splits)
    (rule exI [of _ 0], simp)

definition ones_of :: "u64 \<Rightarrow> nat" where
  "ones_of p = length (filter (bit p) [0..<64])"

text \<open>Trees as their parts; a frontier has one ommer for each set bit of its position.\<close>

definition byte_merkle :: "(bytes, u64 \<times> bytes \<times> bytes list, (u64 \<times> bytes \<times> bytes list) option,
    bytes option \<times> bytes option \<times> bytes option list,
    (bytes option \<times> bytes option \<times> bytes option list) \<times> bytes list
      \<times> (bytes option \<times> bytes option \<times> bytes option list) option,
    bytes list \<times> u64) merkle_ext" where
  "byte_merkle = \<lparr>mx_is_right_child = (\<lambda>p. bit p 0),
     mx_nonempty = \<lparr>pt_make = (\<lambda>(p, l, ommers). if length ommers = ones_of p
       then Some (p, l, ommers) else None), pt_get = (\<lambda>x. x)\<rparr>,
     mx_frontier = \<lparr>pt_make = (\<lambda>f. if unat (fst f) < 4294967296 then Some (Some f) else None), pt_get = the\<rparr>,
     mx_frontier_empty = None, mx_frontier_value = (\<lambda>x. x),
     mx_tree = \<lparr>pt_make = (\<lambda>(l, r, ps). if length ps < 32 then Some (l, r, ps) else None), pt_get = (\<lambda>x. x)\<rparr>,
     mx_to_frontier = (\<lambda>t. None),
     mx_witness = \<lparr>pt_make = Some, pt_get = (\<lambda>x. x)\<rparr>,
     mx_path = Some,
     mx_opt_node = std_optional, mx_opt_nonempty = std_optional, mx_opt_tree = std_optional,
     mx_nodes = std_vector bitcoin_compact_size, mx_opt_nodes = std_vector bitcoin_compact_size\<rparr>"

lemma byte_merkle_ok: "merkle_ext_ok bitcoin_compact_size byte_merkle"
  by (auto simp: merkle_ext_ok_def byte_merkle_def std_optional_ok std_vector_ok bitcoin_compact_size_ok parts_ok_def
      split: if_splits)

abbreviation byte_node :: "bytes hash_ser" where
  "byte_node \<equiv> sapling_node byte_element"

lemmas byte_node_ok = sapling_node_ok [OF byte_element_ok [of 32]]

lemma wf_byte_node: "wf_element 32 byte_element x \<longleftrightarrow> length x = 32"
  by (simp add: wf_element_def byte_element_def)

lemma tree_and_witness_codec_witness:
  "\<exists>w. read_commitment_tree byte_merkle byte_node (w @ [7]) = Inr ((Some (replicate 32 1), None, []), [7])"
proof -
  have "wf_tree (wf_element 32 byte_element) byte_merkle (Some (replicate 32 1), None, [])"
    by (simp add: wf_tree_def wf_parts_def wf_nodes_def wf_byte_node byte_merkle_def)
  then show ?thesis
    using conjunct1 [OF tree_and_witness_codec [OF byte_merkle_ok byte_node_ok, where iw = undefined and fr = undefined]]
    by blast
qed

definition example_frontier :: "u64 \<times> bytes \<times> bytes list" where
  "example_frontier = (3, replicate 32 1, [replicate 32 2, replicate 32 3])"

lemma wf_example_frontier: "wf_frontier_encoding (wf_element 32 byte_element) byte_merkle b example_frontier"
proof -
  have "ones_of 3 = 2" by (simp add: ones_of_def upt_conv_Cons)
  then show ?thesis by (simp add: wf_frontier_encoding_def wf_parts_def example_frontier_def wf_byte_node byte_merkle_def)
qed

text \<open>A frontier with two different encodings.\<close>

lemma frontier_encodings_witness:
  "\<exists>v w. write_nonempty_frontier_v1 byte_merkle byte_node example_frontier = Some w \<and> v \<noteq> w
     \<and> read_nonempty_frontier_v1 byte_merkle byte_node (w @ [7]) = Inr (example_frontier, [7])
     \<and> read_nonempty_frontier_v1 byte_merkle byte_node (v @ [7]) = Inr (example_frontier, [7])"
proof -
  note fe = frontier_encodings [OF byte_merkle_ok byte_node_ok, where fr = None and f = example_frontier]
  obtain v w where e: "frontier_encoding byte_merkle byte_node False example_frontier = Some v"
      "frontier_encoding byte_merkle byte_node True example_frontier = Some w"
    by (simp add: frontier_encoding_def example_frontier_def byte_merkle_def)
  then have "v \<noteq> w"
    by (auto simp: frontier_encoding_def example_frontier_def byte_merkle_def Node_write_def sapling_node_def
        byte_element_def append_eq_append_conv)
  moreover have "write_nonempty_frontier_v1 byte_merkle byte_node example_frontier = Some w"
    using fe e by (simp add: example_frontier_def byte_merkle_def)
  ultimately show ?thesis using conjunct1 [OF fe] wf_example_frontier e by blast
qed

lemma merkle_path_read_witness:
  "merkle_path_from_slice byte_merkle byte_node 1 (1 # 32 # replicate 32 5 @ write_u64_le 9)
     = Some (Inr ([replicate 32 5], 9))"
proof -
  have "\<exists>nodes position. length nodes = unat (1 :: u8) \<and> list_all (wf_element 32 byte_element) nodes
      \<and> mx_path byte_merkle (nodes, position) = Some ([replicate 32 5], 9)
      \<and> 1 # 32 # replicate 32 5 @ write_u64_le 9
        = 1 # concat (map (\<lambda>n. 32 # hs_write byte_node n) (rev nodes)) @ write_u64_le position"
    by (intro exI [of _ "[replicate 32 5]"] exI [of _ 9])
      (simp add: wf_byte_node byte_merkle_def sapling_node_def Node_write_def, simp add: byte_element_def)
  then show ?thesis by (rule iffD2 [OF conjunct1 [OF merkle_path_read [OF byte_node_ok]]])
qed

end
