(* ===== verification/Builder.thy ===== *)
theory Builder
  imports Fees TxData
begin

text \<open>
  The transaction builder (\<open>zcash_primitives/src/transaction/builder.rs\<close>): its configuration, its state
  and the operations that add inputs and outputs, with the fee and the value balance of what was
  added. The builders of the pools belong to the external crates \<open>transparent\<close>, \<open>sapling\<close> and
  \<open>orchard\<close>: their operations come in one record for each crate. An operation on \<open>&mut self\<close>
  gives its result and the new state; the outer option of a result is a panic.
\<close>

subsection \<open>External code\<close>

text \<open>
  Keys, addresses, notes, Merkle paths, scripts, anchors, flags, metadata, generator states and
  external error values are only handed on by the builder, in an encoding of their own.
\<close>

type_synonym opaque = bytes

text \<open>The bundle types that the code names (\<open>orchard::builder::BundleType\<close>, \<open>sapling::builder::BundleType\<close>).\<close>

datatype orchard_bundle_type = Transactional bool "u8 option" | OrchardCoinbase
datatype sapling_bundle_type = SaplingDefault | SaplingCoinbase

text \<open>The lengths of the slices of inputs and outputs are all that is read of them.\<close>

record ('tbl, 'op, 'tu, 'i, 'o) transparent_lib =
  tl_empty :: 'tbl
  tl_inputs :: "'tbl \<Rightarrow> (spend_info \<times> 'op) list"
  tl_outputs :: "'tbl \<Rightarrow> usize list"
  tl_add_input :: "opaque \<Rightarrow> 'tbl \<Rightarrow> 'tbl"
  tl_add_p2pkh_input :: "opaque \<Rightarrow> 'op \<Rightarrow> 'o \<Rightarrow> 'tbl \<Rightarrow> (opaque + unit) \<times> 'tbl"
  tl_add_p2sh_input :: "opaque \<Rightarrow> 'op \<Rightarrow> 'o \<Rightarrow> 'tbl \<Rightarrow> (opaque + unit) \<times> 'tbl"
  tl_add_output :: "opaque \<Rightarrow> zatoshis \<Rightarrow> 'tbl \<Rightarrow> (opaque + unit) \<times> 'tbl"
  tl_add_null_data_output :: "bytes \<Rightarrow> 'tbl \<Rightarrow> (opaque + unit) \<times> 'tbl"
  tl_value_balance :: "'tbl \<Rightarrow> balance_error + zat_balance"
  tl_build :: "'tbl \<Rightarrow> 'tu option"
  tl_build_coinbase :: "'tbl \<Rightarrow> block_height \<Rightarrow> opaque option \<Rightarrow> opaque + 'tu"
  tl_build_for_pczt :: "'tbl \<Rightarrow> opaque option"

record ('sbl, 'su) sapling_lib =
  sl_new :: "zip212_enforcement \<Rightarrow> sapling_bundle_type \<Rightarrow> opaque \<Rightarrow> 'sbl"
  sl_empty_tree :: opaque
  sl_inputs :: "'sbl \<Rightarrow> usize"
  sl_outputs :: "'sbl \<Rightarrow> usize"
  sl_num_outputs :: "sapling_bundle_type \<Rightarrow> usize \<Rightarrow> usize \<Rightarrow> string + usize"
  sl_add_spend :: "opaque \<Rightarrow> opaque \<Rightarrow> opaque \<Rightarrow> 'sbl \<Rightarrow> (opaque + unit) \<times> 'sbl"
  sl_add_output :: "opaque option \<Rightarrow> opaque \<Rightarrow> u64 \<Rightarrow> bytes \<Rightarrow> 'sbl \<Rightarrow> (opaque + unit) \<times> 'sbl"
  sl_value_balance :: "'sbl \<Rightarrow> zat_balance"
  sl_build :: "'sbl \<Rightarrow> opaque list \<Rightarrow> opaque \<Rightarrow> opaque + (('su \<times> opaque) option \<times> opaque)"
  sl_build_for_pczt :: "'sbl \<Rightarrow> opaque \<Rightarrow> opaque + ((opaque \<times> opaque) \<times> opaque)"
  sl_empty_meta :: opaque

datatype circuit_version = InsecurePreNu6_2 | FixedPostNu6_2 | PostNu6_3

record ('obl, 'ou) orchard_lib =
  ol_new :: "orchard_bundle_type \<Rightarrow> bundle_version \<Rightarrow> opaque \<Rightarrow> opaque \<Rightarrow> opaque + 'obl"
  ol_new_with_anchor_deferred :: "orchard_bundle_type \<Rightarrow> bundle_version \<Rightarrow> opaque \<Rightarrow> opaque + 'obl"
  ol_default_flags :: "bundle_version \<Rightarrow> opaque"
  ol_spends_disabled :: opaque
  ol_empty_tree :: opaque
  ol_spends :: "'obl \<Rightarrow> usize"
  ol_outputs :: "'obl \<Rightarrow> usize"
  ol_changes :: "'obl \<Rightarrow> usize"
  ol_bundle_type :: "'obl \<Rightarrow> orchard_bundle_type"
  ol_num_actions :: "orchard_bundle_type \<Rightarrow> opaque \<Rightarrow> usize \<Rightarrow> usize \<Rightarrow> string + usize"
  ol_note_version :: "opaque \<Rightarrow> opaque"
  ol_note_v3 :: opaque
  ol_add_spend :: "opaque \<Rightarrow> opaque \<Rightarrow> opaque \<Rightarrow> 'obl \<Rightarrow> (opaque + unit) \<times> 'obl"
  ol_add_spend_unwitnessed :: "opaque \<Rightarrow> opaque \<Rightarrow> 'obl \<Rightarrow> (opaque + unit) \<times> 'obl"
  ol_add_output :: "opaque option \<Rightarrow> opaque \<Rightarrow> u64 \<Rightarrow> bytes \<Rightarrow> 'obl \<Rightarrow> (opaque + unit) \<times> 'obl"
  ol_add_change_output :: "opaque \<Rightarrow> opaque option \<Rightarrow> opaque \<Rightarrow> u64 \<Rightarrow> bytes \<Rightarrow> 'obl \<Rightarrow> (opaque + unit) \<times> 'obl"
  ol_value_balance :: "'obl \<Rightarrow> opaque + zat_balance"
  ol_build :: "'obl \<Rightarrow> opaque \<Rightarrow> opaque + (('ou \<times> opaque) option \<times> opaque)"
  ol_build_for_pczt :: "'obl \<Rightarrow> opaque \<Rightarrow> opaque + ((opaque \<times> opaque) \<times> opaque)"
  ol_empty_meta :: opaque
  ol_circuit_version :: "bundle_version \<Rightarrow> circuit_version"
  ol_proving_key :: "circuit_version \<Rightarrow> opaque"

subsection \<open>Errors and configuration\<close>

datatype shielded_pool = PoolSapling | PoolOfOrchard | PoolOfIronwood
datatype pool_type = PoolTransparent | PoolShielded shielded_pool

definition DEFAULT_TX_EXPIRY_DELTA :: u32 where "DEFAULT_TX_EXPIRY_DELTA = 40"

datatype 'fe build_fee_error = FeeRuleError 'fe | FeeBundle string

datatype 'fe build_error =
    InsufficientFunds zat_balance
  | ChangeRequired zat_balance
  | FeeError "'fe build_fee_error"
  | BalanceFailed balance_error
  | TransparentBuild opaque
  | SaplingBuild opaque
  | OrchardBuild opaque
  | IronwoodBuild opaque
  | OrchardSpend opaque
  | OrchardRecipient opaque
  | IronwoodSpend opaque
  | IronwoodSpendUnsupportedNoteVersion opaque
  | IronwoodRecipient opaque
  | SaplingBuilderNotAvailable
  | OrchardBuilderNotAvailable
  | IronwoodBuilderNotAvailable
  | AnchorDeferralUnsupported tx_version
  | CoinbaseError opaque
  | CoinbaseExpiryHeightMismatch block_height block_height
  | TargetIncompatible branch_id tx_version "pool_type option"
  | StakingActionUnsupported tx_version
  | CrosslinkConfigMismatch
  | CrosslinkPcztUnsupported

record bundle_padding =
  bp_bundle_required :: bool
  bp_pad_to_minimum :: "u8 option"

definition PADDING_DEFAULT :: bundle_padding where
  "PADDING_DEFAULT = \<lparr>bp_bundle_required = False, bp_pad_to_minimum = None\<rparr>"

definition PADDING_UNPADDED :: bundle_padding where
  "PADDING_UNPADDED = \<lparr>bp_bundle_required = False, bp_pad_to_minimum = Some 1\<rparr>"

definition padding_bundle_type :: "bundle_padding \<Rightarrow> orchard_bundle_type" where
  "padding_bundle_type p = Transactional (bp_bundle_required p) (bp_pad_to_minimum p)"

datatype build_config =
    Standard (cfg_sapling_anchor: "opaque option") (cfg_orchard_anchor: "opaque option")
      (cfg_ironwood_anchor: "opaque option") (cfg_orchard_padding: bundle_padding)
      (cfg_ironwood_padding: bundle_padding)
  | VCrosslinkConfig (cfg_sapling_anchor: "opaque option") (cfg_orchard_anchor: "opaque option")
      (cfg_orchard_padding: bundle_padding)
  | Coinbase (cfg_miner_data: "opaque option")

definition sapling_builder_config ::
  "('sbl, 'su) sapling_lib \<Rightarrow> build_config \<Rightarrow> (sapling_bundle_type \<times> opaque) option" where
  "sapling_builder_config sl cfg = (case cfg of
     Standard sapling_anchor _ _ _ _ \<Rightarrow> map_option (\<lambda>a. (SaplingDefault, a)) sapling_anchor
   | VCrosslinkConfig sapling_anchor _ _ \<Rightarrow> map_option (\<lambda>a. (SaplingDefault, a)) sapling_anchor
   | Coinbase _ \<Rightarrow> Some (SaplingCoinbase, sl_empty_tree sl))"

text \<open>\<open>expect\<close> on the constructor of a pool builder: the outer option is the panic.\<close>

definition new_transactional ::
  "('obl, 'ou) orchard_lib \<Rightarrow> bundle_padding \<Rightarrow> bundle_version \<Rightarrow> opaque option \<Rightarrow> 'obl option option" where
  "new_transactional ol padding v anchor = (case anchor of
     None \<Rightarrow> Some None
   | Some a \<Rightarrow> map_option Some (res_ok (ol_new ol (padding_bundle_type padding) v (ol_default_flags ol v) a)))"

definition config_orchard_builder ::
  "('obl, 'ou) orchard_lib \<Rightarrow> build_config \<Rightarrow> bundle_version \<Rightarrow> 'obl option option" where
  "config_orchard_builder ol cfg v = (case cfg of
     Standard _ orchard_anchor _ orchard_padding _ \<Rightarrow> new_transactional ol orchard_padding v orchard_anchor
   | VCrosslinkConfig _ orchard_anchor orchard_padding \<Rightarrow> new_transactional ol orchard_padding v orchard_anchor
   | Coinbase _ \<Rightarrow>
       if v = OrchardBundleV3 then Some None
       else map_option Some (res_ok (ol_new ol OrchardCoinbase v (ol_spends_disabled ol) (ol_empty_tree ol))))"

definition config_ironwood_builder ::
  "('obl, 'ou) orchard_lib \<Rightarrow> build_config \<Rightarrow> 'obl option option" where
  "config_ironwood_builder ol cfg = (case cfg of
     Standard _ _ ironwood_anchor _ ironwood_padding \<Rightarrow>
       new_transactional ol ironwood_padding IronwoodBundleV3 ironwood_anchor
   | Coinbase _ \<Rightarrow>
       map_option Some (res_ok (ol_new ol OrchardCoinbase IronwoodBundleV3 (ol_spends_disabled ol) (ol_empty_tree ol)))
   | VCrosslinkConfig _ _ _ \<Rightarrow> Some None)"

definition config_is_coinbase :: "build_config \<Rightarrow> bool" where
  "config_is_coinbase cfg \<longleftrightarrow> (case cfg of Coinbase _ \<Rightarrow> True | _ \<Rightarrow> False)"

definition config_is_vcrosslink :: "build_config \<Rightarrow> bool" where
  "config_is_vcrosslink cfg \<longleftrightarrow> (case cfg of VCrosslinkConfig _ _ _ \<Rightarrow> True | _ \<Rightarrow> False)"

definition orchard_action_count ::
  "('obl, 'ou) orchard_lib \<Rightarrow> 'obl \<Rightarrow> bool \<Rightarrow> bundle_version \<Rightarrow> string + usize" where
  "orchard_action_count ol builder is_coinbase v =
     (let num_spends = ol_spends ol builder in
      res_bind (ok_or (checked_add_u64 (ol_outputs ol builder) (ol_changes ol builder))
        ''num_outputs + num_changes overflowed'') (\<lambda>num_outputs.
      let bundle_type = ol_bundle_type ol builder;
          flags = (if is_coinbase then ol_spends_disabled ol else ol_default_flags ol v) in
      ol_num_actions ol bundle_type flags num_spends num_outputs))"

subsection \<open>The builder\<close>

text \<open>The progress channel is left out; it is only written to.\<close>

record ('tbl, 'sbl, 'obl) builder =
  b_params :: parameters
  b_tx_version :: tx_version
  b_consensus_branch_id :: branch_id
  b_build_config :: build_config
  b_target_height :: block_height
  b_expiry_height :: block_height
  b_transparent_builder :: 'tbl
  b_sapling_builder :: "'sbl option"
  b_orchard_builder :: "'obl option"
  b_orchard_bundle_version :: "bundle_version option"
  b_ironwood_builder :: "'obl option"
  b_staking_action :: "staking_action option"

definition Builder_new ::
  "('tbl, 'op, 'tu, 'i, 'o) transparent_lib \<Rightarrow> ('sbl, 'su) sapling_lib \<Rightarrow> ('obl, 'ou) orchard_lib
     \<Rightarrow> parameters \<Rightarrow> block_height \<Rightarrow> build_config \<Rightarrow> ('tbl, 'sbl, 'obl) builder option" where
  "Builder_new tlib sl ol params target_height build_config =
     (let consensus_branch_id = for_height params target_height;
          bundle_version = bundle_version_for_branch consensus_branch_id PoolOrchard;
          tx_version = (if config_is_vcrosslink build_config then VCrosslink
                        else suggested_for_branch consensus_branch_id) in
      Option.bind (case bundle_version of None \<Rightarrow> Some None
                   | Some v \<Rightarrow> config_orchard_builder ol build_config v) (\<lambda>orchard_builder.
      let orchard_bundle_version = (if orchard_builder = None then None else bundle_version) in
      Option.bind (if version_has_ironwood tx_version then config_ironwood_builder ol build_config
                   else Some None) (\<lambda>ironwood_builder.
      Option.bind (case sapling_builder_config sl build_config of None \<Rightarrow> Some None
                   | Some (bundle_type, anchor) \<Rightarrow>
                       map_option (\<lambda>z. Some (sl_new sl z bundle_type anchor))
                         (zip212_enforcement_at params target_height)) (\<lambda>sapling_builder.
      Some \<lparr>b_params = params, b_tx_version = tx_version, b_consensus_branch_id = consensus_branch_id,
        b_build_config = build_config, b_target_height = target_height,
        b_expiry_height = (if config_is_coinbase build_config then target_height
                           else bh_add target_height DEFAULT_TX_EXPIRY_DELTA),
        b_transparent_builder = tl_empty tlib, b_sapling_builder = sapling_builder,
        b_orchard_builder = orchard_builder, b_orchard_bundle_version = orchard_bundle_version,
        b_ironwood_builder = ironwood_builder, b_staking_action = None\<rparr>))))"

definition Builder_transparent_inputs where
  "Builder_transparent_inputs tlib b = tl_inputs tlib (b_transparent_builder b)"

definition Builder_transparent_outputs where
  "Builder_transparent_outputs tlib b = tl_outputs tlib (b_transparent_builder b)"

text \<open>The lengths of the slices that \<open>sapling_inputs\<close> and \<open>sapling_outputs\<close> give.\<close>

definition Builder_sapling_inputs :: "('sbl, 'su) sapling_lib \<Rightarrow> ('tbl, 'sbl, 'obl) builder \<Rightarrow> usize" where
  "Builder_sapling_inputs sl b = (case b_sapling_builder b of None \<Rightarrow> 0 | Some s \<Rightarrow> sl_inputs sl s)"

definition Builder_sapling_outputs :: "('sbl, 'su) sapling_lib \<Rightarrow> ('tbl, 'sbl, 'obl) builder \<Rightarrow> usize" where
  "Builder_sapling_outputs sl b = (case b_sapling_builder b of None \<Rightarrow> 0 | Some s \<Rightarrow> sl_outputs sl s)"

definition orchard_builder_in_use :: "('obl, 'ou) orchard_lib \<Rightarrow> 'obl \<Rightarrow> bool" where
  "orchard_builder_in_use ol builder \<longleftrightarrow>
     ol_spends ol builder \<noteq> 0 \<or> ol_outputs ol builder \<noteq> 0 \<or> ol_changes ol builder \<noteq> 0"

definition orchard_in_use :: "('obl, 'ou) orchard_lib \<Rightarrow> ('tbl, 'sbl, 'obl) builder \<Rightarrow> bool" where
  "orchard_in_use ol b \<longleftrightarrow> (case b_orchard_builder b of None \<Rightarrow> False | Some o' \<Rightarrow> orchard_builder_in_use ol o')"

definition ironwood_in_use :: "('obl, 'ou) orchard_lib \<Rightarrow> ('tbl, 'sbl, 'obl) builder \<Rightarrow> bool" where
  "ironwood_in_use ol b \<longleftrightarrow> (case b_ironwood_builder b of None \<Rightarrow> False | Some o' \<Rightarrow> orchard_builder_in_use ol o')"

definition check_version_compatibility ::
  "('sbl, 'su) sapling_lib \<Rightarrow> ('obl, 'ou) orchard_lib \<Rightarrow> ('tbl, 'sbl, 'obl) builder \<Rightarrow> tx_version
     \<Rightarrow> 'fe build_error + unit" where
  "check_version_compatibility sl ol b version =
     (let branch = b_consensus_branch_id b in
      if version_has_crosslink version \<noteq> config_is_vcrosslink (b_build_config b) then Inl CrosslinkConfigMismatch
      else if b_staking_action b \<noteq> None \<and> \<not> version_has_crosslink version then Inl (StakingActionUnsupported version)
      else if \<not> valid_in_branch version branch then Inl (TargetIncompatible branch version None)
      else
        let sapling_available = (version_has_sapling version \<and> has_sapling branch) in
        if \<not> sapling_available \<and> (Builder_sapling_inputs sl b \<noteq> 0 \<or> Builder_sapling_outputs sl b \<noteq> 0)
        then Inl (TargetIncompatible branch version (Some (PoolShielded PoolSapling)))
        else
          let orchard_available = (version_has_orchard version \<and> has_orchard branch) in
          if \<not> orchard_available \<and> orchard_in_use ol b
          then Inl (TargetIncompatible branch version (Some (PoolShielded PoolOfOrchard)))
          else
            let ironwood_branch = (case branch of BranchNu6_3 \<Rightarrow> True | _ \<Rightarrow> False);
                ironwood_available = (version_has_ironwood version \<and> ironwood_branch) in
            if \<not> ironwood_available \<and> ironwood_in_use ol b
            then Inl (TargetIncompatible branch version None)
            else Inr ())"

definition propose_version where
  "propose_version sl ol version b = (case check_version_compatibility sl ol b version of
     Inl e \<Rightarrow> (Inl e, b)
   | Inr _ \<Rightarrow> (Inr (), b\<lparr>b_tx_version := version\<rparr>))"

definition with_expiry_height :: "block_height \<Rightarrow> ('tbl, 'sbl, 'obl) builder \<Rightarrow> ('tbl, 'sbl, 'obl) builder" where
  "with_expiry_height expiry_height b = b\<lparr>b_expiry_height := expiry_height\<rparr>"

definition check_coinbase_expiry_height :: "('tbl, 'sbl, 'obl) builder \<Rightarrow> 'fe build_error + unit" where
  "check_coinbase_expiry_height b =
     (if config_is_coinbase (b_build_config b) \<and> b_expiry_height b \<noteq> b_target_height b
      then Inl (CoinbaseExpiryHeightMismatch (b_target_height b) (b_expiry_height b)) else Inr ())"

subsection \<open>Adding inputs and outputs\<close>

text \<open>A call on the builder of a pool, which may be missing.\<close>

definition on_pool ::
  "'b option \<Rightarrow> 'e \<Rightarrow> (opaque \<Rightarrow> 'e) \<Rightarrow> ('b \<Rightarrow> (opaque + unit) \<times> 'b) \<Rightarrow> ('e + unit) \<times> 'b option" where
  "on_pool pool missing wrap call = (case pool of
     None \<Rightarrow> (Inl missing, None)
   | Some builder \<Rightarrow> (let (r, builder') = call builder in (map_err wrap r, Some builder')))"

definition on_orchard ::
  "(opaque \<Rightarrow> 'fe build_error) \<Rightarrow> ('obl \<Rightarrow> (opaque + unit) \<times> 'obl) \<Rightarrow> ('tbl, 'sbl, 'obl) builder
     \<Rightarrow> ('fe build_error + unit) \<times> ('tbl, 'sbl, 'obl) builder" where
  "on_orchard wrap call b =
     (let (r, o') = on_pool (b_orchard_builder b) OrchardBuilderNotAvailable wrap call
      in (r, b\<lparr>b_orchard_builder := o'\<rparr>))"

definition on_ironwood ::
  "(opaque \<Rightarrow> 'fe build_error) \<Rightarrow> ('obl \<Rightarrow> (opaque + unit) \<times> 'obl) \<Rightarrow> ('tbl, 'sbl, 'obl) builder
     \<Rightarrow> ('fe build_error + unit) \<times> ('tbl, 'sbl, 'obl) builder" where
  "on_ironwood wrap call b =
     (let (r, o') = on_pool (b_ironwood_builder b) IronwoodBuilderNotAvailable wrap call
      in (r, b\<lparr>b_ironwood_builder := o'\<rparr>))"

definition on_sapling ::
  "('sbl \<Rightarrow> (opaque + unit) \<times> 'sbl) \<Rightarrow> ('tbl, 'sbl, 'obl) builder
     \<Rightarrow> ('fe build_error + unit) \<times> ('tbl, 'sbl, 'obl) builder" where
  "on_sapling call b =
     (let (r, s) = on_pool (b_sapling_builder b) SaplingBuilderNotAvailable SaplingBuild call
      in (r, b\<lparr>b_sapling_builder := s\<rparr>))"

definition on_transparent ::
  "('tbl \<Rightarrow> (opaque + unit) \<times> 'tbl) \<Rightarrow> ('tbl, 'sbl, 'obl) builder \<Rightarrow> (opaque + unit) \<times> ('tbl, 'sbl, 'obl) builder" where
  "on_transparent call b =
     (let (r, t) = call (b_transparent_builder b) in (r, b\<lparr>b_transparent_builder := t\<rparr>))"

definition add_orchard_spend where
  "add_orchard_spend ol fvk note merkle_path = on_orchard OrchardSpend (ol_add_spend ol fvk note merkle_path)"

definition add_orchard_output where
  "add_orchard_output ol ovk recipient val memo =
     on_orchard OrchardRecipient (ol_add_output ol ovk recipient (Zatoshis_into_u64 val) memo)"

definition add_orchard_change_output where
  "add_orchard_change_output ol fvk ovk recipient val memo =
     on_orchard OrchardRecipient (ol_add_change_output ol fvk ovk recipient (Zatoshis_into_u64 val) memo)"

definition add_ironwood_spend where
  "add_ironwood_spend ol fvk note merkle_path b =
     (if b_ironwood_builder b \<noteq> None \<and> ol_note_version ol note \<noteq> ol_note_v3 ol
      then (Inl (IronwoodSpendUnsupportedNoteVersion (ol_note_version ol note)), b)
      else on_ironwood IronwoodSpend (ol_add_spend ol fvk note merkle_path) b)"

definition add_ironwood_output where
  "add_ironwood_output ol ovk recipient val memo =
     on_ironwood IronwoodRecipient (ol_add_output ol ovk recipient (Zatoshis_into_u64 val) memo)"

definition add_sapling_spend where
  "add_sapling_spend sl fvk note merkle_path = on_sapling (sl_add_spend sl fvk note merkle_path)"

definition add_sapling_output where
  "add_sapling_output sl ovk recipient val memo =
     on_sapling (sl_add_output sl ovk recipient (Zatoshis_into_u64 val) memo)"

definition add_transparent_input where
  "add_transparent_input tlib input b =
     b\<lparr>b_transparent_builder := tl_add_input tlib input (b_transparent_builder b)\<rparr>"

definition add_transparent_p2pkh_input where
  "add_transparent_p2pkh_input tlib pubkey utxo coin = on_transparent (tl_add_p2pkh_input tlib pubkey utxo coin)"

definition add_transparent_p2sh_input where
  "add_transparent_p2sh_input tlib redeem_script utxo coin =
     on_transparent (tl_add_p2sh_input tlib redeem_script utxo coin)"

definition add_transparent_output where
  "add_transparent_output tlib recipient val = on_transparent (tl_add_output tlib recipient val)"

definition add_transparent_null_data_output where
  "add_transparent_null_data_output tlib data b =
     (let (r, b') = on_transparent (tl_add_null_data_output tlib data) b in (map_err TransparentBuild r, b'))"

definition put_staking_action ::
  "staking_action \<Rightarrow> ('tbl, 'sbl, 'obl) builder \<Rightarrow> ('fe build_error + unit) \<times> ('tbl, 'sbl, 'obl) builder" where
  "put_staking_action staking_action b =
     (if \<not> version_has_crosslink (b_tx_version b) then (Inl (StakingActionUnsupported (b_tx_version b)), b)
      else (Inr (), b\<lparr>b_staking_action := Some staking_action\<rparr>))"

subsection \<open>Balance and fee\<close>

definition pool_balance ::
  "('obl, 'ou) orchard_lib \<Rightarrow> 'obl option \<Rightarrow> balance_error + zat_balance" where
  "pool_balance ol pool = (case pool of
     None \<Rightarrow> Inr ZatBalance_zero | Some builder \<Rightarrow> map_err (\<lambda>_. Overflow) (ol_value_balance ol builder))"

definition Builder_value_balance where
  "Builder_value_balance tlib sl ol b =
     res_bind (tl_value_balance tlib (b_transparent_builder b)) (\<lambda>transparent.
     res_bind (pool_balance ol (b_orchard_builder b)) (\<lambda>orchard.
     res_bind (pool_balance ol (b_ironwood_builder b)) (\<lambda>ironwood.
     ok_or (zb_sum
       [transparent,
        (case b_sapling_builder b of None \<Rightarrow> ZatBalance_zero | Some s \<Rightarrow> sl_value_balance sl s),
        orchard, ironwood,
        (case b_staking_action b of None \<Rightarrow> ZatBalance_zero | Some a \<Rightarrow> value_balance_contribution a)])
       Overflow)))"

text \<open>Sequencing of results that may panic.\<close>

definition pbind :: "('e + 'a) option \<Rightarrow> ('a \<Rightarrow> ('e + 'b) option) \<Rightarrow> ('e + 'b) option" where
  "pbind m f = (case m of None \<Rightarrow> None | Some (Inl e) \<Rightarrow> Some (Inl e) | Some (Inr x) \<Rightarrow> f x)"

type_synonym ('op, 'fe) fee_rule_fn =
  "parameters \<Rightarrow> block_height \<Rightarrow> 'op input_size list \<Rightarrow> usize list \<Rightarrow> usize \<Rightarrow> usize \<Rightarrow> usize \<Rightarrow> usize
     \<Rightarrow> ('fe + zatoshis) option"

definition Builder_get_fee where
  "Builder_get_fee tlib sl ol (fee_required :: ('op, 'fe) fee_rule_fn) b =
     (let sapling_spends = Builder_sapling_inputs sl b;
          is_coinbase = config_is_coinbase (b_build_config b) in
      pbind (Some (map_err FeeBundle (case b_ironwood_builder b of None \<Rightarrow> Inr 0
               | Some builder \<Rightarrow> orchard_action_count ol builder is_coinbase IronwoodBundleV3))) (\<lambda>ironwood_actions.
      pbind (Some (map_err FeeBundle
               (case (b_sapling_builder b, sapling_builder_config sl (b_build_config b)) of
                  (Some builder, Some (bundle_type, _)) \<Rightarrow>
                    sl_num_outputs sl bundle_type sapling_spends (sl_outputs sl builder)
                | _ \<Rightarrow> Inr 0))) (\<lambda>sapling_outputs.
      pbind (case b_orchard_builder b of None \<Rightarrow> Some (Inr 0)
             | Some builder \<Rightarrow> map_option (\<lambda>v. map_err FeeBundle (orchard_action_count ol builder is_coinbase v))
                 (b_orchard_bundle_version b)) (\<lambda>orchard_actions.
      map_option (map_err FeeRuleError)
        (fee_required (b_params b) (b_target_height b)
          (map (\<lambda>(info, outpoint). TransparentInputInfo_serialized_size info outpoint)
            (Builder_transparent_inputs tlib b))
          (map OutputView_serialized_size (Builder_transparent_outputs tlib b))
          sapling_spends sapling_outputs orchard_actions ironwood_actions)))))"

end
