(* ===== verification/Memo.thy ===== *)
theory Memo
  imports Prelude "HOL-Library.List_Lexorder"
begin

text \<open>
  Memos (\<open>components/zcash_protocol/src/memo.rs\<close>): the 512 raw bytes, and the ZIP 302 formats parsed
  from them. A string is the list of its UTF-8 bytes, so \<open>str::from_utf8\<close> is a check. The debug
  texts are in \<open>Messages\<close>.
\<close>

subsection \<open>UTF-8\<close>

text \<open>The width of the well-formed character at the front (Unicode, table 3-7).\<close>

definition cont :: "u8 \<Rightarrow> bool" where
  "cont b \<longleftrightarrow> 0x80 \<le> b \<and> b \<le> 0xBF"

definition utf8_char_len :: "bytes \<Rightarrow> nat option" where
  "utf8_char_len bs = (case bs of
     [] \<Rightarrow> None
   | a # r \<Rightarrow>
     if a \<le> 0x7F then Some 1
     else (case r of
       [] \<Rightarrow> None
     | b # r \<Rightarrow>
       if 0xC2 \<le> a \<and> a \<le> 0xDF then (if cont b then Some 2 else None)
       else (case r of
         [] \<Rightarrow> None
       | c # r \<Rightarrow>
         if 0xE0 \<le> a \<and> a \<le> 0xEF then
           (if cont c \<and> (if a = 0xE0 then 0xA0 \<le> b else 0x80 \<le> b) \<and> (if a = 0xED then b \<le> 0x9F else b \<le> 0xBF)
            then Some 3 else None)
         else (case r of
           [] \<Rightarrow> None
         | d # r \<Rightarrow>
           if 0xF0 \<le> a \<and> a \<le> 0xF4 \<and> cont c \<and> cont d
              \<and> (if a = 0xF0 then 0x90 \<le> b else 0x80 \<le> b) \<and> (if a = 0xF4 then b \<le> 0x8F else b \<le> 0xBF)
           then Some 4 else None))))"

lemma utf8_char_len_bounds: "utf8_char_len bs = Some k \<Longrightarrow> 0 < k \<and> k \<le> length bs"
  by (auto simp: utf8_char_len_def split: list.splits if_splits)

function utf8_valid_up_to :: "bytes \<Rightarrow> nat" where
  "utf8_valid_up_to bs = (case utf8_char_len bs of None \<Rightarrow> 0 | Some k \<Rightarrow> k + utf8_valid_up_to (drop k bs))"
  by auto

termination
proof (relation "measure length")
  show "(drop k bs, bs) \<in> measure length" if "utf8_char_len bs = Some k" for bs k
    using utf8_char_len_bounds [OF that] by auto
qed simp

declare utf8_valid_up_to.simps [simp del]

definition is_utf8 :: "bytes \<Rightarrow> bool" where
  "is_utf8 bs \<longleftrightarrow> utf8_valid_up_to bs = length bs"

subsection \<open>Memo bytes\<close>

datatype memo_error = InvalidUtf8 nat | TooLong nat

datatype memo_bytes = MemoBytes (mb_bytes: bytes)

instantiation memo_bytes :: linorder
begin

definition less_eq_memo_bytes :: "memo_bytes \<Rightarrow> memo_bytes \<Rightarrow> bool" where
  "less_eq_memo_bytes a b \<longleftrightarrow> mb_bytes a \<le> mb_bytes b"

definition less_memo_bytes :: "memo_bytes \<Rightarrow> memo_bytes \<Rightarrow> bool" where
  "less_memo_bytes a b \<longleftrightarrow> mb_bytes a < mb_bytes b"

instance
  by standard (auto simp: less_eq_memo_bytes_def less_memo_bytes_def intro: memo_bytes.expand)

end

definition wf_memo_bytes :: "memo_bytes \<Rightarrow> bool" where
  "wf_memo_bytes m \<longleftrightarrow> length (mb_bytes m) = 512"

definition MemoBytes_empty :: memo_bytes where
  "MemoBytes_empty = MemoBytes ((replicate 512 0)[0 := 0xF6])"

definition pad512 :: "bytes \<Rightarrow> bytes" where
  "pad512 bytes = bytes @ replicate (512 - length bytes) 0"

definition MemoBytes_from_bytes :: "bytes \<Rightarrow> memo_error + memo_bytes" where
  "MemoBytes_from_bytes bytes =
     (if 512 < length bytes then Inl (TooLong (length bytes)) else Inr (MemoBytes (pad512 bytes)))"

definition MemoBytes_as_slice :: "memo_bytes \<Rightarrow> bytes" where
  "MemoBytes_as_slice m =
     (let first_null = (case find (\<lambda>(_, b). b \<noteq> 0) (rev (enumerate 0 (mb_bytes m))) of
          Some (i, _) \<Rightarrow> i + 1 | None \<Rightarrow> 0) in
      take first_null (mb_bytes m))"

subsection \<open>Memos\<close>

datatype text_memo = TextMemo (tm_str: bytes)

datatype memo = MemoEmpty | MemoText text_memo | MemoFuture memo_bytes | MemoArbitrary bytes

definition Memo_try_from :: "memo_bytes \<Rightarrow> memo_error + memo" where
  "Memo_try_from m =
     (let b = mb_bytes m ! 0 in
      if b = 0xF6 \<and> list_all (\<lambda>b. b = 0) (drop 1 (mb_bytes m)) then Inr MemoEmpty
      else if b = 0xFF then Inr (MemoArbitrary (drop 1 (mb_bytes m)))
      else if b \<le> 0xF4 then
        (if is_utf8 (MemoBytes_as_slice m) then Inr (MemoText (TextMemo (MemoBytes_as_slice m)))
         else Inl (InvalidUtf8 (utf8_valid_up_to (MemoBytes_as_slice m))))
      else Inr (MemoFuture m))"

definition Memo_encode :: "memo \<Rightarrow> memo_bytes" where
  "Memo_encode memo = (case memo of
     MemoEmpty \<Rightarrow> MemoBytes_empty
   | MemoText s \<Rightarrow> MemoBytes (pad512 (tm_str s))
   | MemoFuture memo \<Rightarrow> memo
   | MemoArbitrary arb \<Rightarrow> MemoBytes (0xFF # arb))"

definition Memo_from_bytes :: "bytes \<Rightarrow> memo_error + memo" where
  "Memo_from_bytes bytes = res_bind (MemoBytes_from_bytes bytes) Memo_try_from"

definition Memo_from_str :: "bytes \<Rightarrow> memo_error + memo" where
  "Memo_from_str memo =
     (if memo = [] then Inr MemoEmpty
      else if length memo \<le> 512 then Inr (MemoText (TextMemo memo))
      else Inl (TooLong (length memo)))"

subsection \<open>Null padding\<close>

text \<open>The slice is the shortest prefix that padding restores: the bytes without trailing nulls.\<close>

definition strip_nulls :: "bytes \<Rightarrow> bytes" where
  "strip_nulls bs = rev (dropWhile (\<lambda>b. b = 0) (rev bs))"

lemma as_slice_strip: "MemoBytes_as_slice (MemoBytes bs) = strip_nulls bs"
proof (induction bs rule: rev_induct)
  case (snoc b bs)
  have e: "rev (enumerate 0 (bs @ [b])) = (length bs, b) # rev (enumerate 0 bs)"
    by (simp add: enumerate_append_eq)
  have le: "i < length bs" if "find (\<lambda>(_, b). b \<noteq> 0) (rev (enumerate 0 bs)) = Some (i, c)" for i c
  proof -
    have "(i, c) \<in> set (rev (enumerate 0 bs))" using that by (metis find_Some_iff nth_mem)
    then show ?thesis by (simp add: in_set_enumerate_eq)
  qed
  show ?case
  proof (cases "b = 0")
    case True
    with snoc e show ?thesis
      by (auto simp: MemoBytes_as_slice_def strip_nulls_def dest!: le split: option.split)
  next
    case False
    with e show ?thesis by (simp add: MemoBytes_as_slice_def strip_nulls_def)
  qed
qed (simp add: MemoBytes_as_slice_def strip_nulls_def)

lemma strip_nulls_pad:
  "bs = strip_nulls bs @ replicate (length bs - length (strip_nulls bs)) 0"
proof (induction bs rule: rev_induct)
  case (snoc b bs)
  show ?case
  proof (cases "b = 0")
    case True
    have l: "length (strip_nulls bs) \<le> length bs" using arg_cong [OF snoc, of length] by simp
    show ?thesis
      using True snoc l by (simp add: strip_nulls_def Suc_diff_le replicate_append_same [symmetric])
  qed (simp add: strip_nulls_def)
qed (simp add: strip_nulls_def)

lemma dropWhile_nulls: "dropWhile (\<lambda>b. b = 0) (replicate n 0 @ bs) = dropWhile (\<lambda>b. b = (0 :: u8)) bs"
  by (induction n arbitrary: bs) auto

lemma strip_replicate [simp]: "strip_nulls (bs @ replicate n 0) = strip_nulls bs"
  by (simp add: strip_nulls_def dropWhile_nulls)

lemma strip_pad [simp]: "strip_nulls (pad512 bs) = strip_nulls bs"
  by (simp add: pad512_def)

lemma length_strip: "length (strip_nulls bs) \<le> length bs"
  using arg_cong [OF strip_nulls_pad [of bs], of length] by simp

lemma pad_strip: "length bs = 512 \<Longrightarrow> pad512 (strip_nulls bs) = bs"
  using strip_nulls_pad [of bs] by (simp add: pad512_def)

subsection \<open>Strings with trailing nulls\<close>

lemma utf8_char_len_snoc:
  assumes "s \<noteq> []" "utf8_char_len (s @ [0]) = Some k"
  shows "utf8_char_len s = Some k \<and> k \<le> length s"
proof -
  obtain a r where s: "s = a # r" using assms(1) by (cases s) auto
  consider "r = []" | b where "r = [b]" | b c where "r = [b, c]" | b c d t where "r = b # c # d # t"
    by (metis neq_Nil_conv)
  then show ?thesis
    using assms(2) by cases (auto simp: s utf8_char_len_def cont_def split: if_splits)
qed

lemma is_utf8_step: "is_utf8 bs \<longleftrightarrow> bs = [] \<or> (\<exists>k. utf8_char_len bs = Some k \<and> is_utf8 (drop k bs))"
proof (cases "utf8_char_len bs")
  case None
  then show ?thesis unfolding is_utf8_def by (subst utf8_valid_up_to.simps) simp
next
  case (Some k)
  from utf8_char_len_bounds [OF Some] have "bs \<noteq> []" "k \<le> length bs" by auto
  with Some show ?thesis unfolding is_utf8_def by (subst utf8_valid_up_to.simps) auto
qed

lemma is_utf8_snoc: "is_utf8 (s @ [0]) \<Longrightarrow> is_utf8 s"
proof (induction "length s" arbitrary: s rule: less_induct)
  case less
  show ?case
  proof (cases "s = []")
    case True
    then show ?thesis using is_utf8_step [of s] by blast
  next
    case False
    with less.prems obtain k where k: "utf8_char_len (s @ [0]) = Some k" "is_utf8 (drop k (s @ [0]))"
      using is_utf8_step [of "s @ [0]"] by blast
    from utf8_char_len_snoc [OF False k(1)] utf8_char_len_bounds [of s k]
    have s: "utf8_char_len s = Some k" "0 < k" "k \<le> length s" by auto
    with k(2) have "is_utf8 (drop k s)" using less.hyps [of "drop k s"] False by simp
    with s show ?thesis using is_utf8_step [of s] by blast
  qed
qed

lemma is_utf8_strip: "is_utf8 s \<Longrightarrow> is_utf8 (strip_nulls s)"
proof (induction s rule: rev_induct)
  case (snoc b s)
  then show ?case by (cases "b = 0") (simp_all add: strip_nulls_def is_utf8_snoc)
qed (simp add: strip_nulls_def)

lemma below_F4:
  "b \<le> 0x7F \<Longrightarrow> b \<le> (0xF4 :: u8)" "b \<le> 0xDF \<Longrightarrow> b \<le> (0xF4 :: u8)" "b \<le> 0xEF \<Longrightarrow> b \<le> (0xF4 :: u8)"
  by (erule order_trans, simp)+

lemma utf8_first: "is_utf8 (b # s) \<Longrightarrow> b \<le> 0xF4"
  by (subst (asm) is_utf8_step) (auto simp: utf8_char_len_def intro: below_F4 split: list.splits if_splits)

subsection \<open>Properties\<close>

text \<open>The invariants of the types, which their constructors in the code enforce.\<close>

definition wf_memo :: "memo \<Rightarrow> bool" where
  "wf_memo memo \<longleftrightarrow> (case memo of
     MemoEmpty \<Rightarrow> True
   | MemoText t \<Rightarrow> is_utf8 (tm_str t) \<and> length (tm_str t) \<le> 512
   | MemoFuture m \<Rightarrow> wf_memo_bytes m
   | MemoArbitrary arb \<Rightarrow> length arb = 511)"

definition future_bytes :: "memo_bytes \<Rightarrow> bool" where
  "future_bytes m \<longleftrightarrow> (let b = mb_bytes m ! 0 in 0xF4 < b \<and> b \<noteq> 0xFF
     \<and> \<not> (b = 0xF6 \<and> list_all (\<lambda>b. b = 0) (drop 1 (mb_bytes m))))"

lemma mb_split: "wf_memo_bytes m \<Longrightarrow> \<exists>b r. m = MemoBytes (b # r) \<and> length r = 511"
  by (cases m; cases "mb_bytes m") (auto simp: wf_memo_bytes_def)

lemma all_zero: "list_all (\<lambda>b. b = 0) r \<longleftrightarrow> r = replicate (length r) 0"
  by (induction r) auto

lemma pad512_nth0: "pad512 s ! 0 = (case s of [] \<Rightarrow> 0 | b # _ \<Rightarrow> b)"
  by (cases s) (simp_all add: pad512_def)

lemma empty_bytes: "mb_bytes MemoBytes_empty = 0xF6 # replicate 511 0"
proof -
  have "replicate 512 (0 :: u8) = 0 # replicate 511 0" by (simp add: replicate_Suc [symmetric] del: replicate_Suc)
  then show ?thesis by (simp add: MemoBytes_empty_def)
qed

lemma try_from_text:
  assumes "is_utf8 s" "length s \<le> 512"
  shows "Memo_try_from (MemoBytes (pad512 s)) = Inr (MemoText (TextMemo (strip_nulls s)))"
proof -
  have "pad512 s ! 0 \<le> 0xF4"
    using assms(1) utf8_first by (cases s) (auto simp: pad512_nth0)
  then have "pad512 s ! 0 \<le> 0xF4 \<and> pad512 s ! 0 \<noteq> 0xF6 \<and> pad512 s ! 0 \<noteq> 0xFF" by auto
  then show ?thesis
    using is_utf8_strip [OF assms(1)] by (simp add: Memo_try_from_def as_slice_strip Let_def)
qed

text \<open>C37: Memos. Parsing 512 bytes fails exactly when the first is at most 0xF4 and the bytes without trailing
  nulls are not UTF-8, and a memo that was parsed is encoded as exactly these bytes. A memo is
  encoded as 512 bytes; they are parsed back as it except that a text loses its trailing nulls and
  the future formats must not be those of another variant. A string over 512 bytes is
  refused, as is a longer slice; a shorter one is padded.\<close>

theorem memo_codec:
  shows "(wf_memo_bytes m \<longrightarrow>
      (case Memo_try_from m of
         Inr memo \<Rightarrow> wf_memo memo \<and> Memo_encode memo = m
       | Inl e \<Rightarrow> mb_bytes m ! 0 \<le> 0xF4 \<and> \<not> is_utf8 (MemoBytes_as_slice m)))
    \<and> (wf_memo memo \<longrightarrow> wf_memo_bytes (Memo_encode memo)
        \<and> (Memo_try_from (Memo_encode memo) = Inr memo \<longleftrightarrow> (case memo of
             MemoText t \<Rightarrow> strip_nulls (tm_str t) = tm_str t | MemoFuture m \<Rightarrow> future_bytes m | _ \<Rightarrow> True)))
    \<and> (is_utf8 s \<and> s \<noteq> [] \<longrightarrow>
        res_bind (Memo_from_str s) (\<lambda>memo. Memo_try_from (Memo_encode memo)) =
          (if 512 < length s then Inl (TooLong (length s)) else Inr (MemoText (TextMemo (strip_nulls s)))))
    \<and> Memo_from_bytes bs = (if 512 < length bs then Inl (TooLong (length bs)) else Memo_try_from (MemoBytes (pad512 bs)))"
proof (intro conjI impI)
  show "case Memo_try_from m of Inr memo \<Rightarrow> wf_memo memo \<and> Memo_encode memo = m
      | Inl e \<Rightarrow> mb_bytes m ! 0 \<le> 0xF4 \<and> \<not> is_utf8 (MemoBytes_as_slice m)" if wf: "wf_memo_bytes m"
  proof -
    obtain b r where m: "m = MemoBytes (b # r)" "length r = 511" using mb_split [OF wf] by blast
    have pad: "pad512 (strip_nulls (b # r)) = b # r" "length (strip_nulls (b # r)) \<le> 512"
      using pad_strip [of "b # r"] length_strip [of "b # r"] m(2) by simp_all
    have e: "MemoBytes (0xF6 # r) = MemoBytes_empty" if "list_all (\<lambda>b. b = 0) r"
      using that m(2) empty_bytes by (auto simp: all_zero memo_bytes.expand)
    show ?thesis
      using wf pad e by (auto simp: m Memo_try_from_def Memo_encode_def Let_def as_slice_strip wf_memo_def)
  qed
  show "wf_memo_bytes (Memo_encode memo)" if "wf_memo memo"
    using that by (cases memo) (simp_all add: wf_memo_def Memo_encode_def wf_memo_bytes_def empty_bytes pad512_def)
  show "Memo_try_from (Memo_encode memo) = Inr memo \<longleftrightarrow> (case memo of
             MemoText t \<Rightarrow> strip_nulls (tm_str t) = tm_str t | MemoFuture m \<Rightarrow> future_bytes m | _ \<Rightarrow> True)"
    if wf: "wf_memo memo"
  proof (cases memo)
    case (MemoText t)
    then show ?thesis
      using wf try_from_text [of "tm_str t"] by (cases t) (simp add: wf_memo_def Memo_encode_def)
  next
    case (MemoFuture m)
    then show ?thesis
      by (auto simp: Memo_encode_def Memo_try_from_def future_bytes_def Let_def not_less)
  qed (simp_all add: Memo_encode_def Memo_try_from_def Let_def empty_bytes list_all_iff)
  show "res_bind (Memo_from_str s) (\<lambda>memo. Memo_try_from (Memo_encode memo)) =
          (if 512 < length s then Inl (TooLong (length s)) else Inr (MemoText (TextMemo (strip_nulls s))))"
    if "is_utf8 s \<and> s \<noteq> []"
    using that try_from_text [of s] by (simp add: Memo_from_str_def Memo_encode_def)
  show "Memo_from_bytes bs = (if 512 < length bs then Inl (TooLong (length bs)) else Memo_try_from (MemoBytes (pad512 bs)))"
    by (simp add: Memo_from_bytes_def MemoBytes_from_bytes_def)
qed

lemma memo_codec_witness:
  "wf_memo_bytes (Memo_encode (MemoText (TextMemo [104, 105])))
   \<and> Memo_try_from (Memo_encode (MemoText (TextMemo [104, 105]))) = Inr (MemoText (TextMemo [104, 105]))"
proof -
  have "is_utf8 [104, 105]"
    by (simp add: is_utf8_def utf8_valid_up_to.simps utf8_char_len_def)
  then have "wf_memo (MemoText (TextMemo [104, 105]))" by (simp add: wf_memo_def)
  then show ?thesis
    using memo_codec [of MemoBytes_empty "MemoText (TextMemo [104, 105])" "[]" "[]"] by (simp add: strip_nulls_def)
qed

end
