(* ===== verification/BftText.thy ===== *)
theory BftText
  imports BftBlock
begin

text \<open>
  Text forms of keys, hashes, transaction identifiers and roster members: the \<open>Display\<close> and \<open>serde\<close>
  implementations of \<open>keys.rs\<close>, \<open>hash.rs\<close>, \<open>roster.rs\<close> and \<open>block.rs\<close> of \<open>crates/bft_primitives/src\<close>, and the hexadecimal forms of
  \<open>components/zcash_protocol/src/txid.rs\<close>. The crates \<open>hex\<close> and \<open>zcash_encoding\<close> are external; the
  serializer that writes the fields of a record is left out.
\<close>

subsection \<open>Hexadecimal text\<close>

text \<open>The formatting \<open>{:02x}\<close> of the standard library.\<close>

definition hex_digit :: "u8 \<Rightarrow> char" where
  "hex_digit n = ''0123456789abcdef'' ! unat n"

definition lower_hex :: "u8 \<Rightarrow> string" where
  "lower_hex b = [hex_digit (drop_bit 4 b), hex_digit (take_bit 4 b)]"

text \<open>\<open>hex::encode\<close>, \<open>hex::decode_to_slice\<close> into the given number of bytes, and \<open>ReverseHex\<close>.\<close>

record hex_lib =
  hx_encode :: "bytes \<Rightarrow> string"
  hx_decode :: "nat \<Rightarrow> string \<Rightarrow> bytes option"
  rh_encode :: "bytes \<Rightarrow> string"
  rh_decode :: "string \<Rightarrow> bytes option"

definition hex_ok :: "hex_lib \<Rightarrow> bool" where
  "hex_ok hx \<longleftrightarrow> (\<forall>bs. length (hx_encode hx bs) = 2 * length bs \<and> hx_decode hx (length bs) (hx_encode hx bs) = Some bs)
     \<and> (\<forall>n s bs. hx_decode hx n s = Some bs \<longrightarrow> length bs = n \<and> length s = 2 * n)
     \<and> (\<forall>bs. length bs = 32 \<longrightarrow> rh_decode hx (rh_encode hx bs) = Some bs)
     \<and> (\<forall>s bs. rh_decode hx s = Some bs \<longrightarrow> length bs = 32)"

subsection \<open>Keys, hashes and identifiers\<close>

definition PubKeyId_Display :: "pub_key_id \<Rightarrow> string" where
  "PubKeyId_Display k = concat (map lower_hex (rev (pk_bytes k)))"

definition PubKeyId_Debug :: "pub_key_id \<Rightarrow> string" where
  "PubKeyId_Debug k = ''Pub{'' @ lower_hex (pk_bytes k ! 1) @ lower_hex (pk_bytes k ! 0) @ ''}''"

definition VoteSignature_Debug :: "vote_signature \<Rightarrow> string" where
  "VoteSignature_Debug s = ''Sig{'' @ lower_hex (sig_bytes s ! 0) @ lower_hex (sig_bytes s ! 1) @ ''}''"

definition Blake3Hash_Display :: "blake3_hash \<Rightarrow> string" where
  "Blake3Hash_Display h = concat (map lower_hex (hash_bytes h))"

definition PowBlockHash_Display :: "pow_block_hash \<Rightarrow> string" where
  "PowBlockHash_Display h = concat (map lower_hex (rev (pbh_bytes h)))"

definition TxId_as_hex :: "hex_lib \<Rightarrow> tx_id \<Rightarrow> string" where
  "TxId_as_hex hx t = rh_encode hx (txid_bytes t)"

definition TxId_from_hex :: "hex_lib \<Rightarrow> string \<Rightarrow> tx_id option" where
  "TxId_from_hex hx s = map_option TxId (rh_decode hx s)"

datatype text_error = InvalidLength nat | InvalidHex | AmountOutOfRange

definition PubKeyId_serialize :: "hex_lib \<Rightarrow> pub_key_id \<Rightarrow> string" where
  "PubKeyId_serialize hx k = hx_encode hx (rev (pk_bytes k))"

definition PubKeyId_deserialize :: "hex_lib \<Rightarrow> string \<Rightarrow> text_error + pub_key_id" where
  "PubKeyId_deserialize hx le_str =
     (if length le_str \<noteq> 2 * PUB_KEY_ID_BYTES then Inl (InvalidLength (length le_str))
      else map_ok (\<lambda>bytes. PubKeyId (rev bytes)) (ok_or (hx_decode hx PUB_KEY_ID_BYTES le_str) InvalidHex))"

subsection \<open>Roster members\<close>

definition decode_hex_32 :: "hex_lib \<Rightarrow> string \<Rightarrow> text_error + bytes" where
  "decode_hex_32 hx hex_str = ok_or (hx_decode hx 32 hex_str) InvalidHex"

definition zatoshis_from_u64 :: "u64 \<Rightarrow> text_error + zatoshis" where
  "zatoshis_from_u64 zats = map_err (\<lambda>_. AmountOutOfRange) (Zatoshis_from_u64 zats)"

record stake_tx_id_repr =
  sr_txid :: string
  sr_zats :: u64

record roster_member_repr =
  rr_pub_key :: string
  rr_voting_power :: u64
  rr_txids :: "stake_tx_id_repr list"

definition StakeTxId_serialize :: "hex_lib \<Rightarrow> stake_tx_id \<Rightarrow> stake_tx_id_repr" where
  "StakeTxId_serialize hx s = \<lparr>sr_txid = hx_encode hx (txid_bytes (stake_txid s)), sr_zats = Zatoshis_into_u64 (stake_zats s)\<rparr>"

definition StakeTxId_deserialize :: "hex_lib \<Rightarrow> stake_tx_id_repr \<Rightarrow> text_error + stake_tx_id" where
  "StakeTxId_deserialize hx repr =
     res_bind (decode_hex_32 hx (sr_txid repr)) (\<lambda>txid.
     res_bind (zatoshis_from_u64 (sr_zats repr)) (\<lambda>zats.
     Inr \<lparr>stake_txid = TxId txid, stake_zats = zats\<rparr>))"

definition RosterMember_serialize :: "hex_lib \<Rightarrow> roster_member \<Rightarrow> roster_member_repr" where
  "RosterMember_serialize hx m =
     \<lparr>rr_pub_key = hx_encode hx (pk_bytes (rm_pub_key m)),
      rr_voting_power = Zatoshis_into_u64 (rm_voting_power m),
      rr_txids = map (StakeTxId_serialize hx) (rm_txids m)\<rparr>"

definition RosterMember_deserialize :: "hex_lib \<Rightarrow> roster_member_repr \<Rightarrow> text_error + roster_member" where
  "RosterMember_deserialize hx repr =
     res_bind (decode_hex_32 hx (rr_pub_key repr)) (\<lambda>pub_key.
     res_bind (zatoshis_from_u64 (rr_voting_power repr)) (\<lambda>voting_power.
     res_bind (map_res (StakeTxId_deserialize hx) (rr_txids repr)) (\<lambda>txids.
     Inr \<lparr>rm_pub_key = PubKeyId pub_key, rm_voting_power = voting_power, rm_txids = txids\<rparr>)))"

subsection \<open>What the texts keep\<close>

lemma hex_decode_encode: "hex_ok hx \<Longrightarrow> length bs = n \<Longrightarrow> hx_decode hx n (hx_encode hx bs) = Some bs"
  by (auto simp: hex_ok_def)

lemma hex_decode_length: "hex_ok hx \<Longrightarrow> hx_decode hx n s = Some bs \<Longrightarrow> length bs = n"
  unfolding hex_ok_def by blast

lemma zatoshis_text: "wf_zats z \<Longrightarrow> zatoshis_from_u64 (Zatoshis_into_u64 z) = Inr z"
  by (cases z) (simp add: zatoshis_from_u64_def Zatoshis_into_u64_def Zatoshis_from_u64_def map_err_def wf_zats_iff word_le_def)

lemma zatoshis_text_wf: "zatoshis_from_u64 u = Inr z \<Longrightarrow> wf_zats z"
  by (auto simp: zatoshis_from_u64_def map_err_def Zatoshis_from_u64_def wf_zats_iff word_le_def split: sum.splits if_splits)

lemma stake_text: "hex_ok hx \<Longrightarrow> wf_stake s \<Longrightarrow> StakeTxId_deserialize hx (StakeTxId_serialize hx s) = Inr s"
  by (simp add: StakeTxId_deserialize_def StakeTxId_serialize_def decode_hex_32_def hex_decode_encode ok_or_def
      zatoshis_text wf_stake_def wf_txid_def)

lemma stake_text_wf: "hex_ok hx \<Longrightarrow> StakeTxId_deserialize hx r = Inr s \<Longrightarrow> wf_stake s"
  by (auto simp: StakeTxId_deserialize_def decode_hex_32_def ok_or_def wf_stake_def wf_txid_def
      dest: hex_decode_length zatoshis_text_wf split: option.splits)

lemma map_res_all: "map_res f xs = Inr ys \<Longrightarrow> \<forall>x y. f x = Inr y \<longrightarrow> P y \<Longrightarrow> list_all P ys"
proof (induction xs arbitrary: ys)
  case (Cons x xs)
  then obtain y ys' where "f x = Inr y" "map_res f xs = Inr ys'" "ys = y # ys'"
    by (cases "map_res f xs") (auto simp: map_ok_def)
  then show ?case using Cons by simp
qed simp

lemma map_res_map: "(\<And>x. x \<in> set xs \<Longrightarrow> f (g x) = Inr x) \<Longrightarrow> map_res f (map g xs) = Inr xs"
  by (induction xs) auto

text \<open>The text forms of keys and roster members. Well-formed values are read back from their text, and what
  is read has keys and identifiers of 32 bytes and amounts within the supply. A key has two texts: alone it
  is written with its bytes reversed, in a roster member as they stand, and each text is accepted in
  place of the other, as the key with the reversed bytes.\<close>

theorem roster_text:
  assumes "hex_ok hx"
  shows "(wf_pub_key k \<longrightarrow> PubKeyId_deserialize hx (PubKeyId_serialize hx k) = Inr k)
    \<and> (PubKeyId_deserialize hx s = Inr k \<longrightarrow> wf_pub_key k)
    \<and> (length s \<noteq> 64 \<longrightarrow> PubKeyId_deserialize hx s = Inl (InvalidLength (length s)))
    \<and> (wf_member m \<longrightarrow> RosterMember_deserialize hx (RosterMember_serialize hx m) = Inr m
        \<and> PubKeyId_deserialize hx (rr_pub_key (RosterMember_serialize hx m)) = Inr (PubKeyId (rev (pk_bytes (rm_pub_key m)))))
    \<and> (RosterMember_deserialize hx r = Inr m \<longrightarrow>
        wf_pub_key (rm_pub_key m) \<and> wf_zats (rm_voting_power m) \<and> list_all wf_stake (rm_txids m))"
proof (intro conjI impI)
  have len: "length (hx_encode hx bs) = 2 * length bs" for bs using assms by (simp add: hex_ok_def)
  show "PubKeyId_deserialize hx (PubKeyId_serialize hx k) = Inr k" if "wf_pub_key k"
    using that by (simp add: PubKeyId_deserialize_def PubKeyId_serialize_def hex_decode_encode [OF assms] len ok_or_def
        map_ok_def wf_pub_key_def)
  show "wf_pub_key k" if "PubKeyId_deserialize hx s = Inr k"
    using that by (auto simp: PubKeyId_deserialize_def ok_or_def map_ok_def wf_pub_key_def
        dest: hex_decode_length [OF assms] split: if_splits option.splits)
  show "PubKeyId_deserialize hx s = Inl (InvalidLength (length s))" if "length s \<noteq> 64"
    using that by (simp add: PubKeyId_deserialize_def)
  show "RosterMember_deserialize hx (RosterMember_serialize hx m) = Inr m" if "wf_member m"
  proof -
    have "map_res (StakeTxId_deserialize hx) (map (StakeTxId_serialize hx) (rm_txids m)) = Inr (rm_txids m)"
      by (rule map_res_map) (use that stake_text [OF assms] in \<open>auto simp: wf_member_def list_all_iff\<close>)
    then show ?thesis
      using that by (simp add: RosterMember_deserialize_def RosterMember_serialize_def decode_hex_32_def
          hex_decode_encode [OF assms] ok_or_def zatoshis_text wf_member_def wf_pub_key_def)
  qed
  show "PubKeyId_deserialize hx (rr_pub_key (RosterMember_serialize hx m)) = Inr (PubKeyId (rev (pk_bytes (rm_pub_key m))))"
    if "wf_member m"
    using that by (simp add: PubKeyId_deserialize_def RosterMember_serialize_def hex_decode_encode [OF assms] len ok_or_def
        map_ok_def wf_member_def wf_pub_key_def)
  assume r: "RosterMember_deserialize hx r = Inr m"
  then show "wf_pub_key (rm_pub_key m)" "wf_zats (rm_voting_power m)"
    by (auto simp: RosterMember_deserialize_def decode_hex_32_def ok_or_def wf_pub_key_def
        dest: hex_decode_length [OF assms] zatoshis_text_wf split: option.splits)
  obtain txids where "map_res (StakeTxId_deserialize hx) (rr_txids r) = Inr txids" "rm_txids m = txids"
    using r by (auto simp: RosterMember_deserialize_def)
  then show "list_all wf_stake (rm_txids m)"
    using map_res_all [of "StakeTxId_deserialize hx" "rr_txids r" txids wf_stake] stake_text_wf [OF assms] by simp
qed

text \<open>An instance of the crates: lower-case hexadecimal digits.\<close>

definition nibble :: "char \<Rightarrow> u8 option" where
  "nibble c = map_of (map (\<lambda>n. (hex_digit n, n)) [0, 1, 2, 3, 4, 5, 6, 7, 8, 9, 10, 11, 12, 13, 14, 15]) c"

fun unhex :: "string \<Rightarrow> bytes option" where
  "unhex [] = Some []"
| "unhex [_] = None"
| "unhex (a # b # rest) = Option.bind (nibble a) (\<lambda>x. Option.bind (nibble b) (\<lambda>y.
     map_option (\<lambda>bs. (push_bit 4 x OR y) # bs) (unhex rest)))"

definition std_hex :: hex_lib where
  "std_hex = \<lparr>hx_encode = (\<lambda>bs. concat (map lower_hex bs)),
     hx_decode = (\<lambda>n s. Option.bind (unhex s) (\<lambda>bs. if length bs = n then Some bs else None)),
     rh_encode = (\<lambda>bs. concat (map lower_hex (rev bs))),
     rh_decode = (\<lambda>s. Option.bind (unhex s) (\<lambda>bs. if length bs = 32 then Some (rev bs) else None))\<rparr>"

lemma nibble_digit:
  assumes "n < 16"
  shows "nibble (hex_digit n) = Some n"
proof -
  obtain k where k: "n = word_of_nat k" "k < 16"
    by (rule that [of "unat n"]) (use assms in \<open>simp_all add: word_less_nat_alt\<close>)
  have "k = 0 \<or> k = 1 \<or> k = 2 \<or> k = 3 \<or> k = 4 \<or> k = 5 \<or> k = 6 \<or> k = 7 \<or> k = 8 \<or> k = 9
    \<or> k = 10 \<or> k = 11 \<or> k = 12 \<or> k = 13 \<or> k = 14 \<or> k = 15" using k(2) by arith
  then show ?thesis unfolding k(1) by (elim disjE) (simp_all add: nibble_def hex_digit_def)
qed

lemma unhex_lower: "unhex (concat (map lower_hex bs)) = Some bs"
proof (induction bs)
  case (Cons b bs)
  have "nibble (hex_digit (drop_bit 4 b)) = Some (drop_bit 4 b)" "nibble (hex_digit (take_bit 4 b)) = Some (take_bit 4 b)"
    by (rule nibble_digit, use unsigned_less [of b, where 'a = nat] in \<open>simp add: word_less_nat_alt unat_drop_bit_eq drop_bit_eq_div unat_div\<close>,
        rule nibble_digit, simp add: word_less_nat_alt take_bit_eq_mod unat_mod)
  moreover have "push_bit 4 (drop_bit 4 b) OR take_bit 4 b = b"
    by (rule bit_word_eqI) (auto simp: bit_simps)
  ultimately show ?case using Cons by (simp add: lower_hex_def)
qed simp

lemma unhex_length: "unhex s = Some bs \<Longrightarrow> length s = 2 * length bs"
  by (induction s arbitrary: bs rule: unhex.induct) (auto simp: bind_eq_Some_conv)

lemma std_hex_ok: "hex_ok std_hex"
proof -
  have "length (concat (map lower_hex bs)) = 2 * length bs" for bs
    by (induction bs) (simp_all add: lower_hex_def)
  then show ?thesis
    by (auto simp: hex_ok_def std_hex_def unhex_lower bind_eq_Some_conv split: if_splits dest: unhex_length)
qed

text \<open>Under this instance \<open>Display\<close> and \<open>serde\<close> give the same text of a key.\<close>

lemma std_hex_display: "PubKeyId_serialize std_hex k = PubKeyId_Display k"
  by (simp add: PubKeyId_serialize_def PubKeyId_Display_def std_hex_def)

lemma roster_text_witness:
  "PubKeyId_deserialize std_hex (rr_pub_key (RosterMember_serialize std_hex
       \<lparr>rm_pub_key = PubKeyId (1 # replicate 31 0), rm_voting_power = Zatoshis 5, rm_txids = []\<rparr>))
     = Inr (PubKeyId (replicate 31 0 @ [1]))"
proof -
  let ?m = "\<lparr>rm_pub_key = PubKeyId (1 # replicate 31 0), rm_voting_power = Zatoshis 5, rm_txids = []\<rparr>"
  have "wf_member ?m" by (simp add: wf_member_def wf_pub_key_def wf_zats_iff)
  then show ?thesis
    using roster_text [OF std_hex_ok, of "PubKeyId []" "[]" ?m] by simp
qed

end
