(* ===== verification/Messages.thy ===== *)
theory Messages
  imports Builder Memo BftText
begin

text \<open>
  The texts of values and errors (\<open>fmt::Display\<close> and the hand-written \<open>fmt::Debug\<close> of \<open>consensus.rs\<close>,
  \<open>value.rs\<close>, \<open>memo.rs\<close>, \<open>lib.rs\<close> of \<open>components/zcash_protocol/src\<close>, and of \<open>sprout.rs\<close>, \<open>zip317.rs\<close>
  and \<open>builder.rs\<close> of \<open>zcash_primitives\<close>). A text is a character list; a memo text, which is UTF-8, is
  shown with one character per byte. The texts of external errors are parameters.
\<close>

subsection \<open>Numbers\<close>

text \<open>The decimal \<open>Display\<close> of the integer types.\<close>

definition dec_digit :: "nat \<Rightarrow> char" where
  "dec_digit n = ''0123456789'' ! n"

fun dec_nat :: "nat \<Rightarrow> string" where
  "dec_nat n = (if n < 10 then [dec_digit n] else dec_nat (n div 10) @ [dec_digit (n mod 10)])"

declare dec_nat.simps [simp del]

definition dec_int :: "int \<Rightarrow> string" where
  "dec_int i = (if i < 0 then CHR ''-'' # dec_nat (nat (- i)) else dec_nat (nat i))"

lemma dec_digit_inject: "m < 10 \<Longrightarrow> n < 10 \<Longrightarrow> dec_digit m = dec_digit n \<longleftrightarrow> m = n"
proof -
  have "\<forall>m < 10. \<forall>n < 10. (dec_digit m = dec_digit n) = (m = n)"
    unfolding dec_digit_def by code_simp
  then show "m < 10 \<Longrightarrow> n < 10 \<Longrightarrow> dec_digit m = dec_digit n \<longleftrightarrow> m = n" by blast
qed

lemma dec_digit_minus: "n < 10 \<Longrightarrow> dec_digit n \<noteq> CHR ''-''"
proof -
  have "\<forall>n < 10. dec_digit n \<noteq> CHR ''-''" unfolding dec_digit_def by code_simp
  then show "n < 10 \<Longrightarrow> dec_digit n \<noteq> CHR ''-''" by blast
qed

lemma dec_nat_nonempty: "dec_nat n \<noteq> []"
  by (cases n rule: dec_nat.cases) (simp add: dec_nat.simps [of n])

lemma dec_nat_last: "dec_nat n = butlast (dec_nat n) @ [dec_digit (n mod 10)]"
  by (subst (1 2) dec_nat.simps) simp

lemma dec_nat_butlast: "butlast (dec_nat n) = (if n < 10 then [] else dec_nat (n div 10))"
  by (subst dec_nat.simps) simp

lemma dec_nat_inject: "dec_nat m = dec_nat n \<longleftrightarrow> m = n"
proof (induction m arbitrary: n rule: less_induct)
  case (less m)
  show ?case
  proof
    assume eq: "dec_nat m = dec_nat n"
    then have "dec_digit (m mod 10) = dec_digit (n mod 10)" and b: "butlast (dec_nat m) = butlast (dec_nat n)"
      using dec_nat_last [of m] dec_nat_last [of n] by (metis last_snoc)+
    then have mod: "m mod 10 = n mod 10" using dec_digit_inject by simp
    show "m = n"
    proof (cases "m < 10 \<or> n < 10")
      case True
      then have "m < 10" "n < 10"
        using b dec_nat_nonempty [of "m div 10"] dec_nat_nonempty [of "n div 10"]
        by (auto simp: dec_nat_butlast split: if_splits dest: sym)
      then show ?thesis using mod by simp
    next
      case False
      then have "m div 10 = n div 10" using b less.IH [of "m div 10" "n div 10"] by (simp add: dec_nat_butlast)
      with mod show ?thesis by (metis div_mod_decomp)
    qed
  qed simp
qed

lemma dec_nat_no_minus: "hd (dec_nat n) \<noteq> CHR ''-''"
proof (induction n rule: less_induct)
  case (less n)
  show ?case
    using less [of "n div 10"] dec_nat_nonempty [of "n div 10"]
    by (subst dec_nat.simps) (simp add: dec_digit_minus hd_append2)
qed

lemma dec_int_inject: "dec_int i = dec_int j \<longleftrightarrow> i = j"
proof -
  have "dec_nat k \<noteq> CHR ''-'' # s" for k s using dec_nat_no_minus [of k] by auto
  then show ?thesis
    by (auto simp: dec_int_def dec_nat_inject eq_nat_nat_iff dest: sym)
qed

subsection \<open>Values\<close>

definition BlockHeight_Display :: "block_height \<Rightarrow> string" where
  "BlockHeight_Display h = dec_nat (unat (bh_raw h))"

definition ZatBalance_Debug :: "zat_balance \<Rightarrow> string" where
  "ZatBalance_Debug b = ''ZatBalance('' @ dec_int (sint (zb_raw b)) @ '')''"

fun NetworkUpgrade_Display :: "network_upgrade \<Rightarrow> string" where
  "NetworkUpgrade_Display NuOverwinter = ''Overwinter''"
| "NetworkUpgrade_Display NuSapling = ''Sapling''"
| "NetworkUpgrade_Display NuBlossom = ''Blossom''"
| "NetworkUpgrade_Display NuHeartwood = ''Heartwood''"
| "NetworkUpgrade_Display NuCanopy = ''Canopy''"
| "NetworkUpgrade_Display Nu5 = ''Nu5''"
| "NetworkUpgrade_Display Nu6 = ''Nu6''"
| "NetworkUpgrade_Display Nu6_1 = ''Nu6.1''"
| "NetworkUpgrade_Display Nu6_2 = ''Nu6.2''"
| "NetworkUpgrade_Display Nu6_3 = ''Nu6.3''"

fun PoolType_Display :: "pool_type \<Rightarrow> string" where
  "PoolType_Display PoolTransparent = ''Transparent''"
| "PoolType_Display (PoolShielded PoolSapling) = ''Sapling''"
| "PoolType_Display (PoolShielded PoolOfOrchard) = ''Orchard''"
| "PoolType_Display (PoolShielded PoolOfIronwood) = ''Ironwood''"

text \<open>The derived \<open>Debug\<close> of versions, branches and balance errors, which messages contain.\<close>

fun TxVersion_Debug :: "tx_version \<Rightarrow> string" where
  "TxVersion_Debug (Sprout v) = ''Sprout('' @ dec_nat (unat v) @ '')''"
| "TxVersion_Debug V3 = ''V3''"
| "TxVersion_Debug V4 = ''V4''"
| "TxVersion_Debug V5 = ''V5''"
| "TxVersion_Debug V6 = ''V6''"
| "TxVersion_Debug VCrosslink = ''VCrosslink''"

fun BranchId_Debug :: "branch_id \<Rightarrow> string" where
  "BranchId_Debug BranchSprout = ''Sprout''"
| "BranchId_Debug BranchOverwinter = ''Overwinter''"
| "BranchId_Debug BranchSapling = ''Sapling''"
| "BranchId_Debug BranchBlossom = ''Blossom''"
| "BranchId_Debug BranchHeartwood = ''Heartwood''"
| "BranchId_Debug BranchCanopy = ''Canopy''"
| "BranchId_Debug BranchNu5 = ''Nu5''"
| "BranchId_Debug BranchNu6 = ''Nu6''"
| "BranchId_Debug BranchNu6_1 = ''Nu6_1''"
| "BranchId_Debug BranchNu6_2 = ''Nu6_2''"
| "BranchId_Debug BranchNu6_3 = ''Nu6_3''"

fun BalanceError_Debug :: "balance_error \<Rightarrow> string" where
  "BalanceError_Debug Overflow = ''Overflow''"
| "BalanceError_Debug Underflow = ''Underflow''"

lemma dec_paren_inject: "dec_nat m @ '')'' = dec_nat n @ '')'' \<longleftrightarrow> m = n" "dec_int i @ '')'' = dec_int j @ '')'' \<longleftrightarrow> i = j"
  by (simp_all add: dec_nat_inject dec_int_inject)

lemma names_inject:
  "BlockHeight_Display h = BlockHeight_Display k \<longleftrightarrow> h = k"
  "ZatBalance_Debug b = ZatBalance_Debug c \<longleftrightarrow> b = c"
  "NetworkUpgrade_Display u = NetworkUpgrade_Display v \<longleftrightarrow> u = v"
  "PoolType_Display p = PoolType_Display q \<longleftrightarrow> p = q"
  "TxVersion_Debug x = TxVersion_Debug y \<longleftrightarrow> x = y"
  "BranchId_Debug s = BranchId_Debug t \<longleftrightarrow> s = t"
proof -
  show "BlockHeight_Display h = BlockHeight_Display k \<longleftrightarrow> h = k"
    by (cases h; cases k) (simp add: BlockHeight_Display_def dec_nat_inject word_unat_eq_iff)
  show "ZatBalance_Debug b = ZatBalance_Debug c \<longleftrightarrow> b = c"
    by (cases b; cases c) (auto simp: ZatBalance_Debug_def dec_int_inject intro: signed_word_eqI)
  show "NetworkUpgrade_Display u = NetworkUpgrade_Display v \<longleftrightarrow> u = v" by (cases u; cases v) simp_all
  show "PoolType_Display p = PoolType_Display q \<longleftrightarrow> p = q"
    by (cases p rule: PoolType_Display.cases; cases q rule: PoolType_Display.cases) simp_all
  show "TxVersion_Debug x = TxVersion_Debug y \<longleftrightarrow> x = y" by (cases x; cases y) (simp_all add: dec_nat_inject word_unat_eq_iff)
  show "BranchId_Debug s = BranchId_Debug t \<longleftrightarrow> s = t" by (cases s; cases t) simp_all
qed

subsection \<open>Errors\<close>

text \<open>The fee error of ZIP 317.\<close>

fun BalanceError_Display :: "balance_error \<Rightarrow> string" where
  "BalanceError_Display Overflow = ''ZatBalance addition resulted in a value outside the valid range.''"
| "BalanceError_Display Underflow = ''ZatBalance subtraction resulted in a value outside the valid range.''"

fun zip317_FeeError_Display :: "'op fee_error \<Rightarrow> string" where
  "zip317_FeeError_Display (FeeBalance e) =
     ''A balance calculation violated amount validity bounds: '' @ BalanceError_Display e @ ''.''"
| "zip317_FeeError_Display (UnknownP2shInputs _) = ''Only P2PKH or known-P2SH inputs are supported.''"

fun build_FeeError_Display :: "('fe \<Rightarrow> string) \<Rightarrow> 'fe build_fee_error \<Rightarrow> string" where
  "build_FeeError_Display fe (FeeRuleError e) = ''An error occurred in fee calculation: '' @ fe e"
| "build_FeeError_Display fe (FeeBundle b) = ''Bundle structure invalid in fee calculation: '' @ b"

text \<open>The texts of the errors of the pool builders.\<close>

record message_lib =
  ml_transparent_build :: "opaque \<Rightarrow> string"
  ml_sapling_build :: "opaque \<Rightarrow> string"
  ml_orchard_build_debug :: "opaque \<Rightarrow> string"
  ml_orchard_spend :: "opaque \<Rightarrow> string"
  ml_orchard_recipient :: "opaque \<Rightarrow> string"
  ml_note_version_debug :: "opaque \<Rightarrow> string"
  ml_coinbase :: "opaque \<Rightarrow> string"

fun build_Error_Display :: "message_lib \<Rightarrow> ('fe \<Rightarrow> string) \<Rightarrow> 'fe build_error \<Rightarrow> string" where
  "build_Error_Display ml fe (InsufficientFunds amount) =
     ''Insufficient funds for transaction construction; need an additional '' @ ZatBalance_Debug amount @ '' zatoshis''"
| "build_Error_Display ml fe (ChangeRequired amount) =
     ''The transaction requires an additional change output of '' @ ZatBalance_Debug amount @ '' zatoshis''"
| "build_Error_Display ml fe (BalanceFailed e) = ''Invalid amount '' @ BalanceError_Debug e"
| "build_Error_Display ml fe (FeeError e) = ''An error occurred in fee calculation: '' @ build_FeeError_Display fe e"
| "build_Error_Display ml fe (TransparentBuild err) = ml_transparent_build ml err"
| "build_Error_Display ml fe (SaplingBuild err) = ml_sapling_build ml err"
| "build_Error_Display ml fe (OrchardBuild err) = ml_orchard_build_debug ml err"
| "build_Error_Display ml fe (IronwoodBuild err) = ml_orchard_build_debug ml err"
| "build_Error_Display ml fe (OrchardSpend err) = ''Could not add Orchard spend: '' @ ml_orchard_spend ml err"
| "build_Error_Display ml fe (OrchardRecipient err) = ''Could not add Orchard recipient: '' @ ml_orchard_recipient ml err"
| "build_Error_Display ml fe (IronwoodSpend err) = ''Could not add Ironwood spend: '' @ ml_orchard_spend ml err"
| "build_Error_Display ml fe (IronwoodSpendUnsupportedNoteVersion version) =
     ''Could not add Ironwood spend: note version '' @ ml_note_version_debug ml version @ '' is unsupported''"
| "build_Error_Display ml fe (IronwoodRecipient err) = ''Could not add Ironwood recipient: '' @ ml_orchard_recipient ml err"
| "build_Error_Display ml fe SaplingBuilderNotAvailable =
     ''Cannot create Sapling transactions without a Sapling anchor''"
| "build_Error_Display ml fe OrchardBuilderNotAvailable =
     ''Cannot create Orchard transactions without an Orchard anchor, or before NU5 activation''"
| "build_Error_Display ml fe IronwoodBuilderNotAvailable =
     ''Cannot create Ironwood transactions without an Ironwood anchor, or before NU6.3 activation''"
| "build_Error_Display ml fe (AnchorDeferralUnsupported version) =
     ''Transaction version '' @ TxVersion_Debug version
     @ '' commits its signatures to shielded anchors, so anchors cannot be deferred to proving time''"
| "build_Error_Display ml fe (CoinbaseError err) =
     ''An error occurred in constructing a coinbase transaction: '' @ ml_coinbase ml err"
| "build_Error_Display ml fe (CoinbaseExpiryHeightMismatch target_height expiry_height) =
     ''Coinbase transaction expiry height '' @ BlockHeight_Display expiry_height
     @ '' does not match target block height '' @ BlockHeight_Display target_height"
| "build_Error_Display ml fe (TargetIncompatible branch_id version pool_type) = (case pool_type of
     None \<Rightarrow> ''Proposed transaction version '' @ TxVersion_Debug version
       @ '' is not valid for consensus branch '' @ BranchId_Debug branch_id
   | Some t \<Rightarrow> PoolType_Display t @ '' is not supported for proposed transaction version '' @ TxVersion_Debug version
       @ '' or consensus branch '' @ BranchId_Debug branch_id)"
| "build_Error_Display ml fe (StakingActionUnsupported version) =
     ''Transaction version '' @ TxVersion_Debug version @ '' cannot carry a staking action''"
| "build_Error_Display ml fe CrosslinkConfigMismatch = ''VCrosslink requires a matching builder configuration''"
| "build_Error_Display ml fe CrosslinkPcztUnsupported = ''VCrosslink transactions cannot be represented as PCZTs''"

text \<open>The amounts that a caller is told are exact: the texts of the two errors of the balance check differ
  between the errors and between amounts.\<close>

lemma balance_error_texts:
  "build_Error_Display ml fe (InsufficientFunds a) = build_Error_Display ml fe (InsufficientFunds b) \<longleftrightarrow> a = b"
  "build_Error_Display ml fe (ChangeRequired a) = build_Error_Display ml fe (ChangeRequired b) \<longleftrightarrow> a = b"
  "build_Error_Display ml fe (InsufficientFunds a) \<noteq> build_Error_Display ml fe (ChangeRequired b)"
  by (simp_all add: names_inject)

lemma height_mismatch_text:
  "build_Error_Display ml fe (CoinbaseExpiryHeightMismatch t e) = build_Error_Display ml fe (CoinbaseExpiryHeightMismatch t e')
     \<longleftrightarrow> e = e'"
  by (simp add: names_inject)

subsection \<open>Memos and proofs\<close>

text \<open>The loop with its index; \<open>len - 1\<close> is only computed for a byte of a nonempty array.\<close>

definition fmt_colon_delimited_hex :: "bytes \<Rightarrow> string" where
  "fmt_colon_delimited_hex bytes = concat (map (\<lambda>(i, byte).
     lower_hex byte @ (if i \<noteq> length bytes - 1 then '':'' else [])) (enumerate 0 bytes))"

definition MemoBytes_Debug :: "memo_bytes \<Rightarrow> string" where
  "MemoBytes_Debug m = ''MemoBytes('' @ fmt_colon_delimited_hex (mb_bytes m) @ '')''"

text \<open>\<open>{:0x}\<close>: no width, so no padding.\<close>

definition unpadded_hex :: "u8 \<Rightarrow> string" where
  "unpadded_hex b = (if b < 16 then [hex_digit b] else lower_hex b)"

fun Memo_Debug :: "memo \<Rightarrow> string" where
  "Memo_Debug MemoEmpty = ''Memo::Empty''"
| "Memo_Debug (MemoText memo) = ''Memo::Text('' @ [CHR 0x22] @ map (\<lambda>b. char_of (unat b)) (tm_str memo) @ [CHR 0x22] @ '')''"
| "Memo_Debug (MemoFuture bytes) = ''Memo::Future('' @ unpadded_hex (mb_bytes bytes ! 0) @ '')''"
| "Memo_Debug (MemoArbitrary bytes) = ''Memo::Arbitrary('' @ fmt_colon_delimited_hex bytes @ '')''"

fun SproutProof_Debug :: "sprout_proof \<Rightarrow> string" where
  "SproutProof_Debug (Groth _) = ''SproutProof::Groth''"
| "SproutProof_Debug (PHGR _) = ''SproutProof::PHGR''"

lemma colon_hex_step:
  "fmt_colon_delimited_hex (b # bs) = lower_hex b @ (if bs = [] then [] else CHR '':'' # fmt_colon_delimited_hex bs)"
proof (cases "bs = []")
  case False
  then have "Suc i \<noteq> length bs \<longleftrightarrow> i \<noteq> length bs - 1" for i by (cases bs) auto
  then have "(\<lambda>(i, byte). lower_hex byte @ (if i \<noteq> length bs then '':'' else [])) \<circ> apfst Suc
      = (\<lambda>(i, byte). lower_hex byte @ (if i \<noteq> length bs - 1 then '':'' else []))"
    by (simp add: fun_eq_iff)
  then have "map (\<lambda>(i, byte). lower_hex byte @ (if i \<noteq> length bs then '':'' else [])) (enumerate (Suc 0) bs)
      = map (\<lambda>(i, byte). lower_hex byte @ (if i \<noteq> length bs - 1 then '':'' else [])) (enumerate 0 bs)"
    unfolding enumerate_Suc_eq map_map by (rule arg_cong)
  then show ?thesis using False by (simp add: fmt_colon_delimited_hex_def)
qed (simp add: fmt_colon_delimited_hex_def)

lemma hex_digit_inject: "a < 16 \<Longrightarrow> b < 16 \<Longrightarrow> hex_digit a = hex_digit b \<longleftrightarrow> a = b"
proof -
  have "\<forall>m < 16. \<forall>n < 16. (''0123456789abcdef'' ! m = ''0123456789abcdef'' ! n) = (m = n)"
    by code_simp
  then show "a < 16 \<Longrightarrow> b < 16 \<Longrightarrow> hex_digit a = hex_digit b \<longleftrightarrow> a = b"
    by (simp add: hex_digit_def word_less_nat_alt word_unat_eq_iff)
qed

lemma lower_hex_inject: "lower_hex a = lower_hex b \<longleftrightarrow> a = b"
proof
  assume "lower_hex a = lower_hex b"
  moreover have "drop_bit 4 x < 16" for x :: u8
  proof -
    have "drop_bit 4 (unat x) < 16"
      using unsigned_less [of x, where ?'a = nat] by (simp add: drop_bit_eq_div less_mult_imp_div_less)
    then show ?thesis by (simp add: word_less_nat_alt unat_drop_bit_eq)
  qed
  moreover have "take_bit 4 x < 16" for x :: u8
    using take_bit_nat_less_exp [of 4 "unat x"] by (simp add: word_less_nat_alt unsigned_take_bit_eq)
  ultimately have "drop_bit 4 a = drop_bit 4 b" "take_bit 4 a = take_bit 4 b"
    by (simp_all add: lower_hex_def hex_digit_inject)
  then show "a = b" by (metis bits_ident)
qed simp

lemma colon_hex_inject: "fmt_colon_delimited_hex a = fmt_colon_delimited_hex b \<longleftrightarrow> a = b"
proof
  show "fmt_colon_delimited_hex a = fmt_colon_delimited_hex b \<Longrightarrow> a = b"
  proof (induction a arbitrary: b)
    case Nil
    then show ?case
      by (cases b) (simp_all add: colon_hex_step fmt_colon_delimited_hex_def [of "[]"] lower_hex_def)
  next
    case (Cons x xs)
    obtain y ys where b: "b = y # ys"
      using Cons.prems by (cases b) (simp_all add: colon_hex_step fmt_colon_delimited_hex_def [of "[]"] lower_hex_def)
    have "length (lower_hex x) = length (lower_hex y)" by (simp add: lower_hex_def)
    note parts = append_eq_append_conv [OF disjI1, OF this, THEN iffD1, OF Cons.prems [unfolded b colon_hex_step]]
    then have "lower_hex x = lower_hex y"
      "(if xs = [] then [] else CHR '':'' # fmt_colon_delimited_hex xs) = (if ys = [] then [] else CHR '':'' # fmt_colon_delimited_hex ys)"
      by blast+
    then show ?case using Cons.IH [of ys] by (auto simp: b lower_hex_inject split: if_splits)
  qed
qed simp

text \<open>The debug text of raw memo bytes and of an arbitrary memo shows every byte.\<close>

theorem memo_debug_inject:
  "MemoBytes_Debug m = MemoBytes_Debug n \<longleftrightarrow> m = n"
  "Memo_Debug (MemoArbitrary a) = Memo_Debug (MemoArbitrary b) \<longleftrightarrow> a = b"
  by (cases m; cases n; simp add: MemoBytes_Debug_def colon_hex_inject) (simp add: colon_hex_inject)

end
