(* ===== verification/TxMaps.thy ===== *)
theory TxMaps
  imports Transaction
begin

text \<open>
  Rebuilding transaction data (\<open>map_bundles\<close>, \<open>try_map_bundles\<close> and \<open>map_authorization\<close> of
  \<open>zcash_primitives/src/transaction/mod.rs\<close>) and the equality of transactions. A function that Rust
  calls as \<open>FnMut\<close> takes its state and gives the next one: the function on Orchard bundles is called
  on the Orchard bundle first, then on the Ironwood bundle.
\<close>

definition map_bundles where
  "map_bundles f_transparent f_sapling f_orchard s d =
     (let (orchard_bundle, s) = f_orchard s (td_orchard_bundle d);
          (ironwood_bundle, s) = f_orchard s (td_ironwood_bundle d) in
      \<lparr>td_version = td_version d, td_consensus_branch_id = td_consensus_branch_id d,
       td_lock_time = td_lock_time d, td_expiry_height = td_expiry_height d,
       td_transparent_bundle = f_transparent (td_transparent_bundle d),
       td_sprout_bundle = td_sprout_bundle d, td_sapling_bundle = f_sapling (td_sapling_bundle d),
       td_orchard_bundle = orchard_bundle, td_ironwood_bundle = ironwood_bundle,
       td_staking_action = td_staking_action d\<rparr>)"

definition try_map_bundles where
  "try_map_bundles f_transparent f_sapling f_orchard s d =
     res_bind (f_transparent (td_transparent_bundle d)) (\<lambda>transparent_bundle.
     res_bind (f_sapling (td_sapling_bundle d)) (\<lambda>sapling_bundle.
     let (orchard, s) = f_orchard s (td_orchard_bundle d) in
     res_bind orchard (\<lambda>orchard_bundle.
     let (ironwood, s) = f_orchard s (td_ironwood_bundle d) in
     res_bind ironwood (\<lambda>ironwood_bundle. Inr
      \<lparr>td_version = td_version d, td_consensus_branch_id = td_consensus_branch_id d,
       td_lock_time = td_lock_time d, td_expiry_height = td_expiry_height d,
       td_transparent_bundle = transparent_bundle, td_sprout_bundle = td_sprout_bundle d,
       td_sapling_bundle = sapling_bundle, td_orchard_bundle = orchard_bundle,
       td_ironwood_bundle = ironwood_bundle, td_staking_action = td_staking_action d\<rparr>))))"

text \<open>The traversals of the bundles are external; those of Orchard bundles pass their state on.\<close>

definition map_orchard_state :: "('s \<Rightarrow> 'a \<Rightarrow> 'b \<times> 's) \<Rightarrow> 's \<Rightarrow> 'a option \<Rightarrow> 'b option \<times> 's" where
  "map_orchard_state f s b = (case b of None \<Rightarrow> (None, s) | Some b \<Rightarrow> (let (b', s') = f s b in (Some b', s')))"

definition map_authorization where
  "map_authorization map_transparent map_sapling map_orchard s d =
     (let (orchard_bundle, s) = map_orchard_state map_orchard s (td_orchard_bundle d);
          (ironwood_bundle, s) = map_orchard_state map_orchard s (td_ironwood_bundle d) in
      \<lparr>td_version = td_version d, td_consensus_branch_id = td_consensus_branch_id d,
       td_lock_time = td_lock_time d, td_expiry_height = td_expiry_height d,
       td_transparent_bundle = map_option map_transparent (td_transparent_bundle d),
       td_sprout_bundle = td_sprout_bundle d,
       td_sapling_bundle = map_option map_sapling (td_sapling_bundle d),
       td_orchard_bundle = orchard_bundle, td_ironwood_bundle = ironwood_bundle,
       td_staking_action = td_staking_action d\<rparr>)"

definition Transaction_eq :: "('tb, 'sb, 'ob) transaction \<Rightarrow> ('tb, 'sb, 'ob) transaction \<Rightarrow> bool" where
  "Transaction_eq a b \<longleftrightarrow> tx_txid a = tx_txid b"

definition Transaction_into_data :: "('tb, 'sb, 'ob) transaction \<Rightarrow> ('tb, 'sb, 'ob) transaction_data" where
  "Transaction_into_data t = tx_data t"

text \<open>Mapping the authorization is a mapping of the bundles, and a mapping that may fail gives the error of
  the first function that fails, in the order transparent, Sapling, Orchard, Ironwood, or else the
  mapping by the results.\<close>

lemma map_authorization_bundles:
  "map_authorization mt ms mo s d = map_bundles (map_option mt) (map_option ms) (map_orchard_state mo) s d"
  by (simp add: map_authorization_def map_bundles_def)

lemma try_map_bundles_result:
  "try_map_bundles ft fs fo s d =
    (case (ft (td_transparent_bundle d), fs (td_sapling_bundle d), fo s (td_orchard_bundle d)) of
       (Inl e, _, _) \<Rightarrow> Inl e
     | (Inr t, Inl e, _) \<Rightarrow> Inl e
     | (Inr t, Inr sb, (Inl e, _)) \<Rightarrow> Inl e
     | (Inr t, Inr sb, (Inr ob, s')) \<Rightarrow> (case fo s' (td_ironwood_bundle d) of
           (Inl e, _) \<Rightarrow> Inl e
         | (Inr ib, s'') \<Rightarrow> Inr (map_bundles (\<lambda>_. t) (\<lambda>_. sb) (\<lambda>first _. (if first then ob else ib, False)) True d)))"
  by (auto simp: try_map_bundles_def map_bundles_def split: sum.splits prod.splits)

lemma map_bundles_id: "map_bundles (\<lambda>b. b) (\<lambda>b. b) (\<lambda>s b. (b, s)) s d = d"
  by (simp add: map_bundles_def)

lemma map_bundles_comp:
  "map_bundles gt gs (\<lambda>s b. (go b, s)) s' (map_bundles ft fs (\<lambda>s b. (fo b, s)) s d)
     = map_bundles (gt \<circ> ft) (gs \<circ> fs) (\<lambda>s b. (go (fo b), s)) s d"
  by (simp add: map_bundles_def)

text \<open>Taking a transaction apart and freezing it again gives an equal one from version 5 on.\<close>

lemma refreeze:
  assumes "Transaction_from_data te d = Some (Inr t)" "td_version d \<in> {V5, V6, VCrosslink}"
  shows "Transaction_from_data te (Transaction_into_data t) = Some (Inr t)"
  using assms by (auto simp: Transaction_from_data_def from_data_v5_def from_data_v6_def from_data_vcrosslink_def
      Transaction_into_data_def)

end
