(* ===== verification/HashStream.thy ===== *)
theory HashStream
  imports TxId
begin

text \<open>
  Hashing by writing (\<open>StateWrite\<close> of \<open>zcash_primitives/src/encoding.rs\<close>, \<open>HashWriter\<close> of \<open>block.rs\<close>):
  the digests of \<open>txid.rs\<close> as the loops of writes that the code runs, with the \<open>unwrap\<close> of each write.
  They never panic, and they compute the functions of \<open>TxId\<close>.
\<close>

subsection \<open>Writers\<close>

text \<open>\<open>Write::write_all\<close> of the standard library over the \<open>write\<close> of a writer, which says how many bytes it
  took. \<open>None\<close> is the error \<open>WriteZero\<close>; every caller below unwraps it.\<close>

function write_all :: "('s \<Rightarrow> bytes \<Rightarrow> 's \<times> nat) \<Rightarrow> 's \<Rightarrow> bytes \<Rightarrow> 's option" where
  "write_all wr s buf = (if buf = [] then Some s
     else case wr s buf of (s', n) \<Rightarrow> if n = 0 then None else write_all wr s' (drop n buf))"
  by pat_completeness auto
termination
  by (relation "measure (\<lambda>(wr, s, buf). length buf)") auto

declare write_all.simps [simp del]

text \<open>A loop that performs the given writes for each element.\<close>

primrec write_seq :: "('s \<Rightarrow> bytes \<Rightarrow> 's \<times> nat) \<Rightarrow> 's \<Rightarrow> bytes list \<Rightarrow> 's option" where
  "write_seq wr s [] = Some s"
| "write_seq wr s (b # bs) = Option.bind (write_all wr s b) (\<lambda>s'. write_seq wr s' bs)"

primrec write_loop :: "('s \<Rightarrow> bytes \<Rightarrow> 's \<times> nat) \<Rightarrow> ('x \<Rightarrow> bytes list) \<Rightarrow> 's \<Rightarrow> 'x list \<Rightarrow> 's option" where
  "write_loop wr f s [] = Some s"
| "write_loop wr f s (x # xs) = Option.bind (write_seq wr s (f x)) (\<lambda>s'. write_loop wr f s' xs)"

subsection \<open>The interface\<close>

text \<open>A sink: a writer that takes every buffer whole, and what has been written to it.\<close>

locale sink =
  fixes wr :: "'s \<Rightarrow> bytes \<Rightarrow> 's \<times> nat" and written :: "'s \<Rightarrow> bytes"
    and extend :: "bytes \<Rightarrow> 's \<Rightarrow> 's"
  assumes takes_all: "wr s buf = (extend buf s, length buf)"
    and extend_written: "written (extend buf s) = written s @ buf"
    and extend_extend: "extend b (extend a s) = extend (a @ b) s"
    and extend_nil: "extend [] s = s"
begin

lemma write_all_ok: "write_all wr s buf = Some (extend buf s)"
  by (cases "buf = []") (simp_all add: write_all.simps takes_all extend_nil write_all.simps [of _ _ "[]"])

lemma write_seq_ok: "write_seq wr s bs = Some (extend (concat bs) s)"
  by (induction bs arbitrary: s) (simp_all add: write_all_ok extend_nil extend_extend)

lemma write_loop_ok: "write_loop wr f s xs = Some (extend (concat (map (concat \<circ> f) xs)) s)"
  by (induction xs arbitrary: s) (simp_all add: write_seq_ok extend_nil extend_extend)

lemma loop_written: "write_loop wr f s xs = Some s' \<Longrightarrow> written s' = written s @ concat (map (concat \<circ> f) xs)"
  by (auto simp: write_loop_ok extend_written)

end

subsection \<open>Hash states\<close>

text \<open>The external BLAKE2b and SHA-256 states hold what was fed to them; \<open>finalize\<close> hashes it.\<close>

record hash_state =
  hs_personal :: bytes
  hs_written :: bytes

definition new_hasher :: "bytes \<Rightarrow> hash_state" where
  "new_hasher personal = \<lparr>hs_personal = personal, hs_written = []\<rparr>"

definition StateWrite_write :: "hash_state \<Rightarrow> bytes \<Rightarrow> hash_state \<times> nat" where
  "StateWrite_write s buf = (s\<lparr>hs_written := hs_written s @ buf\<rparr>, length buf)"

definition StateWrite_finalize :: "'ob digest_ext \<Rightarrow> hash_state \<Rightarrow> bytes" where
  "StateWrite_finalize dx s = dx_blake2b dx (hs_personal s) (hs_written s)"

interpretation state_write: sink StateWrite_write hs_written "\<lambda>buf s. s\<lparr>hs_written := hs_written s @ buf\<rparr>"
  by unfold_locales (simp_all add: StateWrite_write_def)

definition HashWriter_write :: "bytes \<Rightarrow> bytes \<Rightarrow> bytes \<times> nat" where
  "HashWriter_write s bytes = (s @ bytes, length bytes)"

interpretation hash_writer: sink HashWriter_write "\<lambda>s. s" "\<lambda>buf s. s @ buf"
  by unfold_locales (simp_all add: HashWriter_write_def)

lemma finalize_new [simp]:
  "StateWrite_finalize dx ((new_hasher p)\<lparr>hs_written := m\<rparr>) = hasher dx p m"
  "StateWrite_finalize dx (new_hasher p) = hasher dx p []"
  by (simp_all add: StateWrite_finalize_def new_hasher_def hasher_def)

lemma new_hasher_written [simp]: "hs_written (new_hasher p) = []"
  by (simp add: new_hasher_def)

subsection \<open>The digests as loops\<close>

text \<open>One hasher and one loop.\<close>

definition hash_loop :: "'ob digest_ext \<Rightarrow> bytes \<Rightarrow> ('x \<Rightarrow> bytes list) \<Rightarrow> 'x list \<Rightarrow> bytes option" where
  "hash_loop dx personal f xs =
     map_option (StateWrite_finalize dx) (write_loop StateWrite_write f (new_hasher personal) xs)"

lemma hash_loop_eq: "hash_loop dx personal f xs = Some (hasher dx personal (concat (map (concat \<circ> f) xs)))"
  by (simp add: hash_loop_def state_write.write_loop_ok)

text \<open>The writes of one spend to its two hashers, and of one output to its three.\<close>

definition spend_step ::
  "('cv, 'fe, 'cmu, 'rk) sapling_ext \<Rightarrow> tx_version \<Rightarrow> hash_state \<times> hash_state \<Rightarrow> ('cv, 'fe, 'rk) spend_description
     \<Rightarrow> (hash_state \<times> hash_state) option" where
  "spend_step sx version st s_spend = (case st of (ch, nh) \<Rightarrow>
     Option.bind (write_all StateWrite_write ch (sd_nullifier s_spend)) (\<lambda>ch.
     Option.bind (write_all StateWrite_write nh (el_bytes (sx_cv sx) (sd_cv s_spend))) (\<lambda>nh.
     Option.bind (if write_anchor version
       then write_all StateWrite_write nh (el_bytes (sx_base sx) (sd_anchor s_spend)) else Some nh) (\<lambda>nh.
     Option.bind (write_all StateWrite_write nh (el_bytes (sx_rk sx) (sd_rk s_spend))) (\<lambda>nh.
     Some (ch, nh))))))"

definition output_step ::
  "('cv, 'fe, 'cmu, 'rk) sapling_ext \<Rightarrow> hash_state \<times> hash_state \<times> hash_state \<Rightarrow> ('cv, 'cmu) output_description
     \<Rightarrow> (hash_state \<times> hash_state \<times> hash_state) option" where
  "output_step sx st s_out = (case st of (ch, mh, nh) \<Rightarrow>
     Option.bind (write_seq StateWrite_write ch [el_bytes (sx_cmu sx) (od_cmu s_out), od_ephemeral_key s_out,
       take 52 (od_enc_ciphertext s_out)]) (\<lambda>ch.
     Option.bind (write_all StateWrite_write mh (take 512 (drop 52 (od_enc_ciphertext s_out)))) (\<lambda>mh.
     Option.bind (write_seq StateWrite_write nh [el_bytes (sx_cv sx) (od_cv s_out),
       drop 564 (od_enc_ciphertext s_out), od_out_ciphertext s_out]) (\<lambda>nh.
     Some (ch, mh, nh)))))"

primrec try_loop :: "('s \<Rightarrow> 'x \<Rightarrow> 's option) \<Rightarrow> 's \<Rightarrow> 'x list \<Rightarrow> 's option" where
  "try_loop f s [] = Some s"
| "try_loop f s (x # xs) = Option.bind (f s x) (\<lambda>s'. try_loop f s' xs)"

definition hash_sapling_spends_stream where
  "hash_sapling_spends_stream dx sx version shielded_spends =
     (let h = new_hasher ZCASH_SAPLING_SPENDS_HASH_PERSONALIZATION in
      map_option (StateWrite_finalize dx)
       (if shielded_spends \<noteq> [] then
          Option.bind (try_loop (spend_step sx version)
            (new_hasher ZCASH_SAPLING_SPENDS_COMPACT_HASH_PERSONALIZATION,
             new_hasher (sapling_spends_noncompact_personalization version)) shielded_spends) (\<lambda>(ch, nh).
          write_seq StateWrite_write h [StateWrite_finalize dx ch, StateWrite_finalize dx nh])
        else Some h))"

definition hash_sapling_outputs_stream where
  "hash_sapling_outputs_stream dx sx shielded_outputs =
     (let h = new_hasher ZCASH_SAPLING_OUTPUTS_HASH_PERSONALIZATION in
      map_option (StateWrite_finalize dx)
       (if shielded_outputs \<noteq> [] then
          Option.bind (try_loop (output_step sx)
            (new_hasher ZCASH_SAPLING_OUTPUTS_COMPACT_HASH_PERSONALIZATION,
             new_hasher ZCASH_SAPLING_OUTPUTS_MEMOS_HASH_PERSONALIZATION,
             new_hasher ZCASH_SAPLING_OUTPUTS_NONCOMPACT_HASH_PERSONALIZATION) shielded_outputs) (\<lambda>(ch, mh, nh).
          write_seq StateWrite_write h
            [StateWrite_finalize dx ch, StateWrite_finalize dx mh, StateWrite_finalize dx nh])
        else Some h))"

definition auth_digest_sapling_stream where
  "auth_digest_sapling_stream dx sx version sapling_bundle =
     (let h = new_hasher (sapling_auth_personalization version) in
      map_option (StateWrite_finalize dx)
       (case sapling_bundle of None \<Rightarrow> Some h
        | Some bundle \<Rightarrow>
            Option.bind (write_loop StateWrite_write (\<lambda>spend. [sd_zkproof spend]) h (sap_spends bundle)) (\<lambda>h.
            Option.bind (write_loop StateWrite_write (\<lambda>spend. [sd_spend_auth_sig spend]) h (sap_spends bundle)) (\<lambda>h.
            Option.bind (write_loop StateWrite_write (\<lambda>output. [od_zkproof output]) h (sap_outputs bundle)) (\<lambda>h.
            Option.bind (write_all StateWrite_write h (sap_binding_sig bundle)) (\<lambda>h.
            if sapling_auth_includes_anchor version \<and> sap_spends bundle \<noteq> []
            then write_all StateWrite_write h (el_bytes (sx_base sx) (sd_anchor (sap_spends bundle ! 0)))
            else Some h))))))"

subsection \<open>They compute the digests\<close>

lemma spend_loop_eq:
  "try_loop (spend_step sx version) (ch, nh) ss = Some
     (ch\<lparr>hs_written := hs_written ch @ concat (map sd_nullifier ss)\<rparr>,
      nh\<lparr>hs_written := hs_written nh @ concat (map (spend_noncompact sx version) ss)\<rparr>)"
  by (induction ss arbitrary: ch nh)
    (simp_all add: spend_step_def state_write.write_all_ok spend_noncompact_def)

lemma output_loop_eq:
  "try_loop (output_step sx) (ch, mh, nh) ds = Some
     (ch\<lparr>hs_written := hs_written ch @ concat (map (output_compact sx) ds)\<rparr>,
      mh\<lparr>hs_written := hs_written mh @ concat (map output_memo ds)\<rparr>,
      nh\<lparr>hs_written := hs_written nh @ concat (map (output_noncompact sx) ds)\<rparr>)"
  by (induction ds arbitrary: ch mh nh)
    (simp_all add: output_step_def state_write.write_all_ok state_write.write_seq_ok output_compact_def
      output_memo_def output_noncompact_def del: write_seq.simps)

theorem digest_streams:
  "hash_loop dx ZCASH_PREVOUTS_HASH_PERSONALIZATION (\<lambda>t_in. [tp_prevout_bytes tp t_in]) vin
     = Some (transparent_prevout_hash dx tp vin)
   \<and> hash_loop dx ZCASH_SEQUENCE_HASH_PERSONALIZATION (\<lambda>t_in. [write_u32_le (tp_sequence tp t_in)]) vin
     = Some (transparent_sequence_hash dx tp vin)
   \<and> hash_loop dx ZCASH_OUTPUTS_HASH_PERSONALIZATION (\<lambda>t_out. [tp_write_out tp t_out]) vout
     = Some (transparent_outputs_hash dx tp vout)
   \<and> hash_sapling_spends_stream dx sx version ss = Some (hash_sapling_spends dx sx version ss)
   \<and> hash_sapling_outputs_stream dx sx ds = Some (hash_sapling_outputs dx sx ds)
   \<and> auth_digest_sapling_stream dx sx version sb = Some (auth_digest_sapling dx sx version sb)"
proof (intro conjI)
  show "hash_sapling_spends_stream dx sx version ss = Some (hash_sapling_spends dx sx version ss)"
    by (simp add: hash_sapling_spends_stream_def hash_sapling_spends_def Let_def spend_loop_eq
        state_write.write_seq_ok del: write_seq.simps)
  show "hash_sapling_outputs_stream dx sx ds = Some (hash_sapling_outputs dx sx ds)"
    by (simp add: hash_sapling_outputs_stream_def hash_sapling_outputs_def Let_def output_loop_eq
        state_write.write_seq_ok del: write_seq.simps)
  show "auth_digest_sapling_stream dx sx version sb = Some (auth_digest_sapling dx sx version sb)"
    by (cases sb) (auto simp: auth_digest_sapling_stream_def auth_digest_sapling_def Let_def
        state_write.write_loop_ok state_write.write_all_ok comp_def neq_Nil_conv split: list.split)
qed (simp_all add: hash_loop_eq comp_def transparent_prevout_hash_def transparent_sequence_hash_def
    transparent_outputs_hash_def)

end
