(* ===== verification/TxDigest.thy ===== *)
theory TxDigest
  imports HashStream
begin

text \<open>
  The trait \<open>TransactionDigest\<close> of \<open>zcash_primitives/src/transaction/mod.rs\<close> and its implementations
  \<open>TxIdDigester\<close> and \<open>BlockTxCommitmentDigester\<close> of \<open>txid.rs\<close>. The trait is a record of its methods
  over its associated types; a method that can panic gives an option. \<open>TransactionData::digest\<close> over the
  two implementations gives the functions of \<open>TxId\<close>.
\<close>

subsection \<open>The trait\<close>

record ('tb, 'sb, 'ob, 'hd, 'td, 'sd, 'od, 'id, 'cd, 'dg) transaction_digest =
  digest_header :: "tx_version \<Rightarrow> branch_id \<Rightarrow> u32 \<Rightarrow> block_height \<Rightarrow> 'hd"
  digest_transparent :: "'tb option \<Rightarrow> 'td"
  digest_sapling :: "tx_version \<Rightarrow> 'sb option \<Rightarrow> 'sd"
  digest_orchard :: "tx_version \<Rightarrow> 'ob option \<Rightarrow> 'od option"
  digest_ironwood :: "'ob option \<Rightarrow> 'id option"
  digest_crosslink :: "staking_action option \<Rightarrow> 'cd"
  digest_combine :: "'hd \<Rightarrow> 'td \<Rightarrow> 'sd \<Rightarrow> 'od \<Rightarrow> 'id \<Rightarrow> 'cd \<Rightarrow> 'dg"

definition TransactionData_digest ::
  "('tb, 'sb, 'ob, 'hd, 'td, 'sd, 'od, 'id, 'cd, 'dg) transaction_digest
     \<Rightarrow> ('tb, 'sb, 'ob) transaction_data \<Rightarrow> 'dg option" where
  "TransactionData_digest digester tx =
     Option.bind (digest_orchard digester (td_version tx) (td_orchard_bundle tx)) (\<lambda>orchard.
     Option.bind (digest_ironwood digester (td_ironwood_bundle tx)) (\<lambda>ironwood.
     Some (digest_combine digester
       (digest_header digester (td_version tx) (td_consensus_branch_id tx) (td_lock_time tx) (td_expiry_height tx))
       (digest_transparent digester (td_transparent_bundle tx))
       (digest_sapling digester (td_version tx) (td_sapling_bundle tx))
       orchard ironwood
       (digest_crosslink digester (td_staking_action tx)))))"

text \<open>A digest reads nothing of the transaction but what its methods digest: a digester that is the same
  for two transactions on every part is the same for the whole.\<close>

definition same_digests where
  "same_digests D d e \<longleftrightarrow>
     digest_header D (td_version d) (td_consensus_branch_id d) (td_lock_time d) (td_expiry_height d)
       = digest_header D (td_version e) (td_consensus_branch_id e) (td_lock_time e) (td_expiry_height e)
   \<and> digest_transparent D (td_transparent_bundle d) = digest_transparent D (td_transparent_bundle e)
   \<and> digest_sapling D (td_version d) (td_sapling_bundle d) = digest_sapling D (td_version e) (td_sapling_bundle e)
   \<and> digest_orchard D (td_version d) (td_orchard_bundle d) = digest_orchard D (td_version e) (td_orchard_bundle e)
   \<and> digest_ironwood D (td_ironwood_bundle d) = digest_ironwood D (td_ironwood_bundle e)
   \<and> digest_crosslink D (td_staking_action d) = digest_crosslink D (td_staking_action e)"

lemma digest_parts: "same_digests D d e \<Longrightarrow> TransactionData_digest D d = TransactionData_digest D e"
  by (simp add: same_digests_def TransactionData_digest_def)

subsection \<open>The implementations\<close>

definition TxIdDigester where
  "TxIdDigester dx tp sx = \<lparr>
     digest_header = hash_header_txid_data dx,
     digest_transparent = map_option (transparent_digests_of dx tp),
     digest_sapling = (\<lambda>version. map_option (hash_sapling_txid_data dx sx version)),
     digest_orchard = txid_digest_orchard dx,
     digest_ironwood = txid_digest_ironwood dx,
     digest_crosslink = txid_digest_crosslink dx,
     digest_combine = tx_digests.make\<rparr>"

definition BlockTxCommitmentDigester where
  "BlockTxCommitmentDigester dx tp sx = \<lparr>
     digest_header = (\<lambda>version consensus_branch_id lock_time expiry_height. (version, consensus_branch_id)),
     digest_transparent = auth_digest_transparent dx tp,
     digest_sapling = auth_digest_sapling dx sx,
     digest_orchard = (\<lambda>version. auth_digest_orchard dx (orchard_commitment_domain version)),
     digest_ironwood = auth_digest_orchard dx ironwood_v6_domain,
     digest_crosslink = auth_digest_crosslink dx,
     digest_combine = auth_combine dx\<rparr>"

theorem digesters:
  "TransactionData_digest (TxIdDigester dx tp sx) d = txid_digests dx tp sx d"
  "TransactionData_digest (BlockTxCommitmentDigester dx tp sx) d = auth_commitment dx tp sx d"
  by (simp_all add: TransactionData_digest_def TxIdDigester_def BlockTxCommitmentDigester_def txid_digests_def
      auth_commitment_def tx_digests.make_def)

text \<open>The commitment to the authorizing data does not depend on lock time and expiry height, which the
  identifier covers.\<close>

lemma auth_commitment_header:
  "auth_commitment dx tp sx (d\<lparr>td_lock_time := l, td_expiry_height := e\<rparr>) = auth_commitment dx tp sx d"
  unfolding digesters(2) [symmetric]
  by (rule digest_parts) (simp add: same_digests_def BlockTxCommitmentDigester_def)

end
