(* ===== verification/AuthSpec.thy ===== *)
theory AuthSpec
  imports TransactionSpec
begin

text \<open>
  What the commitment to the authorizing data adds to the identifier (\<open>Transaction::auth_commitment\<close>
  and \<open>BlockTxCommitmentDigester\<close>): together they fix the transaction.
\<close>

subsection \<open>Blocks of given number\<close>

lemma concat_prefix_free:
  assumes "length xs = length ys" "concat (map f xs) = concat (map f ys)"
    and "\<And>x y r s. x \<in> set xs \<Longrightarrow> y \<in> set ys \<Longrightarrow> f x @ r = f y @ s \<Longrightarrow> f x = f y"
  shows "map f xs = map f ys"
  using assms
proof (induction xs ys rule: list_induct2)
  case (Cons x xs y ys)
  have "f x @ concat (map f xs) = f y @ concat (map f ys)" using Cons.prems(1) by simp
  then have "f x = f y" using Cons.prems(2) [of x y] by simp
  then show ?case using Cons by simp
qed simp

lemma concat_fixed:
  assumes "length xs = length ys" "concat (map f xs) @ r = concat (map f ys) @ s"
    and "\<And>x. x \<in> set xs \<union> set ys \<Longrightarrow> length (f x) = n"
  shows "map f xs = map f ys \<and> r = s"
  using assms by (induction xs ys rule: list_induct2) auto

lemma map_eq_nth: "map f xs = map g ys \<Longrightarrow> i < length xs \<Longrightarrow> f (xs ! i) = g (ys ! i)"
  by (metis length_map nth_map)

subsection \<open>External code\<close>

text \<open>\<open>TxIn::write\<close> writes the outpoint, the script with its length in front, and the sequence number; the
  digests read these three parts.\<close>

definition input_layout_ok :: "('i, 'o) transparent_ext \<Rightarrow> bool" where
  "input_layout_ok tp \<longleftrightarrow>
     (\<forall>x. wf_txin tp x \<longrightarrow> tp_write_in tp x =
        tp_prevout_bytes tp x @ tp_script_sig_bytes tp x @ write_u32_le (tp_sequence tp x))
   \<and> (\<forall>x y r s. wf_txin tp x \<and> wf_txin tp y \<and> tp_script_sig_bytes tp x @ r = tp_script_sig_bytes tp y @ s
        \<longrightarrow> tp_script_sig_bytes tp x = tp_script_sig_bytes tp y)"

text \<open>The authorizing commitments of the crate \<open>orchard\<close> have 32 bytes.\<close>

definition auth_ext_ok :: "'ob digest_ext \<Rightarrow> bool" where
  "auth_ext_ok dx \<longleftrightarrow> (\<forall>b v c. dx_authorizing_commitment dx b v = Some c \<longrightarrow> length c = 32)
     \<and> (\<forall>p v c. dx_bundle_auth_empty dx p v = Some c \<longrightarrow> length c = 32)"

lemma length_auth_orchard:
  "auth_ext_ok dx \<Longrightarrow> auth_digest_orchard dx domain b = Some c \<Longrightarrow> length c = 32"
  by (auto simp: auth_ext_ok_def auth_digest_orchard_def split: option.splits)

lemma txin_inject:
  assumes "input_layout_ok tp" "wf_txin tp x" "wf_txin tp y" "tp_prevout_bytes tp x = tp_prevout_bytes tp y"
    and "tp_script_sig_bytes tp x = tp_script_sig_bytes tp y" "tp_sequence tp x = tp_sequence tp y"
  shows "x = y"
proof -
  have "tp_write_in tp x = tp_write_in tp y" using assms by (simp add: input_layout_ok_def)
  then show ?thesis using assms(2,3) by (simp add: wf_txin_def)
qed

lemma element_inject: "wf_element n el x \<Longrightarrow> wf_element n el y \<Longrightarrow> el_bytes el x = el_bytes el y \<Longrightarrow> x = y"
  by (simp add: wf_element_def)

subsection \<open>The messages\<close>

definition scripts_message :: "('i, 'o) transparent_ext \<Rightarrow> ('i, 'o) transparent_bundle option \<Rightarrow> bytes" where
  "scripts_message tp tb = (case tb of None \<Rightarrow> [] | Some b \<Rightarrow> concat (map (tp_script_sig_bytes tp) (tb_vin b)))"

definition anchor_message where
  "anchor_message sx version b = (if sapling_auth_includes_anchor version then
     (case sap_spends b of [] \<Rightarrow> [] | spend # _ \<Rightarrow> el_bytes (sx_base sx) (sd_anchor spend)) else [])"

definition sapling_auth_message where
  "sapling_auth_message sx version sb = (case sb of None \<Rightarrow> []
   | Some b \<Rightarrow> concat (map sd_zkproof (sap_spends b)) @ concat (map sd_spend_auth_sig (sap_spends b))
       @ concat (map od_zkproof (sap_outputs b)) @ sap_binding_sig b @ anchor_message sx version b)"

definition staking_message :: "staking_action option \<Rightarrow> bytes" where
  "staking_message sa = (case sa of None \<Rightarrow> [] | Some action \<Rightarrow> StakingAction_write (Some action))"

lemma auth_digests:
  "auth_digest_transparent dx tp tb = hasher dx ZCASH_TRANSPARENT_SCRIPTS_HASH_PERSONALIZATION (scripts_message tp tb)"
  "auth_digest_sapling dx sx version sb = hasher dx (sapling_auth_personalization version) (sapling_auth_message sx version sb)"
  "auth_digest_crosslink dx sa = hasher dx ZCASH_CROSSLINK_HASH_PERSONALIZATION (staking_message sa)"
  by (simp_all add: auth_digest_transparent_def scripts_message_def auth_digest_sapling_def sapling_auth_message_def
      anchor_message_def auth_digest_crosslink_def staking_message_def split: option.split)

definition auth_personal where
  "auth_personal d = tx_personal ZCASH_AUTH_PERSONALIZATION_PREFIX (u32_from_BranchId (td_consensus_branch_id d))"

definition auth_orchard where
  "auth_orchard dx d = auth_digest_orchard dx (orchard_commitment_domain (td_version d)) (td_orchard_bundle d)"

definition auth_ironwood where
  "auth_ironwood dx d = auth_digest_orchard dx ironwood_v6_domain (td_ironwood_bundle d)"

definition auth_message where
  "auth_message dx tp sx d = Option.bind (auth_orchard dx d) (\<lambda>orchard. Option.bind (auth_ironwood dx d) (\<lambda>ironwood. Some (
     auth_digest_transparent dx tp (td_transparent_bundle d)
     @ auth_digest_sapling dx sx (td_version d) (td_sapling_bundle d) @ orchard
     @ auth_digest_crosslink dx (td_staking_action d)
     @ (if version_has_ironwood (td_version d) then ironwood else []))))"

lemma auth_commitment_root:
  "auth_commitment dx tp sx d = map_option (hasher dx (auth_personal d)) (auth_message dx tp sx d)"
  by (simp add: auth_commitment_def auth_message_def auth_combine_def auth_personal_def auth_orchard_def auth_ironwood_def
      wire_consensus_branch_id_def split: bind_split)

definition auth_preimages where
  "auth_preimages dx tp sx d =
     (ZCASH_TRANSPARENT_SCRIPTS_HASH_PERSONALIZATION, scripts_message tp (td_transparent_bundle d))
     # (sapling_auth_personalization (td_version d), sapling_auth_message sx (td_version d) (td_sapling_bundle d))
     # (case auth_message dx tp sx d of None \<Rightarrow> [] | Some m \<Rightarrow> [(auth_personal d, m)])"

subsection \<open>The parts\<close>

lemma sapling_auth_binding:
  assumes wf: "wf_v5_bundle sx b" "wf_v5_bundle sx b'"
    and len: "length (sap_spends b) = length (sap_spends b')" "length (sap_outputs b) = length (sap_outputs b')"
    and eq: "sapling_auth_message sx v (Some b) = sapling_auth_message sx v (Some b')"
  shows "map sd_zkproof (sap_spends b) = map sd_zkproof (sap_spends b')
    \<and> map sd_spend_auth_sig (sap_spends b) = map sd_spend_auth_sig (sap_spends b')
    \<and> map od_zkproof (sap_outputs b) = map od_zkproof (sap_outputs b')
    \<and> sap_binding_sig b = sap_binding_sig b' \<and> anchor_message sx v b = anchor_message sx v b'"
proof -
  have l: "length (sd_zkproof s) = GROTH_PROOF_SIZE" "length (sd_spend_auth_sig s) = 64"
    if "s \<in> set (sap_spends b) \<union> set (sap_spends b')" for s
    using that wf by (auto simp: wf_v5_bundle_def list_all_iff wf_spend_def)
  have o: "length (od_zkproof s) = GROTH_PROOF_SIZE" if "s \<in> set (sap_outputs b) \<union> set (sap_outputs b')" for s
    using that wf by (auto simp: wf_v5_bundle_def list_all_iff wf_output_def)
  note m = eq [unfolded sapling_auth_message_def option.case]
  note p = concat_fixed [OF len(1) m l(1)]
  note s = concat_fixed [OF len(1) conjunct2 [OF p] l(2)]
  note q = concat_fixed [OF len(2) conjunct2 [OF s] o]
  have "sap_binding_sig b = sap_binding_sig b' \<and> anchor_message sx v b = anchor_message sx v b'"
    by (rule append_eq_append_conv [THEN iffD1, OF _ conjunct2 [OF q]]) (use wf in \<open>simp add: wf_v5_bundle_def\<close>)
  then show ?thesis using p s q by blast
qed

lemma anchors_inject:
  assumes wf: "wf_v5_bundle sx b" "wf_v5_bundle sx b'"
    and eff: "map (spend_effects sx v) (sap_spends b) = map (spend_effects sx v) (sap_spends b')"
    and an: "anchor_message sx v b = anchor_message sx v b'" and v: "v \<in> {V5, V6, VCrosslink}"
    and s: "i < length (sap_spends b)"
  shows "sd_anchor (sap_spends b ! i) = sd_anchor (sap_spends b' ! i)"
proof -
  let ?s = "sap_spends b ! i" and ?s' = "sap_spends b' ! i"
  have len: "length (sap_spends b) = length (sap_spends b')" using map_eq_imp_length_eq [OF eff] .
  have el: "wf_element 32 (sx_base sx) (sd_anchor x)" if "x \<in> set (sap_spends b) \<union> set (sap_spends b')" for x
    using that wf by (auto simp: wf_v5_bundle_def list_all_iff wf_spend_def)
  show ?thesis
  proof (cases "write_anchor v")
    case True
    have "spend_effects sx v ?s = spend_effects sx v ?s'"
      using arg_cong [where f = "\<lambda>l. l ! i", OF eff] s len by simp
    then have "el_bytes (sx_base sx) (sd_anchor ?s) = el_bytes (sx_base sx) (sd_anchor ?s')"
      using True by (simp add: spend_effects_def)
    then show ?thesis using el element_inject s len by (metis UnCI nth_mem)
  next
    case False
    then have "sapling_auth_includes_anchor v"
      using v by (auto simp: write_anchor_def sapling_auth_includes_anchor_def)
    moreover have ne: "sap_spends b \<noteq> []" "sap_spends b' \<noteq> []" using s len by auto
    ultimately have "el_bytes (sx_base sx) (sd_anchor (hd (sap_spends b))) = el_bytes (sx_base sx) (sd_anchor (hd (sap_spends b')))"
      using an by (auto simp: anchor_message_def neq_Nil_conv)
    then have "sd_anchor (hd (sap_spends b)) = sd_anchor (hd (sap_spends b'))"
      using el element_inject ne by (metis UnCI list.set_sel(1))
    then show ?thesis using wf s len nth_mem by (metis wf_v5_bundle_def same_anchor_def)
  qed
qed

lemma spend_determined:
  assumes "wf_spend sx s" "wf_spend sx s'" "spend_effects sx v s = spend_effects sx v s'"
    and "sd_anchor s = sd_anchor s'" "sd_zkproof s = sd_zkproof s'" "sd_spend_auth_sig s = sd_spend_auth_sig s'"
  shows "s = s'"
proof -
  have "sd_cv s = sd_cv s'" "sd_rk s = sd_rk s'" "sd_nullifier s = sd_nullifier s'"
    using assms(1-3) element_inject by (auto simp: wf_spend_def spend_effects_def)
  with assms(4-6) show ?thesis by simp
qed

lemma output_determined:
  assumes "wf_output sx s" "wf_output sx s'" "output_effects sx s = output_effects sx s'" "od_zkproof s = od_zkproof s'"
  shows "s = s'"
proof -
  have "od_cv s = od_cv s'" "od_cmu s = od_cmu s'"
    using assms(1-3) element_inject by (auto simp: wf_output_def output_effects_def)
  with assms(3,4) show ?thesis by (simp add: output_effects_def)
qed

lemma sapling_determined:
  assumes wf: "pred_option (wf_v5_bundle sx) sb" "pred_option (wf_v5_bundle sx) sb'" and v: "v \<in> {V5, V6, VCrosslink}"
    and eff: "sapling_effects sx v sb = sapling_effects sx v sb'"
    and msg: "sapling_auth_message sx v sb = sapling_auth_message sx v sb'"
  shows "sb = sb'"
proof (cases sb)
  case None
  then show ?thesis
    using eff wf(2) by (cases sb') (auto simp: sapling_effects_def wf_v5_bundle_def)
next
  case (Some b)
  then obtain b' where b': "sb' = Some b'"
    using eff wf(1) by (cases sb') (auto simp: sapling_effects_def wf_v5_bundle_def)
  have w: "wf_v5_bundle sx b" "wf_v5_bundle sx b'" using wf Some b' by simp_all
  have ne: "\<not> (sap_spends b = [] \<and> sap_outputs b = [])" "\<not> (sap_spends b' = [] \<and> sap_outputs b' = [])"
    using w unfolding wf_v5_bundle_def by blast+
  have e: "map (spend_effects sx v) (sap_spends b) = map (spend_effects sx v) (sap_spends b')"
      "map (output_effects sx) (sap_outputs b) = map (output_effects sx) (sap_outputs b')"
      "sap_value_balance b = sap_value_balance b'"
    using eff ne by (simp_all add: sapling_effects_def Some b')
  note len = map_eq_imp_length_eq [OF e(1)] map_eq_imp_length_eq [OF e(2)]
  have a: "map sd_zkproof (sap_spends b) = map sd_zkproof (sap_spends b')"
      "map sd_spend_auth_sig (sap_spends b) = map sd_spend_auth_sig (sap_spends b')"
      "map od_zkproof (sap_outputs b) = map od_zkproof (sap_outputs b')"
      "sap_binding_sig b = sap_binding_sig b'" "anchor_message sx v b = anchor_message sx v b'"
    using sapling_auth_binding [OF w len] msg by (simp_all add: Some b')
  have "sap_spends b = sap_spends b'"
  proof (rule nth_equalityI [OF len(1)])
    fix i assume i: "i < length (sap_spends b)"
    then have i': "i < length (sap_spends b')" using len(1) by simp
    show "sap_spends b ! i = sap_spends b' ! i"
    proof (rule spend_determined)
      show "wf_spend sx (sap_spends b ! i)" "wf_spend sx (sap_spends b' ! i)"
        using w i i' by (simp_all add: wf_v5_bundle_def list_all_length)
      show "sd_anchor (sap_spends b ! i) = sd_anchor (sap_spends b' ! i)"
        by (rule anchors_inject [OF w e(1) a(5) v i])
    qed (rule map_eq_nth [OF _ i], rule e a)+
  qed
  moreover have "sap_outputs b = sap_outputs b'"
  proof (rule nth_equalityI [OF len(2)])
    fix i assume i: "i < length (sap_outputs b)"
    then have i': "i < length (sap_outputs b')" using len(2) by simp
    show "sap_outputs b ! i = sap_outputs b' ! i"
    proof (rule output_determined)
      show "wf_output sx (sap_outputs b ! i)" "wf_output sx (sap_outputs b' ! i)"
        using w i i' by (simp_all add: wf_v5_bundle_def list_all_length)
    qed (rule map_eq_nth [OF _ i], rule e a)+
  qed
  ultimately show ?thesis using e(3) a(4) by (simp add: Some b')
qed

lemma transparent_determined:
  assumes ok: "input_layout_ok tp"
    and wf: "pred_option (wf_transparent tp) tb" "pred_option (wf_transparent tp) tb'"
    and eff: "transparent_effects tp tb = transparent_effects tp tb'"
    and msg: "scripts_message tp tb = scripts_message tp tb'"
  shows "tb = tb'"
proof (cases tb)
  case None
  then show ?thesis using eff by (simp add: transparent_effects_def)
next
  case (Some b)
  then obtain b' where b': "tb' = Some b'" using eff by (cases tb') (simp_all add: transparent_effects_def)
  have e: "map (tp_prevout_bytes tp) (tb_vin b) = map (tp_prevout_bytes tp) (tb_vin b')"
      "map (tp_sequence tp) (tb_vin b) = map (tp_sequence tp) (tb_vin b')" "tb_vout b = tb_vout b'"
    using eff by (simp_all add: transparent_effects_def Some b')
  note len = map_eq_imp_length_eq [OF e(1)]
  have w: "wf_txin tp x" if "x \<in> set (tb_vin b) \<union> set (tb_vin b')" for x
    using that wf by (auto simp: Some b' wf_transparent_def list_all_iff)
  have s: "map (tp_script_sig_bytes tp) (tb_vin b) = map (tp_script_sig_bytes tp) (tb_vin b')"
  proof (rule concat_prefix_free [OF len])
    show "concat (map (tp_script_sig_bytes tp) (tb_vin b)) = concat (map (tp_script_sig_bytes tp) (tb_vin b'))"
      using msg by (simp add: scripts_message_def Some b')
  qed (use ok w in \<open>unfold input_layout_ok_def, blast\<close>)
  have "tb_vin b = tb_vin b'"
  proof (rule nth_equalityI [OF len])
    fix i assume i: "i < length (tb_vin b)"
    then have i': "i < length (tb_vin b')" using len by simp
    show "tb_vin b ! i = tb_vin b' ! i"
    proof (rule txin_inject [OF ok])
      show "wf_txin tp (tb_vin b ! i)" "wf_txin tp (tb_vin b' ! i)" using w i i' by simp_all
    qed (rule map_eq_nth [OF _ i], rule e s)+
  qed
  with e(3) show ?thesis by (simp add: Some b')
qed

lemma auth_binding:
  assumes ok: "digest_ext_ok dx" "auth_ext_ok dx" and v: "td_version d = td_version d'"
    and c: "auth_commitment dx tp sx d = Some c" "auth_commitment dx tp sx d' = Some c"
    and nc: "\<not> collides dx (auth_preimages dx tp sx d) (auth_preimages dx tp sx d')"
  shows "scripts_message tp (td_transparent_bundle d) = scripts_message tp (td_transparent_bundle d')
    \<and> sapling_auth_message sx (td_version d') (td_sapling_bundle d) = sapling_auth_message sx (td_version d') (td_sapling_bundle d')
    \<and> auth_orchard dx d = auth_orchard dx d'
    \<and> (version_has_ironwood (td_version d') \<longrightarrow> auth_ironwood dx d = auth_ironwood dx d')"
proof -
  obtain m m' where m: "auth_message dx tp sx d = Some m" "auth_message dx tp sx d' = Some m'"
      "hasher dx (auth_personal d) m = hasher dx (auth_personal d') m'"
    using c unfolding auth_commitment_root by auto
  have mm: "m = m'" by (rule no_collision(2) [OF nc m(3)]) (simp_all add: auth_preimages_def m)
  obtain o1 i1 o2 i2 where p: "auth_orchard dx d = Some o1" "auth_ironwood dx d = Some i1"
      "auth_orchard dx d' = Some o2" "auth_ironwood dx d' = Some i2"
    using m(1,2) by (auto simp: auth_message_def bind_eq_Some_conv)
  have l: "length o1 = 32" "length o2 = 32"
    using p length_auth_orchard [OF ok(2)] unfolding auth_orchard_def by blast+
  note msg = m(1,2) [unfolded auth_message_def p bind.simps option.inject, folded mm]
  have parts: "auth_digest_transparent dx tp (td_transparent_bundle d) = auth_digest_transparent dx tp (td_transparent_bundle d')"
      "auth_digest_sapling dx sx (td_version d') (td_sapling_bundle d) = auth_digest_sapling dx sx (td_version d') (td_sapling_bundle d')"
      "o1 = o2" "version_has_ironwood (td_version d') \<longrightarrow> i1 = i2"
    using trans [OF msg(1) msg(2) [symmetric]] l length_hasher [OF ok(1)] unfolding v by (auto simp: auth_digests)
  have "scripts_message tp (td_transparent_bundle d) = scripts_message tp (td_transparent_bundle d')"
    by (rule no_collision(2) [OF nc parts(1) [unfolded auth_digests]]) (simp_all add: auth_preimages_def)
  moreover have "sapling_auth_message sx (td_version d') (td_sapling_bundle d) = sapling_auth_message sx (td_version d') (td_sapling_bundle d')"
    by (rule no_collision(2) [OF nc parts(2) [unfolded auth_digests]]) (simp_all add: auth_preimages_def v)
  ultimately show ?thesis using p parts by simp
qed

subsection \<open>The transaction\<close>

definition erase_orchard where
  "erase_orchard d = d\<lparr>td_orchard_bundle := None, td_ironwood_bundle := None\<rparr>"

text \<open>What the external commitments say of the Orchard and Ironwood bundles.\<close>

definition orchard_commitments where
  "orchard_commitments dx d = (orchard_effect dx (td_version d) (td_orchard_bundle d), auth_orchard dx d,
     ironwood_effect dx (td_ironwood_bundle d), auth_ironwood dx d)"

definition wtxid_preimages where
  "wtxid_preimages te d = txid_preimages (te_digest te) (te_transparent te) (te_sapling te) d
     @ auth_preimages (te_digest te) (te_transparent te) (te_sapling te) d"

lemma wf_later_effecting:
  "wf_later te d \<Longrightarrow> wf_effecting (te_transparent te) (te_sapling te) d"
  unfolding wf_later_def wf_effecting_def
  by (auto simp: wf_v5_bundle_def wf_sapling_parts_def wf_opt_action_def option.pred_set split: tx_version.splits)


subsection \<open>An instance\<close>

lemma byte_input_layout: "input_layout_ok byte_transparent"
proof -
  have "x = take 36 x @ take 1 (drop 36 x) @ drop 37 x" for x :: bytes
    using append_take_drop_id [of 36 x] append_take_drop_id [of 1 "drop 36 x"] by simp
  moreover have "length x = 41 \<Longrightarrow> write_u32_le (le_word (drop 37 x)) = drop 37 x" for x :: bytes
    by (simp add: write_u32_le_def le_bytes_le_word)
  ultimately show ?thesis unfolding input_layout_ok_def wf_byte_tx
    by (auto simp: byte_transparent_def)
qed

lemma byte_auth_ok: "auth_ext_ok byte_digest"
  by (simp add: auth_ext_ok_def byte_digest_def)

lemma example_auth:
  "\<exists>c. auth_commitment byte_digest byte_transparent byte_sapling (example_data V5 sb) = Some c"
  by (simp add: auth_commitment_root auth_message_def auth_orchard_def auth_ironwood_def auth_digest_orchard_def
      example_data_def byte_digest_def)

lemma byte_hash_prefix:
  "length p = 16 \<Longrightarrow> length m = 32 \<Longrightarrow> hasher byte_digest p (m @ r) = p @ take 16 m"
  by (simp add: hasher_def byte_digest_def)


end
