(* ===== verification/Sighash.thy ===== *)
theory Sighash
  imports TxId
begin

text \<open>
  Signature hashes (\<open>sighash.rs\<close>, \<open>sighash_v4.rs\<close>, \<open>sighash_v5.rs\<close> and \<open>sighash_v6.rs\<close> of
  \<open>zcash_primitives/src/transaction\<close>). The signed input and the \<open>SIGHASH\<close> constants belong to the
  external crate \<open>transparent\<close>: the input is the record of what the code reads of it, the constants are
  parameters. A panic is \<open>None\<close>.
\<close>

subsection \<open>External code\<close>

text \<open>A transparent input to sign; the scripts are given as they are written.\<close>

record transparent_input =
  ti_hash_type :: u8
  ti_index :: nat
  ti_script_code :: bytes
  ti_script_pubkey :: bytes
  ti_value :: zatoshis

text \<open>The amounts and scripts of the spent outputs (\<open>TransparentAuthorizingContext\<close>).\<close>

record authorizing_context =
  ac_input_amounts :: "zatoshis list"
  ac_input_scriptpubkeys :: "bytes list"

record ('i, 'o) sighash_ext =
  sh_all :: u8
  sh_none :: u8
  sh_single :: u8
  sh_mask :: u8
  sh_anyonecanpay :: u8
  sh_is_coinbase :: "('i, 'o) transparent_bundle \<Rightarrow> bool"
  sh_amounts :: "zatoshis array_io"
  sh_scripts :: "bytes array_io"

datatype signable_input = Shielded | Transparent transparent_input

definition SignableInput_hash_type :: "('i, 'o) sighash_ext \<Rightarrow> signable_input \<Rightarrow> u8" where
  "SignableInput_hash_type sh input = (case input of
     Shielded \<Rightarrow> sh_all sh | Transparent input \<Rightarrow> ti_hash_type input)"

text \<open>The flags of a hash type.\<close>

definition anyonecanpay :: "('i, 'o) sighash_ext \<Rightarrow> u8 \<Rightarrow> bool" where
  "anyonecanpay sh hash_type \<longleftrightarrow> and hash_type (sh_anyonecanpay sh) \<noteq> 0"

definition flag_single :: "('i, 'o) sighash_ext \<Rightarrow> u8 \<Rightarrow> bool" where
  "flag_single sh hash_type \<longleftrightarrow> and hash_type (sh_mask sh) = sh_single sh"

definition flag_none :: "('i, 'o) sighash_ext \<Rightarrow> u8 \<Rightarrow> bool" where
  "flag_none sh hash_type \<longleftrightarrow> and hash_type (sh_mask sh) = sh_none sh"

subsection \<open>Versions up to 4\<close>

definition ZCASH_SIGHASH_PERSONALIZATION_PREFIX :: bytes where
  "ZCASH_SIGHASH_PERSONALIZATION_PREFIX = ascii ''ZcashSigHash''"
definition V4_PREVOUTS_HASH_PERSONALIZATION :: bytes where
  "V4_PREVOUTS_HASH_PERSONALIZATION = ascii ''ZcashPrevoutHash''"
definition V4_SEQUENCE_HASH_PERSONALIZATION :: bytes where
  "V4_SEQUENCE_HASH_PERSONALIZATION = ascii ''ZcashSequencHash''"
definition V4_OUTPUTS_HASH_PERSONALIZATION :: bytes where
  "V4_OUTPUTS_HASH_PERSONALIZATION = ascii ''ZcashOutputsHash''"
definition ZCASH_JOINSPLITS_HASH_PERSONALIZATION :: bytes where
  "ZCASH_JOINSPLITS_HASH_PERSONALIZATION = ascii ''ZcashJSplitsHash''"
definition ZCASH_SHIELDED_SPENDS_HASH_PERSONALIZATION :: bytes where
  "ZCASH_SHIELDED_SPENDS_HASH_PERSONALIZATION = ascii ''ZcashSSpendsHash''"
definition ZCASH_SHIELDED_OUTPUTS_HASH_PERSONALIZATION :: bytes where
  "ZCASH_SHIELDED_OUTPUTS_HASH_PERSONALIZATION = ascii ''ZcashSOutputHash''"

definition prevout_hash :: "'ob digest_ext \<Rightarrow> ('i, 'o) transparent_ext \<Rightarrow> 'i list \<Rightarrow> bytes" where
  "prevout_hash dx tp vin =
     dx_blake2b dx V4_PREVOUTS_HASH_PERSONALIZATION (concat (map (tp_prevout_bytes tp) vin))"

definition sequence_hash :: "'ob digest_ext \<Rightarrow> ('i, 'o) transparent_ext \<Rightarrow> 'i list \<Rightarrow> bytes" where
  "sequence_hash dx tp vin = dx_blake2b dx V4_SEQUENCE_HASH_PERSONALIZATION
     (concat (map (\<lambda>t_in. write_u32_le (tp_sequence tp t_in)) vin))"

definition outputs_hash :: "'ob digest_ext \<Rightarrow> ('i, 'o) transparent_ext \<Rightarrow> 'o list \<Rightarrow> bytes" where
  "outputs_hash dx tp vout =
     dx_blake2b dx V4_OUTPUTS_HASH_PERSONALIZATION (concat (map (tp_write_out tp) vout))"

definition single_output_hash :: "'ob digest_ext \<Rightarrow> ('i, 'o) transparent_ext \<Rightarrow> 'o \<Rightarrow> bytes" where
  "single_output_hash dx tp tx_out = dx_blake2b dx V4_OUTPUTS_HASH_PERSONALIZATION (tp_write_out tp tx_out)"

text \<open>The branch is only used for the initial capacity of the buffer.\<close>

definition joinsplits_hash :: "'ob digest_ext \<Rightarrow> branch_id \<Rightarrow> js_description list \<Rightarrow> bytes \<Rightarrow> bytes" where
  "joinsplits_hash dx consensus_branch_id joinsplits joinsplit_pubkey =
     dx_blake2b dx ZCASH_JOINSPLITS_HASH_PERSONALIZATION
       (concat (map JsDescription_write joinsplits) @ joinsplit_pubkey)"

definition sapling_spends_hash ::
  "'ob digest_ext \<Rightarrow> ('cv, 'fe, 'cmu, 'rk) sapling_ext \<Rightarrow> ('cv, 'fe, 'rk) spend_description list \<Rightarrow> bytes" where
  "sapling_spends_hash dx sx spends = dx_blake2b dx ZCASH_SHIELDED_SPENDS_HASH_PERSONALIZATION
     (concat (map (\<lambda>s_spend. el_bytes (sx_cv sx) (sd_cv s_spend) @ el_bytes (sx_base sx) (sd_anchor s_spend)
        @ sd_nullifier s_spend @ el_bytes (sx_rk sx) (sd_rk s_spend) @ sd_zkproof s_spend) spends))"

definition sapling_outputs_hash ::
  "'ob digest_ext \<Rightarrow> ('cv, 'fe, 'cmu, 'rk) sapling_ext \<Rightarrow> ('cv, 'cmu) output_description list \<Rightarrow> bytes" where
  "sapling_outputs_hash dx sx outputs = dx_blake2b dx ZCASH_SHIELDED_OUTPUTS_HASH_PERSONALIZATION
     (concat (map (write_output_v4 sx) outputs))"

text \<open>The macro \<open>update_hash!\<close>: the value only when the condition holds.\<close>

definition update_hash :: "bool \<Rightarrow> bytes \<Rightarrow> bytes" where
  "update_hash condition x = (if condition then x else replicate 32 0)"

definition vin_of :: "('i, 'o) transparent_bundle option \<Rightarrow> 'i list" where
  "vin_of b = (case b of None \<Rightarrow> [] | Some b \<Rightarrow> tb_vin b)"

definition vout_of :: "('i, 'o) transparent_bundle option \<Rightarrow> 'o list" where
  "vout_of b = (case b of None \<Rightarrow> [] | Some b \<Rightarrow> tb_vout b)"

definition v4_outputs ::
  "'ob digest_ext \<Rightarrow> ('i, 'o) transparent_ext \<Rightarrow> ('i, 'o) sighash_ext \<Rightarrow> ('i, 'o) transparent_bundle option
     \<Rightarrow> signable_input \<Rightarrow> bytes" where
  "v4_outputs dx tp sh transparent_bundle signable_input =
     (let hash_type = SignableInput_hash_type sh signable_input in
      if \<not> flag_single sh hash_type \<and> \<not> flag_none sh hash_type then outputs_hash dx tp (vout_of transparent_bundle)
      else if flag_single sh hash_type then
        (case (transparent_bundle, signable_input) of
           (Some b, Transparent input) \<Rightarrow>
             if ti_index input < length (tb_vout b) then single_output_hash dx tp (tb_vout b ! ti_index input)
             else replicate 32 0
         | _ \<Rightarrow> replicate 32 0)
      else replicate 32 0)"

definition v4_message ::
  "'ob digest_ext \<Rightarrow> ('i, 'o) transparent_ext \<Rightarrow> ('cv, 'fe, 'cmu, 'rk) sapling_ext \<Rightarrow> ('i, 'o) sighash_ext
     \<Rightarrow> (('i, 'o) transparent_bundle, ('cv, 'fe, 'cmu, 'rk) sapling_bundle, 'ob) transaction_data
     \<Rightarrow> signable_input \<Rightarrow> bytes" where
  "v4_message dx tp sx sh tx signable_input =
     (let hash_type = SignableInput_hash_type sh signable_input;
          vin = vin_of (td_transparent_bundle tx);
          spends = (case td_sapling_bundle tx of None \<Rightarrow> [] | Some b \<Rightarrow> sap_spends b);
          outputs = (case td_sapling_bundle tx of None \<Rightarrow> [] | Some b \<Rightarrow> sap_outputs b) in
      write_u32_le (TxVersion_header (td_version tx))
      @ write_u32_le (TxVersion_version_group_id (td_version tx))
      @ update_hash (\<not> anyonecanpay sh hash_type) (prevout_hash dx tp vin)
      @ update_hash (\<not> anyonecanpay sh hash_type \<and> \<not> flag_single sh hash_type \<and> \<not> flag_none sh hash_type)
          (sequence_hash dx tp vin)
      @ v4_outputs dx tp sh (td_transparent_bundle tx) signable_input
      @ (case td_sprout_bundle tx of None \<Rightarrow> replicate 32 0
         | Some b \<Rightarrow> update_hash (sb_joinsplits b \<noteq> [])
             (joinsplits_hash dx (td_consensus_branch_id tx) (sb_joinsplits b) (sb_joinsplit_pubkey b)))
      @ (if version_has_sapling (td_version tx) then
           update_hash (spends \<noteq> []) (sapling_spends_hash dx sx spends)
           @ update_hash (outputs \<noteq> []) (sapling_outputs_hash dx sx outputs)
         else [])
      @ write_u32_le (td_lock_time tx)
      @ write_u32_le (u32_from_BlockHeight (td_expiry_height tx))
      @ (if version_has_sapling (td_version tx) then ZatBalance_to_i64_le_bytes (sapling_value_balance tx) else [])
      @ write_u32_le (ucast hash_type))"

text \<open>The input that is signed; indexing out of range panics, as does a missing bundle.\<close>

definition v4_input ::
  "('i, 'o) transparent_ext \<Rightarrow> ('i, 'o) transparent_bundle option \<Rightarrow> signable_input \<Rightarrow> bytes option" where
  "v4_input tp transparent_bundle signable_input = (case signable_input of
     Shielded \<Rightarrow> Some []
   | Transparent input \<Rightarrow> (case transparent_bundle of
       None \<Rightarrow> None
     | Some bundle \<Rightarrow>
         if ti_index input < length (tb_vin bundle) then Some (
           tp_prevout_bytes tp (tb_vin bundle ! ti_index input)
           @ ti_script_code input
           @ Zatoshis_to_i64_le_bytes (ti_value input)
           @ write_u32_le (tp_sequence tp (tb_vin bundle ! ti_index input)))
         else None))"

definition v4_signature_hash ::
  "'ob digest_ext \<Rightarrow> ('i, 'o) transparent_ext \<Rightarrow> ('cv, 'fe, 'cmu, 'rk) sapling_ext \<Rightarrow> ('i, 'o) sighash_ext
     \<Rightarrow> (('i, 'o) transparent_bundle, ('cv, 'fe, 'cmu, 'rk) sapling_bundle, 'ob) transaction_data
     \<Rightarrow> signable_input \<Rightarrow> bytes option" where
  "v4_signature_hash dx tp sx sh tx signable_input =
     (if version_has_overwinter (td_version tx) then
        map_option (\<lambda>input. dx_blake2b dx
            (tx_personal ZCASH_SIGHASH_PERSONALIZATION_PREFIX (u32_from_BranchId (td_consensus_branch_id tx)))
            (v4_message dx tp sx sh tx signable_input @ input))
          (v4_input tp (td_transparent_bundle tx) signable_input)
      else None)"

subsection \<open>Versions from 5\<close>

definition ZCASH_TRANSPARENT_INPUT_HASH_PERSONALIZATION :: bytes where
  "ZCASH_TRANSPARENT_INPUT_HASH_PERSONALIZATION = ascii ''Zcash___TxInHash''"
definition ZCASH_TRANSPARENT_AMOUNTS_HASH_PERSONALIZATION :: bytes where
  "ZCASH_TRANSPARENT_AMOUNTS_HASH_PERSONALIZATION = ascii ''ZTxTrAmountsHash''"
definition V5_TRANSPARENT_SCRIPTS_HASH_PERSONALIZATION :: bytes where
  "V5_TRANSPARENT_SCRIPTS_HASH_PERSONALIZATION = ascii ''ZTxTrScriptsHash''"

definition v5_amounts :: "('i, 'o) sighash_ext \<Rightarrow> authorizing_context \<Rightarrow> u8 \<Rightarrow> bytes" where
  "v5_amounts sh ctx hash_type =
     (if \<not> anyonecanpay sh hash_type
      then arr_write (sh_amounts sh) Zatoshis_to_i64_le_bytes (ac_input_amounts ctx) else [])"

definition v5_scripts :: "('i, 'o) sighash_ext \<Rightarrow> authorizing_context \<Rightarrow> u8 \<Rightarrow> bytes" where
  "v5_scripts sh ctx hash_type =
     (if \<not> anyonecanpay sh hash_type
      then arr_write (sh_scripts sh) (\<lambda>script. script) (ac_input_scriptpubkeys ctx) else [])"

definition v5_outputs_digest ::
  "'ob digest_ext \<Rightarrow> ('i, 'o) transparent_ext \<Rightarrow> ('i, 'o) sighash_ext \<Rightarrow> ('i, 'o) transparent_bundle
     \<Rightarrow> transparent_digests \<Rightarrow> signable_input \<Rightarrow> bytes" where
  "v5_outputs_digest dx tp sh bundle t_digests signable_input = (case signable_input of
     Transparent input \<Rightarrow>
       if flag_single sh (ti_hash_type input) then
         (if ti_index input < length (tb_vout bundle)
          then transparent_outputs_hash dx tp [tb_vout bundle ! ti_index input]
          else transparent_outputs_hash dx tp [])
       else if flag_none sh (ti_hash_type input) then transparent_outputs_hash dx tp []
       else trd_outputs_digest t_digests
   | Shielded \<Rightarrow> trd_outputs_digest t_digests)"

definition v5_input ::
  "('i, 'o) transparent_ext \<Rightarrow> ('i, 'o) transparent_bundle \<Rightarrow> signable_input \<Rightarrow> bytes option" where
  "v5_input tp bundle signable_input = (case signable_input of
     Shielded \<Rightarrow> Some []
   | Transparent input \<Rightarrow>
       if ti_index input < length (tb_vin bundle) then Some (
         let txin = tb_vin bundle ! ti_index input in
         tp_prevout_bytes tp txin
         @ Zatoshis_to_i64_le_bytes (ti_value input)
         @ ti_script_pubkey input
         @ write_u32_le (tp_sequence tp txin))
       else None)"

definition transparent_sig_digest ::
  "'ob digest_ext \<Rightarrow> ('i, 'o) transparent_ext \<Rightarrow> ('i, 'o) sighash_ext \<Rightarrow> authorizing_context
     \<Rightarrow> (('i, 'o) transparent_bundle \<times> transparent_digests) option \<Rightarrow> signable_input \<Rightarrow> bytes option" where
  "transparent_sig_digest dx tp sh ctx bundle_data input = (case bundle_data of
     None \<Rightarrow> Some (hash_transparent_txid_data dx None)
   | Some (bundle, t_digests) \<Rightarrow>
       if sh_is_coinbase sh bundle \<or> tb_vin bundle = [] then Some (hash_transparent_txid_data dx (Some t_digests))
       else
         let hash_type = SignableInput_hash_type sh input in
         map_option (\<lambda>txin_sig. hasher dx ZCASH_TRANSPARENT_HASH_PERSONALIZATION (
             [hash_type]
             @ (if anyonecanpay sh hash_type then transparent_prevout_hash dx tp [] else trd_prevouts_digest t_digests)
             @ hasher dx ZCASH_TRANSPARENT_AMOUNTS_HASH_PERSONALIZATION (v5_amounts sh ctx hash_type)
             @ hasher dx V5_TRANSPARENT_SCRIPTS_HASH_PERSONALIZATION (v5_scripts sh ctx hash_type)
             @ (if anyonecanpay sh hash_type then transparent_sequence_hash dx tp [] else trd_sequence_digest t_digests)
             @ v5_outputs_digest dx tp sh bundle t_digests input
             @ hasher dx ZCASH_TRANSPARENT_INPUT_HASH_PERSONALIZATION txin_sig))
           (v5_input tp bundle input))"

text \<open>\<open>Option::zip\<close>.\<close>

definition zip_option :: "'a option \<Rightarrow> 'b option \<Rightarrow> ('a \<times> 'b) option" where
  "zip_option a b = Option.bind a (\<lambda>x. map_option (\<lambda>y. (x, y)) b)"

definition v5_signature_hash_inner ::
  "'ob digest_ext \<Rightarrow> ('i, 'o) transparent_ext \<Rightarrow> ('i, 'o) sighash_ext \<Rightarrow> authorizing_context
     \<Rightarrow> (('i, 'o) transparent_bundle, 'sb, 'ob) transaction_data \<Rightarrow> signable_input \<Rightarrow> tx_digests
     \<Rightarrow> bytes option \<Rightarrow> bytes option" where
  "v5_signature_hash_inner dx tp sh ctx tx signable_input txid_parts crosslink_digest =
     (if (td_transparent_bundle tx \<noteq> None) \<noteq> (txd_transparent_digests txid_parts \<noteq> None) then None
      else Option.bind (transparent_sig_digest dx tp sh ctx
            (zip_option (td_transparent_bundle tx) (txd_transparent_digests txid_parts)) signable_input)
        (\<lambda>transparent. to_hash dx (td_version tx) (td_consensus_branch_id tx) (txd_header_digest txid_parts)
           transparent (txd_sapling_digest txid_parts) (txd_orchard_digest txid_parts) crosslink_digest))"

definition v5_signature_hash where
  "v5_signature_hash dx tp sh ctx tx signable_input txid_parts =
     v5_signature_hash_inner dx tp sh ctx tx signable_input txid_parts None"

definition vcrosslink_signature_hash where
  "vcrosslink_signature_hash dx tp sh ctx tx signable_input txid_parts =
     v5_signature_hash_inner dx tp sh ctx tx signable_input txid_parts (txd_crosslink_digest txid_parts)"

definition v6_signature_hash ::
  "'ob digest_ext \<Rightarrow> ('i, 'o) transparent_ext \<Rightarrow> ('i, 'o) sighash_ext \<Rightarrow> authorizing_context
     \<Rightarrow> (('i, 'o) transparent_bundle, 'sb, 'ob) transaction_data \<Rightarrow> signable_input \<Rightarrow> tx_digests
     \<Rightarrow> bytes option" where
  "v6_signature_hash dx tp sh ctx tx signable_input txid_parts =
     (if (td_transparent_bundle tx \<noteq> None) \<noteq> (txd_transparent_digests txid_parts \<noteq> None) then None
      else Option.bind (transparent_sig_digest dx tp sh ctx
            (zip_option (td_transparent_bundle tx) (txd_transparent_digests txid_parts)) signable_input)
        (\<lambda>transparent. to_hash_v6 dx (td_consensus_branch_id tx) (txd_header_digest txid_parts)
           transparent (txd_sapling_digest txid_parts) (txd_orchard_digest txid_parts)
           (txd_ironwood_digest txid_parts)))"

definition signature_hash ::
  "'ob digest_ext \<Rightarrow> ('i, 'o) transparent_ext \<Rightarrow> ('cv, 'fe, 'cmu, 'rk) sapling_ext \<Rightarrow> ('i, 'o) sighash_ext
     \<Rightarrow> authorizing_context
     \<Rightarrow> (('i, 'o) transparent_bundle, ('cv, 'fe, 'cmu, 'rk) sapling_bundle, 'ob) transaction_data
     \<Rightarrow> signable_input \<Rightarrow> tx_digests \<Rightarrow> bytes option" where
  "signature_hash dx tp sx sh ctx tx signable_input txid_parts = (case td_version tx of
     Sprout _ \<Rightarrow> v4_signature_hash dx tp sx sh tx signable_input
   | V3 \<Rightarrow> v4_signature_hash dx tp sx sh tx signable_input
   | V4 \<Rightarrow> v4_signature_hash dx tp sx sh tx signable_input
   | V5 \<Rightarrow> v5_signature_hash dx tp sh ctx tx signable_input txid_parts
   | V6 \<Rightarrow> v6_signature_hash dx tp sh ctx tx signable_input txid_parts
   | VCrosslink \<Rightarrow> vcrosslink_signature_hash dx tp sh ctx tx signable_input txid_parts)"

end
