(* ===== verification/BuilderBuild.thy ===== *)
theory BuilderBuild
  imports Builder Transaction Sighash
begin

text \<open>
  Building a transaction from a builder (\<open>build\<close>, \<open>build_internal\<close> and \<open>build_for_pczt\<close> of
  \<open>zcash_primitives/src/transaction/builder.rs\<close>), and the builder with deferred anchors. The
  unauthorized bundles are external: what the digests read of them is the bundle of the views, whose
  signatures are not looked at. The random generator is passed along. A panic is \<open>None\<close>.
\<close>

subsection \<open>External code\<close>

record ('tu, 'su, 'ou, 'i, 'o, 'cv, 'fe, 'cmu, 'rk, 'ocv, 'nf, 'ork, 'cmx, 'an, 'fl) signing_lib =
  gl_transparent_view :: "'tu \<Rightarrow> ('i, 'o) transparent_bundle"
  gl_transparent_context :: "'tu \<Rightarrow> authorizing_context"
  gl_sapling_view :: "'su \<Rightarrow> ('cv, 'fe, 'cmu, 'rk) sapling_bundle"
  gl_orchard_view :: "'ou \<Rightarrow> ('ocv, 'nf, 'ork, 'cmx, 'an, 'fl) orchard_bundle"
  gl_transparent_sign :: "'tu \<Rightarrow> (transparent_input \<Rightarrow> bytes option) \<Rightarrow> opaque
    \<Rightarrow> (opaque + ('i, 'o) transparent_bundle) option"
  gl_map_coinbase :: "'tu \<Rightarrow> ('i, 'o) transparent_bundle"
  gl_sapling_prove :: "'su \<Rightarrow> opaque \<Rightarrow> opaque \<Rightarrow> opaque \<Rightarrow> 'su \<times> opaque"
  gl_sapling_ask :: "opaque \<Rightarrow> opaque"
  gl_sapling_sign :: "'su \<Rightarrow> opaque \<Rightarrow> bytes \<Rightarrow> opaque list
    \<Rightarrow> opaque + (('cv, 'fe, 'cmu, 'rk) sapling_bundle \<times> opaque)"
  gl_orchard_prove :: "'ou \<Rightarrow> opaque \<Rightarrow> opaque \<Rightarrow> opaque + ('ou \<times> opaque)"
  gl_orchard_sign :: "'ou \<Rightarrow> opaque \<Rightarrow> bytes \<Rightarrow> opaque list
    \<Rightarrow> opaque + (('ocv, 'nf, 'ork, 'cmx, 'an, 'fl) orchard_bundle \<times> opaque)"

subsection \<open>The proving key cache\<close>

record proving_key_cache =
  pkc_insecure_pre_nu6_2 :: "opaque option"
  pkc_fixed_post_nu6_2 :: "opaque option"
  pkc_post_nu6_3 :: "opaque option"

definition cached_orchard_proving_key ::
  "(circuit_version \<Rightarrow> opaque) \<Rightarrow> circuit_version \<Rightarrow> proving_key_cache \<Rightarrow> opaque \<times> proving_key_cache" where
  "cached_orchard_proving_key build v cache = (case v of
     InsecurePreNu6_2 \<Rightarrow> (case pkc_insecure_pre_nu6_2 cache of Some key \<Rightarrow> (key, cache)
       | None \<Rightarrow> (build v, cache\<lparr>pkc_insecure_pre_nu6_2 := Some (build v)\<rparr>))
   | FixedPostNu6_2 \<Rightarrow> (case pkc_fixed_post_nu6_2 cache of Some key \<Rightarrow> (key, cache)
       | None \<Rightarrow> (build v, cache\<lparr>pkc_fixed_post_nu6_2 := Some (build v)\<rparr>))
   | PostNu6_3 \<Rightarrow> (case pkc_post_nu6_3 cache of Some key \<Rightarrow> (key, cache)
       | None \<Rightarrow> (build v, cache\<lparr>pkc_post_nu6_3 := Some (build v)\<rparr>)))"

subsection \<open>The balance check\<close>

text \<open>\<open>(value_balance - fee).ok_or(Underflow)\<close> and its comparison with zero.\<close>

definition check_balance :: "balance_error + zat_balance \<Rightarrow> zatoshis \<Rightarrow> 'fe build_error + unit" where
  "check_balance value_balance fee =
     res_bind (map_err BalanceFailed value_balance) (\<lambda>value_balance.
     res_bind (map_err BalanceFailed (ok_or (zb_sub_zat value_balance fee) Underflow)) (\<lambda>balance_after_fees.
     if balance_after_fees < ZatBalance_zero then Inl (InsufficientFunds (zb_neg balance_after_fees))
     else if ZatBalance_zero < balance_after_fees then Inl (ChangeRequired balance_after_fees)
     else Inr ()))"

subsection \<open>The bundles\<close>

definition build_sapling where
  "build_sapling sl gl extsks spend_prover output_prover rng pool = (case pool of
     None \<Rightarrow> Inr ((None, sl_empty_meta sl), rng)
   | Some builder \<Rightarrow> res_bind (map_err SaplingBuild (sl_build sl builder extsks rng)) (\<lambda>(built, rng).
       case built of
         None \<Rightarrow> Inr ((None, sl_empty_meta sl), rng)
       | Some (bundle, meta) \<Rightarrow>
           let (bundle, rng) = gl_sapling_prove gl bundle spend_prover output_prover rng
           in Inr ((Some bundle, meta), rng)))"

definition build_orchard ::
  "('obl, 'ou) orchard_lib \<Rightarrow> (opaque \<Rightarrow> 'fe build_error) \<Rightarrow> opaque \<Rightarrow> 'obl option
     \<Rightarrow> 'fe build_error + ('ou option \<times> opaque) \<times> opaque" where
  "build_orchard ol wrap rng pool = (case pool of
     None \<Rightarrow> Inr ((None, ol_empty_meta ol), rng)
   | Some builder \<Rightarrow> map_ok (\<lambda>(built, rng). case built of
         None \<Rightarrow> ((None, ol_empty_meta ol), rng)
       | Some (bundle, meta) \<Rightarrow> ((Some bundle, meta), rng))
       (map_err wrap (ol_build ol builder rng)))"

text \<open>The data the digests of unauthorized transactions read.\<close>

definition view_data ::
  "('tu, 'su, 'ou, 'i, 'o, 'cv, 'fe, 'cmu, 'rk, 'ocv, 'nf, 'ork, 'cmx, 'an, 'fl) signing_lib
     \<Rightarrow> ('tu, 'su, 'ou) transaction_data
     \<Rightarrow> ('i, 'o, 'cv, 'fe, 'cmu, 'rk, 'ocv, 'nf, 'ork, 'cmx, 'an, 'fl) authorized_data" where
  "view_data gl d = \<lparr>td_version = td_version d, td_consensus_branch_id = td_consensus_branch_id d,
     td_lock_time = td_lock_time d, td_expiry_height = td_expiry_height d,
     td_transparent_bundle = map_option (gl_transparent_view gl) (td_transparent_bundle d),
     td_sprout_bundle = td_sprout_bundle d,
     td_sapling_bundle = map_option (gl_sapling_view gl) (td_sapling_bundle d),
     td_orchard_bundle = map_option (gl_orchard_view gl) (td_orchard_bundle d),
     td_ironwood_bundle = map_option (gl_orchard_view gl) (td_ironwood_bundle d),
     td_staking_action = td_staking_action d\<rparr>"

definition tx_context where
  "tx_context gl d = (case td_transparent_bundle d of
     None \<Rightarrow> \<lparr>ac_input_amounts = [], ac_input_scriptpubkeys = []\<rparr>
   | Some t \<Rightarrow> gl_transparent_context gl t)"

text \<open>\<open>signature_hash\<close> of an unauthorized transaction.\<close>

definition unauthed_sighash where
  "unauthed_sighash te sh gl d input txid_parts =
     signature_hash (te_digest te) (te_transparent te) (te_sapling te) sh (tx_context gl d) (view_data gl d)
       input txid_parts"

definition authorize_transparent where
  "authorize_transparent te sh gl signing_set bundle unauthed_tx txid_parts =
     gl_transparent_sign gl bundle
       (\<lambda>input. unauthed_sighash te sh gl unauthed_tx (Transparent input) txid_parts) signing_set"

definition sign_sapling where
  "sign_sapling gl sighash asks rng bundle = (case bundle of
     None \<Rightarrow> Inr (None, rng)
   | Some b \<Rightarrow> map_ok (\<lambda>(signed, rng). (Some signed, rng))
       (map_err SaplingBuild (gl_sapling_sign gl b rng sighash asks)))"

definition sign_orchard where
  "sign_orchard gl wrap key sighash saks rng bundle = (case bundle of
     None \<Rightarrow> Inr (None, rng)
   | Some b \<Rightarrow> map_ok (\<lambda>(signed, rng). (Some signed, rng))
       (map_err wrap (res_bind (gl_orchard_prove gl b key rng) (\<lambda>(proven, rng).
         gl_orchard_sign gl proven rng sighash saks))))"

record ('tb, 'sb, 'ob) build_result =
  br_transaction :: "('tb, 'sb, 'ob) transaction"
  br_sapling_meta :: opaque
  br_orchard_meta :: opaque
  br_ironwood_meta :: opaque

subsection \<open>Building\<close>

definition unauthed_data where
  "unauthed_data b transparent_bundle sapling_bundle orchard_bundle ironwood_bundle =
     \<lparr>td_version = b_tx_version b, td_consensus_branch_id = b_consensus_branch_id b, td_lock_time = 0,
      td_expiry_height = b_expiry_height b, td_transparent_bundle = transparent_bundle,
      td_sprout_bundle = None, td_sapling_bundle = sapling_bundle, td_orchard_bundle = orchard_bundle,
      td_ironwood_bundle = ironwood_bundle, td_staking_action = b_staking_action b\<rparr>"

text \<open>The proving key is only fetched when an Orchard or Ironwood bundle is present.\<close>

definition build_proving_key where
  "build_proving_key ol cache d =
     (if td_orchard_bundle d \<noteq> None \<or> td_ironwood_bundle d \<noteq> None then
        map_option (\<lambda>v. fst (cached_orchard_proving_key (ol_proving_key ol) (ol_circuit_version ol v) cache))
          (bundle_version_for_branch (td_consensus_branch_id d) PoolOrchard)
      else Some [])"

text \<open>From the unauthorized transaction to the signed one; \<open>freeze().unwrap()\<close> may panic.\<close>

definition authorize_tx where
  "authorize_tx te sh gl ol cache authorize extsks saks rng unauthed_tx =
     (case txid_digests (te_digest te) (te_transparent te) (te_sapling te) (view_data gl unauthed_tx) of
        None \<Rightarrow> None
      | Some txid_parts \<Rightarrow>
     pbind (case td_transparent_bundle unauthed_tx of None \<Rightarrow> Some (Inr None)
            | Some t \<Rightarrow> map_option (\<lambda>r. map_ok Some (map_err TransparentBuild r)) (authorize t unauthed_tx txid_parts))
       (\<lambda>transparent_bundle.
     case unauthed_sighash te sh gl unauthed_tx Shielded txid_parts of
        None \<Rightarrow> None
      | Some shielded_sig_commitment \<Rightarrow>
     pbind (Some (sign_sapling gl shielded_sig_commitment (map (gl_sapling_ask gl) extsks) rng
              (td_sapling_bundle unauthed_tx))) (\<lambda>(sapling_bundle, rng).
     case build_proving_key ol cache unauthed_tx of
        None \<Rightarrow> None
      | Some key \<Rightarrow>
     pbind (Some (sign_orchard gl OrchardBuild key shielded_sig_commitment saks rng
              (td_orchard_bundle unauthed_tx))) (\<lambda>(orchard_bundle, rng).
     pbind (Some (sign_orchard gl IronwoodBuild key shielded_sig_commitment saks rng
              (td_ironwood_bundle unauthed_tx))) (\<lambda>(ironwood_bundle, rng).
     case Transaction_from_data te
       \<lparr>td_version = td_version unauthed_tx, td_consensus_branch_id = td_consensus_branch_id unauthed_tx,
        td_lock_time = td_lock_time unauthed_tx, td_expiry_height = td_expiry_height unauthed_tx,
        td_transparent_bundle = transparent_bundle, td_sprout_bundle = td_sprout_bundle unauthed_tx,
        td_sapling_bundle = sapling_bundle, td_orchard_bundle = orchard_bundle,
        td_ironwood_bundle = ironwood_bundle, td_staking_action = td_staking_action unauthed_tx\<rparr> of
        Some (Inr tx) \<Rightarrow> Some (Inr tx)
      | _ \<Rightarrow> None)))))"

definition build_internal where
  "build_internal te sh gl tlib sl ol cache build_transparent authorize extsks saks rng spend_prover output_prover fee b =
     pbind (Some (check_version_compatibility sl ol b (b_tx_version b))) (\<lambda>_.
     pbind (Some (check_coinbase_expiry_height b)) (\<lambda>_.
     if config_is_coinbase (b_build_config b) \<noteq> (fee = None) then None
     else
     pbind (Some (case fee of None \<Rightarrow> Inr ()
                  | Some fee \<Rightarrow> check_balance (Builder_value_balance tlib sl ol b) fee)) (\<lambda>_.
     pbind (Some (build_transparent (b_transparent_builder b))) (\<lambda>transparent_bundle.
     pbind (Some (build_sapling sl gl extsks spend_prover output_prover rng (b_sapling_builder b)))
       (\<lambda>((sapling_bundle, sapling_meta), rng).
     pbind (Some (build_orchard ol OrchardBuild rng (b_orchard_builder b)))
       (\<lambda>((orchard_bundle, orchard_meta), rng).
     pbind (Some (build_orchard ol IronwoodBuild rng (b_ironwood_builder b)))
       (\<lambda>((ironwood_bundle, ironwood_meta), rng).
     map_option (map_ok (\<lambda>tx. \<lparr>br_transaction = tx, br_sapling_meta = sapling_meta,
         br_orchard_meta = orchard_meta, br_ironwood_meta = ironwood_meta\<rparr>))
       (authorize_tx te sh gl ol cache authorize extsks saks rng
         (unauthed_data b transparent_bundle sapling_bundle orchard_bundle ironwood_bundle)))))))))"

definition Builder_build where
  "Builder_build te sh gl tlib sl ol cache signing_set extsks saks rng spend_prover output_prover fee_required b =
     (case b_build_config b of
        Coinbase miner_data \<Rightarrow>
          build_internal te sh gl tlib sl ol cache
            (\<lambda>t. map_ok Some (map_err CoinbaseError (tl_build_coinbase tlib t (b_target_height b) miner_data)))
            (\<lambda>t _ _. Some (Inr (gl_map_coinbase gl t))) [] [] rng spend_prover output_prover None b
      | _ \<Rightarrow>
          pbind (map_option (map_err FeeError) (Builder_get_fee tlib sl ol fee_required b)) (\<lambda>fee.
          build_internal te sh gl tlib sl ol cache (\<lambda>t. Inr (tl_build tlib t))
            (authorize_transparent te sh gl signing_set) extsks saks rng spend_prover output_prover (Some fee) b))"

subsection \<open>Partially created transactions\<close>

record pczt_parts =
  pz_params :: parameters
  pz_version :: tx_version
  pz_consensus_branch_id :: branch_id
  pz_lock_time :: u32
  pz_expiry_height :: block_height
  pz_transparent :: "opaque option"
  pz_sapling :: "opaque option"
  pz_orchard :: "opaque option"
  pz_ironwood :: "opaque option"

record pczt_result =
  pr_pczt_parts :: pczt_parts
  pr_sapling_meta :: opaque
  pr_orchard_meta :: opaque
  pr_ironwood_meta :: opaque

definition pool_for_pczt ::
  "('b \<Rightarrow> opaque \<Rightarrow> opaque + ((opaque \<times> opaque) \<times> opaque)) \<Rightarrow> opaque \<Rightarrow> (opaque \<Rightarrow> 'fe build_error) \<Rightarrow> opaque
     \<Rightarrow> 'b option \<Rightarrow> 'fe build_error + ((opaque option \<times> opaque) \<times> opaque)" where
  "pool_for_pczt build empty_meta wrap rng pool = (case pool of
     None \<Rightarrow> Inr ((None, empty_meta), rng)
   | Some builder \<Rightarrow> map_ok (\<lambda>((bundle, meta), rng). ((Some bundle, meta), rng)) (map_err wrap (build builder rng)))"

definition build_for_pczt where
  "build_for_pczt tlib sl ol rng fee_required b =
     pbind (map_option (map_err FeeError) (Builder_get_fee tlib sl ol fee_required b)) (\<lambda>fee.
     pbind (Some (check_version_compatibility sl ol b (b_tx_version b))) (\<lambda>_.
     pbind (Some (check_coinbase_expiry_height b)) (\<lambda>_.
     if version_has_crosslink (b_tx_version b) then Some (Inl CrosslinkPcztUnsupported)
     else
     pbind (Some (check_balance (Builder_value_balance tlib sl ol b) fee)) (\<lambda>_.
     pbind (Some (pool_for_pczt (sl_build_for_pczt sl) (sl_empty_meta sl) SaplingBuild rng (b_sapling_builder b)))
       (\<lambda>((sapling, sapling_meta), rng).
     pbind (Some (pool_for_pczt (ol_build_for_pczt ol) (ol_empty_meta ol) OrchardBuild rng (b_orchard_builder b)))
       (\<lambda>((orchard, orchard_meta), rng).
     pbind (Some (if version_has_ironwood (b_tx_version b)
                  then pool_for_pczt (ol_build_for_pczt ol) (ol_empty_meta ol) IronwoodBuild rng (b_ironwood_builder b)
                  else Inr ((None, ol_empty_meta ol), rng)))
       (\<lambda>((ironwood, ironwood_meta), rng).
     Some (Inr \<lparr>pr_pczt_parts = \<lparr>pz_params = b_params b, pz_version = b_tx_version b,
         pz_consensus_branch_id = b_consensus_branch_id b, pz_lock_time = 0,
         pz_expiry_height = b_expiry_height b,
         pz_transparent = tl_build_for_pczt tlib (b_transparent_builder b), pz_sapling = sapling,
         pz_orchard = orchard, pz_ironwood = ironwood\<rparr>,
       pr_sapling_meta = sapling_meta, pr_orchard_meta = orchard_meta, pr_ironwood_meta = ironwood_meta\<rparr>))))))))"

subsection \<open>Deferred anchors\<close>

record 'obl deferred_builder =
  db_params :: parameters
  db_tx_version :: tx_version
  db_consensus_branch_id :: branch_id
  db_target_height :: block_height
  db_expiry_height :: block_height
  db_orchard_builder :: 'obl
  db_orchard_bundle_version :: bundle_version
  db_ironwood_builder :: 'obl

definition Deferred_new ::
  "('obl, 'ou) orchard_lib \<Rightarrow> parameters \<Rightarrow> block_height \<Rightarrow> bundle_padding \<Rightarrow> bundle_padding
     \<Rightarrow> ('fe build_error + 'obl deferred_builder) option" where
  "Deferred_new ol params target_height orchard_padding ironwood_padding =
     (let consensus_branch_id = for_height params target_height;
          tx_version = suggested_for_branch consensus_branch_id in
      if \<not> version_has_ironwood tx_version then Some (Inl (AnchorDeferralUnsupported tx_version))
      else
      case bundle_version_for_branch consensus_branch_id PoolOrchard of
        None \<Rightarrow> None
      | Some orchard_bundle_version \<Rightarrow>
      pbind (Some (map_err OrchardBuild (ol_new_with_anchor_deferred ol (padding_bundle_type orchard_padding)
        orchard_bundle_version (ol_default_flags ol orchard_bundle_version)))) (\<lambda>orchard_builder.
      pbind (Some (map_err IronwoodBuild (ol_new_with_anchor_deferred ol (padding_bundle_type ironwood_padding)
        IronwoodBundleV3 (ol_default_flags ol IronwoodBundleV3)))) (\<lambda>ironwood_builder.
      Some (Inr \<lparr>db_params = params, db_tx_version = tx_version, db_consensus_branch_id = consensus_branch_id,
        db_target_height = target_height, db_expiry_height = bh_add target_height DEFAULT_TX_EXPIRY_DELTA,
        db_orchard_builder = orchard_builder, db_orchard_bundle_version = orchard_bundle_version,
        db_ironwood_builder = ironwood_builder\<rparr>))))"

definition Deferred_with_expiry_height :: "block_height \<Rightarrow> 'obl deferred_builder \<Rightarrow> 'obl deferred_builder" where
  "Deferred_with_expiry_height expiry_height d = d\<lparr>db_expiry_height := expiry_height\<rparr>"

definition on_deferred_orchard ::
  "(opaque \<Rightarrow> 'fe build_error) \<Rightarrow> ('obl \<Rightarrow> (opaque + unit) \<times> 'obl) \<Rightarrow> 'obl deferred_builder
     \<Rightarrow> ('fe build_error + unit) \<times> 'obl deferred_builder" where
  "on_deferred_orchard wrap call d =
     (let (r, o') = call (db_orchard_builder d) in (map_err wrap r, d\<lparr>db_orchard_builder := o'\<rparr>))"

definition on_deferred_ironwood ::
  "(opaque \<Rightarrow> 'fe build_error) \<Rightarrow> ('obl \<Rightarrow> (opaque + unit) \<times> 'obl) \<Rightarrow> 'obl deferred_builder
     \<Rightarrow> ('fe build_error + unit) \<times> 'obl deferred_builder" where
  "on_deferred_ironwood wrap call d =
     (let (r, o') = call (db_ironwood_builder d) in (map_err wrap r, d\<lparr>db_ironwood_builder := o'\<rparr>))"

definition Deferred_add_orchard_spend where
  "Deferred_add_orchard_spend ol fvk note = on_deferred_orchard OrchardSpend (ol_add_spend_unwitnessed ol fvk note)"

definition Deferred_add_orchard_output where
  "Deferred_add_orchard_output ol ovk recipient val memo =
     on_deferred_orchard OrchardRecipient (ol_add_output ol ovk recipient (Zatoshis_into_u64 val) memo)"

definition Deferred_add_orchard_change_output where
  "Deferred_add_orchard_change_output ol fvk ovk recipient val memo =
     on_deferred_orchard OrchardRecipient (ol_add_change_output ol fvk ovk recipient (Zatoshis_into_u64 val) memo)"

definition Deferred_add_ironwood_spend where
  "Deferred_add_ironwood_spend ol fvk note d =
     (if ol_note_version ol note \<noteq> ol_note_v3 ol
      then (Inl (IronwoodSpendUnsupportedNoteVersion (ol_note_version ol note)), d)
      else on_deferred_ironwood IronwoodSpend (ol_add_spend_unwitnessed ol fvk note) d)"

definition Deferred_add_ironwood_output where
  "Deferred_add_ironwood_output ol ovk recipient val memo =
     on_deferred_ironwood IronwoodRecipient (ol_add_output ol ovk recipient (Zatoshis_into_u64 val) memo)"

definition Deferred_get_fee where
  "Deferred_get_fee ol (fee_required :: ('op, 'fe) fee_rule_fn) d =
     pbind (Some (map_err FeeBundle
       (orchard_action_count ol (db_orchard_builder d) False (db_orchard_bundle_version d)))) (\<lambda>orchard_actions.
     pbind (Some (map_err FeeBundle
       (orchard_action_count ol (db_ironwood_builder d) False IronwoodBundleV3))) (\<lambda>ironwood_actions.
     map_option (map_err FeeRuleError)
       (fee_required (db_params d) (db_target_height d) [] [] 0 0 orchard_actions ironwood_actions)))"

definition Deferred_value_balance where
  "Deferred_value_balance ol d =
     res_bind (map_err (\<lambda>_. Overflow) (ol_value_balance ol (db_orchard_builder d))) (\<lambda>orchard.
     res_bind (map_err (\<lambda>_. Overflow) (ol_value_balance ol (db_ironwood_builder d))) (\<lambda>ironwood.
     ok_or (zb_sum [orchard, ironwood]) Overflow))"

definition Deferred_build_for_pczt where
  "Deferred_build_for_pczt sl ol rng fee_required d =
     pbind (map_option (map_err FeeError) (Deferred_get_fee ol fee_required d)) (\<lambda>fee.
     pbind (Some (check_balance (Deferred_value_balance ol d) fee)) (\<lambda>_.
     pbind (Some (pool_for_pczt (ol_build_for_pczt ol) (ol_empty_meta ol) OrchardBuild rng
       (if orchard_builder_in_use ol (db_orchard_builder d) then Some (db_orchard_builder d) else None)))
       (\<lambda>((orchard, orchard_meta), rng).
     pbind (Some (pool_for_pczt (ol_build_for_pczt ol) (ol_empty_meta ol) IronwoodBuild rng
       (if orchard_builder_in_use ol (db_ironwood_builder d) then Some (db_ironwood_builder d) else None)))
       (\<lambda>((ironwood, ironwood_meta), rng).
     Some (Inr \<lparr>pr_pczt_parts = \<lparr>pz_params = db_params d, pz_version = db_tx_version d,
         pz_consensus_branch_id = db_consensus_branch_id d, pz_lock_time = 0,
         pz_expiry_height = db_expiry_height d, pz_transparent = None, pz_sapling = None,
         pz_orchard = orchard, pz_ironwood = ironwood\<rparr>,
       pr_sapling_meta = sl_empty_meta sl, pr_orchard_meta = orchard_meta, pr_ironwood_meta = ironwood_meta\<rparr>)))))"

end
