(* ===== verification/SighashSpec.thy ===== *)
theory SighashSpec
  imports Sighash TransactionSpec
begin

text \<open>
  What a signature hash covers: which parts of a transaction the flags of the hash type include, when
  it is the transaction identifier, and when computing it panics.
\<close>

subsection \<open>The transparent part from version 5\<close>

text \<open>The outputs that the flags select.\<close>

definition signed_outputs ::
  "('i, 'o) sighash_ext \<Rightarrow> ('i, 'o) transparent_bundle \<Rightarrow> signable_input \<Rightarrow> 'o list" where
  "signed_outputs sh bundle input = (case input of
     Shielded \<Rightarrow> tb_vout bundle
   | Transparent i \<Rightarrow>
       if flag_single sh (ti_hash_type i) then
         (if ti_index i < length (tb_vout bundle) then [tb_vout bundle ! ti_index i] else [])
       else if flag_none sh (ti_hash_type i) then [] else tb_vout bundle)"

definition signed_inputs :: "('i, 'o) sighash_ext \<Rightarrow> ('i, 'o) transparent_bundle \<Rightarrow> signable_input \<Rightarrow> 'i list" where
  "signed_inputs sh bundle input =
     (if anyonecanpay sh (SignableInput_hash_type sh input) then [] else tb_vin bundle)"

text \<open>What a signature covers of the transparent part.\<close>

definition sig_view ::
  "('i, 'o) transparent_ext \<Rightarrow> ('i, 'o) sighash_ext \<Rightarrow> authorizing_context \<Rightarrow> ('i, 'o) transparent_bundle
     \<Rightarrow> signable_input \<Rightarrow> u8 \<times> bytes list \<times> bytes \<times> bytes \<times> u32 list \<times> 'o list \<times> bytes option" where
  "sig_view tp sh ctx bundle input =
     (SignableInput_hash_type sh input,
      map (tp_prevout_bytes tp) (signed_inputs sh bundle input),
      v5_amounts sh ctx (SignableInput_hash_type sh input),
      v5_scripts sh ctx (SignableInput_hash_type sh input),
      map (tp_sequence tp) (signed_inputs sh bundle input),
      signed_outputs sh bundle input,
      v5_input tp bundle input)"

definition seq_bytes :: "('i, 'o) transparent_ext \<Rightarrow> 'i list \<Rightarrow> bytes" where
  "seq_bytes tp vin = concat (map (\<lambda>x. write_u32_le (tp_sequence tp x)) vin)"

text \<open>The message of the digest, and the inputs of BLAKE2b in its computation.\<close>

definition sig_message where
  "sig_message dx tp sh ctx bundle input txin_sig =
     SignableInput_hash_type sh input
     # hasher dx ZCASH_PREVOUTS_HASH_PERSONALIZATION (concat (map (tp_prevout_bytes tp) (signed_inputs sh bundle input)))
     @ hasher dx ZCASH_TRANSPARENT_AMOUNTS_HASH_PERSONALIZATION (v5_amounts sh ctx (SignableInput_hash_type sh input))
     @ hasher dx V5_TRANSPARENT_SCRIPTS_HASH_PERSONALIZATION (v5_scripts sh ctx (SignableInput_hash_type sh input))
     @ hasher dx ZCASH_SEQUENCE_HASH_PERSONALIZATION (seq_bytes tp (signed_inputs sh bundle input))
     @ hasher dx ZCASH_OUTPUTS_HASH_PERSONALIZATION (concat (map (tp_write_out tp) (signed_outputs sh bundle input)))
     @ hasher dx ZCASH_TRANSPARENT_INPUT_HASH_PERSONALIZATION txin_sig"

definition sig_preimages where
  "sig_preimages dx tp sh ctx bundle input = (let txin_sig = the (v5_input tp bundle input) in
     [(ZCASH_TRANSPARENT_HASH_PERSONALIZATION, sig_message dx tp sh ctx bundle input txin_sig),
      (ZCASH_PREVOUTS_HASH_PERSONALIZATION, concat (map (tp_prevout_bytes tp) (signed_inputs sh bundle input))),
      (ZCASH_TRANSPARENT_AMOUNTS_HASH_PERSONALIZATION, v5_amounts sh ctx (SignableInput_hash_type sh input)),
      (V5_TRANSPARENT_SCRIPTS_HASH_PERSONALIZATION, v5_scripts sh ctx (SignableInput_hash_type sh input)),
      (ZCASH_SEQUENCE_HASH_PERSONALIZATION, seq_bytes tp (signed_inputs sh bundle input)),
      (ZCASH_OUTPUTS_HASH_PERSONALIZATION, concat (map (tp_write_out tp) (signed_outputs sh bundle input))),
      (ZCASH_TRANSPARENT_INPUT_HASH_PERSONALIZATION, txin_sig)])"

lemma sig_digest_message:
  assumes "\<not> sh_is_coinbase sh bundle" "tb_vin bundle \<noteq> []"
  shows "transparent_sig_digest dx tp sh ctx (Some (bundle, transparent_digests_of dx tp bundle)) input =
    map_option (\<lambda>txin_sig. hasher dx ZCASH_TRANSPARENT_HASH_PERSONALIZATION
        (sig_message dx tp sh ctx bundle input txin_sig)) (v5_input tp bundle input)"
proof -
  have "v5_outputs_digest dx tp sh bundle (transparent_digests_of dx tp bundle) input
      = hasher dx ZCASH_OUTPUTS_HASH_PERSONALIZATION (concat (map (tp_write_out tp) (signed_outputs sh bundle input)))"
    by (simp add: v5_outputs_digest_def signed_outputs_def transparent_digests_of_def transparent_outputs_hash_def
        split: signable_input.split)
  moreover have "(if anyonecanpay sh ht then transparent_prevout_hash dx tp [] else trd_prevouts_digest (transparent_digests_of dx tp bundle))
      = hasher dx ZCASH_PREVOUTS_HASH_PERSONALIZATION (concat (map (tp_prevout_bytes tp) (if anyonecanpay sh ht then [] else tb_vin bundle)))"
    "(if anyonecanpay sh ht then transparent_sequence_hash dx tp [] else trd_sequence_digest (transparent_digests_of dx tp bundle))
      = hasher dx ZCASH_SEQUENCE_HASH_PERSONALIZATION (seq_bytes tp (if anyonecanpay sh ht then [] else tb_vin bundle))" for ht
    by (simp_all add: transparent_digests_of_def transparent_prevout_hash_def transparent_sequence_hash_def seq_bytes_def)
  ultimately show ?thesis
    using assms by (simp add: transparent_sig_digest_def sig_message_def signed_inputs_def Let_def)
qed

lemma sig_message_parts:
  assumes "digest_ext_ok dx" "sig_message dx tp sh ctx b i x = sig_message dx tp sh ctx' b' i' x'"
  shows "SignableInput_hash_type sh i = SignableInput_hash_type sh i'"
    and "hasher dx ZCASH_PREVOUTS_HASH_PERSONALIZATION (concat (map (tp_prevout_bytes tp) (signed_inputs sh b i)))
       = hasher dx ZCASH_PREVOUTS_HASH_PERSONALIZATION (concat (map (tp_prevout_bytes tp) (signed_inputs sh b' i')))"
    and "hasher dx ZCASH_TRANSPARENT_AMOUNTS_HASH_PERSONALIZATION (v5_amounts sh ctx (SignableInput_hash_type sh i))
       = hasher dx ZCASH_TRANSPARENT_AMOUNTS_HASH_PERSONALIZATION (v5_amounts sh ctx' (SignableInput_hash_type sh i'))"
    and "hasher dx V5_TRANSPARENT_SCRIPTS_HASH_PERSONALIZATION (v5_scripts sh ctx (SignableInput_hash_type sh i))
       = hasher dx V5_TRANSPARENT_SCRIPTS_HASH_PERSONALIZATION (v5_scripts sh ctx' (SignableInput_hash_type sh i'))"
    and "hasher dx ZCASH_SEQUENCE_HASH_PERSONALIZATION (seq_bytes tp (signed_inputs sh b i))
       = hasher dx ZCASH_SEQUENCE_HASH_PERSONALIZATION (seq_bytes tp (signed_inputs sh b' i'))"
    and "hasher dx ZCASH_OUTPUTS_HASH_PERSONALIZATION (concat (map (tp_write_out tp) (signed_outputs sh b i)))
       = hasher dx ZCASH_OUTPUTS_HASH_PERSONALIZATION (concat (map (tp_write_out tp) (signed_outputs sh b' i')))"
    and "hasher dx ZCASH_TRANSPARENT_INPUT_HASH_PERSONALIZATION x
       = hasher dx ZCASH_TRANSPARENT_INPUT_HASH_PERSONALIZATION x'"
  using assms(2) length_hasher [OF assms(1)] by (auto simp: sig_message_def)

lemma signed_outputs_subset: "set (signed_outputs sh b i) \<subseteq> set (tb_vout b)"
  by (auto simp: signed_outputs_def split: signable_input.splits if_splits)


subsection \<open>An instance\<close>

definition byte_sighash :: "(bytes, bytes) sighash_ext" where
  "byte_sighash = \<lparr>sh_all = 1, sh_none = 2, sh_single = 3, sh_mask = 0x1f, sh_anyonecanpay = 0x80,
     sh_is_coinbase = (\<lambda>b. False), sh_amounts = std_array, sh_scripts = std_array\<rparr>"

definition example_bundle :: "bytes \<Rightarrow> (bytes, bytes) transparent_bundle" where
  "example_bundle out = \<lparr>tb_vin = [replicate 41 1], tb_vout = [out]\<rparr>"

definition example_input :: "u8 \<Rightarrow> transparent_input" where
  "example_input hash_type = \<lparr>ti_hash_type = hash_type, ti_index = 0, ti_script_code = [0], ti_script_pubkey = [0],
     ti_value = Zatoshis 5\<rparr>"

definition example_context :: authorizing_context where
  "example_context = \<lparr>ac_input_amounts = [Zatoshis 5], ac_input_scriptpubkeys = [[0]]\<rparr>"

lemma flags_none [simp]:
  "flag_none byte_sighash 2" "\<not> flag_single byte_sighash 2" "\<not> anyonecanpay byte_sighash 2"
  by (simp_all add: flag_none_def flag_single_def anyonecanpay_def byte_sighash_def)


subsection \<open>Transactions without transparent inputs\<close>

text \<open>Whether the transparent part has inputs that are not those of a coinbase.\<close>

definition spends_transparent ::
  "('i, 'o) sighash_ext \<Rightarrow> (('i, 'o) transparent_bundle, 'sb, 'ob) transaction_data \<Rightarrow> bool" where
  "spends_transparent sh data \<longleftrightarrow> (case td_transparent_bundle data of None \<Rightarrow> False
     | Some b \<Rightarrow> \<not> sh_is_coinbase sh b \<and> tb_vin b \<noteq> [])"

lemma sig_digest_is_txid_digest:
  assumes "\<not> spends_transparent sh data" "txid_digests dx tp sx data = Some parts"
  shows "transparent_sig_digest dx tp sh ctx
      (zip_option (td_transparent_bundle data) (txd_transparent_digests parts)) input
    = Some (hash_transparent_txid_data dx (txd_transparent_digests parts))
    \<and> (td_transparent_bundle data \<noteq> None) = (txd_transparent_digests parts \<noteq> None)"
proof -
  have p: "txd_transparent_digests parts = map_option (transparent_digests_of dx tp) (td_transparent_bundle data)"
    using assms(2) by (auto simp: txid_digests_def bind_eq_Some_conv)
  show ?thesis
  proof (cases "td_transparent_bundle data")
    case (Some b)
    then show ?thesis
      using assms(1) by (auto simp: p transparent_sig_digest_def zip_option_def spends_transparent_def)
  qed (simp add: p transparent_sig_digest_def zip_option_def)
qed

lemma later_sighash:
  assumes "td_version data \<in> {V5, V6, VCrosslink}" "\<not> spends_transparent sh data"
    and "txid_digests dx tp sx data = Some parts" and st: "td_version data = V5 \<longrightarrow> td_staking_action data = None"
  shows "map_option TxId (signature_hash dx tp sx sh ctx data input parts) = data_txid dx tp sx data"
proof -
  note sig = sig_digest_is_txid_digest [OF assms(2,3), of ctx input]
  have c: "txd_crosslink_digest parts = txid_digest_crosslink dx (td_staking_action data)"
    using assms(3) by (auto simp: txid_digests_def bind_eq_Some_conv)
  from assms(1) consider "td_version data = V5" | "td_version data = V6" | "td_version data = VCrosslink" by blast
  then show ?thesis
  proof cases
    case 1
    then show ?thesis using sig st c
      by (simp add: signature_hash_def v5_signature_hash_def v5_signature_hash_inner_def data_txid_def assms(3) to_txid_def
          txid_digest_crosslink_def)
  next
    case 2
    then show ?thesis using sig
      by (simp add: signature_hash_def v6_signature_hash_def data_txid_def assms(3) to_txid_def)
  next
    case 3
    then show ?thesis using sig
      by (simp add: signature_hash_def vcrosslink_signature_hash_def v5_signature_hash_inner_def data_txid_def assms(3)
          to_txid_def)
  qed
qed

text \<open>C22: From version 5 on, a transaction with no transparent inputs or only those of a coinbase is signed with its
  identifier, whatever input is said to be signed. In version 5 this needs the absence of a staking
  action, which its identifier covers but its signature hash does not.\<close>

theorem sighash_is_txid:
  assumes "td_version data \<in> {V5, V6, VCrosslink}" "\<not> spends_transparent sh data"
    and "txid_digests dx tp sx data = Some parts"
  shows "(td_version data = V5 \<longrightarrow> td_staking_action data = None) \<longrightarrow>
    map_option TxId (signature_hash dx tp sx sh ctx data input parts) = data_txid dx tp sx data"
  by (intro impI) (rule later_sighash [OF assms])

lemma sighash_is_txid_witness:
  "\<exists>parts. txid_digests byte_digest byte_transparent byte_sapling
        ((example_data V5 None)\<lparr>td_transparent_bundle := None\<rparr>) = Some parts
     \<and> map_option TxId (signature_hash byte_digest byte_transparent byte_sapling byte_sighash example_context
         ((example_data V5 None)\<lparr>td_transparent_bundle := None\<rparr>) Shielded parts)
       = data_txid byte_digest byte_transparent byte_sapling ((example_data V5 None)\<lparr>td_transparent_bundle := None\<rparr>)"
proof -
  let ?d = "(example_data V5 None)\<lparr>td_transparent_bundle := None\<rparr>"
  obtain parts where p: "txid_digests byte_digest byte_transparent byte_sapling ?d = Some parts"
    by (simp add: txid_digests_def txid_digest_orchard_def txid_digest_ironwood_def map_digest_def example_data_def)
  have "td_version ?d \<in> {V5, V6, VCrosslink}" "\<not> spends_transparent byte_sighash ?d" "td_staking_action ?d = None"
    by (simp_all add: spends_transparent_def example_data_def)
  with sighash_is_txid [OF _ _ p, of byte_sighash example_context Shielded] p show ?thesis by blast
qed

subsection \<open>Versions up to 4\<close>

lemma v4_message_transparent:
  fixes dx tp sh tx tb input
  defines "ht \<equiv> SignableInput_hash_type sh input"
  assumes "\<not> anyonecanpay sh ht \<Longrightarrow> vin_of tb = vin_of (td_transparent_bundle tx)"
    and "v4_outputs dx tp sh tb input = v4_outputs dx tp sh (td_transparent_bundle tx) input"
  shows "v4_message dx tp sx sh (tx\<lparr>td_transparent_bundle := tb\<rparr>) input = v4_message dx tp sx sh tx input"
proof -
  have "update_hash (\<not> anyonecanpay sh ht) (prevout_hash dx tp (vin_of tb))
      = update_hash (\<not> anyonecanpay sh ht) (prevout_hash dx tp (vin_of (td_transparent_bundle tx)))"
    "update_hash (\<not> anyonecanpay sh ht \<and> \<not> flag_single sh ht \<and> \<not> flag_none sh ht) (sequence_hash dx tp (vin_of tb))
      = update_hash (\<not> anyonecanpay sh ht \<and> \<not> flag_single sh ht \<and> \<not> flag_none sh ht)
          (sequence_hash dx tp (vin_of (td_transparent_bundle tx)))"
    using assms(2) by (auto simp: update_hash_def)
  then show ?thesis
    using assms(3) by (cases "td_sapling_bundle tx"; cases "td_sprout_bundle tx")
      (simp_all add: v4_message_def Let_def ht_def [symmetric] sapling_value_balance_def)
qed

text \<open>The signature hash of versions up to 4 panics exactly before Overwinter and for a transparent input
  that the transaction does not have. It ignores the signatures and proofs of JoinSplits' bundle
  signature, spends and binding; ANYONECANPAY leaves out the other inputs, NONE all outputs, and
  SINGLE all outputs but the one of the signed input.\<close>

theorem v4_sighash:
  shows "(v4_signature_hash dx tp sx sh tx input = None \<longleftrightarrow>
      \<not> version_has_overwinter (td_version tx)
      \<or> (\<exists>i. input = Transparent i \<and> length (vin_of (td_transparent_bundle tx)) \<le> ti_index i))
    \<and> v4_signature_hash dx tp sx sh (tx\<lparr>td_sapling_bundle := map_option
          (\<lambda>b. b\<lparr>sap_binding_sig := sig, sap_spends := map (\<lambda>s. s\<lparr>sd_spend_auth_sig := ssig s\<rparr>) (sap_spends b)\<rparr>)
          (td_sapling_bundle tx),
        td_sprout_bundle := map_option (\<lambda>b. b\<lparr>sb_joinsplit_sig := jsig\<rparr>) (td_sprout_bundle tx)\<rparr>) input
      = v4_signature_hash dx tp sx sh tx input
    \<and> (td_transparent_bundle tx = Some b \<and> ti_index i < length (tb_vin b)
        \<and> length vin = length (tb_vin b) \<and> vin ! ti_index i = tb_vin b ! ti_index i
        \<and> anyonecanpay sh (ti_hash_type i) \<longrightarrow>
      v4_signature_hash dx tp sx sh (tx\<lparr>td_transparent_bundle := Some (b\<lparr>tb_vin := vin\<rparr>)\<rparr>) (Transparent i)
        = v4_signature_hash dx tp sx sh tx (Transparent i))
    \<and> (td_transparent_bundle tx = Some b
        \<and> (flag_none sh (ti_hash_type i) \<and> \<not> flag_single sh (ti_hash_type i)
           \<or> flag_single sh (ti_hash_type i) \<and> length vout = length (tb_vout b)
             \<and> (ti_index i < length vout \<longrightarrow> vout ! ti_index i = tb_vout b ! ti_index i)) \<longrightarrow>
      v4_signature_hash dx tp sx sh (tx\<lparr>td_transparent_bundle := Some (b\<lparr>tb_vout := vout\<rparr>)\<rparr>) (Transparent i)
        = v4_signature_hash dx tp sx sh tx (Transparent i))"
proof (intro conjI impI)
  show "v4_signature_hash dx tp sx sh tx input = None \<longleftrightarrow>
      \<not> version_has_overwinter (td_version tx)
      \<or> (\<exists>i. input = Transparent i \<and> length (vin_of (td_transparent_bundle tx)) \<le> ti_index i)"
    by (cases input) (auto simp: v4_signature_hash_def v4_input_def vin_of_def split: option.splits)
  let ?sb = "map_option (\<lambda>b. b\<lparr>sap_binding_sig := sig, sap_spends := map (\<lambda>s. s\<lparr>sd_spend_auth_sig := ssig s\<rparr>) (sap_spends b)\<rparr>)
          (td_sapling_bundle tx)"
  let ?tx = "tx\<lparr>td_sapling_bundle := ?sb,
        td_sprout_bundle := map_option (\<lambda>b. b\<lparr>sb_joinsplit_sig := jsig\<rparr>) (td_sprout_bundle tx)\<rparr>"
  have "v4_message dx tp sx sh ?tx input = v4_message dx tp sx sh tx input"
    by (cases "td_sapling_bundle tx"; cases "td_sprout_bundle tx")
      (simp_all add: v4_message_def sapling_spends_hash_def sapling_value_balance_def bundle_balance_def comp_def Let_def)
  then show "v4_signature_hash dx tp sx sh ?tx input = v4_signature_hash dx tp sx sh tx input"
    by (simp add: v4_signature_hash_def)
  show "v4_signature_hash dx tp sx sh (tx\<lparr>td_transparent_bundle := Some (b\<lparr>tb_vin := vin\<rparr>)\<rparr>) (Transparent i)
        = v4_signature_hash dx tp sx sh tx (Transparent i)"
    if "td_transparent_bundle tx = Some b \<and> ti_index i < length (tb_vin b)
        \<and> length vin = length (tb_vin b) \<and> vin ! ti_index i = tb_vin b ! ti_index i
        \<and> anyonecanpay sh (ti_hash_type i)"
  proof -
    have "v4_outputs dx tp sh (Some (b\<lparr>tb_vin := vin\<rparr>)) (Transparent i)
        = v4_outputs dx tp sh (td_transparent_bundle tx) (Transparent i)"
      using that by (auto simp: v4_outputs_def vout_of_def Let_def)
    then have "v4_message dx tp sx sh (tx\<lparr>td_transparent_bundle := Some (b\<lparr>tb_vin := vin\<rparr>)\<rparr>) (Transparent i)
        = v4_message dx tp sx sh tx (Transparent i)"
      using that by (intro v4_message_transparent) (simp_all add: SignableInput_hash_type_def)
    then show ?thesis using that by (simp add: v4_signature_hash_def v4_input_def)
  qed
  show "v4_signature_hash dx tp sx sh (tx\<lparr>td_transparent_bundle := Some (b\<lparr>tb_vout := vout\<rparr>)\<rparr>) (Transparent i)
        = v4_signature_hash dx tp sx sh tx (Transparent i)"
    if "td_transparent_bundle tx = Some b
        \<and> (flag_none sh (ti_hash_type i) \<and> \<not> flag_single sh (ti_hash_type i)
           \<or> flag_single sh (ti_hash_type i) \<and> length vout = length (tb_vout b)
             \<and> (ti_index i < length vout \<longrightarrow> vout ! ti_index i = tb_vout b ! ti_index i))"
  proof -
    have "v4_outputs dx tp sh (Some (b\<lparr>tb_vout := vout\<rparr>)) (Transparent i)
        = v4_outputs dx tp sh (td_transparent_bundle tx) (Transparent i)"
      using that by (auto simp: v4_outputs_def SignableInput_hash_type_def Let_def)
    then have "v4_message dx tp sx sh (tx\<lparr>td_transparent_bundle := Some (b\<lparr>tb_vout := vout\<rparr>)\<rparr>) (Transparent i)
        = v4_message dx tp sx sh tx (Transparent i)"
      using that by (intro v4_message_transparent) (simp_all add: vin_of_def)
    then show ?thesis using that by (auto simp: v4_signature_hash_def v4_input_def)
  qed
qed

lemma v4_sighash_witness:
  "v4_signature_hash byte_digest byte_transparent byte_sapling byte_sighash
     ((example_data V4 None)\<lparr>td_transparent_bundle := Some ((example_bundle (replicate 9 2))\<lparr>tb_vout := []\<rparr>)\<rparr>)
     (Transparent (example_input 2))
   = v4_signature_hash byte_digest byte_transparent byte_sapling byte_sighash
     ((example_data V4 None)\<lparr>td_transparent_bundle := Some (example_bundle (replicate 9 2))\<rparr>)
     (Transparent (example_input 2))"
proof -
  let ?tx = "(example_data V4 None)\<lparr>td_transparent_bundle := Some (example_bundle (replicate 9 2))\<rparr>"
  have "ti_hash_type (example_input 2) = 2" by (simp add: example_input_def)
  then show ?thesis
    using v4_sighash [of byte_digest byte_transparent byte_sapling byte_sighash ?tx Shielded "[]" "\<lambda>_. []" "[]"
        "example_bundle (replicate 9 2)" "example_input 2" "[]" "[]"] by simp
qed

end
