(* ===== verification/BuilderSpec.thy ===== *)
theory BuilderSpec
  imports BuilderBuild SighashSpec
begin

text \<open>
  What the transaction builder guarantees before anything is built: the states that its operations
  reach and their invariant, and the versions that can be proposed; with instances of the external
  builders for the witnesses.
\<close>

subsection \<open>Reachable builders\<close>

text \<open>A step is one call of an operation on \<open>&mut self\<close>, whether it succeeds or not.\<close>

inductive builder_step ::
  "('tbl, 'op, 'tu, 'i, 'o) transparent_lib \<Rightarrow> ('sbl, 'su) sapling_lib \<Rightarrow> ('obl, 'ou) orchard_lib
     \<Rightarrow> ('tbl, 'sbl, 'obl) builder \<Rightarrow> ('tbl, 'sbl, 'obl) builder \<Rightarrow> bool"
  for tlib sl ol where
  step_propose: "propose_version sl ol v b = (r :: unit build_error + unit, b') \<Longrightarrow> builder_step tlib sl ol b b'"
| step_expiry: "builder_step tlib sl ol b (with_expiry_height h b)"
| step_orchard: "on_orchard wrap call b = (r :: unit build_error + unit, b') \<Longrightarrow> builder_step tlib sl ol b b'"
| step_ironwood: "on_ironwood wrap call b = (r :: unit build_error + unit, b') \<Longrightarrow> builder_step tlib sl ol b b'"
| step_sapling: "on_sapling call b = (r :: unit build_error + unit, b') \<Longrightarrow> builder_step tlib sl ol b b'"
| step_transparent: "on_transparent call b = (r, b') \<Longrightarrow> builder_step tlib sl ol b b'"
| step_input: "builder_step tlib sl ol b (add_transparent_input tlib input b)"
| step_staking: "put_staking_action a b = (r :: unit build_error + unit, b') \<Longrightarrow> builder_step tlib sl ol b b'"

inductive builder_reachable ::
  "('tbl, 'op, 'tu, 'i, 'o) transparent_lib \<Rightarrow> ('sbl, 'su) sapling_lib \<Rightarrow> ('obl, 'ou) orchard_lib
     \<Rightarrow> parameters \<Rightarrow> block_height \<Rightarrow> build_config \<Rightarrow> ('tbl, 'sbl, 'obl) builder \<Rightarrow> bool"
  for tlib sl ol params height cfg where
  reach_new: "Builder_new tlib sl ol params height cfg = Some b \<Longrightarrow> builder_reachable tlib sl ol params height cfg b"
| reach_step: "builder_reachable tlib sl ol params height cfg b \<Longrightarrow> builder_step tlib sl ol b b'
    \<Longrightarrow> builder_reachable tlib sl ol params height cfg b'"

text \<open>Every operation that adds something is a step: a call on one of the pools, or none.\<close>

lemmas adding_defs =
  add_orchard_spend_def add_orchard_output_def add_orchard_change_output_def add_ironwood_output_def
  add_sapling_spend_def add_sapling_output_def add_transparent_p2pkh_input_def
  add_transparent_p2sh_input_def add_transparent_output_def

definition builder_inv ::
  "('sbl, 'su) sapling_lib \<Rightarrow> parameters \<Rightarrow> block_height \<Rightarrow> build_config \<Rightarrow> ('tbl, 'sbl, 'obl) builder \<Rightarrow> bool" where
  "builder_inv sl params height cfg b \<longleftrightarrow>
     (b_params b = params \<and> b_target_height b = height \<and> b_build_config b = cfg
      \<and> b_consensus_branch_id b = for_height params height)
   \<and> (version_has_crosslink (b_tx_version b) \<longleftrightarrow> config_is_vcrosslink cfg)
   \<and> (valid_in_branch (b_tx_version b) (for_height params height) \<or> b_tx_version b = VCrosslink)
   \<and> (b_staking_action b \<noteq> None \<longrightarrow> config_is_vcrosslink cfg)
   \<and> (b_orchard_bundle_version b = (if b_orchard_builder b = None then None
        else bundle_version_for_branch (for_height params height) PoolOrchard))
   \<and> (b_orchard_builder b \<noteq> None \<longrightarrow> bundle_version_for_branch (for_height params height) PoolOrchard \<noteq> None)
   \<and> (b_ironwood_builder b \<noteq> None \<longrightarrow> for_height params height = BranchNu6_3 \<and> \<not> config_is_vcrosslink cfg)
   \<and> (b_sapling_builder b = None \<longleftrightarrow> sapling_builder_config sl cfg = None)"

lemma suggested_valid: "valid_in_branch (suggested_for_branch br) br" "suggested_for_branch br \<noteq> VCrosslink"
  by (cases br; simp)+

lemma suggested_ironwood: "version_has_ironwood (suggested_for_branch br) \<longleftrightarrow> br = BranchNu6_3"
  by (cases br) simp_all

abbreviation fresh_builder where
  "fresh_builder tlib params height cfg orchard ironwood sapling \<equiv>
     \<lparr>b_params = params,
        b_tx_version = (if config_is_vcrosslink cfg then VCrosslink else suggested_for_branch (for_height params height)),
        b_consensus_branch_id = for_height params height, b_build_config = cfg, b_target_height = height,
        b_expiry_height = (if config_is_coinbase cfg then height else bh_add height DEFAULT_TX_EXPIRY_DELTA),
        b_transparent_builder = tl_empty tlib, b_sapling_builder = sapling, b_orchard_builder = orchard,
        b_orchard_bundle_version = (if orchard = None then None
          else bundle_version_for_branch (for_height params height) PoolOrchard),
        b_ironwood_builder = ironwood, b_staking_action = None\<rparr>"

lemma Builder_new_parts:
  assumes "Builder_new tlib sl ol params height cfg = Some b"
  obtains orchard ironwood sapling where
    "(case bundle_version_for_branch (for_height params height) PoolOrchard of None \<Rightarrow> Some None
      | Some v \<Rightarrow> config_orchard_builder ol cfg v) = Some orchard"
    "(if version_has_ironwood (b_tx_version b) then config_ironwood_builder ol cfg else Some None) = Some ironwood"
    "sapling = None \<longleftrightarrow> sapling_builder_config sl cfg = None"
    "b = fresh_builder tlib params height cfg orchard ironwood sapling"
proof -
  from assms obtain orchard ironwood sapling where
    o': "(case bundle_version_for_branch (for_height params height) PoolOrchard of None \<Rightarrow> Some None
      | Some v \<Rightarrow> config_orchard_builder ol cfg v) = Some orchard"
    and i: "(if version_has_ironwood (if config_is_vcrosslink cfg then VCrosslink
        else suggested_for_branch (for_height params height)) then config_ironwood_builder ol cfg else Some None) = Some ironwood"
    and s: "(case sapling_builder_config sl cfg of None \<Rightarrow> Some None
      | Some (bundle_type, anchor) \<Rightarrow> map_option (\<lambda>z. Some (sl_new sl z bundle_type anchor))
          (zip212_enforcement_at params height)) = Some sapling"
    and b: "b = fresh_builder tlib params height cfg orchard ironwood sapling"
    unfolding Builder_new_def Let_def bind_eq_Some_conv option.inject by (elim exE conjE) (rule that, assumption+, simp)
  have "sapling = None \<longleftrightarrow> sapling_builder_config sl cfg = None"
    using s by (cases "sapling_builder_config sl cfg") auto
  with o' i b show ?thesis by (intro that) simp_all
qed

lemma builder_inv_new:
  assumes "Builder_new tlib sl ol params height cfg = Some b"
  shows "builder_inv sl params height cfg b"
  using assms
proof (rule Builder_new_parts)
  fix orchard ironwood sapling
  assume o': "(case bundle_version_for_branch (for_height params height) PoolOrchard of None \<Rightarrow> Some None
      | Some v \<Rightarrow> config_orchard_builder ol cfg v) = Some orchard"
    and i: "(if version_has_ironwood (b_tx_version b) then config_ironwood_builder ol cfg else Some None) = Some ironwood"
    and s: "(sapling = None) = (sapling_builder_config sl cfg = None)"
    and b: "b = fresh_builder tlib params height cfg orchard ironwood sapling"
  have "orchard \<noteq> None \<Longrightarrow> bundle_version_for_branch (for_height params height) PoolOrchard \<noteq> None"
    using o' by (cases "bundle_version_for_branch (for_height params height) PoolOrchard") auto
  moreover have "ironwood \<noteq> None \<Longrightarrow> for_height params height = BranchNu6_3 \<and> \<not> config_is_vcrosslink cfg"
    using i by (cases "config_is_vcrosslink cfg") (auto simp: b suggested_ironwood split: if_splits)
  ultimately show ?thesis
    using suggested_valid by (simp add: builder_inv_def b s version_has_crosslink_def)
qed

lemma on_pool_None: "on_pool pool missing wrap call = (r, pool') \<Longrightarrow> pool' = None \<longleftrightarrow> pool = None"
  by (auto simp: on_pool_def split: option.splits prod.splits)

lemma check_version_ok:
  "check_version_compatibility sl ol b v = Inr u \<Longrightarrow>
     (version_has_crosslink v \<longleftrightarrow> config_is_vcrosslink (b_build_config b))
     \<and> valid_in_branch v (b_consensus_branch_id b)
     \<and> (b_staking_action b \<noteq> None \<longrightarrow> version_has_crosslink v)"
  by (auto simp: check_version_compatibility_def Let_def split: if_splits)

lemma check_version_error:
  assumes "check_version_compatibility sl ol b v = Inl e"
    and "version_has_crosslink v \<longleftrightarrow> config_is_vcrosslink (b_build_config b)"
    and "b_staking_action b \<noteq> None \<longrightarrow> version_has_crosslink v"
  shows "\<exists>pool. e = TargetIncompatible (b_consensus_branch_id b) v pool"
  using assms by (auto simp: check_version_compatibility_def Let_def split: if_splits)

lemma on_pool_effect:
  "on_orchard wrap call b = (r, b') \<Longrightarrow>
     \<exists>p. b' = b\<lparr>b_orchard_builder := p\<rparr> \<and> (p = None \<longleftrightarrow> b_orchard_builder b = None)"
  "on_ironwood wrap call b = (r, b') \<Longrightarrow>
     \<exists>p. b' = b\<lparr>b_ironwood_builder := p\<rparr> \<and> (p = None \<longleftrightarrow> b_ironwood_builder b = None)"
  "on_sapling call2 b = (r, b') \<Longrightarrow>
     \<exists>p. b' = b\<lparr>b_sapling_builder := p\<rparr> \<and> (p = None \<longleftrightarrow> b_sapling_builder b = None)"
  unfolding on_orchard_def on_ironwood_def on_sapling_def Let_def split_beta
  by (metis on_pool_None prod.collapse prod.inject)+

text \<open>The invariant only looks at which pools have a builder.\<close>

lemma builder_inv_frame:
  assumes "builder_inv sl params height cfg b"
  shows "builder_inv sl params height cfg (b\<lparr>b_transparent_builder := t\<rparr>)"
    and "builder_inv sl params height cfg (b\<lparr>b_expiry_height := h\<rparr>)"
    and "p = None \<longleftrightarrow> b_orchard_builder b = None \<Longrightarrow> builder_inv sl params height cfg (b\<lparr>b_orchard_builder := p\<rparr>)"
    and "p = None \<longleftrightarrow> b_ironwood_builder b = None \<Longrightarrow> builder_inv sl params height cfg (b\<lparr>b_ironwood_builder := p\<rparr>)"
    and "s = None \<longleftrightarrow> b_sapling_builder b = None \<Longrightarrow> builder_inv sl params height cfg (b\<lparr>b_sapling_builder := s\<rparr>)"
  using assms unfolding builder_inv_def by simp_all

lemma propose_effect:
  assumes "propose_version sl ol v b = (r :: unit build_error + unit, b')"
  shows "b' = b \<or> b' = b\<lparr>b_tx_version := v\<rparr> \<and> check_version_compatibility sl ol b v = (Inr () :: unit build_error + unit)"
proof (cases "check_version_compatibility sl ol b v :: unit build_error + unit")
  case (Inl e)
  then show ?thesis using assms by (simp add: propose_version_def)
next
  case (Inr u)
  then have "b' = b\<lparr>b_tx_version := v\<rparr>" using assms by (simp add: propose_version_def)
  with Inr show ?thesis by (intro disjI2) simp
qed

lemma builder_inv_propose:
  assumes "builder_inv sl params height cfg b" "check_version_compatibility sl ol b v = (Inr () :: unit build_error + unit)"
  shows "builder_inv sl params height cfg (b\<lparr>b_tx_version := v\<rparr>)"
  using assms(1) check_version_ok [OF assms(2)] unfolding builder_inv_def by simp

lemma builder_inv_staking:
  assumes "builder_inv sl params height cfg b" "version_has_crosslink (b_tx_version b)"
  shows "builder_inv sl params height cfg (b\<lparr>b_staking_action := Some a\<rparr>)"
  using assms unfolding builder_inv_def by auto

lemma builder_inv_step:
  assumes "builder_step tlib sl ol b b'" "builder_inv sl params height cfg b"
  shows "builder_inv sl params height cfg b'"
  using assms
proof (induction rule: builder_step.induct)
  case (step_propose v b r b')
  from propose_effect [OF step_propose(1)] show ?case
  proof (elim disjE conjE)
    assume "b' = b"
    then show ?thesis using step_propose(2) by (rule ssubst)
  next
    assume b': "b' = b\<lparr>b_tx_version := v\<rparr>"
      and ok: "check_version_compatibility sl ol b v = (Inr () :: unit build_error + unit)"
    show ?thesis unfolding b' by (rule builder_inv_propose [OF step_propose(2) ok])
  qed
next
  case (step_orchard wrap call b r b')
  obtain p where p: "b' = b\<lparr>b_orchard_builder := p\<rparr>" "p = None \<longleftrightarrow> b_orchard_builder b = None"
    using on_pool_effect(1) [OF step_orchard(1)] by (elim exE conjE) (rule that)
  show ?case unfolding p(1) by (rule builder_inv_frame(3) [OF step_orchard(2) p(2)])
next
  case (step_ironwood wrap call b r b')
  obtain p where p: "b' = b\<lparr>b_ironwood_builder := p\<rparr>" "p = None \<longleftrightarrow> b_ironwood_builder b = None"
    using on_pool_effect(2) [OF step_ironwood(1)] by (elim exE conjE) (rule that)
  show ?case unfolding p(1) by (rule builder_inv_frame(4) [OF step_ironwood(2) p(2)])
next
  case (step_sapling call b r b')
  obtain p where p: "b' = b\<lparr>b_sapling_builder := p\<rparr>" "p = None \<longleftrightarrow> b_sapling_builder b = None"
    using on_pool_effect(3) [OF step_sapling(1)] by (elim exE conjE) (rule that)
  show ?case unfolding p(1) by (rule builder_inv_frame(5) [OF step_sapling(2) p(2)])
next
  case (step_transparent call b r b')
  then have "b' = b\<lparr>b_transparent_builder := snd (call (b_transparent_builder b))\<rparr>"
    by (simp add: on_transparent_def split_beta)
  then show ?case using builder_inv_frame(1) [OF step_transparent(2)] by simp
next
  case (step_staking a b r b')
  show ?case
  proof (cases "version_has_crosslink (b_tx_version b)")
    case True
    then have "b' = b\<lparr>b_staking_action := Some a\<rparr>" using step_staking(1) by (simp add: put_staking_action_def)
    then show ?thesis using builder_inv_staking [OF step_staking(2) True] by simp
  next
    case False
    then have "b' = b" using step_staking(1) by (simp add: put_staking_action_def)
    then show ?thesis using step_staking(2) by simp
  qed
next
  case (step_expiry b h)
  then show ?case using builder_inv_frame(2) [OF step_expiry] by (simp add: with_expiry_height_def)
next
  case (step_input b input)
  then show ?case using builder_inv_frame(1) [OF step_input] by (simp add: add_transparent_input_def)
qed

lemma reachable_inv: "builder_reachable tlib sl ol params height cfg b \<Longrightarrow> builder_inv sl params height cfg b"
  by (induction rule: builder_reachable.induct) (auto intro: builder_inv_new builder_inv_step)

text \<open>C11: Builders keep their configuration. In every state that the operations reach from a new builder,
  the network, target height, configuration and consensus branch are those it was made for; the
  version is one of the Crosslink configuration exactly when the configuration is; a staking action is
  only held under that configuration; an Orchard builder comes with the bundle version of the branch
  and an Ironwood builder only under NU6.3. So the fee can be computed without a panic whenever the
  fee rule does not panic, and the version check of a build can only fail with an incompatible target.\<close>

theorem reachable_builder:
  assumes "builder_reachable tlib sl ol params height cfg b"
  shows "b_params b = params \<and> b_target_height b = height \<and> b_build_config b = cfg
    \<and> b_consensus_branch_id b = for_height params height
    \<and> (version_has_crosslink (b_tx_version b) \<longleftrightarrow> config_is_vcrosslink cfg)
    \<and> (b_staking_action b \<noteq> None \<longrightarrow> config_is_vcrosslink cfg)
    \<and> (b_orchard_builder b \<noteq> None \<longrightarrow> b_orchard_bundle_version b \<noteq> None
        \<and> b_orchard_bundle_version b = bundle_version_for_branch (for_height params height) PoolOrchard)
    \<and> (b_ironwood_builder b \<noteq> None \<longrightarrow> for_height params height = BranchNu6_3)
    \<and> ((\<forall>ins outs sin sout oa ia. fee_required params height ins outs sin sout oa ia \<noteq> None)
        \<longrightarrow> Builder_get_fee tlib sl ol fee_required b \<noteq> None)
    \<and> (\<forall>e. check_version_compatibility sl ol b (b_tx_version b) = Inl e
        \<longrightarrow> (\<exists>pool. e = TargetIncompatible (for_height params height) (b_tx_version b) pool))"
proof (intro conjI)
  have inv: "builder_inv sl params height cfg b" by (rule reachable_inv [OF assms])
  then show "b_params b = params" "b_target_height b = height" "b_build_config b = cfg"
    "b_consensus_branch_id b = for_height params height"
    "version_has_crosslink (b_tx_version b) \<longleftrightarrow> config_is_vcrosslink cfg"
    "b_staking_action b \<noteq> None \<longrightarrow> config_is_vcrosslink cfg"
    "b_ironwood_builder b \<noteq> None \<longrightarrow> for_height params height = BranchNu6_3"
    and o': "b_orchard_builder b \<noteq> None \<longrightarrow> b_orchard_bundle_version b \<noteq> None
        \<and> b_orchard_bundle_version b = bundle_version_for_branch (for_height params height) PoolOrchard"
    unfolding builder_inv_def by auto
  show "(\<forall>ins outs sin sout oa ia. fee_required params height ins outs sin sout oa ia \<noteq> None)
        \<longrightarrow> Builder_get_fee tlib sl ol fee_required b \<noteq> None"
  proof
    assume total_rule: "\<forall>ins outs sin sout oa ia. fee_required params height ins outs sin sout oa ia \<noteq> None"
    have pb: "pbind m f \<noteq> None" if "m \<noteq> None" "\<And>x. f x \<noteq> None"
      for m :: "('x + 'y) option" and f :: "'y \<Rightarrow> ('x + 'z) option"
      using that by (auto simp: pbind_def split: sum.splits)
    show "Builder_get_fee tlib sl ol fee_required b \<noteq> None"
      unfolding Builder_get_fee_def Let_def \<open>b_params b = params\<close> \<open>b_target_height b = height\<close>
    proof (intro pb)
      show "(case b_orchard_builder b of None \<Rightarrow> Some (Inr 0)
        | Some builder \<Rightarrow> map_option (\<lambda>v. map_err FeeBundle
            (orchard_action_count ol builder (config_is_coinbase (b_build_config b)) v)) (b_orchard_bundle_version b)) \<noteq> None"
        using o' by (cases "b_orchard_builder b"; cases "b_orchard_bundle_version b") simp_all
    qed (use total_rule in simp_all)
  qed
  show "\<forall>e. check_version_compatibility sl ol b (b_tx_version b) = Inl e
        \<longrightarrow> (\<exists>pool. e = TargetIncompatible (for_height params height) (b_tx_version b) pool)"
    using check_version_error inv unfolding builder_inv_def by blast
qed

subsection \<open>Example libraries\<close>

text \<open>
  Pool builders whose state is whether there is a spend (Sapling), the bundle type (Orchard) or nothing
  (transparent). They take one Sapling spend, worth 10000 zatoshis, and refuse everything else that has a
  value; a required Orchard bundle is built when it is empty.
\<close>

definition example_tlib :: "(unit, unit, unit, bytes, bytes) transparent_lib" where
  "example_tlib = \<lparr>tl_empty = (), tl_inputs = (\<lambda>_. []), tl_outputs = (\<lambda>_. []), tl_add_input = (\<lambda>_ t. t),
     tl_add_p2pkh_input = (\<lambda>_ _ _ t. (Inl [], t)), tl_add_p2sh_input = (\<lambda>_ _ _ t. (Inl [], t)),
     tl_add_output = (\<lambda>_ _ t. (Inl [], t)), tl_add_null_data_output = (\<lambda>_ t. (Inr (), t)),
     tl_value_balance = (\<lambda>_. Inr ZatBalance_zero), tl_build = (\<lambda>_. None),
     tl_build_coinbase = (\<lambda>_ _ _. Inr ()), tl_build_for_pczt = (\<lambda>_. None)\<rparr>"

definition example_sl :: "(bool, unit) sapling_lib" where
  "example_sl = \<lparr>sl_new = (\<lambda>_ _ _. False), sl_empty_tree = [],
     sl_inputs = (\<lambda>spent. if spent then 1 else 0), sl_outputs = (\<lambda>_. 0),
     sl_num_outputs = (\<lambda>_ _ n. Inr n), sl_add_spend = (\<lambda>_ _ _ spent. (if spent then Inl [] else Inr (), True)),
     sl_add_output = (\<lambda>_ _ _ _ s. (Inl [], s)),
     sl_value_balance = (\<lambda>spent. if spent then ZatBalance 10000 else ZatBalance_zero),
     sl_build = (\<lambda>spent _ rng. Inr (if spent then Some ((), []) else None, rng)),
     sl_build_for_pczt = (\<lambda>s rng. Inr (([], []), rng)), sl_empty_meta = []\<rparr>"

definition example_ol :: "(orchard_bundle_type, unit) orchard_lib" where
  "example_ol = \<lparr>ol_new = (\<lambda>bt _ _ _. Inr bt), ol_new_with_anchor_deferred = (\<lambda>bt _ _. Inr bt),
     ol_default_flags = (\<lambda>_. []), ol_spends_disabled = [1], ol_empty_tree = [], ol_spends = (\<lambda>_. 0),
     ol_outputs = (\<lambda>_. 0), ol_changes = (\<lambda>_. 0), ol_bundle_type = (\<lambda>bt. bt),
     ol_num_actions = (\<lambda>bt _ s r. Inr (case bt of Transactional True _ \<Rightarrow> 2 | _ \<Rightarrow> max s r)),
     ol_note_version = (\<lambda>_. [3]), ol_note_v3 = [3], ol_add_spend = (\<lambda>_ _ _ bt. (Inl [], bt)),
     ol_add_spend_unwitnessed = (\<lambda>_ _ bt. (Inl [], bt)), ol_add_output = (\<lambda>_ _ _ _ bt. (Inl [], bt)),
     ol_add_change_output = (\<lambda>_ _ _ _ _ bt. (Inl [], bt)), ol_value_balance = (\<lambda>_. Inr ZatBalance_zero),
     ol_build = (\<lambda>bt rng. Inr (case bt of Transactional True _ \<Rightarrow> Some ((), []) | _ \<Rightarrow> None, rng)),
     ol_build_for_pczt = (\<lambda>_ rng. Inr (([], []), rng)), ol_empty_meta = [],
     ol_circuit_version = (\<lambda>_. PostNu6_3), ol_proving_key = (\<lambda>_. [7])\<rparr>"

lemmas example_libs = example_tlib_def example_sl_def example_ol_def

text \<open>The configuration of the examples, and a builder under NU6.3 on the main network.\<close>

abbreviation example_config :: "bool \<Rightarrow> build_config" where
  "example_config required \<equiv> Standard (Some []) (Some []) (Some [])
     \<lparr>bp_bundle_required = required, bp_pad_to_minimum = None\<rparr> PADDING_DEFAULT"

abbreviation example_height :: block_height where "example_height \<equiv> BlockHeight 4000000"

lemma example_branch: "for_height MainNetwork example_height = BranchNu6_3"
  by (simp add: for_height_def UPGRADES_IN_ORDER_def is_nu_active_def MainNetwork_def block_height_ord)

text \<open>The example builders: new, with one Sapling spend, and proposing version 4 with a required bundle.\<close>

definition example_builder :: "bool \<Rightarrow> (unit, bool, orchard_bundle_type) builder" where
  "example_builder required = fresh_builder example_tlib MainNetwork example_height (example_config required)
     (Some (Transactional required None)) (Some (Transactional False None)) (Some False)"

lemma example_new:
  "Builder_new example_tlib example_sl example_ol MainNetwork example_height (example_config required)
     = Some (example_builder required)"
proof -
  have z: "zip212_enforcement_at MainNetwork example_height = Some Zip212On"
    by (simp add: zip212_enforcement_at_def is_nu_active_def MainNetwork_def block_height_ord bh_add_def
        ZIP212_GRACE_PERIOD_def saturating_add_u32_def)
  show ?thesis
    by (simp add: Builder_new_def example_builder_def example_branch bundle_version_v3 z config_is_vcrosslink_def
        config_orchard_builder_def config_ironwood_builder_def new_transactional_def example_libs
        padding_bundle_type_def PADDING_DEFAULT_def sapling_builder_config_def res_ok_def)
qed

abbreviation spending_builder :: "(unit, bool, orchard_bundle_type) builder" where
  "spending_builder \<equiv> (example_builder False)\<lparr>b_sapling_builder := Some True\<rparr>"

lemma spending_reachable:
  "builder_reachable example_tlib example_sl example_ol MainNetwork example_height (example_config False) spending_builder"
proof (rule reach_step [OF reach_new [OF example_new]])
  have "add_sapling_spend example_sl [] [] [] (example_builder False)
    = (Inr () :: unit build_error + unit, spending_builder)"
    by (simp add: add_sapling_spend_def on_sapling_def on_pool_def example_builder_def example_sl_def map_err_def)
  then show "builder_step example_tlib example_sl example_ol (example_builder False) spending_builder"
    unfolding add_sapling_spend_def by (rule step_sapling)
qed

lemma reachable_builder_witness:
  "b_consensus_branch_id spending_builder = BranchNu6_3
     \<and> Builder_get_fee example_tlib example_sl example_ol (\<lambda>_ _ _ _ _ _ _ _. Some (Inr (Zatoshis 10000) :: unit + zatoshis))
         spending_builder \<noteq> None"
proof -
  let ?fee = "\<lambda>_ _ _ _ _ _ _ _. Some (Inr (Zatoshis 10000) :: unit + zatoshis)"
  note all = reachable_builder [OF spending_reachable, where fee_required = ?fee]
  have "b_consensus_branch_id spending_builder = BranchNu6_3"
    using all unfolding example_branch by (elim conjE)
  moreover have "Builder_get_fee example_tlib example_sl example_ol ?fee spending_builder \<noteq> None"
    using all by (elim conjE) (erule mp, simp)
  ultimately show ?thesis by (rule conjI)
qed

subsection \<open>Proposing a version\<close>

text \<open>The pools for which something was added.\<close>

definition sapling_in_use :: "('sbl, 'su) sapling_lib \<Rightarrow> ('tbl, 'sbl, 'obl) builder \<Rightarrow> bool" where
  "sapling_in_use sl b \<longleftrightarrow> Builder_sapling_inputs sl b \<noteq> 0 \<or> Builder_sapling_outputs sl b \<noteq> 0"

text \<open>C27: A version can be proposed for a reachable builder exactly when it is valid in the branch, is the
  Crosslink version exactly under the Crosslink configuration, and has a slot for every pool in use:
  version 4 or later for Sapling, 5 or later for Orchard, 6 for Ironwood. A refused proposal changes
  nothing, an accepted one only the version; and a build then gets past the version check.\<close>

theorem propose_version_iff:
  assumes "builder_reachable tlib sl ol params height cfg b"
  shows "case propose_version sl ol v b of (r :: 'fe build_error + unit, b') \<Rightarrow>
    (r = Inr () \<longleftrightarrow> valid_in_branch v (for_height params height) \<and> (v = VCrosslink \<longleftrightarrow> config_is_vcrosslink cfg)
       \<and> (sapling_in_use sl b \<longrightarrow> v \<in> {V4, V5, V6, VCrosslink}) \<and> (orchard_in_use ol b \<longrightarrow> v \<in> {V5, V6, VCrosslink})
       \<and> (ironwood_in_use ol b \<longrightarrow> v = V6))
    \<and> (r \<noteq> Inr () \<longrightarrow> b' = b)
    \<and> (r = Inr () \<longrightarrow> b' = b\<lparr>b_tx_version := v\<rparr>
         \<and> check_version_compatibility sl ol b' (b_tx_version b') = (Inr () :: 'fe build_error + unit))"
proof -
  have inv: "b_consensus_branch_id b = for_height params height" "b_build_config b = cfg"
    "b_staking_action b \<noteq> None \<longrightarrow> config_is_vcrosslink cfg"
    using reachable_inv [OF assms] unfolding builder_inv_def by blast+
  have iff: "check_version_compatibility sl ol b v = (Inr () :: 'fe build_error + unit) \<longleftrightarrow>
     valid_in_branch v (for_height params height) \<and> (v = VCrosslink \<longleftrightarrow> config_is_vcrosslink cfg)
       \<and> (sapling_in_use sl b \<longrightarrow> v \<in> {V4, V5, V6, VCrosslink}) \<and> (orchard_in_use ol b \<longrightarrow> v \<in> {V5, V6, VCrosslink})
       \<and> (ironwood_in_use ol b \<longrightarrow> v = V6)"
    unfolding check_version_compatibility_def Let_def inv sapling_in_use_def
    using inv(3) by (cases v; cases "for_height params height") (auto simp: version_has_crosslink_def)
  have again: "check_version_compatibility sl ol (b\<lparr>b_tx_version := v\<rparr>) v
      = (check_version_compatibility sl ol b v :: 'fe build_error + unit)"
    by (simp add: check_version_compatibility_def Builder_sapling_inputs_def Builder_sapling_outputs_def
        orchard_in_use_def ironwood_in_use_def Let_def)
  show ?thesis
  proof (cases "check_version_compatibility sl ol b v :: 'fe build_error + unit")
    case (Inl e)
    then have "propose_version sl ol v b = (Inl e :: 'fe build_error + unit, b)" by (simp add: propose_version_def)
    then show ?thesis using iff Inl by simp
  next
    case (Inr u)
    then have "propose_version sl ol v b = (Inr () :: 'fe build_error + unit, b\<lparr>b_tx_version := v\<rparr>)"
      by (simp add: propose_version_def)
    then show ?thesis using iffD1 [OF iff] Inr again
      by (cases v) (simp_all split del: if_split)
  qed
qed

lemma propose_version_iff_witness:
  "propose_version example_sl example_ol V5 spending_builder
     = (Inr () :: unit build_error + unit, spending_builder\<lparr>b_tx_version := V5\<rparr>)"
proof -
  have "\<not> orchard_in_use example_ol spending_builder" "\<not> ironwood_in_use example_ol spending_builder"
    by (simp_all add: orchard_in_use_def ironwood_in_use_def orchard_builder_in_use_def example_builder_def example_ol_def)
  moreover have "\<not> config_is_vcrosslink (example_config False)" by (simp add: config_is_vcrosslink_def)
  ultimately show ?thesis
    using propose_version_iff [where 'fe = unit, OF spending_reachable, of V5] unfolding example_branch
    by (simp split: prod.splits)
qed

end
