(* ===== verification/BuildSpec.thy ===== *)
theory BuildSpec
  imports BuilderSpec
begin

text \<open>
  What a build guarantees: the errors found before any bundle is built, the fee that a built
  transaction pays, and the identifier that its signatures cover. The laws of the external builders
  and signers are stated as predicates, with an instance for the witnesses.
\<close>

subsection \<open>Sequencing\<close>

lemma pbind_simps [simp]:
  "pbind (Some (Inl e)) f = Some (Inl e)" "pbind (Some (Inr x)) f = f x" "pbind None f = None"
  by (simp_all add: pbind_def)

lemma pbind_Inr: "pbind m f = Some (Inr y) \<longleftrightarrow> (\<exists>x. m = Some (Inr x) \<and> f x = Some (Inr y))"
  by (auto simp: pbind_def split: option.splits sum.splits)

lemma map_ok_Inr: "map_option (map_ok f) m = Some (Inr y) \<longleftrightarrow> (\<exists>x. m = Some (Inr x) \<and> y = f x)"
  by (cases m) (auto simp: map_ok_def split: sum.splits)

lemma map_err_Inr: "map_err f r = Inr x \<longleftrightarrow> r = Inr x"
  by (auto simp: map_err_def split: sum.splits)

lemma map_option_err_Inr: "map_option (map_err f) m = Some (Inr x) \<longleftrightarrow> m = Some (Inr x)"
  by (cases m) (auto simp: map_err_Inr)

subsection \<open>The balance check\<close>

text \<open>The check over the integers: what is left after the fee decides.\<close>

definition balance_verdict :: "int \<Rightarrow> 'fe build_error + unit" where
  "balance_verdict left =
     (if left < - 2100000000000000 then Inl (BalanceFailed Underflow)
      else if left < 0 then Inl (InsufficientFunds (ZatBalance (word_of_int (- left))))
      else if 0 < left then Inl (ChangeRequired (ZatBalance (word_of_int left)))
      else Inr ())"

lemma sub_zat_exact:
  assumes "wf_balance v" "wf_zats fee"
  shows "sint (zb_raw v - zat_raw fee) = zb_val v - zat_val fee" "zb_val v - zat_val fee \<le> 2100000000000000"
proof -
  have r: "- 2100000000000000 \<le> zb_val v" "zb_val v \<le> 2100000000000000"
    "zat_val fee \<le> 2100000000000000" "sint (zat_raw fee) = zat_val fee"
    using assms wf_zats_sint [OF assms(2)] by (simp_all add: wf_balance_iff wf_zats_iff)
  have nn: "0 \<le> zat_val fee" by simp
  have "- 9223372036854775808 \<le> zb_val v - zat_val fee" "zb_val v - zat_val fee < 9223372036854775808"
    using r nn by linarith+
  then show "sint (zb_raw v - zat_raw fee) = zb_val v - zat_val fee"
    using sint_sub_exact [of "zb_raw v" "zat_raw fee"] unfolding r(4) by simp
  show "zb_val v - zat_val fee \<le> 2100000000000000" using r nn by linarith
qed

lemma sub_zat_eq:
  assumes "wf_balance v" "wf_zats fee"
  shows "zb_sub_zat v fee = (if - 2100000000000000 \<le> zb_val v - zat_val fee
    then Some (ZatBalance (word_of_int (zb_val v - zat_val fee))) else None)"
  using sub_zat_exact(2) [OF assms]
  by (simp add: zb_sub_zat_def Zatoshis_into_i64_def from_i64_ok_exact [OF sub_zat_exact(1) [OF assms]])

lemma check_balance_eq:
  assumes "wf_balance v" "wf_zats fee"
  shows "check_balance (Inr v) fee = balance_verdict (zb_val v - zat_val fee)"
proof (cases "- 2100000000000000 \<le> zb_val v - zat_val fee")
  case True
  let ?d = "zb_val v - zat_val fee" and ?z = "ZatBalance (word_of_int (zb_val v - zat_val fee))"
  have "word_of_int ?d = zb_raw v - zat_raw fee" unfolding sub_zat_exact(1) [OF assms, symmetric] by simp
  then have z: "zb_val ?z = ?d" using sub_zat_exact(1) [OF assms] by (simp only: zat_balance.sel)
  have zero: "zb_val ZatBalance_zero = 0" by (rule zb.zero_val)
  have cmp: "?z < ZatBalance_zero \<longleftrightarrow> ?d < 0" "ZatBalance_zero < ?z \<longleftrightarrow> 0 < ?d"
    unfolding less_zat_balance_def z zero by (rule refl)+
  have neg: "zb_neg ?z = ZatBalance (word_of_int (- ?d))" by (simp add: zb_neg_def)
  have sub: "zb_sub_zat v fee = Some ?z" unfolding sub_zat_eq [OF assms] using True by (rule if_P)
  show ?thesis
    unfolding check_balance_def sub ok_or_def map_err_def sum.case option.case res_bind_simps cmp neg balance_verdict_def
    using True by simp
next
  case False
  then show ?thesis
    by (simp add: check_balance_def sub_zat_eq [OF assms] balance_verdict_def ok_or_def map_err_def)
qed

lemma check_balance_Inr:
  assumes "wf_balance v" "wf_zats fee" "check_balance (Inr v) fee = Inr u"
  shows "zb_val v = zat_val fee"
  using assms(3) unfolding check_balance_eq [OF assms(1,2)] balance_verdict_def by (auto split: if_splits)

lemma coinbase_check_ok: "\<not> config_is_coinbase (b_build_config b) \<Longrightarrow> check_coinbase_expiry_height b = Inr ()"
  by (simp add: check_coinbase_expiry_height_def)

lemma build_standard:
  assumes "\<not> config_is_coinbase (b_build_config b)"
  shows "Builder_build te sh gl tlib sl ol cache signing_set extsks saks rng sp op fee_required b =
    pbind (map_option (map_err FeeError) (Builder_get_fee tlib sl ol fee_required b)) (\<lambda>fee.
      build_internal te sh gl tlib sl ol cache (\<lambda>t. Inr (tl_build tlib t))
        (authorize_transparent te sh gl signing_set) extsks saks rng sp op (Some fee) b)"
  using assms by (cases "b_build_config b") (simp_all add: Builder_build_def config_is_coinbase_def)

text \<open>C16: The errors before anything is built, in order. Outside a coinbase, building a transaction and
  building a partially created one report the error of the fee first, then the version check; then
  the latter refuses Crosslink transactions; then both report the failure of the balance, or what is
  missing or left over after the fee, exactly, as computed over the integers. A coinbase is refused
  for its version or when its expiry height is not its target height.\<close>

theorem build_early_errors:
  fixes te sh gl tlib sl ol cache signing_set extsks saks rng sp op fee_required b
  defines "get_fee \<equiv> Builder_get_fee tlib sl ol fee_required b"
    and "balance \<equiv> Builder_value_balance tlib sl ol b"
    and "build \<equiv> Builder_build te sh gl tlib sl ol cache signing_set extsks saks rng sp op fee_required b"
    and "pczt \<equiv> build_for_pczt tlib sl ol rng fee_required b"
    and "check \<equiv> check_version_compatibility sl ol b (b_tx_version b)"
    and "coinbase \<equiv> config_is_coinbase (b_build_config b)"
    and "crosslink \<equiv> version_has_crosslink (b_tx_version b)"
  shows "(\<not> coinbase \<and> get_fee = Some (Inl fe) \<longrightarrow> build = Some (Inl (FeeError fe)) \<and> pczt = Some (Inl (FeeError fe)))
    \<and> (\<not> coinbase \<and> get_fee = Some (Inr fee) \<and> check = Inl e \<longrightarrow> build = Some (Inl e) \<and> pczt = Some (Inl e))
    \<and> (\<not> coinbase \<and> get_fee = Some (Inr fee) \<and> check = Inr () \<and> crosslink \<longrightarrow> pczt = Some (Inl CrosslinkPcztUnsupported))
    \<and> (\<not> coinbase \<and> get_fee = Some (Inr fee) \<and> check = Inr () \<and> balance = Inl be \<longrightarrow>
        build = Some (Inl (BalanceFailed be)) \<and> (\<not> crosslink \<longrightarrow> pczt = Some (Inl (BalanceFailed be))))
    \<and> (\<not> coinbase \<and> get_fee = Some (Inr fee) \<and> check = Inr () \<and> balance = Inr v \<and> wf_balance v \<and> wf_zats fee
        \<and> balance_verdict (zb_val v - zat_val fee) = Inl e \<longrightarrow>
        build = Some (Inl e) \<and> (\<not> crosslink \<longrightarrow> pczt = Some (Inl e)))
    \<and> (coinbase \<and> check = Inl e \<longrightarrow> build = Some (Inl e))
    \<and> (coinbase \<and> check = Inr () \<and> b_expiry_height b \<noteq> b_target_height b \<longrightarrow>
        build = Some (Inl (CoinbaseExpiryHeightMismatch (b_target_height b) (b_expiry_height b))))"
proof -
  have std: "\<not> coinbase \<Longrightarrow> check_coinbase_expiry_height b = Inr ()"
    "\<not> coinbase \<Longrightarrow> build = pbind (map_option (map_err FeeError) get_fee) (\<lambda>fee.
      build_internal te sh gl tlib sl ol cache (\<lambda>t. Inr (tl_build tlib t))
        (authorize_transparent te sh gl signing_set) extsks saks rng sp op (Some fee) b)"
    unfolding coinbase_def build_def get_fee_def by (rule coinbase_check_ok, assumption) (rule build_standard)
  have cb: "\<exists>md. b_build_config b = Coinbase md" if coinbase
    using that by (cases "b_build_config b") (simp_all add: coinbase_def config_is_coinbase_def)
  note fold_defs = check_def [symmetric] balance_def [symmetric] crosslink_def [symmetric] coinbase_def [symmetric]
    get_fee_def [symmetric]
  have fe: "\<not> coinbase \<and> get_fee = Some (Inl fe) \<longrightarrow> build = Some (Inl (FeeError fe)) \<and> pczt = Some (Inl (FeeError fe))"
    by (simp add: std(2) pczt_def build_for_pczt_def fold_defs map_err_def)
  have ve: "\<not> coinbase \<and> get_fee = Some (Inr fee) \<and> check = Inl e \<longrightarrow> build = Some (Inl e) \<and> pczt = Some (Inl e)"
    by (simp add: std(2) pczt_def build_for_pczt_def build_internal_def fold_defs map_err_def)
  have xe: "\<not> coinbase \<and> get_fee = Some (Inr fee) \<and> check = Inr () \<and> crosslink \<longrightarrow> pczt = Some (Inl CrosslinkPcztUnsupported)"
    by (simp add: std pczt_def build_for_pczt_def fold_defs map_err_def)
  have bal: "build = Some (Inl e) \<and> (\<not> crosslink \<longrightarrow> pczt = Some (Inl e))"
    if "\<not> coinbase" "get_fee = Some (Inr fee)" "check = Inr ()" "check_balance balance fee = Inl e" for e
    using that by (simp add: std pczt_def build_for_pczt_def build_internal_def fold_defs map_err_def)
  have ce: "coinbase \<and> check = Inl e \<longrightarrow> build = Some (Inl e)"
    using cb by (auto simp: build_def Builder_build_def build_internal_def fold_defs)
  have me: "coinbase \<and> check = Inr () \<and> b_expiry_height b \<noteq> b_target_height b \<longrightarrow>
      build = Some (Inl (CoinbaseExpiryHeightMismatch (b_target_height b) (b_expiry_height b)))"
    using cb by (auto simp: build_def Builder_build_def build_internal_def fold_defs check_coinbase_expiry_height_def
        config_is_coinbase_def)
  have bi: "\<not> coinbase \<and> get_fee = Some (Inr fee) \<and> check = Inr () \<and> balance = Inl be \<longrightarrow>
      build = Some (Inl (BalanceFailed be)) \<and> (\<not> crosslink \<longrightarrow> pczt = Some (Inl (BalanceFailed be)))"
    using bal [of "BalanceFailed be"] by (simp add: check_balance_def map_err_def)
  have bv: "\<not> coinbase \<and> get_fee = Some (Inr fee) \<and> check = Inr () \<and> balance = Inr v \<and> wf_balance v \<and> wf_zats fee
        \<and> balance_verdict (zb_val v - zat_val fee) = Inl e \<longrightarrow>
        build = Some (Inl e) \<and> (\<not> crosslink \<longrightarrow> pczt = Some (Inl e))"
    using bal [of e] by (simp add: check_balance_eq)
  show ?thesis by (intro conjI) (rule fe ve xe bi bv ce me)+
qed

subsection \<open>Laws of the external builders\<close>

text \<open>
  A pool builder without a bundle has the value zero, otherwise the bundle it builds has the value of the
  builder; the balances are in range, and \<open>transparent_value\<close> is the balance of a transparent bundle
  computed with the coins it spends.
\<close>

definition pool_values_ok where
  "pool_values_ok tlib sl ol gl transparent_value \<longleftrightarrow>
     (\<forall>t v. tl_value_balance tlib t = Inr v \<longrightarrow> wf_balance v \<and> (case tl_build tlib t of
        None \<Rightarrow> v = ZatBalance_zero
      | Some tu \<Rightarrow> \<forall>f set tb. gl_transparent_sign gl tu f set = Some (Inr tb) \<longrightarrow> transparent_value tb = Inr (Some v)))
   \<and> (\<forall>s ks g built g'. sl_build sl s ks g = Inr (built, g') \<longrightarrow> wf_balance (sl_value_balance sl s) \<and> (case built of
        None \<Rightarrow> sl_value_balance sl s = ZatBalance_zero
      | Some (su, m) \<Rightarrow> sap_value_balance (gl_sapling_view gl su) = sl_value_balance sl s))
   \<and> (\<forall>o' v g built g'. ol_value_balance ol o' = Inr v \<longrightarrow> ol_build ol o' g = Inr (built, g') \<longrightarrow> wf_balance v \<and> (case built of
        None \<Rightarrow> v = ZatBalance_zero
      | Some (ou, m) \<Rightarrow> ob_value_balance (gl_orchard_view gl ou) = v))"

text \<open>Proving and signing leave the effects of a bundle and its value as they are.\<close>

definition same_sapling where
  "same_sapling sx b b' \<longleftrightarrow> (\<forall>v. sapling_effects sx v (Some b) = sapling_effects sx v (Some b'))
     \<and> sap_value_balance b = sap_value_balance b'"

definition same_orchard where
  "same_orchard dx b b' \<longleftrightarrow> (\<forall>v. dx_commitment dx b v = dx_commitment dx b' v)
     \<and> ob_value_balance b = ob_value_balance b'"

definition signing_ok where
  "signing_ok te gl \<longleftrightarrow>
     (\<forall>tu f set tb. gl_transparent_sign gl tu f set = Some (Inr tb) \<longrightarrow>
        transparent_effects (te_transparent te) (Some tb) = transparent_effects (te_transparent te) (Some (gl_transparent_view gl tu)))
   \<and> (\<forall>tu. transparent_effects (te_transparent te) (Some (gl_map_coinbase gl tu))
        = transparent_effects (te_transparent te) (Some (gl_transparent_view gl tu)))
   \<and> (\<forall>su sp op g. same_sapling (te_sapling te) (gl_sapling_view gl (fst (gl_sapling_prove gl su sp op g))) (gl_sapling_view gl su))
   \<and> (\<forall>su g m asks sb g'. gl_sapling_sign gl su g m asks = Inr (sb, g') \<longrightarrow>
        same_sapling (te_sapling te) sb (gl_sapling_view gl su))
   \<and> (\<forall>ou key g ou' g'. gl_orchard_prove gl ou key g = Inr (ou', g') \<longrightarrow>
        same_orchard (te_digest te) (gl_orchard_view gl ou') (gl_orchard_view gl ou))
   \<and> (\<forall>ou g m saks ob g'. gl_orchard_sign gl ou g m saks = Inr (ob, g') \<longrightarrow>
        same_orchard (te_digest te) ob (gl_orchard_view gl ou))"

subsection \<open>What a successful build went through\<close>

lemma authorize_txE:
  assumes "authorize_tx te sh gl ol cache authorize extsks saks rng u
    = (Some (Inr tx) :: ('fe build_error + _) option)"
  obtains parts sighash key t s rng1 o1 rng2 i1 rng3 where
    "txid_digests (te_digest te) (te_transparent te) (te_sapling te) (view_data gl u) = Some parts"
    "(case td_transparent_bundle u of None \<Rightarrow> t = None
      | Some tu \<Rightarrow> \<exists>tb. authorize tu u parts = Some (Inr tb) \<and> t = Some tb)"
    "unauthed_sighash te sh gl u Shielded parts = Some sighash"
    "sign_sapling gl sighash (map (gl_sapling_ask gl) extsks) rng (td_sapling_bundle u) = (Inr (s, rng1) :: 'fe build_error + _)"
    "sign_orchard gl OrchardBuild key sighash saks rng1 (td_orchard_bundle u) = (Inr (o1, rng2) :: 'fe build_error + _)"
    "sign_orchard gl IronwoodBuild key sighash saks rng2 (td_ironwood_bundle u) = (Inr (i1, rng3) :: 'fe build_error + _)"
    "Transaction_from_data te
       \<lparr>td_version = td_version u, td_consensus_branch_id = td_consensus_branch_id u,
        td_lock_time = td_lock_time u, td_expiry_height = td_expiry_height u,
        td_transparent_bundle = t, td_sprout_bundle = td_sprout_bundle u,
        td_sapling_bundle = s, td_orchard_bundle = o1,
        td_ironwood_bundle = i1, td_staking_action = td_staking_action u\<rparr> = Some (Inr tx)"
proof -
  obtain parts where p: "txid_digests (te_digest te) (te_transparent te) (te_sapling te) (view_data gl u) = Some parts"
    using assms by (cases "txid_digests (te_digest te) (te_transparent te) (te_sapling te) (view_data gl u)")
      (simp_all add: authorize_tx_def)
  obtain sighash where h: "unauthed_sighash te sh gl u Shielded parts = Some sighash"
    using assms by (cases "unauthed_sighash te sh gl u Shielded parts")
      (auto simp: authorize_tx_def p pbind_Inr)
  obtain key where k: "build_proving_key ol cache u = Some key"
    using assms by (cases "build_proving_key ol cache u")
      (auto simp: authorize_tx_def p h pbind_Inr split: prod.splits)
  from assms show ?thesis
    unfolding authorize_tx_def p h k option.case pbind_Inr split_beta option.inject
  proof (elim exE conjE)
    fix t :: "_ option" and x y z
    assume t: "(case td_transparent_bundle u of None \<Rightarrow> Some (Inr None)
        | Some t \<Rightarrow> map_option (\<lambda>r. map_ok Some (map_err TransparentBuild r)) (authorize t u parts))
        = (Some (Inr t) :: ('fe build_error + _) option)"
      and s: "sign_sapling gl sighash (map (gl_sapling_ask gl) extsks) rng (td_sapling_bundle u)
        = (Inr x :: 'fe build_error + _)"
      and o': "sign_orchard gl OrchardBuild key sighash saks (snd x) (td_orchard_bundle u) = (Inr y :: 'fe build_error + _)"
      and i: "sign_orchard gl IronwoodBuild key sighash saks (snd y) (td_ironwood_bundle u) = (Inr z :: 'fe build_error + _)"
      and f: "(case Transaction_from_data te
       \<lparr>td_version = td_version u, td_consensus_branch_id = td_consensus_branch_id u,
        td_lock_time = td_lock_time u, td_expiry_height = td_expiry_height u,
        td_transparent_bundle = t, td_sprout_bundle = td_sprout_bundle u,
        td_sapling_bundle = fst x, td_orchard_bundle = fst y,
        td_ironwood_bundle = fst z, td_staking_action = td_staking_action u\<rparr> of
        Some (Inr tx) \<Rightarrow> Some (Inr tx) | _ \<Rightarrow> None) = (Some (Inr tx) :: ('fe build_error + _) option)"
    have tt: "case td_transparent_bundle u of None \<Rightarrow> t = None
        | Some tu \<Rightarrow> \<exists>tb. authorize tu u parts = Some (Inr tb) \<and> t = Some tb"
      using t by (cases "td_transparent_bundle u") (auto simp: map_ok_def map_err_def split: sum.splits)
    have ff: "Transaction_from_data te
       \<lparr>td_version = td_version u, td_consensus_branch_id = td_consensus_branch_id u,
        td_lock_time = td_lock_time u, td_expiry_height = td_expiry_height u,
        td_transparent_bundle = t, td_sprout_bundle = td_sprout_bundle u,
        td_sapling_bundle = fst x, td_orchard_bundle = fst y,
        td_ironwood_bundle = fst z, td_staking_action = td_staking_action u\<rparr> = Some (Inr tx)"
      using f by (auto split: option.splits sum.splits)
    show ?thesis
      using that [OF p tt h _ _ _ ff, of "snd x" key "snd y" "snd z"] s o' i by simp
  qed
qed

lemma build_internalE:
  assumes "build_internal te sh gl tlib sl ol cache build_transparent authorize extsks saks rng sp op fee b
    = (Some (Inr r) :: ('fe build_error + _) option)"
  obtains t x y z where
    "check_version_compatibility sl ol b (b_tx_version b) = (Inr () :: 'fe build_error + unit)"
    "check_coinbase_expiry_height b = (Inr () :: 'fe build_error + unit)"
    "(case fee of None \<Rightarrow> Inr () | Some fee \<Rightarrow> check_balance (Builder_value_balance tlib sl ol b) fee)
      = (Inr () :: 'fe build_error + unit)"
    "build_transparent (b_transparent_builder b) = (Inr t :: 'fe build_error + _)"
    "build_sapling sl gl extsks sp op rng (b_sapling_builder b) = (Inr x :: 'fe build_error + _)"
    "build_orchard ol OrchardBuild (snd x) (b_orchard_builder b) = (Inr y :: 'fe build_error + _)"
    "build_orchard ol IronwoodBuild (snd y) (b_ironwood_builder b) = (Inr z :: 'fe build_error + _)"
    "authorize_tx te sh gl ol cache authorize extsks saks (snd z)
        (unauthed_data b t (fst (fst x)) (fst (fst y)) (fst (fst z)))
      = (Some (Inr (br_transaction r)) :: ('fe build_error + _) option)"
proof -
  have nc: "config_is_coinbase (b_build_config b) = (fee = None)"
    using assms unfolding build_internal_def pbind_Inr by (auto split: if_splits)
  have "\<exists>t x y z tx.
      check_version_compatibility sl ol b (b_tx_version b) = (Inr () :: 'fe build_error + unit)
    \<and> check_coinbase_expiry_height b = (Inr () :: 'fe build_error + unit)
    \<and> (case fee of None \<Rightarrow> Inr () | Some fee \<Rightarrow> check_balance (Builder_value_balance tlib sl ol b) fee)
      = (Inr () :: 'fe build_error + unit)
    \<and> build_transparent (b_transparent_builder b) = (Inr t :: 'fe build_error + _)
    \<and> build_sapling sl gl extsks sp op rng (b_sapling_builder b) = (Inr x :: 'fe build_error + _)
    \<and> build_orchard ol OrchardBuild (snd x) (b_orchard_builder b) = (Inr y :: 'fe build_error + _)
    \<and> build_orchard ol IronwoodBuild (snd y) (b_ironwood_builder b) = (Inr z :: 'fe build_error + _)
    \<and> authorize_tx te sh gl ol cache authorize extsks saks (snd z)
        (unauthed_data b t (fst (fst x)) (fst (fst y)) (fst (fst z)))
      = (Some (Inr tx) :: ('fe build_error + _) option) \<and> tx = br_transaction r"
    using assms unfolding build_internal_def nc
    by (simp add: pbind_Inr split_beta map_ok_Inr) (elim exE conjE, intro exI conjI, (assumption | simp)+)
  then show ?thesis by (elim exE conjE) (rule that; simp)
qed

lemma frozen:
  assumes "Transaction_from_data te d = Some (Inr tx)"
  shows "tx_data tx = d"
    and "td_version d \<in> {V5, V6, VCrosslink} \<Longrightarrow>
      data_txid (te_digest te) (te_transparent te) (te_sapling te) d = Some (tx_txid tx)"
  using assms by (cases "td_version d"; auto simp: Transaction_from_data_def from_data_v4_def from_data_v5_def
      from_data_v6_def from_data_vcrosslink_def map_ok_def split: sum.splits)+

lemma signed_sapling:
  assumes "signing_ok te gl" "sign_sapling gl m asks rng ob = (Inr (s, rng') :: 'fe build_error + _)"
  shows "rel_option (same_sapling (te_sapling te)) s (map_option (gl_sapling_view gl) ob)"
    and "s = Some sb \<Longrightarrow> \<exists>su g g'. gl_sapling_sign gl su g m asks = Inr (sb, g')"
proof -
  have "\<exists>su g g' sb. ob = Some su \<and> s = Some sb \<and> gl_sapling_sign gl su g m asks = Inr (sb, g')" if "ob \<noteq> None"
    using assms(2) that by (cases ob) (auto simp: sign_sapling_def map_ok_def map_err_def split: sum.splits prod.splits)
  moreover have "s = None" if "ob = None"
    using assms(2) that by (simp add: sign_sapling_def)
  ultimately show "rel_option (same_sapling (te_sapling te)) s (map_option (gl_sapling_view gl) ob)"
    and "s = Some sb \<Longrightarrow> \<exists>su g g'. gl_sapling_sign gl su g m asks = Inr (sb, g')"
    using assms(1) unfolding signing_ok_def by (cases ob; fastforce)+
qed

lemma same_orchard_trans: "same_orchard dx a b \<Longrightarrow> same_orchard dx b c \<Longrightarrow> same_orchard dx a c"
  by (simp add: same_orchard_def)

lemma signed_orchard:
  assumes "signing_ok te gl" "sign_orchard gl wrap key m saks rng ob = (Inr (s, rng') :: 'fe build_error + _)"
  shows "rel_option (same_orchard (te_digest te)) s (map_option (gl_orchard_view gl) ob)"
    and "s = Some sb \<Longrightarrow> \<exists>ou g g'. gl_orchard_sign gl ou g m saks = Inr (sb, g')"
proof -
  have some: "\<exists>ou pv g1 g2 sb g'. ob = Some ou \<and> s = Some sb \<and> gl_orchard_prove gl ou key g1 = Inr (pv, g2)
      \<and> gl_orchard_sign gl pv g2 m saks = Inr (sb, g')" if "ob \<noteq> None"
    using assms(2) that
    by (cases ob) (auto simp: sign_orchard_def map_ok_def map_err_def res_bind_def split: sum.splits prod.splits, blast)
  have none: "s = None" if "ob = None"
    using assms(2) that by (simp add: sign_orchard_def)
  show "rel_option (same_orchard (te_digest te)) s (map_option (gl_orchard_view gl) ob)"
  proof (cases "ob = None")
    case False
    then obtain ou pv g1 g2 sb g' where o': "ob = Some ou" "s = Some sb" "gl_orchard_prove gl ou key g1 = Inr (pv, g2)"
      "gl_orchard_sign gl pv g2 m saks = Inr (sb, g')" using some by blast
    have "same_orchard (te_digest te) sb (gl_orchard_view gl ou)"
      by (rule same_orchard_trans [where b = "gl_orchard_view gl pv"]) (use assms(1) o'(3,4) in \<open>unfold signing_ok_def, blast\<close>)+
    then show ?thesis using o' by simp
  qed (simp add: none)
  show "s = Some sb \<Longrightarrow> \<exists>ou g g'. gl_orchard_sign gl ou g m saks = Inr (sb, g')"
    using some none by (cases "ob = None") auto
qed

lemma same_txid:
  assumes "td_version d = td_version d'" "td_consensus_branch_id d = td_consensus_branch_id d'"
    "td_lock_time d = td_lock_time d'" "td_expiry_height d = td_expiry_height d'"
    "td_staking_action d = td_staking_action d'"
    and tr: "transparent_effects tp (td_transparent_bundle d) = transparent_effects tp (td_transparent_bundle d')"
    and sa: "rel_option (same_sapling sx) (td_sapling_bundle d) (td_sapling_bundle d')"
    and orc: "rel_option (same_orchard dx) (td_orchard_bundle d) (td_orchard_bundle d')"
    and iro: "rel_option (same_orchard dx) (td_ironwood_bundle d) (td_ironwood_bundle d')"
  shows "data_txid dx tp sx d = data_txid dx tp sx d'"
proof -
  have "sapling_effects sx v (td_sapling_bundle d) = sapling_effects sx v (td_sapling_bundle d')" for v
    using sa by (cases rule: option.rel_cases) (auto simp: same_sapling_def)
  note hs = sapling_hash_cong [OF this, of dx]
  have oo: "txid_digest_orchard dx v (td_orchard_bundle d) = txid_digest_orchard dx v (td_orchard_bundle d')" for v
    using orc by (cases rule: option.rel_cases) (auto simp: same_orchard_def txid_digest_orchard_def map_digest_def)
  have ii: "txid_digest_ironwood dx (td_ironwood_bundle d) = txid_digest_ironwood dx (td_ironwood_bundle d')"
    using iro by (cases rule: option.rel_cases) (auto simp: same_orchard_def txid_digest_ironwood_def map_digest_def)
  show ?thesis
    unfolding data_txid_root root_message_def root_tail_def orchard_effect_def ironwood_effect_def root_personal_def
      assms(1-5) hs oo ii transparent_hash_cong [OF tr, of dx] by (rule refl)
qed

lemma authorized_same:
  assumes ok: "signing_ok te gl"
    and auth: "authorize_tx te sh gl ol cache authorize extsks saks rng u = (Some (Inr tx) :: ('fe build_error + _) option)"
    and tr: "\<forall>tu parts tb. authorize tu u parts = Some (Inr tb) \<longrightarrow>
      transparent_effects (te_transparent te) (Some tb) = transparent_effects (te_transparent te) (Some (gl_transparent_view gl tu))"
  shows "data_txid (te_digest te) (te_transparent te) (te_sapling te) (tx_data tx)
      = data_txid (te_digest te) (te_transparent te) (te_sapling te) (view_data gl u)"
    and "rel_option (same_sapling (te_sapling te)) (td_sapling_bundle (tx_data tx)) (td_sapling_bundle (view_data gl u))"
    and "rel_option (same_orchard (te_digest te)) (td_orchard_bundle (tx_data tx)) (td_orchard_bundle (view_data gl u))"
    and "rel_option (same_orchard (te_digest te)) (td_ironwood_bundle (tx_data tx)) (td_ironwood_bundle (view_data gl u))"
    and "td_version (tx_data tx) = td_version u \<and> td_sprout_bundle (tx_data tx) = td_sprout_bundle u
      \<and> td_staking_action (tx_data tx) = td_staking_action u"
    and "td_version u \<in> {V5, V6, VCrosslink} \<Longrightarrow>
      data_txid (te_digest te) (te_transparent te) (te_sapling te) (tx_data tx) = Some (tx_txid tx)"
    and "\<exists>parts sighash.
        txid_digests (te_digest te) (te_transparent te) (te_sapling te) (view_data gl u) = Some parts
      \<and> unauthed_sighash te sh gl u Shielded parts = Some sighash
      \<and> (case td_transparent_bundle u of None \<Rightarrow> td_transparent_bundle (tx_data tx) = None
        | Some tu \<Rightarrow> \<exists>tb. authorize tu u parts = Some (Inr tb) \<and> td_transparent_bundle (tx_data tx) = Some tb)
      \<and> (\<forall>sb. td_sapling_bundle (tx_data tx) = Some sb \<longrightarrow>
          (\<exists>su g g'. gl_sapling_sign gl su g sighash (map (gl_sapling_ask gl) extsks) = Inr (sb, g')))
      \<and> (\<forall>ob. td_orchard_bundle (tx_data tx) = Some ob \<or> td_ironwood_bundle (tx_data tx) = Some ob \<longrightarrow>
          (\<exists>ou g g'. gl_orchard_sign gl ou g sighash saks = Inr (ob, g')))"
proof -
  obtain parts sighash key t s rng1 o1 rng2 i1 rng3 where
    p: "txid_digests (te_digest te) (te_transparent te) (te_sapling te) (view_data gl u) = Some parts"
    and t: "case td_transparent_bundle u of None \<Rightarrow> t = None
      | Some tu \<Rightarrow> \<exists>tb. authorize tu u parts = Some (Inr tb) \<and> t = Some tb"
    and h: "unauthed_sighash te sh gl u Shielded parts = Some sighash"
    and s: "sign_sapling gl sighash (map (gl_sapling_ask gl) extsks) rng (td_sapling_bundle u) = (Inr (s, rng1) :: 'fe build_error + _)"
    and o': "sign_orchard gl OrchardBuild key sighash saks rng1 (td_orchard_bundle u) = (Inr (o1, rng2) :: 'fe build_error + _)"
    and i: "sign_orchard gl IronwoodBuild key sighash saks rng2 (td_ironwood_bundle u) = (Inr (i1, rng3) :: 'fe build_error + _)"
    and f: "Transaction_from_data te
       \<lparr>td_version = td_version u, td_consensus_branch_id = td_consensus_branch_id u,
        td_lock_time = td_lock_time u, td_expiry_height = td_expiry_height u,
        td_transparent_bundle = t, td_sprout_bundle = td_sprout_bundle u,
        td_sapling_bundle = s, td_orchard_bundle = o1,
        td_ironwood_bundle = i1, td_staking_action = td_staking_action u\<rparr> = Some (Inr tx)"
    by (rule authorize_txE [OF auth])
  note fr = frozen [OF f]
  show rel: "rel_option (same_sapling (te_sapling te)) (td_sapling_bundle (tx_data tx)) (td_sapling_bundle (view_data gl u))"
      "rel_option (same_orchard (te_digest te)) (td_orchard_bundle (tx_data tx)) (td_orchard_bundle (view_data gl u))"
      "rel_option (same_orchard (te_digest te)) (td_ironwood_bundle (tx_data tx)) (td_ironwood_bundle (view_data gl u))"
    using signed_sapling(1) [OF ok s] signed_orchard(1) [OF ok o'] signed_orchard(1) [OF ok i]
    unfolding fr(1) view_data_def by simp_all
  have "transparent_effects (te_transparent te) (td_transparent_bundle (tx_data tx))
      = transparent_effects (te_transparent te) (td_transparent_bundle (view_data gl u))"
    using t tr unfolding fr(1) view_data_def by (cases "td_transparent_bundle u") auto
  then show "data_txid (te_digest te) (te_transparent te) (te_sapling te) (tx_data tx)
      = data_txid (te_digest te) (te_transparent te) (te_sapling te) (view_data gl u)"
    by (intro same_txid rel) (simp_all add: fr(1) view_data_def)
  show "td_version (tx_data tx) = td_version u \<and> td_sprout_bundle (tx_data tx) = td_sprout_bundle u
      \<and> td_staking_action (tx_data tx) = td_staking_action u"
    by (simp add: fr(1))
  show "td_version u \<in> {V5, V6, VCrosslink} \<Longrightarrow>
      data_txid (te_digest te) (te_transparent te) (te_sapling te) (tx_data tx) = Some (tx_txid tx)"
    using fr by simp
  have sig: "(\<exists>su g g'. gl_sapling_sign gl su g sighash (map (gl_sapling_ask gl) extsks) = Inr (sb, g'))"
    if "s = Some sb" for sb using signed_sapling(2) [OF ok s that] .
  have sigo: "(\<exists>ou g g'. gl_orchard_sign gl ou g sighash saks = Inr (ob, g'))"
    if "o1 = Some ob \<or> i1 = Some ob" for ob
    using that signed_orchard(2) [OF ok o', of ob] signed_orchard(2) [OF ok i, of ob] by blast
  have tt: "case td_transparent_bundle u of None \<Rightarrow> td_transparent_bundle (tx_data tx) = None
        | Some tu \<Rightarrow> \<exists>tb. authorize tu u parts = Some (Inr tb) \<and> td_transparent_bundle (tx_data tx) = Some tb"
    using t by (cases "td_transparent_bundle u") (simp_all add: fr(1))
  show "\<exists>parts sighash.
        txid_digests (te_digest te) (te_transparent te) (te_sapling te) (view_data gl u) = Some parts
      \<and> unauthed_sighash te sh gl u Shielded parts = Some sighash
      \<and> (case td_transparent_bundle u of None \<Rightarrow> td_transparent_bundle (tx_data tx) = None
        | Some tu \<Rightarrow> \<exists>tb. authorize tu u parts = Some (Inr tb) \<and> td_transparent_bundle (tx_data tx) = Some tb)
      \<and> (\<forall>sb. td_sapling_bundle (tx_data tx) = Some sb \<longrightarrow>
          (\<exists>su g g'. gl_sapling_sign gl su g sighash (map (gl_sapling_ask gl) extsks) = Inr (sb, g')))
      \<and> (\<forall>ob. td_orchard_bundle (tx_data tx) = Some ob \<or> td_ironwood_bundle (tx_data tx) = Some ob \<longrightarrow>
          (\<exists>ou g g'. gl_orchard_sign gl ou g sighash saks = Inr (ob, g')))"
    by (rule exI [of _ parts], rule exI [of _ sighash], intro conjI p h tt allI impI)
      (rule sig, simp add: fr(1), rule sigo, simp add: fr(1))
qed

subsection \<open>The fee of a built transaction\<close>

lemma signing_prove:
  "signing_ok te gl \<Longrightarrow>
     same_sapling (te_sapling te) (gl_sapling_view gl (fst (gl_sapling_prove gl su sp op g))) (gl_sapling_view gl su)"
  by (simp add: signing_ok_def)

lemma signing_transparent:
  "signing_ok te gl \<Longrightarrow> authorize_transparent te sh gl keys tu u parts = Some (Inr tb) \<Longrightarrow>
     transparent_effects (te_transparent te) (Some tb) = transparent_effects (te_transparent te) (Some (gl_transparent_view gl tu))"
  unfolding signing_ok_def authorize_transparent_def by (elim conjE) (drule spec, drule spec, drule spec, drule spec, erule mp)

lemma sapling_value:
  assumes "pool_values_ok tlib sl ol gl tv" "signing_ok te gl"
    and "build_sapling sl gl ks sp op rng pool = (Inr x :: 'fe build_error + _)"
    and "rel_option (same_sapling (te_sapling te)) sb (map_option (gl_sapling_view gl) (fst (fst x)))"
  shows "bundle_balance sap_value_balance sb = (case pool of None \<Rightarrow> ZatBalance_zero | Some s \<Rightarrow> sl_value_balance sl s)"
proof (cases pool)
  case None
  then show ?thesis using assms(3,4) by (auto simp: build_sapling_def bundle_balance_def)
next
  case (Some s)
  then obtain built g' where b: "sl_build sl s ks rng = Inr (built, g')"
    and x: "fst (fst x) = map_option (\<lambda>(su, m). fst (gl_sapling_prove gl su sp op g')) built"
    using assms(3) by (cases "sl_build sl s ks rng") (auto simp: build_sapling_def map_err_def split: option.splits prod.splits)
  have v: "case built of None \<Rightarrow> sl_value_balance sl s = ZatBalance_zero
      | Some (su, m) \<Rightarrow> sap_value_balance (gl_sapling_view gl su) = sl_value_balance sl s"
    using assms(1) b unfolding pool_values_ok_def by blast
  show ?thesis
  proof (cases built)
    case None
    then show ?thesis using assms(4) v Some x by (simp add: bundle_balance_def)
  next
    case (Some sm)
    obtain su m where sm: "sm = (su, m)" by (cases sm)
    have "same_sapling (te_sapling te) (gl_sapling_view gl (fst (gl_sapling_prove gl su sp op g'))) (gl_sapling_view gl su)"
      by (rule signing_prove [OF assms(2)])
    then show ?thesis
      using assms(4) v \<open>pool = Some s\<close> x Some sm
      by (cases sb) (auto simp: bundle_balance_def same_sapling_def)
  qed
qed

lemma orchard_value:
  assumes "pool_values_ok tlib sl ol gl tv"
    and "build_orchard ol wrap rng pool = (Inr x :: 'fe build_error + _)" "pool_balance ol pool = Inr v"
    and "rel_option (same_orchard dx) ob (map_option (gl_orchard_view gl) (fst (fst x)))"
  shows "bundle_balance ob_value_balance ob = v"
proof (cases pool)
  case None
  then show ?thesis using assms(2-4) by (auto simp: build_orchard_def bundle_balance_def pool_balance_def)
next
  case (Some s)
  then obtain built g' where b: "ol_build ol s rng = Inr (built, g')" and x: "fst (fst x) = map_option fst built"
    using assms(2) by (cases "ol_build ol s rng") (auto simp: build_orchard_def map_err_def map_ok_def split: option.splits prod.splits)
  have "ol_value_balance ol s = Inr v"
    using assms(3) Some by (simp add: pool_balance_def map_err_Inr)
  then have v: "case built of None \<Rightarrow> v = ZatBalance_zero | Some (ou, m) \<Rightarrow> ob_value_balance (gl_orchard_view gl ou) = v"
    using assms(1) b unfolding pool_values_ok_def by blast
  show ?thesis
    using assms(4) v x by (cases built; cases ob) (auto simp: bundle_balance_def same_orchard_def)
qed

lemma zb_add_ok: "zb_add a b = Some c \<Longrightarrow> wf_balance c"
  by (auto simp: zb_add_def res_ok_def ZatBalance_from_i64_iff wf_balance_iff split: sum.splits)

lemma zb_add_zero: "wf_balance a \<Longrightarrow> zb_add ZatBalance_zero a = Some a \<and> zb_add a ZatBalance_zero = Some a"
  by (simp add: zb_add_def ZatBalance_zero_def ZatBalance_from_i64_def res_ok_def wf_balance_iff)

text \<open>C2: A built transaction pays exactly the fee. When a transaction other than a coinbase is built, the
  fee that \<open>fee_paid\<close> computes from its bundles, with the coins of its inputs, is the fee that the rule
  required for the inputs and outputs that were added.\<close>

theorem build_pays_fee:
  assumes ok: "signing_ok te gl" "pool_values_ok tlib sl ol gl transparent_value"
    and std: "\<not> config_is_coinbase (b_build_config b)"
    and rule_ok: "\<And>fee. Builder_get_fee tlib sl ol fee_required b = Some (Inr fee) \<Longrightarrow> wf_zats fee"
    and built: "Builder_build te sh gl tlib sl ol cache signing_set extsks saks rng sp op fee_required b
      = (Some (Inr r) :: ('fe build_error + _) option)"
  shows "\<exists>fee. Builder_get_fee tlib sl ol fee_required b = Some (Inr fee)
    \<and> fee_paid from_balance transparent_value sap_value_balance ob_value_balance (tx_data (br_transaction r))
        = Some (Inr (Some fee))"
proof -
  let ?d = "tx_data (br_transaction r)"
  obtain fee where fee: "Builder_get_fee tlib sl ol fee_required b = Some (Inr fee)"
    and bi: "build_internal te sh gl tlib sl ol cache (\<lambda>t. Inr (tl_build tlib t))
        (authorize_transparent te sh gl signing_set) extsks saks rng sp op (Some fee) b
        = (Some (Inr r) :: ('fe build_error + _) option)"
    using built [unfolded build_standard [OF std] pbind_Inr map_option_err_Inr] by (elim exE conjE) (rule that)
  from bi obtain t x y z where
    cb: "check_balance (Builder_value_balance tlib sl ol b) fee = (Inr () :: 'fe build_error + unit)"
    and t: "(Inr (tl_build tlib (b_transparent_builder b)) :: 'fe build_error + _) = Inr t"
    and x: "build_sapling sl gl extsks sp op rng (b_sapling_builder b) = (Inr x :: 'fe build_error + _)"
    and y: "build_orchard ol OrchardBuild (snd x) (b_orchard_builder b) = (Inr y :: 'fe build_error + _)"
    and z: "build_orchard ol IronwoodBuild (snd y) (b_ironwood_builder b) = (Inr z :: 'fe build_error + _)"
    and a: "authorize_tx te sh gl ol cache (authorize_transparent te sh gl signing_set) extsks saks (snd z)
        (unauthed_data b t (fst (fst x)) (fst (fst y)) (fst (fst z)))
      = (Some (Inr (br_transaction r)) :: ('fe build_error + _) option)"
    by (rule build_internalE) simp
  let ?u = "unauthed_data b t (fst (fst x)) (fst (fst y)) (fst (fst z))"
  have atr: "\<forall>tu parts tb. authorize_transparent te sh gl signing_set tu ?u parts = Some (Inr tb) \<longrightarrow>
      transparent_effects (te_transparent te) (Some tb) = transparent_effects (te_transparent te) (Some (gl_transparent_view gl tu))"
    by (intro allI impI) (rule signing_transparent [OF ok(1)])
  note same = authorized_same [OF ok(1) a atr]
  obtain v where v: "Builder_value_balance tlib sl ol b = Inr v"
    using cb by (cases "Builder_value_balance tlib sl ol b") (simp_all add: check_balance_def map_err_def)
  then obtain bt bo bi where
    bt: "tl_value_balance tlib (b_transparent_builder b) = Inr bt"
    and bo: "pool_balance ol (b_orchard_builder b) = Inr bo" and bi: "pool_balance ol (b_ironwood_builder b) = Inr bi"
    and sum: "zb_sum [bt, case b_sapling_builder b of None \<Rightarrow> ZatBalance_zero | Some s \<Rightarrow> sl_value_balance sl s,
        bo, bi, case b_staking_action b of None \<Rightarrow> ZatBalance_zero | Some a \<Rightarrow> value_balance_contribution a] = Some v"
    by (auto simp: Builder_value_balance_def ok_or_def split: option.splits)
  have st: "bundle_balance value_balance_contribution (td_staking_action ?d)
      = (case b_staking_action b of None \<Rightarrow> ZatBalance_zero | Some a \<Rightarrow> value_balance_contribution a)"
    using same(5) by (simp add: unauthed_data_def bundle_balance_def)
  have sa: "bundle_balance sap_value_balance (td_sapling_bundle ?d)
      = (case b_sapling_builder b of None \<Rightarrow> ZatBalance_zero | Some s \<Rightarrow> sl_value_balance sl s)"
    by (rule sapling_value [OF ok(2,1) x]) (use same(2) in \<open>simp add: view_data_def unauthed_data_def\<close>)
  have oo: "bundle_balance ob_value_balance (td_orchard_bundle ?d) = bo"
    by (rule orchard_value [OF ok(2) y bo]) (use same(3) in \<open>simp add: view_data_def unauthed_data_def\<close>)
  have ii: "bundle_balance ob_value_balance (td_ironwood_bundle ?d) = bi"
    by (rule orchard_value [OF ok(2) z bi]) (use same(4) in \<open>simp add: view_data_def unauthed_data_def\<close>)
  have wt: "wf_balance bt \<and> (case t of None \<Rightarrow> bt = ZatBalance_zero
      | Some tu \<Rightarrow> \<forall>f set tb. gl_transparent_sign gl tu f set = Some (Inr tb) \<longrightarrow> transparent_value tb = Inr (Some bt))"
    using mp [OF spec [OF spec [OF conjunct1 [OF ok(2) [unfolded pool_values_ok_def]]]] bt] t [unfolded sum.inject]
    by (simp only:)
  have tr: "(case td_transparent_bundle ?d of None \<Rightarrow> Inr (Some ZatBalance_zero) | Some tb \<Rightarrow> transparent_value tb)
      = Inr (Some bt)"
    using same(7) wt by (cases t) (auto simp: unauthed_data_def authorize_transparent_def)
  have sp: "(case td_sprout_bundle ?d of None \<Rightarrow> Some (Some ZatBalance_zero) | Some b \<Rightarrow> SproutBundle_value_balance b)
      = Some (Some ZatBalance_zero)"
    using same(5) by (simp add: unauthed_data_def)
  have sum6: "zb_sum (tx_balances bt ZatBalance_zero sap_value_balance ob_value_balance ?d) = Some v"
    using sum wt by (simp add: tx_balances_def sa oo ii st zb_sum_def zb_add_zero)
  have wv: "wf_balance v"
    using sum by (auto simp: zb_sum_def bind_eq_Some_conv dest: zb_add_ok)
  have wfee: "wf_zats fee" by (rule rule_ok [OF fee])
  have eq: "zb_val v = zat_val fee" by (rule check_balance_Inr [OF wv wfee cb [unfolded v]])
  then have nn: "0 \<le> zb_val v" by simp
  have "zat_val (Zatoshis (zb_raw v)) = zat_val fee" using balance_to_zatoshis(2) [OF wv nn] eq by simp
  then have "Zatoshis_try_from_ZatBalance v = Inr fee"
    using balance_to_zatoshis(1) [OF wv] nn by (simp only: zat_val_inject if_True)
  then show ?thesis
    using fee fee_paid_eq [OF tr sp, of from_balance sap_value_balance ob_value_balance] sum6
    by (simp add: map_err_def map_ok_def)
qed

subsection \<open>What is signed\<close>

lemma build_authorized:
  assumes ok: "signing_ok te gl"
    and built: "Builder_build te sh gl tlib sl ol cache signing_set extsks saks rng sp op fee_required b
      = (Some (Inr r) :: ('fe build_error + _) option)"
  obtains authorize t s o1 i1 g ks as where
    "check_version_compatibility sl ol b (b_tx_version b) = (Inr () :: 'fe build_error + unit)"
    "authorize_tx te sh gl ol cache authorize ks as g (unauthed_data b t s o1 i1)
      = (Some (Inr (br_transaction r)) :: ('fe build_error + _) option)"
    "\<forall>tu parts tb. authorize tu (unauthed_data b t s o1 i1) parts = Some (Inr tb) \<longrightarrow>
      transparent_effects (te_transparent te) (Some tb) = transparent_effects (te_transparent te) (Some (gl_transparent_view gl tu))"
    "ks = (if config_is_coinbase (b_build_config b) then [] else extsks)"
    "as = (if config_is_coinbase (b_build_config b) then [] else saks)"
proof (cases "config_is_coinbase (b_build_config b)")
  case False
  obtain fee where "build_internal te sh gl tlib sl ol cache (\<lambda>t. Inr (tl_build tlib t))
        (authorize_transparent te sh gl signing_set) extsks saks rng sp op (Some fee) b
        = (Some (Inr r) :: ('fe build_error + _) option)"
    using built [unfolded build_standard [OF False] pbind_Inr map_option_err_Inr] by (elim exE conjE) (rule that)
  then show ?thesis
  proof (rule build_internalE)
    fix t x y z
    assume v: "check_version_compatibility sl ol b (b_tx_version b) = (Inr () :: 'fe build_error + unit)"
      and a: "authorize_tx te sh gl ol cache (authorize_transparent te sh gl signing_set) extsks saks (snd z)
        (unauthed_data b t (fst (fst x)) (fst (fst y)) (fst (fst z)))
      = (Some (Inr (br_transaction r)) :: ('fe build_error + _) option)"
    show ?thesis
      by (rule that [OF v a]) (intro allI impI, rule signing_transparent [OF ok], assumption, simp_all add: False)
  qed
next
  case True
  then obtain md where cb: "b_build_config b = Coinbase md"
    by (cases "b_build_config b") (simp_all add: config_is_coinbase_def)
  have law: "\<forall>tu. transparent_effects (te_transparent te) (Some (gl_map_coinbase gl tu))
        = transparent_effects (te_transparent te) (Some (gl_transparent_view gl tu))"
    using ok unfolding signing_ok_def by (elim conjE)
  from built show ?thesis
    unfolding Builder_build_def cb build_config.case
  proof (rule build_internalE)
    fix t x y z
    assume v: "check_version_compatibility sl ol b (b_tx_version b) = (Inr () :: 'fe build_error + unit)"
      and a: "authorize_tx te sh gl ol cache (\<lambda>t _ _. Some (Inr (gl_map_coinbase gl t))) [] [] (snd z)
        (unauthed_data b t (fst (fst x)) (fst (fst y)) (fst (fst z)))
      = (Some (Inr (br_transaction r)) :: ('fe build_error + _) option)"
    show ?thesis by (rule that [OF v a]) (use law True in auto)
  qed
qed


subsection \<open>Examples\<close>

text \<open>Signing puts the signed hash, padded, where the binding signature is.\<close>

abbreviation example_signature :: "bytes \<Rightarrow> bytes" where
  "example_signature m \<equiv> take 64 (m @ replicate 64 0)"

abbreviation example_built_sapling :: "(bytes, bytes, bytes, bytes) sapling_bundle" where
  "example_built_sapling \<equiv> example_sapling\<lparr>sap_value_balance := ZatBalance 10000\<rparr>"

definition example_gl ::
  "(unit, unit, unit, bytes, bytes, bytes, bytes, bytes, bytes, bytes, bytes, bytes, bytes, bytes, u8) signing_lib" where
  "example_gl =
    (let orchard = (example_orchard OrchardBundleV3)\<lparr>ob_value_balance := ZatBalance_zero\<rparr> in
     \<lparr>gl_transparent_view = (\<lambda>_. \<lparr>tb_vin = [], tb_vout = []\<rparr>),
      gl_transparent_context = (\<lambda>_. \<lparr>ac_input_amounts = [], ac_input_scriptpubkeys = []\<rparr>),
      gl_sapling_view = (\<lambda>_. example_built_sapling), gl_orchard_view = (\<lambda>_. orchard),
      gl_transparent_sign = (\<lambda>_ _ _. Some (Inr \<lparr>tb_vin = [], tb_vout = []\<rparr>)),
      gl_map_coinbase = (\<lambda>_. \<lparr>tb_vin = [], tb_vout = []\<rparr>),
      gl_sapling_prove = (\<lambda>su _ _ rng. (su, rng)), gl_sapling_ask = (\<lambda>k. k),
      gl_sapling_sign = (\<lambda>_ rng m _. Inr (example_built_sapling\<lparr>sap_binding_sig := example_signature m\<rparr>, rng)),
      gl_orchard_prove = (\<lambda>ou _ rng. Inr (ou, rng)),
      gl_orchard_sign = (\<lambda>_ rng m _. Inr (orchard\<lparr>ob_binding_sig := example_signature m\<rparr>, rng))\<rparr>)"

lemma example_signing_ok: "signing_ok byte_tx example_gl"
  by (simp add: signing_ok_def example_gl_def Let_def same_sapling_def same_orchard_def sapling_effects_def byte_tx_def
      byte_digest_def)

lemma example_amounts: "wf_balance ZatBalance_zero" "wf_balance (ZatBalance 10000)"
  "zb_val ZatBalance_zero = 0" "zb_val (ZatBalance 10000) = 10000"
  by (rule zb.zero_ok) (simp_all add: wf_balance_iff zb.zero_val)

lemma example_values_ok:
  "pool_values_ok example_tlib example_sl example_ol example_gl (\<lambda>_. Inr (Some ZatBalance_zero))"
  unfolding pool_values_ok_def
proof (intro conjI)
  show "\<forall>s ks g built g'. sl_build example_sl s ks g = Inr (built, g') \<longrightarrow> wf_balance (sl_value_balance example_sl s)
      \<and> (case built of None \<Rightarrow> sl_value_balance example_sl s = ZatBalance_zero
         | Some (su, m) \<Rightarrow> sap_value_balance (gl_sapling_view example_gl su) = sl_value_balance example_sl s)"
    by (simp add: example_sl_def example_gl_def Let_def example_amounts)
  show "\<forall>o' v g built g'. ol_value_balance example_ol o' = Inr v \<longrightarrow> ol_build example_ol o' g = Inr (built, g') \<longrightarrow>
      wf_balance v \<and> (case built of None \<Rightarrow> v = ZatBalance_zero
        | Some (ou, m) \<Rightarrow> ob_value_balance (gl_orchard_view example_gl ou) = v)"
    by (simp add: example_ol_def example_gl_def Let_def example_amounts split: orchard_bundle_type.split bool.split)
qed (simp add: example_tlib_def example_amounts)

abbreviation no_keys :: proving_key_cache where
  "no_keys \<equiv> \<lparr>pkc_insecure_pre_nu6_2 = None, pkc_fixed_post_nu6_2 = None, pkc_post_nu6_3 = None\<rparr>"

abbreviation example_build where
  "example_build fee b \<equiv> Builder_build byte_tx byte_sighash example_gl example_tlib example_sl example_ol no_keys
     [] [] [] [] [] [] (\<lambda>_ _ _ _ _ _ _ _. Some (Inr fee :: unit + zatoshis)) b"

lemma example_fee:
  "Builder_get_fee example_tlib example_sl example_ol (\<lambda>_ _ _ _ _ _ _ _. Some (Inr fee :: unit + zatoshis))
     spending_builder = Some (Inr fee)"
  by (simp add: Builder_get_fee_def example_builder_def example_libs map_err_def orchard_action_count_def
      checked_add_u64_def ok_or_def sapling_builder_config_def Builder_sapling_inputs_def bundle_version_v3 example_branch)

lemma example_balance: "Builder_value_balance example_tlib example_sl example_ol spending_builder = Inr (ZatBalance 10000)"
proof -
  have "zb_add ZatBalance_zero ZatBalance_zero = Some ZatBalance_zero"
    "zb_add ZatBalance_zero (ZatBalance 10000) = Some (ZatBalance 10000)"
    "zb_add (ZatBalance 10000) ZatBalance_zero = Some (ZatBalance 10000)"
    by (simp_all add: zb_add_def ZatBalance_zero_def ZatBalance_from_i64_def res_ok_def)
  then have "zb_sum [ZatBalance_zero, ZatBalance 10000, ZatBalance_zero, ZatBalance_zero, ZatBalance_zero] = Some (ZatBalance 10000)"
    by (simp add: zb_sum_def)
  then show ?thesis
    by (simp add: Builder_value_balance_def example_builder_def example_libs pool_balance_def map_err_def ok_or_def)
qed

lemma example_check: "check_version_compatibility example_sl example_ol spending_builder V6 = (Inr () :: 'fe build_error + unit)"
  by (simp add: check_version_compatibility_def Let_def example_builder_def example_branch version_has_crosslink_def
      config_is_vcrosslink_def orchard_in_use_def ironwood_in_use_def orchard_builder_in_use_def example_ol_def)

lemma example_root:
  assumes "td_version d = V6" "td_orchard_bundle d = None" "td_ironwood_bundle d = None"
  obtains txid where "data_txid byte_digest byte_transparent byte_sapling d = Some txid"
  using assms by (simp add: data_txid_root root_message_def root_tail_def orchard_effect_def ironwood_effect_def
      txid_digest_orchard_def txid_digest_ironwood_def map_digest_def or_empty_def byte_digest_def)

abbreviation example_unauthed :: "(unit, unit, unit) transaction_data" where
  "example_unauthed \<equiv> unauthed_data spending_builder None (Some ()) None None"

abbreviation example_signed where
  "example_signed h \<equiv> \<lparr>td_version = V6, td_consensus_branch_id = BranchNu6_3, td_lock_time = 0,
     td_expiry_height = b_expiry_height spending_builder, td_transparent_bundle = None, td_sprout_bundle = None,
     td_sapling_bundle = Some (example_built_sapling\<lparr>sap_binding_sig := example_signature h\<rparr>),
     td_orchard_bundle = None, td_ironwood_bundle = None, td_staking_action = None\<rparr>"

lemma spending_fields:
  "b_tx_version spending_builder = V6" "b_build_config spending_builder = example_config False"
  "b_transparent_builder spending_builder = ()" "b_sapling_builder spending_builder = Some True"
  "b_orchard_builder spending_builder = Some (Transactional False None)"
  "b_ironwood_builder spending_builder = Some (Transactional False None)"
  "b_consensus_branch_id spending_builder = BranchNu6_3" "b_staking_action spending_builder = None"
  by (simp_all add: example_builder_def example_branch config_is_vcrosslink_def)

lemma example_authorized:
  obtains h txid where "authorize_tx byte_tx byte_sighash example_gl example_ol no_keys
      (authorize_transparent byte_tx byte_sighash example_gl []) [] [] [] example_unauthed
      = (Some (Inr \<lparr>tx_txid = txid, tx_data = example_signed h\<rparr>) :: (unit build_error + _) option)"
proof -
  let ?u = example_unauthed
  have u: "td_version (view_data example_gl ?u) = V6" "td_orchard_bundle (view_data example_gl ?u) = None"
    "td_ironwood_bundle (view_data example_gl ?u) = None" "td_transparent_bundle (view_data example_gl ?u) = None"
    by (simp_all add: view_data_def unauthed_data_def spending_fields)
  obtain parts where p: "txid_digests byte_digest byte_transparent byte_sapling (view_data example_gl ?u) = Some parts"
    by (simp add: txid_digests_def txid_digest_orchard_def txid_digest_ironwood_def map_digest_def u)
  obtain h where h: "unauthed_sighash byte_tx byte_sighash example_gl ?u Shielded parts = Some h"
  proof -
    obtain txid where "data_txid byte_digest byte_transparent byte_sapling (view_data example_gl ?u) = Some txid"
      by (rule example_root [OF u(1-3)])
    then have "map_option TxId (unauthed_sighash byte_tx byte_sighash example_gl ?u Shielded parts) = Some txid"
      using later_sighash [OF _ _ p, of byte_sighash "tx_context example_gl ?u" Shielded] u
      by (simp add: unauthed_sighash_def byte_tx_def spends_transparent_def)
    then show ?thesis using that by auto
  qed
  have "td_version (example_signed h) = V6" "td_orchard_bundle (example_signed h) = None"
    "td_ironwood_bundle (example_signed h) = None" by simp_all
  then obtain txid where "data_txid byte_digest byte_transparent byte_sapling (example_signed h) = Some txid"
    by (rule example_root)
  then have tx: "Transaction_from_data byte_tx (example_signed h) = Some (Inr \<lparr>tx_txid = txid, tx_data = example_signed h\<rparr>)"
    by (simp add: Transaction_from_data_def from_data_v6_def from_data_v5_def byte_tx_def)
  have "authorize_tx byte_tx byte_sighash example_gl example_ol no_keys
      (authorize_transparent byte_tx byte_sighash example_gl []) [] [] [] ?u
      = (Some (Inr \<lparr>tx_txid = txid, tx_data = example_signed h\<rparr>) :: (unit build_error + _) option)"
    using p h tx
    by (simp add: authorize_tx_def byte_tx_def unauthed_data_def spending_fields sign_sapling_def sign_orchard_def
        build_proving_key_def example_gl_def Let_def map_ok_def map_err_def)
  then show ?thesis by (rule that)
qed

text \<open>The example pays for itself: with 10000 zatoshis and a fee of 10000 it is built, and its one
  shielded bundle is signed with its identifier.\<close>

lemma example_built:
  obtains h txid where "example_build (Zatoshis 10000) spending_builder
    = Some (Inr \<lparr>br_transaction = \<lparr>tx_txid = txid, tx_data = example_signed h\<rparr>, br_sapling_meta = [],
        br_orchard_meta = [], br_ironwood_meta = []\<rparr>)"
proof -
  have nc: "\<not> config_is_coinbase (b_build_config spending_builder)" by (simp add: spending_fields config_is_coinbase_def)
  have bal: "check_balance (Inr (ZatBalance 10000)) (Zatoshis 10000) = (Inr () :: unit build_error + unit)"
    by (simp add: check_balance_eq wf_balance_iff wf_zats_iff balance_verdict_def)
  have pools: "build_sapling example_sl example_gl [] [] [] [] (Some True)
      = (Inr ((Some (), []), []) :: unit build_error + _)"
    "build_orchard example_ol w [] (b_orchard_builder (example_builder False)) = (Inr ((None, []), []) :: unit build_error + _)"
    "build_orchard example_ol w [] (b_ironwood_builder (example_builder False)) = (Inr ((None, []), []) :: unit build_error + _)" for w
    by (simp_all add: example_builder_def build_sapling_def build_orchard_def example_libs example_gl_def Let_def map_err_def map_ok_def)
  have none: "tl_build example_tlib () = None" by (simp add: example_tlib_def)
  have cfg: "\<not> config_is_coinbase (b_build_config (example_builder False))" using nc by simp
  obtain h txid where "authorize_tx byte_tx byte_sighash example_gl example_ol no_keys
      (authorize_transparent byte_tx byte_sighash example_gl []) [] [] [] example_unauthed
      = (Some (Inr \<lparr>tx_txid = txid, tx_data = example_signed h\<rparr>) :: (unit build_error + _) option)"
    by (rule example_authorized)
  then have "build_internal byte_tx byte_sighash example_gl example_tlib example_sl example_ol no_keys
      (\<lambda>t. Inr (tl_build example_tlib t)) (authorize_transparent byte_tx byte_sighash example_gl []) [] [] [] [] []
      (Some (Zatoshis 10000)) spending_builder
    = (Some (Inr \<lparr>br_transaction = \<lparr>tx_txid = txid, tx_data = example_signed h\<rparr>, br_sapling_meta = [],
        br_orchard_meta = [], br_ironwood_meta = []\<rparr>) :: (unit build_error + _) option)"
    unfolding build_internal_def coinbase_check_ok [OF nc] spending_fields(1) example_check example_balance bal
    by (simp add: pools none cfg bal map_ok_def)
  then have "example_build (Zatoshis 10000) spending_builder
    = Some (Inr \<lparr>br_transaction = \<lparr>tx_txid = txid, tx_data = example_signed h\<rparr>, br_sapling_meta = [],
        br_orchard_meta = [], br_ironwood_meta = []\<rparr>)"
    unfolding build_standard [OF nc] example_fee by (simp add: map_err_def)
  then show ?thesis by (rule that)
qed

subsection \<open>The witnesses of the build properties\<close>

lemma build_early_errors_witness:
  "example_build (Zatoshis 20000) spending_builder = Some (Inl (InsufficientFunds (ZatBalance 10000)))"
proof -
  let ?fee = "\<lambda>_ _ _ _ _ _ _ _. Some (Inr (Zatoshis 20000) :: unit + zatoshis)"
  have nc: "\<not> config_is_coinbase (b_build_config spending_builder)" by (simp add: spending_fields config_is_coinbase_def)
  have check: "check_version_compatibility example_sl example_ol spending_builder (b_tx_version spending_builder)
      = (Inr () :: unit build_error + unit)" unfolding spending_fields(1) by (rule example_check)
  have verdict: "balance_verdict (zb_val (ZatBalance 10000) - zat_val (Zatoshis 20000))
      = (Inl (InsufficientFunds (ZatBalance 10000)) :: unit build_error + unit)"
    by (simp add: balance_verdict_def)
  have "wf_zats (Zatoshis 20000)" by (simp add: wf_zats_iff)
  note given = nc example_fee [of "Zatoshis 20000"] check example_balance example_amounts(2) this verdict
  note all = build_early_errors [where b = spending_builder and tlib = example_tlib and sl = example_sl
      and ol = example_ol and fee_required = ?fee and te = byte_tx and sh = byte_sighash and gl = example_gl
      and cache = no_keys and signing_set = "[]" and extsks = "[]" and saks = "[]" and rng = "[]" and sp = "[]"
      and op = "[]" and e = "InsufficientFunds (ZatBalance 10000)" and v = "ZatBalance 10000" and fee = "Zatoshis 20000"]
  show ?thesis
    by (rule conjunct1 [OF mp [OF all [THEN conjunct2, THEN conjunct2, THEN conjunct2, THEN conjunct2, THEN conjunct1]]])
      (intro conjI given)
qed

lemma build_pays_fee_witness:
  "\<exists>r. example_build (Zatoshis 10000) spending_builder = Some (Inr r)
     \<and> fee_paid (\<lambda>e. e) (\<lambda>_. Inr (Some ZatBalance_zero)) sap_value_balance ob_value_balance (tx_data (br_transaction r))
         = (Some (Inr (Some (Zatoshis 10000))) :: (balance_error + _) option)"
proof -
  obtain h txid where built: "example_build (Zatoshis 10000) spending_builder
    = Some (Inr \<lparr>br_transaction = \<lparr>tx_txid = txid, tx_data = example_signed h\<rparr>, br_sapling_meta = [],
        br_orchard_meta = [], br_ironwood_meta = []\<rparr>)" by (rule example_built)
  have "\<not> config_is_coinbase (b_build_config spending_builder)" by (simp add: spending_fields config_is_coinbase_def)
  from build_pays_fee [OF example_signing_ok example_values_ok this _ built] show ?thesis
    unfolding example_fee built by (simp add: wf_zats_iff)
qed


end
