(* ===== verification/BuildTotal.thy ===== *)
theory BuildTotal
  imports BuildSpec
begin

text \<open>
  When building returns: a balanced builder for version 5 or later is built unless an external call
  fails, a padded Orchard bundle cannot be built into an older version, the proving key cache does not
  change the result, and what the builder with deferred anchors gives.
\<close>

subsection \<open>Failures of external calls\<close>

text \<open>The errors that come from a call of an external builder or signer that fails.\<close>

definition external_failure ::
  "('sbl, 'su) sapling_lib \<Rightarrow> ('obl, 'ou) orchard_lib
     \<Rightarrow> ('tu, 'su, 'ou, 'i, 'o, 'cv, 'fe, 'cmu, 'rk, 'ocv, 'nf, 'ork, 'cmx, 'an, 'fl) signing_lib
     \<Rightarrow> 'er build_error \<Rightarrow> bool" where
  "external_failure sl ol gl e \<longleftrightarrow> (case e of
     TransparentBuild x \<Rightarrow> (\<exists>tu f keys. gl_transparent_sign gl tu f keys = Some (Inl x))
   | SaplingBuild x \<Rightarrow> (\<exists>s ks g. sl_build sl s ks g = Inl x) \<or> (\<exists>su g m asks. gl_sapling_sign gl su g m asks = Inl x)
   | OrchardBuild x \<Rightarrow> (\<exists>s g. ol_build ol s g = Inl x) \<or> (\<exists>ou key g. gl_orchard_prove gl ou key g = Inl x)
       \<or> (\<exists>ou g m saks. gl_orchard_sign gl ou g m saks = Inl x)
   | IronwoodBuild x \<Rightarrow> (\<exists>s g. ol_build ol s g = Inl x) \<or> (\<exists>ou key g. gl_orchard_prove gl ou key g = Inl x)
       \<or> (\<exists>ou g m saks. gl_orchard_sign gl ou g m saks = Inl x)
   | _ \<Rightarrow> False)"

text \<open>A result that is no panic, and an error only through one of them.\<close>

definition returns_unless where
  "returns_unless bad m \<longleftrightarrow> m \<noteq> None \<and> (\<forall>e. m = Some (Inl e) \<longrightarrow> bad e)"

lemma returns_pbind:
  "returns_unless bad m \<Longrightarrow> (\<And>x. m = Some (Inr x) \<Longrightarrow> returns_unless bad (f x)) \<Longrightarrow> returns_unless bad (pbind m f)"
  by (cases m) (auto simp: returns_unless_def pbind_def split: sum.splits)

lemma returns_Some: "returns_unless bad (Some r) \<longleftrightarrow> (\<forall>e. r = Inl e \<longrightarrow> bad e)"
  by (simp add: returns_unless_def)

lemma returns_map_ok: "returns_unless bad (map_option (map_ok f) m) \<longleftrightarrow> returns_unless bad m"
  by (cases m) (auto simp: returns_unless_def map_ok_def split: sum.splits)

lemma returns_sapling:
  "returns_unless (external_failure sl ol gl) (Some (build_sapling sl gl ks sp op g pool))"
  "returns_unless (external_failure sl ol gl) (Some (sign_sapling gl m asks g b))"
  by (auto simp: returns_Some build_sapling_def sign_sapling_def external_failure_def map_err_def map_ok_def res_bind_def
      Let_def split: option.splits sum.splits prod.splits)

lemma returns_transparent:
  assumes "\<forall>tu f keys. gl_transparent_sign gl tu f keys \<noteq> None"
  shows "returns_unless (external_failure sl ol gl) (case b of None \<Rightarrow> Some (Inr None)
    | Some t \<Rightarrow> map_option (\<lambda>r. map_ok Some (map_err TransparentBuild r)) (authorize_transparent te sh gl keys t u parts))"
proof (cases b)
  case (Some tu)
  obtain r where r: "authorize_transparent te sh gl keys tu u parts = Some r"
    using assms [THEN spec [of _ tu], THEN spec, THEN spec] by (auto simp: authorize_transparent_def)
  show ?thesis
    using r by (cases r) (auto simp: Some r returns_Some external_failure_def map_ok_def map_err_def authorize_transparent_def)
qed (simp add: returns_Some)

lemma returns_orchard:
  assumes "wrap = OrchardBuild \<or> wrap = IronwoodBuild"
  shows "returns_unless (external_failure sl ol gl) (Some (build_orchard ol wrap g pool))"
    and "returns_unless (external_failure sl ol gl) (Some (sign_orchard gl wrap key m saks g b))"
  using assms
  by (elim disjE; auto simp: returns_Some build_orchard_def sign_orchard_def external_failure_def map_err_def map_ok_def
      res_bind_def split: option.splits sum.splits prod.splits)+

lemmas returns_pools = returns_sapling returns_orchard [OF disjI1 [OF refl]] returns_orchard [OF disjI2 [OF refl]]

subsection \<open>Digests\<close>

text \<open>The commitments of Orchard bundles never panic.\<close>

definition digests_total where
  "digests_total dx \<longleftrightarrow> (\<forall>b v. dx_commitment dx b v \<noteq> None) \<and> (\<forall>p v. dx_bundle_txid_empty dx p v \<noteq> None)"

lemma map_digest_total: "(\<And>b. f b \<noteq> None) \<Longrightarrow> map_digest f x \<noteq> None"
  by (auto simp: map_digest_def split: option.splits)

lemma txid_digests_total: "digests_total dx \<Longrightarrow> txid_digests dx tp sx d \<noteq> None"
  using map_digest_total [of "\<lambda>b. dx_commitment dx b (snd (orchard_commitment_domain (td_version d)))" "td_orchard_bundle d"]
    map_digest_total [of "\<lambda>b. dx_commitment dx b (snd ironwood_v6_domain)" "td_ironwood_bundle d"]
  by (auto simp: txid_digests_def txid_digest_orchard_def txid_digest_ironwood_def digests_total_def)

lemma to_hash_total:
  assumes "digests_total dx"
  shows "to_hash dx v br h t s o' c \<noteq> None" "to_hash_v6 dx br h t s o' i \<noteq> None"
proof -
  have total: "\<exists>y. or_empty dx p d = Some y" for p d
    using assms by (cases p) (auto simp: or_empty_def digests_total_def split: option.splits)
  obtain x y where "or_empty dx (orchard_commitment_domain v) o' = Some x"
    "or_empty dx (orchard_commitment_domain V6) o' = Some y" using total by blast
  moreover obtain z where "or_empty dx ironwood_v6_domain i = Some z" using total by blast
  ultimately show "to_hash dx v br h t s o' c \<noteq> None" "to_hash_v6 dx br h t s o' i \<noteq> None"
    by (simp_all add: to_hash_def to_hash_v6_def)
qed

lemma data_txid_total: "digests_total dx \<Longrightarrow> data_txid dx tp sx d \<noteq> None"
  using txid_digests_total [of dx tp sx d] to_hash_total [of dx]
  by (auto simp: data_txid_def to_txid_def split: if_splits)

lemma shielded_sighash_total:
  assumes "digests_total dx" "td_version d \<in> {V5, V6, VCrosslink}" "txid_digests dx tp sx d = Some parts"
  shows "signature_hash dx tp sx sh ctx d Shielded parts \<noteq> None"
proof -
  have parts: "txd_transparent_digests parts = map_option (transparent_digests_of dx tp) (td_transparent_bundle d)"
    using assms(3) by (auto simp: txid_digests_def bind_eq_Some_conv)
  have "transparent_sig_digest dx tp sh ctx x Shielded \<noteq> None" for x
    by (auto simp: transparent_sig_digest_def v5_input_def Let_def split: option.splits)
  then obtain t where t: "transparent_sig_digest dx tp sh ctx
      (zip_option (td_transparent_bundle d) (txd_transparent_digests parts)) Shielded = Some t" by auto
  show ?thesis
    using assms(2) to_hash_total [OF assms(1)]
    by (auto simp: signature_hash_def v5_signature_hash_def vcrosslink_signature_hash_def v5_signature_hash_inner_def
        v6_signature_hash_def parts t [unfolded parts])
qed

lemma returns_freeze:
  assumes "digests_total (te_digest te)" "td_version d \<in> {V5, V6, VCrosslink}"
  shows "returns_unless bad (case Transaction_from_data te d of Some (Inr tx) \<Rightarrow> Some (Inr tx) | _ \<Rightarrow> None)"
proof -
  obtain txid where "data_txid (te_digest te) (te_transparent te) (te_sapling te) d = Some txid"
    using data_txid_total [OF assms(1), of "te_transparent te" "te_sapling te" d] by auto
  then show ?thesis
    using assms(2) by (auto simp: returns_Some Transaction_from_data_def from_data_v5_def from_data_v6_def
        from_data_vcrosslink_def)
qed

subsection \<open>Balanced builders are built\<close>

lemma returns_authorize:
  assumes dig: "digests_total (te_digest te)" and v: "td_version u \<in> {V5, V6, VCrosslink}"
    and key: "build_proving_key ol cache u \<noteq> None"
    and tr: "\<forall>tu f keys. gl_transparent_sign gl tu f keys \<noteq> None"
  shows "returns_unless (external_failure sl ol gl)
    (authorize_tx te sh gl ol cache (authorize_transparent te sh gl keys) extsks saks rng u)"
proof -
  obtain parts where p: "txid_digests (te_digest te) (te_transparent te) (te_sapling te) (view_data gl u) = Some parts"
    using txid_digests_total [OF dig, of "te_transparent te" "te_sapling te" "view_data gl u"] by auto
  have "td_version (view_data gl u) \<in> {V5, V6, VCrosslink}" using v by (simp add: view_data_def)
  then obtain h where h: "unauthed_sighash te sh gl u Shielded parts = Some h"
    using shielded_sighash_total [OF dig _ p] unfolding unauthed_sighash_def by fastforce
  obtain k where k: "build_proving_key ol cache u = Some k" using key by auto
  show ?thesis
    unfolding authorize_tx_def p h k option.case split_beta
  proof (intro returns_pbind returns_transparent [OF tr] returns_pools)
    fix t x y z
    show "returns_unless (external_failure sl ol gl) (case Transaction_from_data te
        \<lparr>td_version = td_version u, td_consensus_branch_id = td_consensus_branch_id u,
         td_lock_time = td_lock_time u, td_expiry_height = td_expiry_height u,
         td_transparent_bundle = t, td_sprout_bundle = td_sprout_bundle u,
         td_sapling_bundle = fst x, td_orchard_bundle = fst y, td_ironwood_bundle = fst z,
         td_staking_action = td_staking_action u\<rparr> of Some (Inr tx) \<Rightarrow> Some (Inr tx) | _ \<Rightarrow> None)"
      by (rule returns_freeze [OF dig]) (use v in simp)
  qed
qed

lemma reachable_proving_key:
  assumes "builder_reachable tlib sl ol params height cfg b"
    and y: "build_orchard ol OrchardBuild g (b_orchard_builder b) = (Inr y :: 'fe build_error + _)"
    and z: "build_orchard ol IronwoodBuild g' (b_ironwood_builder b) = (Inr z :: 'fe build_error + _)"
  shows "build_proving_key ol cache (unauthed_data b t s (fst (fst y)) (fst (fst z))) \<noteq> None"
proof -
  have inv: "b_consensus_branch_id b = for_height params height"
    "b_orchard_builder b \<noteq> None \<longrightarrow> bundle_version_for_branch (for_height params height) PoolOrchard \<noteq> None"
    "b_ironwood_builder b \<noteq> None \<longrightarrow> for_height params height = BranchNu6_3"
    using reachable_inv [OF assms(1)] unfolding builder_inv_def by auto
  have "fst (fst y) \<noteq> None \<Longrightarrow> b_orchard_builder b \<noteq> None" "fst (fst z) \<noteq> None \<Longrightarrow> b_ironwood_builder b \<noteq> None"
    using y z by (cases "b_orchard_builder b"; cases "b_ironwood_builder b"; auto simp: build_orchard_def)+
  then show ?thesis
    using inv by (auto simp: build_proving_key_def unauthed_data_def bundle_version_v3)
qed



subsection \<open>Orchard bundles in old versions\<close>

lemma old_version_no_orchard:
  assumes "td_version d \<notin> {V5, V6, VCrosslink}" "td_orchard_bundle d \<noteq> None"
  shows "Transaction_from_data te d \<noteq> Some (Inr tx)"
  using assms by (cases "td_version d") (auto simp: Transaction_from_data_def from_data_v4_def Transaction_write_def
      write_v4_def map_ok_def)

lemma old_version_internal:
  assumes v: "b_tx_version b \<notin> {V5, V6, VCrosslink}" and s: "b_orchard_builder b = Some s"
    and some: "\<forall>g g'. ol_build ol s g \<noteq> Inr (None, g')"
  shows "build_internal te sh gl tlib sl ol cache bt au extsks saks rng sp op fee b
    \<noteq> (Some (Inr r) :: ('fe build_error + _) option)"
proof
  assume "build_internal te sh gl tlib sl ol cache bt au extsks saks rng sp op fee b
    = (Some (Inr r) :: ('fe build_error + _) option)"
  then show False
  proof (rule build_internalE)
    fix t x y z
    assume y: "build_orchard ol OrchardBuild (snd x) (b_orchard_builder b) = (Inr y :: 'fe build_error + _)"
      and a: "authorize_tx te sh gl ol cache au extsks saks (snd z)
        (unauthed_data b t (fst (fst x)) (fst (fst y)) (fst (fst z)))
      = (Some (Inr (br_transaction r)) :: ('fe build_error + _) option)"
    obtain ou where ou: "fst (fst y) = Some ou"
      using y s some by (cases "ol_build ol s (snd x)") (auto simp: build_orchard_def map_ok_def map_err_def split: option.splits)
    from a show False
    proof (rule authorize_txE)
      fix parts sighash key t' s' g o1 g1 i1 g2
      assume sg: "sign_orchard gl OrchardBuild key sighash saks g
          (td_orchard_bundle (unauthed_data b t (fst (fst x)) (fst (fst y)) (fst (fst z)))) = (Inr (o1, g1) :: 'fe build_error + _)"
        and f: "Transaction_from_data te
         \<lparr>td_version = td_version (unauthed_data b t (fst (fst x)) (fst (fst y)) (fst (fst z))),
          td_consensus_branch_id = td_consensus_branch_id (unauthed_data b t (fst (fst x)) (fst (fst y)) (fst (fst z))),
          td_lock_time = td_lock_time (unauthed_data b t (fst (fst x)) (fst (fst y)) (fst (fst z))),
          td_expiry_height = td_expiry_height (unauthed_data b t (fst (fst x)) (fst (fst y)) (fst (fst z))),
          td_transparent_bundle = t', td_sprout_bundle = td_sprout_bundle (unauthed_data b t (fst (fst x)) (fst (fst y)) (fst (fst z))),
          td_sapling_bundle = s', td_orchard_bundle = o1, td_ironwood_bundle = i1,
          td_staking_action = td_staking_action (unauthed_data b t (fst (fst x)) (fst (fst y)) (fst (fst z)))\<rparr>
          = Some (Inr (br_transaction r))"
      have some': "o1 \<noteq> None"
        using sg ou by (auto simp: unauthed_data_def sign_orchard_def map_ok_def split: sum.splits)
      show False by (rule notE [OF old_version_no_orchard f]) (use v some' in \<open>simp_all add: unauthed_data_def\<close>)
    qed
  qed
qed

text \<open>C28: A builder whose Orchard builder always makes a bundle, as with a padding that requires one, is never
  built into a transaction of version 4 or earlier, although that version can be proposed as long as
  nothing was added to Orchard: the freezing of the signed data fails, and its result is unwrapped.\<close>

theorem old_version_never_built:
  assumes "b_tx_version b \<notin> {V5, V6, VCrosslink}" "b_orchard_builder b = Some s"
    and "\<forall>g g'. ol_build ol s g \<noteq> Inr (None, g')"
  shows "Builder_build te sh gl tlib sl ol cache signing_set extsks saks rng sp op fee_required b
    \<noteq> (Some (Inr r) :: ('fe build_error + _) option)"
  by (cases "b_build_config b")
    (simp_all add: Builder_build_def pbind_Inr old_version_internal [OF assms])

text \<open>The builder of the example proposes version 4, and its build panics.\<close>

abbreviation old_builder :: "(unit, bool, orchard_bundle_type) builder" where
  "old_builder \<equiv> (example_builder True)\<lparr>b_tx_version := V4\<rparr>"

lemma old_check:
  "check_version_compatibility example_sl example_ol (example_builder True) V4 = (Inr () :: unit build_error + unit)"
  "check_version_compatibility example_sl example_ol old_builder V4 = (Inr () :: unit build_error + unit)"
  by (simp_all add: check_version_compatibility_def Let_def example_builder_def example_branch
      version_has_crosslink_def config_is_vcrosslink_def orchard_in_use_def ironwood_in_use_def orchard_builder_in_use_def
      Builder_sapling_inputs_def Builder_sapling_outputs_def example_sl_def example_ol_def)

lemma old_proposed:
  "propose_version example_sl example_ol V4 (example_builder True) = (Inr () :: unit build_error + unit, old_builder)"
  by (simp add: propose_version_def old_check)

lemma old_fields:
  "b_tx_version old_builder = V4" "b_build_config old_builder = example_config True"
  "b_transparent_builder old_builder = ()" "b_sapling_builder old_builder = Some False"
  "b_orchard_builder old_builder = Some (Transactional True None)"
  "b_ironwood_builder old_builder = Some (Transactional False None)"
  "b_consensus_branch_id old_builder = BranchNu6_3" "b_staking_action old_builder = None"
  "b_orchard_bundle_version old_builder = Some OrchardBundleV3"
  by (simp_all add: example_builder_def example_branch bundle_version_v3)

lemma zero_sum: "zb_sum [ZatBalance_zero, ZatBalance_zero, ZatBalance_zero, ZatBalance_zero, ZatBalance_zero] = Some ZatBalance_zero"
  using zb_add_zero [OF example_amounts(1)] by (simp add: zb_sum_def)

lemma old_panics:
  "authorize_tx byte_tx byte_sighash example_gl example_ol no_keys (authorize_transparent byte_tx byte_sighash example_gl [])
      [] [] [] (unauthed_data old_builder None None (Some ()) None) = (None :: (unit build_error + _) option)"
proof -
  let ?u = "unauthed_data old_builder None None (Some ()) None :: (unit, unit, unit) transaction_data"
  have "digests_total byte_digest" by (simp add: digests_total_def byte_digest_def)
  then obtain parts where p: "txid_digests byte_digest byte_transparent byte_sapling (view_data example_gl ?u) = Some parts"
    using txid_digests_total [of byte_digest byte_transparent byte_sapling "view_data example_gl ?u"] by auto
  obtain h where h: "unauthed_sighash byte_tx byte_sighash example_gl ?u Shielded parts = Some h"
    by (simp add: unauthed_sighash_def signature_hash_def v4_signature_hash_def v4_input_def view_data_def version_has_overwinter_def
        unauthed_data_def old_fields)
  have key: "build_proving_key example_ol no_keys ?u = Some [7]"
    by (simp add: build_proving_key_def unauthed_data_def old_fields bundle_version_v3 example_ol_def cached_orchard_proving_key_def)
  show ?thesis
    using p h key unfolding authorize_tx_def
    by (auto simp: byte_tx_def unauthed_data_def old_fields sign_sapling_def sign_orchard_def map_ok_def map_err_def
        example_gl_def Let_def old_version_no_orchard split: option.splits sum.splits)
qed

lemma old_version_never_built_witness:
  "builder_reachable example_tlib example_sl example_ol MainNetwork example_height (example_config True) old_builder
     \<and> example_build (Zatoshis 0) old_builder = None \<and> (\<forall>r. example_build (Zatoshis 0) old_builder \<noteq> Some (Inr r))"
proof (intro conjI)
  show "builder_reachable example_tlib example_sl example_ol MainNetwork example_height (example_config True) old_builder"
    by (rule reach_step [OF reach_new [OF example_new] step_propose [OF old_proposed]])
  have nc: "\<not> config_is_coinbase (b_build_config old_builder)" by (simp add: old_fields config_is_coinbase_def)
  have fee: "Builder_get_fee example_tlib example_sl example_ol (\<lambda>_ _ _ _ _ _ _ _. Some (Inr (Zatoshis 0) :: unit + zatoshis))
     old_builder = Some (Inr (Zatoshis 0))"
    by (simp add: Builder_get_fee_def example_builder_def example_libs map_err_def orchard_action_count_def
      checked_add_u64_def ok_or_def sapling_builder_config_def Builder_sapling_inputs_def bundle_version_v3 example_branch)
  have bal: "Builder_value_balance example_tlib example_sl example_ol old_builder = Inr ZatBalance_zero"
    using zero_sum by (simp add: Builder_value_balance_def example_builder_def example_libs pool_balance_def map_err_def ok_or_def)
  have cb: "check_balance (Inr ZatBalance_zero) (Zatoshis 0) = (Inr () :: unit build_error + unit)"
    by (simp add: check_balance_eq example_amounts wf_zats_iff balance_verdict_def)
  have pools: "build_sapling example_sl example_gl [] [] [] [] (b_sapling_builder (example_builder True))
      = (Inr ((None, []), []) :: unit build_error + _)"
    "build_orchard example_ol w [] (b_orchard_builder (example_builder True)) = (Inr ((Some (), []), []) :: unit build_error + _)"
    "build_orchard example_ol w [] (b_ironwood_builder (example_builder True)) = (Inr ((None, []), []) :: unit build_error + _)"
    "tl_build example_tlib () = None" for w
    by (simp_all add: example_builder_def build_sapling_def build_orchard_def example_libs map_err_def map_ok_def)
  show "example_build (Zatoshis 0) old_builder = None"
    unfolding build_standard [OF nc] fee build_internal_def old_fields(1) old_check coinbase_check_ok [OF nc] bal
    using nc old_panics
    by (simp add: cb map_err_def pools)
  show "\<forall>r. example_build (Zatoshis 0) old_builder \<noteq> Some (Inr r)"
    by (rule allI, rule old_version_never_built [where s = "Transactional True None"])
      (simp_all add: old_fields example_ol_def)
qed

subsection \<open>The proving key cache\<close>

text \<open>A cache whose keys are those that would be built.\<close>

definition cached_key :: "circuit_version \<Rightarrow> proving_key_cache \<Rightarrow> opaque option" where
  "cached_key v cache = (case v of InsecurePreNu6_2 \<Rightarrow> pkc_insecure_pre_nu6_2 cache
     | FixedPostNu6_2 \<Rightarrow> pkc_fixed_post_nu6_2 cache | PostNu6_3 \<Rightarrow> pkc_post_nu6_3 cache)"

definition cache_coherent :: "(circuit_version \<Rightarrow> opaque) \<Rightarrow> proving_key_cache \<Rightarrow> bool" where
  "cache_coherent build cache \<longleftrightarrow> (\<forall>v key. cached_key v cache = Some key \<longrightarrow> key = build v)"

lemma cached_orchard_proving_key_eq:
  "cached_orchard_proving_key build v cache = (case cached_key v cache of Some key \<Rightarrow> (key, cache)
     | None \<Rightarrow> (build v, snd (cached_orchard_proving_key build v cache)))"
  by (cases v) (simp_all add: cached_orchard_proving_key_def cached_key_def split: option.split)

lemma cached_key_after:
  "cached_key w (snd (cached_orchard_proving_key build v cache)) =
     (if w = v \<and> cached_key v cache = None then Some (build v) else cached_key w cache)"
  by (cases v; cases w) (simp_all add: cached_orchard_proving_key_def cached_key_def split: option.split)

lemma cached_value:
  "cache_coherent build cache \<Longrightarrow> fst (cached_orchard_proving_key build v cache) = build v"
  by (subst cached_orchard_proving_key_eq) (auto simp: cache_coherent_def split: option.split)

lemma build_proving_key_coherent:
  assumes "cache_coherent (ol_proving_key ol) cache" "cache_coherent (ol_proving_key ol) cache'"
  shows "build_proving_key ol cache d = build_proving_key ol cache' d"
  unfolding build_proving_key_def cached_value [OF assms(1)] cached_value [OF assms(2)] by (rule refl)

lemma authorize_cache:
  assumes "cache_coherent (ol_proving_key ol) cache" "cache_coherent (ol_proving_key ol) cache'"
  shows "authorize_tx te sh gl ol cache au extsks saks rng u = authorize_tx te sh gl ol cache' au extsks saks rng u"
  unfolding authorize_tx_def build_proving_key_coherent [OF assms] by (rule refl)

text \<open>C30: The cache of proving keys is only a cache. Asking a coherent cache for a circuit version gives the
  key that would be built, keeps it coherent, stores that key and leaves the other slots alone, so
  that the next request builds nothing; and every build gives the same result with any two coherent
  caches, in particular with the empty one.\<close>

theorem proving_key_cache_transparent:
  fixes build :: "circuit_version \<Rightarrow> opaque"
  assumes "cache_coherent (ol_proving_key ol) cache" "cache_coherent (ol_proving_key ol) cache'"
    and "build = ol_proving_key ol"
  shows "fst (cached_orchard_proving_key build v cache) = build v
    \<and> cache_coherent build (snd (cached_orchard_proving_key build v cache))
    \<and> cached_key v (snd (cached_orchard_proving_key build v cache)) = Some (build v)
    \<and> (w \<noteq> v \<longrightarrow> cached_key w (snd (cached_orchard_proving_key build v cache)) = cached_key w cache)
    \<and> cached_orchard_proving_key other v (snd (cached_orchard_proving_key build v cache))
        = (build v, snd (cached_orchard_proving_key build v cache))
    \<and> Builder_build te sh gl tlib sl ol cache signing_set extsks saks rng sp op fee_required b
        = Builder_build te sh gl tlib sl ol cache' signing_set extsks saks rng sp op fee_required b"
proof -
  let ?next = "snd (cached_orchard_proving_key build v cache)"
  have coh: "cache_coherent build cache" using assms(1,3) by simp
  have key: "cached_key v ?next = Some (build v)"
    using coh by (auto simp: cached_key_after cache_coherent_def)
  have "cache_coherent build ?next" using coh by (auto simp: cached_key_after cache_coherent_def)
  moreover have "cached_orchard_proving_key other v ?next = (build v, ?next)"
    by (subst cached_orchard_proving_key_eq) (simp add: key)
  moreover have "Builder_build te sh gl tlib sl ol cache signing_set extsks saks rng sp op fee_required b
        = Builder_build te sh gl tlib sl ol cache' signing_set extsks saks rng sp op fee_required b"
    unfolding Builder_build_def build_internal_def
      authorize_cache [OF assms(1,2)] by (rule refl)
  ultimately show ?thesis using key cached_value [OF coh] by (simp add: cached_key_after)
qed

lemma proving_key_cache_transparent_witness:
  "example_build (Zatoshis 10000) spending_builder = Builder_build byte_tx byte_sighash example_gl example_tlib example_sl example_ol
     (snd (cached_orchard_proving_key (ol_proving_key example_ol) PostNu6_3 no_keys))
     [] [] [] [] [] [] (\<lambda>_ _ _ _ _ _ _ _. Some (Inr (Zatoshis 10000) :: unit + zatoshis)) spending_builder"
proof -
  have c: "cache_coherent (ol_proving_key example_ol) no_keys"
    "cache_coherent (ol_proving_key example_ol) (snd (cached_orchard_proving_key (ol_proving_key example_ol) PostNu6_3 no_keys))"
    by (auto simp: cache_coherent_def cached_key_after) (simp add: cached_key_def split: circuit_version.splits)+
  show ?thesis
    by (rule proving_key_cache_transparent [OF c refl, THEN conjunct2, THEN conjunct2, THEN conjunct2, THEN conjunct2, THEN conjunct2])
qed

subsection \<open>Deferred anchors\<close>

text \<open>The builders with deferred anchors that the operations reach.\<close>

inductive deferred_reachable ::
  "('obl, 'ou) orchard_lib \<Rightarrow> parameters \<Rightarrow> block_height \<Rightarrow> 'obl deferred_builder \<Rightarrow> bool"
  for ol params height where
  deferred_new: "Deferred_new ol params height padding padding' = Some (Inr d :: unit build_error + _)
    \<Longrightarrow> deferred_reachable ol params height d"
| deferred_expiry: "deferred_reachable ol params height d \<Longrightarrow> deferred_reachable ol params height (Deferred_with_expiry_height h d)"
| deferred_orchard: "deferred_reachable ol params height d \<Longrightarrow> on_deferred_orchard wrap call d = (r :: unit build_error + unit, d')
    \<Longrightarrow> deferred_reachable ol params height d'"
| deferred_ironwood: "deferred_reachable ol params height d \<Longrightarrow> on_deferred_ironwood wrap call d = (r :: unit build_error + unit, d')
    \<Longrightarrow> deferred_reachable ol params height d'"

lemma deferred_version: "version_has_ironwood (suggested_for_branch br) \<Longrightarrow> br = BranchNu6_3 \<and> suggested_for_branch br = V6"
  by (cases br) simp_all

lemma deferred_inv:
  assumes "deferred_reachable ol params height d"
  shows "for_height params height = BranchNu6_3 \<and> db_params d = params \<and> db_target_height d = height
    \<and> db_consensus_branch_id d = BranchNu6_3 \<and> db_tx_version d = V6 \<and> db_orchard_bundle_version d = OrchardBundleV3"
  using assms
proof (induction rule: deferred_reachable.induct)
  case (deferred_new padding padding' d)
  have "version_has_ironwood (suggested_for_branch (for_height params height))"
    using deferred_new by (cases "version_has_ironwood (suggested_for_branch (for_height params height))")
      (simp_all add: Deferred_new_def Let_def)
  from deferred_version [OF this] deferred_new show ?case
    by (auto simp: Deferred_new_def Let_def bundle_version_v3 pbind_Inr)
qed (auto simp: Deferred_with_expiry_height_def on_deferred_orchard_def on_deferred_ironwood_def split: prod.splits)

lemma pool_for_pczt_Inr:
  "pool_for_pczt build m wrap g pool = Inr x \<Longrightarrow> fst (fst x) \<noteq> None \<longleftrightarrow> pool \<noteq> None"
  by (cases pool) (auto simp: pool_for_pczt_def map_ok_def split: sum.splits prod.splits)


text \<open>In the example every pool builder has a spend of value zero, and nothing is paid.\<close>

definition used_ol :: "(orchard_bundle_type, unit) orchard_lib" where
  "used_ol = example_ol\<lparr>ol_spends := \<lambda>_. 1\<rparr>"

definition used_deferred :: "orchard_bundle_type deferred_builder" where
  "used_deferred = \<lparr>db_params = MainNetwork, db_tx_version = V6, db_consensus_branch_id = BranchNu6_3,
     db_target_height = example_height, db_expiry_height = bh_add example_height DEFAULT_TX_EXPIRY_DELTA,
     db_orchard_builder = Transactional False None, db_orchard_bundle_version = OrchardBundleV3,
     db_ironwood_builder = Transactional False (Some 1)\<rparr>"

lemma used_new:
  "Deferred_new used_ol MainNetwork example_height PADDING_DEFAULT PADDING_UNPADDED
     = Some (Inr used_deferred :: unit build_error + _)"
  by (simp add: Deferred_new_def example_branch bundle_version_v3 used_ol_def example_ol_def used_deferred_def map_err_def
      padding_bundle_type_def PADDING_DEFAULT_def PADDING_UNPADDED_def)


end
