(* ===== verification/BuildFormat.thy ===== *)
theory BuildFormat
  imports BuildTotal
begin

text \<open>
  The builder with the transaction formats: a built transaction is written and read back as it is, and
  what the format of version 5 drops of it.
\<close>

subsection \<open>The data of a built transaction\<close>

lemma internal_transaction:
  assumes "build_internal te sh gl tlib sl ol cache bt au extsks saks rng sp op fee b
    = (Some (Inr r) :: ('fe build_error + _) option)"
  shows "check_version_compatibility sl ol b (b_tx_version b) = (Inr () :: 'fe build_error + unit)
    \<and> (\<exists>d. Transaction_from_data te d = Some (Inr (br_transaction r)) \<and> td_version d = b_tx_version b
        \<and> td_consensus_branch_id d = b_consensus_branch_id b \<and> td_sprout_bundle d = None
        \<and> td_staking_action d = b_staking_action b
        \<and> (b_ironwood_builder b = None \<longrightarrow> td_ironwood_bundle d = None))"
  using assms
proof (rule build_internalE)
  fix t x y z
  assume c: "check_version_compatibility sl ol b (b_tx_version b) = (Inr () :: 'fe build_error + unit)"
    and z: "build_orchard ol IronwoodBuild (snd y) (b_ironwood_builder b) = (Inr z :: 'fe build_error + _)"
    and a: "authorize_tx te sh gl ol cache au extsks saks (snd z)
        (unauthed_data b t (fst (fst x)) (fst (fst y)) (fst (fst z)))
      = (Some (Inr (br_transaction r)) :: ('fe build_error + _) option)"
  let ?u = "unauthed_data b t (fst (fst x)) (fst (fst y)) (fst (fst z))"
  from a show ?thesis
  proof (rule authorize_txE)
    fix parts sighash key t' s' g o1 g1 i1 g2 g3
    assume i: "sign_orchard gl IronwoodBuild key sighash saks g2 (td_ironwood_bundle ?u) = (Inr (i1, g3) :: 'fe build_error + _)"
      and f: "Transaction_from_data te
       \<lparr>td_version = td_version ?u, td_consensus_branch_id = td_consensus_branch_id ?u,
        td_lock_time = td_lock_time ?u, td_expiry_height = td_expiry_height ?u,
        td_transparent_bundle = t', td_sprout_bundle = td_sprout_bundle ?u,
        td_sapling_bundle = s', td_orchard_bundle = o1,
        td_ironwood_bundle = i1, td_staking_action = td_staking_action ?u\<rparr> = Some (Inr (br_transaction r))"
    have "i1 = None" if "b_ironwood_builder b = None"
      using z i that by (auto simp: build_orchard_def unauthed_data_def sign_orchard_def)
    with f c show ?thesis by (intro conjI exI) (assumption | simp add: unauthed_data_def)+
  qed
qed

lemma built_transaction:
  assumes "Builder_build te sh gl tlib sl ol cache signing_set extsks saks rng sp op fee_required b
      = (Some (Inr r) :: ('fe build_error + _) option)"
  shows "check_version_compatibility sl ol b (b_tx_version b) = (Inr () :: 'fe build_error + unit)
    \<and> (\<exists>d. Transaction_from_data te d = Some (Inr (br_transaction r)) \<and> td_version d = b_tx_version b
        \<and> td_consensus_branch_id d = b_consensus_branch_id b \<and> td_sprout_bundle d = None
        \<and> td_staking_action d = b_staking_action b
        \<and> (b_ironwood_builder b = None \<longrightarrow> td_ironwood_bundle d = None))"
proof (cases "b_build_config b")
  case (Coinbase md)
  show ?thesis
    by (rule internal_transaction [OF assms [unfolded Builder_build_def Coinbase build_config.case]])
next
  case Standard
  show ?thesis
    using assms unfolding Builder_build_def Standard build_config.case pbind_Inr
    by (elim exE conjE) (rule internal_transaction)
next
  case VCrosslinkConfig
  show ?thesis
    using assms unfolding Builder_build_def VCrosslinkConfig build_config.case pbind_Inr
    by (elim exE conjE) (rule internal_transaction)
qed

subsection \<open>Writing and reading it\<close>

text \<open>The external builders and signers made well-formed bundles, of the versions of the branch.\<close>

definition wf_built where
  "wf_built te d \<longleftrightarrow> pred_option (wf_transparent (te_transparent te)) (td_transparent_bundle d)
     \<and> pred_option (wf_v5_bundle (te_sapling te)) (td_sapling_bundle d)
     \<and> wf_orchard_slot (te_orchard te) (bundle_version_for_branch (td_consensus_branch_id d) PoolOrchard)
         (td_orchard_bundle d)
     \<and> wf_orchard_slot (te_orchard te) (bundle_version_for_branch (td_consensus_branch_id d) PoolIronwood)
         (td_ironwood_bundle d)
     \<and> wf_opt_action (td_staking_action d)"

lemma data_txid_without_ironwood:
  assumes "td_version d = V5" "data_txid dx tp sx d = Some txid"
  shows "data_txid dx tp sx (d\<lparr>td_ironwood_bundle := None\<rparr>) = Some txid"
  using assms by (auto simp: data_txid_def txid_digests_def bind_eq_Some_conv to_txid_def txid_digest_ironwood_def map_digest_def)

lemma later_read_back:
  assumes "tx_ext_ok te" "wf_later te d" "td_version d = V6 \<longrightarrow> td_consensus_branch_id d = BranchNu6_3"
    and "from_data_v5 te d = Some t"
  shows "\<exists>w. Transaction_write te d = Inr w \<and> (\<forall>br rest. Transaction_read te br (w @ rest) = Inr (Some t, rest))"
proof -
  have v: "td_version d \<in> {V5, V6, VCrosslink}" "td_sprout_bundle d = None"
    using assms(2) by (auto simp: wf_later_def split: tx_version.splits)
  let ?w = "TxVersion_write (td_version d) @ common_bytes te d @ tail_bytes te d"
  have "Transaction_write te d = Inr ?w"
    using write_later [OF assms(2)] assms(3) by auto
  moreover have "Transaction_read te br (?w @ rest) = Inr (Some t, rest)" for br rest
    using later_dispatch [OF assms(1) v(1), of br "common_bytes te d @ tail_bytes te d @ rest" "Some t" rest] v(2) assms(2,4)
    by auto
  ultimately show ?thesis by blast
qed

text \<open>The data of a built transaction: the frozen data keep the version, branch and action of the builder, and
  they are well formed for their format when version 5 has no Ironwood bundle to drop.\<close>

lemma built_data:
  assumes "builder_reachable tlib sl ol params height cfg b" and v: "b_tx_version b \<in> {V5, V6, VCrosslink}"
    and built: "Builder_build te sh gl tlib sl ol cache signing_set extsks saks rng sp op fee_required b
      = (Some (Inr r) :: ('fe build_error + _) option)"
  defines "d \<equiv> tx_data (br_transaction r)"
  shows "from_data_v5 te d = Some (br_transaction r)" "td_version d = b_tx_version b" "td_sprout_bundle d = None"
    "td_version d = V6 \<longrightarrow> td_consensus_branch_id d = BranchNu6_3"
    "td_version d = VCrosslink \<longrightarrow> td_ironwood_bundle d = None"
    "td_version d \<noteq> VCrosslink \<longrightarrow> td_staking_action d = None"
proof -
  note inv = reachable_inv [OF assms(1)]
  obtain e where c: "check_version_compatibility sl ol b (b_tx_version b) = (Inr () :: 'fe build_error + unit)"
    and f: "Transaction_from_data te e = Some (Inr (br_transaction r))" and e: "td_version e = b_tx_version b"
      "td_consensus_branch_id e = b_consensus_branch_id b" "td_sprout_bundle e = None"
      "td_staking_action e = b_staking_action b" "b_ironwood_builder b = None \<longrightarrow> td_ironwood_bundle e = None"
    using built_transaction [OF built] by (elim conjE exE) (rule that)
  have de: "d = e" unfolding d_def by (rule frozen(1) [OF f])
  show "from_data_v5 te d = Some (br_transaction r)"
    using f v e(1) by (auto simp: de Transaction_from_data_def from_data_v6_def from_data_vcrosslink_def)
  show "td_version d = b_tx_version b" "td_sprout_bundle d = None" by (simp_all add: de e)
  have cv: "version_has_crosslink (b_tx_version b) \<longleftrightarrow> config_is_vcrosslink cfg"
    "valid_in_branch (b_tx_version b) (b_consensus_branch_id b)"
    "b_staking_action b \<noteq> None \<longrightarrow> version_has_crosslink (b_tx_version b)"
    using check_version_ok [OF c] inv unfolding builder_inv_def by auto
  show "td_version d = V6 \<longrightarrow> td_consensus_branch_id d = BranchNu6_3"
    using cv(2) e(1,2) by (auto simp: de split: branch_id.splits)
  show "td_version d = VCrosslink \<longrightarrow> td_ironwood_bundle d = None"
    using cv(1) e(1,5) inv unfolding builder_inv_def by (auto simp: de version_has_crosslink_def)
  show "td_version d \<noteq> VCrosslink \<longrightarrow> td_staking_action d = None"
    using cv(3) e(1,4) v by (auto simp: de version_has_crosslink_def split: tx_version.splits)
qed

lemma built_wf_later:
  assumes "builder_reachable tlib sl ol params height cfg b" and v: "b_tx_version b \<in> {V5, V6, VCrosslink}"
    and built: "Builder_build te sh gl tlib sl ol cache signing_set extsks saks rng sp op fee_required b
      = (Some (Inr r) :: ('fe build_error + _) option)"
    and wf: "wf_built te (tx_data (br_transaction r))"
    and iron: "b_tx_version b = V5 \<longrightarrow> td_ironwood_bundle (tx_data (br_transaction r)) = None"
  shows "wf_later te (tx_data (br_transaction r))"
  using built_data [OF assms(1) v built] wf v iron by (auto simp: wf_built_def wf_later_def)

text \<open>C8: Built transactions survive their format. A transaction that a reachable builder of version 5 or
  later builds, whose signed bundles and staking action are well formed and of the bundle versions of
  the branch, is written without error and read back as the same transaction, whatever branch the
  reader is given. The exception is version 5 with an Ironwood bundle, which a padding that requires
  one can cause: it is written without its Ironwood bundle, and read back without it under the same
  identifier.\<close>

theorem built_transaction_codec:
  assumes "builder_reachable tlib sl ol params height cfg b" "tx_ext_ok te"
    and v: "b_tx_version b \<in> {V5, V6, VCrosslink}"
    and built: "Builder_build te sh gl tlib sl ol cache signing_set extsks saks rng sp op fee_required b
      = (Some (Inr r) :: ('fe build_error + _) option)"
    and wf: "wf_built te (tx_data (br_transaction r))"
  shows "\<exists>w t. Transaction_write te (tx_data (br_transaction r)) = Inr w
    \<and> (\<forall>br rest. Transaction_read te br (w @ rest) = Inr (Some t, rest)) \<and> tx_txid t = tx_txid (br_transaction r)
    \<and> (b_tx_version b \<noteq> V5 \<or> td_ironwood_bundle (tx_data (br_transaction r)) = None \<longrightarrow> t = br_transaction r)
    \<and> (b_tx_version b = V5 \<longrightarrow> tx_data t = (tx_data (br_transaction r))\<lparr>td_ironwood_bundle := None\<rparr>)"
proof -
  let ?t = "br_transaction r" and ?d = "tx_data (br_transaction r)"
  note data = built_data [OF assms(1) v built]
  show ?thesis
  proof (cases "b_tx_version b = V5 \<and> td_ironwood_bundle ?d \<noteq> None")
    case False
    then have "wf_later te ?d" by (intro built_wf_later [OF assms(1) v built wf]) simp
    from later_read_back [OF assms(2) this data(4) data(1)] show ?thesis using False by auto
  next
    case True
    let ?e = "?d\<lparr>td_ironwood_bundle := None\<rparr>"
    have v5: "td_version ?d = V5" using True data(2) by simp
    have wfl: "wf_later te ?e" using wf data(3,6) v5 by (auto simp: wf_built_def wf_later_def)
    obtain txid where txid: "data_txid (te_digest te) (te_transparent te) (te_sapling te) ?d = Some txid"
      "\<lparr>tx_txid = txid, tx_data = ?d\<rparr> = ?t" using data(1) by (auto simp: from_data_v5_def)
    note id' = data_txid_without_ironwood [OF v5 txid(1)]
    obtain t where t: "from_data_v5 te ?e = Some t" "tx_txid t = tx_txid ?t" "tx_data t = ?e"
    proof (rule that [of "\<lparr>tx_txid = txid, tx_data = ?e\<rparr>"])
      show "tx_txid \<lparr>tx_txid = txid, tx_data = ?e\<rparr> = tx_txid ?t" using arg_cong [where f = tx_txid, OF txid(2)] by simp
    qed (simp_all add: from_data_v5_def id')
    have "Transaction_write te ?d = Transaction_write te ?e"
      using v5 by (simp add: Transaction_write_def write_v5_def write_v5_header_def)
    then show ?thesis
      using later_read_back [OF assms(2) wfl _ t(1)] t(2,3) True v5 by auto
  qed
qed

lemma example_built_wf: "wf_built byte_tx (example_signed h)"
  by (simp add: wf_built_def byte_tx_def wf_orchard_slot_def wf_opt_action_def)
    (simp add: wf_v5_bundle_def example_sapling_def wf_example_spend same_anchor_def wf_balance_iff)

lemma built_transaction_codec_witness:
  "\<exists>r w. example_build (Zatoshis 10000) spending_builder = Some (Inr r)
     \<and> Transaction_write byte_tx (tx_data (br_transaction r)) = Inr w
     \<and> Transaction_read byte_tx BranchSprout (w @ [7]) = Inr (Some (br_transaction r), [7])"
proof -
  obtain h txid where built: "example_build (Zatoshis 10000) spending_builder
    = Some (Inr \<lparr>br_transaction = \<lparr>tx_txid = txid, tx_data = example_signed h\<rparr>, br_sapling_meta = [],
        br_orchard_meta = [], br_ironwood_meta = []\<rparr>)" by (rule example_built)
  have v: "b_tx_version spending_builder \<in> {V5, V6, VCrosslink}" by (simp add: spending_fields)
  have wf: "wf_built byte_tx (tx_data (br_transaction \<lparr>br_transaction = \<lparr>tx_txid = txid, tx_data = example_signed h\<rparr>,
      br_sapling_meta = [], br_orchard_meta = [], br_ironwood_meta = []\<rparr>))" using example_built_wf by simp
  show ?thesis
    using built_transaction_codec [OF spending_reachable byte_tx_ok v built wf] built by auto
qed

end
