(* ===== verification/TxTyping.thy ===== *)
theory TxTyping
  imports BuildFormat
begin

text \<open>
  The type of transaction data: which parts a version carries and which values they hold. The readers and
  the builder give typed data, correcting the branch keeps the type, and typed data do not go wrong in the
  operations that follow: their fee does not panic, and they are written and frozen without an error.
\<close>

definition tx_typed where
  "tx_typed te d \<longleftrightarrow> (if is_v4_format (td_version d) then \<exists>vb. wf_v4 te vb d else wf_later te d)"

text \<open>The parts that are present have a place in the version.\<close>

definition version_carries :: "('tb, 'sb, 'ob) transaction_data \<Rightarrow> bool" where
  "version_carries d \<longleftrightarrow> (td_sprout_bundle d \<noteq> None \<longrightarrow> version_has_sprout (td_version d))
     \<and> (td_sapling_bundle d \<noteq> None \<longrightarrow> version_has_sapling (td_version d))
     \<and> (td_orchard_bundle d \<noteq> None \<longrightarrow> version_has_orchard (td_version d))
     \<and> (td_ironwood_bundle d \<noteq> None \<longrightarrow> version_has_ironwood (td_version d))
     \<and> (td_staking_action d \<noteq> None \<longrightarrow> version_has_crosslink (td_version d))"

lemma typed_carries: "tx_typed te d \<Longrightarrow> version_carries d"
  by (cases "td_version d")
    (auto simp: tx_typed_def version_carries_def wf_v4_def wf_later_def is_v4_format_def wf_sprout_slot_def
      wf_v4_sapling_def version_has_crosslink_def split: if_splits)

subsection \<open>Producers\<close>

lemma read_typed:
  assumes "tx_ext_ok te" "Transaction_read te b bs = Inr (Some t, rest)"
  shows "tx_typed te (tx_data t)"
  using read_v4_dispatch [OF assms(1), of b bs t rest] read_later_dispatch [OF assms(1), of b bs t rest] assms(2)
  by (auto simp: tx_typed_def)

lemma fix_typed: "tx_typed te d \<Longrightarrow> tx_typed te (fix_consensus_branch_id d b)"
  by (auto simp: tx_typed_def fix_branch)

subsection \<open>Consumers\<close>

lemma typed_write:
  assumes "tx_typed te d"
  shows "if td_version d = V6 \<and> branch_orchard_revision (td_consensus_branch_id d) \<noteq> Some OrchardV3
      \<and> td_orchard_bundle d \<noteq> None
    then Transaction_write te d = Inl (InvalidInput ''v6 Orchard bundles require orchard_v3 or ironwood_v3'')
    else \<exists>w. Transaction_write te d = Inr w"
proof (cases "is_v4_format (td_version d)")
  case True
  then have "td_version d \<noteq> V6" by (auto simp: is_v4_format_def)
  then show ?thesis using assms True write_v4_eq by (auto simp: tx_typed_def)
next
  case False
  then show ?thesis using assms write_later [of te d] by (auto simp: tx_typed_def)
qed

lemma typed_freeze:
  assumes "tx_typed te d"
  shows "Transaction_from_data te d \<noteq> Some (Inl e)"
  using typed_write [OF assms]
  by (cases "td_version d") (auto simp: Transaction_from_data_def from_data_v4_def)

lemma typed_sprout:
  assumes "tx_typed te d"
  shows "td_sprout_bundle d = None \<or> (\<exists>b g. td_sprout_bundle d = Some b \<and> list_all (wf_js g) (sb_joinsplits b))"
  using assms by (auto simp: tx_typed_def wf_later_def wf_v4_def wf_sprout_slot_def wf_sprout_bundle_def option.pred_set
      split: if_splits option.splits tx_version.splits)

lemma typed_parts:
  assumes "tx_typed te d"
  shows "pred_option (\<lambda>b. wf_balance (sap_value_balance b)) (td_sapling_bundle d)"
    "pred_option (\<lambda>b. wf_balance (ob_value_balance b)) (td_orchard_bundle d)"
    "pred_option (\<lambda>b. wf_balance (ob_value_balance b)) (td_ironwood_bundle d)"
    "pred_option wf_action (td_staking_action d)"
proof -
  have v4: "wf_v4_sapling sx p vb (Some b) \<Longrightarrow> wf_balance (sap_value_balance b)" for sx p vb b
    by (auto simp: wf_v4_sapling_def components_of_def wf_v4_components_def split: if_splits)
  show "pred_option (\<lambda>b. wf_balance (sap_value_balance b)) (td_sapling_bundle d)"
    using assms by (cases "td_sapling_bundle d")
      (auto simp: tx_typed_def wf_v4_def wf_later_def wf_v5_bundle_def dest: v4 split: if_splits)
  show "pred_option (\<lambda>b. wf_balance (ob_value_balance b)) (td_orchard_bundle d)"
    using assms by (cases "td_orchard_bundle d")
      (auto simp: tx_typed_def wf_v4_def wf_later_def wf_orchard_slot_def wf_orchard_bundle_def split: if_splits)
  show "pred_option (\<lambda>b. wf_balance (ob_value_balance b)) (td_ironwood_bundle d)"
    using assms by (cases "td_ironwood_bundle d")
      (auto simp: tx_typed_def wf_v4_def wf_later_def wf_orchard_slot_def wf_orchard_bundle_def
        split: if_splits tx_version.splits)
  show "pred_option wf_action (td_staking_action d)"
    using assms by (cases "td_staking_action d")
      (auto simp: tx_typed_def wf_v4_def wf_later_def wf_opt_action_def split: if_splits tx_version.splits)
qed

lemma bundle_balance_wf:
  "pred_option (\<lambda>b. wf_balance (f b)) ob \<Longrightarrow> wf_balance (bundle_balance f ob)"
  by (cases ob) (simp_all add: bundle_balance_def zb.zero_ok)

lemma typed_balances:
  assumes "tx_typed te d" "wf_balance tb" "wf_balance sb"
  shows "list_all wf_balance (tx_balances tb sb sap_value_balance ob_value_balance d)"
proof -
  have "pred_option (\<lambda>a. wf_balance (value_balance_contribution a)) (td_staking_action d)"
    using typed_parts(4) [OF assms(1)] staking_value_contribution by (auto simp: option.pred_set)
  then show ?thesis
    using typed_parts(1-3) [OF assms(1)] assms(2,3) by (simp add: tx_balances_def bundle_balance_wf)
qed

lemma typed_sprout_balance:
  assumes "tx_typed te d"
  shows "\<exists>r. (case td_sprout_bundle d of None \<Rightarrow> Some (Some ZatBalance_zero) | Some b \<Rightarrow> SproutBundle_value_balance b) = Some r
    \<and> pred_option wf_balance r"
proof (cases "td_sprout_bundle d")
  case None
  then show ?thesis by (simp add: zb.zero_ok)
next
  case (Some b)
  then obtain g where "list_all (wf_js g) (sb_joinsplits b)" using typed_sprout [OF assms] by auto
  from sprout_value_balance [OF this] obtain r where "SproutBundle_value_balance b = Some r" "pred_option wf_balance r"
    unfolding Let_def by (auto simp: option.pred_set split: option.splits)
  then show ?thesis by (simp add: Some)
qed

lemma typed_fee:
  assumes "tx_typed te d"
  shows "\<exists>r. fee_paid from_balance transparent_value sap_value_balance ob_value_balance d = Some r"
  using typed_sprout_balance [OF assms] unfolding fee_paid_def by (auto split: option.splits sum.splits)

subsection \<open>Type soundness\<close>



subsection \<open>The builder\<close>

text \<open>A built transaction of version 5 or later whose external bundles are well formed is typed, but for the
  Ironwood bundle that a padding can force into version 5.\<close>

lemma built_typed:
  assumes "builder_reachable tlib sl ol params height cfg b"
    and v: "b_tx_version b \<in> {V5, V6, VCrosslink}"
    and built: "Builder_build te sh gl tlib sl ol cache signing_set extsks saks rng sp op fee_required b
      = (Some (Inr r) :: ('fe build_error + _) option)"
    and wf: "wf_built te (tx_data (br_transaction r))"
    and "b_tx_version b = V5 \<longrightarrow> td_ironwood_bundle (tx_data (br_transaction r)) = None"
  shows "tx_typed te (tx_data (br_transaction r))"
proof -
  have "wf_later te (tx_data (br_transaction r))"
    using built_wf_later [OF assms(1) v built wf] assms(5) by blast
  moreover have "td_version (tx_data (br_transaction r)) = b_tx_version b"
    using built_transaction [OF built] frozen(1) by metis
  ultimately show ?thesis using v by (auto simp: tx_typed_def is_v4_format_def)
qed

end
