(* ===== verification/LedgerSpec.thy ===== *)
theory LedgerSpec
  imports BuildSpec
begin

text \<open>
  The builder as a ledger: its abstract specification is a running total of the amounts that the caller
  adds, with at most one staking action; the operations of the builder are simulated by entries of the
  ledger, whatever fails; and a transaction is built only for a ledger that closes with the fee.
\<close>

subsection \<open>Calls\<close>

datatype ('op, 'o) builder_call =
    CallOrchardSpend opaque opaque opaque
  | CallOrchardOutput "opaque option" opaque zatoshis bytes
  | CallOrchardChange opaque "opaque option" opaque zatoshis bytes
  | CallIronwoodSpend opaque opaque opaque
  | CallIronwoodOutput "opaque option" opaque zatoshis bytes
  | CallSaplingSpend opaque opaque opaque
  | CallSaplingOutput "opaque option" opaque zatoshis bytes
  | CallTransparentInput opaque
  | CallP2pkhInput opaque 'op 'o
  | CallP2shInput opaque 'op 'o
  | CallTransparentOutput opaque zatoshis
  | CallNullDataOutput bytes
  | CallStaking staking_action
  | CallPropose tx_version
  | CallExpiry block_height

definition outcome :: "('e + unit) \<times> 'b \<Rightarrow> bool \<times> 'b" where
  "outcome r = (case fst r of Inl _ \<Rightarrow> False | Inr _ \<Rightarrow> True, snd r)"

text \<open>A call on a builder: whether it succeeded, and the builder after it.\<close>

fun exec_call ::
  "('tbl, 'op, 'tu, 'i, 'o) transparent_lib \<Rightarrow> ('sbl, 'su) sapling_lib \<Rightarrow> ('obl, 'ou) orchard_lib
     \<Rightarrow> ('op, 'o) builder_call \<Rightarrow> ('tbl, 'sbl, 'obl) builder \<Rightarrow> bool \<times> ('tbl, 'sbl, 'obl) builder" where
  "exec_call tlib sl ol (CallOrchardSpend fvk note path) b =
     outcome (add_orchard_spend ol fvk note path b :: (unit build_error + unit) \<times> _)"
| "exec_call tlib sl ol (CallOrchardOutput ovk recipient val memo) b =
     outcome (add_orchard_output ol ovk recipient val memo b :: (unit build_error + unit) \<times> _)"
| "exec_call tlib sl ol (CallOrchardChange fvk ovk recipient val memo) b =
     outcome (add_orchard_change_output ol fvk ovk recipient val memo b :: (unit build_error + unit) \<times> _)"
| "exec_call tlib sl ol (CallIronwoodSpend fvk note path) b =
     outcome (add_ironwood_spend ol fvk note path b :: (unit build_error + unit) \<times> _)"
| "exec_call tlib sl ol (CallIronwoodOutput ovk recipient val memo) b =
     outcome (add_ironwood_output ol ovk recipient val memo b :: (unit build_error + unit) \<times> _)"
| "exec_call tlib sl ol (CallSaplingSpend fvk note path) b =
     outcome (add_sapling_spend sl fvk note path b :: (unit build_error + unit) \<times> _)"
| "exec_call tlib sl ol (CallSaplingOutput ovk recipient val memo) b =
     outcome (add_sapling_output sl ovk recipient val memo b :: (unit build_error + unit) \<times> _)"
| "exec_call tlib sl ol (CallTransparentInput input) b = (True, add_transparent_input tlib input b)"
| "exec_call tlib sl ol (CallP2pkhInput pubkey utxo coin) b = outcome (add_transparent_p2pkh_input tlib pubkey utxo coin b)"
| "exec_call tlib sl ol (CallP2shInput redeem utxo coin) b = outcome (add_transparent_p2sh_input tlib redeem utxo coin b)"
| "exec_call tlib sl ol (CallTransparentOutput recipient val) b = outcome (add_transparent_output tlib recipient val b)"
| "exec_call tlib sl ol (CallNullDataOutput data) b =
     outcome (add_transparent_null_data_output tlib data b :: (unit build_error + unit) \<times> _)"
| "exec_call tlib sl ol (CallStaking a) b = outcome (put_staking_action a b :: (unit build_error + unit) \<times> _)"
| "exec_call tlib sl ol (CallPropose v) b = outcome (propose_version sl ol v b :: (unit build_error + unit) \<times> _)"
| "exec_call tlib sl ol (CallExpiry h) b = (True, with_expiry_height h b)"

text \<open>A run: the calls with their success, and the final builder.\<close>

primrec run_calls where
  "run_calls tlib sl ol [] b = ([], b)"
| "run_calls tlib sl ol (c # cs) b = (case exec_call tlib sl ol c b of (success, b') \<Rightarrow>
     case run_calls tlib sl ol cs b' of (log, b'') \<Rightarrow> ((success, c) # log, b''))"

subsection \<open>The ledger\<close>

text \<open>The values that the external code gives to notes, coins and inputs, and to the states of the pool
  builders.\<close>

record ('tbl, 'sbl, 'obl, 'o) pool_values =
  pv_transparent :: "'tbl \<Rightarrow> int"
  pv_sapling :: "'sbl \<Rightarrow> int"
  pv_orchard :: "'obl \<Rightarrow> int"
  pv_sapling_note :: "opaque \<Rightarrow> int"
  pv_orchard_note :: "opaque \<Rightarrow> int"
  pv_coin :: "'o \<Rightarrow> int"
  pv_input :: "opaque \<Rightarrow> int"

record ledger =
  lg_net :: int
  lg_staking :: "staking_action option"

definition empty_ledger :: ledger where
  "empty_ledger = \<lparr>lg_net = 0, lg_staking = None\<rparr>"

fun call_value :: "('tbl, 'sbl, 'obl, 'o) pool_values \<Rightarrow> ('op, 'o) builder_call \<Rightarrow> int" where
  "call_value pv (CallOrchardSpend fvk note path) = pv_orchard_note pv note"
| "call_value pv (CallOrchardOutput ovk recipient val memo) = - zat_val val"
| "call_value pv (CallOrchardChange fvk ovk recipient val memo) = - zat_val val"
| "call_value pv (CallIronwoodSpend fvk note path) = pv_orchard_note pv note"
| "call_value pv (CallIronwoodOutput ovk recipient val memo) = - zat_val val"
| "call_value pv (CallSaplingSpend fvk note path) = pv_sapling_note pv note"
| "call_value pv (CallSaplingOutput ovk recipient val memo) = - zat_val val"
| "call_value pv (CallTransparentInput input) = pv_input pv input"
| "call_value pv (CallP2pkhInput pubkey utxo coin) = pv_coin pv coin"
| "call_value pv (CallP2shInput redeem utxo coin) = pv_coin pv coin"
| "call_value pv (CallTransparentOutput recipient val) = - zat_val val"
| "call_value pv _ = 0"

definition enter :: "('tbl, 'sbl, 'obl, 'o) pool_values \<Rightarrow> bool \<times> ('op, 'o) builder_call \<Rightarrow> ledger \<Rightarrow> ledger" where
  "enter pv entry l = (case entry of (success, c) \<Rightarrow>
     if success then l\<lparr>lg_net := lg_net l + call_value pv c,
                    lg_staking := (case c of CallStaking a \<Rightarrow> Some a | _ \<Rightarrow> lg_staking l)\<rparr> else l)"

text \<open>What an action moves: a new bond takes its amount, a withdrawal gives it.\<close>

fun staking_value :: "staking_action \<Rightarrow> int" where
  "staking_value (CreateNewDelegationBond x) = - zat_val (cb_amount x)"
| "staking_value (WithdrawDelegationBond x) = zat_val (wd_amount x)"
| "staking_value _ = 0"

definition ledger_total :: "ledger \<Rightarrow> int" where
  "ledger_total l = lg_net l + (case lg_staking l of None \<Rightarrow> 0 | Some a \<Rightarrow> staking_value a)"

definition pool_value :: "('b \<Rightarrow> int) \<Rightarrow> 'b option \<Rightarrow> int" where
  "pool_value f pool = (case pool of None \<Rightarrow> 0 | Some builder \<Rightarrow> f builder)"

text \<open>The ledger that a builder stands for.\<close>

definition ledger_of :: "('tbl, 'sbl, 'obl, 'o) pool_values \<Rightarrow> ('tbl, 'sbl, 'obl) builder \<Rightarrow> ledger" where
  "ledger_of pv b = \<lparr>lg_net = pv_transparent pv (b_transparent_builder b) + pool_value (pv_sapling pv) (b_sapling_builder b)
       + pool_value (pv_orchard pv) (b_orchard_builder b) + pool_value (pv_orchard pv) (b_ironwood_builder b),
     lg_staking = b_staking_action b\<rparr>"

subsection \<open>The external builders\<close>

text \<open>A call on a pool builder changes its value by the given amount when it succeeds and not at all when
  it fails; new builders are empty; and the balance that a builder reports is its value.\<close>

definition moves :: "('b \<Rightarrow> int) \<Rightarrow> int \<Rightarrow> ('b \<Rightarrow> (opaque + unit) \<times> 'b) \<Rightarrow> bool" where
  "moves f v call \<longleftrightarrow> (\<forall>s r s'. call s = (r, s') \<longrightarrow> f s' = (case r of Inl _ \<Rightarrow> f s | Inr _ \<Rightarrow> f s + v))"

definition ledger_libs_ok where
  "ledger_libs_ok pv tlib sl ol \<longleftrightarrow>
     pv_transparent pv (tl_empty tlib) = 0
   \<and> (\<forall>input t. pv_transparent pv (tl_add_input tlib input t) = pv_transparent pv t + pv_input pv input)
   \<and> (\<forall>k u coin. moves (pv_transparent pv) (pv_coin pv coin) (tl_add_p2pkh_input tlib k u coin))
   \<and> (\<forall>k u coin. moves (pv_transparent pv) (pv_coin pv coin) (tl_add_p2sh_input tlib k u coin))
   \<and> (\<forall>a v. moves (pv_transparent pv) (- zat_val v) (tl_add_output tlib a v))
   \<and> (\<forall>data. moves (pv_transparent pv) 0 (tl_add_null_data_output tlib data))
   \<and> (\<forall>t v. tl_value_balance tlib t = Inr v \<longrightarrow> wf_balance v \<and> zb_val v = pv_transparent pv t)
   \<and> (\<forall>z bt a. pv_sapling pv (sl_new sl z bt a) = 0)
   \<and> (\<forall>k note path. moves (pv_sapling pv) (pv_sapling_note pv note) (sl_add_spend sl k note path))
   \<and> (\<forall>k a v memo. moves (pv_sapling pv) (- uint v) (sl_add_output sl k a v memo))
   \<and> (\<forall>s. wf_balance (sl_value_balance sl s) \<and> zb_val (sl_value_balance sl s) = pv_sapling pv s)
   \<and> (\<forall>bt v fl a s. ol_new ol bt v fl a = Inr s \<longrightarrow> pv_orchard pv s = 0)
   \<and> (\<forall>k note path. moves (pv_orchard pv) (pv_orchard_note pv note) (ol_add_spend ol k note path))
   \<and> (\<forall>k a v memo. moves (pv_orchard pv) (- uint v) (ol_add_output ol k a v memo))
   \<and> (\<forall>f k a v memo. moves (pv_orchard pv) (- uint v) (ol_add_change_output ol f k a v memo))
   \<and> (\<forall>s v. ol_value_balance ol s = Inr v \<longrightarrow> wf_balance v \<and> zb_val v = pv_orchard pv s)"

subsection \<open>Simulation\<close>

text \<open>An entry without a staking action.\<close>

definition credit :: "int \<Rightarrow> bool \<Rightarrow> ledger \<Rightarrow> ledger" where
  "credit v success l = l\<lparr>lg_net := lg_net l + (if success then v else 0)\<rparr>"

lemma enter_credit:
  "(\<forall>a. c \<noteq> CallStaking a) \<Longrightarrow> enter pv (success, c) l = credit (call_value pv c) success l"
  by (cases c) (auto simp: enter_def credit_def)

lemma moved: "moves f v call \<Longrightarrow> call s = (r, s') \<Longrightarrow> f s' = (case r of Inl _ \<Rightarrow> f s | Inr _ \<Rightarrow> f s + v)"
  by (simp add: moves_def)

lemma on_pool_moves:
  assumes "moves f v call" "on_pool pool missing wrap call = (r, pool')"
  shows "pool_value f pool' = pool_value f pool + (case r of Inl _ \<Rightarrow> 0 | Inr _ \<Rightarrow> v)"
  using assms by (auto simp: on_pool_def moves_def pool_value_def map_err_def split: option.splits prod.splits sum.splits)

lemma pool_calls:
  "moves (pv_orchard pv) v call \<Longrightarrow> outcome (on_orchard wrap call b) = (success, b')
     \<Longrightarrow> ledger_of pv b' = credit v success (ledger_of pv b)"
  "moves (pv_orchard pv) v call \<Longrightarrow> outcome (on_ironwood wrap call b) = (success, b')
     \<Longrightarrow> ledger_of pv b' = credit v success (ledger_of pv b)"
  "moves (pv_sapling pv) v scall \<Longrightarrow> outcome (on_sapling scall b :: ('fe build_error + unit) \<times> _) = (success, b')
     \<Longrightarrow> ledger_of pv b' = credit v success (ledger_of pv b)"
  "moves (pv_transparent pv) v tcall \<Longrightarrow> outcome (on_transparent tcall b) = (success, b')
     \<Longrightarrow> ledger_of pv b' = credit v success (ledger_of pv b)"
proof -
  show "ledger_of pv b' = credit v success (ledger_of pv b)"
    if "moves (pv_orchard pv) v call" "outcome (on_orchard wrap call b) = (success, b')"
    using that(2) on_pool_moves [OF that(1), of "b_orchard_builder b" OrchardBuilderNotAvailable wrap]
    by (auto simp: on_orchard_def ledger_of_def outcome_def credit_def split: prod.splits sum.splits)
  show "ledger_of pv b' = credit v success (ledger_of pv b)"
    if "moves (pv_orchard pv) v call" "outcome (on_ironwood wrap call b) = (success, b')"
    using that(2) on_pool_moves [OF that(1), of "b_ironwood_builder b" IronwoodBuilderNotAvailable wrap]
    by (auto simp: on_ironwood_def ledger_of_def outcome_def credit_def split: prod.splits sum.splits)
  show "ledger_of pv b' = credit v success (ledger_of pv b)"
    if "moves (pv_sapling pv) v scall" "outcome (on_sapling scall b :: ('fe build_error + unit) \<times> _) = (success, b')"
    using that(2) on_pool_moves [OF that(1), of "b_sapling_builder b" "SaplingBuilderNotAvailable :: 'fe build_error" SaplingBuild]
    by (auto simp: on_sapling_def ledger_of_def outcome_def credit_def split: prod.splits sum.splits)
  show "ledger_of pv b' = credit v success (ledger_of pv b)"
    if "moves (pv_transparent pv) v tcall" "outcome (on_transparent tcall b) = (success, b')"
    using that(2) moved [OF that(1), of "b_transparent_builder b"]
    by (auto simp: on_transparent_def ledger_of_def outcome_def credit_def split: prod.splits sum.splits)
qed

lemma ledger_laws:
  assumes "ledger_libs_ok pv tlib sl ol"
  shows "moves (pv_orchard pv) (pv_orchard_note pv n) (ol_add_spend ol k n path)"
    and "moves (pv_orchard pv) (- zat_val v) (ol_add_output ol k' a (Zatoshis_into_u64 v) memo)"
    and "moves (pv_orchard pv) (- zat_val v) (ol_add_change_output ol k k' a (Zatoshis_into_u64 v) memo)"
    and "moves (pv_sapling pv) (pv_sapling_note pv n) (sl_add_spend sl k n path)"
    and "moves (pv_sapling pv) (- zat_val v) (sl_add_output sl k' a (Zatoshis_into_u64 v) memo)"
    and "moves (pv_transparent pv) (pv_coin pv coin) (tl_add_p2pkh_input tlib pubkey u coin)"
    and "moves (pv_transparent pv) (pv_coin pv coin) (tl_add_p2sh_input tlib redeem u coin)"
    and "moves (pv_transparent pv) (- zat_val v) (tl_add_output tlib addr v)"
    and "moves (pv_transparent pv) 0 (tl_add_null_data_output tlib data)"
  using assms by (simp_all add: ledger_libs_ok_def Zatoshis_into_u64_def)

lemma ledger_step:
  assumes ok: "ledger_libs_ok pv tlib sl ol" and run: "exec_call tlib sl ol c b = (success, b')"
  shows "ledger_of pv b' = enter pv (success, c) (ledger_of pv b)"
proof (cases c)
  case (CallIronwoodSpend fvk n path)
  show ?thesis
  proof (cases "b_ironwood_builder b \<noteq> None \<and> ol_note_version ol n \<noteq> ol_note_v3 ol")
    case True
    then show ?thesis using run by (auto simp: CallIronwoodSpend add_ironwood_spend_def outcome_def enter_def)
  next
    case False
    then show ?thesis
      using run pool_calls(2) [OF ledger_laws(1) [OF ok]]
      by (auto simp: CallIronwoodSpend add_ironwood_spend_def enter_credit)
  qed
next
  case (CallNullDataOutput data)
  have "outcome (on_transparent (tl_add_null_data_output tlib data) b) = (success, b')"
    using run by (auto simp: CallNullDataOutput add_transparent_null_data_output_def outcome_def map_err_def
        split: prod.splits sum.splits)
  from pool_calls(4) [OF ledger_laws(9) [OF ok] this] show ?thesis by (simp add: CallNullDataOutput enter_credit)
next
  case (CallTransparentInput input)
  have "\<forall>input t. pv_transparent pv (tl_add_input tlib input t) = pv_transparent pv t + pv_input pv input"
    using ok by (simp add: ledger_libs_ok_def)
  then show ?thesis
    using run by (auto simp: CallTransparentInput add_transparent_input_def ledger_of_def enter_def)
next
  case (CallStaking a)
  then show ?thesis
    using run by (auto simp: put_staking_action_def outcome_def enter_def ledger_of_def split: if_splits)
next
  case (CallPropose v)
  then show ?thesis
    using run by (auto simp: propose_version_def outcome_def enter_def ledger_of_def split: sum.splits)
next
  case (CallExpiry h)
  then show ?thesis using run by (auto simp: with_expiry_height_def enter_def ledger_of_def)
next
  case (CallOrchardSpend fvk n path)
  then show ?thesis using run pool_calls(1) [OF ledger_laws(1) [OF ok]] by (simp add: adding_defs enter_credit)
next
  case (CallOrchardOutput ovk recipient v memo)
  then show ?thesis using run pool_calls(1) [OF ledger_laws(2) [OF ok]] by (simp add: adding_defs enter_credit)
next
  case (CallOrchardChange fvk ovk recipient v memo)
  then show ?thesis using run pool_calls(1) [OF ledger_laws(3) [OF ok]] by (simp add: adding_defs enter_credit)
next
  case (CallIronwoodOutput ovk recipient v memo)
  then show ?thesis using run pool_calls(2) [OF ledger_laws(2) [OF ok]] by (simp add: adding_defs enter_credit)
next
  case (CallSaplingSpend fvk n path)
  then show ?thesis using run pool_calls(3) [OF ledger_laws(4) [OF ok]] by (simp add: adding_defs enter_credit)
next
  case (CallSaplingOutput ovk recipient v memo)
  then show ?thesis using run pool_calls(3) [OF ledger_laws(5) [OF ok]] by (simp add: adding_defs enter_credit)
next
  case (CallP2pkhInput pubkey u coin)
  then show ?thesis using run pool_calls(4) [OF ledger_laws(6) [OF ok]] by (simp add: adding_defs enter_credit)
next
  case (CallP2shInput redeem u coin)
  then show ?thesis using run pool_calls(4) [OF ledger_laws(7) [OF ok]] by (simp add: adding_defs enter_credit)
next
  case (CallTransparentOutput recipient v)
  then show ?thesis using run pool_calls(4) [OF ledger_laws(8) [OF ok]] by (simp add: adding_defs enter_credit)
qed


subsection \<open>Runs\<close>

lemma exec_reachable:
  assumes "builder_reachable tlib sl ol params height cfg b" "exec_call tlib sl ol c b = (success, b')"
  shows "builder_reachable tlib sl ol params height cfg b'"
proof -
  have "b' = b \<or> builder_step tlib sl ol b b'"
    using assms(2)
    by (cases c) (auto simp: outcome_def adding_defs add_ironwood_spend_def add_transparent_null_data_output_def split_beta
        intro: builder_step.intros prod.collapse [symmetric] split: if_splits)
  then show ?thesis using assms(1) by (auto intro: reach_step)
qed

lemma run_calls_ledger:
  assumes "ledger_libs_ok pv tlib sl ol" "run_calls tlib sl ol calls b = (log, b')"
    and "builder_reachable tlib sl ol params height cfg b"
  shows "ledger_of pv b' = fold (enter pv) log (ledger_of pv b) \<and> map snd log = calls
    \<and> builder_reachable tlib sl ol params height cfg b'"
  using assms(2,3)
proof (induction calls arbitrary: b log)
  case (Cons c calls)
  obtain success b1 where c: "exec_call tlib sl ol c b = (success, b1)" by fastforce
  then obtain log1 where r: "run_calls tlib sl ol calls b1 = (log1, b')" and log: "log = (success, c) # log1"
    using Cons.prems(1) by (auto split: prod.splits)
  show ?case
    using Cons.IH [OF r exec_reachable [OF Cons.prems(2) c]] ledger_step [OF assms(1) c] by (simp add: log)
qed simp

lemma ledger_staking:
  assumes "pred_option wf_action (lg_staking l)" "\<forall>a. CallStaking a \<in> snd ` set log \<longrightarrow> wf_action a"
  shows "pred_option wf_action (lg_staking (fold (enter pv) log l))"
  using assms
proof (induction log arbitrary: l)
  case (Cons entry log)
  have "pred_option wf_action (lg_staking (enter pv entry l))"
    using Cons.prems by (cases entry) (auto simp: enter_def split: builder_call.splits)
  then show ?case using Cons by simp
qed simp

lemma ledger_new:
  assumes "ledger_libs_ok pv tlib sl ol" "Builder_new tlib sl ol params height cfg = Some b"
  shows "ledger_of pv b = empty_ledger"
proof -
  have laws: "pv_transparent pv (tl_empty tlib) = 0" "\<And>z bt a. pv_sapling pv (sl_new sl z bt a) = 0"
    "\<And>bt v fl a s. ol_new ol bt v fl a = Inr s \<Longrightarrow> pv_orchard pv s = 0"
    using assms(1) by (simp_all add: ledger_libs_ok_def)
  have new: "pool_value (pv_orchard pv) p = 0" if "map_option Some (res_ok (ol_new ol bt v fl a)) = Some p" for bt v fl a p
    using that laws(3) [of bt v fl a] by (auto simp: pool_value_def res_ok_def split: sum.splits)
  have none: "pool_value (pv_orchard pv) None = 0" by (simp add: pool_value_def)
  have cfg: "pool_value (pv_orchard pv) p = 0" if "new_transactional ol padding v anchor = Some p" for padding v anchor p
    using that new none by (auto simp: new_transactional_def split: option.splits)
  have o': "pool_value (pv_orchard pv) p = 0" if "config_orchard_builder ol cfg v = Some p" for v p
    using that new none cfg by (auto simp: config_orchard_builder_def split: build_config.splits if_splits)
  have i: "pool_value (pv_orchard pv) p = 0" if "config_ironwood_builder ol cfg = Some p" for p
    using that new none cfg by (auto simp: config_ironwood_builder_def split: build_config.splits)
  from assms(2) show ?thesis
    unfolding Builder_new_def Let_def bind_eq_Some_conv
    by (auto simp: ledger_of_def empty_ledger_def laws(1,2) pool_value_def [where f = "pv_sapling pv"]
        o' i none split: option.splits if_splits prod.splits)
qed

subsection \<open>The balance\<close>

lemma pool_balance_value:
  assumes "ledger_libs_ok pv tlib sl ol" "pool_balance ol p = Inr v"
  shows "wf_balance v \<and> zb_val v = pool_value (pv_orchard pv) p"
proof -
  have "\<forall>s v. ol_value_balance ol s = Inr v \<longrightarrow> wf_balance v \<and> zb_val v = pv_orchard pv s"
    using assms(1) by (simp add: ledger_libs_ok_def)
  then show ?thesis
    using assms(2) zb.zero_ok zb.zero_val by (cases p) (auto simp: pool_balance_def pool_value_def map_err_Inr)
qed

lemma staking_balance:
  assumes "pred_option wf_action p"
  defines "v \<equiv> case p of None \<Rightarrow> ZatBalance_zero | Some a \<Rightarrow> value_balance_contribution a"
  shows "wf_balance v \<and> zb_val v = (case p of None \<Rightarrow> 0 | Some a \<Rightarrow> staking_value a)"
proof (cases p)
  case None
  then show ?thesis using zb.zero_ok zb.zero_val by (simp add: v_def)
next
  case (Some a)
  then have "wf_action a" using assms(1) by simp
  from staking_value_contribution [OF this] show ?thesis
    by (cases a) (simp_all add: Some v_def del: value_balance_contribution.simps)
qed

lemma ledger_balance:
  assumes ok: "ledger_libs_ok pv tlib sl ol" and wf: "pred_option wf_action (b_staking_action b)"
    and z: "Builder_value_balance tlib sl ol b = Inr z"
  shows "wf_balance z \<and> zb_val z = ledger_total (ledger_of pv b)"
proof -
  let ?s = "case b_sapling_builder b of None \<Rightarrow> ZatBalance_zero | Some s \<Rightarrow> sl_value_balance sl s"
  let ?k = "case b_staking_action b of None \<Rightarrow> ZatBalance_zero | Some a \<Rightarrow> value_balance_contribution a"
  obtain t o' i where
    t: "tl_value_balance tlib (b_transparent_builder b) = Inr t"
    and o': "pool_balance ol (b_orchard_builder b) = Inr o'" and i: "pool_balance ol (b_ironwood_builder b) = Inr i"
    and sum: "zb_sum [t, ?s, o', i, ?k] = Some z"
    using z by (auto simp: Builder_value_balance_def ok_or_def split: option.splits)
  have tv: "wf_balance t \<and> zb_val t = pv_transparent pv (b_transparent_builder b)"
    using ok t by (simp add: ledger_libs_ok_def)
  have "\<forall>s. wf_balance (sl_value_balance sl s) \<and> zb_val (sl_value_balance sl s) = pv_sapling pv s"
    using ok by (simp add: ledger_libs_ok_def)
  then have sv: "wf_balance ?s \<and> zb_val ?s = pool_value (pv_sapling pv) (b_sapling_builder b)"
    using zb.zero_ok zb.zero_val by (cases "b_sapling_builder b") (simp_all add: pool_value_def)
  note parts = tv sv pool_balance_value [OF ok o'] pool_balance_value [OF ok i] staking_balance [OF wf]
  have "list_all wf_balance [t, ?s, o', i, ?k]" using parts by simp
  from zb.total [OF this sum [unfolded zb_sum_def]] show ?thesis
    using parts by (simp add: ledger_of_def ledger_total_def)
qed

subsection \<open>The builder refines the ledger\<close>

text \<open>C4: The builder implements a ledger. For any sequence of calls on a new builder, failing ones
  included, the builder stands for the ledger into which exactly the calls that succeeded are entered:
  the value of every spend, input and withdrawal less the value of every output and new bond, with at
  most one staking action, the last. The balance that the builder reports is the total of that ledger,
  and a transaction other than a coinbase is only built when the ledger is left with exactly the fee
  that the rule requires.\<close>

theorem builder_refines_ledger:
  assumes ok: "ledger_libs_ok pv tlib sl ol" and new: "Builder_new tlib sl ol params height cfg = Some b0"
    and run: "run_calls tlib sl ol calls b0 = (log, b)"
    and wf: "\<forall>a. CallStaking a \<in> set calls \<longrightarrow> wf_action a"
  defines "l \<equiv> fold (enter pv) log empty_ledger"
  shows "map snd log = calls \<and> ledger_of pv b = l
    \<and> (\<forall>z. Builder_value_balance tlib sl ol b = Inr z \<longrightarrow> zb_val z = ledger_total l)
    \<and> (\<forall>fee r. \<not> config_is_coinbase cfg \<and> Builder_get_fee tlib sl ol fee_required b = Some (Inr fee) \<and> wf_zats fee
          \<and> Builder_build te sh gl tlib sl ol cache signing_set extsks saks rng sp op fee_required b
              = (Some (Inr r) :: ('fe build_error + _) option) \<longrightarrow> ledger_total l = zat_val fee)"
proof -
  note sim = run_calls_ledger [OF ok run reach_new [OF new]]
  have l: "ledger_of pv b = l" using sim ledger_new [OF ok new] by (simp add: l_def)
  have "set calls = snd ` set log" using sim by (metis list.set_map)
  then have "pred_option wf_action (lg_staking l)"
    unfolding l_def by (intro ledger_staking) (use wf in \<open>simp_all add: empty_ledger_def\<close>)
  then have "pred_option wf_action (b_staking_action b)" unfolding l [symmetric] by (simp add: ledger_of_def)
  note balance = ledger_balance [OF ok this, unfolded l]
  have "b_build_config b = cfg" using reachable_inv [OF conjunct2 [OF conjunct2 [OF sim]]] by (simp add: builder_inv_def)
  moreover have "ledger_total l = zat_val fee"
    if std: "\<not> config_is_coinbase (b_build_config b)" and fee: "Builder_get_fee tlib sl ol fee_required b = Some (Inr fee)"
      and wfee: "wf_zats fee" 
      and built: "Builder_build te sh gl tlib sl ol cache signing_set extsks saks rng sp op fee_required b
        = (Some (Inr r) :: ('fe build_error + _) option)" for fee r
  proof -
    have "build_internal te sh gl tlib sl ol cache (\<lambda>t. Inr (tl_build tlib t))
        (authorize_transparent te sh gl signing_set) extsks saks rng sp op (Some fee) b = (Some (Inr r) :: ('fe build_error + _) option)"
      using built by (simp add: build_standard [OF std] fee map_err_def)
    then have chk: "check_balance (Builder_value_balance tlib sl ol b) fee = (Inr () :: 'fe build_error + unit)"
      by (rule build_internalE) simp
    then obtain v where v: "Builder_value_balance tlib sl ol b = Inr v"
      by (cases "Builder_value_balance tlib sl ol b") (simp_all add: check_balance_def map_err_def)
    show ?thesis
      using balance [OF v] check_balance_Inr [OF _ wfee chk [unfolded v]] by simp
  qed
  ultimately show ?thesis using sim l balance by blast
qed

definition example_values :: "(unit, bool, orchard_bundle_type, bytes) pool_values" where
  "example_values = \<lparr>pv_transparent = (\<lambda>_. 0), pv_sapling = (\<lambda>spent. if spent then 10000 else 0), pv_orchard = (\<lambda>_. 0),
     pv_sapling_note = (\<lambda>_. 10000), pv_orchard_note = (\<lambda>_. 0), pv_coin = (\<lambda>_. 0), pv_input = (\<lambda>_. 0)\<rparr>"

lemma example_ledger_ok: "ledger_libs_ok example_values example_tlib example_sl example_ol"
  by (simp add: ledger_libs_ok_def example_values_def example_libs moves_def example_amounts)

lemma example_run:
  "run_calls example_tlib example_sl example_ol [CallSaplingSpend [] [] [], CallSaplingSpend [] [] []] (example_builder False)
     = ([(True, CallSaplingSpend [] [] []), (False, CallSaplingSpend [] [] [])], spending_builder)"
  by (simp add: add_sapling_spend_def on_sapling_def on_pool_def example_builder_def example_sl_def map_err_def outcome_def)

lemma builder_refines_ledger_witness:
  "ledger_total (fold (enter example_values)
       [(True, CallSaplingSpend [] [] [] :: (unit, bytes) builder_call), (False, CallSaplingSpend [] [] [])] empty_ledger)
     = zat_val (Zatoshis 10000)"
proof -
  obtain r where built: "example_build (Zatoshis 10000) spending_builder = Some (Inr r)" using example_built by blast
  have wfee: "wf_zats (Zatoshis 10000)" by (simp add: wf_zats_iff)
  have std: "\<not> config_is_coinbase (example_config False)" by (simp add: config_is_coinbase_def)
  have wf: "\<forall>a. CallStaking a \<in> set [CallSaplingSpend [] [] [], CallSaplingSpend [] [] []] \<longrightarrow> wf_action a" by simp
  have "\<not> config_is_coinbase (example_config False)
      \<and> Builder_get_fee example_tlib example_sl example_ol (\<lambda>_ _ _ _ _ _ _ _. Some (Inr (Zatoshis 10000) :: unit + zatoshis))
          spending_builder = Some (Inr (Zatoshis 10000))
      \<and> wf_zats (Zatoshis 10000) \<and> example_build (Zatoshis 10000) spending_builder = Some (Inr r)"
    by (intro conjI std example_fee wfee built)
  from builder_refines_ledger [OF example_ledger_ok example_new example_run wf, THEN conjunct2, THEN conjunct2,
      THEN conjunct2, THEN spec, THEN spec, THEN mp, OF this]
  show ?thesis .
qed

end
