(* ===== verification/Spec2Isabelle.thy ===== *)
theory Spec2Isabelle
  imports Zip318 Fees BlockSpec MerkleTree Messages TxMaps TxDigest AuthSpec TxTyping LedgerSpec
begin

text \<open>
  A verification library for the protocol code of a Zcash node with Crosslink finality: the crates
  \<open>components/zcash_protocol\<close>, \<open>crates/bft_primitives\<close> and \<open>zcash_primitives\<close>.

  \<^bold>\<open>The program.\<close> \<open>zcash_protocol\<close> holds what the other crates share: amounts, heights, network
  upgrades and branch identifiers, memos, and the classification of ZIP 318 migration transactions.
  \<open>bft_primitives\<close> holds the data of the finality layer: keys, votes, fat pointers (signature sets),
  rosters with hard forks, and blocks of proof-of-work headers, with their codecs and stateless
  checks. \<open>zcash_primitives\<close> reads, writes, hashes, signs and builds transactions and blocks. The
  parts interact by calls: a block reader calls the transaction reader, which calls the readers of the
  pool bundles and of staking actions; signature hashes and identifiers share the digest tree; the
  builder computes a fee and a balance, builds the bundles, hashes, signs and freezes the result.

  \<^bold>\<open>Build configuration.\<close> The code is modelled as it compiles with \<open>zcash_unstable = "crosslink"\<close> and
  the features \<open>std\<close> and \<open>circuits\<close>, without \<open>nu7\<close> and \<open>zip-233\<close>: so there is no branch \<open>Nu7\<close> and
  no field \<open>zip233_amount\<close>.

  \<^bold>\<open>Conventions.\<close> A Rust integer is a word of its width (\<open>usize\<close> has 64 bits), and an operation that can
  overflow says what it does. \<open>Result<T, E>\<close> is \<open>E + T\<close>, \<open>Option\<close> is \<open>option\<close>; where a function can
  panic, its value is an \<open>option\<close> and a panic is \<open>None\<close>. A function over \<open>R: Read\<close> is a function on
  the bytes that remain, one over \<open>W: Write\<close> gives the bytes it writes. An operation on \<open>&mut self\<close>
  gives the new state with its result. A loop is a structural recursion, or a \<open>function\<close> with a measure;
  a loop that may run forever is a \<open>partial_function\<close> on options, where not returning is \<open>None\<close>.
  There is no fuel. Definitions carry the names of the source, with the type in front where two
  functions share a name.

  \<^bold>\<open>Code outside the repository\<close> is a parameter, in a record per crate with a predicate for the laws it
  is relied on to obey: elements and constructors of the \<open>sapling\<close> and \<open>orchard\<close> crates, transparent
  inputs and outputs and scripts, compact sizes and vectors, BLAKE2b, SHA-256, BLAKE3, Ed25519,
  Equihash, Merkle trees, and the pool builders, provers and signers of the transaction builder.
  Each law has an instance by a concrete function, which the witnesses use. Collision resistance
  is never assumed: the statements exhibit the collision.

  \<^bold>\<open>The theories\<close>, in the order of the code:
  \<^item> \<open>Prelude\<close>: integers, results, readers, loops with early exit. \<open>ByteIO\<close> (\<open>encoding.rs\<close> of both crates):
    integers in little endian, and the locales \<open>codec\<close>, \<open>exact_codec\<close>, \<open>fixed_codec\<close> and
    \<open>fallible_codec\<close> for the contract between a reader and its writer, which every format of the
    library interprets. \<open>CompactSize\<close>, \<open>ExtCodec\<close>: the shapes of external codecs.
  \<^item> \<open>Value\<close> (\<open>value.rs\<close>): amounts, with the locale \<open>bounded_amount\<close> for the two types. \<open>Consensus\<close>
    (\<open>consensus.rs\<close>, \<open>constants\<close>, \<open>local_consensus.rs\<close>): heights, upgrades, branches, with the locales
    \<open>ordered_activations\<close> and \<open>activated_network\<close>, interpreted on the main and test networks.
    \<open>Memo\<close> (\<open>memo.rs\<close>). \<open>Zip318\<close> (\<open>zip318.rs\<close>): canonical denominations, expiry windows, the
    classification.
  \<^item> \<open>BftKeys\<close>, \<open>BftVote\<close>, \<open>FatPointer\<close>, \<open>HardFork\<close>, \<open>BftBlock\<close>: one theory for each group of files of
    \<open>bft_primitives\<close>; \<open>BftText\<close>: the text forms of their keys, hashes and roster members.
  \<^item> \<open>TxVersion\<close>, \<open>TxData\<close>, \<open>Transaction\<close> (\<open>transaction/mod.rs\<close>): versions, the record of the data with
    the fee paid, the formats; \<open>TxMaps\<close>: the mappings that rebuild a record. \<open>Staking\<close>, \<open>Sprout\<close>, \<open>Sapling\<close>, \<open>Orchard\<close>
    (\<open>transaction/components\<close>) and \<open>TxTransparent\<close>: the bundles. \<open>TxId\<close> (\<open>txid.rs\<close>) and \<open>Sighash\<close> (\<open>sighash.rs\<close>, \<open>sighash_v4.rs\<close>,
    \<open>sighash_v5.rs\<close>, \<open>sighash_v6.rs\<close>): the digests; \<open>HashStream\<close>: the same digests as the
    writes into hash states that the code performs, with the locale \<open>sink\<close> for the writers; \<open>TxDigest\<close>: the
    trait \<open>TransactionDigest\<close> and its implementations. \<open>Fees\<close> (\<open>fees.rs\<close>, \<open>fees\<close>): the fee rules.
  \<^item> \<open>Block\<close> (\<open>block.rs\<close>) and \<open>MerkleTree\<close> (\<open>merkle_tree.rs\<close>).
  \<^item> \<open>Builder\<close>, \<open>BuilderBuild\<close> (\<open>transaction/builder.rs\<close>): the state of the builder and the operations that
    add to it; building, partially created transactions, and the builder with deferred anchors. \<open>Messages\<close>: the texts
    of values and errors of all crates.
  \<^item> A theory named \<open>...Spec\<close> holds what is proved of the theory it is named after; \<open>BuildSpec\<close>, \<open>BuildTotal\<close> and
    \<open>BuildFormat\<close> hold what is proved of building: fees and signatures, when it returns, and how the
    result survives its format. \<open>LedgerSpec\<close> is the abstract specification of the builder, \<open>AuthSpec\<close> what
    the authorizing commitment covers, \<open>TxTyping\<close> the type of transaction data.

  \<^bold>\<open>What the lemmas show.\<close>
  \<^item> Formats: each reader accepts exactly the image of its writer on well-formed values and gives the
    value back, consuming exactly its bytes; the values that do not survive and the bytes that are
    accepted beside the canonical ones are characterised. Readers of whole blocks do not panic unless
    an external commitment does.
  \<^item> Digests: identifiers, authorizing commitments and signature hashes determine exactly the effects that
    they are meant to cover, up to an exhibited collision of the hash; from version 5, without
    transparent inputs, the signature hash is the identifier; identifier and authorizing commitment
    together determine the whole transaction. The digests computed by writing into hash states never
    fail and are the functions that these statements are about.
  \<^item> Types: what is read or built holds only the parts that its version carries, with values in range, and
    such data do not fail later: their fee does not panic, and they are frozen and written, but for one
    refusal that is named.
  \<^item> Arithmetic: amounts, fees and balances are the integer values, or the stated error or panic.
  \<^item> Consensus data: the branches partition the heights; versions fit their branches; header chains, fat
    pointers and blocks are accepted exactly under their rules, and the first violation is reported.
  \<^item> Builder: a simulation, call by call, of a ledger that adds up what was put in and taken out, whose
    total is the reported balance and, for a built transaction, the fee; an invariant of all reachable states (by rule induction on a step relation), the versions
    that can be proposed, the order of the errors, that a built transaction pays exactly its fee and is
    signed over its own identifier, that a balanced builder returns unless an external call fails, that
    the proving key cache never changes a result, that a built transaction is written and read back as it
    is, and the panic on an Orchard bundle in version 4.

  \<^bold>\<open>Not modelled.\<close> The messages of external errors and of a memo that is not UTF-8, derived traits, random
  generators (their state is passed along as a value), the progress channel of the builder, the
  \<open>MapAuth\<close> instances, which map nothing, constructors and getters that are those of a record, the
  traversal of records by a serializer, and wrappers for zcashd that only forward; test code, test
  vectors, proptest generators and benchmarks.
\<close>

end
